(* ===== verification/Catalog_Prelude.thy ===== *)
theory Catalog_Prelude
  imports Main "HOL-Library.Word" "HOL-Library.Sublist"
begin

text \<open>
  Shared vocabulary of the development.

  \<^item> The functions of Go's package \<^verbatim>\<open>strings\<close> that the service calls. A Go string is
    a list of \<^typ>\<open>char\<close>; the functions that look at letters or white space
    (\<open>ToLower\<close>, \<open>TrimSpace\<close>) are exact on the ASCII repertoire and leave
    every other byte as it is.
  \<^item> The state-and-error monad in which the handlers are written: a computation takes
    the state of a transaction and returns either an error or a value, together with the
    state it leaves, because an error of the service does not undo what was written outside
    the database.
  \<^item> The two reasoning tools for it: \<open>keeps\<close> (an invariant of the state, whatever the
    outcome) and \<open>outcome\<close> (a postcondition for success and one for failure).
\<close>

named_theorems keeps_intro \<open>computations that keep an invariant of the transaction state\<close>
named_theorems go_strings \<open>equations about the string functions\<close>

section \<open>The package strings\<close>

definition go_space :: "char \<Rightarrow> bool" where
  "go_space c \<longleftrightarrow> c \<in> {CHR 0x09, CHR 0x0A, CHR 0x0B, CHR 0x0C, CHR 0x0D, CHR 0x20}"

definition trimBoth :: "(char \<Rightarrow> bool) \<Rightarrow> string \<Rightarrow> string" where
  "trimBoth p s = rev (dropWhile p (rev (dropWhile p s)))"

definition TrimSpace :: "string \<Rightarrow> string" where
  "TrimSpace s = trimBoth go_space s"

definition TrimBlanks :: "string \<Rightarrow> string" where
  "TrimBlanks s = trimBoth (\<lambda>c. c = CHR '' '') s"

definition lowerChar :: "char \<Rightarrow> char" where
  "lowerChar c =
     (if 65 \<le> (of_char c :: nat) \<and> (of_char c :: nat) \<le> 90
      then char_of ((of_char c :: nat) + 32) else c)"

definition ToLower :: "string \<Rightarrow> string" where
  "ToLower s = map lowerChar s"

text \<open>\<^verbatim>\<open>strings.Split(s, sep)\<close> for a one-byte separator: always at least one piece.\<close>

fun Split :: "char \<Rightarrow> string \<Rightarrow> string list" where
  "Split d [] = [[]]"
| "Split d (c # cs) =
     (if c = d then [] # Split d cs
      else (case Split d cs of [] \<Rightarrow> [[c]] | w # ws \<Rightarrow> (c # w) # ws))"

definition ReplaceChar :: "char \<Rightarrow> char \<Rightarrow> string \<Rightarrow> string" where
  "ReplaceChar a b s = map (\<lambda>c. if c = a then b else c) s"

fun intercalate :: "string \<Rightarrow> string list \<Rightarrow> string" where
  "intercalate d [] = []"
| "intercalate d [w] = w"
| "intercalate d (w # ws) = w @ d @ intercalate d ws"

lemma Split_nonempty [simp]: "Split d s \<noteq> []"
  by (induction s) (auto split: list.splits)

lemma Split_no_sep [go_strings]: "d \<notin> set s \<Longrightarrow> Split d s = [s]"
  by (induction s) auto

lemma Split_append_sep [go_strings]:
  "d \<notin> set w \<Longrightarrow> Split d (w @ d # s) = w # Split d s"
  by (induction w) auto

lemma Split_pieces_no_sep: "w \<in> set (Split d s) \<Longrightarrow> d \<notin> set w"
proof (induction s arbitrary: w)
  case Nil
  then show ?case by simp
next
  case (Cons c cs)
  show ?case
  proof (cases "c = d")
    case True
    with Cons show ?thesis by auto
  next
    case False
    obtain v vs where v: "Split d cs = v # vs"
      by (meson Split_nonempty neq_Nil_conv)
    with False Cons show ?thesis by auto
  qed
qed

lemma intercalate_Cons: "ws \<noteq> [] \<Longrightarrow> intercalate d (w # ws) = w @ d @ intercalate d ws"
  by (cases ws) auto

text \<open>Splitting undoes joining: the law the parsers of the query parameters rest on.\<close>

lemma Split_intercalate [go_strings]:
  assumes "ws \<noteq> []" and "\<And>w. w \<in> set ws \<Longrightarrow> d \<notin> set w"
  shows "Split d (intercalate [d] ws) = ws"
  using assms
proof (induction ws)
  case Nil
  then show ?case by simp
next
  case (Cons w ws)
  show ?case
  proof (cases "ws = []")
    case True
    with Cons.prems show ?thesis by (simp add: Split_no_sep)
  next
    case False
    with Cons show ?thesis by (simp add: intercalate_Cons Split_append_sep)
  qed
qed

lemma intercalate_Split [go_strings]: "intercalate [d] (Split d s) = s"
proof (induction s)
  case Nil
  then show ?case by simp
next
  case (Cons c cs)
  obtain v vs where v: "Split d cs = v # vs"
    by (meson Split_nonempty neq_Nil_conv)
  with Cons show ?case by (cases vs) auto
qed

lemma ToLower_Nil [simp]: "ToLower [] = []"
  by (simp add: ToLower_def)

lemma lowerChar_idem [simp]: "lowerChar (lowerChar c) = lowerChar c"
  by (auto simp: lowerChar_def)

lemma ToLower_idem [simp]: "ToLower (ToLower s) = ToLower s"
  by (simp add: ToLower_def comp_def)

lemma length_ToLower [simp]: "length (ToLower s) = length s"
  by (simp add: ToLower_def)

lemma trimBoth_id:
  assumes "s = [] \<or> (\<not> p (hd s) \<and> \<not> p (last s))"
  shows "trimBoth p s = s"
proof (cases "s = []")
  case True
  then show ?thesis by (simp add: trimBoth_def)
next
  case False
  with assms have h: "dropWhile p s = s" and l: "dropWhile p (rev s) = rev s"
    by (auto simp: dropWhile_eq_self_iff hd_rev)
  then show ?thesis by (simp add: trimBoth_def)
qed

section \<open>The state-and-error monad\<close>

type_synonym ('s, 'e, 'a) m = "'s \<Rightarrow> ('e + 'a) \<times> 's"

definition ret :: "'a \<Rightarrow> ('s, 'e, 'a) m" where
  "ret x s = (Inr x, s)"

definition throw :: "'e \<Rightarrow> ('s, 'e, 'a) m" where
  "throw e s = (Inl e, s)"

definition bnd :: "('s, 'e, 'a) m \<Rightarrow> ('a \<Rightarrow> ('s, 'e, 'b) m) \<Rightarrow> ('s, 'e, 'b) m" where
  "bnd x f s = (case x s of (Inl e, t) \<Rightarrow> (Inl e, t) | (Inr v, t) \<Rightarrow> f v t)"

definition gets :: "('s \<Rightarrow> 'a) \<Rightarrow> ('s, 'e, 'a) m" where
  "gets f s = (Inr (f s), s)"

definition modify :: "('s \<Rightarrow> 's) \<Rightarrow> ('s, 'e, unit) m" where
  "modify f s = (Inr (), f s)"

definition liftE :: "'e + 'a \<Rightarrow> ('s, 'e, 'a) m" where
  "liftE r s = (r, s)"

fun forM :: "'x list \<Rightarrow> ('x \<Rightarrow> ('s, 'e, unit) m) \<Rightarrow> ('s, 'e, unit) m" where
  "forM [] f = ret ()"
| "forM (x # xs) f = bnd (f x) (\<lambda>_. forM xs f)"

fun mapM :: "('x \<Rightarrow> ('s, 'e, 'y) m) \<Rightarrow> 'x list \<Rightarrow> ('s, 'e, 'y list) m" where
  "mapM f [] = ret []"
| "mapM f (x # xs) = bnd (f x) (\<lambda>y. bnd (mapM f xs) (\<lambda>ys. ret (y # ys)))"

lemmas m_defs = ret_def throw_def bnd_def gets_def modify_def liftE_def

lemma bnd_ret [simp]: "bnd (ret x) f = f x"
  by (rule ext) (simp add: m_defs)

lemma bnd_throw [simp]: "bnd (throw e) f = throw e"
  by (rule ext) (simp add: m_defs)

lemma bnd_assoc: "bnd (bnd x f) g = bnd x (\<lambda>v. bnd (f v) g)"
  by (rule ext) (simp add: bnd_def split: prod.splits sum.splits)

subsection \<open>Invariants of the state\<close>

definition keeps :: "('s \<Rightarrow> bool) \<Rightarrow> ('s, 'e, 'a) m \<Rightarrow> bool" where
  "keeps I x \<longleftrightarrow> (\<forall>s. I s \<longrightarrow> I (snd (x s)))"

lemma keepsI: "(\<And>s. I s \<Longrightarrow> I (snd (x s))) \<Longrightarrow> keeps I x"
  by (simp add: keeps_def)

lemma keepsD: "keeps I x \<Longrightarrow> I s \<Longrightarrow> I (snd (x s))"
  by (simp add: keeps_def)

lemma keeps_ret [keeps_intro]: "keeps I (ret x)"
  by (simp add: keeps_def ret_def)

lemma keeps_throw [keeps_intro]: "keeps I (throw e)"
  by (simp add: keeps_def throw_def)

lemma keeps_liftE [keeps_intro]: "keeps I (liftE r)"
  by (simp add: keeps_def liftE_def)

lemma keeps_gets [keeps_intro]: "keeps I (gets f)"
  by (simp add: keeps_def gets_def)

lemma keeps_bnd [keeps_intro]:
  assumes "keeps I x" and "\<And>v. keeps I (f v)"
  shows "keeps I (bnd x f)"
proof (rule keepsI)
  fix s assume "I s"
  with assms(1) have "I (snd (x s))" by (rule keepsD)
  with assms(2) show "I (snd (bnd x f s))"
    by (auto simp: bnd_def keeps_def split: prod.splits sum.splits)
qed

lemma keeps_if [keeps_intro]:
  "(b \<Longrightarrow> keeps I x) \<Longrightarrow> (\<not> b \<Longrightarrow> keeps I y) \<Longrightarrow> keeps I (if b then x else y)"
  by simp

lemma keeps_case_sum [keeps_intro]:
  assumes "\<And>e. keeps I (f e)" and "\<And>v. keeps I (g v)"
  shows "keeps I (case r of Inl e \<Rightarrow> f e | Inr v \<Rightarrow> g v)"
  using assms by (cases r) auto

lemma keeps_case_option [keeps_intro]:
  assumes "keeps I x" and "\<And>v. keeps I (g v)"
  shows "keeps I (case r of None \<Rightarrow> x | Some v \<Rightarrow> g v)"
  using assms by (cases r) auto

lemma keeps_case_prod [keeps_intro]:
  assumes "\<And>a b. keeps I (f a b)"
  shows "keeps I (case p of (a, b) \<Rightarrow> f a b)"
  using assms by (cases p) auto

lemma keeps_forM [keeps_intro]: "(\<And>x. keeps I (f x)) \<Longrightarrow> keeps I (forM xs f)"
  by (induction xs) (auto intro!: keeps_intro)

lemma keeps_mapM [keeps_intro]: "(\<And>x. keeps I (f x)) \<Longrightarrow> keeps I (mapM f xs)"
  by (induction xs) (auto intro!: keeps_intro)

subsection \<open>Outcomes\<close>

definition outcome ::
    "('s \<Rightarrow> bool) \<Rightarrow> ('s, 'e, 'a) m \<Rightarrow> ('a \<Rightarrow> 's \<Rightarrow> bool) \<Rightarrow> ('e \<Rightarrow> 's \<Rightarrow> bool) \<Rightarrow> bool" where
  "outcome P x Q E \<longleftrightarrow>
     (\<forall>s. P s \<longrightarrow> (case x s of (Inl e, t) \<Rightarrow> E e t | (Inr v, t) \<Rightarrow> Q v t))"

lemma outcome_bnd:
  assumes "outcome P x Q E" and "\<And>v. outcome (Q v) (f v) R E"
  shows "outcome P (bnd x f) R E"
  using assms unfolding outcome_def bnd_def
  by (fastforce split: prod.splits sum.splits)

lemma outcome_ret: "(\<And>s. P s \<Longrightarrow> Q x s) \<Longrightarrow> outcome P (ret x) Q E"
  by (simp add: outcome_def ret_def)

lemma outcome_throw: "(\<And>s. P s \<Longrightarrow> E e s) \<Longrightarrow> outcome P (throw e) Q E"
  by (simp add: outcome_def throw_def)

lemma outcome_weaken:
  assumes "outcome P x Q E" and "\<And>s. P' s \<Longrightarrow> P s"
    and "\<And>v s. Q v s \<Longrightarrow> Q' v s" and "\<And>e s. E e s \<Longrightarrow> E' e s"
  shows "outcome P' x Q' E'"
  using assms unfolding outcome_def by (fastforce split: prod.splits sum.splits)

lemma outcome_forM:
  assumes "\<And>x. outcome P (f x) (\<lambda>_. P) E"
  shows "outcome P (forM xs f) (\<lambda>_. P) E"
proof (induction xs)
  case Nil
  then show ?case by (simp add: outcome_ret)
next
  case (Cons x xs)
  from assms Cons show ?case by (auto intro: outcome_bnd)
qed

end
