(* ===== verification/Go_Errors.thy ===== *)
theory Go_Errors
  imports Catalog_Prelude
begin

text \<open>
  The coded errors of the service, \<^verbatim>\<open>internal/northbound/errors/errors.go\<close>: the functional
  options, the constructors and the assembly of the gRPC status. A status keeps the format and
  the arguments that \<^verbatim>\<open>status.Errorf\<close> is given; the formatting itself is gRPC's and is not
  interpreted. The lemmas show that the code of an error is the one of its constructor and
  that the format an error is built with has exactly one verb per argument.
\<close>

section \<open>Data\<close>

datatype Code = OK | Canceled | Unknown | InvalidArgument | DeadlineExceeded | NotFound
  | AlreadyExists | PermissionDenied | ResourceExhausted | FailedPrecondition | Aborted
  | OutOfRange | Unimplemented | Internal | Unavailable | DataLoss | Unauthenticated

type_synonym ResourceType = string

abbreviation ApplicationType :: ResourceType where "ApplicationType \<equiv> ''application''"
abbreviation ApplicationReferenceType :: ResourceType where
  "ApplicationReferenceType \<equiv> ''application-reference''"
abbreviation ArtifactType :: ResourceType where "ArtifactType \<equiv> ''artifact''"
abbreviation DeploymentPackageType :: ResourceType where
  "DeploymentPackageType \<equiv> ''deployment-package''"
abbreviation DeploymentProfileType :: ResourceType where
  "DeploymentProfileType \<equiv> ''deployment-profile''"
abbreviation ProfileType :: ResourceType where "ProfileType \<equiv> ''profile''"
abbreviation PublisherType :: ResourceType where "PublisherType \<equiv> ''publisher''"
abbreviation RegistryType :: ResourceType where "RegistryType \<equiv> ''registry''"
abbreviation UploadSession :: ResourceType where "UploadSession \<equiv> ''upload-session''"

record Options =
  o_Code :: Code
  o_ResourceType :: ResourceType
  o_ResourceName :: string
  o_ResourceVersion :: string
  o_Message :: string
  o_Error :: "string option"
  o_Args :: "string list"

text \<open>The zero value of the structure, and a status: what \<^verbatim>\<open>status.Errorf\<close> is called with.\<close>

definition noOptions :: Options where
  "noOptions = \<lparr>o_Code = OK, o_ResourceType = [], o_ResourceName = [], o_ResourceVersion = [],
     o_Message = [], o_Error = None, o_Args = []\<rparr>"

record Status =
  st_code :: Code
  st_format :: string
  st_args :: "string list"

type_synonym Option = "Options \<Rightarrow> Options"
type_synonym 'a result = "Status + 'a"

section \<open>Options\<close>

definition applyOptions :: "Option list \<Rightarrow> Options \<Rightarrow> Options" where
  "applyOptions opts o1 = fold (\<lambda>f. f) opts o1"

definition WithOptions :: "Options \<Rightarrow> Option" where
  "WithOptions options opts = options"

definition WithCode :: "Code \<Rightarrow> Option" where
  "WithCode c opts = opts\<lparr>o_Code := c\<rparr>"

definition WithResourceType :: "ResourceType \<Rightarrow> Option" where
  "WithResourceType t opts = opts\<lparr>o_ResourceType := t\<rparr>"

definition WithResourceName :: "string \<Rightarrow> Option" where
  "WithResourceName n opts = opts\<lparr>o_ResourceName := n\<rparr>"

definition WithResourceVersion :: "string \<Rightarrow> Option" where
  "WithResourceVersion v opts = opts\<lparr>o_ResourceVersion := v\<rparr>"

definition WithMessage :: "string \<Rightarrow> string list \<Rightarrow> Option" where
  "WithMessage msg args opts = opts\<lparr>o_Message := msg, o_Args := args\<rparr>"

definition WithError :: "string \<Rightarrow> Option" where
  "WithError err opts = opts\<lparr>o_Error := Some err\<rparr>"

lemmas option_defs = WithOptions_def WithCode_def WithResourceType_def WithResourceName_def
  WithResourceVersion_def WithMessage_def WithError_def

section \<open>Constructors\<close>

definition newError :: "Options \<Rightarrow> Status" where
  "newError options =
     (let (f1, a1) = (if o_ResourceType options \<noteq> [] then (''%s '', [o_ResourceType options])
                      else ([], []));
          (f2, a2) = (if o_ResourceName options \<noteq> []
                      then (let (f, a) = (if o_ResourceVersion options \<noteq> []
                                          then ('':%s'', [o_ResourceVersion options]) else ([], []))
                            in (''%s'' @ f @ '' '', o_ResourceName options # a))
                      else ([], []));
          (f3, a3) = (if o_Message options \<noteq> [] then (o_Message options, o_Args options)
                      else ([], []))
      in \<lparr>st_code = o_Code options, st_format = f1 @ f2 @ f3, st_args = a1 @ a2 @ a3\<rparr>)"

definition New :: "Option list \<Rightarrow> Status" where
  "New opts = newError (applyOptions opts noOptions)"

definition newCodedError :: "Code \<Rightarrow> string \<Rightarrow> Option list \<Rightarrow> Status" where
  "newCodedError c message opts =
     (let options = (applyOptions opts noOptions)\<lparr>o_Code := c\<rparr>;
          options = (if o_Message options \<noteq> []
                     then options\<lparr>o_Message := message @ '': '' @ o_Message options\<rparr>
                     else options\<lparr>o_Message := message\<rparr>)
      in New [WithOptions options])"

definition NewInvalidArgument :: "Option list \<Rightarrow> Status" where
  "NewInvalidArgument opts = newCodedError InvalidArgument ''invalid'' opts"

definition NewNotFound :: "Option list \<Rightarrow> Status" where
  "NewNotFound opts = newCodedError NotFound ''not found'' opts"

definition NewUnavailable :: "Option list \<Rightarrow> Status" where
  "NewUnavailable opts = newCodedError Unavailable ''unavailable'' opts"

definition NewAlreadyExists :: "Option list \<Rightarrow> Status" where
  "NewAlreadyExists opts = newCodedError AlreadyExists ''already exists'' opts"

definition NewFailedPrecondition :: "Option list \<Rightarrow> Status" where
  "NewFailedPrecondition opts = newCodedError FailedPrecondition ''failed precondition'' opts"

definition NewPermissionDenied :: "Option list \<Rightarrow> Status" where
  "NewPermissionDenied opts = newCodedError PermissionDenied ''access denied'' opts"

definition NewInternal :: "Option list \<Rightarrow> Status" where
  "NewInternal opts = newCodedError Internal ''error'' opts"

definition NewDBError :: "Option list \<Rightarrow> Status" where
  "NewDBError opts = newCodedError Internal ''an internal database error occurred'' opts"

definition NewVaultError :: "Option list \<Rightarrow> Status" where
  "NewVaultError opts = newCodedError Internal ''failed to access secret service'' opts"

lemmas constructor_defs = NewInvalidArgument_def NewNotFound_def NewUnavailable_def
  NewAlreadyExists_def NewFailedPrecondition_def NewPermissionDenied_def NewInternal_def
  NewDBError_def NewVaultError_def

section \<open>Codes and verbs\<close>

lemma st_code_newError [simp]: "st_code (newError options) = o_Code options"
  by (simp add: newError_def Let_def split: prod.splits)

lemma st_code_newCodedError [simp]: "st_code (newCodedError c message opts) = c"
  by (simp add: newCodedError_def New_def applyOptions_def WithOptions_def Let_def)

lemma st_code_constructors [simp]:
  "st_code (NewInvalidArgument opts) = InvalidArgument"
  "st_code (NewNotFound opts) = NotFound"
  "st_code (NewUnavailable opts) = Unavailable"
  "st_code (NewAlreadyExists opts) = AlreadyExists"
  "st_code (NewFailedPrecondition opts) = FailedPrecondition"
  "st_code (NewPermissionDenied opts) = PermissionDenied"
  "st_code (NewInternal opts) = Internal"
  "st_code (NewDBError opts) = Internal"
  "st_code (NewVaultError opts) = Internal"
  by (simp_all add: constructor_defs)

text \<open>
  The verbs of a format: the number of percent signs that open one (a doubled sign is a literal
  percent).
\<close>

fun verbs :: "string \<Rightarrow> nat" where
  "verbs [] = 0"
| "verbs [c] = (if c = CHR ''%'' then 1 else 0)"
| "verbs (c # d # cs) =
     (if c = CHR ''%'' then (if d = CHR ''%'' then verbs cs else Suc (verbs cs))
      else verbs (d # cs))"

lemma verbs_plain_append: "CHR ''%'' \<notin> set s \<Longrightarrow> verbs (s @ t) = verbs t"
proof (induction s)
  case Nil
  then show ?case by simp
next
  case (Cons c cs)
  then show ?case by (cases "cs @ t") auto
qed

lemma verbs_verb_append: "verbs (''%s'' @ t) = Suc (verbs t)"
  by simp

lemma verbs_Cons_plain: "c \<noteq> CHR ''%'' \<Longrightarrow> verbs (c # t) = verbs t"
  using verbs_plain_append [of "[c]" t] by simp

lemma verbs_newError:
  assumes "verbs (o_Message options) = length (o_Args options)" and "o_Message options \<noteq> []"
  shows "verbs (st_format (newError options)) = length (st_args (newError options))"
  using assms by (simp add: newError_def Let_def verbs_Cons_plain split: prod.splits)

lemma verbs_newCodedError:
  assumes "CHR ''%'' \<notin> set message" and "message \<noteq> []"
    and "verbs (o_Message (applyOptions opts noOptions)) =
         length (o_Args (applyOptions opts noOptions))"
  shows "verbs (st_format (newCodedError c message opts)) =
         length (st_args (newCodedError c message opts))"
proof -
  define os where "os = applyOptions opts noOptions"
  define os' where "os' = (if o_Message os \<noteq> []
     then os\<lparr>o_Code := c, o_Message := message @ '': '' @ o_Message os\<rparr>
     else os\<lparr>o_Code := c, o_Message := message\<rparr>)"
  have new: "newCodedError c message opts = newError os'"
    by (simp add: newCodedError_def New_def applyOptions_def WithOptions_def Let_def os_def os'_def)
  have empty: "verbs message = 0"
    using verbs_plain_append [OF assms(1), of "[]"] by simp
  have "verbs (o_Message os') = length (o_Args os')"
    using assms(3) empty
    by (auto simp: os'_def os_def [symmetric] verbs_plain_append [OF assms(1)] verbs_Cons_plain)
  moreover have "o_Message os' \<noteq> []"
    using assms(2) by (simp add: os'_def)
  ultimately show ?thesis
    unfolding new by (rule verbs_newError)
qed

end
