(* ===== verification/Catalog_Api.thy ===== *)
theory Catalog_Api
  imports Go_Errors
begin

text \<open>
  The messages of the catalog API, \<^verbatim>\<open>pkg/api/catalog/v3\<close>: the resources and the requests the
  handlers take. A pointer that may be nil is an \<^typ>\<open>'a option\<close>, an \<^verbatim>\<open>int32\<close> a word, a Go
  map an association list with distinct keys in the order its \<^verbatim>\<open>range\<close> loop visits it, an
  option of one where the code tells a nil map from an empty one, a timestamp a natural number. Field names carry a prefix, since the messages share them.
\<close>

type_synonym int32 = "32 word"
type_synonym time = nat
type_synonym strmap = "(string \<times> string) list"

text \<open>The entries of a map that may be nil; a nil map has none.\<close>

definition mapEntries :: "strmap option \<Rightarrow> strmap" where
  "mapEntries m = (case m of None \<Rightarrow> [] | Some es \<Rightarrow> es)"

section \<open>Resources\<close>

datatype Kind = KIND_UNSPECIFIED | KIND_NORMAL | KIND_EXTENSION | KIND_ADDON

record Event =
  ev_Type :: string
  ev_ProjectId :: string

record Registry =
  r_Name :: string
  r_DisplayName :: string
  r_Description :: string
  r_RootUrl :: string
  r_Username :: string
  r_AuthToken :: string
  r_Type :: string
  r_Cacerts :: string
  r_ApiType :: string
  r_InventoryUrl :: string
  r_CreateTime :: "time option"
  r_UpdateTime :: "time option"

record ApplicationReference =
  ar_Name :: string
  ar_Version :: string

record ApplicationDependency =
  ad_Name :: string
  ad_Requires :: string

record UIExtension =
  ui_Label :: string
  ui_ServiceName :: string
  ui_Description :: string
  ui_FileName :: string
  ui_AppName :: string
  ui_ModuleName :: string

record Endpoint =
  ep_ServiceName :: string
  ep_ExternalPath :: string
  ep_InternalPath :: string
  ep_Scheme :: string
  ep_AuthType :: string
  ep_AppName :: string

record APIExtension =
  ext_Name :: string
  ext_Version :: string
  ext_DisplayName :: string
  ext_Description :: string
  ext_Endpoints :: "Endpoint list"
  ext_UiExtension :: "UIExtension option"

record ArtifactReference =
  aref_Name :: string
  aref_Purpose :: string

record Namespace =
  ns_Name :: string
  ns_Labels :: "strmap option"
  ns_Annotations :: "strmap option"

record DeploymentProfile =
  dpr_Name :: string
  dpr_DisplayName :: string
  dpr_Description :: string
  dpr_ApplicationProfiles :: "strmap option"
  dpr_CreateTime :: "time option"
  dpr_UpdateTime :: "time option"

record DeploymentPackage =
  dp_Name :: string
  dp_DisplayName :: string
  dp_Description :: string
  dp_Version :: string
  dp_Kind :: Kind
  dp_ApplicationReferences :: "ApplicationReference list"
  dp_IsDeployed :: bool
  dp_IsVisible :: bool
  dp_Profiles :: "DeploymentProfile list"
  dp_DefaultProfileName :: string
  dp_ApplicationDependencies :: "ApplicationDependency list"
  dp_Extensions :: "APIExtension list"
  dp_Artifacts :: "ArtifactReference list"
  dp_DefaultNamespaces :: strmap
  dp_ForbidsMultipleDeployments :: bool
  dp_Namespaces :: "Namespace list"
  dp_CreateTime :: "time option"
  dp_UpdateTime :: "time option"

record ResourceReference =
  rr_Name :: string
  rr_Kind :: string
  rr_Namespace :: string

record ParameterTemplate =
  pt_Name :: string
  pt_DisplayName :: string
  pt_Default :: string
  pt_Type :: string
  pt_Validator :: string
  pt_SuggestedValues :: "string list"
  pt_Secret :: bool
  pt_Mandatory :: bool

record DeploymentRequirement =
  dr_Name :: string
  dr_Version :: string
  dr_DeploymentProfileName :: string

record Profile =
  p_Name :: string
  p_DisplayName :: string
  p_Description :: string
  p_ChartValues :: string
  p_ParameterTemplates :: "ParameterTemplate list"
  p_DeploymentRequirement :: "DeploymentRequirement list"
  p_CreateTime :: "time option"
  p_UpdateTime :: "time option"

record Application =
  a_Name :: string
  a_DisplayName :: string
  a_Description :: string
  a_Version :: string
  a_Kind :: Kind
  a_ChartName :: string
  a_ChartVersion :: string
  a_HelmRegistryName :: string
  a_Profiles :: "Profile list"
  a_DefaultProfileName :: string
  a_ImageRegistryName :: string
  a_IgnoredResources :: "ResourceReference list"
  a_CreateTime :: "time option"
  a_UpdateTime :: "time option"

text \<open>The payload of an artifact is a byte slice, which may be nil.\<close>

record Artifact =
  art_Name :: string
  art_DisplayName :: string
  art_Description :: string
  art_MimeType :: string
  art_Artifact :: "string option"
  art_CreateTime :: "time option"
  art_UpdateTime :: "time option"

section \<open>Requests\<close>

record ListRegistriesRequest =
  lr_OrderBy :: string
  lr_Filter :: string
  lr_PageSize :: int32
  lr_Offset :: int32
  lr_ShowSensitiveInfo :: bool

record WatchRegistriesRequest =
  wr_ProjectId :: string
  wr_NoReplay :: bool
  wr_ShowSensitiveInfo :: bool

record ListArtifactsRequest =
  la_OrderBy :: string
  la_Filter :: string
  la_PageSize :: int32
  la_Offset :: int32

record WatchArtifactsRequest =
  wa_ProjectId :: string
  wa_NoReplay :: bool

record ListApplicationsRequest =
  lap_OrderBy :: string
  lap_Filter :: string
  lap_PageSize :: int32
  lap_Offset :: int32
  lap_Kinds :: "Kind list"

record WatchApplicationsRequest =
  wap_ProjectId :: string
  wap_NoReplay :: bool
  wap_Kinds :: "Kind list"

record ListDeploymentPackagesRequest =
  ldp_OrderBy :: string
  ldp_Filter :: string
  ldp_PageSize :: int32
  ldp_Offset :: int32
  ldp_Kinds :: "Kind list"

record WatchDeploymentPackagesRequest =
  wdp_ProjectId :: string
  wdp_NoReplay :: bool
  wdp_Kinds :: "Kind list"

record Upload =
  up_FileName :: string
  up_Artifact :: string

record UploadCatalogEntitiesRequest =
  ue_SessionId :: string
  ue_UploadNumber :: "32 word"
  ue_LastUpload :: bool
  ue_Upload :: "Upload option"

text \<open>
  The request messages by their type name: the authorization check derives the name of the
  policy rule from it. The embedded resource of a create or update request may be nil.
\<close>

datatype Request =
    CreateRegistryRequest "Registry option"
  | ListRegistriesReq ListRegistriesRequest
  | GetRegistryRequest string bool
  | UpdateRegistryRequest string "Registry option"
  | DeleteRegistryRequest string
  | WatchRegistriesReq WatchRegistriesRequest
  | CreateArtifactRequest "Artifact option"
  | ListArtifactsReq ListArtifactsRequest
  | GetArtifactRequest string
  | UpdateArtifactRequest string "Artifact option"
  | DeleteArtifactRequest string
  | WatchArtifactsReq WatchArtifactsRequest
  | CreateApplicationRequest "Application option"
  | ListApplicationsReq ListApplicationsRequest
  | GetApplicationRequest string string
  | GetApplicationReferenceCountRequest string string
  | GetApplicationVersionsRequest string
  | UpdateApplicationRequest string string "Application option"
  | DeleteApplicationRequest string string
  | WatchApplicationsReq WatchApplicationsRequest
  | CreateDeploymentPackageRequest "DeploymentPackage option"
  | ListDeploymentPackagesReq ListDeploymentPackagesRequest
  | GetDeploymentPackageRequest string string
  | GetDeploymentPackageVersionsRequest string
  | UpdateDeploymentPackageRequest string string "DeploymentPackage option"
  | DeleteDeploymentPackageRequest string string
  | WatchDeploymentPackagesReq WatchDeploymentPackagesRequest
  | UploadCatalogEntitiesReq UploadCatalogEntitiesRequest

fun requestName :: "Request \<Rightarrow> string" where
  "requestName (CreateRegistryRequest _) = ''CreateRegistryRequest''"
| "requestName (ListRegistriesReq _) = ''ListRegistriesRequest''"
| "requestName (GetRegistryRequest _ _) = ''GetRegistryRequest''"
| "requestName (UpdateRegistryRequest _ _) = ''UpdateRegistryRequest''"
| "requestName (DeleteRegistryRequest _) = ''DeleteRegistryRequest''"
| "requestName (WatchRegistriesReq _) = ''WatchRegistriesRequest''"
| "requestName (CreateArtifactRequest _) = ''CreateArtifactRequest''"
| "requestName (ListArtifactsReq _) = ''ListArtifactsRequest''"
| "requestName (GetArtifactRequest _) = ''GetArtifactRequest''"
| "requestName (UpdateArtifactRequest _ _) = ''UpdateArtifactRequest''"
| "requestName (DeleteArtifactRequest _) = ''DeleteArtifactRequest''"
| "requestName (WatchArtifactsReq _) = ''WatchArtifactsRequest''"
| "requestName (CreateApplicationRequest _) = ''CreateApplicationRequest''"
| "requestName (ListApplicationsReq _) = ''ListApplicationsRequest''"
| "requestName (GetApplicationRequest _ _) = ''GetApplicationRequest''"
| "requestName (GetApplicationReferenceCountRequest _ _) = ''GetApplicationReferenceCountRequest''"
| "requestName (GetApplicationVersionsRequest _) = ''GetApplicationVersionsRequest''"
| "requestName (UpdateApplicationRequest _ _ _) = ''UpdateApplicationRequest''"
| "requestName (DeleteApplicationRequest _ _) = ''DeleteApplicationRequest''"
| "requestName (WatchApplicationsReq _) = ''WatchApplicationsRequest''"
| "requestName (CreateDeploymentPackageRequest _) = ''CreateDeploymentPackageRequest''"
| "requestName (ListDeploymentPackagesReq _) = ''ListDeploymentPackagesRequest''"
| "requestName (GetDeploymentPackageRequest _ _) = ''GetDeploymentPackageRequest''"
| "requestName (GetDeploymentPackageVersionsRequest _) = ''GetDeploymentPackageVersionsRequest''"
| "requestName (UpdateDeploymentPackageRequest _ _ _) = ''UpdateDeploymentPackageRequest''"
| "requestName (DeleteDeploymentPackageRequest _ _) = ''DeleteDeploymentPackageRequest''"
| "requestName (WatchDeploymentPackagesReq _) = ''WatchDeploymentPackagesRequest''"
| "requestName (UploadCatalogEntitiesReq _) = ''UploadCatalogEntitiesRequest''"

end
