(* ===== verification/Service_Utils.thy ===== *)
theory Service_Utils
  imports Catalog_Api
begin

text \<open>
  The helpers of \<^verbatim>\<open>internal/northbound/service.go\<close> that every handler shares: the active project
  of a request, the parsers of the \<^verbatim>\<open>orderBy\<close> and \<^verbatim>\<open>filter\<close> parameters and their translation to
  columns, the kind filter, the page range, display names; and the translation of kinds of
  \<^verbatim>\<open>application.go\<close>. The lemmas give the page a list request returns as a slice of the query's
  result, show that the index loop stays in range, and that the two parsers accept and recover
  every well-formed parameter.
\<close>

section \<open>The active project\<close>

type_synonym metadata = "(string \<times> string list) list"

abbreviation ActiveProjectID :: string where "ActiveProjectID \<equiv> ''activeprojectid''"
abbreviation AdminProjectID :: string where "AdminProjectID \<equiv> ''default''"

definition md_Get :: "metadata \<Rightarrow> string \<Rightarrow> string list" where
  "md_Get md k = (case map_of md (ToLower k) of None \<Rightarrow> [] | Some vs \<Rightarrow> vs)"

definition GetActiveProjectID :: "metadata option \<Rightarrow> string result" where
  "GetActiveProjectID ctx =
     (case ctx of
        None \<Rightarrow> Inl (NewInvalidArgument
          [WithMessage ''incomplete request: unable to fetch request metadata'' []])
      | Some md \<Rightarrow>
          (case md_Get md ActiveProjectID of
             [] \<Rightarrow> Inr AdminProjectID
           | v # _ \<Rightarrow> if v = [] then Inr AdminProjectID else Inr v))"

definition GetActiveProjectIDAllowAdmin :: "metadata option \<Rightarrow> string \<Rightarrow> string result" where
  "GetActiveProjectIDAllowAdmin ctx fallbackProjectID =
     (case GetActiveProjectID ctx of
        Inl e \<Rightarrow> Inl e
      | Inr projectUUID \<Rightarrow>
          if projectUUID = AdminProjectID \<and> fallbackProjectID \<noteq> [] then Inr fallbackProjectID
          else Inr projectUUID)"

section \<open>Columns, ordering and filtering\<close>

definition findColumnName ::
    "string \<Rightarrow> (string \<times> string) list \<Rightarrow> ResourceType \<Rightarrow> string \<Rightarrow> string result" where
  "findColumnName attributeName columns resourceType operation =
     (case map_of columns attributeName of
        None \<Rightarrow> Inl (NewInvalidArgument [WithResourceType resourceType,
          WithMessage ''%s: no such attribute: %s'' [operation, attributeName]])
      | Some columnName \<Rightarrow>
          if columnName = [] then Inl (NewInvalidArgument [WithResourceType resourceType,
            WithMessage ''%s: cannot %s on attribute: %s'' [operation, operation, attributeName]])
          else Inr columnName)"

record orderBy =
  ob_name :: string
  ob_isDesc :: bool

definition parseDirection :: "string \<Rightarrow> ResourceType \<Rightarrow> orderBy result" where
  "parseDirection element resourceType =
     (let direction = Split CHR '' '' (TrimBlanks element);
          invalid = NewInvalidArgument [WithResourceType resourceType,
            WithMessage ''invalid order by: %s'' [element]]
      in if 2 < length direction then Inl invalid
         else if length direction = 2 then
           (if direction ! 1 = ''asc'' then Inr \<lparr>ob_name = direction ! 0, ob_isDesc = False\<rparr>
            else if direction ! 1 = ''desc'' then Inr \<lparr>ob_name = direction ! 0, ob_isDesc = True\<rparr>
            else Inl invalid)
         else Inr \<lparr>ob_name = direction ! 0, ob_isDesc = False\<rparr>)"

fun parseDirections :: "string list \<Rightarrow> ResourceType \<Rightarrow> orderBy list result" where
  "parseDirections [] resourceType = Inr []"
| "parseDirections (element # elements) resourceType =
     (case parseDirection element resourceType of
        Inl e \<Rightarrow> Inl e
      | Inr o1 \<Rightarrow>
          (case parseDirections elements resourceType of
             Inl e \<Rightarrow> Inl e
           | Inr os \<Rightarrow> Inr (o1 # os)))"

definition parseOrderBy :: "string \<Rightarrow> ResourceType \<Rightarrow> orderBy list result" where
  "parseOrderBy orderByParameter resourceType =
     (if orderByParameter = [] then Inr []
      else parseDirections (Split CHR '','' orderByParameter) resourceType)"

text \<open>An order option is the column and whether the order is descending.\<close>

fun orderByOptions ::
    "orderBy list \<Rightarrow> (string \<times> string) list \<Rightarrow> ResourceType \<Rightarrow> (string \<times> bool) list result" where
  "orderByOptions [] columns resourceType = Inr []"
| "orderByOptions (o1 # orderBys) columns resourceType =
     (case findColumnName (ob_name o1) columns resourceType ''orderBy'' of
        Inl e \<Rightarrow> Inl e
      | Inr columnName \<Rightarrow>
          (case orderByOptions orderBys columns resourceType of
             Inl e \<Rightarrow> Inl e
           | Inr options \<Rightarrow> Inr ((columnName, ob_isDesc o1) # options)))"

record filter =
  f_name :: string
  f_value :: string

abbreviation blank :: "char \<Rightarrow> bool" where
  "blank c \<equiv> c = CHR '' '' \<or> c = CHR 0x09"

text \<open>
  Replacing every match of the expression \<^verbatim>\<open>[ \t]*=[ \t]*\<close> by an equals sign. At each position
  the leftmost match takes all the blanks on both sides of the sign; where there is none, the
  character is copied.
\<close>

function normalizeEquals :: "string \<Rightarrow> string" where
  "normalizeEquals s =
     (case dropWhile blank s of
        [] \<Rightarrow> s
      | d # u \<Rightarrow>
          if d = CHR ''='' then CHR ''='' # normalizeEquals (dropWhile blank u)
          else hd s # normalizeEquals (tl s))"
  by pat_completeness auto
termination
proof (relation "measure length", goal_cases)
  case 1
  then show ?case by simp
next
  case (2 s d u)
  have "length (dropWhile blank u) \<le> length u"
    by (rule length_dropWhile_le)
  also have "length u < length (dropWhile blank s)"
    using 2 by simp
  also have "length (dropWhile blank s) \<le> length s"
    by (rule length_dropWhile_le)
  finally show ?case by simp
next
  case (3 s d u)
  then show ?case by (cases s) auto
qed

declare normalizeEquals.simps [simp del]

definition invalidFilter :: "string list \<Rightarrow> ResourceType \<Rightarrow> Status" where
  "invalidFilter elements resourceType =
     NewInvalidArgument [WithResourceType resourceType,
       WithMessage ''filter: invalid filter request: %s'' [''['' @ intercalate '' '' elements @ '']'']]"

text \<open>
  The loop over the elements: \<open>rest\<close> are the elements still to visit, so the last one
  is visited when the tail is empty.
\<close>

fun parseFilterElements ::
    "string list \<Rightarrow> ResourceType \<Rightarrow> string list \<Rightarrow> filter option \<Rightarrow> filter list \<Rightarrow> filter list result" where
  "parseFilterElements elements resourceType [] currentFilter filters =
     (case currentFilter of None \<Rightarrow> Inr filters | Some f \<Rightarrow> Inr (filters @ [f]))"
| "parseFilterElements elements resourceType (element # rest) currentFilter filters =
     (if CHR ''='' \<in> set element then
        (let selectors = Split CHR ''='' element
         in if currentFilter \<noteq> None \<or> length selectors \<noteq> 2 \<or> selectors ! 0 = [] \<or> selectors ! 1 = []
            then Inl (invalidFilter elements resourceType)
            else parseFilterElements elements resourceType rest
                   (Some \<lparr>f_name = selectors ! 0, f_value = selectors ! 1\<rparr>) filters)
      else if element = ''OR'' then
        (case currentFilter of
           None \<Rightarrow> Inl (invalidFilter elements resourceType)
         | Some f \<Rightarrow>
             if rest = [] then Inl (invalidFilter elements resourceType)
             else parseFilterElements elements resourceType rest None (filters @ [f]))
      else
        (case currentFilter of
           None \<Rightarrow> Inl (invalidFilter elements resourceType)
         | Some f \<Rightarrow>
             parseFilterElements elements resourceType rest
               (Some (f\<lparr>f_value := f_value f @ '' '' @ element\<rparr>)) filters))"

definition parseFilter :: "string \<Rightarrow> ResourceType \<Rightarrow> filter list result" where
  "parseFilter filterParameter resourceType =
     (if filterParameter = [] then Inr []
      else let elements = Split CHR '' '' (normalizeEquals filterParameter)
           in parseFilterElements elements resourceType elements None [])"

text \<open>A filter predicate is the column and the pattern its lower-cased value is matched with.\<close>

fun filterPredicates ::
    "filter list \<Rightarrow> (string \<times> string) list \<Rightarrow> ResourceType \<Rightarrow> (string \<times> string) list result" where
  "filterPredicates [] columns resourceType = Inr []"
| "filterPredicates (f # filters) columns resourceType =
     (case findColumnName (f_name f) columns resourceType ''filter'' of
        Inl e \<Rightarrow> Inl e
      | Inr column \<Rightarrow>
          (case filterPredicates filters columns resourceType of
             Inl e \<Rightarrow> Inl e
           | Inr preds \<Rightarrow>
               Inr ((column, ''%'' @ ToLower (ReplaceChar CHR ''*'' CHR ''%'' (f_value f)) @ ''%'') # preds)))"

section \<open>Kinds\<close>

abbreviation kindNormal :: string where "kindNormal \<equiv> ''normal''"
abbreviation kindAddon :: string where "kindAddon \<equiv> ''addon''"
abbreviation kindExtension :: string where "kindExtension \<equiv> ''extension''"

fun kindToDB :: "Kind \<Rightarrow> string" where
  "kindToDB KIND_NORMAL = kindNormal"
| "kindToDB KIND_ADDON = kindAddon"
| "kindToDB KIND_EXTENSION = kindExtension"
| "kindToDB KIND_UNSPECIFIED = kindNormal"

definition kindFromDB :: "string \<Rightarrow> Kind" where
  "kindFromDB kind =
     (if kind = kindNormal then KIND_NORMAL
      else if kind = kindAddon then KIND_ADDON
      else if kind = kindExtension then KIND_EXTENSION
      else KIND_NORMAL)"

definition isSameKind :: "Kind \<Rightarrow> string \<Rightarrow> bool" where
  "isSameKind kind kindDB \<longleftrightarrow>
     (kind = KIND_NORMAL \<and> kindDB = kindNormal) \<or>
     (kind = KIND_EXTENSION \<and> kindDB = kindExtension) \<or>
     (kind = KIND_ADDON \<and> kindDB = kindAddon) \<or>
     (kind = KIND_UNSPECIFIED \<and> kindDB = [])"

text \<open>
  The kind filter of a list request, on the nullable column \<^verbatim>\<open>kind\<close>: no filter for an empty list;
  with the normal kind listed, rows without a kind match as well.
\<close>

definition kindPredicate :: "Kind list \<Rightarrow> (string option \<Rightarrow> bool) option" where
  "kindPredicate kinds =
     (if kinds \<noteq> [] then
        (let kindDBs = map kindToDB kinds;
             hasNormalKind = list_ex (\<lambda>k. k = KIND_NORMAL) kinds;
             isIn = (\<lambda>col. case col of None \<Rightarrow> False | Some k \<Rightarrow> k \<in> set kindDBs)
         in if hasNormalKind then Some (\<lambda>col. col = None \<or> isIn col) else Some isIn)
      else None)"

section \<open>Pages\<close>

abbreviation MaxPageSize :: int where "MaxPageSize \<equiv> 500"
abbreviation DefaultPageSize :: int32 where "DefaultPageSize \<equiv> 20"

text \<open>
  The page sizes and offsets are \<^verbatim>\<open>int32\<close>, the counts and indices \<^verbatim>\<open>int\<close> (64 bits, which the
  sums below do not exceed): \<^const>\<open>sint\<close> is the conversion, and \<open>offset + pageSize\<close> is
  added at 32 bits before it is converted.
\<close>

definition computePageRange :: "int32 \<Rightarrow> int32 \<Rightarrow> int \<Rightarrow> (int \<times> int \<times> int32) result" where
  "computePageRange pageSize offset totalCount =
     (if sint offset < 0 then Inl (NewInvalidArgument
        [WithMessage ''invalid pagination: offset must not be negative'' []])
      else if sint pageSize < 0 then Inl (NewInvalidArgument
        [WithMessage ''invalid pagination: pageSize must not be negative'' []])
      else if sint pageSize > MaxPageSize then Inl (NewInvalidArgument
        [WithMessage ''invalid pagination: pageSize must not exceed %d'' [''500'']])
      else
        let pageSize = (if pageSize = 0 then DefaultPageSize else pageSize)
        in if totalCount = 0 then Inr (0, 0, 0)
           else
             let startIndex = sint offset;
                 endIndex =
                   (if pageSize = 0 then totalCount - 1
                    else if startIndex + sint offset > totalCount \<or> sint (offset + pageSize) > totalCount
                         then totalCount - 1
                         else (startIndex + sint pageSize) - 1)
             in Inr (startIndex, endIndex, word_of_int totalCount))"

text \<open>
  The loop \<^verbatim>\<open>for i := startIndex; i <= endIndex; i++\<close> over the query's result; an index out of
  range is a panic, the value \<^const>\<open>None\<close>.
\<close>

definition pageOf :: "'a list \<Rightarrow> int \<Rightarrow> int \<Rightarrow> 'a list option" where
  "pageOf xs startIndex endIndex =
     those (map (\<lambda>i. if 0 \<le> i \<and> i < int (length xs) then Some (xs ! nat i) else None)
       [startIndex..endIndex])"

section \<open>Display names\<close>

definition validateDisplayName :: "string \<Rightarrow> string \<Rightarrow> string \<times> bool" where
  "validateDisplayName name displayName =
     (if displayName \<noteq> [] then
        (if displayName \<noteq> TrimSpace displayName then (displayName, False) else (displayName, True))
      else (name, True))"

text \<open>The errors of the database layer, as the code tells them apart.\<close>

datatype ent_error = EntNotFound | EntNotSingular | EntConstraint | EntFailure

definition ent_text :: "ent_error \<Rightarrow> string" where
  "ent_text e = (case e of EntNotFound \<Rightarrow> ''ent: not found'' | EntNotSingular \<Rightarrow> ''ent: not singular''
     | EntConstraint \<Rightarrow> ''ent: constraint failed'' | EntFailure \<Rightarrow> ''ent: failure'')"

definition dbError :: "ent_error \<Rightarrow> Status" where
  "dbError e = NewDBError [WithError (ent_text e)]"

definition checkUniqueness ::
    "ent_error + nat \<Rightarrow> string \<Rightarrow> string \<Rightarrow> string \<Rightarrow> ResourceType \<Rightarrow> unit result" where
  "checkUniqueness count thing name displayName resourceType =
     (case count of
        Inl err \<Rightarrow> Inl (dbError err)
      | Inr n \<Rightarrow>
          if n > 0 then Inl (NewAlreadyExists [WithResourceType resourceType, WithResourceName name,
            WithMessage ''%s %s display name %s is not unique'' [thing, name, displayName]])
          else Inr ())"

section \<open>Pages: the loop stays in range and takes a slice\<close>

lemma those_map_Some: "(\<And>x. x \<in> set xs \<Longrightarrow> f x = Some (g x)) \<Longrightarrow> those (map f xs) = Some (map g xs)"
  by (induction xs) auto

lemma map_nth_upto:
  assumes "0 \<le> i" and "j < int (length xs)"
  shows "map (\<lambda>k. xs ! nat k) [i..j] = take (nat (j - i + 1)) (drop (nat i) xs)"
proof (rule nth_equalityI)
  show len: "length (map (\<lambda>k. xs ! nat k) [i..j]) = length (take (nat (j - i + 1)) (drop (nat i) xs))"
    using assms by auto
  fix n assume n: "n < length (map (\<lambda>k. xs ! nat k) [i..j])"
  then have "i + int n \<le> j" by auto
  moreover have "nat (i + int n) = nat i + n" using assms(1) by (simp add: nat_add_distrib)
  moreover have "nat i \<le> length xs" using assms calculation by linarith
  ultimately show "map (\<lambda>k. xs ! nat k) [i..j] ! n = take (nat (j - i + 1)) (drop (nat i) xs) ! n"
    using n len by (simp add: nth_upto)
qed

lemma pageOf_slice:
  assumes "0 \<le> i" and "j < int (length xs)"
  shows "pageOf xs i j = Some (take (nat (j - i + 1)) (drop (nat i) xs))"
proof -
  have "pageOf xs i j = Some (map (\<lambda>k. xs ! nat k) [i..j])"
    unfolding pageOf_def by (rule those_map_Some) (use assms in auto)
  with map_nth_upto [OF assms] show ?thesis by simp
qed

lemma sint_add_small:
  fixes a b :: int32
  assumes "0 \<le> sint a" and "0 \<le> sint b" and "sint a + sint b < 2 ^ 31"
  shows "sint (a + b) = sint a + sint b"
  using assms by (simp add: sint_word_ariths signed_take_bit_int_eq_self)

lemma sint_eq_0_int32: "sint (w :: int32) = 0 \<Longrightarrow> w = 0"
  by (metis signed_0 signed_word_eqI)

text \<open>The page size that takes effect.\<close>

definition effectiveSize :: "int32 \<Rightarrow> int" where
  "effectiveSize pageSize = (if pageSize = 0 then 20 else sint pageSize)"

lemma computePageRange_Inr_bounds:
  assumes "computePageRange pageSize offset n = Inr (i, j, t)" and "0 < n"
  shows "0 \<le> i" and "i = sint offset" and "j < n" and "t = word_of_int n"
    and "0 < effectiveSize pageSize" and "effectiveSize pageSize \<le> 500"
    and "j = n - 1 \<or> j = i + effectiveSize pageSize - 1"
proof -
  define ps where "ps = (if pageSize = 0 then DefaultPageSize else pageSize)"
  from assms(1) have o: "0 \<le> sint offset" and p: "0 \<le> sint pageSize" "sint pageSize \<le> 500"
    by (auto simp: computePageRange_def split: if_splits)
  have nz: "ps \<noteq> 0" by (auto simp: ps_def)
  have eff: "sint ps = effectiveSize pageSize" by (simp add: ps_def effectiveSize_def)
  have psz: "0 < sint ps" "sint ps \<le> 500"
    using p by (auto simp: ps_def order.strict_iff_order dest: sint_eq_0_int32)
  let ?c = "sint offset + sint offset > n \<or> sint (offset + ps) > n"
  from assms o p have i: "i = sint offset" and t: "t = word_of_int n"
    and j: "j = (if ?c then n - 1 else sint offset + sint ps - 1)"
    using nz unfolding computePageRange_def ps_def Let_def by (auto split: if_splits)
  have "\<not> ?c \<Longrightarrow> sint offset + sint ps \<le> n"
  proof -
    assume c: "\<not> ?c"
    show "sint offset + sint ps \<le> n"
    proof (cases "sint offset + sint ps < 2 ^ 31")
      case True
      with o psz c show ?thesis by (simp add: sint_add_small)
    next
      case False
      with psz c show ?thesis by simp
    qed
  qed
  with i o j t psz eff assms(2)
  show "0 \<le> i" "i = sint offset" "j < n" "t = word_of_int n"
    "0 < effectiveSize pageSize" "effectiveSize pageSize \<le> 500"
    "j = n - 1 \<or> j = i + effectiveSize pageSize - 1"
    by auto
qed

text \<open>A page is the rest of the list from the offset, or a full page of it.\<close>

lemma computePageRange_page:
  assumes "computePageRange pageSize offset (int (length xs)) = Inr (i, j, t)" and "xs \<noteq> []"
  shows "pageOf xs i j = Some (drop (nat (sint offset)) xs) \<or>
         pageOf xs i j = Some (take (nat (effectiveSize pageSize)) (drop (nat (sint offset)) xs))"
proof -
  have pos: "0 < int (length xs)" using assms(2) by simp
  note b = computePageRange_Inr_bounds [OF assms(1) pos]
  have slice: "pageOf xs i j = Some (take (nat (j - i + 1)) (drop (nat i) xs))"
    by (rule pageOf_slice) (use b in auto)
  from b(7) show ?thesis
  proof
    assume "j = int (length xs) - 1"
    then show ?thesis using slice b(1,2) by auto
  next
    assume "j = i + effectiveSize pageSize - 1"
    then show ?thesis using slice b(1,2) by simp
  qed
qed

section \<open>The orderBy parameter\<close>

text \<open>The parameter a client writes for a list of orders, and the names it can carry.\<close>

definition printOrderBy :: "orderBy list \<Rightarrow> string" where
  "printOrderBy obs = intercalate '',''
     (map (\<lambda>o1. ob_name o1 @ (if ob_isDesc o1 then '' desc'' else '' asc'')) obs)"

definition orderName :: "string \<Rightarrow> bool" where
  "orderName n \<longleftrightarrow> n \<noteq> [] \<and> CHR '' '' \<notin> set n \<and> CHR '','' \<notin> set n"

lemma parseDirection_print:
  assumes "orderName (ob_name o1)"
  shows "parseDirection (ob_name o1 @ (if ob_isDesc o1 then '' desc'' else '' asc'')) rt = Inr o1"
proof -
  from assms have n: "ob_name o1 \<noteq> []" "CHR '' '' \<notin> set (ob_name o1)" by (auto simp: orderName_def)
  then have hd: "hd (ob_name o1) \<noteq> CHR '' ''" by (metis list.set_sel(1))
  have trim: "TrimBlanks (ob_name o1 @ CHR '' '' # w) = ob_name o1 @ CHR '' '' # w"
    if "w \<noteq> []" "last w \<noteq> CHR '' ''" for w
    unfolding TrimBlanks_def using n hd that by (intro trimBoth_id) (auto simp: hd_append)
  show ?thesis
    using n trim [of "''asc''"] trim [of "''desc''"]
    by (cases o1; cases "ob_isDesc o1")
       (auto simp: parseDirection_def Let_def Split_append_sep Split_no_sep)
qed

lemma parseDirections_print:
  "(\<And>o1. o1 \<in> set obs \<Longrightarrow> orderName (ob_name o1)) \<Longrightarrow>
   parseDirections (map (\<lambda>o1. ob_name o1 @ (if ob_isDesc o1 then '' desc'' else '' asc'')) obs) rt = Inr obs"
  by (induction obs) (simp_all add: parseDirection_print del: append.simps)

lemma parseOrderBy_print:
  assumes "\<And>o1. o1 \<in> set obs \<Longrightarrow> orderName (ob_name o1)"
  shows "parseOrderBy (printOrderBy obs) rt = Inr obs"
proof (cases obs)
  case Nil
  then show ?thesis by (simp add: parseOrderBy_def printOrderBy_def)
next
  case (Cons o1 os)
  let ?ws = "map (\<lambda>o1. ob_name o1 @ (if ob_isDesc o1 then '' desc'' else '' asc'')) obs"
  have "Split CHR '','' (intercalate [CHR '',''] ?ws) = ?ws"
  proof (rule Split_intercalate)
    show "?ws \<noteq> []" using Cons by simp
    fix w assume "w \<in> set ?ws"
    then show "CHR '','' \<notin> set w" using assms by (auto simp: orderName_def split: if_splits)
  qed
  moreover have "intercalate [CHR '',''] ?ws \<noteq> []"
    using Cons by (cases os) auto
  ultimately show ?thesis
    using parseDirections_print [OF assms] by (simp add: parseOrderBy_def printOrderBy_def)
qed

section \<open>The filter parameter\<close>

subsection \<open>Blanks around equals signs\<close>

fun eqClean :: "string \<Rightarrow> bool" where
  "eqClean (c # d # cs) \<longleftrightarrow> \<not> (blank c \<and> d = CHR ''='') \<and> \<not> (c = CHR ''='' \<and> blank d) \<and> eqClean (d # cs)"
| "eqClean _ \<longleftrightarrow> True"

lemma eqClean_tl: "eqClean (c # cs) \<Longrightarrow> eqClean cs"
  by (cases cs) auto

lemma eqClean_no_leading_blanks:
  "eqClean s \<Longrightarrow> dropWhile blank s = CHR ''='' # u \<Longrightarrow> s = CHR ''='' # u"
proof (induction s)
  case Nil
  then show ?case by simp
next
  case (Cons c cs)
  show ?case
  proof (cases "blank c")
    case True
    with Cons.prems have "dropWhile blank cs = CHR ''='' # u" by (simp split: if_splits)
    with Cons.IH Cons.prems(1) have "cs = CHR ''='' # u" by (simp add: eqClean_tl)
    with True Cons.prems(1) show ?thesis by simp
  next
    case False
    with Cons.prems show ?thesis by (simp split: if_splits)
  qed
qed

lemma normalizeEquals_id: "eqClean s \<Longrightarrow> normalizeEquals s = s"
proof (induction s rule: normalizeEquals.induct)
  case (1 s)
  show ?case
  proof (cases "dropWhile blank s")
    case Nil
    then show ?thesis by (subst normalizeEquals.simps) (simp del: dropWhile_eq_Nil_conv)
  next
    case (Cons d u)
    show ?thesis
    proof (cases "d = CHR ''=''")
      case True
      with Cons 1(3) have s: "s = CHR ''='' # u" by (simp add: eqClean_no_leading_blanks)
      with 1(3) have "dropWhile blank u = u" by (cases u) auto
      moreover from s 1(3) have "eqClean u" by (simp add: eqClean_tl)
      ultimately have "normalizeEquals (dropWhile blank u) = u"
        using 1(1) [OF Cons True] by simp
      with Cons True s show ?thesis by (subst normalizeEquals.simps) simp
    next
      case False
      from Cons have "s \<noteq> []" by auto
      with 1(3) have "eqClean (tl s)" by (cases s) (auto simp: eqClean_tl)
      with 1(2) [OF Cons False] have "normalizeEquals (tl s) = tl s" by simp
      with Cons False \<open>s \<noteq> []\<close> show ?thesis by (subst normalizeEquals.simps) simp
    qed
  qed
qed

lemma eqClean_no_blank: "(\<And>c. c \<in> set e \<Longrightarrow> \<not> blank c) \<Longrightarrow> eqClean e"
  by (induction e rule: eqClean.induct) auto

lemma eqClean_append:
  assumes "eqClean s" and "eqClean t"
    and "s = [] \<or> t = [] \<or> (\<not> (blank (last s) \<and> hd t = CHR ''='') \<and> \<not> (last s = CHR ''='' \<and> blank (hd t)))"
  shows "eqClean (s @ t)"
  using assms
proof (induction s rule: eqClean.induct)
  case (1 c d cs)
  then show ?case by auto
qed (cases t; auto)+

text \<open>Elements that can be joined by single blanks without touching an equals sign.\<close>

definition plainElement :: "string \<Rightarrow> bool" where
  "plainElement e \<longleftrightarrow> (\<forall>c \<in> set e. \<not> blank c) \<and> (e \<noteq> [] \<longrightarrow> hd e \<noteq> CHR ''='' \<and> last e \<noteq> CHR ''='')"

lemma hd_last_notin: "v \<noteq> [] \<Longrightarrow> c \<notin> set v \<Longrightarrow> hd v \<noteq> c \<and> last v \<noteq> c"
  by (metis hd_in_set last_in_set)

lemma hd_intercalate_plain:
  "(\<And>e. e \<in> set es \<Longrightarrow> plainElement e) \<Longrightarrow> intercalate '' '' es \<noteq> [] \<Longrightarrow>
   hd (intercalate '' '' es) \<noteq> CHR ''=''"
  by (induction "'' ''" es rule: intercalate.induct) (auto simp: plainElement_def hd_append)

lemma eqClean_intercalate:
  "(\<And>e. e \<in> set es \<Longrightarrow> plainElement e) \<Longrightarrow> eqClean (intercalate '' '' es)"
proof (induction "'' ''" es rule: intercalate.induct)
  case 1
  then show ?case by simp
next
  case (2 w)
  then show ?case by (auto simp: plainElement_def intro!: eqClean_no_blank)
next
  case (3 w v vs)
  let ?r = "intercalate '' '' (v # vs)"
  have r: "eqClean ?r" using 3 by simp
  have "?r = [] \<or> hd ?r \<noteq> CHR ''=''"
    using hd_intercalate_plain [of "v # vs"] 3(2) by auto
  with r have br: "eqClean (CHR '' '' # ?r)" by (cases ?r) auto
  have w: "plainElement w" using 3(2) by simp
  then have "eqClean (w @ CHR '' '' # ?r)"
    by (intro eqClean_append br) (auto simp: plainElement_def intro!: eqClean_no_blank)
  then show ?case by simp
qed

subsection \<open>Recovering a well-formed filter\<close>

text \<open>
  A term of the filter as a client writes it: a name and a value of one or more words. The
  parameter joins the terms with the word OR.
\<close>

type_synonym filter_term = "string \<times> string \<times> string list"

definition wellFormedTerm :: "filter_term \<Rightarrow> bool" where
  "wellFormedTerm t = (case t of (n, w, ws) \<Rightarrow>
     n \<noteq> [] \<and> w \<noteq> [] \<and> (\<forall>v \<in> set (n # w # ws). CHR ''='' \<notin> set v \<and> CHR '' '' \<notin> set v \<and> CHR 0x09 \<notin> set v)
     \<and> ''OR'' \<notin> set ws)"

definition termFilter :: "filter_term \<Rightarrow> filter" where
  "termFilter t = (case t of (n, w, ws) \<Rightarrow> \<lparr>f_name = n, f_value = concat (w # map (\<lambda>v. '' '' @ v) ws)\<rparr>)"

fun termElements :: "filter_term list \<Rightarrow> string list" where
  "termElements [] = []"
| "termElements [(n, w, ws)] = (n @ ''='' @ w) # ws"
| "termElements ((n, w, ws) # t # ts) = (n @ ''='' @ w) # ws @ ''OR'' # termElements (t # ts)"

definition printFilter :: "filter_term list \<Rightarrow> string" where
  "printFilter ts = intercalate '' '' (termElements ts)"

lemma termElements_nonempty [simp]: "ts \<noteq> [] \<Longrightarrow> termElements ts \<noteq> []"
  by (induction ts rule: termElements.induct) auto

lemma plainElement_term:
  assumes "wellFormedTerm (n, w, ws)" and "e \<in> set ((n @ ''='' @ w) # ws)"
  shows "plainElement e"
proof (cases "e \<in> set ws")
  case True
  with assms(1) hd_last_notin [of e "CHR ''=''"] show ?thesis
    by (auto simp: wellFormedTerm_def plainElement_def)
next
  case False
  with assms(2) have e: "e = n @ ''='' @ w" by simp
  from assms(1) have nw: "n \<noteq> []" "w \<noteq> []" "CHR ''='' \<notin> set n" "CHR ''='' \<notin> set w"
    and "\<forall>c \<in> set n \<union> set w. \<not> blank c"
    by (auto simp: wellFormedTerm_def)
  with e hd_last_notin [OF nw(1,3)] hd_last_notin [OF nw(2,4)] show ?thesis
    by (simp add: plainElement_def ball_Un)
qed

lemma plainElement_terms:
  "(\<And>t. t \<in> set ts \<Longrightarrow> wellFormedTerm t) \<Longrightarrow> e \<in> set (termElements ts) \<Longrightarrow> plainElement e"
proof (induction ts rule: termElements.induct)
  case 1
  then show ?case by simp
next
  case (2 n w ws)
  then show ?case using plainElement_term [of n w ws e] by simp
next
  case (3 n w ws t ts)
  from 3(3) consider "e \<in> set ((n @ ''='' @ w) # ws)" | "e = ''OR''" | "e \<in> set (termElements (t # ts))"
    by auto
  then show ?case
  proof cases
    case 1
    with 3(2) plainElement_term [of n w ws e] show ?thesis by simp
  next
    case 2
    then show ?thesis by (simp add: plainElement_def)
  next
    case 3
    with "3.IH" "3.prems"(1) show ?thesis by simp
  qed
qed

lemma parseFilterElements_words:
  "\<forall>v \<in> set ws. CHR ''='' \<notin> set v \<and> v \<noteq> ''OR'' \<Longrightarrow>
   parseFilterElements els rt (ws @ rest) (Some f) fs =
   parseFilterElements els rt rest (Some (f\<lparr>f_value := concat (f_value f # map (\<lambda>v. '' '' @ v) ws)\<rparr>)) fs"
  by (induction ws arbitrary: f) auto

lemma parseFilterElements_terms:
  "ts \<noteq> [] \<Longrightarrow> (\<And>t. t \<in> set ts \<Longrightarrow> wellFormedTerm t) \<Longrightarrow>
   parseFilterElements els rt (termElements ts) None fs = Inr (fs @ map termFilter ts)"
proof (induction ts arbitrary: fs rule: termElements.induct)
  case 1
  then show ?case by simp
next
  case (2 n w ws)
  then have wf: "wellFormedTerm (n, w, ws)" by simp
  then have "\<forall>v \<in> set ws. CHR ''='' \<notin> set v \<and> v \<noteq> ''OR''" by (auto simp: wellFormedTerm_def)
  note words = parseFilterElements_words [OF this, of els rt "[]"]
  from wf words show ?case
    by (auto simp: wellFormedTerm_def termFilter_def Split_append_sep Split_no_sep Let_def)
next
  case (3 n w ws t ts)
  then have wf: "wellFormedTerm (n, w, ws)" and ne: "termElements (t # ts) \<noteq> []" by simp_all
  have IH: "parseFilterElements els rt (termElements (t # ts)) None gs = Inr (gs @ map termFilter (t # ts))" for gs
    using 3 by simp
  from wf have "\<forall>v \<in> set ws. CHR ''='' \<notin> set v \<and> v \<noteq> ''OR''" by (auto simp: wellFormedTerm_def)
  note words = parseFilterElements_words [OF this, of els rt "''OR'' # termElements (t # ts)"]
  from wf ne show ?case
    by (simp add: words IH wellFormedTerm_def termFilter_def Split_append_sep Split_no_sep Let_def)
qed

lemma intercalate_not_Nil: "w \<noteq> [] \<Longrightarrow> intercalate d (w # ws) \<noteq> []"
  by (cases ws) auto

lemma parseFilter_print:
  assumes "\<And>t. t \<in> set ts \<Longrightarrow> wellFormedTerm t"
  shows "parseFilter (printFilter ts) rt = Inr (map termFilter ts)"
proof (cases "ts = []")
  case True
  then show ?thesis by (simp add: parseFilter_def printFilter_def)
next
  case False
  let ?es = "termElements ts"
  have plain: "\<And>e. e \<in> set ?es \<Longrightarrow> plainElement e"
    using assms plainElement_terms by blast
  have norm: "normalizeEquals (printFilter ts) = printFilter ts"
    unfolding printFilter_def using plain by (intro normalizeEquals_id eqClean_intercalate)
  have split: "Split CHR '' '' (printFilter ts) = ?es"
    unfolding printFilter_def
    by (rule Split_intercalate) (use False plain in \<open>auto simp: plainElement_def\<close>)
  have "printFilter ts \<noteq> []"
    using False by (cases ts rule: termElements.cases) (simp_all add: printFilter_def intercalate_not_Nil)
  with norm split show ?thesis
    using parseFilterElements_terms [OF False assms, of ?es rt "[]"] by (simp add: parseFilter_def)
qed

text \<open>Whatever the parser accepts, every filter it returns has a name and a value.\<close>

lemma parseFilterElements_nonempty:
  "parseFilterElements els rt es cur fs = Inr gs \<Longrightarrow>
   (\<And>f. f \<in> set fs \<union> set_option cur \<Longrightarrow> f_name f \<noteq> [] \<and> f_value f \<noteq> []) \<Longrightarrow>
   g \<in> set gs \<Longrightarrow> f_name g \<noteq> [] \<and> f_value g \<noteq> []"
proof (induction es arbitrary: cur fs)
  case Nil
  then show ?case by (auto split: option.splits)
next
  case (Cons e es)
  from Cons.prems(1) consider
      (sel) n w where "parseFilterElements els rt es (Some \<lparr>f_name = n, f_value = w\<rparr>) fs = Inr gs" "n \<noteq> []" "w \<noteq> []"
    | (orr) f where "cur = Some f" "parseFilterElements els rt es None (fs @ [f]) = Inr gs"
    | (word) f where "cur = Some f" "parseFilterElements els rt es (Some (f\<lparr>f_value := f_value f @ '' '' @ e\<rparr>)) fs = Inr gs"
    by (auto simp: Let_def split: if_splits option.splits)
  then show ?case
  proof cases
    case sel
    show ?thesis by (rule Cons.IH [OF sel(1) _ Cons.prems(3)]) (use sel Cons.prems(2) in auto)
  next
    case orr
    show ?thesis by (rule Cons.IH [OF orr(2) _ Cons.prems(3)]) (use orr Cons.prems(2) in auto)
  next
    case word
    show ?thesis by (rule Cons.IH [OF word(2) _ Cons.prems(3)]) (use word Cons.prems(2) in auto)
  qed
qed

section \<open>Kinds and display names\<close>

lemma kindFromDB_kindToDB: "kindFromDB (kindToDB k) = (if k = KIND_UNSPECIFIED then KIND_NORMAL else k)"
  by (cases k) (simp_all add: kindFromDB_def)

lemma kindToDB_kindFromDB: "k \<in> {kindNormal, kindAddon, kindExtension} \<Longrightarrow> kindToDB (kindFromDB k) = k"
  by (auto simp: kindFromDB_def)

lemma isSameKind_kindFromDB:
  "k \<noteq> KIND_UNSPECIFIED \<Longrightarrow> c \<in> {kindNormal, kindAddon, kindExtension} \<Longrightarrow>
   isSameKind k c \<longleftrightarrow> kindFromDB c = k"
  by (cases k) (auto simp: isSameKind_def kindFromDB_def)

lemma validateDisplayName_ok:
  "validateDisplayName name dn = (d, True) \<longleftrightarrow>
     (dn = [] \<and> d = name) \<or> (dn \<noteq> [] \<and> d = dn \<and> TrimSpace dn = dn)"
  by (auto simp: validateDisplayName_def)

lemma those_SomeD: "those xs = Some ys \<Longrightarrow> xs = map Some ys"
  by (induction xs arbitrary: ys) (auto split: option.splits)

lemma pageOf_subset:
  assumes "pageOf xs i j = Some ys"
  shows "set ys \<subseteq> set xs"
proof
  fix y assume y: "y \<in> set ys"
  have "map (\<lambda>i. if 0 \<le> i \<and> i < int (length xs) then Some (xs ! nat i) else None) [i..j] = map Some ys"
    using assms unfolding pageOf_def by (rule those_SomeD)
  from arg_cong [OF this, of set] y
  have "Some y \<in> set (map (\<lambda>i. if 0 \<le> i \<and> i < int (length xs) then Some (xs ! nat i) else None) [i..j])"
    by (simp only:) simp
  then show "y \<in> set xs" by (auto split: if_splits)
qed

lemma GetActiveProjectID_nonempty: "GetActiveProjectID ctx = Inr p \<Longrightarrow> p \<noteq> []"
  by (auto simp: GetActiveProjectID_def split: option.splits list.splits if_splits)

end
