(* ===== verification/Event_Listeners.thy ===== *)
theory Event_Listeners
  imports Service_Utils "HOL-Library.AList"
begin

text \<open>
  The event queues of \<^verbatim>\<open>internal/northbound/events.go\<close> and the listeners of
  \<^verbatim>\<open>internal/northbound/listeners.go\<close>. A listener map is an association list from channels to the
  watch request that registered them, in the order a \<^verbatim>\<open>range\<close> loop visits it; sending an event
  yields the channels it is put on, in that order. The locks make each operation atomic and are
  not modelled.

  The four listener tables share one contract, the locale \<open>event_fanout\<close>: registering and
  deregistering act as map updates, and an event goes to exactly the registered channels whose
  request wants it. From it follows what a watcher sees of a queue of events: exactly the events
  it wants, each once, in the order of the queue. The locale is interpreted on each table.
\<close>

type_synonym chan = nat

section \<open>Event queues\<close>

abbreviation CreatedEvent :: string where "CreatedEvent \<equiv> ''created''"
abbreviation UpdatedEvent :: string where "UpdatedEvent \<equiv> ''updated''"
abbreviation DeletedEvent :: string where "DeletedEvent \<equiv> ''deleted''"
abbreviation ReplayedEvent :: string where "ReplayedEvent \<equiv> ''replayed''"

definition event :: "string \<Rightarrow> string \<Rightarrow> Event" where
  "event eventType projectUUID = \<lparr>ev_Type = eventType, ev_ProjectId = projectUUID\<rparr>"

type_synonym WatchRegistriesResponse = "Event \<times> Registry"
type_synonym WatchArtifactsResponse = "Event \<times> Artifact"
type_synonym WatchApplicationsResponse = "Event \<times> Application"
type_synonym WatchDeploymentPackagesResponse = "Event \<times> DeploymentPackage"

type_synonym RegistryEvents = "WatchRegistriesResponse list"
type_synonym ArtifactEvents = "WatchArtifactsResponse list"
type_synonym ApplicationEvents = "WatchApplicationsResponse list"
type_synonym DeploymentPackageEvents = "WatchDeploymentPackagesResponse list"

definition appendRegistryEvent :: "RegistryEvents \<Rightarrow> string \<Rightarrow> string \<Rightarrow> Registry \<Rightarrow> RegistryEvents" where
  "appendRegistryEvent queue eventType projectUUID r = queue @ [(event eventType projectUUID, r)]"

definition appendArtifactEvent :: "ArtifactEvents \<Rightarrow> string \<Rightarrow> string \<Rightarrow> Artifact \<Rightarrow> ArtifactEvents" where
  "appendArtifactEvent queue eventType projectUUID ar = queue @ [(event eventType projectUUID, ar)]"

definition appendApplicationEvent ::
    "ApplicationEvents \<Rightarrow> string \<Rightarrow> string \<Rightarrow> Application \<Rightarrow> ApplicationEvents" where
  "appendApplicationEvent queue eventType projectUUID app = queue @ [(event eventType projectUUID, app)]"

definition appendDeploymentPackageEvent ::
    "DeploymentPackageEvents \<Rightarrow> string \<Rightarrow> string \<Rightarrow> DeploymentPackage \<Rightarrow> DeploymentPackageEvents" where
  "appendDeploymentPackageEvent queue eventType projectUUID p = queue @ [(event eventType projectUUID, p)]"

section \<open>Listeners\<close>

record EventListeners =
  registryListeners :: "(chan \<times> WatchRegistriesRequest) list"
  artifactListeners :: "(chan \<times> WatchArtifactsRequest) list"
  applicationListeners :: "(chan \<times> WatchApplicationsRequest) list"
  deploymentPackageListeners :: "(chan \<times> WatchDeploymentPackagesRequest) list"

definition NewEventListeners :: EventListeners where
  "NewEventListeners = \<lparr>registryListeners = [], artifactListeners = [], applicationListeners = [],
     deploymentPackageListeners = []\<rparr>"

definition addRegistryListener :: "chan \<Rightarrow> WatchRegistriesRequest \<Rightarrow> EventListeners \<Rightarrow> EventListeners" where
  "addRegistryListener ch req el = el\<lparr>registryListeners := AList.update ch req (registryListeners el)\<rparr>"

definition deleteRegistryListener :: "chan \<Rightarrow> EventListeners \<Rightarrow> EventListeners" where
  "deleteRegistryListener ch el = el\<lparr>registryListeners := AList.delete ch (registryListeners el)\<rparr>"

definition sendRegistryEvents ::
    "EventListeners \<Rightarrow> WatchRegistriesResponse \<Rightarrow> (chan \<times> WatchRegistriesResponse) list" where
  "sendRegistryEvents el ev =
     concat (map (\<lambda>(ch, req).
       if wr_ProjectId req = [] \<or> wr_ProjectId req = ev_ProjectId (fst ev) then [(ch, ev)] else [])
       (registryListeners el))"

definition addArtifactListener :: "chan \<Rightarrow> WatchArtifactsRequest \<Rightarrow> EventListeners \<Rightarrow> EventListeners" where
  "addArtifactListener ch req el = el\<lparr>artifactListeners := AList.update ch req (artifactListeners el)\<rparr>"

definition deleteArtifactListener :: "chan \<Rightarrow> EventListeners \<Rightarrow> EventListeners" where
  "deleteArtifactListener ch el = el\<lparr>artifactListeners := AList.delete ch (artifactListeners el)\<rparr>"

definition sendArtifactEvents ::
    "EventListeners \<Rightarrow> WatchArtifactsResponse \<Rightarrow> (chan \<times> WatchArtifactsResponse) list" where
  "sendArtifactEvents el ev =
     concat (map (\<lambda>(ch, req).
       if wa_ProjectId req = [] \<or> wa_ProjectId req = ev_ProjectId (fst ev) then [(ch, ev)] else [])
       (artifactListeners el))"

definition addApplicationListener ::
    "chan \<Rightarrow> WatchApplicationsRequest \<Rightarrow> EventListeners \<Rightarrow> EventListeners" where
  "addApplicationListener ch req el = el\<lparr>applicationListeners := AList.update ch req (applicationListeners el)\<rparr>"

definition deleteApplicationListener :: "chan \<Rightarrow> EventListeners \<Rightarrow> EventListeners" where
  "deleteApplicationListener ch el = el\<lparr>applicationListeners := AList.delete ch (applicationListeners el)\<rparr>"

fun kindMatches :: "Kind list \<Rightarrow> Kind \<Rightarrow> bool" where
  "kindMatches [] kind = True"
| "kindMatches (k # ks) kind = (k = kind \<or> (ks \<noteq> [] \<and> kindMatches ks kind))"

definition sendApplicationEvents ::
    "EventListeners \<Rightarrow> WatchApplicationsResponse \<Rightarrow> (chan \<times> WatchApplicationsResponse) list" where
  "sendApplicationEvents el ev =
     concat (map (\<lambda>(ch, req).
       if wap_ProjectId req = [] \<or> wap_ProjectId req = ev_ProjectId (fst ev)
       then (if kindMatches (wap_Kinds req) (a_Kind (snd ev)) then [(ch, ev)] else []) else [])
       (applicationListeners el))"

definition addDeploymentPackageListener ::
    "chan \<Rightarrow> WatchDeploymentPackagesRequest \<Rightarrow> EventListeners \<Rightarrow> EventListeners" where
  "addDeploymentPackageListener ch req el =
     el\<lparr>deploymentPackageListeners := AList.update ch req (deploymentPackageListeners el)\<rparr>"

definition deleteDeploymentPackageListener :: "chan \<Rightarrow> EventListeners \<Rightarrow> EventListeners" where
  "deleteDeploymentPackageListener ch el =
     el\<lparr>deploymentPackageListeners := AList.delete ch (deploymentPackageListeners el)\<rparr>"

definition sendDeploymentPackageEvents ::
    "EventListeners \<Rightarrow> WatchDeploymentPackagesResponse \<Rightarrow> (chan \<times> WatchDeploymentPackagesResponse) list" where
  "sendDeploymentPackageEvents el ev =
     concat (map (\<lambda>(ch, req).
       if wdp_ProjectId req = [] \<or> wdp_ProjectId req = ev_ProjectId (fst ev)
       then (if kindMatches (wdp_Kinds req) (dp_Kind (snd ev)) then [(ch, ev)] else []) else [])
       (deploymentPackageListeners el))"

section \<open>Sending a queue\<close>

definition sendToAllRegistryEvents ::
    "RegistryEvents \<Rightarrow> EventListeners \<Rightarrow> (chan \<times> WatchRegistriesResponse) list" where
  "sendToAllRegistryEvents queue listeners = concat (map (sendRegistryEvents listeners) queue)"

definition sendToAllArtifactEvents ::
    "ArtifactEvents \<Rightarrow> EventListeners \<Rightarrow> (chan \<times> WatchArtifactsResponse) list" where
  "sendToAllArtifactEvents queue listeners = concat (map (sendArtifactEvents listeners) queue)"

definition sendToAllApplicationEvents ::
    "ApplicationEvents \<Rightarrow> EventListeners \<Rightarrow> (chan \<times> WatchApplicationsResponse) list" where
  "sendToAllApplicationEvents queue listeners = concat (map (sendApplicationEvents listeners) queue)"

definition sendToAllDeploymentPackageEvents ::
    "DeploymentPackageEvents \<Rightarrow> EventListeners \<Rightarrow> (chan \<times> WatchDeploymentPackagesResponse) list" where
  "sendToAllDeploymentPackageEvents queue listeners = concat (map (sendDeploymentPackageEvents listeners) queue)"

text \<open>
  The loop of a watcher over the events of its channel: each is sent to the stream, and the first
  failure to send ends the watch with its error. The result is the events sent and the error, if
  any; without one the watcher waits for the next event.
\<close>

fun watchEvents :: "('ev \<Rightarrow> 'e option) \<Rightarrow> 'ev list \<Rightarrow> 'ev list \<times> 'e option" where
  "watchEvents send [] = ([], None)"
| "watchEvents send (e # es) =
     (case send e of
        Some err \<Rightarrow> ([], Some err)
      | None \<Rightarrow> (case watchEvents send es of (sent, err) \<Rightarrow> (e # sent, err)))"

section \<open>The contract of the listener tables\<close>

text \<open>
  What a table of listeners is for: it remembers, for each channel, the request of its last
  registration, until the channel leaves.
\<close>

datatype 'req listenerOp = Listen chan 'req | Leave chan

definition listenerSpec :: "'req listenerOp list \<Rightarrow> chan \<Rightarrow> 'req option" where
  "listenerSpec ops = foldl (\<lambda>m op. case op of Listen ch req \<Rightarrow> m(ch \<mapsto> req) | Leave ch \<Rightarrow> m(ch := None)) (\<lambda>_. None) ops"

locale event_fanout =
  fixes table :: "'el \<Rightarrow> (chan \<times> 'req) list"
    and add :: "chan \<Rightarrow> 'req \<Rightarrow> 'el \<Rightarrow> 'el"
    and del :: "chan \<Rightarrow> 'el \<Rightarrow> 'el"
    and send :: "'el \<Rightarrow> 'ev \<Rightarrow> (chan \<times> 'ev) list"
    and sendAll :: "'ev list \<Rightarrow> 'el \<Rightarrow> (chan \<times> 'ev) list"
    and wants :: "'req \<Rightarrow> 'ev \<Rightarrow> bool"
  assumes table_add: "map_of (table (add ch req el)) = (map_of (table el))(ch \<mapsto> req)"
    and table_del: "map_of (table (del ch el)) = (map_of (table el))(ch := None)"
    and distinct_add: "distinct (map fst (table el)) \<Longrightarrow> distinct (map fst (table (add ch req el)))"
    and distinct_del: "distinct (map fst (table el)) \<Longrightarrow> distinct (map fst (table (del ch el)))"
    and send_table: "send el ev = concat (map (\<lambda>(ch, req). if wants req ev then [(ch, ev)] else []) (table el))"
    and sendAll_send: "sendAll q el = concat (map (send el) q)"
begin

definition registered :: "'el \<Rightarrow> chan \<Rightarrow> 'req option" where
  "registered el = map_of (table el)"

text \<open>What a channel receives of a list of deliveries.\<close>

definition received :: "chan \<Rightarrow> (chan \<times> 'ev) list \<Rightarrow> 'ev list" where
  "received ch ds = map snd (filter (\<lambda>d. fst d = ch) ds)"

lemma received_append: "received ch (ds @ es) = received ch ds @ received ch es"
  by (simp add: received_def)

lemma received_send_table:
  assumes "distinct (map fst t)"
  shows "received ch (concat (map (\<lambda>(ch, req). if wants req ev then [(ch, ev)] else []) t)) =
     (case map_of t ch of None \<Rightarrow> [] | Some req \<Rightarrow> if wants req ev then [ev] else [])"
  using assms
proof (induction t)
  case Nil
  then show ?case by (simp add: received_def)
next
  case (Cons p t)
  obtain c req where p: "p = (c, req)" by (cases p)
  have "map_of t c = None" using Cons.prems p by (simp add: map_of_eq_None_iff)
  with Cons p show ?case
    by (cases "c = ch") (auto simp: received_append received_def)
qed

lemma received_send:
  assumes "distinct (map fst (table el))"
  shows "received ch (send el ev) =
     (case registered el ch of None \<Rightarrow> [] | Some req \<Rightarrow> if wants req ev then [ev] else [])"
  using received_send_table [OF assms] by (simp add: send_table registered_def)

lemma received_sendAll:
  assumes "distinct (map fst (table el))"
  shows "received ch (sendAll q el) =
     (case registered el ch of None \<Rightarrow> [] | Some req \<Rightarrow> filter (wants req) q)"
proof (induction q)
  case Nil
  then show ?case by (auto simp: sendAll_send received_def split: option.splits)
next
  case (Cons ev q)
  then show ?case
    by (auto simp: sendAll_send received_append received_send [OF assms] split: option.splits)
qed

text \<open>A table refines the map it stands for, over any sequence of registrations and departures.\<close>

lemma received_ops:
  assumes "table el = []"
  shows "received ch (sendAll q (foldl (\<lambda>e op. case op of Listen c req \<Rightarrow> add c req e | Leave c \<Rightarrow> del c e) el ops)) =
     (case listenerSpec ops ch of None \<Rightarrow> [] | Some req \<Rightarrow> filter (wants req) q)"
proof -
  let ?run = "foldl (\<lambda>e op. case op of Listen c req \<Rightarrow> add c req e | Leave c \<Rightarrow> del c e)"
  have "map_of (table (?run e ops)) = foldl (\<lambda>m op. case op of Listen ch req \<Rightarrow> m(ch \<mapsto> req) | Leave ch \<Rightarrow> m(ch := None))
      (map_of (table e)) ops \<and> distinct (map fst (table (?run e ops)))" if "distinct (map fst (table e))" for e
    using that
  proof (induction ops arbitrary: e)
    case (Cons op ops)
    show ?case
      using Cons.IH [OF distinct_add [OF Cons.prems]] Cons.IH [OF distinct_del [OF Cons.prems]]
      by (cases op) (simp_all only: foldl_Cons listenerOp.case table_add table_del)
  qed simp
  from this [of el] assms received_sendAll [of "?run el ops" ch q] show ?thesis
    by (simp add: registered_def listenerSpec_def)
qed

lemma received_after_add:
  assumes "distinct (map fst (table el))"
  shows "received ch (sendAll q (add ch req el)) = filter (wants req) q"
  using received_sendAll [OF distinct_add [OF assms]] by (simp add: registered_def table_add)

lemma received_after_del:
  assumes "distinct (map fst (table el))"
  shows "received ch (sendAll q (del ch el)) = []"
  using received_sendAll [OF distinct_del [OF assms]] by (simp add: registered_def table_del)

lemma received_others_add:
  assumes "distinct (map fst (table el))" and "c \<noteq> ch"
  shows "received c (sendAll q (add ch req el)) = received c (sendAll q el)"
  using assms received_sendAll [OF distinct_add [OF assms(1)], of c q ch req] received_sendAll [OF assms(1), of c q]
  by (simp add: registered_def table_add)

end

section \<open>The four tables meet the contract\<close>

definition wantsRegistry :: "WatchRegistriesRequest \<Rightarrow> WatchRegistriesResponse \<Rightarrow> bool" where
  "wantsRegistry req ev \<longleftrightarrow> wr_ProjectId req = [] \<or> wr_ProjectId req = ev_ProjectId (fst ev)"

definition wantsArtifact :: "WatchArtifactsRequest \<Rightarrow> WatchArtifactsResponse \<Rightarrow> bool" where
  "wantsArtifact req ev \<longleftrightarrow> wa_ProjectId req = [] \<or> wa_ProjectId req = ev_ProjectId (fst ev)"

definition wantsApplication :: "WatchApplicationsRequest \<Rightarrow> WatchApplicationsResponse \<Rightarrow> bool" where
  "wantsApplication req ev \<longleftrightarrow> (wap_ProjectId req = [] \<or> wap_ProjectId req = ev_ProjectId (fst ev)) \<and>
     (wap_Kinds req = [] \<or> a_Kind (snd ev) \<in> set (wap_Kinds req))"

definition wantsDeploymentPackage ::
    "WatchDeploymentPackagesRequest \<Rightarrow> WatchDeploymentPackagesResponse \<Rightarrow> bool" where
  "wantsDeploymentPackage req ev \<longleftrightarrow> (wdp_ProjectId req = [] \<or> wdp_ProjectId req = ev_ProjectId (fst ev)) \<and>
     (wdp_Kinds req = [] \<or> dp_Kind (snd ev) \<in> set (wdp_Kinds req))"

lemma kindMatches_iff: "kindMatches kinds kind \<longleftrightarrow> kinds = [] \<or> kind \<in> set kinds"
  by (induction kinds) auto

lemma map_of_AList_update: "map_of (AList.update k v al) = (map_of al)(k \<mapsto> v)"
  by (rule ext) (simp add: update_conv)

lemma map_of_AList_delete: "map_of (AList.delete k al) = (map_of al)(k := None)"
  by (rule ext) (simp add: delete_conv)

lemmas table_facts = map_of_AList_update map_of_AList_delete distinct_update distinct_delete

interpretation reg_fanout: event_fanout registryListeners addRegistryListener deleteRegistryListener
  sendRegistryEvents sendToAllRegistryEvents wantsRegistry
  by unfold_locales (simp_all add: addRegistryListener_def deleteRegistryListener_def
    sendRegistryEvents_def sendToAllRegistryEvents_def wantsRegistry_def table_facts)

interpretation art_fanout: event_fanout artifactListeners addArtifactListener deleteArtifactListener
  sendArtifactEvents sendToAllArtifactEvents wantsArtifact
  by unfold_locales (simp_all add: addArtifactListener_def deleteArtifactListener_def
    sendArtifactEvents_def sendToAllArtifactEvents_def wantsArtifact_def table_facts)

interpretation app_fanout: event_fanout applicationListeners addApplicationListener
  deleteApplicationListener sendApplicationEvents sendToAllApplicationEvents wantsApplication
  by unfold_locales (auto simp: addApplicationListener_def deleteApplicationListener_def
    sendApplicationEvents_def sendToAllApplicationEvents_def wantsApplication_def table_facts
    kindMatches_iff intro!: arg_cong [where f = concat])

interpretation pkg_fanout: event_fanout deploymentPackageListeners addDeploymentPackageListener
  deleteDeploymentPackageListener sendDeploymentPackageEvents sendToAllDeploymentPackageEvents
  wantsDeploymentPackage
  by unfold_locales (auto simp: addDeploymentPackageListener_def deleteDeploymentPackageListener_def
    sendDeploymentPackageEvents_def sendToAllDeploymentPackageEvents_def wantsDeploymentPackage_def
    table_facts kindMatches_iff intro!: arg_cong [where f = concat])

section \<open>The watcher's loop\<close>

lemma watchEvents_all: "(\<And>e. e \<in> set es \<Longrightarrow> send e = None) \<Longrightarrow> watchEvents send es = (es, None)"
  by (induction es) auto

lemma watchEvents_stops:
  "(\<And>e. e \<in> set es \<Longrightarrow> send e = None) \<Longrightarrow> send e = Some err \<Longrightarrow>
   watchEvents send (es @ e # fs) = (es, Some err)"
  by (induction es) auto

end
