(* ===== verification/Catalog_DB.thy ===== *)
theory Catalog_DB
  imports Event_Listeners "HOL-Library.Multiset"
begin

text \<open>
  The database of the service: the tables that the schema \<^verbatim>\<open>internal/ent/schema\<close> declares, with
  their unique indexes, and the foreign keys with the delete actions of the migration tables
  \<^verbatim>\<open>internal/ent/generated/migrate/schema.go\<close>. A table is the list of its rows; a query without an
  order returns rows in table order. The identifiers of all tables come from one counter.

  A transaction is a copy of the committed tables. Every call to the database or to the secret
  service is one tick of a clock and fails when the fault schedule says so; the schedule is an
  arbitrary parameter, so every error branch of the code can be taken. The secrets written in a
  transaction are not part of the tables and survive a rollback.

  The collation of text columns and the pattern match of \<^verbatim>\<open>LIKE\<close> belong to the database engine
  and are parameters.
\<close>

section \<open>Rows\<close>

record RegistryDB =
  rdb_ID :: nat
  rdb_ProjectUUID :: string
  rdb_Name :: string
  rdb_DisplayName :: string
  rdb_DisplayNameLc :: string
  rdb_Description :: string
  rdb_AuthToken :: string
  rdb_Type :: string
  rdb_APIType :: string
  rdb_CreateTime :: time
  rdb_UpdateTime :: time

record ArtifactDB =
  tdb_ID :: nat
  tdb_ProjectUUID :: string
  tdb_Name :: string
  tdb_DisplayName :: string
  tdb_DisplayNameLc :: string
  tdb_Description :: string
  tdb_MimeType :: string
  tdb_Artifact :: "string option"
  tdb_CreateTime :: time
  tdb_UpdateTime :: time

record ApplicationDB =
  adb_ID :: nat
  adb_ProjectUUID :: string
  adb_Name :: string
  adb_DisplayName :: string
  adb_DisplayNameLc :: string
  adb_Description :: string
  adb_Version :: string
  adb_ChartName :: string
  adb_ChartVersion :: string
  adb_Kind :: "string option"
  adb_registry_fk :: nat
  adb_image_registry_fk :: "nat option"
  adb_default_profile :: "nat option"
  adb_CreateTime :: time
  adb_UpdateTime :: time

record ProfileDB =
  pdb_ID :: nat
  pdb_application_fk :: nat
  pdb_Name :: string
  pdb_DisplayName :: string
  pdb_DisplayNameLc :: string
  pdb_Description :: string
  pdb_ChartValues :: string
  pdb_CreateTime :: time
  pdb_UpdateTime :: time

record ParameterTemplateDB =
  ptdb_profile_fk :: nat
  ptdb_Name :: string
  ptdb_DisplayName :: string
  ptdb_Default :: string
  ptdb_Type :: string
  ptdb_Validator :: string
  ptdb_SuggestedValues :: "string list"
  ptdb_Mandatory :: bool
  ptdb_Secret :: bool

record DeploymentRequirementDB =
  drdb_profile_fk :: nat
  drdb_deployment_package_fk :: nat
  drdb_deployment_profile_fk :: "nat option"

record IgnoredResourceDB =
  irdb_application_fk :: nat
  irdb_Name :: string
  irdb_Kind :: string
  irdb_Namespace :: string

record DeploymentPackageDB =
  kdb_ID :: nat
  kdb_ProjectUUID :: string
  kdb_Name :: string
  kdb_DisplayName :: string
  kdb_DisplayNameLc :: string
  kdb_Description :: string
  kdb_Version :: string
  kdb_IsDeployed :: bool
  kdb_IsVisible :: bool
  kdb_AllowsMultipleDeployments :: bool
  kdb_Kind :: "string option"
  kdb_default_profile :: "nat option"
  kdb_CreateTime :: time
  kdb_UpdateTime :: time

record DeploymentProfileDB =
  dpdb_ID :: nat
  dpdb_deployment_package_fk :: nat
  dpdb_Name :: string
  dpdb_DisplayName :: string
  dpdb_DisplayNameLc :: string
  dpdb_Description :: string
  dpdb_CreateTime :: time
  dpdb_UpdateTime :: time

record ArtifactReferenceDB =
  afdb_deployment_package_fk :: nat
  afdb_artifact :: nat
  afdb_Purpose :: string

record ApplicationDependencyDB =
  adepdb_deployment_package_fk :: nat
  adepdb_source_fk :: nat
  adepdb_target_fk :: nat

record ApplicationNamespaceDB =
  ansdb_deployment_package_fk :: nat
  ansdb_source_fk :: nat
  ansdb_Namespace :: string

record NamespaceDB =
  nsdb_ID :: nat
  nsdb_deployment_package_fk :: nat
  nsdb_Name :: string

record NamespaceAdornmentDB =
  nadb_namespace_fk :: nat
  nadb_Type :: string
  nadb_Key :: string
  nadb_Value :: string

record ExtensionDB =
  exdb_ID :: nat
  exdb_deployment_package_fk :: nat
  exdb_Name :: string
  exdb_Version :: string
  exdb_DisplayName :: string
  exdb_Description :: string
  exdb_UILabel :: string
  exdb_UIServiceName :: string
  exdb_UIDescription :: string
  exdb_UIFileName :: string
  exdb_UIAppName :: string
  exdb_UIModuleName :: string

record EndpointDB =
  epdb_extension_fk :: nat
  epdb_ServiceName :: string
  epdb_ExternalPath :: string
  epdb_InternalPath :: string
  epdb_Scheme :: string
  epdb_AuthType :: string
  epdb_AppName :: string

record db =
  t_registries :: "RegistryDB list"
  t_artifacts :: "ArtifactDB list"
  t_applications :: "ApplicationDB list"
  t_profiles :: "ProfileDB list"
  t_parameter_templates :: "ParameterTemplateDB list"
  t_deployment_requirements :: "DeploymentRequirementDB list"
  t_ignored_resources :: "IgnoredResourceDB list"
  t_deployment_packages :: "DeploymentPackageDB list"
  t_deployment_profiles :: "DeploymentProfileDB list"
  t_package_applications :: "(nat \<times> nat) list"
  t_deployment_profile_profiles :: "(nat \<times> nat) list"
  t_artifact_references :: "ArtifactReferenceDB list"
  t_application_dependencies :: "ApplicationDependencyDB list"
  t_application_namespaces :: "ApplicationNamespaceDB list"
  t_namespaces :: "NamespaceDB list"
  t_namespace_adornments :: "NamespaceAdornmentDB list"
  t_extensions :: "ExtensionDB list"
  t_endpoints :: "EndpointDB list"
  t_next :: nat

definition empty_db :: db where
  "empty_db = \<lparr>t_registries = [], t_artifacts = [], t_applications = [], t_profiles = [],
     t_parameter_templates = [], t_deployment_requirements = [], t_ignored_resources = [],
     t_deployment_packages = [], t_deployment_profiles = [], t_package_applications = [],
     t_deployment_profile_profiles = [], t_artifact_references = [],
     t_application_dependencies = [], t_application_namespaces = [], t_namespaces = [], t_namespace_adornments = [],
     t_extensions = [], t_endpoints = [], t_next = 1\<rparr>"

section \<open>Queries\<close>

definition q_first :: "('r \<Rightarrow> bool) \<Rightarrow> 'r list \<Rightarrow> ent_error + 'r" where
  "q_first P rows = (case List.filter P rows of [] \<Rightarrow> Inl EntNotFound | r # _ \<Rightarrow> Inr r)"

definition q_only :: "('r \<Rightarrow> bool) \<Rightarrow> 'r list \<Rightarrow> ent_error + 'r" where
  "q_only P rows =
     (case List.filter P rows of [] \<Rightarrow> Inl EntNotFound | [r] \<Rightarrow> Inr r | _ \<Rightarrow> Inl EntNotSingular)"

definition q_count :: "('r \<Rightarrow> bool) \<Rightarrow> 'r list \<Rightarrow> ent_error + nat" where
  "q_count P rows = Inr (length (List.filter P rows))"

definition q_all :: "('r \<Rightarrow> bool) \<Rightarrow> 'r list \<Rightarrow> ent_error + 'r list" where
  "q_all P rows = Inr (List.filter P rows)"

subsection \<open>Ordered and filtered lists\<close>

datatype column = CText string | CTime time | CBytes

record engine =
  g_like :: "string \<Rightarrow> string \<Rightarrow> bool"
  g_collate :: "string \<Rightarrow> string \<Rightarrow> bool"

fun column_le :: "engine \<Rightarrow> column \<Rightarrow> column \<Rightarrow> bool" where
  "column_le g (CText a) (CText b) = g_collate g a b"
| "column_le g (CTime a) (CTime b) = (a \<le> b)"
| "column_le g _ _ = True"

fun row_le :: "engine \<Rightarrow> (string \<Rightarrow> ('r \<Rightarrow> column) option) \<Rightarrow> (string \<times> bool) list \<Rightarrow> 'r \<Rightarrow> 'r \<Rightarrow> bool" where
  "row_le g cols [] a b = True"
| "row_le g cols ((c, isDesc) # os) a b =
     (case cols c of
        None \<Rightarrow> True
      | Some f \<Rightarrow>
          (let le = column_le g (f a) (f b); ge = column_le g (f b) (f a)
           in if le \<and> ge then row_le g cols os a b else if isDesc then ge else le))"

fun insertRow :: "('r \<Rightarrow> 'r \<Rightarrow> bool) \<Rightarrow> 'r \<Rightarrow> 'r list \<Rightarrow> 'r list" where
  "insertRow le x [] = [x]"
| "insertRow le x (y # ys) = (if le x y then x # y # ys else y # insertRow le x ys)"

definition orderRows :: "('r \<Rightarrow> 'r \<Rightarrow> bool) \<Rightarrow> 'r list \<Rightarrow> 'r list" where
  "orderRows le rows = foldr (insertRow le) rows []"

text \<open>
  \<^verbatim>\<open>lower(column) LIKE pattern\<close>: defined for text columns only.
\<close>

definition likeRow :: "engine \<Rightarrow> (string \<Rightarrow> ('r \<Rightarrow> column) option) \<Rightarrow> (string \<times> string) \<Rightarrow> 'r \<Rightarrow> bool" where
  "likeRow g cols p r = (case cols (fst p) of
     Some f \<Rightarrow> (case f r of CText v \<Rightarrow> g_like g (ToLower v) (snd p) | _ \<Rightarrow> False) | None \<Rightarrow> False)"

definition textColumn :: "string list \<Rightarrow> string \<Rightarrow> bool" where
  "textColumn textColumns c \<longleftrightarrow> c \<in> set textColumns"

text \<open>
  A list query: the rows of the base condition that match one of the patterns (all of them when
  there is none), ordered by the columns. Naming a column the table does not have, or matching a
  pattern against a column that is not text, fails in the engine.
\<close>

definition q_list ::
    "engine \<Rightarrow> (string \<Rightarrow> ('r \<Rightarrow> column) option) \<Rightarrow> string list \<Rightarrow> (string \<times> bool) list \<Rightarrow>
     (string \<times> string) list \<Rightarrow> ('r \<Rightarrow> bool) \<Rightarrow> 'r list \<Rightarrow> ent_error + 'r list" where
  "q_list g cols textColumns orders preds base rows =
     (if list_all (\<lambda>(c, _). cols c \<noteq> None) orders \<and> list_all (\<lambda>(c, _). textColumn textColumns c) preds
      then Inr (orderRows (row_le g cols orders)
             (List.filter (\<lambda>r. base r \<and> (preds = [] \<or> list_ex (\<lambda>p. likeRow g cols p r) preds)) rows))
      else Inl EntFailure)"

definition registryColumn :: "string \<Rightarrow> (RegistryDB \<Rightarrow> column) option" where
  "registryColumn c = map_of
     [(''name'', \<lambda>r. CText (rdb_Name r)), (''display_name'', \<lambda>r. CText (rdb_DisplayName r)),
      (''description'', \<lambda>r. CText (rdb_Description r)), (''create_time'', \<lambda>r. CTime (rdb_CreateTime r)),
      (''update_time'', \<lambda>r. CTime (rdb_UpdateTime r)), (''type'', \<lambda>r. CText (rdb_Type r))] c"

abbreviation registryText :: "string list" where
  "registryText \<equiv> [''name'', ''display_name'', ''description'', ''type'']"

definition artifactColumn :: "string \<Rightarrow> (ArtifactDB \<Rightarrow> column) option" where
  "artifactColumn c = map_of
     [(''name'', \<lambda>r. CText (tdb_Name r)), (''display_name'', \<lambda>r. CText (tdb_DisplayName r)),
      (''description'', \<lambda>r. CText (tdb_Description r)), (''mime_type'', \<lambda>r. CText (tdb_MimeType r)),
      (''create_time'', \<lambda>r. CTime (tdb_CreateTime r)), (''update_time'', \<lambda>r. CTime (tdb_UpdateTime r))] c"

abbreviation artifactText :: "string list" where
  "artifactText \<equiv> [''name'', ''display_name'', ''description'', ''mime_type'']"

definition applicationColumn :: "string \<Rightarrow> (ApplicationDB \<Rightarrow> column) option" where
  "applicationColumn c = map_of
     [(''name'', \<lambda>r. CText (adb_Name r)), (''display_name'', \<lambda>r. CText (adb_DisplayName r)),
      (''description'', \<lambda>r. CText (adb_Description r)), (''version'', \<lambda>r. CText (adb_Version r)),
      (''chart_name'', \<lambda>r. CText (adb_ChartName r)), (''chart_version'', \<lambda>r. CText (adb_ChartVersion r)),
      (''create_time'', \<lambda>r. CTime (adb_CreateTime r)), (''update_time'', \<lambda>r. CTime (adb_UpdateTime r))] c"

abbreviation applicationText :: "string list" where
  "applicationText \<equiv> [''name'', ''display_name'', ''description'', ''version'', ''chart_name'', ''chart_version'']"

definition packageColumn :: "string \<Rightarrow> (DeploymentPackageDB \<Rightarrow> column) option" where
  "packageColumn c = map_of
     [(''name'', \<lambda>r. CText (kdb_Name r)), (''display_name'', \<lambda>r. CText (kdb_DisplayName r)),
      (''description'', \<lambda>r. CText (kdb_Description r)), (''version'', \<lambda>r. CText (kdb_Version r)),
      (''create_time'', \<lambda>r. CTime (kdb_CreateTime r)), (''update_time'', \<lambda>r. CTime (kdb_UpdateTime r))] c"

abbreviation packageText :: "string list" where
  "packageText \<equiv> [''name'', ''display_name'', ''description'', ''version'']"

section \<open>Mutations\<close>

text \<open>
  A creation fails on a violated unique index; a deletion on a row that a foreign key without
  action still refers to. Deleting cascades to the owned rows and clears the nullable references.
\<close>

definition createRegistryRow :: "RegistryDB \<Rightarrow> time \<Rightarrow> db \<Rightarrow> (ent_error + RegistryDB) \<times> db" where
  "createRegistryRow row now d =
     (if list_ex (\<lambda>r. rdb_ProjectUUID r = rdb_ProjectUUID row \<and> rdb_Name r = rdb_Name row) (t_registries d)
      then (Inl EntConstraint, d)
      else let row' = row\<lparr>rdb_ID := t_next d, rdb_CreateTime := now, rdb_UpdateTime := now\<rparr>
           in (Inr row', d\<lparr>t_registries := t_registries d @ [row'], t_next := Suc (t_next d)\<rparr>))"

definition updateRows :: "('r \<Rightarrow> bool) \<Rightarrow> ('r \<Rightarrow> 'r) \<Rightarrow> 'r list \<Rightarrow> nat \<times> 'r list" where
  "updateRows P f rows = (length (List.filter P rows), map (\<lambda>r. if P r then f r else r) rows)"

definition updateRegistryRows ::
    "(RegistryDB \<Rightarrow> bool) \<Rightarrow> (RegistryDB \<Rightarrow> RegistryDB) \<Rightarrow> time \<Rightarrow> db \<Rightarrow> (ent_error + nat) \<times> db" where
  "updateRegistryRows P f now d =
     (case updateRows P (\<lambda>r. (f r)\<lparr>rdb_UpdateTime := now\<rparr>) (t_registries d) of
        (n, rows) \<Rightarrow> (Inr n, d\<lparr>t_registries := rows\<rparr>))"

text \<open>Clearing a nullable reference to rows that go.\<close>

definition clearImage :: "nat list \<Rightarrow> ApplicationDB \<Rightarrow> ApplicationDB" where
  "clearImage gone a = (case adb_image_registry_fk a of
     Some i \<Rightarrow> if i \<in> set gone then a\<lparr>adb_image_registry_fk := None\<rparr> else a | None \<Rightarrow> a)"

definition clearDefault :: "nat list \<Rightarrow> ApplicationDB \<Rightarrow> ApplicationDB" where
  "clearDefault gone a = (case adb_default_profile a of
     Some i \<Rightarrow> if i \<in> set gone then a\<lparr>adb_default_profile := None\<rparr> else a | None \<Rightarrow> a)"

definition deleteRegistryRows :: "(RegistryDB \<Rightarrow> bool) \<Rightarrow> time \<Rightarrow> db \<Rightarrow> (ent_error + nat) \<times> db" where
  "deleteRegistryRows P now d =
     (let gone = map rdb_ID (List.filter P (t_registries d))
      in if list_ex (\<lambda>a. adb_registry_fk a \<in> set gone) (t_applications d) then (Inl EntConstraint, d)
         else (Inr (length gone),
               d\<lparr>t_registries := List.filter (\<lambda>r. \<not> P r) (t_registries d),
                 t_applications := map (clearImage gone) (t_applications d)\<rparr>))"

text \<open>
  The column of the payload is not null. No nil payload gets here: the validator of a creation asks for at least four bytes,
  and an upload passes on what the decoder of base64 gives.
\<close>

definition createArtifactRow :: "ArtifactDB \<Rightarrow> time \<Rightarrow> db \<Rightarrow> (ent_error + ArtifactDB) \<times> db" where
  "createArtifactRow row now d =
     (if list_ex (\<lambda>r. tdb_ProjectUUID r = tdb_ProjectUUID row \<and> tdb_Name r = tdb_Name row) (t_artifacts d)
      then (Inl EntConstraint, d)
      else let row' = row\<lparr>tdb_ID := t_next d, tdb_CreateTime := now, tdb_UpdateTime := now\<rparr>
           in (Inr row', d\<lparr>t_artifacts := t_artifacts d @ [row'], t_next := Suc (t_next d)\<rparr>))"

definition updateArtifactRows ::
    "(ArtifactDB \<Rightarrow> bool) \<Rightarrow> (ArtifactDB \<Rightarrow> ArtifactDB) \<Rightarrow> time \<Rightarrow> db \<Rightarrow> (ent_error + nat) \<times> db" where
  "updateArtifactRows P f now d =
     (case updateRows P (\<lambda>r. (f r)\<lparr>tdb_UpdateTime := now\<rparr>) (t_artifacts d) of
        (n, rows) \<Rightarrow> (Inr n, d\<lparr>t_artifacts := rows\<rparr>))"

definition deleteArtifactRows :: "(ArtifactDB \<Rightarrow> bool) \<Rightarrow> time \<Rightarrow> db \<Rightarrow> (ent_error + nat) \<times> db" where
  "deleteArtifactRows P now d =
     (let gone = map tdb_ID (List.filter P (t_artifacts d))
      in if list_ex (\<lambda>f. afdb_artifact f \<in> set gone) (t_artifact_references d) then (Inl EntConstraint, d)
         else (Inr (length gone), d\<lparr>t_artifacts := List.filter (\<lambda>r. \<not> P r) (t_artifacts d)\<rparr>))"

definition createApplicationRow :: "ApplicationDB \<Rightarrow> time \<Rightarrow> db \<Rightarrow> (ent_error + ApplicationDB) \<times> db" where
  "createApplicationRow row now d =
     (if list_ex (\<lambda>a. adb_ProjectUUID a = adb_ProjectUUID row \<and> adb_Name a = adb_Name row \<and>
                     adb_Version a = adb_Version row) (t_applications d)
      then (Inl EntConstraint, d)
      else let row' = row\<lparr>adb_ID := t_next d, adb_CreateTime := now, adb_UpdateTime := now\<rparr>
           in (Inr row', d\<lparr>t_applications := t_applications d @ [row'], t_next := Suc (t_next d)\<rparr>))"

definition updateApplicationRows ::
    "(ApplicationDB \<Rightarrow> bool) \<Rightarrow> (ApplicationDB \<Rightarrow> ApplicationDB) \<Rightarrow> time \<Rightarrow> db \<Rightarrow> (ent_error + nat) \<times> db" where
  "updateApplicationRows P f now d =
     (case updateRows P (\<lambda>r. (f r)\<lparr>adb_UpdateTime := now\<rparr>) (t_applications d) of
        (n, rows) \<Rightarrow> (Inr n, d\<lparr>t_applications := rows\<rparr>))"

text \<open>Deleting profiles: their templates, requirements and links go; the default of an application is cleared.\<close>

definition dropProfiles :: "(ProfileDB \<Rightarrow> bool) \<Rightarrow> db \<Rightarrow> db" where
  "dropProfiles P d =
     (let gone = map pdb_ID (List.filter P (t_profiles d))
      in d\<lparr>t_profiles := List.filter (\<lambda>p. \<not> P p) (t_profiles d),
           t_parameter_templates := List.filter (\<lambda>t. ptdb_profile_fk t \<notin> set gone) (t_parameter_templates d),
           t_deployment_requirements := List.filter (\<lambda>q. drdb_profile_fk q \<notin> set gone) (t_deployment_requirements d),
           t_deployment_profile_profiles := List.filter (\<lambda>l. snd l \<notin> set gone) (t_deployment_profile_profiles d),
           t_applications := map (clearDefault gone) (t_applications d)\<rparr>)"

definition deleteApplicationRows :: "(ApplicationDB \<Rightarrow> bool) \<Rightarrow> time \<Rightarrow> db \<Rightarrow> (ent_error + nat) \<times> db" where
  "deleteApplicationRows P now d =
     (let gone = map adb_ID (List.filter P (t_applications d))
      in if list_ex (\<lambda>q. adepdb_source_fk q \<in> set gone \<or> adepdb_target_fk q \<in> set gone) (t_application_dependencies d)
            \<or> list_ex (\<lambda>q. ansdb_source_fk q \<in> set gone) (t_application_namespaces d)
         then (Inl EntConstraint, d)
         else (let d1 = dropProfiles (\<lambda>p. pdb_application_fk p \<in> set gone) d
               in (Inr (length gone),
                   d1\<lparr>t_applications := List.filter (\<lambda>a. adb_ID a \<notin> set gone) (t_applications d1),
                      t_ignored_resources := List.filter (\<lambda>q. irdb_application_fk q \<notin> set gone) (t_ignored_resources d1),
                      t_package_applications := List.filter (\<lambda>l. snd l \<notin> set gone) (t_package_applications d1)\<rparr>)))"

definition createProfileRow :: "ProfileDB \<Rightarrow> time \<Rightarrow> db \<Rightarrow> (ent_error + ProfileDB) \<times> db" where
  "createProfileRow row now d =
     (if list_ex (\<lambda>p. pdb_application_fk p = pdb_application_fk row \<and> pdb_Name p = pdb_Name row) (t_profiles d)
      then (Inl EntConstraint, d)
      else let row' = row\<lparr>pdb_ID := t_next d, pdb_CreateTime := now, pdb_UpdateTime := now\<rparr>
           in (Inr row', d\<lparr>t_profiles := t_profiles d @ [row'], t_next := Suc (t_next d)\<rparr>))"

definition updateProfileRows ::
    "(ProfileDB \<Rightarrow> bool) \<Rightarrow> (ProfileDB \<Rightarrow> ProfileDB) \<Rightarrow> time \<Rightarrow> db \<Rightarrow> (ent_error + nat) \<times> db" where
  "updateProfileRows P f now d =
     (case updateRows P (\<lambda>r. (f r)\<lparr>pdb_UpdateTime := now\<rparr>) (t_profiles d) of
        (n, rows) \<Rightarrow> (Inr n, d\<lparr>t_profiles := rows\<rparr>))"

definition deleteProfileID :: "nat \<Rightarrow> time \<Rightarrow> db \<Rightarrow> (ent_error + unit) \<times> db" where
  "deleteProfileID i now d =
     (if list_ex (\<lambda>p. pdb_ID p = i) (t_profiles d) then (Inr (), dropProfiles (\<lambda>p. pdb_ID p = i) d)
      else (Inl EntNotFound, d))"

definition createParameterTemplateRow :: "ParameterTemplateDB \<Rightarrow> time \<Rightarrow> db \<Rightarrow> (ent_error + unit) \<times> db" where
  "createParameterTemplateRow row now d =
     (Inr (), d\<lparr>t_parameter_templates := t_parameter_templates d @ [row]\<rparr>)"

definition deleteParameterTemplateRows :: "(ParameterTemplateDB \<Rightarrow> bool) \<Rightarrow> time \<Rightarrow> db \<Rightarrow> (ent_error + nat) \<times> db" where
  "deleteParameterTemplateRows P now d =
     (Inr (length (List.filter P (t_parameter_templates d))),
      d\<lparr>t_parameter_templates := List.filter (\<lambda>t. \<not> P t) (t_parameter_templates d)\<rparr>)"

definition createDeploymentRequirementRow :: "DeploymentRequirementDB \<Rightarrow> time \<Rightarrow> db \<Rightarrow> (ent_error + unit) \<times> db" where
  "createDeploymentRequirementRow row now d =
     (Inr (), d\<lparr>t_deployment_requirements := t_deployment_requirements d @ [row]\<rparr>)"

definition deleteDeploymentRequirementRows ::
    "(DeploymentRequirementDB \<Rightarrow> bool) \<Rightarrow> time \<Rightarrow> db \<Rightarrow> (ent_error + nat) \<times> db" where
  "deleteDeploymentRequirementRows P now d =
     (Inr (length (List.filter P (t_deployment_requirements d))),
      d\<lparr>t_deployment_requirements := List.filter (\<lambda>t. \<not> P t) (t_deployment_requirements d)\<rparr>)"

definition createIgnoredResourceRow :: "IgnoredResourceDB \<Rightarrow> time \<Rightarrow> db \<Rightarrow> (ent_error + unit) \<times> db" where
  "createIgnoredResourceRow row now d =
     (if row \<in> set (t_ignored_resources d) then (Inl EntConstraint, d)
      else (Inr (), d\<lparr>t_ignored_resources := t_ignored_resources d @ [row]\<rparr>))"

definition deleteIgnoredResourceRows :: "(IgnoredResourceDB \<Rightarrow> bool) \<Rightarrow> time \<Rightarrow> db \<Rightarrow> (ent_error + nat) \<times> db" where
  "deleteIgnoredResourceRows P now d =
     (Inr (length (List.filter P (t_ignored_resources d))),
      d\<lparr>t_ignored_resources := List.filter (\<lambda>t. \<not> P t) (t_ignored_resources d)\<rparr>)"

subsection \<open>Deployment packages\<close>

definition createDeploymentPackageRow ::
    "DeploymentPackageDB \<Rightarrow> time \<Rightarrow> db \<Rightarrow> (ent_error + DeploymentPackageDB) \<times> db" where
  "createDeploymentPackageRow row now d =
     (if list_ex (\<lambda>k. kdb_ProjectUUID k = kdb_ProjectUUID row \<and> kdb_Name k = kdb_Name row \<and>
                     kdb_Version k = kdb_Version row) (t_deployment_packages d)
      then (Inl EntConstraint, d)
      else let row' = row\<lparr>kdb_ID := t_next d, kdb_CreateTime := now, kdb_UpdateTime := now\<rparr>
           in (Inr row', d\<lparr>t_deployment_packages := t_deployment_packages d @ [row'], t_next := Suc (t_next d)\<rparr>))"

definition updateDeploymentPackageRows ::
    "(DeploymentPackageDB \<Rightarrow> bool) \<Rightarrow> (DeploymentPackageDB \<Rightarrow> DeploymentPackageDB) \<Rightarrow> time \<Rightarrow> db \<Rightarrow> (ent_error + nat) \<times> db" where
  "updateDeploymentPackageRows P f now d =
     (case updateRows P (\<lambda>r. (f r)\<lparr>kdb_UpdateTime := now\<rparr>) (t_deployment_packages d) of
        (n, rows) \<Rightarrow> (Inr n, d\<lparr>t_deployment_packages := rows\<rparr>))"

text \<open>
  Links of a join table: adding one that is there already does nothing, as the layer's insert
  ignores conflicts on links without columns of their own.
\<close>

definition addLinks :: "nat \<Rightarrow> nat list \<Rightarrow> (nat \<times> nat) list \<Rightarrow> (nat \<times> nat) list" where
  "addLinks k ids links = foldl (\<lambda>ls i. if (k, i) \<in> set ls then ls else ls @ [(k, i)]) links ids"

definition setPackageApplications :: "nat \<Rightarrow> nat list \<Rightarrow> time \<Rightarrow> db \<Rightarrow> (ent_error + unit) \<times> db" where
  "setPackageApplications k ids now d =
     (if \<not> list_ex (\<lambda>r. kdb_ID r = k) (t_deployment_packages d) then (Inl EntNotFound, d)
      else (Inr (), d\<lparr>t_deployment_packages := map (\<lambda>r. if kdb_ID r = k then r\<lparr>kdb_UpdateTime := now\<rparr> else r)
                       (t_deployment_packages d),
                     t_package_applications := addLinks k ids
                       (List.filter (\<lambda>l. fst l \<noteq> k) (t_package_applications d))\<rparr>))"

text \<open>
  Deleting deployment profiles: their links go, the default of a package and the profile of a
  requirement are cleared.
\<close>

definition clearDefaultDeployment :: "nat list \<Rightarrow> DeploymentPackageDB \<Rightarrow> DeploymentPackageDB" where
  "clearDefaultDeployment gone k = (case kdb_default_profile k of
     Some i \<Rightarrow> if i \<in> set gone then k\<lparr>kdb_default_profile := None\<rparr> else k | None \<Rightarrow> k)"

definition clearRequirement :: "nat list \<Rightarrow> DeploymentRequirementDB \<Rightarrow> DeploymentRequirementDB" where
  "clearRequirement gone q = (case drdb_deployment_profile_fk q of
     Some i \<Rightarrow> if i \<in> set gone then q\<lparr>drdb_deployment_profile_fk := None\<rparr> else q | None \<Rightarrow> q)"

definition dropDeploymentProfiles :: "(DeploymentProfileDB \<Rightarrow> bool) \<Rightarrow> db \<Rightarrow> db" where
  "dropDeploymentProfiles P d =
     (let gone = map dpdb_ID (List.filter P (t_deployment_profiles d))
      in d\<lparr>t_deployment_profiles := List.filter (\<lambda>p. \<not> P p) (t_deployment_profiles d),
           t_deployment_profile_profiles := List.filter (\<lambda>l. fst l \<notin> set gone) (t_deployment_profile_profiles d),
           t_deployment_requirements := map (clearRequirement gone) (t_deployment_requirements d),
           t_deployment_packages := map (clearDefaultDeployment gone) (t_deployment_packages d)\<rparr>)"

definition deleteDeploymentProfileID :: "nat \<Rightarrow> time \<Rightarrow> db \<Rightarrow> (ent_error + unit) \<times> db" where
  "deleteDeploymentProfileID i now d =
     (if list_ex (\<lambda>p. dpdb_ID p = i) (t_deployment_profiles d)
      then (Inr (), dropDeploymentProfiles (\<lambda>p. dpdb_ID p = i) d) else (Inl EntNotFound, d))"

text \<open>
  A package goes with everything it owns, unless the requirement of a profile names it.
\<close>

definition deleteDeploymentPackageRows :: "(DeploymentPackageDB \<Rightarrow> bool) \<Rightarrow> time \<Rightarrow> db \<Rightarrow> (ent_error + nat) \<times> db" where
  "deleteDeploymentPackageRows P now d =
     (let gone = map kdb_ID (List.filter P (t_deployment_packages d))
      in if list_ex (\<lambda>q. drdb_deployment_package_fk q \<in> set gone) (t_deployment_requirements d)
         then (Inl EntConstraint, d)
         else (let d1 = dropDeploymentProfiles (\<lambda>p. dpdb_deployment_package_fk p \<in> set gone) d;
                   goneN = map nsdb_ID (List.filter (\<lambda>n. nsdb_deployment_package_fk n \<in> set gone) (t_namespaces d1));
                   goneX = map exdb_ID (List.filter (\<lambda>x. exdb_deployment_package_fk x \<in> set gone) (t_extensions d1))
               in (Inr (length gone),
                   d1\<lparr>t_deployment_packages := List.filter (\<lambda>k. kdb_ID k \<notin> set gone) (t_deployment_packages d1),
                      t_package_applications := List.filter (\<lambda>l. fst l \<notin> set gone) (t_package_applications d1),
                      t_artifact_references := List.filter (\<lambda>f. afdb_deployment_package_fk f \<notin> set gone) (t_artifact_references d1),
                      t_application_dependencies := List.filter (\<lambda>q. adepdb_deployment_package_fk q \<notin> set gone) (t_application_dependencies d1),
                      t_application_namespaces := List.filter (\<lambda>q. ansdb_deployment_package_fk q \<notin> set gone) (t_application_namespaces d1),
                      t_namespaces := List.filter (\<lambda>n. nsdb_ID n \<notin> set goneN) (t_namespaces d1),
                      t_namespace_adornments := List.filter (\<lambda>a. nadb_namespace_fk a \<notin> set goneN) (t_namespace_adornments d1),
                      t_extensions := List.filter (\<lambda>x. exdb_ID x \<notin> set goneX) (t_extensions d1),
                      t_endpoints := List.filter (\<lambda>e. epdb_extension_fk e \<notin> set goneX) (t_endpoints d1)\<rparr>)))"

definition createDeploymentProfileRow ::
    "DeploymentProfileDB \<Rightarrow> nat list \<Rightarrow> time \<Rightarrow> db \<Rightarrow> (ent_error + DeploymentProfileDB) \<times> db" where
  "createDeploymentProfileRow row profileIDs now d =
     (if list_ex (\<lambda>p. dpdb_deployment_package_fk p = dpdb_deployment_package_fk row \<and> dpdb_Name p = dpdb_Name row)
           (t_deployment_profiles d)
      then (Inl EntConstraint, d)
      else let row' = row\<lparr>dpdb_ID := t_next d, dpdb_CreateTime := now, dpdb_UpdateTime := now\<rparr>
           in (Inr row', d\<lparr>t_deployment_profiles := t_deployment_profiles d @ [row'],
                 t_deployment_profile_profiles := addLinks (t_next d) profileIDs (t_deployment_profile_profiles d),
                 t_next := Suc (t_next d)\<rparr>))"

definition updateDeploymentProfileRow ::
    "nat \<Rightarrow> (DeploymentProfileDB \<Rightarrow> DeploymentProfileDB) \<Rightarrow> nat list \<Rightarrow> time \<Rightarrow> db \<Rightarrow> (ent_error + nat) \<times> db" where
  "updateDeploymentProfileRow i f profileIDs now d =
     (case updateRows (\<lambda>r. dpdb_ID r = i) (\<lambda>r. (f r)\<lparr>dpdb_UpdateTime := now\<rparr>) (t_deployment_profiles d) of
        (n, rows) \<Rightarrow> (Inr n, d\<lparr>t_deployment_profiles := rows,
           t_deployment_profile_profiles := (if n = 0 then t_deployment_profile_profiles d
             else addLinks i profileIDs (t_deployment_profile_profiles d))\<rparr>))"

definition createApplicationDependencyRow :: "ApplicationDependencyDB \<Rightarrow> time \<Rightarrow> db \<Rightarrow> (ent_error + unit) \<times> db" where
  "createApplicationDependencyRow row now d =
     (Inr (), d\<lparr>t_application_dependencies := t_application_dependencies d @ [row]\<rparr>)"

definition deleteApplicationDependencyRows :: "(ApplicationDependencyDB \<Rightarrow> bool) \<Rightarrow> time \<Rightarrow> db \<Rightarrow> (ent_error + nat) \<times> db" where
  "deleteApplicationDependencyRows P now d =
     (Inr (length (List.filter P (t_application_dependencies d))),
      d\<lparr>t_application_dependencies := List.filter (\<lambda>q. \<not> P q) (t_application_dependencies d)\<rparr>)"

definition createApplicationNamespaceRow :: "ApplicationNamespaceDB \<Rightarrow> time \<Rightarrow> db \<Rightarrow> (ent_error + unit) \<times> db" where
  "createApplicationNamespaceRow row now d =
     (Inr (), d\<lparr>t_application_namespaces := t_application_namespaces d @ [row]\<rparr>)"

definition deleteApplicationNamespaceRows :: "(ApplicationNamespaceDB \<Rightarrow> bool) \<Rightarrow> time \<Rightarrow> db \<Rightarrow> (ent_error + nat) \<times> db" where
  "deleteApplicationNamespaceRows P now d =
     (Inr (length (List.filter P (t_application_namespaces d))),
      d\<lparr>t_application_namespaces := List.filter (\<lambda>q. \<not> P q) (t_application_namespaces d)\<rparr>)"

definition createNamespaceRow :: "NamespaceDB \<Rightarrow> time \<Rightarrow> db \<Rightarrow> (ent_error + NamespaceDB) \<times> db" where
  "createNamespaceRow row now d =
     (let row' = row\<lparr>nsdb_ID := t_next d\<rparr>
      in (Inr row', d\<lparr>t_namespaces := t_namespaces d @ [row'], t_next := Suc (t_next d)\<rparr>))"

definition createNamespaceAdornmentRow :: "NamespaceAdornmentDB \<Rightarrow> time \<Rightarrow> db \<Rightarrow> (ent_error + unit) \<times> db" where
  "createNamespaceAdornmentRow row now d =
     (Inr (), d\<lparr>t_namespace_adornments := t_namespace_adornments d @ [row]\<rparr>)"

definition deleteNamespaceRows :: "(NamespaceDB \<Rightarrow> bool) \<Rightarrow> time \<Rightarrow> db \<Rightarrow> (ent_error + nat) \<times> db" where
  "deleteNamespaceRows P now d =
     (let gone = map nsdb_ID (List.filter P (t_namespaces d))
      in (Inr (length gone), d\<lparr>t_namespaces := List.filter (\<lambda>n. \<not> P n) (t_namespaces d),
            t_namespace_adornments := List.filter (\<lambda>a. nadb_namespace_fk a \<notin> set gone) (t_namespace_adornments d)\<rparr>))"

definition createExtensionRow :: "ExtensionDB \<Rightarrow> time \<Rightarrow> db \<Rightarrow> (ent_error + ExtensionDB) \<times> db" where
  "createExtensionRow row now d =
     (if list_ex (\<lambda>x. exdb_deployment_package_fk x = exdb_deployment_package_fk row \<and> exdb_Name x = exdb_Name row \<and>
                     exdb_Version x = exdb_Version row) (t_extensions d)
      then (Inl EntConstraint, d)
      else let row' = row\<lparr>exdb_ID := t_next d\<rparr>
           in (Inr row', d\<lparr>t_extensions := t_extensions d @ [row'], t_next := Suc (t_next d)\<rparr>))"

definition deleteExtensionRows :: "(ExtensionDB \<Rightarrow> bool) \<Rightarrow> time \<Rightarrow> db \<Rightarrow> (ent_error + nat) \<times> db" where
  "deleteExtensionRows P now d =
     (let gone = map exdb_ID (List.filter P (t_extensions d))
      in (Inr (length gone), d\<lparr>t_extensions := List.filter (\<lambda>x. \<not> P x) (t_extensions d),
            t_endpoints := List.filter (\<lambda>e. epdb_extension_fk e \<notin> set gone) (t_endpoints d)\<rparr>))"

definition createEndpointRow :: "EndpointDB \<Rightarrow> time \<Rightarrow> db \<Rightarrow> (ent_error + unit) \<times> db" where
  "createEndpointRow row now d =
     (if list_ex (\<lambda>e. epdb_extension_fk e = epdb_extension_fk row \<and> epdb_ServiceName e = epdb_ServiceName row) (t_endpoints d)
      then (Inl EntConstraint, d)
      else (Inr (), d\<lparr>t_endpoints := t_endpoints d @ [row]\<rparr>))"

definition createArtifactReferenceRow :: "ArtifactReferenceDB \<Rightarrow> time \<Rightarrow> db \<Rightarrow> (ent_error + unit) \<times> db" where
  "createArtifactReferenceRow row now d =
     (Inr (), d\<lparr>t_artifact_references := t_artifact_references d @ [row]\<rparr>)"

definition deleteArtifactReferenceRows :: "(ArtifactReferenceDB \<Rightarrow> bool) \<Rightarrow> time \<Rightarrow> db \<Rightarrow> (ent_error + nat) \<times> db" where
  "deleteArtifactReferenceRows P now d =
     (Inr (length (List.filter P (t_artifact_references d))),
      d\<lparr>t_artifact_references := List.filter (\<lambda>f. \<not> P f) (t_artifact_references d)\<rparr>)"

end
