(* ===== verification/Upload_Schema.thy ===== *)
theory Upload_Schema
  imports Catalog_Api "HOL-Library.Multiset"
begin

text \<open>
  The YAML form of the resources, \<^verbatim>\<open>pkg/schema/upload/schema.go\<close>: the structures a document is
  decoded into, the accessors of fields that replaced deprecated ones, and the order in
  which the documents of an upload are loaded. The order \<open>Less\<close> is the one of the code; it is not a
  strict weak order (two applications can be ordered while an artifact is unordered with both),
  so what sorting gives is stated by the rank of the kinds of documents.
\<close>

section \<open>Documents\<close>

record YamlParameterTemplate =
  ypt_Name :: string
  ypt_DisplayName :: string
  ypt_Type :: string
  ypt_Default :: string
  ypt_Validator :: string
  ypt_SuggestedValues :: "string list"
  ypt_Secret :: bool
  ypt_Mandatory :: bool

record YamlDeploymentRequirement =
  ydr_Publisher :: string
  ydr_Name :: string
  ydr_Version :: string
  ydr_DeploymentProfile :: string

record YamlProfile =
  yp_Name :: string
  yp_DisplayName :: string
  yp_Description :: string
  yp_ValuesFileName :: string
  yp_ParameterTemplates :: "YamlParameterTemplate list"
  yp_DeploymentRequirements :: "YamlDeploymentRequirement list"

record YamlApplication =
  ya_Publisher :: string
  ya_Name :: string
  ya_Version :: string

record YamlEndpoint =
  ye_ServiceName :: string
  ye_ExternalPath :: string
  ye_InternalPath :: string
  ye_Scheme :: string
  ye_AuthType :: string
  ye_AppName :: string

record YamlUIExtension =
  yu_ServiceName :: string
  yu_Description :: string
  yu_Label :: "string option"
  yu_FileName :: string
  yu_AppName :: string
  yu_ModuleName :: string

record YamlAPIExtension =
  yx_Name :: string
  yx_Version :: string
  yx_DisplayName :: string
  yx_Description :: string
  yx_Endpoints :: "YamlEndpoint option list"
  yx_UIExtension :: "YamlUIExtension option"

record YamlArtifactReference =
  yar_Publisher :: string
  yar_Name :: string
  yar_Purpose :: string

record YamlApplicationDependency =
  yad_Name :: string
  yad_Requires :: string

record YamlApplicationProfile =
  yap_ApplicationName :: string
  yap_ProfileName :: string

record YamlDeploymentProfile =
  ydp_Name :: string
  ydp_DisplayName :: string
  ydp_Description :: string
  ydp_ApplicationProfiles :: "YamlApplicationProfile list"

record YamlResourceReference =
  yrr_Name :: string
  yrr_Kind :: string
  yrr_Namespace :: string

record YamlNamespace =
  yn_Name :: string
  yn_Labels :: "strmap option"
  yn_Annotations :: "strmap option"

record YamlSpec =
  y_FileName :: string
  y_SpecSchema :: string
  y_SchemaVersion :: string
  y_Name :: string
  y_DisplayName :: string
  y_Version :: string
  y_Kind :: string
  y_Description :: string
  y_HelmRegistry :: string
  y_Type :: string
  y_ChartName :: string
  y_ChartVersion :: string
  y_ImageRegistry :: string
  y_MimeType :: string
  y_Artifact :: string
  y_RootURL :: string
  y_InventoryURL :: string
  y_APIType :: string
  y_UserName :: string
  y_AuthToken :: string
  y_CACerts :: string
  y_Profiles :: "YamlProfile list"
  y_DeploymentProfiles :: "YamlDeploymentProfile list"
  y_DefaultProfile :: string
  y_Applications :: "YamlApplication list"
  y_ApplicationDependencies :: "YamlApplicationDependency list"
  y_Extensions :: "YamlAPIExtension list"
  y_Artifacts :: "YamlArtifactReference list"
  y_DefaultNamespaces :: strmap
  y_Namespaces :: "YamlNamespace list"
  y_IgnoredResources :: "YamlResourceReference list"
  y_IsVisible :: bool
  y_IsDeployed :: bool
  y_ForbidsMultipleDeployments :: bool
  y_Registry :: string
  y_ArtifactReferences :: "YamlArtifactReference list"
  y_RegistryType :: string

abbreviation schemaDeploymentPackage :: string where "schemaDeploymentPackage \<equiv> ''DeploymentPackage''"
abbreviation schemaDeploymentPackageLegacy :: string where "schemaDeploymentPackageLegacy \<equiv> ''Deployment-Package''"
abbreviation schemaApplication :: string where "schemaApplication \<equiv> ''Application''"
abbreviation schemaArtifact :: string where "schemaArtifact \<equiv> ''Artifact''"
abbreviation schemaRegistry :: string where "schemaRegistry \<equiv> ''Registry''"

section \<open>Fields that replaced others\<close>

definition GetHelmRegistry :: "YamlSpec \<Rightarrow> string" where
  "GetHelmRegistry ys = (if y_HelmRegistry ys = [] then y_Registry ys else y_HelmRegistry ys)"

definition GetRegistryType :: "YamlSpec \<Rightarrow> string" where
  "GetRegistryType ys = (if y_Type ys = [] then y_RegistryType ys else y_Type ys)"

definition GetArtifacts :: "YamlSpec \<Rightarrow> YamlArtifactReference list" where
  "GetArtifacts ys = (if y_Artifacts ys = [] \<and> y_ArtifactReferences ys \<noteq> [] then y_ArtifactReferences ys else y_Artifacts ys)"

section \<open>The order of the documents\<close>

text \<open>Go compares strings byte by byte.\<close>

fun lessString :: "string \<Rightarrow> string \<Rightarrow> bool" where
  "lessString s [] = False"
| "lessString [] (d # t) = True"
| "lessString (c # s) (d # t) \<longleftrightarrow> (of_char c :: nat) < of_char d \<or> c = d \<and> lessString s t"

definition Less :: "YamlSpec \<Rightarrow> YamlSpec \<Rightarrow> bool" where
  "Less a b =
     (let iSchema = y_SpecSchema a; jSchema = y_SpecSchema b; byName = lessString (y_Name a) (y_Name b)
      in if iSchema = schemaRegistry then (if jSchema = schemaRegistry then byName else True)
         else if iSchema = schemaApplication then
           (if jSchema = schemaDeploymentPackage then True else if jSchema = schemaApplication then byName else False)
         else if iSchema = schemaArtifact then
           (if jSchema = schemaDeploymentPackage then True else if jSchema = schemaArtifact then byName else False)
         else if iSchema = schemaDeploymentPackage then (if jSchema = schemaDeploymentPackage then byName else False)
         else if iSchema = schemaDeploymentPackageLegacy then
           (if jSchema = schemaDeploymentPackageLegacy then byName else False)
         else byName)"

text \<open>
  \<^verbatim>\<open>sort.Sort\<close> sorts up to twelve elements by insertion: each element is swapped towards the front
  while it is less than the one before it. The prefix already sorted is kept reversed.
  Longer collections are sorted by a method that depends on their contents, a parameter.
\<close>

fun insertBack :: "YamlSpec \<Rightarrow> YamlSpec list \<Rightarrow> YamlSpec list" where
  "insertBack x [] = [x]"
| "insertBack x (y # ys) = (if Less x y then y # insertBack x ys else x # y # ys)"

definition insertionSort :: "YamlSpec list \<Rightarrow> YamlSpec list" where
  "insertionSort specs = rev (fold insertBack specs [])"

definition sortSpecs :: "(YamlSpec list \<Rightarrow> YamlSpec list) \<Rightarrow> YamlSpec list \<Rightarrow> YamlSpec list" where
  "sortSpecs large specs = (if length specs \<le> 12 then insertionSort specs else large specs)"

text \<open>\<^verbatim>\<open>sort.IsSorted\<close>: no element is less than the one before it.\<close>

fun IsSorted :: "YamlSpec list \<Rightarrow> bool" where
  "IsSorted (x # y # ys) \<longleftrightarrow> \<not> Less y x \<and> IsSorted (y # ys)"
| "IsSorted _ = True"

text \<open>The rank of a document: registries, then applications and artifacts, then packages.\<close>

definition rank :: "YamlSpec \<Rightarrow> nat" where
  "rank d = (if y_SpecSchema d = schemaRegistry then 0
     else if y_SpecSchema d = schemaApplication \<or> y_SpecSchema d = schemaArtifact then 1 else 2)"

definition knownSchema :: "YamlSpec \<Rightarrow> bool" where
  "knownSchema d \<longleftrightarrow> y_SpecSchema d \<in> {schemaRegistry, schemaApplication, schemaArtifact, schemaDeploymentPackage}"

text \<open>
  What \<^verbatim>\<open>sort.Sort\<close> promises. It changes the data by \<^verbatim>\<open>Swap\<close> alone, so the result is always a permutation.
  \<^verbatim>\<open>sort.Interface\<close> asks of \<^verbatim>\<open>Less\<close> that it be a transitive ordering, in both senses: less and not less.
  The result is sorted when it is one on the documents at hand, and nothing more is promised. The order here is not one
  as soon as applications and artifacts are mixed: neither is less than the other, whatever their names.
\<close>

definition strictWeakOrder :: "('a \<Rightarrow> 'a \<Rightarrow> bool) \<Rightarrow> 'a set \<Rightarrow> bool" where
  "strictWeakOrder lt A \<longleftrightarrow> (\<forall>a \<in> A. \<not> lt a a) \<and>
     (\<forall>a \<in> A. \<forall>b \<in> A. \<forall>c \<in> A. lt a b \<and> lt b c \<longrightarrow> lt a c) \<and>
     (\<forall>a \<in> A. \<forall>b \<in> A. \<forall>c \<in> A. \<not> lt a b \<and> \<not> lt b c \<longrightarrow> \<not> lt a c)"

definition permutes :: "(YamlSpec list \<Rightarrow> YamlSpec list) \<Rightarrow> bool" where
  "permutes large \<longleftrightarrow> (\<forall>specs. mset (large specs) = mset specs)"

definition sorts :: "(YamlSpec list \<Rightarrow> YamlSpec list) \<Rightarrow> bool" where
  "sorts large \<longleftrightarrow> permutes large \<and> (\<forall>specs. strictWeakOrder Less (set specs) \<longrightarrow> IsSorted (large specs))"

text \<open>Applications and artifacts do not occur together.\<close>

definition unmixed :: "YamlSpec set \<Rightarrow> bool" where
  "unmixed A \<longleftrightarrow> (\<forall>a \<in> A. y_SpecSchema a \<noteq> schemaApplication) \<or> (\<forall>a \<in> A. y_SpecSchema a \<noteq> schemaArtifact)"

section \<open>What the order gives\<close>

lemma mset_insertBack: "mset (insertBack x ys) = add_mset x (mset ys)"
  by (induction ys) auto

lemma mset_insertionSort: "mset (insertionSort specs) = mset specs"
proof -
  have "mset (fold insertBack specs acc) = mset specs + mset acc" for acc
    by (induction specs arbitrary: acc) (auto simp: mset_insertBack)
  then show ?thesis by (simp add: insertionSort_def)
qed

lemma set_sortSpecs:
  assumes "permutes large"
  shows "mset (sortSpecs large specs) = mset specs"
  using assms by (simp add: sortSpecs_def mset_insertionSort permutes_def)

lemma lessString_irrefl: "\<not> lessString s s"
  by (induction s) auto

lemma lessString_asym: "lessString s t \<Longrightarrow> \<not> lessString t s"
  by (induction s t rule: lessString.induct) auto

lemma lessString_trans: "lessString s t \<Longrightarrow> lessString t u \<Longrightarrow> lessString s u"
proof (induction s t arbitrary: u rule: lessString.induct)
  case (2 d t)
  then show ?case by (cases u) auto
next
  case (3 c s d t)
  then show ?case by (cases u) auto
qed simp

lemma lessString_linear: "lessString s t \<or> s = t \<or> lessString t s"
proof (induction s t rule: lessString.induct)
  case (1 s)
  then show ?case by (cases s) auto
next
  case (3 c s d t)
  then show ?case using of_char_eq_iff [where ?'a = nat, of c d] by (auto simp del: of_char_eq_iff)
qed simp

lemma lessString_neg_trans: "\<not> lessString s t \<Longrightarrow> \<not> lessString t u \<Longrightarrow> \<not> lessString s u"
  by (metis lessString_linear lessString_trans)

lemma rank_Less: "knownSchema a \<Longrightarrow> knownSchema b \<Longrightarrow> rank a < rank b \<Longrightarrow> Less a b"
  by (auto simp: knownSchema_def rank_def Less_def split: if_splits)

lemma Less_rank: "knownSchema a \<Longrightarrow> knownSchema b \<Longrightarrow> Less a b \<Longrightarrow> rank a \<le> rank b"
  by (auto simp: knownSchema_def rank_def Less_def Let_def split: if_splits)

lemma Less_asym: "knownSchema a \<Longrightarrow> knownSchema b \<Longrightarrow> Less a b \<Longrightarrow> \<not> Less b a"
  by (auto simp: knownSchema_def Less_def Let_def dest: lessString_asym split: if_splits)

lemma strictWeakOrder_subset: "strictWeakOrder lt B \<Longrightarrow> A \<subseteq> B \<Longrightarrow> strictWeakOrder lt A"
  unfolding strictWeakOrder_def by (meson subsetD)

text \<open>On documents of the four schemas the order is the one of the ranks, and of the names within a schema.\<close>

lemma Less_rank_name:
  assumes "\<forall>a \<in> A. knownSchema a" and "unmixed A" and "a \<in> A" and "b \<in> A"
  shows "Less a b \<longleftrightarrow> rank a < rank b \<or> rank a = rank b \<and> lessString (y_Name a) (y_Name b)"
proof -
  have mixed: "\<not> (y_SpecSchema a = schemaApplication \<and> y_SpecSchema b = schemaArtifact)"
    "\<not> (y_SpecSchema b = schemaApplication \<and> y_SpecSchema a = schemaArtifact)"
    using assms(2-4) unfolding unmixed_def by metis+
  have "y_SpecSchema d = schemaRegistry \<or> y_SpecSchema d = schemaApplication \<or> y_SpecSchema d = schemaArtifact \<or>
      y_SpecSchema d = schemaDeploymentPackage" if "d \<in> A" for d
    using assms(1) that by (auto simp: knownSchema_def)
  from this [OF assms(3)] this [OF assms(4)] mixed show ?thesis
    by (elim disjE) (simp_all add: rank_def Less_def)
qed

lemma Less_strictWeakOrder:
  assumes "\<forall>a \<in> A. knownSchema a" and "unmixed A"
  shows "strictWeakOrder Less A"
  unfolding strictWeakOrder_def
proof (intro conjI ballI impI)
  note less = Less_rank_name [OF assms]
  fix a assume a: "a \<in> A"
  then show "\<not> Less a a" by (simp add: less lessString_irrefl)
  fix b c assume bc: "b \<in> A" "c \<in> A"
  show "Less a c" if "Less a b \<and> Less b c"
    using that lessString_trans [of "y_Name a" "y_Name b" "y_Name c"] by (auto simp: less a bc)
  show "\<not> Less a c" if "\<not> Less a b \<and> \<not> Less b c"
    using that lessString_neg_trans [of "y_Name a" "y_Name b" "y_Name c"] by (auto simp: less a bc)
qed

text \<open>Mixed documents are not ordered so: two applications with an artifact between them.\<close>

lemma mixed_not_strictWeakOrder:
  assumes "y_SpecSchema a = schemaApplication" and "y_SpecSchema b = schemaArtifact" and "y_SpecSchema c = schemaApplication"
    and "lessString (y_Name a) (y_Name c)"
  shows "\<not> strictWeakOrder Less {a, b, c}"
  using assms by (auto simp: strictWeakOrder_def Less_def Let_def)

text \<open>A sorted collection of known documents is in the order of the ranks.\<close>

lemma IsSorted_rank:
  assumes "IsSorted specs" and "\<forall>d \<in> set specs. knownSchema d"
  shows "sorted (map rank specs)"
  using assms
proof (induction specs rule: IsSorted.induct)
  case (1 x y ys)
  then have "rank x \<le> rank y" using rank_Less [of y x] by force
  with 1 show ?case by (auto intro: order_trans)
qed auto

lemma insertBack_sorted:
  assumes "knownSchema x" and "\<forall>d \<in> set ys. knownSchema d" and "sorted (map rank (rev ys))"
  shows "sorted (map rank (rev (insertBack x ys)))"
  using assms
proof (induction ys)
  case Nil
  then show ?case by simp
next
  case (Cons y ys)
  have set: "set (insertBack x ys) = insert x (set ys)" by (metis mset_insertBack set_mset_add_mset_insert set_mset_mset)
  show ?case
  proof (cases "Less x y")
    case True
    with Cons Less_rank [of x y] show ?thesis by (auto simp: sorted_append set)
  next
    case False
    with Cons.prems rank_Less [of x y] have "rank y \<le> rank x" by force
    with False Cons.prems show ?thesis by (auto simp: sorted_append intro: order_trans)
  qed
qed

lemma insertionSort_rank:
  assumes "\<forall>d \<in> set specs. knownSchema d"
  shows "sorted (map rank (insertionSort specs))"
proof -
  have "sorted (map rank (rev (fold insertBack specs acc)))"
    if "\<forall>d \<in> set acc. knownSchema d" "sorted (map rank (rev acc))" "\<forall>d \<in> set specs. knownSchema d" for acc
    using that
  proof (induction specs arbitrary: acc)
    case (Cons x xs)
    have "set (insertBack x acc) = insert x (set acc)" by (metis mset_insertBack set_mset_add_mset_insert set_mset_mset)
    with Cons.prems have "\<forall>d \<in> set (insertBack x acc). knownSchema d" by simp
    moreover have "sorted (map rank (rev (insertBack x acc)))" using Cons.prems insertBack_sorted [of x acc] by simp
    ultimately show ?case using Cons.IH [of "insertBack x acc"] Cons.prems(3) by simp
  qed simp
  from this [of "[]"] assms show ?thesis by (simp add: insertionSort_def)
qed

lemma sortSpecs_rank:
  assumes "sorts large" and known: "\<forall>d \<in> set specs. knownSchema d" and "length specs \<le> 12 \<or> unmixed (set specs)"
  shows "sorted (map rank (sortSpecs large specs))"
proof (cases "length specs \<le> 12")
  case True
  with known show ?thesis by (simp add: sortSpecs_def insertionSort_rank)
next
  case False
  with assms(3) have "strictWeakOrder Less (set specs)" using Less_strictWeakOrder [OF known] by simp
  then have "IsSorted (large specs)" using assms(1) by (simp add: sorts_def)
  moreover have "set (large specs) = set specs" using assms(1) by (metis sorts_def permutes_def mset_eq_setD)
  ultimately show ?thesis using False known IsSorted_rank [of "large specs"] by (simp add: sortSpecs_def)
qed

text \<open>The promise can be kept: insertion keeps it at every length.\<close>

lemma IsSorted_append:
  "IsSorted (xs @ [y]) \<longleftrightarrow> IsSorted xs \<and> (xs = [] \<or> \<not> Less y (last xs))"
  by (induction xs rule: IsSorted.induct) auto

lemma insertBack_IsSorted:
  assumes "strictWeakOrder Less (set (x # ys))" and "IsSorted (rev ys)"
  shows "IsSorted (rev (insertBack x ys))"
  using assms
proof (induction ys)
  case Nil
  then show ?case by simp
next
  case (Cons y ys)
  have sub: "strictWeakOrder Less (set (x # ys))"
    using Cons.prems(1) by (rule strictWeakOrder_subset) auto
  have asym: "\<not> Less y x" if "Less x y"
    using that Cons.prems(1) unfolding strictWeakOrder_def by auto
  have "insertBack x ys \<noteq> []" "hd (insertBack x ys) = x \<or> (ys \<noteq> [] \<and> hd (insertBack x ys) = hd ys)"
    by (cases ys; simp)+
  with Cons.IH [OF sub] Cons.prems(2) asym IsSorted_append [of "rev ys @ [y]" x] show ?case
    by (auto simp: IsSorted_append last_rev)
qed

lemma sorts_insertionSort: "sorts insertionSort"
proof -
  have "IsSorted (rev (fold insertBack specs acc))"
    if "strictWeakOrder Less (set acc \<union> set specs)" "IsSorted (rev acc)" for specs acc
    using that
  proof (induction specs arbitrary: acc)
    case (Cons x xs)
    have eq: "set (insertBack x acc) = insert x (set acc)" by (metis mset_insertBack set_mset_add_mset_insert set_mset_mset)
    have "strictWeakOrder Less (set (x # acc))" using Cons.prems(1) by (rule strictWeakOrder_subset) auto
    with Cons eq insertBack_IsSorted [of x acc] show ?case by simp
  qed simp
  from this [of "[]"] show ?thesis by (simp add: sorts_def permutes_def mset_insertionSort) (simp add: insertionSort_def)
qed

end
