(* ===== verification/Transactions.thy ===== *)
theory Transactions
  imports Catalog_DB Upload_Schema
begin

text \<open>
  The server around the handlers: transactions (\<^verbatim>\<open>startTransaction\<close>, \<^verbatim>\<open>commitTransaction\<close>,
  \<^verbatim>\<open>rollbackTransaction\<close> of \<^verbatim>\<open>service.go\<close>), the authorization check of \<^verbatim>\<open>authorization.go\<close>, the
  calls to the secret service, and the environment: everything the handlers call that is not part
  of the repository. \<open>sv_open\<close> counts the transactions that were started and neither
  committed nor rolled back, each of which holds a database connection.

  The lemmas give the meaning of the shape most handlers have, \<open>withTransaction\<close>: an error
  leaves the committed tables and the listeners' streams as they were, success commits exactly
  the tables the body leaves, and in both cases no transaction stays open.
\<close>

section \<open>Environment\<close>

text \<open>
  The parameters of the model: the policy agent, the switch and the encoder of the secrets, the
  certificate of the cluster, the malware scanner, the parsers of payloads, the database engine,
  the orders in which a loop over a map of profiles or of deployment profiles visits them, whether the
  fields that the protobuf runtime keeps for itself in an extension agree with those of a freshly built
  message (\<^verbatim>\<open>reflect.DeepEqual\<close> compares them too), the fault schedule and the time of the transaction.
  For uploads: the identifier of a new session, the reader of compressed archives, the decoder of YAML
  documents, the check of a file against the YAML schema, the decoder of base64, the order in which a loop over
  a set of files visits it, the sorting of more than twelve documents, and the text of an error.
\<close>

text \<open>
  An entry of an archive: whether it is a regular file, its name, its contents, and the error that reading
  it ends with, if any. An archive gives its entries and then ends or fails.
\<close>

record tarEntry =
  te_regular :: bool
  te_Name :: string
  te_contents :: string
  te_error :: "string option"

record registrySecretData =
  sd_RootURL :: string
  sd_InventoryURL :: string
  sd_Username :: string
  sd_AuthToken :: string
  sd_Cacerts :: string

text \<open>
  What the policy agent answers: no answer, an answer other than 200 (whose parsed body is nil),
  a boolean, an object, or a result that is neither.
\<close>

datatype opa_response = OpaFailure string | OpaNot200 | OpaBool bool | OpaObject | OpaOther

datatype scan_result = ScanError string | ScanClean | ScanInfected string

record scanner =
  sc_ScanBytes :: "string \<Rightarrow> scan_result"
  sc_permissive :: bool

record env =
  e_opa :: "(Request \<Rightarrow> string \<Rightarrow> metadata \<Rightarrow> opa_response) option"
  e_UseSecretService :: bool
  e_EncodeBase64 :: "registrySecretData \<Rightarrow> string"
  e_DecodeBase64 :: "string \<Rightarrow> registrySecretData option"
  e_readTLSCert :: "string option"
  e_scanner :: "scanner option"
  e_json :: "string \<Rightarrow> bool"
  e_yaml :: "string \<Rightarrow> bool"
  e_png :: "string \<Rightarrow> bool"
  e_jpeg :: "string \<Rightarrow> bool"
  e_engine :: engine
  e_rangeProfiles :: "Profile list \<Rightarrow> Profile list"
  e_rangeDeploymentProfiles :: "DeploymentProfile list \<Rightarrow> DeploymentProfile list"
  e_sameState :: "APIExtension \<Rightarrow> bool"
  e_uuid :: string
  e_untar :: "string \<Rightarrow> string + tarEntry list \<times> string option"
  e_yamlDocs :: "string \<Rightarrow> YamlSpec list \<times> string option"
  e_yamlSchema :: "string \<Rightarrow> string option"
  e_base64 :: "string \<Rightarrow> string + string"
  e_rangeFiles :: "(string \<times> string) list \<Rightarrow> (string \<times> string) list"
  e_sort :: "YamlSpec list \<Rightarrow> YamlSpec list"
  e_errorText :: "Status \<Rightarrow> string"
  e_fault :: "nat \<Rightarrow> bool"
  e_now :: time

section \<open>Server and transactions\<close>

record tx =
  tx_db :: db
  tx_vault :: "string \<Rightarrow> string option"
  tx_fault :: "nat \<Rightarrow> bool"
  tx_clock :: nat
  tx_now :: time
  tx_regEvents :: RegistryEvents
  tx_artEvents :: ArtifactEvents
  tx_appEvents :: ApplicationEvents
  tx_pkgEvents :: DeploymentPackageEvents

text \<open>An upload session: the files uploaded so far and the events its loading queued.\<close>

record uploadSession =
  us_sessionID :: string
  us_projectUUID :: string
  us_uploads :: "Upload list"
  us_registryEvents :: RegistryEvents
  us_artifactEvents :: ArtifactEvents
  us_applicationEvents :: ApplicationEvents
  us_deploymentPackageEvents :: DeploymentPackageEvents

record server =
  sv_db :: db
  sv_vault :: "string \<Rightarrow> string option"
  sv_listeners :: EventListeners
  sv_open :: nat
  sv_regOut :: "(chan \<times> WatchRegistriesResponse) list"
  sv_artOut :: "(chan \<times> WatchArtifactsResponse) list"
  sv_appOut :: "(chan \<times> WatchApplicationsResponse) list"
  sv_pkgOut :: "(chan \<times> WatchDeploymentPackagesResponse) list"
  sv_sessions :: "(string \<times> uploadSession) list"

definition Register :: server where
  "Register = \<lparr>sv_db = empty_db, sv_vault = (\<lambda>_. None), sv_listeners = NewEventListeners, sv_open = 0,
     sv_regOut = [], sv_artOut = [], sv_appOut = [], sv_pkgOut = [], sv_sessions = []\<rparr>"

type_synonym 'a txm = "(tx, Status, 'a) m"

definition startTransaction :: "env \<Rightarrow> server \<Rightarrow> (ent_error + tx) \<times> server" where
  "startTransaction env srv =
     (if e_fault env 0 then (Inl EntFailure, srv)
      else (Inr \<lparr>tx_db = sv_db srv, tx_vault = sv_vault srv, tx_fault = e_fault env, tx_clock = 1,
                 tx_now = e_now env, tx_regEvents = [], tx_artEvents = [], tx_appEvents = [],
                 tx_pkgEvents = []\<rparr>,
            srv\<lparr>sv_open := Suc (sv_open srv)\<rparr>))"

text \<open>A failed commit discards the tables; the secrets written stay.\<close>

definition commitTransaction :: "tx \<Rightarrow> server \<Rightarrow> (ent_error + unit) \<times> server" where
  "commitTransaction t srv =
     (if tx_fault t (tx_clock t)
      then (Inl EntFailure, srv\<lparr>sv_vault := tx_vault t, sv_open := sv_open srv - 1\<rparr>)
      else (Inr (), srv\<lparr>sv_db := tx_db t, sv_vault := tx_vault t, sv_open := sv_open srv - 1\<rparr>))"

definition rollbackTransaction :: "tx \<Rightarrow> server \<Rightarrow> server" where
  "rollbackTransaction t srv = srv\<lparr>sv_vault := tx_vault t, sv_open := sv_open srv - 1\<rparr>"

text \<open>Returning without ending the transaction: only the secrets written remain visible.\<close>

definition abandonTransaction :: "tx \<Rightarrow> server \<Rightarrow> server" where
  "abandonTransaction t srv = srv\<lparr>sv_vault := tx_vault t\<rparr>"

text \<open>
  The common shape of a handler: start, run the body, roll back and return its error, or commit.
  The transaction is returned for the events it queued.
\<close>

definition withTransaction :: "env \<Rightarrow> 'a txm \<Rightarrow> server \<Rightarrow> (Status + 'a \<times> tx) \<times> server" where
  "withTransaction env body srv =
     (case startTransaction env srv of
        (Inl e, srv1) \<Rightarrow> (Inl (dbError e), srv1)
      | (Inr t, srv1) \<Rightarrow>
          (case body t of
             (Inl e, t1) \<Rightarrow> (Inl e, rollbackTransaction t1 srv1)
           | (Inr v, t1) \<Rightarrow>
               (case commitTransaction t1 srv1 of
                  (Inl e, srv2) \<Rightarrow> (Inl (dbError e), srv2)
                | (Inr _, srv2) \<Rightarrow> (Inr (v, t1), srv2))))"

section \<open>Calls that can fail\<close>

definition external :: "(tx \<Rightarrow> (ent_error + 'a) \<times> tx) \<Rightarrow> (ent_error + 'a) txm" where
  "external f s =
     (let s1 = s\<lparr>tx_clock := Suc (tx_clock s)\<rparr>
      in if tx_fault s (tx_clock s) then (Inr (Inl EntFailure), s1)
         else (case f s1 of (r, s2) \<Rightarrow> (Inr r, s2)))"

definition query :: "(db \<Rightarrow> ent_error + 'a) \<Rightarrow> (ent_error + 'a) txm" where
  "query f = external (\<lambda>s. (f (tx_db s), s))"

definition mutate :: "(time \<Rightarrow> db \<Rightarrow> (ent_error + 'a) \<times> db) \<Rightarrow> (ent_error + 'a) txm" where
  "mutate f = external (\<lambda>s. case f (tx_now s) (tx_db s) of (r, d) \<Rightarrow> (r, s\<lparr>tx_db := d\<rparr>))"

text \<open>The secret service: logging in and the three operations on a path.\<close>

definition SecretServiceFactory :: "(ent_error + unit) txm" where
  "SecretServiceFactory = external (\<lambda>s. (Inr (), s))"

definition ReadSecret :: "string \<Rightarrow> (ent_error + string) txm" where
  "ReadSecret path = external (\<lambda>s. (case tx_vault s path of None \<Rightarrow> Inl EntNotFound | Some v \<Rightarrow> Inr v, s))"

definition WriteSecret :: "string \<Rightarrow> string \<Rightarrow> (ent_error + unit) txm" where
  "WriteSecret path v = external (\<lambda>s. (Inr (), s\<lparr>tx_vault := (tx_vault s)(path \<mapsto> v)\<rparr>))"

definition DeleteSecret :: "string \<Rightarrow> (ent_error + unit) txm" where
  "DeleteSecret path = external (\<lambda>s. (Inr (), s\<lparr>tx_vault := (tx_vault s)(path := None)\<rparr>))"

text \<open>\<^verbatim>\<open>if err != nil { return NewDBError(WithError(err)) }\<close>\<close>

definition orDBError :: "(ent_error + 'a) txm \<Rightarrow> 'a txm" where
  "orDBError x = bnd x (\<lambda>r. case r of Inl e \<Rightarrow> throw (dbError e) | Inr v \<Rightarrow> ret v)"

definition vaultError :: "ent_error \<Rightarrow> Status" where
  "vaultError e = NewVaultError [WithError (ent_text e)]"

definition orVaultError :: "(ent_error + 'a) txm \<Rightarrow> 'a txm" where
  "orVaultError x = bnd x (\<lambda>r. case r of Inl e \<Rightarrow> throw (vaultError e) | Inr v \<Rightarrow> ret v)"

definition goPanic :: Status where
  "goPanic = \<lparr>st_code = Unknown, st_format = ''panic'', st_args = []\<rparr>"

text \<open>An error of the database returned as it is: gRPC gives it the code of unknown errors.\<close>

definition rawError :: "ent_error \<Rightarrow> Status" where
  "rawError e = \<lparr>st_code = Unknown, st_format = ent_text e, st_args = []\<rparr>"

definition orRawError :: "(ent_error + 'a) txm \<Rightarrow> 'a txm" where
  "orRawError x = bnd x (\<lambda>r. case r of Inl e \<Rightarrow> throw (rawError e) | Inr v \<Rightarrow> ret v)"

section \<open>Authorization\<close>

definition authCheckAllowed :: "env \<Rightarrow> metadata option \<Rightarrow> Request \<Rightarrow> string list \<Rightarrow> unit result" where
  "authCheckAllowed env ctx request customRequestName =
     (case e_opa env of
        None \<Rightarrow> Inr ()
      | Some opa \<Rightarrow>
          (case ctx of
             None \<Rightarrow> Inl (NewInvalidArgument [WithMessage ''authentication failed'' []])
           | Some md \<Rightarrow>
               (let name = (case customRequestName of [] \<Rightarrow> requestName request | n # _ \<Rightarrow> n)
                in case opa request name md of
                     OpaFailure err \<Rightarrow> Inl \<lparr>st_code = Unknown, st_format = err, st_args = []\<rparr>
                   | OpaNot200 \<Rightarrow> Inl goPanic
                   | OpaBool True \<Rightarrow> Inr ()
                   | OpaBool False \<Rightarrow> Inl (NewPermissionDenied [])
                   | OpaObject \<Rightarrow> Inl (NewPermissionDenied [])
                   | OpaOther \<Rightarrow> Inl (NewPermissionDenied []))))"

section \<open>Deletion results\<close>

text \<open>\<^verbatim>\<open>checkDeleteResult\<close> for a transaction: roll back and return the error, or commit.\<close>

definition checkDeleteResult :: "tx \<Rightarrow> Status option \<Rightarrow> server \<Rightarrow> unit result \<times> server" where
  "checkDeleteResult t err srv =
     (case err of
        Some e \<Rightarrow> (Inl e, rollbackTransaction t srv)
      | None \<Rightarrow>
          (case commitTransaction t srv of
             (Inl e, srv1) \<Rightarrow> (Inl (dbError e), srv1)
           | (Inr _, srv1) \<Rightarrow> (Inr (), srv1)))"

section \<open>Sending the events of a transaction\<close>

definition sendRegistry :: "tx \<Rightarrow> server \<Rightarrow> server" where
  "sendRegistry t srv =
     srv\<lparr>sv_regOut := sv_regOut srv @ sendToAllRegistryEvents (tx_regEvents t) (sv_listeners srv)\<rparr>"

definition sendArtifact :: "tx \<Rightarrow> server \<Rightarrow> server" where
  "sendArtifact t srv =
     srv\<lparr>sv_artOut := sv_artOut srv @ sendToAllArtifactEvents (tx_artEvents t) (sv_listeners srv)\<rparr>"

definition sendApplication :: "tx \<Rightarrow> server \<Rightarrow> server" where
  "sendApplication t srv =
     srv\<lparr>sv_appOut := sv_appOut srv @ sendToAllApplicationEvents (tx_appEvents t) (sv_listeners srv)\<rparr>"

definition sendDeploymentPackage :: "tx \<Rightarrow> server \<Rightarrow> server" where
  "sendDeploymentPackage t srv =
     srv\<lparr>sv_pkgOut := sv_pkgOut srv @ sendToAllDeploymentPackageEvents (tx_pkgEvents t) (sv_listeners srv)\<rparr>"

section \<open>Laws\<close>

lemma startTransaction_cases:
  "startTransaction env srv = (Inl EntFailure, srv) \<or>
   (\<exists>t. startTransaction env srv = (Inr t, srv\<lparr>sv_open := Suc (sv_open srv)\<rparr>) \<and> tx_db t = sv_db srv \<and>
        tx_vault t = sv_vault srv)"
  by (simp add: startTransaction_def)

text \<open>The part of the server that only a successful handler changes.\<close>

definition visible :: "server \<Rightarrow> db \<times> EventListeners \<times> nat \<times> (chan \<times> WatchRegistriesResponse) list \<times>
    (chan \<times> WatchArtifactsResponse) list \<times> (chan \<times> WatchApplicationsResponse) list \<times>
    (chan \<times> WatchDeploymentPackagesResponse) list" where
  "visible srv = (sv_db srv, sv_listeners srv, sv_open srv, sv_regOut srv, sv_artOut srv, sv_appOut srv,
     sv_pkgOut srv)"

text \<open>The same without the count of open transactions, which some error paths do change.\<close>

definition public :: "server \<Rightarrow> db \<times> EventListeners \<times> (chan \<times> WatchRegistriesResponse) list \<times>
    (chan \<times> WatchArtifactsResponse) list \<times> (chan \<times> WatchApplicationsResponse) list \<times>
    (chan \<times> WatchDeploymentPackagesResponse) list" where
  "public srv = (sv_db srv, sv_listeners srv, sv_regOut srv, sv_artOut srv, sv_appOut srv, sv_pkgOut srv)"

lemma visible_public: "visible srv = visible srv' \<Longrightarrow> public srv = public srv'"
  by (simp add: visible_def public_def)

lemmas transaction_defs = startTransaction_def commitTransaction_def rollbackTransaction_def
  abandonTransaction_def

text \<open>Equations that run a computation.\<close>

lemmas monad_eval = bnd_def ret_def throw_def liftE_def modify_def query_def mutate_def external_def orDBError_def
  orVaultError_def orRawError_def SecretServiceFactory_def ReadSecret_def WriteSecret_def DeleteSecret_def

lemmas transaction_eval = withTransaction_def startTransaction_def commitTransaction_def rollbackTransaction_def
  abandonTransaction_def

text \<open>What a successful computation did: equations that take it apart. A query that succeeded saw the tables.\<close>

lemma bnd_Inr: "bnd x f t = (Inr v, t2) \<longleftrightarrow> (\<exists>u t1. x t = (Inr u, t1) \<and> f u t1 = (Inr v, t2))"
  by (auto simp: bnd_def split: prod.splits sum.splits)

lemma ret_Inr: "ret x t = (Inr v, t1) \<longleftrightarrow> v = x \<and> t1 = t"
  by (auto simp: ret_def)

lemma throw_Inr: "throw e t = (Inr v, t1) \<longleftrightarrow> False"
  by (simp add: throw_def)

lemma liftE_Inr: "liftE r t = (Inr v, t1) \<longleftrightarrow> r = Inr v \<and> t1 = t"
  by (auto simp: liftE_def)

lemma modify_Inr: "modify f t = (Inr v, t1) \<longleftrightarrow> t1 = f t"
  by (auto simp: modify_def)

definition tick :: "tx \<Rightarrow> tx" where
  "tick t = t\<lparr>tx_clock := Suc (tx_clock t)\<rparr>"

lemma tick_simps [simp]:
  "tx_db (tick t) = tx_db t" "tx_vault (tick t) = tx_vault t" "tx_now (tick t) = tx_now t" "tx_fault (tick t) = tx_fault t"
  "tx_regEvents (tick t) = tx_regEvents t" "tx_artEvents (tick t) = tx_artEvents t"
  "tx_appEvents (tick t) = tx_appEvents t" "tx_pkgEvents (tick t) = tx_pkgEvents t"
  by (simp_all add: tick_def)

lemma query_Inr:
  "query f t = (Inr q, t1) \<longleftrightarrow>
   q = (if tx_fault t (tx_clock t) then Inl EntFailure else f (tx_db t)) \<and> t1 = tick t"
  by (auto simp: query_def external_def Let_def tick_def)

lemma mutate_Inr:
  "mutate f t = (Inr q, t1) \<longleftrightarrow>
   (if tx_fault t (tx_clock t) then q = Inl EntFailure \<and> t1 = tick t
    else \<exists>d. f (tx_now t) (tx_db t) = (q, d) \<and> t1 = (tick t)\<lparr>tx_db := d\<rparr>)"
  by (auto simp: mutate_def external_def Let_def tick_def split: prod.splits)

lemma orDBError_query_Inr:
  "orDBError (query f) t = (Inr v, t1) \<longleftrightarrow> \<not> tx_fault t (tx_clock t) \<and> f (tx_db t) = Inr v \<and> t1 = tick t"
  by (auto simp: orDBError_def bnd_Inr query_Inr ret_Inr throw_Inr split: sum.splits if_splits)

lemma orRawError_query_Inr:
  "orRawError (query f) t = (Inr v, t1) \<longleftrightarrow> \<not> tx_fault t (tx_clock t) \<and> f (tx_db t) = Inr v \<and> t1 = tick t"
  by (auto simp: orRawError_def bnd_Inr query_Inr ret_Inr throw_Inr split: sum.splits if_splits)

lemma orDBError_mutate_Inr:
  "orDBError (mutate f) t = (Inr v, t1) \<longleftrightarrow>
   \<not> tx_fault t (tx_clock t) \<and> (\<exists>d. f (tx_now t) (tx_db t) = (Inr v, d) \<and> t1 = (tick t)\<lparr>tx_db := d\<rparr>)"
  by (cases "tx_fault t (tx_clock t)"; cases "f (tx_now t) (tx_db t)"; cases "fst (f (tx_now t) (tx_db t))")
    (auto simp: orDBError_def bnd_def mutate_def external_def tick_def ret_def throw_def Let_def)

lemma secrets_Inr:
  "orVaultError SecretServiceFactory t = (Inr u, t1) \<longleftrightarrow> \<not> tx_fault t (tx_clock t) \<and> t1 = tick t"
  "orVaultError (ReadSecret p) t = (Inr v, t1) \<longleftrightarrow>
     \<not> tx_fault t (tx_clock t) \<and> tx_vault t p = Some v \<and> t1 = tick t"
  "orVaultError (WriteSecret p w) t = (Inr u, t1) \<longleftrightarrow>
     \<not> tx_fault t (tx_clock t) \<and> t1 = (tick t)\<lparr>tx_vault := (tx_vault t)(p \<mapsto> w)\<rparr>"
  "orVaultError (DeleteSecret p) t = (Inr u, t1) \<longleftrightarrow>
     \<not> tx_fault t (tx_clock t) \<and> t1 = (tick t)\<lparr>tx_vault := (tx_vault t)(p := None)\<rparr>"
  by (auto simp: orVaultError_def SecretServiceFactory_def ReadSecret_def WriteSecret_def DeleteSecret_def external_def
      tick_def bnd_def ret_def throw_def Let_def split: option.splits)

lemmas success_simps = bnd_Inr ret_Inr throw_Inr liftE_Inr modify_Inr query_Inr mutate_Inr orDBError_query_Inr
  orRawError_query_Inr orDBError_mutate_Inr secrets_Inr

lemma withTransaction_error:
  assumes "withTransaction env body srv = (Inl e, srv')"
  shows "visible srv' = visible srv"
  using assms by (auto simp: withTransaction_def transaction_defs visible_def split: if_splits prod.splits sum.splits)

lemma withTransaction_success:
  assumes "withTransaction env body srv = (Inr (v, t), srv')"
  shows "\<exists>t0. startTransaction env srv = (Inr t0, srv\<lparr>sv_open := Suc (sv_open srv)\<rparr>) \<and>
     body t0 = (Inr v, t) \<and> srv' = srv\<lparr>sv_db := tx_db t, sv_vault := tx_vault t\<rparr>"
  using assms
  by (auto simp: withTransaction_def transaction_defs split: if_splits prod.splits sum.splits)

lemma withTransaction_open:
  "withTransaction env body srv = (r, srv') \<Longrightarrow> sv_open srv' = sv_open srv"
  by (cases r) (auto dest!: withTransaction_success dest: withTransaction_error simp: visible_def)

text \<open>The same for the handlers that call the three functions themselves.\<close>

lemma startTransaction_Inr:
  "startTransaction env srv = (Inr t, srv1) \<Longrightarrow>
   srv1 = srv\<lparr>sv_open := Suc (sv_open srv)\<rparr> \<and> tx_db t = sv_db srv \<and> tx_vault t = sv_vault srv \<and>
   tx_fault t = e_fault env \<and> tx_clock t = 1 \<and> tx_now t = e_now env \<and> tx_regEvents t = [] \<and>
   tx_artEvents t = [] \<and> tx_appEvents t = [] \<and> tx_pkgEvents t = []"
  by (auto simp: startTransaction_def split: if_splits)

lemma startTransaction_Inl: "startTransaction env srv = (Inl e, srv1) \<Longrightarrow> srv1 = srv"
  by (auto simp: startTransaction_def split: if_splits)

lemma commitTransaction_Inl:
  "commitTransaction t srv = (Inl e, srv1) \<Longrightarrow> srv1 = srv\<lparr>sv_vault := tx_vault t, sv_open := sv_open srv - 1\<rparr>"
  by (auto simp: commitTransaction_def split: if_splits)

lemma commitTransaction_Inr:
  "commitTransaction t srv = (Inr u, srv1) \<Longrightarrow>
   srv1 = srv\<lparr>sv_db := tx_db t, sv_vault := tx_vault t, sv_open := sv_open srv - 1\<rparr>"
  by (auto simp: commitTransaction_def split: if_splits)

lemma authCheckAllowed_ok:
  assumes "e_opa env = Some opa" and "authCheckAllowed env ctx request names = Inr ()"
  shows "\<exists>md. ctx = Some md \<and>
     opa request (case names of [] \<Rightarrow> requestName request | n # _ \<Rightarrow> n) md = OpaBool True"
  using assms by (auto simp: authCheckAllowed_def Let_def split: option.splits opa_response.splits bool.splits)

subsection \<open>Invariants of the tables\<close>

text \<open>A computation keeps a property of the tables if each of its mutations does.\<close>

abbreviation keepsDB :: "(db \<Rightarrow> bool) \<Rightarrow> 'a txm \<Rightarrow> bool" where
  "keepsDB I x \<equiv> keeps (\<lambda>s. I (tx_db s)) x"

lemma keepsDB_external:
  "(\<And>s r t. f s = (r, t) \<Longrightarrow> I (tx_db s) \<Longrightarrow> I (tx_db t)) \<Longrightarrow> keepsDB I (external f)"
  by (rule keepsI) (auto simp: external_def Let_def split: prod.splits)

lemma keepsDB_query [keeps_intro]: "keepsDB I (query f)"
  unfolding query_def by (rule keepsDB_external) auto

lemma keepsDB_mutate:
  assumes "\<And>n d. I d \<Longrightarrow> I (snd (f n d))"
  shows "keepsDB I (mutate f)"
  unfolding mutate_def
proof (rule keepsDB_external)
  fix s r t
  assume step: "(case f (tx_now s) (tx_db s) of (r, d) \<Rightarrow> (r, s\<lparr>tx_db := d\<rparr>)) = (r, t)" and I: "I (tx_db s)"
  obtain q d where f: "f (tx_now s) (tx_db s) = (q, d)" by (cases "f (tx_now s) (tx_db s)")
  with assms [OF I, of "tx_now s"] have "I d" by simp
  with step f show "I (tx_db t)" by auto
qed

lemma keepsDB_secrets [keeps_intro]:
  "keepsDB I SecretServiceFactory" "keepsDB I (ReadSecret p)" "keepsDB I (WriteSecret p v)"
  "keepsDB I (DeleteSecret p)"
  unfolding SecretServiceFactory_def ReadSecret_def WriteSecret_def DeleteSecret_def
  by (rule keepsDB_external; auto)+

lemma keepsDB_orDBError [keeps_intro]: "keepsDB I x \<Longrightarrow> keepsDB I (orDBError x)"
  unfolding orDBError_def by (auto intro!: keeps_intro)

lemma keepsDB_orVaultError [keeps_intro]: "keepsDB I x \<Longrightarrow> keepsDB I (orVaultError x)"
  unfolding orVaultError_def by (auto intro!: keeps_intro)

lemma keepsDB_orRawError [keeps_intro]: "keepsDB I x \<Longrightarrow> keepsDB I (orRawError x)"
  unfolding orRawError_def by (auto intro!: keeps_intro)

lemma keepsDB_modify_events [keeps_intro]:
  "keepsDB I (modify (\<lambda>s. s\<lparr>tx_regEvents := f1 s\<rparr>))" "keepsDB I (modify (\<lambda>s. s\<lparr>tx_artEvents := f2 s\<rparr>))"
  "keepsDB I (modify (\<lambda>s. s\<lparr>tx_appEvents := f3 s\<rparr>))" "keepsDB I (modify (\<lambda>s. s\<lparr>tx_pkgEvents := f4 s\<rparr>))"
  by (auto simp: keeps_def modify_def)

text \<open>Lifting to the server: a handler of the common shape keeps what its body keeps.\<close>

lemma withTransaction_keeps:
  assumes "keepsDB I body" and "I (sv_db srv)" and "withTransaction env body srv = (r, srv')"
  shows "I (sv_db srv')"
proof (cases r)
  case (Inl e)
  with assms show ?thesis using withTransaction_error [of env body srv e srv'] by (simp add: visible_def)
next
  case (Inr vt)
  obtain v t where "vt = (v, t)" by (cases vt)
  with Inr assms(3) obtain t0 where t0: "startTransaction env srv = (Inr t0, srv\<lparr>sv_open := Suc (sv_open srv)\<rparr>)"
    "body t0 = (Inr v, t)" "srv' = srv\<lparr>sv_db := tx_db t, sv_vault := tx_vault t\<rparr>"
    using withTransaction_success [of env body srv v t srv'] by auto
  then have "tx_db t0 = sv_db srv" by (auto simp: startTransaction_def split: if_splits)
  with assms(1,2) have "I (tx_db (snd (body t0)))" by (auto simp: keeps_def)
  with t0 show ?thesis by simp
qed

text \<open>A branch that succeeded was not the one that throws.\<close>

lemma branch_Inr:
  "(case r of Inl e \<Rightarrow> throw (h e) | Inr v \<Rightarrow> k v) t = (Inr w, t2) \<longleftrightarrow> (\<exists>v. r = Inr v \<and> k v t = (Inr w, t2))"
  "(case r' of None \<Rightarrow> throw e' | Some v \<Rightarrow> k v) t = (Inr w, t2) \<longleftrightarrow> (\<exists>v. r' = Some v \<and> k v t = (Inr w, t2))"
  "(if c then throw e' else x) t = (Inr w, t2) \<longleftrightarrow> \<not> c \<and> x t = (Inr w, t2)"
  "(case r of Inl e \<Rightarrow> if c' e then throw (h e) else throw (h' e) | Inr v \<Rightarrow> k v) t = (Inr w, t2) \<longleftrightarrow>
     (\<exists>v. r = Inr v \<and> k v t = (Inr w, t2))"
  by (auto simp: throw_Inr split: sum.splits option.splits)

lemma mapM_Inr:
  "mapM f xs t = (Inr ys, t1) \<Longrightarrow> list_all2 (\<lambda>x y. \<exists>s s1. f x s = (Inr y, s1)) xs ys"
proof (induction xs arbitrary: ys t)
  case Nil
  then show ?case by (simp add: success_simps)
next
  case (Cons x xs)
  then show ?case by (fastforce simp: success_simps)
qed

text \<open>The transaction of a call that starts without a fault.\<close>

definition freshTx :: "env \<Rightarrow> server \<Rightarrow> tx" where
  "freshTx env srv = \<lparr>tx_db = sv_db srv, tx_vault = sv_vault srv, tx_fault = e_fault env, tx_clock = 1,
     tx_now = e_now env, tx_regEvents = [], tx_artEvents = [], tx_appEvents = [], tx_pkgEvents = []\<rparr>"

lemma startTransaction_fresh:
  "startTransaction env srv = (if e_fault env 0 then (Inl EntFailure, srv)
     else (Inr (freshTx env srv), srv\<lparr>sv_open := Suc (sv_open srv)\<rparr>))"
  by (simp add: startTransaction_def freshTx_def)

text \<open>A computation that made calls and changed nothing but the clock.\<close>

definition onlyCalls :: "tx \<Rightarrow> tx \<Rightarrow> bool" where
  "onlyCalls t t1 \<longleftrightarrow> (\<exists>n. t1 = t\<lparr>tx_clock := n\<rparr>)"

lemma onlyCalls_refl [simp]: "onlyCalls t t"
  unfolding onlyCalls_def by (rule exI [of _ "tx_clock t"]) simp

lemma onlyCalls_tick [simp]: "onlyCalls t (tick t)"
  by (auto simp: onlyCalls_def tick_def)

lemma onlyCalls_trans: "onlyCalls t t1 \<Longrightarrow> onlyCalls t1 t2 \<Longrightarrow> onlyCalls t t2"
  by (auto simp: onlyCalls_def)

lemma onlyCalls_tick2 [simp]: "onlyCalls t (tick (tick t))"
  using onlyCalls_trans [OF onlyCalls_tick onlyCalls_tick] .

lemma onlyCalls_fields:
  assumes "onlyCalls t t1"
  shows "tx_db t1 = tx_db t" "tx_vault t1 = tx_vault t" "tx_now t1 = tx_now t" "tx_fault t1 = tx_fault t"
    "tx_regEvents t1 = tx_regEvents t" "tx_artEvents t1 = tx_artEvents t" "tx_appEvents t1 = tx_appEvents t"
    "tx_pkgEvents t1 = tx_pkgEvents t"
  using assms by (auto simp: onlyCalls_def)

end
