(* ===== verification/Catalog_Invariant.thy ===== *)
theory Catalog_Invariant
  imports Transactions
begin

text \<open>
  The well-formedness of the catalog's tables and a calculus to prove that operations keep it.

  \<open>db_ok\<close> says that identifiers are unique and drawn from the counter, that the unique indexes hold,
  that every foreign key has a row to refer to, that the lower-cased display names agree with
  the display names, and, beyond what the schema enforces, that an application takes its charts
  from a helm registry and its images from an image registry of its own project, that the default
  profile of an application is one of its own, and that a mandatory or secret parameter template has
  no default value. A mutation that is not refused keeps it; what the operations have to check
  before a mutation appears as the assumption of its lemma.

  \<open>tri P x Q\<close>: if the tables satisfy \<open>P\<close> and \<open>x\<close> succeeds, they satisfy \<open>Q\<close> afterwards. A
  computation that fails is rolled back or abandoned, so nothing has to be said of its tables.
\<close>

named_theorems tri_intro \<open>rules of the calculus of successful computations\<close>

section \<open>Well-formed tables\<close>

definition keyed :: "nat \<Rightarrow> ('r \<Rightarrow> nat) \<Rightarrow> ('r \<Rightarrow> 'k) \<Rightarrow> 'r list \<Rightarrow> bool" where
  "keyed n ident key rows \<longleftrightarrow>
     distinct (map ident rows) \<and> (\<forall>r \<in> set rows. ident r < n) \<and> distinct (map key rows)"

definition registryKey :: "RegistryDB \<Rightarrow> string \<times> string" where
  "registryKey r = (rdb_ProjectUUID r, rdb_Name r)"

definition artifactKey :: "ArtifactDB \<Rightarrow> string \<times> string" where
  "artifactKey r = (tdb_ProjectUUID r, tdb_Name r)"

definition applicationKey :: "ApplicationDB \<Rightarrow> string \<times> string \<times> string" where
  "applicationKey a = (adb_ProjectUUID a, adb_Name a, adb_Version a)"

definition profileKey :: "ProfileDB \<Rightarrow> nat \<times> string" where
  "profileKey p = (pdb_application_fk p, pdb_Name p)"

definition keys_ok :: "db \<Rightarrow> bool" where
  "keys_ok d \<longleftrightarrow>
     keyed (t_next d) rdb_ID registryKey (t_registries d) \<and>
     keyed (t_next d) tdb_ID artifactKey (t_artifacts d) \<and>
     keyed (t_next d) adb_ID applicationKey (t_applications d) \<and>
     keyed (t_next d) pdb_ID profileKey (t_profiles d) \<and>
     distinct (t_ignored_resources d)"

definition names_ok :: "db \<Rightarrow> bool" where
  "names_ok d \<longleftrightarrow>
     (\<forall>r \<in> set (t_registries d). rdb_DisplayNameLc r = ToLower (rdb_DisplayName r)) \<and>
     (\<forall>r \<in> set (t_artifacts d). tdb_DisplayNameLc r = ToLower (tdb_DisplayName r)) \<and>
     (\<forall>a \<in> set (t_applications d). adb_DisplayNameLc a = ToLower (adb_DisplayName a)) \<and>
     (\<forall>p \<in> set (t_profiles d). pdb_DisplayNameLc p = ToLower (pdb_DisplayName p))"

definition hasRegistry :: "db \<Rightarrow> string \<Rightarrow> string \<Rightarrow> nat \<Rightarrow> bool" where
  "hasRegistry d projectUUID registryType i \<longleftrightarrow>
     (\<exists>r \<in> set (t_registries d). rdb_ID r = i \<and> rdb_Type r = registryType \<and> rdb_ProjectUUID r = projectUUID)"

definition hasApplication :: "db \<Rightarrow> nat \<Rightarrow> bool" where
  "hasApplication d i \<longleftrightarrow> i \<in> adb_ID ` set (t_applications d)"

definition hasProfile :: "db \<Rightarrow> nat \<Rightarrow> bool" where
  "hasProfile d i \<longleftrightarrow> i \<in> pdb_ID ` set (t_profiles d)"

definition registries_ok :: "db \<Rightarrow> bool" where
  "registries_ok d \<longleftrightarrow>
     (\<forall>a \<in> set (t_applications d).
        hasRegistry d (adb_ProjectUUID a) ''HELM'' (adb_registry_fk a) \<and>
        (\<forall>i. adb_image_registry_fk a = Some i \<longrightarrow> hasRegistry d (adb_ProjectUUID a) ''IMAGE'' i))"

definition profiles_ok :: "db \<Rightarrow> bool" where
  "profiles_ok d \<longleftrightarrow>
     (\<forall>p \<in> set (t_profiles d). hasApplication d (pdb_application_fk p)) \<and>
     (\<forall>a \<in> set (t_applications d). \<forall>i. adb_default_profile a = Some i \<longrightarrow>
        (\<exists>p \<in> set (t_profiles d). pdb_ID p = i \<and> pdb_application_fk p = adb_ID a)) \<and>
     (\<forall>k i. (k, i) \<in> set (t_deployment_profile_profiles d) \<longrightarrow> hasProfile d i)"

definition templates_ok :: "db \<Rightarrow> bool" where
  "templates_ok d \<longleftrightarrow>
     (\<forall>t \<in> set (t_parameter_templates d).
        hasProfile d (ptdb_profile_fk t) \<and>
        (ptdb_Mandatory t \<or> ptdb_Secret t \<longrightarrow> ptdb_Default t = []))"

definition requirement_ok :: "db \<Rightarrow> DeploymentRequirementDB \<Rightarrow> bool" where
  "requirement_ok d q \<longleftrightarrow>
     hasProfile d (drdb_profile_fk q) \<and>
     (\<exists>k \<in> set (t_deployment_packages d). kdb_ID k = drdb_deployment_package_fk q) \<and>
     (\<forall>i. drdb_deployment_profile_fk q = Some i \<longrightarrow>
        (\<exists>p \<in> set (t_deployment_profiles d).
           dpdb_ID p = i \<and> dpdb_deployment_package_fk p = drdb_deployment_package_fk q))"

definition uses_ok :: "db \<Rightarrow> bool" where
  "uses_ok d \<longleftrightarrow>
     (\<forall>q \<in> set (t_deployment_requirements d). requirement_ok d q) \<and>
     (\<forall>q \<in> set (t_ignored_resources d). hasApplication d (irdb_application_fk q)) \<and>
     (\<forall>q \<in> set (t_application_dependencies d).
        hasApplication d (adepdb_source_fk q) \<and> hasApplication d (adepdb_target_fk q)) \<and>
     (\<forall>q \<in> set (t_application_namespaces d). hasApplication d (ansdb_source_fk q))"

subsection \<open>Deployment packages\<close>

definition packageKey :: "DeploymentPackageDB \<Rightarrow> string \<times> string \<times> string" where
  "packageKey k = (kdb_ProjectUUID k, kdb_Name k, kdb_Version k)"

definition deploymentProfileKey :: "DeploymentProfileDB \<Rightarrow> nat \<times> string" where
  "deploymentProfileKey p = (dpdb_deployment_package_fk p, dpdb_Name p)"

definition extensionKey :: "ExtensionDB \<Rightarrow> nat \<times> string \<times> string" where
  "extensionKey x = (exdb_deployment_package_fk x, exdb_Name x, exdb_Version x)"

definition endpointKey :: "EndpointDB \<Rightarrow> nat \<times> string" where
  "endpointKey e = (epdb_extension_fk e, epdb_ServiceName e)"

definition hasPackage :: "db \<Rightarrow> nat \<Rightarrow> bool" where
  "hasPackage d i \<longleftrightarrow> i \<in> kdb_ID ` set (t_deployment_packages d)"

definition packageKeys_ok :: "db \<Rightarrow> bool" where
  "packageKeys_ok d \<longleftrightarrow>
     keyed (t_next d) kdb_ID packageKey (t_deployment_packages d) \<and>
     keyed (t_next d) dpdb_ID deploymentProfileKey (t_deployment_profiles d) \<and>
     keyed (t_next d) nsdb_ID nsdb_ID (t_namespaces d) \<and>
     keyed (t_next d) exdb_ID extensionKey (t_extensions d) \<and>
     distinct (map endpointKey (t_endpoints d)) \<and>
     distinct (t_package_applications d) \<and> distinct (t_deployment_profile_profiles d) \<and>
     (\<forall>k \<in> set (t_deployment_packages d). kdb_DisplayNameLc k = ToLower (kdb_DisplayName k)) \<and>
     (\<forall>p \<in> set (t_deployment_profiles d). dpdb_DisplayNameLc p = ToLower (dpdb_DisplayName p))"

text \<open>The deployment profiles with the package they belong to.\<close>

definition deploymentProfiles :: "db \<Rightarrow> (nat \<times> nat) set" where
  "deploymentProfiles d = (\<lambda>p. (dpdb_ID p, dpdb_deployment_package_fk p)) ` set (t_deployment_profiles d)"

definition packageOwned_ok :: "db \<Rightarrow> bool" where
  "packageOwned_ok d \<longleftrightarrow>
     (\<forall>k \<in> set (t_deployment_packages d). \<forall>i. kdb_default_profile k = Some i \<longrightarrow> (i, kdb_ID k) \<in> deploymentProfiles d) \<and>
     (\<forall>i k. (i, k) \<in> deploymentProfiles d \<longrightarrow> hasPackage d k) \<and>
     (\<forall>i j. (i, j) \<in> set (t_deployment_profile_profiles d) \<longrightarrow> i \<in> fst ` deploymentProfiles d) \<and>
     (\<forall>n \<in> set (t_namespaces d). hasPackage d (nsdb_deployment_package_fk n)) \<and>
     (\<forall>a \<in> set (t_namespace_adornments d). nadb_namespace_fk a \<in> nsdb_ID ` set (t_namespaces d)) \<and>
     (\<forall>x \<in> set (t_extensions d). hasPackage d (exdb_deployment_package_fk x)) \<and>
     (\<forall>e \<in> set (t_endpoints d). epdb_extension_fk e \<in> exdb_ID ` set (t_extensions d)) \<and>
     (\<forall>q \<in> set (t_application_dependencies d). hasPackage d (adepdb_deployment_package_fk q)) \<and>
     (\<forall>q \<in> set (t_application_namespaces d). hasPackage d (ansdb_deployment_package_fk q))"

text \<open>
  A package draws its applications and its artifacts from its own project; the applications that
  its dependencies and default namespaces name are among the ones it refers to, and none depends on itself.
\<close>

definition packageOwners :: "db \<Rightarrow> (nat \<times> string) set" where
  "packageOwners d = (\<lambda>k. (kdb_ID k, kdb_ProjectUUID k)) ` set (t_deployment_packages d)"

definition applicationOwners :: "db \<Rightarrow> (nat \<times> string) set" where
  "applicationOwners d = (\<lambda>a. (adb_ID a, adb_ProjectUUID a)) ` set (t_applications d)"

definition artifactOwners :: "db \<Rightarrow> (nat \<times> string) set" where
  "artifactOwners d = (\<lambda>r. (tdb_ID r, tdb_ProjectUUID r)) ` set (t_artifacts d)"

definition links_ok :: "db \<Rightarrow> bool" where
  "links_ok d \<longleftrightarrow>
     (\<forall>k i. (k, i) \<in> set (t_package_applications d) \<longrightarrow>
        (\<exists>u. (k, u) \<in> packageOwners d \<and> (i, u) \<in> applicationOwners d)) \<and>
     (\<forall>f \<in> set (t_artifact_references d).
        \<exists>u. (afdb_deployment_package_fk f, u) \<in> packageOwners d \<and> (afdb_artifact f, u) \<in> artifactOwners d)"

definition members_ok :: "db \<Rightarrow> bool" where
  "members_ok d \<longleftrightarrow>
     (\<forall>q \<in> set (t_application_dependencies d).
        (adepdb_deployment_package_fk q, adepdb_source_fk q) \<in> set (t_package_applications d) \<and>
        (adepdb_deployment_package_fk q, adepdb_target_fk q) \<in> set (t_package_applications d) \<and>
        adepdb_source_fk q \<noteq> adepdb_target_fk q) \<and>
     (\<forall>q \<in> set (t_application_namespaces d).
        (ansdb_deployment_package_fk q, ansdb_source_fk q) \<in> set (t_package_applications d))"

definition packages_ok :: "db \<Rightarrow> bool" where
  "packages_ok d \<longleftrightarrow> packageKeys_ok d \<and> packageOwned_ok d \<and> links_ok d"

text \<open>
  While a package is replaced its dependencies and namespaces lag behind its applications, so the
  condition on them is apart from the rest.
\<close>

definition base_ok :: "db \<Rightarrow> bool" where
  "base_ok d \<longleftrightarrow> keys_ok d \<and> names_ok d \<and> registries_ok d \<and> profiles_ok d \<and> templates_ok d \<and> uses_ok d \<and>
     packages_ok d"

definition db_ok :: "db \<Rightarrow> bool" where
  "db_ok d \<longleftrightarrow> base_ok d \<and> members_ok d"

lemmas has_defs = hasRegistry_def hasApplication_def hasProfile_def
lemmas table_ok_defs = keys_ok_def names_ok_def registries_ok_def profiles_ok_def templates_ok_def
  uses_ok_def requirement_ok_def has_defs
lemmas package_ok_defs = packages_ok_def packageKeys_ok_def packageOwned_ok_def links_ok_def packageOwners_def
  applicationOwners_def artifactOwners_def deploymentProfiles_def hasPackage_def

lemma db_ok_iff:
  "db_ok d \<longleftrightarrow> keys_ok d \<and> names_ok d \<and> registries_ok d \<and> profiles_ok d \<and> templates_ok d \<and> uses_ok d \<and>
     packages_ok d \<and> members_ok d"
  by (auto simp: db_ok_def base_ok_def)

lemmas ok_defs = db_ok_iff table_ok_defs

lemma db_ok_empty: "db_ok empty_db"
  by (simp add: db_ok_def base_ok_def table_ok_defs package_ok_defs members_ok_def empty_db_def keyed_def)

section \<open>Tables by key\<close>

lemma keyed_Nil [simp]: "keyed n ident key []"
  by (simp add: keyed_def)

lemma keyed_Suc: "keyed n ident key rows \<Longrightarrow> keyed (Suc n) ident key rows"
  by (auto simp: keyed_def less_Suc_eq)

lemma keyed_append_new:
  assumes "keyed n ident key rows" and "ident r = n" and "key r \<notin> key ` set rows"
  shows "keyed (Suc n) ident key (rows @ [r])"
  using assms by (auto simp: keyed_def less_Suc_eq)

lemma keyed_map:
  assumes "keyed n ident key rows"
    and "\<And>r. r \<in> set rows \<Longrightarrow> ident (f r) = ident r \<and> key (f r) = key r"
  shows "keyed n ident key (map f rows)"
proof -
  have e: "map (ident \<circ> f) rows = map ident rows" "map (key \<circ> f) rows = map key rows"
    using assms(2) by auto
  have "\<forall>r \<in> set rows. ident (f r) < n" using assms by (auto simp: keyed_def)
  then show ?thesis using assms(1) unfolding keyed_def map_map e by simp
qed

lemma keyed_filter: "keyed n ident key rows \<Longrightarrow> keyed n ident key (List.filter P rows)"
  by (auto simp: keyed_def distinct_map_filter)

lemma keyed_ident_inj:
  "keyed n ident key rows \<Longrightarrow> r \<in> set rows \<Longrightarrow> q \<in> set rows \<Longrightarrow> ident r = ident q \<Longrightarrow> r = q"
  by (auto simp: keyed_def distinct_map dest: inj_onD)

lemma keyed_key_inj:
  "keyed n ident key rows \<Longrightarrow> r \<in> set rows \<Longrightarrow> q \<in> set rows \<Longrightarrow> key r = key q \<Longrightarrow> r = q"
  by (auto simp: keyed_def distinct_map dest: inj_onD)

lemma keyed_mono: "keyed n ident key rows \<Longrightarrow> n \<le> m \<Longrightarrow> keyed m ident key rows"
  by (auto simp: keyed_def)

section \<open>Mutations that leave the packages alone\<close>

lemma links_ok_application:
  assumes "links_ok d" and "(k, i) \<in> set (t_package_applications d)"
  obtains u where "(k, u) \<in> packageOwners d" and "(i, u) \<in> applicationOwners d"
  using assms unfolding links_ok_def by meson

lemma links_ok_artifact:
  assumes "links_ok d" and "f \<in> set (t_artifact_references d)"
  obtains u where "(afdb_deployment_package_fk f, u) \<in> packageOwners d" and "(afdb_artifact f, u) \<in> artifactOwners d"
  using assms unfolding links_ok_def by meson

definition packagePart :: "db \<Rightarrow> _" where
  "packagePart d = (t_deployment_packages d, t_deployment_profiles d, t_namespaces d, t_namespace_adornments d,
     t_extensions d, t_endpoints d, t_artifact_references d, t_application_dependencies d,
     t_application_namespaces d, t_package_applications d)"

lemma packages_frame_filter:
  assumes "db_ok d" and "packagePart d' = packagePart d" and "t_next d \<le> t_next d'"
    and "t_deployment_profile_profiles d' = List.filter P (t_deployment_profile_profiles d)"
    and "applicationOwners d \<subseteq> applicationOwners d'"
    and "\<And>f u. f \<in> set (t_artifact_references d) \<Longrightarrow> (afdb_artifact f, u) \<in> artifactOwners d \<Longrightarrow>
      (afdb_artifact f, u) \<in> artifactOwners d'"
  shows "packages_ok d' \<and> members_ok d'"
proof -
  have d: "packageKeys_ok d" "packageOwned_ok d" "links_ok d" "members_ok d"
    using assms(1) by (auto simp: db_ok_iff packages_ok_def)
  have "packageKeys_ok d'"
    using d(1) assms(2-4) by (auto simp: packageKeys_ok_def packagePart_def intro: keyed_mono)
  moreover have "packageOwned_ok d'"
    using d(2) assms(2,4) unfolding packageOwned_ok_def packagePart_def hasPackage_def deploymentProfiles_def
    by (auto simp: packagePart_def)
  moreover have "links_ok d'"
    unfolding links_ok_def
  proof (intro conjI allI impI ballI)
    fix k i assume "(k, i) \<in> set (t_package_applications d')"
    then have "(k, i) \<in> set (t_package_applications d)" using assms(2) by (simp add: packagePart_def)
    with d(3) obtain u where "(k, u) \<in> packageOwners d" "(i, u) \<in> applicationOwners d"
      by (rule links_ok_application)
    with assms(2,5) show "\<exists>u. (k, u) \<in> packageOwners d' \<and> (i, u) \<in> applicationOwners d'"
      by (intro exI [of _ u]) (auto simp: packagePart_def packageOwners_def)
  next
    fix f assume "f \<in> set (t_artifact_references d')"
    then have f: "f \<in> set (t_artifact_references d)" using assms(2) by (simp add: packagePart_def)
    with d(3) obtain u where "(afdb_deployment_package_fk f, u) \<in> packageOwners d" "(afdb_artifact f, u) \<in> artifactOwners d"
      by (rule links_ok_artifact)
    with f assms(2,6) show "\<exists>u. (afdb_deployment_package_fk f, u) \<in> packageOwners d' \<and> (afdb_artifact f, u) \<in> artifactOwners d'"
      by (intro exI [of _ u]) (auto simp: packagePart_def packageOwners_def)
  qed
  moreover have "members_ok d'"
    using d(4) assms(2) by (simp add: members_ok_def packagePart_def)
  ultimately show ?thesis by (simp add: packages_ok_def)
qed

lemma packages_frame:
  assumes "db_ok d" and "packagePart d' = packagePart d" and "t_next d \<le> t_next d'"
    and "t_deployment_profile_profiles d' = t_deployment_profile_profiles d"
    and "applicationOwners d \<subseteq> applicationOwners d'" and "artifactOwners d \<subseteq> artifactOwners d'"
  shows "packages_ok d' \<and> members_ok d'"
  by (rule packages_frame_filter [OF assms(1-3), where P = "\<lambda>_. True"]) (use assms(4-6) in auto)

text \<open>Deleting applications with the links to them.\<close>

lemma packages_less_applications:
  assumes "db_ok d"
    and "\<And>q. q \<in> set (t_application_dependencies d) \<Longrightarrow> adepdb_source_fk q \<notin> gone \<and> adepdb_target_fk q \<notin> gone"
    and "\<And>q. q \<in> set (t_application_namespaces d) \<Longrightarrow> ansdb_source_fk q \<notin> gone"
  shows "packages_ok (d\<lparr>t_applications := List.filter (\<lambda>a. adb_ID a \<notin> gone) (t_applications d),
      t_ignored_resources := xs,
      t_package_applications := List.filter (\<lambda>l. snd l \<notin> gone) (t_package_applications d)\<rparr>) \<and>
    members_ok (d\<lparr>t_applications := List.filter (\<lambda>a. adb_ID a \<notin> gone) (t_applications d),
      t_ignored_resources := xs,
      t_package_applications := List.filter (\<lambda>l. snd l \<notin> gone) (t_package_applications d)\<rparr>)" (is "packages_ok ?d \<and> _")
proof -
  have "packageKeys_ok ?d" "packageOwned_ok ?d"
    using assms(1) by (simp_all add: db_ok_iff packages_ok_def packageKeys_ok_def packageOwned_ok_def
        deploymentProfiles_def hasPackage_def)
  moreover have "links_ok ?d"
    unfolding links_ok_def
  proof (intro conjI allI impI ballI)
    fix k i assume "(k, i) \<in> set (t_package_applications ?d)"
    then have i: "(k, i) \<in> set (t_package_applications d)" "i \<notin> gone" by auto
    with assms(1) obtain u where "(k, u) \<in> packageOwners d" "(i, u) \<in> applicationOwners d"
      using links_ok_application [of d k i] unfolding db_ok_iff packages_ok_def by blast
    with i(2) show "\<exists>u. (k, u) \<in> packageOwners ?d \<and> (i, u) \<in> applicationOwners ?d"
      by (intro exI [of _ u]) (auto simp: packageOwners_def applicationOwners_def)
  next
    fix f assume "f \<in> set (t_artifact_references ?d)"
    with assms(1) show "\<exists>u. (afdb_deployment_package_fk f, u) \<in> packageOwners ?d \<and> (afdb_artifact f, u) \<in> artifactOwners ?d"
      by (simp add: db_ok_iff packages_ok_def links_ok_def packageOwners_def artifactOwners_def)
  qed
  moreover have "members_ok ?d"
    using assms by (simp add: db_ok_iff members_ok_def)
  ultimately show ?thesis by (simp add: packages_ok_def)
qed

lemmas frame_defs = packagePart_def applicationOwners_def artifactOwners_def

section \<open>Queries\<close>

lemma filter_head: "List.filter P rows = r # rs \<Longrightarrow> r \<in> set rows \<and> P r"
  by (metis (mono_tags) filter_eq_ConsD in_set_conv_decomp)

lemma q_first_Inr: "q_first P rows = Inr r \<Longrightarrow> r \<in> set rows \<and> P r"
  by (auto simp: q_first_def split: list.splits dest: filter_head)

lemma q_only_Inr: "q_only P rows = Inr r \<Longrightarrow> List.filter P rows = [r]"
  by (auto simp: q_only_def split: list.splits)

lemma q_only_Inr_in: "q_only P rows = Inr r \<Longrightarrow> r \<in> set rows \<and> P r"
  by (drule q_only_Inr) (rule filter_head)

lemma q_count_Inr: "q_count P rows = Inr n \<longleftrightarrow> n = length (List.filter P rows)"
  by (auto simp: q_count_def)

lemma q_count_0: "q_count P rows = Inr 0 \<longleftrightarrow> (\<forall>r \<in> set rows. \<not> P r)"
  by (auto simp: q_count_def filter_empty_conv)

lemma q_all_Inr: "q_all P rows = Inr rs \<longleftrightarrow> rs = List.filter P rows"
  by (auto simp: q_all_def)

section \<open>Mutations keep the tables well-formed\<close>

lemma updateRows_eq: "updateRows P f rows = (n, rows') \<longleftrightarrow>
    n = length (List.filter P rows) \<and> rows' = map (\<lambda>r. if P r then f r else r) rows"
  by (auto simp: updateRows_def)

subsection \<open>Registries\<close>

lemma createRegistryRow_ok:
  assumes "createRegistryRow row now d = (Inr r, d')" and "db_ok d"
    and "rdb_DisplayNameLc row = ToLower (rdb_DisplayName row)"
  shows "db_ok d'"
proof -
  have new: "registryKey row \<notin> registryKey ` set (t_registries d)"
    and d': "d' = d\<lparr>t_registries := t_registries d @ [r], t_next := Suc (t_next d)\<rparr>"
    and r: "r = row\<lparr>rdb_ID := t_next d, rdb_CreateTime := now, rdb_UpdateTime := now\<rparr>"
    using assms(1)
    by (auto simp: createRegistryRow_def Let_def list_ex_iff registryKey_def split: if_splits)
  have "keys_ok d'"
    using assms(2) new unfolding d' r db_ok_iff keys_ok_def
    by (simp add: keyed_Suc keyed_append_new registryKey_def)
  moreover have "names_ok d'" "profiles_ok d'" "templates_ok d'" "uses_ok d'"
    using assms(2,3) by (auto simp: ok_defs d' r)
  moreover have "registries_ok d'"
    using assms(2) unfolding d' by (auto simp: ok_defs)
  moreover have "packages_ok d' \<and> members_ok d'"
    by (rule packages_frame [OF assms(2)]) (auto simp: d' frame_defs)
  ultimately show ?thesis by (simp add: db_ok_iff)
qed

lemma updateRegistryRows_ok:
  assumes "updateRegistryRows P f now d = (Inr n, d')" and "db_ok d"
    and keep: "\<And>r. r \<in> set (t_registries d) \<Longrightarrow> P r \<Longrightarrow>
      rdb_ID (f r) = rdb_ID r \<and> registryKey (f r) = registryKey r \<and>
      rdb_DisplayNameLc (f r) = ToLower (rdb_DisplayName (f r))"
    and helm: "\<And>r a. r \<in> set (t_registries d) \<Longrightarrow> P r \<Longrightarrow> a \<in> set (t_applications d) \<Longrightarrow>
      adb_registry_fk a = rdb_ID r \<Longrightarrow> rdb_Type (f r) = ''HELM''"
    and image: "\<And>r a. r \<in> set (t_registries d) \<Longrightarrow> P r \<Longrightarrow> a \<in> set (t_applications d) \<Longrightarrow>
      adb_image_registry_fk a = Some (rdb_ID r) \<Longrightarrow> rdb_Type (f r) = ''IMAGE''"
  shows "db_ok d'"
proof -
  define g where "g r = (if P r then (f r)\<lparr>rdb_UpdateTime := now\<rparr> else r)" for r
  have d': "d' = d\<lparr>t_registries := map g (t_registries d)\<rparr>"
    using assms(1) by (auto simp: updateRegistryRows_def updateRows_def g_def)
  have g: "rdb_ID (g r) = rdb_ID r \<and> registryKey (g r) = registryKey r" if "r \<in> set (t_registries d)" for r
    using keep [OF that] by (auto simp: g_def registryKey_def)
  then have project: "rdb_ProjectUUID (g r) = rdb_ProjectUUID r" if "r \<in> set (t_registries d)" for r
    using that by (auto simp: registryKey_def)
  have "keys_ok d'"
    using assms(2) g by (auto simp: d' db_ok_iff keys_ok_def intro!: keyed_map)
  moreover have "names_ok d'"
    using assms(2) keep by (auto simp: d' db_ok_iff names_ok_def g_def)
  moreover have "profiles_ok d'" "templates_ok d'" "uses_ok d'"
    using assms(2) by (auto simp: ok_defs d')
  moreover have "registries_ok d'"
    unfolding registries_ok_def
  proof (intro ballI conjI allI impI)
    fix a assume "a \<in> set (t_applications d')"
    then have a: "a \<in> set (t_applications d)" by (simp add: d')
    then have old: "hasRegistry d (adb_ProjectUUID a) ''HELM'' (adb_registry_fk a)"
      using assms(2) by (auto simp: db_ok_iff registries_ok_def)
    then obtain r where r: "r \<in> set (t_registries d)" "rdb_ID r = adb_registry_fk a" "rdb_Type r = ''HELM''"
      "rdb_ProjectUUID r = adb_ProjectUUID a" by (auto simp: hasRegistry_def)
    have "rdb_Type (g r) = ''HELM''" using helm [OF r(1) _ a] r by (auto simp: g_def)
    with r g project show "hasRegistry d' (adb_ProjectUUID a) ''HELM'' (adb_registry_fk a)"
      by (auto simp: hasRegistry_def d' intro!: bexI [of _ r])
    fix i assume i: "adb_image_registry_fk a = Some i"
    with a assms(2) have "hasRegistry d (adb_ProjectUUID a) ''IMAGE'' i"
      by (auto simp: db_ok_iff registries_ok_def)
    then obtain q where q: "q \<in> set (t_registries d)" "rdb_ID q = i" "rdb_Type q = ''IMAGE''"
      "rdb_ProjectUUID q = adb_ProjectUUID a" by (auto simp: hasRegistry_def)
    have "rdb_Type (g q) = ''IMAGE''" using image [OF q(1) _ a] q i by (auto simp: g_def)
    with q g project show "hasRegistry d' (adb_ProjectUUID a) ''IMAGE'' i"
      by (auto simp: hasRegistry_def d' intro!: bexI [of _ q])
  qed
  moreover have "packages_ok d' \<and> members_ok d'"
    by (rule packages_frame [OF assms(2)]) (auto simp: d' frame_defs)
  ultimately show ?thesis by (simp add: db_ok_iff)
qed

lemma clearImage_simps [simp]:
  "adb_ID (clearImage gone a) = adb_ID a" "applicationKey (clearImage gone a) = applicationKey a"
  "adb_ProjectUUID (clearImage gone a) = adb_ProjectUUID a"
  "adb_DisplayName (clearImage gone a) = adb_DisplayName a"
  "adb_DisplayNameLc (clearImage gone a) = adb_DisplayNameLc a"
  "adb_registry_fk (clearImage gone a) = adb_registry_fk a"
  "adb_default_profile (clearImage gone a) = adb_default_profile a"
  "adb_image_registry_fk (clearImage gone a) = Some i \<longleftrightarrow> adb_image_registry_fk a = Some i \<and> i \<notin> set gone"
  by (auto simp: clearImage_def applicationKey_def split: option.splits)

lemma deleteRegistryRows_Inr:
  assumes "deleteRegistryRows P now d = (Inr n, d')"
  shows "d' = d\<lparr>t_registries := List.filter (\<lambda>r. \<not> P r) (t_registries d),
      t_applications := map (clearImage (map rdb_ID (List.filter P (t_registries d)))) (t_applications d)\<rparr>"
    and "n = length (List.filter P (t_registries d))"
    and "\<And>r a. r \<in> set (t_registries d) \<Longrightarrow> P r \<Longrightarrow> a \<in> set (t_applications d) \<Longrightarrow> adb_registry_fk a \<noteq> rdb_ID r"
proof -
  show "d' = d\<lparr>t_registries := List.filter (\<lambda>r. \<not> P r) (t_registries d),
      t_applications := map (clearImage (map rdb_ID (List.filter P (t_registries d)))) (t_applications d)\<rparr>"
    and "n = length (List.filter P (t_registries d))"
    using assms by (auto simp: deleteRegistryRows_def Let_def split: if_splits)
  fix r a
  assume "r \<in> set (t_registries d)" "P r" "a \<in> set (t_applications d)"
  then show "adb_registry_fk a \<noteq> rdb_ID r"
    using assms by (auto simp: deleteRegistryRows_def Let_def list_ex_iff split: if_splits)
qed

lemma deleteRegistryRows_ok:
  assumes "deleteRegistryRows P now d = (Inr n, d')" and "db_ok d"
  shows "db_ok d'"
proof -
  define gone where "gone = map rdb_ID (List.filter P (t_registries d))"
  note del = deleteRegistryRows_Inr [OF assms(1), folded gone_def]
  have "keys_ok d'"
    using assms(2) by (auto simp: del(1) db_ok_iff keys_ok_def intro!: keyed_map keyed_filter)
  moreover have "names_ok d'" "templates_ok d'"
    using assms(2) by (auto simp: del(1) ok_defs)
  moreover have "profiles_ok d'"
    using assms(2) by (auto simp: del(1) ok_defs image_image)
  moreover have "uses_ok d'"
    using assms(2) by (auto simp: del(1) ok_defs image_image)
  moreover have "registries_ok d'"
    unfolding registries_ok_def
  proof (intro ballI conjI allI impI)
    fix b assume "b \<in> set (t_applications d')"
    then obtain a where a: "a \<in> set (t_applications d)" "b = clearImage gone a" by (auto simp: del(1))
    with assms(2) have "hasRegistry d (adb_ProjectUUID a) ''HELM'' (adb_registry_fk a)"
      by (auto simp: db_ok_iff registries_ok_def)
    with a del(3) show "hasRegistry d' (adb_ProjectUUID b) ''HELM'' (adb_registry_fk b)"
      by (fastforce simp: hasRegistry_def del(1))
    fix i assume "adb_image_registry_fk b = Some i"
    with a have i: "adb_image_registry_fk a = Some i" "i \<notin> set gone" by auto
    with a assms(2) have "hasRegistry d (adb_ProjectUUID a) ''IMAGE'' i"
      by (auto simp: db_ok_iff registries_ok_def)
    with a i show "hasRegistry d' (adb_ProjectUUID b) ''IMAGE'' i"
      by (fastforce simp: hasRegistry_def del(1) gone_def)
  qed
  moreover have "packages_ok d' \<and> members_ok d'"
    by (rule packages_frame [OF assms(2)]) (auto simp: del(1) frame_defs image_image)
  ultimately show ?thesis by (simp add: db_ok_iff)
qed

subsection \<open>Artifacts\<close>

lemma createArtifactRow_ok:
  assumes "createArtifactRow row now d = (Inr r, d')" and "db_ok d"
    and "tdb_DisplayNameLc row = ToLower (tdb_DisplayName row)"
  shows "db_ok d'"
proof -
  have new: "artifactKey row \<notin> artifactKey ` set (t_artifacts d)"
    and d': "d' = d\<lparr>t_artifacts := t_artifacts d @ [r], t_next := Suc (t_next d)\<rparr>"
    and r: "r = row\<lparr>tdb_ID := t_next d, tdb_CreateTime := now, tdb_UpdateTime := now\<rparr>"
    using assms(1)
    by (auto simp: createArtifactRow_def Let_def list_ex_iff artifactKey_def split: if_splits)
  have "keys_ok d'"
    using assms(2) new unfolding d' r db_ok_iff keys_ok_def
    by (simp add: keyed_Suc keyed_append_new artifactKey_def)
  moreover have "names_ok d'" "registries_ok d'" "profiles_ok d'" "templates_ok d'" "uses_ok d'"
    using assms(2,3) by (auto simp: ok_defs d' r)
  moreover have "packages_ok d' \<and> members_ok d'"
    by (rule packages_frame [OF assms(2)]) (auto simp: d' frame_defs)
  ultimately show ?thesis by (simp add: db_ok_iff)
qed

lemma updateArtifactRows_ok:
  assumes "updateArtifactRows P f now d = (Inr n, d')" and "db_ok d"
    and keep: "\<And>r. tdb_ID (f r) = tdb_ID r \<and> artifactKey (f r) = artifactKey r \<and>
      tdb_DisplayNameLc (f r) = ToLower (tdb_DisplayName (f r))"
  shows "db_ok d'"
proof -
  define g where "g r = (if P r then (f r)\<lparr>tdb_UpdateTime := now\<rparr> else r)" for r
  have d': "d' = d\<lparr>t_artifacts := map g (t_artifacts d)\<rparr>"
    using assms(1) by (auto simp: updateArtifactRows_def updateRows_def g_def)
  have g: "tdb_ID (g r) = tdb_ID r" "artifactKey (g r) = artifactKey r" for r
    using keep [of r] by (auto simp: g_def artifactKey_def)
  have "keys_ok d'"
    using assms(2) g by (auto simp: d' db_ok_iff keys_ok_def intro!: keyed_map)
  moreover have "names_ok d'"
    using assms(2) keep by (auto simp: d' db_ok_iff names_ok_def g_def)
  moreover have "registries_ok d'" "profiles_ok d'" "templates_ok d'" "uses_ok d'"
    using assms(2) g(1) by (auto simp: ok_defs d' image_image)
  moreover have "packages_ok d' \<and> members_ok d'"
    by (rule packages_frame [OF assms(2)]) (use g in \<open>auto simp: d' frame_defs image_image artifactKey_def\<close>)
  ultimately show ?thesis by (simp add: db_ok_iff)
qed

lemma deleteArtifactRows_ok:
  assumes "deleteArtifactRows P now d = (Inr n, d')" and "db_ok d"
  shows "db_ok d'"
proof -
  have d': "d' = d\<lparr>t_artifacts := List.filter (\<lambda>r. \<not> P r) (t_artifacts d)\<rparr>"
    and unused: "\<And>r f. r \<in> set (t_artifacts d) \<Longrightarrow> P r \<Longrightarrow> f \<in> set (t_artifact_references d) \<Longrightarrow>
      afdb_artifact f \<noteq> tdb_ID r"
    using assms(1) by (auto simp: deleteArtifactRows_def Let_def list_ex_iff split: if_splits)
  have "keys_ok d'"
    using assms(2) by (auto simp: d' db_ok_iff keys_ok_def intro!: keyed_filter)
  moreover have "names_ok d'" "registries_ok d'" "profiles_ok d'" "templates_ok d'"
    using assms(2) by (auto simp: d' ok_defs)
  moreover have "uses_ok d'"
    using assms(2) unused by (fastforce simp: d' ok_defs)
  moreover have "packages_ok d' \<and> members_ok d'"
    by (rule packages_frame_filter [OF assms(2), where P = "\<lambda>_. True"])
      (use unused in \<open>auto simp: d' frame_defs image_iff\<close>)
  ultimately show ?thesis by (simp add: db_ok_iff)
qed

subsection \<open>Applications\<close>

lemma createApplicationRow_ok:
  assumes "createApplicationRow row now d = (Inr a, d')" and "db_ok d"
    and "adb_DisplayNameLc row = ToLower (adb_DisplayName row)"
    and "hasRegistry d (adb_ProjectUUID row) ''HELM'' (adb_registry_fk row)"
    and "\<And>i. adb_image_registry_fk row = Some i \<Longrightarrow> hasRegistry d (adb_ProjectUUID row) ''IMAGE'' i"
    and "adb_default_profile row = None"
  shows "db_ok d' \<and> hasApplication d' (adb_ID a)"
proof -
  have new: "applicationKey row \<notin> applicationKey ` set (t_applications d)"
    and d': "d' = d\<lparr>t_applications := t_applications d @ [a], t_next := Suc (t_next d)\<rparr>"
    and a: "a = row\<lparr>adb_ID := t_next d, adb_CreateTime := now, adb_UpdateTime := now\<rparr>"
    using assms(1)
    by (auto simp: createApplicationRow_def Let_def list_ex_iff applicationKey_def split: if_splits)
  have "keys_ok d'"
    using assms(2) new unfolding d' a db_ok_iff keys_ok_def
    by (simp add: keyed_Suc keyed_append_new applicationKey_def)
  moreover have "names_ok d'" "profiles_ok d'" "templates_ok d'" "uses_ok d'"
    using assms(2,3,6) by (auto simp: ok_defs d' a)
  moreover have "registries_ok d'"
    using assms(2,4,5) by (auto simp: db_ok_iff registries_ok_def hasRegistry_def d' a)
  moreover have "packages_ok d' \<and> members_ok d'"
    by (rule packages_frame [OF assms(2)]) (auto simp: d' frame_defs)
  ultimately show ?thesis by (simp add: db_ok_iff hasApplication_def d')
qed

lemma updateApplicationRows_ok:
  assumes "updateApplicationRows P f now d = (Inr n, d')" and "db_ok d"
    and keep: "\<And>a. a \<in> set (t_applications d) \<Longrightarrow> P a \<Longrightarrow>
      adb_ID (f a) = adb_ID a \<and> applicationKey (f a) = applicationKey a \<and>
      adb_DisplayNameLc (f a) = ToLower (adb_DisplayName (f a)) \<and>
      hasRegistry d (adb_ProjectUUID a) ''HELM'' (adb_registry_fk (f a)) \<and>
      (\<forall>i. adb_image_registry_fk (f a) = Some i \<longrightarrow> hasRegistry d (adb_ProjectUUID a) ''IMAGE'' i) \<and>
      (\<forall>i. adb_default_profile (f a) = Some i \<longrightarrow>
         (\<exists>p \<in> set (t_profiles d). pdb_ID p = i \<and> pdb_application_fk p = adb_ID a))"
  shows "db_ok d'"
proof -
  define g where "g a = (if P a then (f a)\<lparr>adb_UpdateTime := now\<rparr> else a)" for a
  have d': "d' = d\<lparr>t_applications := map g (t_applications d)\<rparr>"
    using assms(1) by (auto simp: updateApplicationRows_def updateRows_def g_def)
  have g: "adb_ID (g a) = adb_ID a \<and> applicationKey (g a) = applicationKey a" if "a \<in> set (t_applications d)" for a
    using keep [OF that] by (auto simp: g_def applicationKey_def)
  then have "adb_ID ` g ` set (t_applications d) = adb_ID ` set (t_applications d)"
    by (auto simp: image_image intro!: image_cong)
  then have has: "hasApplication d' = hasApplication d"
    by (auto simp: hasApplication_def d' fun_eq_iff)
  have same: "hasRegistry d' = hasRegistry d" "hasProfile d' = hasProfile d"
    by (auto simp: has_defs d' fun_eq_iff)
  have "keys_ok d'"
    using assms(2) g by (auto simp: d' db_ok_iff keys_ok_def intro!: keyed_map)
  moreover have "names_ok d'"
    using assms(2) keep by (auto simp: d' db_ok_iff names_ok_def g_def)
  moreover have "templates_ok d'" "uses_ok d'"
    using assms(2) unfolding db_ok_iff templates_ok_def uses_ok_def requirement_ok_def has same by (auto simp: d')
  moreover have "registries_ok d'"
  proof -
    have "hasRegistry d (adb_ProjectUUID (g a)) ''HELM'' (adb_registry_fk (g a)) \<and>
        (\<forall>i. adb_image_registry_fk (g a) = Some i \<longrightarrow> hasRegistry d (adb_ProjectUUID (g a)) ''IMAGE'' i)"
      if a: "a \<in> set (t_applications d)" for a
      using assms(2) keep [OF a] a by (auto simp: g_def db_ok_iff registries_ok_def applicationKey_def)
    then show ?thesis unfolding registries_ok_def same by (auto simp: d')
  qed
  moreover have "profiles_ok d'"
  proof -
    have "\<exists>p \<in> set (t_profiles d). pdb_ID p = i \<and> pdb_application_fk p = adb_ID (g a)"
      if a: "a \<in> set (t_applications d)" and i: "adb_default_profile (g a) = Some i" for a i
      using assms(2) keep [OF a] a i by (auto simp: g_def db_ok_iff profiles_ok_def split: if_splits)
    moreover have "\<forall>p \<in> set (t_profiles d). hasApplication d (pdb_application_fk p)"
      "\<forall>k i. (k, i) \<in> set (t_deployment_profile_profiles d) \<longrightarrow> hasProfile d i"
      using assms(2) by (auto simp: db_ok_iff profiles_ok_def)
    ultimately show ?thesis unfolding profiles_ok_def has same by (auto simp: d')
  qed
  moreover have "applicationOwners d' = applicationOwners d"
    using g by (force simp: d' applicationOwners_def image_image applicationKey_def intro!: image_cong)
  then have "packages_ok d' \<and> members_ok d'"
    by (intro packages_frame [OF assms(2)]) (auto simp: d' packagePart_def artifactOwners_def)
  ultimately show ?thesis by (simp add: db_ok_iff)
qed

lemma updateApplicationRows_has:
  assumes "updateApplicationRows P f now d = (Inr n, d')" and "\<And>a. adb_ID (f a) = adb_ID a"
  shows "hasApplication d' = hasApplication d" "hasProfile d' = hasProfile d" "t_profiles d' = t_profiles d"
proof -
  define g where "g a = (if P a then (f a)\<lparr>adb_UpdateTime := now\<rparr> else a)" for a
  have d': "d' = d\<lparr>t_applications := map g (t_applications d)\<rparr>"
    using assms(1) by (auto simp: updateApplicationRows_def updateRows_def g_def)
  have "adb_ID (g a) = adb_ID a" for a using assms(2) by (simp add: g_def)
  then show "hasApplication d' = hasApplication d"
    by (auto simp: d' has_defs fun_eq_iff image_image)
  show "hasProfile d' = hasProfile d" "t_profiles d' = t_profiles d"
    by (auto simp: d' has_defs fun_eq_iff)
qed

subsection \<open>Profiles and what they own\<close>

lemma createProfileRow_ok:
  assumes "createProfileRow row now d = (Inr p, d')" and "db_ok d"
    and "pdb_DisplayNameLc row = ToLower (pdb_DisplayName row)"
    and "hasApplication d (pdb_application_fk row)"
  shows "db_ok d' \<and> hasProfile d' (pdb_ID p) \<and> hasApplication d' = hasApplication d"
proof -
  have new: "profileKey row \<notin> profileKey ` set (t_profiles d)"
    and d': "d' = d\<lparr>t_profiles := t_profiles d @ [p], t_next := Suc (t_next d)\<rparr>"
    and p: "p = row\<lparr>pdb_ID := t_next d, pdb_CreateTime := now, pdb_UpdateTime := now\<rparr>"
    using assms(1)
    by (auto simp: createProfileRow_def Let_def list_ex_iff profileKey_def split: if_splits)
  have "keys_ok d'"
    using assms(2) new unfolding d' p db_ok_iff keys_ok_def
    by (simp add: keyed_Suc keyed_append_new profileKey_def)
  moreover have "names_ok d'" "registries_ok d'" "templates_ok d'" "uses_ok d'"
    using assms(2,3) by (auto simp: ok_defs d' p)
  moreover have "profiles_ok d'"
    using assms(2,4) by (auto simp: db_ok_iff profiles_ok_def has_defs d' p)
  moreover have "packages_ok d' \<and> members_ok d'"
    by (rule packages_frame [OF assms(2)]) (auto simp: d' frame_defs)
  ultimately show ?thesis by (auto simp: db_ok_iff has_defs d' fun_eq_iff)
qed

lemma updateProfileRows_ok:
  assumes "updateProfileRows P f now d = (Inr n, d')" and "db_ok d"
    and keep: "\<And>p. pdb_ID (f p) = pdb_ID p \<and> profileKey (f p) = profileKey p \<and>
      pdb_DisplayNameLc (f p) = ToLower (pdb_DisplayName (f p))"
  shows "db_ok d' \<and> hasProfile d' = hasProfile d \<and> hasApplication d' = hasApplication d"
proof -
  define g where "g p = (if P p then (f p)\<lparr>pdb_UpdateTime := now\<rparr> else p)" for p
  have d': "d' = d\<lparr>t_profiles := map g (t_profiles d)\<rparr>"
    using assms(1) by (auto simp: updateProfileRows_def updateRows_def g_def)
  have g: "pdb_ID (g p) = pdb_ID p" "profileKey (g p) = profileKey p"
    "pdb_application_fk (g p) = pdb_application_fk p" for p
    using keep [of p] by (auto simp: g_def profileKey_def)
  have has: "hasProfile d' = hasProfile d" "hasApplication d' = hasApplication d" "hasRegistry d' = hasRegistry d"
    by (auto simp: has_defs d' fun_eq_iff image_image g)
  have "keys_ok d'"
    using assms(2) g by (auto simp: d' db_ok_iff keys_ok_def intro!: keyed_map)
  moreover have "names_ok d'"
    using assms(2) keep by (auto simp: d' db_ok_iff names_ok_def g_def)
  moreover have "registries_ok d'" "profiles_ok d'" "templates_ok d'" "uses_ok d'"
    using assms(2)
    unfolding db_ok_iff registries_ok_def profiles_ok_def templates_ok_def uses_ok_def requirement_ok_def has
    by (auto simp: d' g)
  moreover have "packages_ok d' \<and> members_ok d'"
    by (rule packages_frame [OF assms(2)]) (auto simp: d' frame_defs)
  ultimately show ?thesis using has by (simp add: db_ok_iff)
qed

lemma clearDefault_simps [simp]:
  "adb_ID (clearDefault gone a) = adb_ID a" "applicationKey (clearDefault gone a) = applicationKey a"
  "adb_ProjectUUID (clearDefault gone a) = adb_ProjectUUID a" "adb_Name (clearDefault gone a) = adb_Name a"
  "adb_Version (clearDefault gone a) = adb_Version a"
  "adb_DisplayName (clearDefault gone a) = adb_DisplayName a"
  "adb_DisplayNameLc (clearDefault gone a) = adb_DisplayNameLc a"
  "adb_registry_fk (clearDefault gone a) = adb_registry_fk a"
  "adb_image_registry_fk (clearDefault gone a) = adb_image_registry_fk a"
  "adb_default_profile (clearDefault gone a) = Some i \<longleftrightarrow> adb_default_profile a = Some i \<and> i \<notin> set gone"
  by (auto simp: clearDefault_def applicationKey_def split: option.splits)

lemma dropProfiles_ok:
  assumes "db_ok d"
  shows "db_ok (dropProfiles P d) \<and> hasApplication (dropProfiles P d) = hasApplication d"
proof -
  define gone where "gone = map pdb_ID (List.filter P (t_profiles d))"
  define d' where "d' = dropProfiles P d"
  note d'_eq = d'_def [unfolded dropProfiles_def Let_def, folded gone_def]
  have prof: "t_profiles d' = List.filter (\<lambda>p. pdb_ID p \<notin> set gone) (t_profiles d)"
  proof -
    have "(P p \<longleftrightarrow> pdb_ID p \<in> set gone)" if "p \<in> set (t_profiles d)" for p
      using assms that by (auto simp: gone_def db_ok_iff keys_ok_def dest: keyed_ident_inj)
    then show ?thesis by (auto simp: d'_eq intro!: filter_cong)
  qed
  have app: "t_applications d' = map (clearDefault gone) (t_applications d)" by (simp add: d'_eq)
  have has: "hasApplication d' = hasApplication d" "hasRegistry d' = hasRegistry d"
    "hasProfile d' = (\<lambda>i. hasProfile d i \<and> i \<notin> set gone)"
    by (auto simp: has_defs d'_eq fun_eq_iff image_image prof [unfolded d'_eq, simplified])
  have "keys_ok d'"
    using assms unfolding db_ok_iff keys_ok_def prof app
    by (auto simp: d'_eq intro!: keyed_map keyed_filter)
  moreover have "names_ok d'" "registries_ok d'"
    using assms unfolding db_ok_iff names_ok_def registries_ok_def has prof app by (auto simp: d'_eq)
  moreover have "profiles_ok d'"
    using assms unfolding db_ok_iff profiles_ok_def has prof app by (fastforce simp: d'_eq)
  moreover have "templates_ok d'" "uses_ok d'"
    using assms unfolding db_ok_iff templates_ok_def uses_ok_def requirement_ok_def has by (auto simp: d'_eq)
  moreover have "packages_ok d' \<and> members_ok d'"
    by (rule packages_frame_filter [OF assms, where P = "\<lambda>l. snd l \<notin> set gone"]) (auto simp: d'_eq frame_defs image_image)
  ultimately show ?thesis using has(1) unfolding d'_def by (simp add: db_ok_iff)
qed

lemma deleteProfileID_ok:
  "deleteProfileID i now d = (Inr u, d') \<Longrightarrow> db_ok d \<Longrightarrow> db_ok d' \<and> hasApplication d' = hasApplication d"
  using dropProfiles_ok by (auto simp: deleteProfileID_def split: if_splits)

text \<open>Tables that no other condition mentions.\<close>

lemma frame_templates [simp]:
  "hasProfile (d\<lparr>t_parameter_templates := x\<rparr>) = hasProfile d"
  "hasApplication (d\<lparr>t_parameter_templates := x\<rparr>) = hasApplication d"
  "keys_ok (d\<lparr>t_parameter_templates := x\<rparr>) = keys_ok d" "names_ok (d\<lparr>t_parameter_templates := x\<rparr>) = names_ok d"
  "registries_ok (d\<lparr>t_parameter_templates := x\<rparr>) = registries_ok d"
  "profiles_ok (d\<lparr>t_parameter_templates := x\<rparr>) = profiles_ok d"
  "uses_ok (d\<lparr>t_parameter_templates := x\<rparr>) = uses_ok d"
  by (simp_all add: fun_eq_iff has_defs keys_ok_def names_ok_def registries_ok_def profiles_ok_def
      uses_ok_def requirement_ok_def)

lemma frame_requirements [simp]:
  "hasProfile (d\<lparr>t_deployment_requirements := x\<rparr>) = hasProfile d"
  "hasApplication (d\<lparr>t_deployment_requirements := x\<rparr>) = hasApplication d"
  "keys_ok (d\<lparr>t_deployment_requirements := x\<rparr>) = keys_ok d"
  "names_ok (d\<lparr>t_deployment_requirements := x\<rparr>) = names_ok d"
  "registries_ok (d\<lparr>t_deployment_requirements := x\<rparr>) = registries_ok d"
  "profiles_ok (d\<lparr>t_deployment_requirements := x\<rparr>) = profiles_ok d"
  "templates_ok (d\<lparr>t_deployment_requirements := x\<rparr>) = templates_ok d"
  "requirement_ok (d\<lparr>t_deployment_requirements := x\<rparr>) = requirement_ok d"
  by (simp_all add: fun_eq_iff has_defs keys_ok_def names_ok_def registries_ok_def profiles_ok_def
      templates_ok_def requirement_ok_def)

lemma frame_ignored [simp]:
  "hasProfile (d\<lparr>t_ignored_resources := x\<rparr>) = hasProfile d"
  "hasApplication (d\<lparr>t_ignored_resources := x\<rparr>) = hasApplication d"
  "names_ok (d\<lparr>t_ignored_resources := x\<rparr>) = names_ok d"
  "registries_ok (d\<lparr>t_ignored_resources := x\<rparr>) = registries_ok d"
  "profiles_ok (d\<lparr>t_ignored_resources := x\<rparr>) = profiles_ok d"
  "templates_ok (d\<lparr>t_ignored_resources := x\<rparr>) = templates_ok d"
  "requirement_ok (d\<lparr>t_ignored_resources := x\<rparr>) = requirement_ok d"
  by (simp_all add: fun_eq_iff has_defs names_ok_def registries_ok_def profiles_ok_def
      templates_ok_def requirement_ok_def)

lemma frame_packages [simp]:
  "packages_ok (d\<lparr>t_parameter_templates := x\<rparr>) = packages_ok d" "members_ok (d\<lparr>t_parameter_templates := x\<rparr>) = members_ok d"
  "packages_ok (d\<lparr>t_deployment_requirements := y\<rparr>) = packages_ok d"
  "members_ok (d\<lparr>t_deployment_requirements := y\<rparr>) = members_ok d"
  "packages_ok (d\<lparr>t_ignored_resources := z\<rparr>) = packages_ok d" "members_ok (d\<lparr>t_ignored_resources := z\<rparr>) = members_ok d"
  by (simp_all add: package_ok_defs members_ok_def)

lemma createParameterTemplateRow_ok:
  assumes "createParameterTemplateRow row now d = (Inr u, d')" and "db_ok d"
    and "hasProfile d (ptdb_profile_fk row)" and "ptdb_Mandatory row \<or> ptdb_Secret row \<Longrightarrow> ptdb_Default row = []"
  shows "db_ok d' \<and> hasProfile d' = hasProfile d \<and> hasApplication d' = hasApplication d"
  using assms by (auto simp: createParameterTemplateRow_def db_ok_iff templates_ok_def)

lemma deleteParameterTemplateRows_ok:
  assumes "deleteParameterTemplateRows P now d = (Inr n, d')" and "db_ok d"
  shows "db_ok d' \<and> hasProfile d' = hasProfile d \<and> hasApplication d' = hasApplication d"
  using assms by (auto simp: deleteParameterTemplateRows_def db_ok_iff templates_ok_def)

lemma createDeploymentRequirementRow_ok:
  assumes "createDeploymentRequirementRow row now d = (Inr u, d')" and "db_ok d" and "requirement_ok d row"
  shows "db_ok d' \<and> hasProfile d' = hasProfile d \<and> hasApplication d' = hasApplication d"
  using assms by (auto simp: createDeploymentRequirementRow_def db_ok_iff uses_ok_def)

lemma deleteDeploymentRequirementRows_ok:
  assumes "deleteDeploymentRequirementRows P now d = (Inr n, d')" and "db_ok d"
  shows "db_ok d' \<and> hasProfile d' = hasProfile d \<and> hasApplication d' = hasApplication d"
  using assms by (auto simp: deleteDeploymentRequirementRows_def db_ok_iff uses_ok_def)

lemma createIgnoredResourceRow_ok:
  assumes "createIgnoredResourceRow row now d = (Inr u, d')" and "db_ok d"
    and "hasApplication d (irdb_application_fk row)"
  shows "db_ok d' \<and> hasApplication d' = hasApplication d"
  using assms
  by (auto simp: createIgnoredResourceRow_def db_ok_iff uses_ok_def keys_ok_def split: if_splits)

lemma deleteIgnoredResourceRows_ok:
  assumes "deleteIgnoredResourceRows P now d = (Inr n, d')" and "db_ok d"
  shows "db_ok d' \<and> hasApplication d' = hasApplication d"
  using assms by (auto simp: deleteIgnoredResourceRows_def db_ok_iff uses_ok_def keys_ok_def)

subsection \<open>Deleting applications\<close>

lemma dropApplications_ok:
  assumes "db_ok d" and "\<And>p. p \<in> set (t_profiles d) \<Longrightarrow> pdb_application_fk p \<notin> gone"
    and "\<And>q. q \<in> set (t_application_dependencies d) \<Longrightarrow> adepdb_source_fk q \<notin> gone \<and> adepdb_target_fk q \<notin> gone"
    and "\<And>q. q \<in> set (t_application_namespaces d) \<Longrightarrow> ansdb_source_fk q \<notin> gone"
  shows "db_ok (d\<lparr>t_applications := List.filter (\<lambda>a. adb_ID a \<notin> gone) (t_applications d),
      t_ignored_resources := List.filter (\<lambda>q. irdb_application_fk q \<notin> gone) (t_ignored_resources d),
      t_package_applications := List.filter (\<lambda>l. snd l \<notin> gone) (t_package_applications d)\<rparr>)" (is "db_ok ?d")
proof -
  have has: "hasApplication ?d = (\<lambda>i. hasApplication d i \<and> i \<notin> gone)" "hasProfile ?d = hasProfile d"
    "hasRegistry ?d = hasRegistry d"
    by (auto simp: has_defs fun_eq_iff)
  have "keys_ok ?d"
    using assms(1) by (auto simp: db_ok_iff keys_ok_def intro!: keyed_filter)
  moreover have "names_ok ?d" "registries_ok ?d" "templates_ok ?d"
    using assms(1) unfolding db_ok_iff names_ok_def registries_ok_def templates_ok_def has by auto
  moreover have "profiles_ok ?d"
    using assms(1,2) unfolding db_ok_iff profiles_ok_def has by auto
  moreover have "uses_ok ?d"
    using assms(1,3,4) unfolding db_ok_iff uses_ok_def requirement_ok_def has by auto
  moreover have "packages_ok ?d \<and> members_ok ?d"
    using packages_less_applications [OF assms(1,3,4)] by simp
  ultimately show ?thesis by (simp add: db_ok_iff)
qed

lemma deleteApplicationRows_ok:
  assumes "deleteApplicationRows P now d = (Inr n, d')" and "db_ok d"
  shows "db_ok d'"
proof -
  define gone where "gone = map adb_ID (List.filter P (t_applications d))"
  define d1 where "d1 = dropProfiles (\<lambda>p. pdb_application_fk p \<in> set gone) d"
  have d': "d' = d1\<lparr>t_applications := List.filter (\<lambda>a. adb_ID a \<notin> set gone) (t_applications d1),
      t_ignored_resources := List.filter (\<lambda>q. irdb_application_fk q \<notin> set gone) (t_ignored_resources d1),
      t_package_applications := List.filter (\<lambda>l. snd l \<notin> set gone) (t_package_applications d1)\<rparr>"
    and free: "\<forall>q \<in> set (t_application_dependencies d). adepdb_source_fk q \<notin> set gone \<and> adepdb_target_fk q \<notin> set gone"
      "\<forall>q \<in> set (t_application_namespaces d). ansdb_source_fk q \<notin> set gone"
    using assms(1) unfolding deleteApplicationRows_def Let_def gone_def [symmetric] d1_def [symmetric]
    by (auto simp: list_ex_iff split: if_splits)
  have "db_ok d1" using dropProfiles_ok [OF assms(2)] by (simp add: d1_def)
  moreover have "pdb_application_fk p \<notin> set gone" if "p \<in> set (t_profiles d1)" for p
    using that by (auto simp: d1_def dropProfiles_def Let_def)
  moreover have "t_application_dependencies d1 = t_application_dependencies d"
    "t_application_namespaces d1 = t_application_namespaces d"
    by (simp_all add: d1_def dropProfiles_def Let_def)
  ultimately show ?thesis unfolding d' using free by (intro dropApplications_ok) auto
qed

section \<open>Successful computations\<close>

definition tri :: "(db \<Rightarrow> bool) \<Rightarrow> 'a txm \<Rightarrow> ('a \<Rightarrow> db \<Rightarrow> bool) \<Rightarrow> bool" where
  "tri P x Q \<longleftrightarrow> (\<forall>s v t. P (tx_db s) \<longrightarrow> x s = (Inr v, t) \<longrightarrow> Q v (tx_db t))"

lemma triD: "tri P x Q \<Longrightarrow> P (tx_db s) \<Longrightarrow> x s = (Inr v, t) \<Longrightarrow> Q v (tx_db t)"
  by (simp add: tri_def)

lemma tri_weaken: "tri P x Q \<Longrightarrow> (\<And>d. P' d \<Longrightarrow> P d) \<Longrightarrow> (\<And>v d. Q v d \<Longrightarrow> Q' v d) \<Longrightarrow> tri P' x Q'"
  by (fastforce simp: tri_def)

lemma tri_ret [tri_intro]: "(\<And>d. P d \<Longrightarrow> Q x d) \<Longrightarrow> tri P (ret x) Q"
  by (auto simp: tri_def ret_def)

lemma tri_throw [tri_intro]: "tri P (throw e) Q"
  by (simp add: tri_def throw_def)

lemma tri_liftE [tri_intro]: "(\<And>v d. r = Inr v \<Longrightarrow> P d \<Longrightarrow> Q v d) \<Longrightarrow> tri P (liftE r) Q"
  by (auto simp: tri_def liftE_def)

lemma tri_bnd: "tri P x R \<Longrightarrow> (\<And>v. tri (R v) (f v) Q) \<Longrightarrow> tri P (bnd x f) Q"
  by (auto simp: tri_def bnd_def split: prod.splits sum.splits)

lemma tri_bnd_same: "tri P x (\<lambda>_. P) \<Longrightarrow> (\<And>v. tri P (f v) Q) \<Longrightarrow> tri P (bnd x f) Q"
  by (rule tri_bnd)

lemma tri_if [tri_intro]: "(b \<Longrightarrow> tri P x Q) \<Longrightarrow> (\<not> b \<Longrightarrow> tri P y Q) \<Longrightarrow> tri P (if b then x else y) Q"
  by simp

lemma tri_case_option [tri_intro]:
  "(r = None \<Longrightarrow> tri P x Q) \<Longrightarrow> (\<And>v. r = Some v \<Longrightarrow> tri P (g v) Q) \<Longrightarrow>
   tri P (case r of None \<Rightarrow> x | Some v \<Rightarrow> g v) Q"
  by (cases r) auto

lemma tri_case_sum [tri_intro]:
  "(\<And>e. r = Inl e \<Longrightarrow> tri P (f e) Q) \<Longrightarrow> (\<And>v. r = Inr v \<Longrightarrow> tri P (g v) Q) \<Longrightarrow>
   tri P (case r of Inl e \<Rightarrow> f e | Inr v \<Rightarrow> g v) Q"
  by (cases r) auto

lemma tri_case_prod [tri_intro]:
  "(\<And>a b. p = (a, b) \<Longrightarrow> tri P (f a b) Q) \<Longrightarrow> tri P (case p of (a, b) \<Rightarrow> f a b) Q"
  by (cases p) auto

lemma tri_forM:
  "(\<And>x. x \<in> set xs \<Longrightarrow> tri I (f x) (\<lambda>_. I)) \<Longrightarrow> tri I (forM xs f) (\<lambda>_. I)"
  by (induction xs) (auto intro!: tri_ret tri_bnd_same)

lemma tri_mapM:
  "(\<And>x. x \<in> set xs \<Longrightarrow> tri I (f x) (\<lambda>_. I)) \<Longrightarrow> tri I (mapM f xs) (\<lambda>_. I)"
proof (induction xs)
  case Nil
  then show ?case by (auto intro: tri_ret)
next
  case (Cons x xs)
  then have "tri I (mapM f xs) (\<lambda>_. I)" "tri I (f x) (\<lambda>_. I)" by auto
  then show ?case by (auto intro!: tri_ret intro: tri_bnd_same)
qed

lemma tri_external:
  assumes "\<And>d. P d \<Longrightarrow> Q (Inl EntFailure) d"
    and "\<And>s r t. f s = (r, t) \<Longrightarrow> P (tx_db s) \<Longrightarrow> Q r (tx_db t)"
  shows "tri P (external f) Q"
  using assms by (fastforce simp: tri_def external_def Let_def split: prod.splits if_splits)

lemma tri_query:
  "(\<And>d. P d \<Longrightarrow> Q (Inl EntFailure) d) \<Longrightarrow> (\<And>d. P d \<Longrightarrow> Q (f d) d) \<Longrightarrow> tri P (query f) Q"
  unfolding query_def by (rule tri_external) auto

lemma tri_query_same: "tri P (query f) (\<lambda>_. P)"
  by (rule tri_query)

lemma tri_mutate:
  "(\<And>d. P d \<Longrightarrow> Q (Inl EntFailure) d) \<Longrightarrow> (\<And>n d r d'. P d \<Longrightarrow> f n d = (r, d') \<Longrightarrow> Q r d') \<Longrightarrow>
   tri P (mutate f) Q"
  unfolding mutate_def by (rule tri_external) (auto split: prod.splits)

lemma tri_orDBError: "tri P x (\<lambda>r d. \<forall>v. r = Inr v \<longrightarrow> Q v d) \<Longrightarrow> tri P (orDBError x) Q"
  unfolding orDBError_def by (erule tri_bnd) (auto intro!: tri_case_sum tri_throw tri_ret)

lemma tri_orRawError: "tri P x (\<lambda>r d. \<forall>v. r = Inr v \<longrightarrow> Q v d) \<Longrightarrow> tri P (orRawError x) Q"
  unfolding orRawError_def by (erule tri_bnd) (auto intro!: tri_case_sum tri_throw tri_ret)

lemma tri_orVaultError: "tri P x (\<lambda>r d. \<forall>v. r = Inr v \<longrightarrow> Q v d) \<Longrightarrow> tri P (orVaultError x) Q"
  unfolding orVaultError_def by (erule tri_bnd) (auto intro!: tri_case_sum tri_throw tri_ret)

text \<open>The forms the services use: a query whose answer says something, a mutation that is not refused.\<close>

lemma tri_found:
  "(\<And>d v. P d \<Longrightarrow> f d = Inr v \<Longrightarrow> Q v d) \<Longrightarrow> tri P (orDBError (query f)) Q"
  by (rule tri_orDBError, rule tri_query) auto

lemma tri_found_raw:
  "(\<And>d v. P d \<Longrightarrow> f d = Inr v \<Longrightarrow> Q v d) \<Longrightarrow> tri P (orRawError (query f)) Q"
  by (rule tri_orRawError, rule tri_query) auto

lemma tri_done:
  "(\<And>n d v d'. P d \<Longrightarrow> f n d = (Inr v, d') \<Longrightarrow> Q v d') \<Longrightarrow> tri P (orDBError (mutate f)) Q"
  by (rule tri_orDBError, rule tri_mutate) auto

lemma tri_done_raw:
  "(\<And>n d v d'. P d \<Longrightarrow> f n d = (Inr v, d') \<Longrightarrow> Q v d') \<Longrightarrow> tri P (orRawError (mutate f)) Q"
  by (rule tri_orRawError, rule tri_mutate) auto

lemma tri_mutate_created:
  "(\<And>n d v d'. P d \<Longrightarrow> f n d = (Inr v, d') \<Longrightarrow> Q v d') \<Longrightarrow>
   tri P (mutate f) (\<lambda>r d. \<forall>v. r = Inr v \<longrightarrow> Q v d)"
  by (rule tri_mutate) auto

lemma tri_bnd_saved:
  assumes "\<And>n d v d'. P d \<Longrightarrow> f n d = (Inr v, d') \<Longrightarrow> R v d'"
    and "\<And>err. tri (\<lambda>_. True) (g err) Q" and "\<And>v. tri (R v) (h v) Q"
  shows "tri P (bnd (mutate f) (\<lambda>saved. case saved of Inl err \<Rightarrow> g err | Inr v \<Rightarrow> h v)) Q"
proof (rule tri_bnd)
  show "tri P (mutate f) (\<lambda>r d. \<forall>v. r = Inr v \<longrightarrow> R v d)"
    using assms(1) by (rule tri_mutate_created)
  show "tri (\<lambda>d. \<forall>v. r = Inr v \<longrightarrow> R v d) (case r of Inl err \<Rightarrow> g err | Inr v \<Rightarrow> h v) Q" for r
    using assms(2,3) by (cases r) (auto intro: tri_weaken)
qed

lemma tri_bnd_found:
  assumes "\<And>d v. P d \<Longrightarrow> f d = Inr v \<Longrightarrow> R v d"
    and "\<And>err. tri P (g err) Q" and "\<And>v. tri (R v) (h v) Q"
  shows "tri P (bnd (query f) (\<lambda>found. case found of Inl err \<Rightarrow> g err | Inr v \<Rightarrow> h v)) Q"
proof (rule tri_bnd)
  show "tri P (query f) (\<lambda>r d. P d \<and> (\<forall>v. r = Inr v \<longrightarrow> R v d))"
    using assms(1) by (intro tri_query) auto
  show "tri (\<lambda>d. P d \<and> (\<forall>v. r = Inr v \<longrightarrow> R v d)) (case r of Inl err \<Rightarrow> g err | Inr v \<Rightarrow> h v) Q" for r
    using assms(2,3) by (cases r) (auto intro: tri_weaken)
qed

text \<open>Secrets and events leave the tables alone.\<close>

lemma tri_secrets [tri_intro]:
  "tri P SecretServiceFactory (\<lambda>_. P)" "tri P (ReadSecret p) (\<lambda>_. P)" "tri P (WriteSecret p v) (\<lambda>_. P)"
  "tri P (DeleteSecret p) (\<lambda>_. P)"
  unfolding SecretServiceFactory_def ReadSecret_def WriteSecret_def DeleteSecret_def
  by (rule tri_external; auto)+

lemma tri_vault [tri_intro]: "tri P x (\<lambda>_. P) \<Longrightarrow> tri P (orVaultError x) (\<lambda>_. P)"
  by (rule tri_orVaultError, erule tri_weaken) auto

lemma tri_modify_events [tri_intro]:
  "tri P (modify (\<lambda>s. s\<lparr>tx_regEvents := f1 s\<rparr>)) (\<lambda>_. P)" "tri P (modify (\<lambda>s. s\<lparr>tx_artEvents := f2 s\<rparr>)) (\<lambda>_. P)"
  "tri P (modify (\<lambda>s. s\<lparr>tx_appEvents := f3 s\<rparr>)) (\<lambda>_. P)" "tri P (modify (\<lambda>s. s\<lparr>tx_pkgEvents := f4 s\<rparr>)) (\<lambda>_. P)"
  by (auto simp: tri_def modify_def)

text \<open>A handler of the common shape commits only tables its body left.\<close>

lemma withTransaction_tri:
  assumes "tri I body (\<lambda>_. I)" and "I (sv_db srv)" and "withTransaction env body srv = (r, srv')"
  shows "I (sv_db srv')"
proof (cases r)
  case (Inl e)
  with assms show ?thesis using withTransaction_error [of env body srv e srv'] by (simp add: visible_def)
next
  case (Inr vt)
  obtain v t where "vt = (v, t)" by (cases vt)
  with Inr assms(3) obtain t0 where t0: "startTransaction env srv = (Inr t0, srv\<lparr>sv_open := Suc (sv_open srv)\<rparr>)"
    "body t0 = (Inr v, t)" "srv' = srv\<lparr>sv_db := tx_db t, sv_vault := tx_vault t\<rparr>"
    using withTransaction_success [of env body srv v t srv'] by auto
  then have "tx_db t0 = sv_db srv" by (auto simp: startTransaction_def split: if_splits)
  with triD [OF assms(1) _ t0(2)] assms(2) t0(3) show ?thesis by simp
qed

lemma q_first_appended:
  "(\<And>x. x \<in> set xs \<Longrightarrow> \<not> P x) \<Longrightarrow> P y \<Longrightarrow> q_first P (xs @ [y]) = Inr y"
  by (simp add: q_first_def filter_False)

lemma q_first_map: "(\<And>x. P (f x) = P x) \<Longrightarrow> q_first P xs = Inr x \<Longrightarrow> q_first P (map f xs) = Inr (f x)"
  by (induction xs) (auto simp: q_first_def split: if_splits)

lemma q_only_keyed:
  assumes "distinct rows" and "r \<in> set rows" and "P r" and "\<forall>q \<in> set rows. P q \<longrightarrow> q = r"
  shows "q_only P rows = Inr r"
proof -
  obtain xs ys where rows: "rows = xs @ r # ys" using assms(2) by (auto simp: in_set_conv_decomp)
  have "\<not> P q" if "q \<in> set xs \<union> set ys" for q
    using that assms(1) assms(4) [rule_format, of q] by (auto simp: rows)
  then have "List.filter P xs = []" "List.filter P ys = []" by (auto simp: filter_empty_conv)
  with rows assms(3) have "List.filter P rows = [r]" by simp
  then show ?thesis by (simp add: q_only_def)
qed

lemma set_insertRow [simp]: "set (insertRow le x xs) = insert x (set xs)"
  by (induction xs) auto

lemma set_orderRows [simp]: "set (orderRows le xs) = set xs"
  by (induction xs) (simp_all add: orderRows_def)

end
