(* ===== verification/Handler_Shape.thy ===== *)
theory Handler_Shape
  imports Catalog_Invariant
begin

text \<open>
  The contract every handler meets. A request is either rejected before a transaction starts, or
  admitted: then one transaction runs a body; when the body fails the transaction is rolled back
  (or, on some paths of the code, abandoned) and the error returned; when it succeeds the
  transaction is committed, the response built from the body's value and the queued events sent.
  The locale \<open>transaction_handler\<close> states this shape and what follows from it for all handlers at
  once; every handler's theory interprets it on the handler's definition.
\<close>

section \<open>Running a body in a transaction\<close>

definition commits :: "('a \<Rightarrow> 'b) \<Rightarrow> (tx \<Rightarrow> server \<Rightarrow> server) \<Rightarrow> 'a \<Rightarrow> tx \<Rightarrow> server \<Rightarrow> 'b result \<times> server" where
  "commits respond finish v t srv =
     (case commitTransaction t srv of
        (Inl e, srv1) \<Rightarrow> (Inl (dbError e), srv1)
      | (Inr _, srv1) \<Rightarrow> (Inr (respond v), finish t srv1))"

definition runs ::
    "env \<Rightarrow> 'a txm \<Rightarrow> ('a \<Rightarrow> 'b) \<Rightarrow> (tx \<Rightarrow> server \<Rightarrow> server) \<Rightarrow> server \<Rightarrow> 'b result \<times> server \<Rightarrow> bool" where
  "runs env body respond finish srv out \<longleftrightarrow>
     (case startTransaction env srv of
        (Inl e, srv1) \<Rightarrow> out = (Inl (dbError e), srv1)
      | (Inr t, srv1) \<Rightarrow>
          (case body t of
             (Inl e, t1) \<Rightarrow> out = (Inl e, rollbackTransaction t1 srv1) \<or> out = (Inl e, abandonTransaction t1 srv1)
           | (Inr v, t1) \<Rightarrow> out = commits respond finish v t1 srv1))"

lemma withTransaction_runs:
  assumes "out = (case withTransaction env body srv of
      (Inl e, srv1) \<Rightarrow> (Inl e, srv1) | (Inr (v, t), srv1) \<Rightarrow> (Inr (respond v), finish t srv1))"
  shows "runs env body respond finish srv out"
  using assms
  by (auto simp: runs_def commits_def withTransaction_def split: prod.splits sum.splits)

lemma runs_error_cases:
  assumes "runs env body respond finish srv (Inl e, srv')"
  shows "\<exists>V n. srv' = srv\<lparr>sv_vault := V, sv_open := n\<rparr> \<and> (n = sv_open srv \<or> n = Suc (sv_open srv))"
proof (cases "startTransaction env srv")
  case start: (Pair r srv1)
  show ?thesis
  proof (cases r)
    case (Inl e)
    with assms start have "srv' = srv\<lparr>sv_vault := sv_vault srv, sv_open := sv_open srv\<rparr>"
      by (auto simp: runs_def dest: startTransaction_Inl)
    then show ?thesis by blast
  next
    case (Inr t)
    with start have srv1: "srv1 = srv\<lparr>sv_open := Suc (sv_open srv)\<rparr>" using startTransaction_Inr by blast
    obtain q t1 where body: "body t = (q, t1)" by (cases "body t")
    show ?thesis
    proof (cases q)
      case Inl: (Inl e')
      with assms start \<open>r = Inr t\<close> body
      have "srv' = rollbackTransaction t1 srv1 \<or> srv' = abandonTransaction t1 srv1" by (auto simp: runs_def)
      then have "srv' = srv\<lparr>sv_vault := tx_vault t1, sv_open := sv_open srv\<rparr> \<or>
          srv' = srv\<lparr>sv_vault := tx_vault t1, sv_open := Suc (sv_open srv)\<rparr>"
        by (auto simp: srv1 rollbackTransaction_def abandonTransaction_def)
      then show ?thesis by blast
    next
      case Inr: (Inr v)
      with assms start \<open>r = Inr t\<close> body obtain e' where "commitTransaction t1 srv1 = (Inl e', srv')"
        by (auto simp: runs_def commits_def split: prod.splits sum.splits)
      then have "srv' = srv\<lparr>sv_vault := tx_vault t1, sv_open := sv_open srv\<rparr>"
        by (auto simp: srv1 dest!: commitTransaction_Inl)
      then show ?thesis by blast
    qed
  qed
qed

lemma runs_error:
  assumes "runs env body respond finish srv (Inl e, srv')"
  shows "public srv' = public srv" and "sv_open srv' = sv_open srv \<or> sv_open srv' = Suc (sv_open srv)"
  using runs_error_cases [OF assms] by (auto simp: public_def)

lemma runs_success:
  assumes "runs env body respond finish srv (Inr w, srv')"
  obtains t0 v t where "startTransaction env srv = (Inr t0, srv\<lparr>sv_open := Suc (sv_open srv)\<rparr>)"
    and "tx_db t0 = sv_db srv" and "body t0 = (Inr v, t)" and "w = respond v"
    and "srv' = finish t (srv\<lparr>sv_db := tx_db t, sv_vault := tx_vault t\<rparr>)"
proof (cases "startTransaction env srv")
  case (Pair r srv1)
  with assms obtain t0 where t0: "r = Inr t0" by (cases r) (auto simp: runs_def)
  note start = startTransaction_Inr [OF Pair [unfolded t0]]
  from assms Pair t0 obtain v t where t: "body t0 = (Inr v, t)" "(Inr w, srv') = commits respond finish v t srv1"
    by (auto simp: runs_def split: prod.splits sum.splits)
  then obtain srv2 where c: "commitTransaction t srv1 = (Inr (), srv2)" "w = respond v" "srv' = finish t srv2"
    by (auto simp: commits_def split: prod.splits sum.splits)
  then have "srv2 = srv\<lparr>sv_db := tx_db t, sv_vault := tx_vault t\<rparr>"
    using start commitTransaction_Inr [OF c(1)] by simp
  with that [of t0 v t] Pair t0 start t c show thesis by simp
qed

lemma runs_tri:
  assumes "runs env body respond finish srv (r, srv')" and "tri I body (\<lambda>_. I)" and "I (sv_db srv)"
    and "\<And>t s. sv_db (finish t s) = sv_db s"
  shows "I (sv_db srv')"
proof (cases r)
  case (Inl e)
  with assms(1,3) runs_error(1) [of env body respond finish srv e srv'] show ?thesis by (simp add: public_def)
next
  case (Inr w)
  with assms(1) obtain t0 v t where "tx_db t0 = sv_db srv" "body t0 = (Inr v, t)"
    "srv' = finish t (srv\<lparr>sv_db := tx_db t, sv_vault := tx_vault t\<rparr>)"
    by (auto elim!: runs_success)
  with triD [OF assms(2), of t0 v t] assms(3,4) show ?thesis by simp
qed

text \<open>A body given in phases, each of whose errors the handler deals with on its own.\<close>

lemma bnd_phase:
  "bnd x f t = (case x t of (Inl e, t1) \<Rightarrow> (Inl e, t1) | (Inr v, t1) \<Rightarrow> f v t1)"
  by (simp add: bnd_def)

text \<open>The response of a listing drops the projects of the rows.\<close>

lemma listing_response:
  "(case w of (Inl e, srv1) \<Rightarrow> (Inl e, srv1) | (Inr ((rows, _, n), t), srv1) \<Rightarrow> (Inr (rows, n), srv1)) =
   (case w of (Inl e, srv1) \<Rightarrow> (Inl e, srv1)
    | (Inr (v, t), srv1) \<Rightarrow> (Inr (case v of (rows, _, n) \<Rightarrow> (rows, n)), srv1))"
  by (auto split: prod.splits sum.splits)

section \<open>The contract of a handler\<close>

locale transaction_handler =
  fixes handle :: "env \<Rightarrow> metadata option \<Rightarrow> 'req \<Rightarrow> server \<Rightarrow> 'b result \<times> server"
    and admits :: "env \<Rightarrow> metadata option \<Rightarrow> 'req \<Rightarrow> 'x \<Rightarrow> bool"
    and project :: "'x \<Rightarrow> string"
    and request :: "'req \<Rightarrow> Request \<times> string list"
    and body :: "env \<Rightarrow> 'x \<Rightarrow> 'a txm"
    and respond :: "env \<Rightarrow> 'x \<Rightarrow> 'a \<Rightarrow> 'b"
    and finish :: "'x \<Rightarrow> tx \<Rightarrow> server \<Rightarrow> server"
  assumes shape: "handle env ctx req srv = out \<Longrightarrow>
      (\<exists>e. out = (Inl e, srv)) \<or> (\<exists>x. admits env ctx req x \<and> runs env (body env x) (respond env x) (finish x) srv out)"
    and admits_project: "admits env ctx req x \<Longrightarrow> GetActiveProjectID ctx = Inr (project x)"
    and admits_allowed: "admits env ctx req x \<Longrightarrow>
      authCheckAllowed env ctx (fst (request req)) (snd (request req)) = Inr ()"
    and body_ok: "admits env ctx req x \<Longrightarrow> tri db_ok (body env x) (\<lambda>_. db_ok)"
    and finish_db: "sv_db (finish x t s) = sv_db s"
    and finish_open: "sv_open (finish x t s) = sv_open s"
    and finish_listeners: "sv_listeners (finish x t s) = sv_listeners s"
begin

lemma listeners_unchanged:
  assumes "handle env ctx req srv = (r, srv')"
  shows "sv_listeners srv' = sv_listeners srv"
proof -
  have "runs env b rs (finish x) srv (r, srv') \<Longrightarrow> ?thesis" for b :: "'a txm" and rs :: "'a \<Rightarrow> 'b" and x
    by (cases r) (auto simp: finish_listeners dest: runs_error_cases elim!: runs_success)
  then show ?thesis using shape [OF assms] by auto
qed

lemma error_public:
  assumes "handle env ctx req srv = (Inl e, srv')"
  shows "public srv' = public srv"
  using shape [OF assms] by (auto dest: runs_error(1))

lemma error_open:
  assumes "handle env ctx req srv = (Inl e, srv')"
  shows "sv_open srv' = sv_open srv \<or> sv_open srv' = Suc (sv_open srv)"
  using shape [OF assms] by (auto dest: runs_error(2))

lemma success:
  assumes "handle env ctx req srv = (Inr w, srv')"
  obtains x t0 v t where "admits env ctx req x" "startTransaction env srv = (Inr t0, srv\<lparr>sv_open := Suc (sv_open srv)\<rparr>)"
    "tx_db t0 = sv_db srv" "body env x t0 = (Inr v, t)" "w = respond env x v"
    "srv' = finish x t (srv\<lparr>sv_db := tx_db t, sv_vault := tx_vault t\<rparr>)"
  using shape [OF assms] by (auto elim!: runs_success)

lemma success_open: "handle env ctx req srv = (Inr w, srv') \<Longrightarrow> sv_open srv' = sv_open srv"
  by (erule success) (simp add: finish_open)

lemma keeps_db_ok:
  assumes "handle env ctx req srv = (r, srv')" and "db_ok (sv_db srv)"
  shows "db_ok (sv_db srv')"
  using shape [OF assms(1)] assms(2) by (auto intro: runs_tri [OF _ body_ok] simp: finish_db)

lemma unauthorized:
  assumes "authCheckAllowed env ctx (fst (request req)) (snd (request req)) \<noteq> Inr ()"
  shows "\<exists>e. handle env ctx req srv = (Inl e, srv)"
  using shape [OF refl, of env ctx req srv] assms admits_allowed by blast

lemma no_project:
  assumes "GetActiveProjectID ctx = Inl e"
  shows "\<exists>e. handle env ctx req srv = (Inl e, srv)"
  using shape [OF refl, of env ctx req srv] assms admits_project by fastforce

end

text \<open>A handler that only reads: success leaves the tables, the listeners and the streams too.\<close>

locale reading_handler = transaction_handler +
  assumes reads: "tri P (body env x) (\<lambda>_. P)"
    and finish_none: "finish x t s = s"
begin

lemma public_unchanged:
  assumes "handle env ctx req srv = (r, srv')"
  shows "public srv' = public srv"
proof (cases r)
  case (Inl e)
  with assms show ?thesis using error_public by blast
next
  case (Inr w)
  with assms obtain x t0 v t where "tx_db t0 = sv_db srv" "body env x t0 = (Inr v, t)"
    "srv' = srv\<lparr>sv_db := tx_db t, sv_vault := tx_vault t\<rparr>"
    by (auto elim!: success simp: finish_none)
  moreover from this have "tx_db t = sv_db srv" using triD [OF reads [of "\<lambda>d. d = sv_db srv" env x]] by blast
  ultimately show ?thesis by (simp add: public_def)
qed

end

lemmas transaction_dests = startTransaction_Inl startTransaction_Inr commitTransaction_Inl commitTransaction_Inr
lemmas watch_splits = option.split_asm prod.split_asm sum.split_asm if_split_asm

section \<open>The contract of a watch\<close>

text \<open>
  Setting a watch up reads the tables and registers the listener. On success the listener of the
  request is registered and no transaction is left open; a failed commit leaves it registered.
\<close>

locale watch_handler =
  fixes watch :: "env \<Rightarrow> 'req option \<Rightarrow> 'st option \<Rightarrow> chan \<Rightarrow> server \<Rightarrow> unit result \<times> 'ev list \<times> server"
    and add :: "chan \<Rightarrow> 'req \<Rightarrow> EventListeners \<Rightarrow> EventListeners"
  assumes watch_streams: "watch env req stream ch srv = (r, sent, srv') \<Longrightarrow>
      sv_db srv' = sv_db srv \<and> sv_regOut srv' = sv_regOut srv \<and> sv_artOut srv' = sv_artOut srv \<and>
      sv_appOut srv' = sv_appOut srv \<and> sv_pkgOut srv' = sv_pkgOut srv"
    and watch_listeners: "watch env req stream ch srv = (r, sent, srv') \<Longrightarrow>
      sv_listeners srv' = sv_listeners srv \<or> (\<exists>q. req = Some q \<and> sv_listeners srv' = add ch q (sv_listeners srv))"
    and watch_success: "watch env req stream ch srv = (Inr u, sent, srv') \<Longrightarrow>
      sv_open srv' = sv_open srv \<and> (\<exists>q. req = Some q \<and> sv_listeners srv' = add ch q (sv_listeners srv))"
begin

lemma watch_keeps_db_ok:
  "watch env req stream ch srv = (r, sent, srv') \<Longrightarrow> db_ok (sv_db srv) \<Longrightarrow> db_ok (sv_db srv')"
  using watch_streams by fastforce

end

end
