(* ===== verification/Validation.thy ===== *)
theory Validation
  imports Service_Utils
begin

text \<open>
  The validators of the messages, \<^verbatim>\<open>pkg/api/catalog/v3/resources.pb.validate.go\<close>: the checks of
  \<^verbatim>\<open>Validate\<close> in their order, the first that fails giving the error. The expressions they match
  strings against are regular expressions with an executable matcher by derivatives, proved to
  decide the language of the expression. The class \<^verbatim>\<open>\PC\<close> (no control or other unassigned
  character) is exact on ASCII and admits every other byte. The names and versions the validators
  admit are characterised without expressions.
\<close>

section \<open>Regular expressions\<close>

datatype re = Nothing | Empty | Class "char \<Rightarrow> bool" | Alt re re | Seq re re | Star re

inductive accepts :: "re \<Rightarrow> string \<Rightarrow> bool" where
  acc_empty: "accepts Empty []"
| acc_class: "p c \<Longrightarrow> accepts (Class p) [c]"
| acc_alt1: "accepts r s \<Longrightarrow> accepts (Alt r q) s"
| acc_alt2: "accepts q s \<Longrightarrow> accepts (Alt r q) s"
| acc_seq: "accepts r s \<Longrightarrow> accepts q t \<Longrightarrow> accepts (Seq r q) (s @ t)"
| acc_star0: "accepts (Star r) []"
| acc_star1: "accepts r s \<Longrightarrow> accepts (Star r) t \<Longrightarrow> accepts (Star r) (s @ t)"

inductive_simps accepts_simps [simp]:
  "accepts Nothing s" "accepts Empty s" "accepts (Class p) s" "accepts (Alt r q) s" "accepts (Seq r q) s"

fun nullable :: "re \<Rightarrow> bool" where
  "nullable Nothing = False"
| "nullable Empty = True"
| "nullable (Class p) = False"
| "nullable (Alt r q) = (nullable r \<or> nullable q)"
| "nullable (Seq r q) = (nullable r \<and> nullable q)"
| "nullable (Star r) = True"

text \<open>Constructors that drop what cannot match, so that derivatives stay small.\<close>

fun alt :: "re \<Rightarrow> re \<Rightarrow> re" where
  "alt Nothing r = r"
| "alt r Nothing = r"
| "alt r q = Alt r q"

fun seq :: "re \<Rightarrow> re \<Rightarrow> re" where
  "seq Nothing r = Nothing"
| "seq Empty r = r"
| "seq r q = Seq r q"

fun deriv :: "char \<Rightarrow> re \<Rightarrow> re" where
  "deriv c Nothing = Nothing"
| "deriv c Empty = Nothing"
| "deriv c (Class p) = (if p c then Empty else Nothing)"
| "deriv c (Alt r q) = alt (deriv c r) (deriv c q)"
| "deriv c (Seq r q) = (if nullable r then alt (seq (deriv c r) q) (deriv c q) else seq (deriv c r) q)"
| "deriv c (Star r) = seq (deriv c r) (Star r)"

fun MatchString :: "re \<Rightarrow> string \<Rightarrow> bool" where
  "MatchString r [] = nullable r"
| "MatchString r (c # cs) = MatchString (deriv c r) cs"

fun upTo :: "nat \<Rightarrow> re \<Rightarrow> re" where
  "upTo 0 r = Empty"
| "upTo (Suc n) r = Alt Empty (Seq r (upTo n r))"

definition plusRe :: "re \<Rightarrow> re" where
  "plusRe r = Seq r (Star r)"

fun lit :: "string \<Rightarrow> re" where
  "lit [] = Empty"
| "lit (c # cs) = Seq (Class (\<lambda>d. d = c)) (lit cs)"

section \<open>Character classes and patterns\<close>

definition charIn :: "nat \<Rightarrow> nat \<Rightarrow> char \<Rightarrow> bool" where
  "charIn lo hi c \<longleftrightarrow> lo \<le> (of_char c :: nat) \<and> (of_char c :: nat) \<le> hi"

definition lowerAlnum :: "char \<Rightarrow> bool" where
  "lowerAlnum c \<longleftrightarrow> charIn 97 122 c \<or> charIn 48 57 c"

definition alnum :: "char \<Rightarrow> bool" where
  "alnum c \<longleftrightarrow> lowerAlnum c \<or> charIn 65 90 c"

definition nameChar :: "char \<Rightarrow> bool" where
  "nameChar c \<longleftrightarrow> lowerAlnum c \<or> c = CHR ''-''"

definition versionChar :: "char \<Rightarrow> bool" where
  "versionChar c \<longleftrightarrow> nameChar c \<or> c = CHR ''.''"

definition printable :: "char \<Rightarrow> bool" where
  "printable c \<longleftrightarrow> \<not> charIn 0 31 c \<and> \<not> charIn 127 127 c"

text \<open>\<^verbatim>\<open>^[x][y]{0,n}[x]{0,1}$\<close>\<close>

definition boundedName :: "(char \<Rightarrow> bool) \<Rightarrow> (char \<Rightarrow> bool) \<Rightarrow> nat \<Rightarrow> re" where
  "boundedName p q n = Seq (Class p) (Seq (upTo n (Class q)) (upTo 1 (Class p)))"

abbreviation namePattern :: re where "namePattern \<equiv> boundedName lowerAlnum nameChar 38"
abbreviation applicationNamePattern :: re where
  "applicationNamePattern \<equiv> boundedName lowerAlnum nameChar 24"
abbreviation versionPattern :: re where "versionPattern \<equiv> boundedName lowerAlnum versionChar 18"
abbreviation chartVersionPattern :: re where
  "chartVersionPattern \<equiv> boundedName lowerAlnum versionChar 51"
abbreviation resourceNamePattern :: re where
  "resourceNamePattern \<equiv> boundedName lowerAlnum (\<lambda>c. versionChar c \<or> c = CHR ''_'') 38"
abbreviation resourceKindPattern :: re where
  "resourceKindPattern \<equiv> boundedName alnum (\<lambda>c. alnum c \<or> c = CHR ''.'' \<or> c = CHR ''_'' \<or> c = CHR ''-'') 38"
abbreviation printablePattern :: re where "printablePattern \<equiv> Star (Class printable)"
abbreviation chartNamePattern :: re where
  "chartNamePattern \<equiv> Star (Class (\<lambda>c. nameChar c \<or> c = CHR ''/''))"
abbreviation parameterNamePattern :: re where
  "parameterNamePattern \<equiv> Star (Class (\<lambda>c. alnum c \<or> c \<in> {CHR ''-'', CHR ''/'', CHR ''_'', CHR ''['', CHR '']'', CHR ''.'', CHR 0x5C}))"
abbreviation registryTypePattern :: re where
  "registryTypePattern \<equiv> Alt (lit ''HELM'') (lit ''IMAGE'')"
abbreviation parameterTypePattern :: re where
  "parameterTypePattern \<equiv> Alt (lit ''string'') (Alt (lit ''number'') (lit ''boolean''))"
abbreviation mimeTypePattern :: re where
  "mimeTypePattern \<equiv> Alt (lit ''text/plain'') (Alt (lit ''application/json'')
     (Alt (lit ''application/yaml'') (Alt (lit ''image/png'') (lit ''image/jpeg''))))"

text \<open>\<^verbatim>\<open>^(https?|oci)://[a-z0-9-]+(.[a-z0-9-]+)+([/?][\w_\-@:%.+~#?&/=]*)?$\<close>; the dot is any character but a newline.\<close>

definition rootUrlPattern :: re where
  "rootUrlPattern =
     Seq (Alt (Seq (lit ''http'') (upTo 1 (lit ''s''))) (lit ''oci''))
     (Seq (lit ''://'')
     (Seq (plusRe (Class nameChar))
     (Seq (plusRe (Seq (Class (\<lambda>c. c \<noteq> CHR 0x0A)) (plusRe (Class nameChar))))
          (upTo 1 (Seq (Class (\<lambda>c. c = CHR ''/'' \<or> c = CHR ''?''))
             (Star (Class (\<lambda>c. alnum c \<or> c \<in> {CHR ''_'', CHR ''-'', CHR ''@'', CHR '':'', CHR ''%'', CHR ''.'',
                CHR ''+'', CHR ''~'', CHR ''#'', CHR ''?'', CHR ''&'', CHR ''/'', CHR ''=''}))))))))"

section \<open>Checks\<close>

text \<open>A check: whether it passes, the field and the reason of its failure.\<close>

type_synonym check = "bool \<times> string \<times> string"

fun firstFailure :: "string \<Rightarrow> check list \<Rightarrow> string option" where
  "firstFailure message [] = None"
| "firstFailure message ((ok, field, reason) # checks) =
     (if ok then firstFailure message checks
      else Some (''invalid '' @ message @ ''.'' @ field @ '': '' @ reason))"

text \<open>The reasons quote the patterns with every backslash doubled.\<close>

abbreviation backslashes :: string where "backslashes \<equiv> [CHR 0x5C, CHR 0x5C]"
abbreviation printableSource :: string where "printableSource \<equiv> ''\"^'' @ backslashes @ ''PC*$\"''"

text \<open>The runes of a valid UTF-8 string (which the strings of a message are): the bytes that do not continue one.\<close>

definition runeCount :: "string \<Rightarrow> nat" where
  "runeCount s = length (List.filter (\<lambda>c. \<not> charIn 128 191 c) s)"

fun showNat :: "nat \<Rightarrow> string" where
  "showNat n = (if n < 10 then [char_of (48 + n)] else showNat (n div 10) @ [char_of (48 + n mod 10)])"

definition lengthCheck :: "string \<Rightarrow> string \<Rightarrow> nat \<Rightarrow> nat \<Rightarrow> check" where
  "lengthCheck field s lo hi =
     (lo \<le> runeCount s \<and> runeCount s \<le> hi, field,
      ''value length must be between '' @ showNat lo @ '' and '' @ showNat hi @ '' runes, inclusive'')"

definition patternCheck :: "string \<Rightarrow> string \<Rightarrow> re \<Rightarrow> string \<Rightarrow> check" where
  "patternCheck field s r source =
     (MatchString r s, field, ''value does not match regex pattern '' @ source)"

definition Registry_Validate :: "Registry \<Rightarrow> string option" where
  "Registry_Validate m = firstFailure ''Registry''
     [lengthCheck ''Name'' (r_Name m) 1 40,
      patternCheck ''Name'' (r_Name m) namePattern ''\"^[a-z0-9][a-z0-9-]{0,38}[a-z0-9]{0,1}$\"'',
      lengthCheck ''DisplayName'' (r_DisplayName m) 0 40,
      patternCheck ''DisplayName'' (r_DisplayName m) printablePattern printableSource,
      lengthCheck ''Description'' (r_Description m) 0 1000,
      lengthCheck ''RootUrl'' (r_RootUrl m) 1 1000,
      patternCheck ''RootUrl'' (r_RootUrl m) rootUrlPattern
        (''\"^(https?|oci)://[a-z0-9-]+(.[a-z0-9-]+)+([/?]['' @ backslashes @ ''w_'' @ backslashes @ ''-@:%.+~#?&/=]*)?$\"''),
      lengthCheck ''Username'' (r_Username m) 0 1000,
      patternCheck ''Username'' (r_Username m) printablePattern printableSource,
      lengthCheck ''AuthToken'' (r_AuthToken m) 0 4500,
      patternCheck ''AuthToken'' (r_AuthToken m) printablePattern printableSource,
      lengthCheck ''Type'' (r_Type m) 1 40,
      patternCheck ''Type'' (r_Type m) registryTypePattern ''\"^(HELM)$|^(IMAGE)$\"'',
      lengthCheck ''Cacerts'' (r_Cacerts m) 0 16384,
      lengthCheck ''ApiType'' (r_ApiType m) 0 16,
      patternCheck ''ApiType'' (r_ApiType m) printablePattern printableSource,
      lengthCheck ''InventoryUrl'' (r_InventoryUrl m) 0 1000]"

definition Artifact_Validate :: "Artifact \<Rightarrow> string option" where
  "Artifact_Validate m = firstFailure ''Artifact''
     [lengthCheck ''Name'' (art_Name m) 1 40,
      patternCheck ''Name'' (art_Name m) namePattern ''\"^[a-z0-9][a-z0-9-]{0,38}[a-z0-9]{0,1}$\"'',
      lengthCheck ''DisplayName'' (art_DisplayName m) 0 40,
      patternCheck ''DisplayName'' (art_DisplayName m) printablePattern printableSource,
      lengthCheck ''Description'' (art_Description m) 0 1000,
      lengthCheck ''MimeType'' (art_MimeType m) 1 40,
      patternCheck ''MimeType'' (art_MimeType m) mimeTypePattern
        ''\"^(text/plain)$|^(application/json)$|^(application/yaml)$|^(image/png)$|^(image/jpeg)$\"'',
      (let l = (case art_Artifact m of None \<Rightarrow> 0 | Some b \<Rightarrow> length b)
       in (4 \<le> l \<and> l \<le> 4000000, ''Artifact'', ''value length must be between 4 and 4000000 bytes, inclusive''))]"

definition DeploymentRequirement_Validate :: "DeploymentRequirement \<Rightarrow> string option" where
  "DeploymentRequirement_Validate m = firstFailure ''DeploymentRequirement''
     [lengthCheck ''Name'' (dr_Name m) 1 40,
      patternCheck ''Name'' (dr_Name m) namePattern ''\"^[a-z0-9][a-z0-9-]{0,38}[a-z0-9]{0,1}$\"'',
      lengthCheck ''Version'' (dr_Version m) 1 20,
      patternCheck ''Version'' (dr_Version m) versionPattern ''\"^[a-z0-9][a-z0-9-.]{0,18}[a-z0-9]{0,1}$\"'']"

definition ResourceReference_Validate :: "ResourceReference \<Rightarrow> string option" where
  "ResourceReference_Validate m = firstFailure ''ResourceReference''
     [lengthCheck ''Name'' (rr_Name m) 1 40,
      patternCheck ''Name'' (rr_Name m) resourceNamePattern ''\"^[a-z0-9][a-z0-9-._-]{0,38}[a-z0-9]{0,1}$\"'',
      lengthCheck ''Kind'' (rr_Kind m) 1 40,
      patternCheck ''Kind'' (rr_Kind m) resourceKindPattern ''\"^[a-zA-Z0-9][a-zA-Z0-9._-]{0,38}[a-zA-Z0-9]{0,1}$\"'']"

fun suggestedValueChecks :: "nat \<Rightarrow> string list \<Rightarrow> string list \<Rightarrow> check list" where
  "suggestedValueChecks idx seen [] = []"
| "suggestedValueChecks idx seen (item # items) =
     (item \<notin> set seen, ''SuggestedValues['' @ showNat idx @ '']'', ''repeated value must contain unique items'')
     # lengthCheck (''SuggestedValues['' @ showNat idx @ '']'') item 1 4096
     # suggestedValueChecks (Suc idx) (item # seen) items"

definition ParameterTemplate_Validate :: "ParameterTemplate \<Rightarrow> string option" where
  "ParameterTemplate_Validate m = firstFailure ''ParameterTemplate''
     ([lengthCheck ''Name'' (pt_Name m) 1 4096,
       patternCheck ''Name'' (pt_Name m) parameterNamePattern (''\"^[A-Za-z0-9-/_'' @ backslashes @ ''['' @ backslashes @ '']'' @ backslashes @ ''.'' @ backslashes @ backslashes @ '']*$\"''),
       lengthCheck ''DisplayName'' (pt_DisplayName m) 0 100,
       patternCheck ''DisplayName'' (pt_DisplayName m) printablePattern printableSource,
       lengthCheck ''Default'' (pt_Default m) 0 4096,
       (1 \<le> runeCount (pt_Type m), ''Type'', ''value length must be at least 1 runes''),
       patternCheck ''Type'' (pt_Type m) parameterTypePattern ''\"^(string)$|^(number)$|^(boolean)$\"'',
       lengthCheck ''Validator'' (pt_Validator m) 0 40,
       (length (pt_SuggestedValues m) \<le> 100, ''SuggestedValues'', ''value must contain no more than 100 item(s)'')]
      @ suggestedValueChecks 0 [] (pt_SuggestedValues m))"

text \<open>The embedded messages of a repeated field, each by its own validator.\<close>

fun embeddedFailure :: "string \<Rightarrow> string \<Rightarrow> ('m \<Rightarrow> string option) \<Rightarrow> nat \<Rightarrow> 'm list \<Rightarrow> string option" where
  "embeddedFailure message field validate idx [] = None"
| "embeddedFailure message field validate idx (m # ms) =
     (case validate m of
        Some cause \<Rightarrow> Some (''invalid '' @ message @ ''.'' @ field @ ''['' @ showNat idx @ '']: '' @
          ''embedded message failed validation | caused by: '' @ cause)
      | None \<Rightarrow> embeddedFailure message field validate (Suc idx) ms)"

fun firstOf :: "string option list \<Rightarrow> string option" where
  "firstOf [] = None"
| "firstOf (Some e # rs) = Some e"
| "firstOf (None # rs) = firstOf rs"

definition Profile_Validate :: "Profile \<Rightarrow> string option" where
  "Profile_Validate m = firstOf
     [firstFailure ''Profile''
        [lengthCheck ''Name'' (p_Name m) 1 40,
         patternCheck ''Name'' (p_Name m) namePattern ''\"^[a-z0-9][a-z0-9-]{0,38}[a-z0-9]{0,1}$\"'',
         lengthCheck ''DisplayName'' (p_DisplayName m) 0 40,
         patternCheck ''DisplayName'' (p_DisplayName m) printablePattern printableSource,
         lengthCheck ''Description'' (p_Description m) 0 1000,
         lengthCheck ''ChartValues'' (p_ChartValues m) 0 4000000],
      embeddedFailure ''Profile'' ''ParameterTemplates'' ParameterTemplate_Validate 0 (p_ParameterTemplates m),
      embeddedFailure ''Profile'' ''DeploymentRequirement'' DeploymentRequirement_Validate 0 (p_DeploymentRequirement m)]"

definition Application_Validate :: "Application \<Rightarrow> string option" where
  "Application_Validate m = firstOf
     [firstFailure ''Application''
        [lengthCheck ''Name'' (a_Name m) 1 26,
         patternCheck ''Name'' (a_Name m) applicationNamePattern ''\"^[a-z0-9][a-z0-9-]{0,24}[a-z0-9]{0,1}$\"'',
         lengthCheck ''DisplayName'' (a_DisplayName m) 0 40,
         patternCheck ''DisplayName'' (a_DisplayName m) printablePattern printableSource,
         lengthCheck ''Description'' (a_Description m) 0 1000,
         lengthCheck ''Version'' (a_Version m) 1 20,
         patternCheck ''Version'' (a_Version m) versionPattern ''\"^[a-z0-9][a-z0-9-.]{0,18}[a-z0-9]{0,1}$\"'',
         lengthCheck ''ChartName'' (a_ChartName m) 1 200,
         patternCheck ''ChartName'' (a_ChartName m) chartNamePattern ''\"^[0-9a-z-/]*$\"'',
         lengthCheck ''ChartVersion'' (a_ChartVersion m) 1 53,
         patternCheck ''ChartVersion'' (a_ChartVersion m) chartVersionPattern ''\"^[a-z0-9][a-z0-9-.]{0,51}[a-z0-9]{0,1}$\"''],
      embeddedFailure ''Application'' ''Profiles'' Profile_Validate 0 (a_Profiles m),
      embeddedFailure ''Application'' ''IgnoredResources'' ResourceReference_Validate 0 (a_IgnoredResources m)]"

section \<open>The matcher decides the language\<close>

inductive_cases accepts_StarE: "accepts (Star r) s"

lemma nullable_iff: "nullable r \<longleftrightarrow> accepts r []"
  by (induction r) (auto intro: accepts.intros)

lemma accepts_alt: "accepts (alt r q) s \<longleftrightarrow> accepts (Alt r q) s"
  by (induction r q rule: alt.induct) auto

lemma accepts_seq: "accepts (seq r q) s \<longleftrightarrow> accepts (Seq r q) s"
  by (induction r q rule: seq.induct) auto

lemma accepts_Star_Cons:
  "accepts (Star r) (c # s) \<longleftrightarrow> (\<exists>u v. s = u @ v \<and> accepts r (c # u) \<and> accepts (Star r) v)"
proof
  assume "accepts (Star r) (c # s)"
  then show "\<exists>u v. s = u @ v \<and> accepts r (c # u) \<and> accepts (Star r) v"
  proof (induction "Star r" "c # s" arbitrary: s rule: accepts.induct)
    case (acc_star1 u v)
    then show ?case by (cases u) auto
  qed
next
  assume "\<exists>u v. s = u @ v \<and> accepts r (c # u) \<and> accepts (Star r) v"
  then obtain u v where "s = u @ v" "accepts r (c # u)" "accepts (Star r) v" by auto
  then show "accepts (Star r) (c # s)" using acc_star1 [of r "c # u" v] by simp
qed

lemma accepts_deriv: "accepts (deriv c r) s \<longleftrightarrow> accepts r (c # s)"
proof (induction r arbitrary: s)
  case (Seq r q)
  have split: "(\<exists>u v. c # s = u @ v \<and> accepts r u \<and> accepts q v) \<longleftrightarrow>
     (accepts r [] \<and> accepts q (c # s)) \<or> (\<exists>u v. s = u @ v \<and> accepts r (c # u) \<and> accepts q v)"
    by (auto simp: Cons_eq_append_conv)
  show ?case using Seq split by (auto simp: accepts_alt accepts_seq nullable_iff)
next
  case (Star r)
  then show ?case by (simp add: accepts_seq accepts_Star_Cons)
qed (auto simp: accepts_alt)

lemma MatchString_iff: "MatchString r s \<longleftrightarrow> accepts r s"
  by (induction s arbitrary: r) (simp_all add: nullable_iff accepts_deriv)

section \<open>What the patterns admit\<close>

lemma accepts_Class_Seq: "accepts (Seq (Class p) q) s \<longleftrightarrow> (\<exists>c t. s = c # t \<and> p c \<and> accepts q t)"
proof
  assume "accepts (Seq (Class p) q) s"
  then show "\<exists>c t. s = c # t \<and> p c \<and> accepts q t" by auto
next
  assume "\<exists>c t. s = c # t \<and> p c \<and> accepts q t"
  then obtain c t where "s = c # t" "p c" "accepts q t" by blast
  then show "accepts (Seq (Class p) q) s" using acc_seq [OF acc_class [of p c], of q t] by simp
qed

lemma accepts_upTo_Class: "accepts (upTo n (Class p)) s \<longleftrightarrow> length s \<le> n \<and> list_all p s"
proof (induction n arbitrary: s)
  case 0
  then show ?case by auto
next
  case (Suc n)
  show ?case
  proof (cases s)
    case Nil
    then show ?thesis by simp
  next
    case (Cons c cs)
    then show ?thesis by (auto simp: Suc accepts_Class_Seq simp del: accepts_simps(5))
  qed
qed

lemma accepts_Star_Class: "accepts (Star (Class p)) s \<longleftrightarrow> list_all p s"
proof (induction s)
  case Nil
  then show ?case by (simp add: accepts.acc_star0)
next
  case (Cons c cs)
  then show ?case by (simp add: accepts_Star_Cons)
qed

lemma accepts_lit: "accepts (lit w) s \<longleftrightarrow> s = w"
  by (induction w arbitrary: s) auto

text \<open>
  A bounded name starts with a strict character and continues with the wider class; only a name
  of the full length has to end with a strict character.
\<close>

lemma MatchString_boundedName:
  assumes "\<And>c. p c \<Longrightarrow> q c"
  shows "MatchString (boundedName p q n) s \<longleftrightarrow>
     s \<noteq> [] \<and> p (hd s) \<and> length s \<le> n + 2 \<and> list_all q (tl s) \<and> (length s = n + 2 \<longrightarrow> p (last s))"
    (is "?l \<longleftrightarrow> ?r")
proof
  assume ?l
  then obtain c u v where s: "s = c # u @ v" "p c" "length u \<le> n" "list_all q u" "length v \<le> 1" "list_all p v"
    by (auto simp: MatchString_iff boundedName_def accepts_upTo_Class simp del: One_nat_def upTo.simps)
  have "list_all q v" using s(6) assms by (auto simp: list_all_iff)
  moreover have "length s = n + 2 \<longrightarrow> p (last s)" using s by (cases v) auto
  ultimately show ?r using s by auto
next
  assume r: ?r
  then obtain c t where s: "s = c # t" by (cases s) auto
  have "\<exists>u v. t = u @ v \<and> length u \<le> n \<and> list_all q u \<and> length v \<le> 1 \<and> list_all p v"
  proof (cases "length t \<le> n")
    case True
    with r s show ?thesis by (intro exI [of _ t] exI [of _ "[]"]) auto
  next
    case False
    with r s have t: "length t = Suc n" "t \<noteq> []" by auto
    with r s show ?thesis
      by (intro exI [of _ "butlast t"] exI [of _ "[last t]"]) (auto simp: list_all_iff dest: in_set_butlastD)
  qed
  then obtain u v where uv: "t = u @ v" "length u \<le> n" "list_all q u" "length v \<le> 1" "list_all p v" by blast
  then have "accepts (Seq (upTo n (Class q)) (upTo 1 (Class p))) t"
    by (auto simp: accepts_upTo_Class simp del: One_nat_def upTo.simps)
  moreover have "accepts (Class p) [c]" using r s by simp
  ultimately have "accepts (boundedName p q n) ([c] @ t)"
    unfolding boundedName_def by (rule acc_seq [rotated])
  then show ?l using s by (simp add: MatchString_iff)
qed

lemma MatchString_registryType: "MatchString registryTypePattern s \<longleftrightarrow> s = ''HELM'' \<or> s = ''IMAGE''"
  unfolding MatchString_iff accepts_simps accepts_lit ..

lemma MatchString_star: "MatchString (Star (Class p)) s \<longleftrightarrow> list_all p s"
  by (simp add: MatchString_iff accepts_Star_Class)

lemma MatchString_name:
  "MatchString (boundedName lowerAlnum nameChar n) s \<longleftrightarrow>
     s \<noteq> [] \<and> lowerAlnum (hd s) \<and> length s \<le> n + 2 \<and> list_all nameChar (tl s) \<and>
     (length s = n + 2 \<longrightarrow> lowerAlnum (last s))"
  by (rule MatchString_boundedName) (simp add: nameChar_def)

lemma MatchString_version:
  "MatchString (boundedName lowerAlnum versionChar n) s \<longleftrightarrow>
     s \<noteq> [] \<and> lowerAlnum (hd s) \<and> length s \<le> n + 2 \<and> list_all versionChar (tl s) \<and>
     (length s = n + 2 \<longrightarrow> lowerAlnum (last s))"
  by (rule MatchString_boundedName) (simp add: nameChar_def versionChar_def)

lemma MatchString_mimeType: "MatchString mimeTypePattern s \<longleftrightarrow>
    s \<in> {''text/plain'', ''application/json'', ''application/yaml'', ''image/png'', ''image/jpeg''}"
  unfolding MatchString_iff accepts_simps accepts_lit insert_iff empty_iff simp_thms ..

text \<open>Equations that evaluate the validators on concrete messages.\<close>

lemmas validation_eval = lengthCheck_def patternCheck_def runeCount_def charIn_def MatchString_star MatchString_name
  MatchString_version MatchString_registryType MatchString_mimeType printable_def lowerAlnum_def nameChar_def
  versionChar_def

lemma firstFailure_None: "firstFailure message checks = None \<longleftrightarrow> list_all fst checks"
  by (induction checks) (auto split: if_splits)

lemma Registry_Validate_type: "Registry_Validate r = None \<Longrightarrow> r_Type r = ''HELM'' \<or> r_Type r = ''IMAGE''"
  unfolding Registry_Validate_def firstFailure_None
  by (simp add: patternCheck_def MatchString_registryType del: MatchString.simps lit.simps)

lemma Registry_Validate_name: "Registry_Validate r = None \<Longrightarrow> r_Name r \<noteq> []"
  by (auto simp: Registry_Validate_def firstFailure_None lengthCheck_def runeCount_def)

end
