(* ===== verification/Registry_Service.thy ===== *)
theory Registry_Service
  imports Handler_Shape Validation
begin

text \<open>
  The registry handlers, \<^verbatim>\<open>internal/northbound/registry.go\<close>. The helpers that take a transaction
  are computations in the monad, the handlers functions of the server. A request or an embedded
  message that may be nil is an option; the identifier and the times of a row handed to a creation
  are set by the database. The encoder of the secret data (the variable \<^verbatim>\<open>Base64Factory\<close>), the
  cluster's certificate, the secret service and the database engine are in the environment.
\<close>

section \<open>Secrets\<close>

abbreviation helmType :: string where "helmType \<equiv> ''HELM''"
abbreviation imageType :: string where "imageType \<equiv> ''IMAGE''"
abbreviation dynamicCACertsName :: string where "dynamicCACertsName \<equiv> ''use-dynamic-cacert''"

definition MakeSecretPath :: "string \<Rightarrow> string \<Rightarrow> string" where
  "MakeSecretPath projectUUID registryName = ''cat-'' @ projectUUID @ ''_'' @ registryName"

definition registrySecret :: "Registry \<Rightarrow> registrySecretData" where
  "registrySecret reg = \<lparr>sd_RootURL = r_RootUrl reg, sd_InventoryURL = r_InventoryUrl reg,
     sd_Username = r_Username reg, sd_AuthToken = r_AuthToken reg, sd_Cacerts = r_Cacerts reg\<rparr>"

section \<open>Helpers on a transaction\<close>

definition inProject :: "string \<Rightarrow> string \<Rightarrow> RegistryDB \<Rightarrow> bool" where
  "inProject projectUUID name r \<longleftrightarrow> rdb_ProjectUUID r = projectUUID \<and> rdb_Name r = name"

definition appendEvent :: "string \<Rightarrow> string \<Rightarrow> Registry \<Rightarrow> unit txm" where
  "appendEvent eventType projectUUID reg =
     modify (\<lambda>s. s\<lparr>tx_regEvents := appendRegistryEvent (tx_regEvents s) eventType projectUUID reg\<rparr>)"

definition checkRegistryUniqueness :: "string \<Rightarrow> Registry \<Rightarrow> unit txm" where
  "checkRegistryUniqueness projectUUID r =
     (if r_DisplayName r \<noteq> [] then
        bnd (query (\<lambda>d. q_count (\<lambda>x. rdb_ProjectUUID x = projectUUID \<and>
                rdb_DisplayNameLc x = ToLower (r_DisplayName r) \<and> rdb_Name x \<noteq> r_Name r) (t_registries d)))
          (\<lambda>existing. liftE (checkUniqueness existing ''registry'' (r_Name r) (r_DisplayName r) RegistryType))
      else ret ())"

definition newRegistryRow :: "env \<Rightarrow> string \<Rightarrow> string \<Rightarrow> Registry \<Rightarrow> RegistryDB" where
  "newRegistryRow env projectUUID displayName reg =
     \<lparr>rdb_ID = 0, rdb_ProjectUUID = projectUUID, rdb_Name = r_Name reg, rdb_DisplayName = displayName,
      rdb_DisplayNameLc = ToLower displayName, rdb_Description = r_Description reg,
      rdb_AuthToken = (if e_UseSecretService env then [] else e_EncodeBase64 env (registrySecret reg)),
      rdb_Type = r_Type reg, rdb_APIType = [], rdb_CreateTime = 0, rdb_UpdateTime = 0\<rparr>"

text \<open>Logging in to the secret service and writing the encoded secret of a registry.\<close>

definition writeRegistrySecret :: "env \<Rightarrow> string \<Rightarrow> Registry \<Rightarrow> unit txm" where
  "writeRegistrySecret env projectUUID reg =
     (if e_UseSecretService env then
        bnd (orVaultError SecretServiceFactory) (\<lambda>_.
          orVaultError (WriteSecret (MakeSecretPath projectUUID (r_Name reg))
            (e_EncodeBase64 env (registrySecret reg))))
      else ret ())"

definition createRegistry :: "env \<Rightarrow> string \<Rightarrow> Registry \<Rightarrow> RegistryDB txm" where
  "createRegistry env projectUUID reg0 =
     (case validateDisplayName (r_Name reg0) (r_DisplayName reg0) of (displayName, ok) \<Rightarrow>
        if \<not> ok then throw (NewInvalidArgument [WithResourceType RegistryType,
          WithMessage ''display name cannot contain leading or trailing spaces'' []])
        else
          let reg = reg0\<lparr>r_DisplayName := displayName\<rparr>
          in bnd (checkRegistryUniqueness projectUUID reg) (\<lambda>_.
             bnd (mutate (createRegistryRow (newRegistryRow env projectUUID displayName reg))) (\<lambda>saved.
             case saved of
               Inl err \<Rightarrow>
                 if err = EntConstraint then throw (NewInvalidArgument [WithResourceType RegistryType,
                   WithResourceName (r_Name reg), WithMessage ''registry %s already exists'' [r_Name reg]])
                 else throw (dbError err)
             | Inr created \<Rightarrow>
                 bnd (writeRegistrySecret env projectUUID reg) (\<lambda>_.
                 bnd (appendEvent CreatedEvent projectUUID reg) (\<lambda>_.
                 ret created)))))"

definition registryColumns :: "(string \<times> string) list" where
  "registryColumns =
     [(''project_uuid'', []), (''name'', ''name''), (''displayName'', ''display_name''),
      (''description'', ''description''), (''createTime'', ''create_time''), (''updateTime'', ''update_time''),
      (''type'', ''type''), (''rootUrl'', []), (''inventoryUrl'', []), (''username'', []),
      (''authToken'', []), (''cacerts'', [])]"

definition extractRegistry :: "env \<Rightarrow> bool \<Rightarrow> RegistryDB \<Rightarrow> Registry txm" where
  "extractRegistry env showSensitiveInfo registryDB =
     bnd (if e_UseSecretService env
          then orVaultError (ReadSecret (MakeSecretPath (rdb_ProjectUUID registryDB) (rdb_Name registryDB)))
          else ret (rdb_AuthToken registryDB)) (\<lambda>encodedSecretData.
     case e_DecodeBase64 env encodedSecretData of
       None \<Rightarrow> throw (vaultError EntFailure)
     | Some rsd \<Rightarrow>
         let reg = \<lparr>r_Name = rdb_Name registryDB, r_DisplayName = rdb_DisplayName registryDB,
               r_Description = rdb_Description registryDB, r_RootUrl = sd_RootURL rsd, r_Username = [],
               r_AuthToken = [], r_Type = rdb_Type registryDB, r_Cacerts = [], r_ApiType = rdb_APIType registryDB,
               r_InventoryUrl = sd_InventoryURL rsd, r_CreateTime = Some (rdb_CreateTime registryDB),
               r_UpdateTime = Some (rdb_UpdateTime registryDB)\<rparr>
         in if showSensitiveInfo then
              (let reg = reg\<lparr>r_Username := sd_Username rsd, r_AuthToken := sd_AuthToken rsd,
                             r_Cacerts := sd_Cacerts rsd\<rparr>
               in if sd_Cacerts rsd = dynamicCACertsName then
                    (case e_readTLSCert env of
                       None \<Rightarrow> throw (vaultError EntFailure)
                     | Some dynamicCACert \<Rightarrow> ret (reg\<lparr>r_Cacerts := dynamicCACert\<rparr>))
                  else ret reg)
            else ret reg)"

definition getRegistries ::
    "env \<Rightarrow> string \<Rightarrow> bool \<Rightarrow> orderBy list \<Rightarrow> filter list \<Rightarrow> int32 \<Rightarrow> int32 \<Rightarrow>
     (Registry list \<times> string list \<times> int32) txm" where
  "getRegistries env projectUUID showSensitiveInfo orderBys filters pageSize offset =
     bnd (if e_UseSecretService env then orVaultError SecretServiceFactory else ret ()) (\<lambda>_.
     bnd (liftE (orderByOptions orderBys registryColumns RegistryType)) (\<lambda>orderOptions.
     bnd (liftE (filterPredicates filters registryColumns RegistryType)) (\<lambda>registryPreds.
     bnd (orDBError (query (\<lambda>d. q_list (e_engine env) registryColumn registryText orderOptions registryPreds
            (\<lambda>r. projectUUID = [] \<or> rdb_ProjectUUID r = projectUUID) (t_registries d)))) (\<lambda>registriesDB.
     bnd (liftE (computePageRange pageSize offset (int (length registriesDB)))) (\<lambda>(startIndex, endIndex, totalElements).
     if registriesDB = [] then ret ([], [], 0)
     else (case pageOf registriesDB startIndex endIndex of
             None \<Rightarrow> throw goPanic
           | Some page \<Rightarrow>
               bnd (mapM (extractRegistry env showSensitiveInfo) page) (\<lambda>registries.
               ret (registries, map rdb_ProjectUUID page, totalElements))))))))"

definition checkRegistryType :: "string \<Rightarrow> Registry \<Rightarrow> unit txm" where
  "checkRegistryType projectUUID reg =
     bnd (query (\<lambda>d. q_only (inProject projectUUID (r_Name reg)) (t_registries d))) (\<lambda>found.
     case found of
       Inl err \<Rightarrow>
         if err = EntNotFound then throw (NewNotFound [WithResourceType RegistryType, WithResourceName (r_Name reg)])
         else throw (dbError err)
     | Inr regDB \<Rightarrow>
         if rdb_Type regDB \<noteq> r_Type reg then
           bnd (if r_Type reg = helmType then
                  query (\<lambda>d. q_count (\<lambda>a. adb_image_registry_fk a = Some (rdb_ID regDB)) (t_applications d))
                else if r_Type reg = imageType then
                  query (\<lambda>d. q_count (\<lambda>a. adb_registry_fk a = rdb_ID regDB) (t_applications d))
                else ret (Inr 0)) (\<lambda>counted.
           case counted of
             Inl err \<Rightarrow> throw (dbError err)
           | Inr uses \<Rightarrow>
               if uses > 0 then throw (NewFailedPrecondition [WithResourceType RegistryType,
                 WithResourceName (r_Name reg), WithMessage ''cannot change registry type to %s'' [r_Type reg]])
               else ret ())
         else ret ())"

definition setRegistry :: "env \<Rightarrow> string \<Rightarrow> Registry \<Rightarrow> RegistryDB \<Rightarrow> RegistryDB" where
  "setRegistry env displayName reg r =
     (let r1 = r\<lparr>rdb_DisplayName := displayName, rdb_DisplayNameLc := ToLower displayName,
                 rdb_Description := r_Description reg, rdb_Type := r_Type reg, rdb_APIType := r_ApiType reg\<rparr>
      in if e_UseSecretService env then r1
         else r1\<lparr>rdb_AuthToken := e_EncodeBase64 env (registrySecret reg)\<rparr>)"

text \<open>
  On two paths the code rolls the transaction back here and its caller does so again; the second
  rollback finds the transaction done and only logs.
\<close>

definition updateRegistry :: "env \<Rightarrow> string \<Rightarrow> Registry \<Rightarrow> unit txm" where
  "updateRegistry env projectUUID reg =
     (case validateDisplayName (r_Name reg) (r_DisplayName reg) of (displayName, ok) \<Rightarrow>
        if \<not> ok then throw (NewInvalidArgument [WithResourceType RegistryType, WithResourceName (r_Name reg),
          WithMessage ''display name cannot contain leading or trailing spaces'' []])
        else
          bnd (checkRegistryUniqueness projectUUID reg) (\<lambda>_.
          bnd (checkRegistryType projectUUID reg) (\<lambda>_.
          bnd (mutate (updateRegistryRows (inProject projectUUID (r_Name reg)) (setRegistry env displayName reg))) (\<lambda>saved.
          case saved of
            Inl err \<Rightarrow> throw (dbError err)
          | Inr updateCount \<Rightarrow>
              if updateCount = 0 then throw (NewNotFound [WithResourceType RegistryType,
                WithResourceName (r_Name reg), WithMessage ''registry not found'' []])
              else
                bnd (writeRegistrySecret env projectUUID reg) (\<lambda>_.
                appendEvent UpdatedEvent projectUUID reg)))))"

section \<open>Handlers\<close>

text \<open>The zero value of the message, with a name.\<close>

definition emptyRegistry :: "string \<Rightarrow> Registry" where
  "emptyRegistry name = \<lparr>r_Name = name, r_DisplayName = [], r_Description = [], r_RootUrl = [], r_Username = [],
     r_AuthToken = [], r_Type = [], r_Cacerts = [], r_ApiType = [], r_InventoryUrl = [], r_CreateTime = None,
     r_UpdateTime = None\<rparr>"

definition incomplete :: "ResourceType \<Rightarrow> Status" where
  "incomplete resourceType = NewInvalidArgument [WithResourceType resourceType, WithMessage ''incomplete request'' []]"

definition invalidMessage :: "ResourceType \<Rightarrow> string \<Rightarrow> Status" where
  "invalidMessage resourceType err = NewInvalidArgument [WithResourceType resourceType, WithMessage err []]"

definition createdRegistry :: "Registry \<Rightarrow> RegistryDB \<Rightarrow> Registry" where
  "createdRegistry reg created =
     \<lparr>r_Name = rdb_Name created, r_DisplayName = rdb_DisplayName created,
      r_Description = rdb_Description created, r_RootUrl = r_RootUrl reg, r_Username = r_Username reg,
      r_AuthToken = r_AuthToken reg, r_Type = rdb_Type created, r_Cacerts = r_Cacerts reg,
      r_ApiType = r_ApiType reg, r_InventoryUrl = r_InventoryUrl reg,
      r_CreateTime = Some (rdb_CreateTime created), r_UpdateTime = None\<rparr>"

definition CreateRegistry :: "env \<Rightarrow> metadata option \<Rightarrow> Registry option \<Rightarrow> server \<Rightarrow> Registry result \<times> server" where
  "CreateRegistry env ctx registry srv =
     (case GetActiveProjectID ctx of
        Inl e \<Rightarrow> (Inl e, srv)
      | Inr projectUUID \<Rightarrow>
     (case registry of
        None \<Rightarrow> (Inl (incomplete RegistryType), srv)
      | Some reg \<Rightarrow>
     (case Registry_Validate reg of
        Some err \<Rightarrow> (Inl (invalidMessage RegistryType err), srv)
      | None \<Rightarrow>
     (case authCheckAllowed env ctx (CreateRegistryRequest registry) [] of
        Inl e \<Rightarrow> (Inl e, srv)
      | Inr _ \<Rightarrow>
     (case withTransaction env (createRegistry env projectUUID reg) srv of
        (Inl e, srv1) \<Rightarrow> (Inl e, srv1)
      | (Inr (created, t), srv1) \<Rightarrow>
          (Inr (createdRegistry reg created), sendRegistry t srv1))))))"

definition ListRegistries ::
    "env \<Rightarrow> metadata option \<Rightarrow> ListRegistriesRequest option \<Rightarrow> server \<Rightarrow> (Registry list \<times> int32) result \<times> server" where
  "ListRegistries env ctx req srv =
     (case GetActiveProjectID ctx of
        Inl e \<Rightarrow> (Inl e, srv)
      | Inr projectUUID \<Rightarrow>
     (case req of
        None \<Rightarrow> (Inl (incomplete RegistryType), srv)
      | Some r \<Rightarrow>
     (case authCheckAllowed env ctx (ListRegistriesReq r)
             [if lr_ShowSensitiveInfo r then ''ListRegistriesWithSensitiveInfoRequest'' else ''ListRegistriesRequest''] of
        Inl e \<Rightarrow> (Inl e, srv)
      | Inr _ \<Rightarrow>
     (case withTransaction env
             (bnd (liftE (parseOrderBy (lr_OrderBy r) RegistryType)) (\<lambda>orderBys.
              bnd (liftE (parseFilter (lr_Filter r) RegistryType)) (\<lambda>filters.
              getRegistries env projectUUID (lr_ShowSensitiveInfo r) orderBys filters (lr_PageSize r) (lr_Offset r)))) srv of
        (Inl e, srv1) \<Rightarrow> (Inl e, srv1)
      | (Inr ((registries, _, n), t), srv1) \<Rightarrow> (Inr (registries, n), srv1)))))"

definition findRegistry :: "string \<Rightarrow> string \<Rightarrow> RegistryDB txm" where
  "findRegistry projectUUID registryName =
     bnd (query (\<lambda>d. q_first (inProject projectUUID registryName) (t_registries d))) (\<lambda>found.
     case found of
       Inl err \<Rightarrow>
         if err = EntNotFound then throw (NewNotFound [WithResourceType RegistryType, WithResourceName registryName])
         else throw (dbError err)
     | Inr r \<Rightarrow> ret r)"

text \<open>
  The handler returns without ending its transaction when it cannot log in to the secret service.
\<close>

definition GetRegistry :: "env \<Rightarrow> metadata option \<Rightarrow> string \<Rightarrow> bool \<Rightarrow> server \<Rightarrow> Registry result \<times> server" where
  "GetRegistry env ctx registryName showSensitiveInfo srv =
     (case GetActiveProjectID ctx of
        Inl e \<Rightarrow> (Inl e, srv)
      | Inr projectUUID \<Rightarrow>
     if registryName = [] then (Inl (incomplete RegistryType), srv)
     else
     (case authCheckAllowed env ctx (GetRegistryRequest registryName showSensitiveInfo)
             [if showSensitiveInfo then ''GetRegistryWithSensitiveInfoRequest'' else ''GetRegistryRequest''] of
        Inl e \<Rightarrow> (Inl e, srv)
      | Inr _ \<Rightarrow>
     (case startTransaction env srv of
        (Inl e, srv1) \<Rightarrow> (Inl (dbError e), srv1)
      | (Inr t, srv1) \<Rightarrow>
     (case findRegistry projectUUID registryName t of
        (Inl e, t1) \<Rightarrow> (Inl e, rollbackTransaction t1 srv1)
      | (Inr registryDB, t1) \<Rightarrow>
     (case (if e_UseSecretService env then orVaultError SecretServiceFactory else ret ()) t1 of
        (Inl e, t2) \<Rightarrow> (Inl e, abandonTransaction t2 srv1)
      | (Inr _, t2) \<Rightarrow>
     (case extractRegistry env showSensitiveInfo registryDB t2 of
        (Inl e, t3) \<Rightarrow> (Inl e, rollbackTransaction t3 srv1)
      | (Inr reg, t3) \<Rightarrow>
     (case commitTransaction t3 srv1 of
        (Inl e, srv2) \<Rightarrow> (Inl (dbError e), srv2)
      | (Inr _, srv2) \<Rightarrow> (Inr reg, srv2))))))))"

definition UpdateRegistry ::
    "env \<Rightarrow> metadata option \<Rightarrow> string \<Rightarrow> Registry option \<Rightarrow> server \<Rightarrow> unit result \<times> server" where
  "UpdateRegistry env ctx registryName registry srv =
     (case GetActiveProjectID ctx of
        Inl e \<Rightarrow> (Inl e, srv)
      | Inr projectUUID \<Rightarrow>
     (case registry of
        None \<Rightarrow> (Inl (incomplete RegistryType), srv)
      | Some reg \<Rightarrow>
     if registryName = [] then (Inl (incomplete RegistryType), srv)
     else
     (case Registry_Validate reg of
        Some err \<Rightarrow> (Inl (invalidMessage RegistryType err), srv)
      | None \<Rightarrow>
     if registryName \<noteq> r_Name reg then (Inl (NewInvalidArgument [WithResourceType RegistryType,
       WithMessage ''name cannot be changed %s != %s'' [registryName, r_Name reg]]), srv)
     else
     (case authCheckAllowed env ctx (UpdateRegistryRequest registryName registry) [] of
        Inl e \<Rightarrow> (Inl e, srv)
      | Inr _ \<Rightarrow>
     (case withTransaction env (updateRegistry env projectUUID reg) srv of
        (Inl e, srv1) \<Rightarrow> (Inl e, srv1)
      | (Inr (_, t), srv1) \<Rightarrow> (Inr (), sendRegistry t srv1))))))"

text \<open>
  The applications of the project whose helm or image registry has the name.
\<close>

definition usesRegistry :: "string \<Rightarrow> string \<Rightarrow> db \<Rightarrow> ApplicationDB \<Rightarrow> bool" where
  "usesRegistry projectUUID registryName d a \<longleftrightarrow>
     adb_ProjectUUID a = projectUUID \<and>
     (list_ex (\<lambda>r. adb_image_registry_fk a = Some (rdb_ID r) \<and> rdb_Name r = registryName) (t_registries d) \<or>
      list_ex (\<lambda>r. adb_registry_fk a = rdb_ID r \<and> rdb_Name r = registryName) (t_registries d))"

definition deleteRegistryBody :: "string \<Rightarrow> string \<Rightarrow> unit txm" where
  "deleteRegistryBody projectUUID registryName =
     bnd (orDBError (query (\<lambda>d. q_count (usesRegistry projectUUID registryName d) (t_applications d)))) (\<lambda>uses.
     if uses > 0 then throw (NewFailedPrecondition [WithResourceType RegistryType,
       WithResourceName registryName, WithMessage ''cannot delete registry while in use'' []])
     else
       bnd (orDBError (mutate (deleteRegistryRows (inProject projectUUID registryName)))) (\<lambda>deleteCount.
       if deleteCount = 0 then throw (NewNotFound [WithResourceType RegistryType, WithResourceName registryName])
       else ret ()))"

text \<open>
  The handler returns without ending its transaction when the secret cannot be deleted. The event
  is queued and sent after the commit.
\<close>

definition DeleteRegistry :: "env \<Rightarrow> metadata option \<Rightarrow> string \<Rightarrow> server \<Rightarrow> unit result \<times> server" where
  "DeleteRegistry env ctx registryName srv =
     (case GetActiveProjectID ctx of
        Inl e \<Rightarrow> (Inl e, srv)
      | Inr projectUUID \<Rightarrow>
     if registryName = [] then (Inl (incomplete RegistryType), srv)
     else
     (case authCheckAllowed env ctx (DeleteRegistryRequest registryName) [] of
        Inl e \<Rightarrow> (Inl e, srv)
      | Inr _ \<Rightarrow>
     (case startTransaction env srv of
        (Inl e, srv1) \<Rightarrow> (Inl (dbError e), srv1)
      | (Inr t, srv1) \<Rightarrow>
     (case deleteRegistryBody projectUUID registryName t of
        (Inl e, t1) \<Rightarrow> (Inl e, rollbackTransaction t1 srv1)
      | (Inr _, t1) \<Rightarrow>
     (case (if e_UseSecretService env then orVaultError SecretServiceFactory else ret ()) t1 of
        (Inl e, t2) \<Rightarrow> (Inl e, rollbackTransaction t2 srv1)
      | (Inr _, t2) \<Rightarrow>
     (case (if e_UseSecretService env
            then orVaultError (DeleteSecret (MakeSecretPath projectUUID registryName)) else ret ()) t2 of
        (Inl e, t3) \<Rightarrow> (Inl e, abandonTransaction t3 srv1)
      | (Inr _, t3) \<Rightarrow>
     (case checkDeleteResult t3 None srv1 of
        (Inl e, srv2) \<Rightarrow> (Inl e, srv2)
      | (Inr _, srv2) \<Rightarrow>
          (Inr (), sendRegistry (snd (appendEvent DeletedEvent projectUUID (emptyRegistry registryName) t3)) srv2))))))))"

text \<open>
  A stream is the metadata of its context and its \<^verbatim>\<open>Send\<close>. The result has the events sent while
  the watch is set up; after it the handler runs \<^verbatim>\<open>watchRegistryEvents\<close> on the channel until a
  send fails, and then the deferred call removes the listener. A request that is nil is
  dereferenced before it is checked.
\<close>

type_synonym 'ev stream = "metadata option \<times> ('ev \<Rightarrow> Status option)"

definition replayRegistries :: "Registry list \<Rightarrow> string list \<Rightarrow> RegistryEvents" where
  "replayRegistries registries projectUUIDs =
     foldl (\<lambda>q (reg, p). appendRegistryEvent q ReplayedEvent p reg) [] (zip registries projectUUIDs)"

definition listenRegistry :: "chan \<Rightarrow> WatchRegistriesRequest \<Rightarrow> server \<Rightarrow> server" where
  "listenRegistry ch req srv = srv\<lparr>sv_listeners := addRegistryListener ch req (sv_listeners srv)\<rparr>"

definition WatchRegistries ::
    "env \<Rightarrow> WatchRegistriesRequest option \<Rightarrow> WatchRegistriesResponse stream option \<Rightarrow> chan \<Rightarrow> server \<Rightarrow>
     unit result \<times> RegistryEvents \<times> server" where
  "WatchRegistries env request stream ch srv =
     (case stream of
        None \<Rightarrow> (Inl (NewInvalidArgument [WithMessage ''incomplete request'' []]), [], srv)
      | Some (ctx, send) \<Rightarrow>
     (case request of
        None \<Rightarrow> (Inl goPanic, [], srv)
      | Some req \<Rightarrow>
     (case GetActiveProjectIDAllowAdmin ctx (wr_ProjectId req) of
        Inl e \<Rightarrow> (Inl e, [], srv)
      | Inr projectUUID \<Rightarrow>
     (case authCheckAllowed env ctx (WatchRegistriesReq req) [] of
        Inl e \<Rightarrow> (Inl e, [], srv)
      | Inr _ \<Rightarrow>
     if wr_NoReplay req then (Inr (), [], listenRegistry ch req srv)
     else
     (case startTransaction env srv of
        (Inl e, srv1) \<Rightarrow> (Inl (dbError e), [], srv1)
      | (Inr t, srv1) \<Rightarrow>
     (case getRegistries env projectUUID (wr_ShowSensitiveInfo req) [] [] 0 0 t of
        (Inl e, t1) \<Rightarrow> (Inl e, [], rollbackTransaction t1 srv1)
      | (Inr (registries, projectUUIDs, _), t1) \<Rightarrow>
     (case watchEvents send (replayRegistries registries projectUUIDs) of
        (sent, Some err) \<Rightarrow> (Inl err, sent, rollbackTransaction t1 srv1)
      | (sent, None) \<Rightarrow>
     (case commitTransaction t1 (listenRegistry ch req srv1) of
        (Inl e, srv2) \<Rightarrow> (Inl (dbError e), sent, srv2)
      | (Inr _, srv2) \<Rightarrow> (Inr (), sent, srv2)))))))))"

definition watchRegistryEvents ::
    "(WatchRegistriesResponse \<Rightarrow> Status option) \<Rightarrow> RegistryEvents \<Rightarrow> RegistryEvents \<times> Status option" where
  "watchRegistryEvents send = watchEvents send"

definition closeRegistryWatch :: "chan \<Rightarrow> server \<Rightarrow> server" where
  "closeRegistryWatch ch srv = srv\<lparr>sv_listeners := deleteRegistryListener ch (sv_listeners srv)\<rparr>"

section \<open>Registries stay well-formed\<close>

lemma tri_checkRegistryUniqueness [tri_intro]: "tri P (checkRegistryUniqueness projectUUID r) (\<lambda>_. P)"
  unfolding checkRegistryUniqueness_def
  by (intro tri_intro tri_bnd_same tri_query_same)

lemma tri_writeRegistrySecret [tri_intro]: "tri P (writeRegistrySecret env projectUUID r) (\<lambda>_. P)"
  unfolding writeRegistrySecret_def by (intro tri_intro tri_bnd_same)

lemma tri_appendEvent [tri_intro]: "tri P (appendEvent ev projectUUID r) (\<lambda>_. P)"
  unfolding appendEvent_def by (intro tri_intro)

lemma createRegistry_ok: "tri db_ok (createRegistry env projectUUID reg) (\<lambda>_. db_ok)"
  unfolding createRegistry_def Let_def
  by (intro tri_intro tri_bnd_saved [where R = "\<lambda>_. db_ok"] tri_bnd_same)
    (auto simp: newRegistryRow_def dest!: createRegistryRow_ok)

text \<open>The type of an update fits the applications that use the registry.\<close>

definition typeFits :: "string \<Rightarrow> Registry \<Rightarrow> db \<Rightarrow> bool" where
  "typeFits projectUUID reg d \<longleftrightarrow>
     (\<forall>r \<in> set (t_registries d). inProject projectUUID (r_Name reg) r \<longrightarrow>
        (\<forall>a \<in> set (t_applications d).
           (adb_registry_fk a = rdb_ID r \<longrightarrow> r_Type reg = helmType) \<and>
           (adb_image_registry_fk a = Some (rdb_ID r) \<longrightarrow> r_Type reg = imageType)))"

lemma q_only_unique: "q_only P rows = Inr r \<Longrightarrow> q \<in> set rows \<Longrightarrow> P q \<Longrightarrow> q = r"
proof -
  assume "q_only P rows = Inr r" and q: "q \<in> set rows" "P q"
  then have "set (List.filter P rows) = set [r]" by (simp only: q_only_Inr)
  moreover have "q \<in> set (List.filter P rows)" using q by simp
  ultimately show "q = r" by simp
qed

lemma typeFits_same:
  assumes "db_ok d" and "q_only (inProject projectUUID (r_Name reg)) (t_registries d) = Inr regDB"
    and "rdb_Type regDB = r_Type reg"
  shows "typeFits projectUUID reg d"
  unfolding typeFits_def
proof (intro ballI impI conjI)
  fix r a
  assume r: "r \<in> set (t_registries d)" "inProject projectUUID (r_Name reg) r" and a: "a \<in> set (t_applications d)"
  have eq: "r = regDB" using q_only_unique [OF assms(2) r] .
  have inj: "q = r" if "q \<in> set (t_registries d)" "rdb_ID q = rdb_ID r" for q
    using assms(1) that r(1) by (auto simp: db_ok_iff keys_ok_def dest: keyed_ident_inj)
  show "r_Type reg = helmType" if "adb_registry_fk a = rdb_ID r"
    using assms(1,3) a that eq inj by (fastforce simp: db_ok_iff registries_ok_def hasRegistry_def)
  show "r_Type reg = imageType" if "adb_image_registry_fk a = Some (rdb_ID r)"
    using assms(1,3) a that eq inj by (fastforce simp: db_ok_iff registries_ok_def hasRegistry_def)
qed

lemma checkRegistryType_fits:
  assumes "r_Type reg = helmType \<or> r_Type reg = imageType"
  shows "tri db_ok (checkRegistryType projectUUID reg) (\<lambda>_ d. db_ok d \<and> typeFits projectUUID reg d)"
proof -
  define found where "found regDB d \<longleftrightarrow> db_ok d \<and> q_only (inProject projectUUID (r_Name reg)) (t_registries d) = Inr regDB"
    for regDB d
  define counted where "counted r d \<longleftrightarrow> db_ok d \<and> (r = Inr (0 :: nat) \<longrightarrow> typeFits projectUUID reg d)"
    for r :: "ent_error + nat" and d
  have unused: "typeFits projectUUID reg d"
    if "found regDB d" and "q_count (\<lambda>a. adb_image_registry_fk a = Some (rdb_ID regDB)) (t_applications d) = Inr 0 \<and> r_Type reg = helmType \<or>
      q_count (\<lambda>a. adb_registry_fk a = rdb_ID regDB) (t_applications d) = Inr 0 \<and> r_Type reg = imageType" for regDB d
    using that by (auto simp: typeFits_def found_def q_count_0 dest: q_only_unique)
  have count: "tri (found regDB) (if r_Type reg = helmType then
                  query (\<lambda>d. q_count (\<lambda>a. adb_image_registry_fk a = Some (rdb_ID regDB)) (t_applications d))
                else if r_Type reg = imageType then
                  query (\<lambda>d. q_count (\<lambda>a. adb_registry_fk a = rdb_ID regDB) (t_applications d))
                else ret (Inr 0)) counted" for regDB
    using assms unused by (auto simp: counted_def found_def intro!: tri_query)
  have decide: "tri (counted r) (case r of Inl err \<Rightarrow> throw (dbError err)
           | Inr uses \<Rightarrow> if uses > 0 then throw e else ret ()) (\<lambda>_ d. db_ok d \<and> typeFits projectUUID reg d)" for r e
    by (intro tri_intro) (auto simp: counted_def)
  have same: "tri (found regDB) (ret ()) (\<lambda>_ d. db_ok d \<and> typeFits projectUUID reg d)"
    if "\<not> rdb_Type regDB \<noteq> r_Type reg" for regDB
    using that by (intro tri_intro) (auto simp: found_def intro: typeFits_same)
  show ?thesis
    unfolding checkRegistryType_def
  proof (intro tri_bnd_found [where R = found] tri_if tri_throw same)
    show "found v d" if "db_ok d" "q_only (inProject projectUUID (r_Name reg)) (t_registries d) = Inr v" for d v
      using that by (simp add: found_def)
  qed (rule tri_bnd [OF count decide])
qed

lemma updateRegistry_ok:
  assumes "r_Type reg = helmType \<or> r_Type reg = imageType"
  shows "tri db_ok (updateRegistry env projectUUID reg) (\<lambda>_. db_ok)"
proof -
  have step: "db_ok d'" if "db_ok d \<and> typeFits projectUUID reg d"
    "updateRegistryRows (inProject projectUUID (r_Name reg)) (setRegistry env displayName reg) n d = (Inr v, d')"
    for d d' n v displayName
    using that by (auto intro!: updateRegistryRows_ok [OF that(2)]
      simp: setRegistry_def Let_def registryKey_def typeFits_def)
  show ?thesis
    unfolding updateRegistry_def
    by (intro tri_intro tri_bnd_saved [where R = "\<lambda>_. db_ok"] tri_bnd [OF checkRegistryType_fits [OF assms]]
        tri_bnd_same step) 
qed

lemma deleteRegistryBody_ok: "tri db_ok (deleteRegistryBody projectUUID name) (\<lambda>_. db_ok)"
  unfolding deleteRegistryBody_def
  by (intro tri_intro tri_bnd_same tri_found tri_done) (auto dest: deleteRegistryRows_ok)

text \<open>Reading leaves the tables alone.\<close>

lemma tri_extractRegistry [tri_intro]: "tri P (extractRegistry env show r) (\<lambda>_. P)"
  unfolding extractRegistry_def Let_def by (intro tri_intro tri_bnd_same)

lemma tri_getRegistries [tri_intro]: "tri P (getRegistries env projectUUID show obs fs pageSize off) (\<lambda>_. P)"
  unfolding getRegistries_def by (intro tri_intro tri_bnd_same tri_found tri_mapM)

lemma tri_findRegistry [tri_intro]: "tri P (findRegistry projectUUID name) (\<lambda>_. P)"
  unfolding findRegistry_def by (intro tri_intro tri_bnd_same tri_query_same)

lemma sendRegistry_simps [simp]:
  "sv_db (sendRegistry t srv) = sv_db srv" "sv_open (sendRegistry t srv) = sv_open srv"
  "sv_listeners (sendRegistry t srv) = sv_listeners srv" "sv_vault (sendRegistry t srv) = sv_vault srv"
  "sv_artOut (sendRegistry t srv) = sv_artOut srv" "sv_appOut (sendRegistry t srv) = sv_appOut srv"
  "sv_pkgOut (sendRegistry t srv) = sv_pkgOut srv"
  by (simp_all add: sendRegistry_def)

section \<open>The handlers meet the contract\<close>

text \<open>A request that reaches its transaction, with the project and the message it carries.\<close>

definition admitsCreateRegistry :: "env \<Rightarrow> metadata option \<Rightarrow> Registry option \<Rightarrow> string \<times> Registry \<Rightarrow> bool" where
  "admitsCreateRegistry env ctx registry x \<longleftrightarrow>
     GetActiveProjectID ctx = Inr (fst x) \<and> registry = Some (snd x) \<and> Registry_Validate (snd x) = None \<and>
     authCheckAllowed env ctx (CreateRegistryRequest registry) [] = Inr ()"

interpretation create_registry: transaction_handler CreateRegistry admitsCreateRegistry fst
  "\<lambda>registry. (CreateRegistryRequest registry, [])" "\<lambda>env x. createRegistry env (fst x) (snd x)"
  "\<lambda>env x. createdRegistry (snd x)" "\<lambda>x. sendRegistry"
proof (unfold_locales, goal_cases)
  case (1 env ctx req srv out)
  then show ?case
    by (auto simp: CreateRegistry_def admitsCreateRegistry_def
        intro!: withTransaction_runs split: sum.splits option.splits)
qed (auto simp: admitsCreateRegistry_def intro: createRegistry_ok)

definition admitsUpdateRegistry ::
    "env \<Rightarrow> metadata option \<Rightarrow> string \<times> Registry option \<Rightarrow> string \<times> Registry \<Rightarrow> bool" where
  "admitsUpdateRegistry env ctx req x \<longleftrightarrow>
     GetActiveProjectID ctx = Inr (fst x) \<and> req = (r_Name (snd x), Some (snd x)) \<and>
     Registry_Validate (snd x) = None \<and>
     authCheckAllowed env ctx (UpdateRegistryRequest (fst req) (snd req)) [] = Inr ()"

interpretation update_registry: transaction_handler "\<lambda>env ctx (name, registry). UpdateRegistry env ctx name registry"
  admitsUpdateRegistry fst "\<lambda>(name, registry). (UpdateRegistryRequest name registry, [])"
  "\<lambda>env x. updateRegistry env (fst x) (snd x)" "\<lambda>env x v. v" "\<lambda>x. sendRegistry"
proof (unfold_locales, goal_cases)
  case (1 env ctx req srv out)
  obtain name registry where "req = (name, registry)" by (cases req)
  with 1 show ?case
    by (auto simp: UpdateRegistry_def admitsUpdateRegistry_def
        intro!: withTransaction_runs split: sum.splits option.splits if_splits)
next
  case (4 env ctx req x)
  then show ?case
    by (intro updateRegistry_ok) (auto simp: admitsUpdateRegistry_def dest: Registry_Validate_type)
qed (auto simp: admitsUpdateRegistry_def)

definition listRegistriesBody :: "env \<Rightarrow> string \<times> ListRegistriesRequest \<Rightarrow> (Registry list \<times> string list \<times> int32) txm" where
  "listRegistriesBody env x = (case x of (projectUUID, r) \<Rightarrow>
     bnd (liftE (parseOrderBy (lr_OrderBy r) RegistryType)) (\<lambda>orderBys.
     bnd (liftE (parseFilter (lr_Filter r) RegistryType)) (\<lambda>filters.
     getRegistries env projectUUID (lr_ShowSensitiveInfo r) orderBys filters (lr_PageSize r) (lr_Offset r))))"

definition listRegistriesName :: "ListRegistriesRequest \<Rightarrow> string" where
  "listRegistriesName r =
     (if lr_ShowSensitiveInfo r then ''ListRegistriesWithSensitiveInfoRequest'' else ''ListRegistriesRequest'')"

definition admitsListRegistries ::
    "env \<Rightarrow> metadata option \<Rightarrow> ListRegistriesRequest option \<Rightarrow> string \<times> ListRegistriesRequest \<Rightarrow> bool" where
  "admitsListRegistries env ctx req x \<longleftrightarrow>
     GetActiveProjectID ctx = Inr (fst x) \<and> req = Some (snd x) \<and>
     authCheckAllowed env ctx (ListRegistriesReq (snd x)) [listRegistriesName (snd x)] = Inr ()"

lemma tri_listRegistriesBody: "tri P (listRegistriesBody env x) (\<lambda>_. P)"
  unfolding listRegistriesBody_def by (intro tri_intro tri_bnd_same)

interpretation list_registries: reading_handler ListRegistries admitsListRegistries fst
  "\<lambda>req. case req of Some r \<Rightarrow> (ListRegistriesReq r, [listRegistriesName r]) | None \<Rightarrow> (GetRegistryRequest [] False, [])"
  listRegistriesBody "\<lambda>env x (registries, _, n). (registries, n)" "\<lambda>x t srv. srv"
proof (unfold_locales, goal_cases)
  case (1 env ctx req srv out)
  then show ?case
    by (auto simp: ListRegistries_def admitsListRegistries_def listRegistriesBody_def listRegistriesName_def listing_response
        intro!: withTransaction_runs split: sum.splits option.splits)
qed (auto simp: admitsListRegistries_def intro: tri_listRegistriesBody)

definition loginSecrets :: "env \<Rightarrow> unit txm" where
  "loginSecrets env = (if e_UseSecretService env then orVaultError SecretServiceFactory else ret ())"

definition getRegistryBody :: "env \<Rightarrow> string \<times> string \<times> bool \<Rightarrow> Registry txm" where
  "getRegistryBody env x = (case x of (projectUUID, registryName, showSensitiveInfo) \<Rightarrow>
     bnd (findRegistry projectUUID registryName) (\<lambda>registryDB.
     bnd (loginSecrets env) (\<lambda>_. extractRegistry env showSensitiveInfo registryDB)))"

definition getRegistryName :: "bool \<Rightarrow> string" where
  "getRegistryName showSensitiveInfo =
     (if showSensitiveInfo then ''GetRegistryWithSensitiveInfoRequest'' else ''GetRegistryRequest'')"

definition admitsGetRegistry :: "env \<Rightarrow> metadata option \<Rightarrow> string \<times> bool \<Rightarrow> string \<times> string \<times> bool \<Rightarrow> bool" where
  "admitsGetRegistry env ctx req x \<longleftrightarrow>
     GetActiveProjectID ctx = Inr (fst x) \<and> req = snd x \<and> fst req \<noteq> [] \<and>
     authCheckAllowed env ctx (GetRegistryRequest (fst req) (snd req)) [getRegistryName (snd req)] = Inr ()"

lemma tri_loginSecrets [tri_intro]: "tri P (loginSecrets env) (\<lambda>_. P)"
  unfolding loginSecrets_def by (intro tri_intro)

lemma tri_getRegistryBody: "tri P (getRegistryBody env x) (\<lambda>_. P)"
  unfolding getRegistryBody_def by (intro tri_intro tri_bnd_same)

interpretation get_registry: reading_handler "\<lambda>env ctx (name, sens). GetRegistry env ctx name sens" admitsGetRegistry fst
  "\<lambda>(name, sens). (GetRegistryRequest name sens, [getRegistryName sens])"
  getRegistryBody "\<lambda>env x reg. reg" "\<lambda>x t srv. srv"
proof (unfold_locales, goal_cases)
  case (1 env ctx req srv out)
  obtain name sens where req: "req = (name, sens)" by (cases req)
  show ?case
  proof (cases "\<exists>p. admitsGetRegistry env ctx req (p, name, sens)")
    case True
    then obtain p where p: "admitsGetRegistry env ctx req (p, name, sens)" by blast
    have "runs env (getRegistryBody env (p, name, sens)) (\<lambda>reg. reg) (\<lambda>t srv. srv) srv out"
      using 1 p by (auto simp: req GetRegistry_def admitsGetRegistry_def getRegistryName_def runs_def commits_def
        getRegistryBody_def bnd_phase loginSecrets_def [symmetric] split: sum.splits prod.splits)
    with p show ?thesis by blast
  next
    case False
    with 1 show ?thesis
      by (auto simp: req GetRegistry_def admitsGetRegistry_def getRegistryName_def split: sum.splits if_splits)
  qed
qed (auto simp: admitsGetRegistry_def intro: tri_getRegistryBody)

definition deleteRegistryPhases :: "env \<Rightarrow> string \<times> string \<Rightarrow> unit txm" where
  "deleteRegistryPhases env x = (case x of (projectUUID, registryName) \<Rightarrow>
     bnd (deleteRegistryBody projectUUID registryName) (\<lambda>_.
     bnd (loginSecrets env) (\<lambda>_.
     if e_UseSecretService env then orVaultError (DeleteSecret (MakeSecretPath projectUUID registryName)) else ret ())))"

definition deletedRegistry :: "string \<times> string \<Rightarrow> tx \<Rightarrow> server \<Rightarrow> server" where
  "deletedRegistry x t srv = sendRegistry (snd (appendEvent DeletedEvent (fst x) (emptyRegistry (snd x)) t)) srv"

definition admitsDeleteRegistry :: "env \<Rightarrow> metadata option \<Rightarrow> string \<Rightarrow> string \<times> string \<Rightarrow> bool" where
  "admitsDeleteRegistry env ctx name x \<longleftrightarrow>
     GetActiveProjectID ctx = Inr (fst x) \<and> name = snd x \<and> name \<noteq> [] \<and>
     authCheckAllowed env ctx (DeleteRegistryRequest name) [] = Inr ()"

lemma deleteRegistryPhases_ok: "tri db_ok (deleteRegistryPhases env x) (\<lambda>_. db_ok)"
  unfolding deleteRegistryPhases_def
  by (intro tri_case_prod tri_bnd_same deleteRegistryBody_ok tri_intro)

interpretation delete_registry: transaction_handler DeleteRegistry admitsDeleteRegistry fst
  "\<lambda>name. (DeleteRegistryRequest name, [])" deleteRegistryPhases "\<lambda>env x v. v" deletedRegistry
proof (unfold_locales, goal_cases)
  case (1 env ctx name srv out)
  show ?case
  proof (cases "\<exists>p. admitsDeleteRegistry env ctx name (p, name)")
    case True
    then obtain p where p: "admitsDeleteRegistry env ctx name (p, name)" by blast
    have "runs env (deleteRegistryPhases env (p, name)) (\<lambda>v. v) (deletedRegistry (p, name)) srv out"
      using 1 p by (auto simp: DeleteRegistry_def admitsDeleteRegistry_def runs_def commits_def deletedRegistry_def
        deleteRegistryPhases_def bnd_phase loginSecrets_def [symmetric] checkDeleteResult_def
        split: sum.splits prod.splits)
    with p show ?thesis by blast
  next
    case False
    with 1 show ?thesis
      by (auto simp: DeleteRegistry_def admitsDeleteRegistry_def split: sum.splits if_splits)
  qed
qed (auto simp: admitsDeleteRegistry_def deletedRegistry_def intro: deleteRegistryPhases_ok)

lemma getRegistries_db:
  "getRegistries env p b obs fs n off t = (Inr v, t1) \<Longrightarrow> tx_db t1 = tx_db t"
  using triD [OF tri_getRegistries [of "\<lambda>d. d = tx_db t"]] by blast

interpretation watch_registries: watch_handler WatchRegistries addRegistryListener
proof (unfold_locales, goal_cases)
  case 1
  then show ?case
    unfolding WatchRegistries_def listenRegistry_def rollbackTransaction_def
    by (auto dest!: getRegistries_db transaction_dests split: watch_splits)
next
  case 2
  then show ?case
    unfolding WatchRegistries_def listenRegistry_def rollbackTransaction_def
    by (auto dest!: transaction_dests split: watch_splits)
next
  case 3
  then show ?case
    unfolding WatchRegistries_def listenRegistry_def
    by (auto dest!: transaction_dests split: watch_splits)
qed

section \<open>What the operations do\<close>

text \<open>The display name a registry gets: its own, or its name.\<close>

definition effectiveName :: "Registry \<Rightarrow> string" where
  "effectiveName reg = (if r_DisplayName reg = [] then r_Name reg else r_DisplayName reg)"

lemma validateDisplayName_effective:
  "validateDisplayName (r_Name reg) (r_DisplayName reg) = (dn, ok) \<Longrightarrow> dn = effectiveName reg"
  by (auto simp: validateDisplayName_def effectiveName_def split: if_splits)

lemma checkRegistryUniqueness_success:
  assumes "checkRegistryUniqueness p reg t = (Inr u, t1)"
  shows "t1 = t \<or> t1 = tick t"
    and "\<And>x. r_DisplayName reg \<noteq> [] \<Longrightarrow> x \<in> set (t_registries (tx_db t)) \<Longrightarrow> rdb_ProjectUUID x = p \<Longrightarrow>
      rdb_DisplayNameLc x = ToLower (r_DisplayName reg) \<Longrightarrow> rdb_Name x = r_Name reg"
  using assms
  by (auto simp: checkRegistryUniqueness_def success_simps checkUniqueness_def q_count_def
      filter_empty_conv split: if_splits sum.splits)

text \<open>The row a creation adds, up to the identifier and the times.\<close>

definition storedRow :: "env \<Rightarrow> string \<Rightarrow> Registry \<Rightarrow> RegistryDB \<Rightarrow> bool" where
  "storedRow env p reg r \<longleftrightarrow>
     rdb_ProjectUUID r = p \<and> rdb_Name r = r_Name reg \<and> rdb_DisplayName r = effectiveName reg \<and>
     rdb_Description r = r_Description reg \<and> rdb_Type r = r_Type reg \<and> rdb_APIType r = [] \<and>
     (\<not> e_UseSecretService env \<longrightarrow> rdb_AuthToken r = e_EncodeBase64 env (registrySecret reg))"

lemma writeRegistrySecret_success:
  "writeRegistrySecret env p reg t = (Inr u, t1) \<Longrightarrow> tx_db t1 = tx_db t \<and> tx_regEvents t1 = tx_regEvents t \<and>
   (if e_UseSecretService env
    then tx_vault t1 = (tx_vault t)(MakeSecretPath p (r_Name reg) \<mapsto> e_EncodeBase64 env (registrySecret reg))
    else tx_vault t1 = tx_vault t)"
  by (auto simp: writeRegistrySecret_def success_simps split: if_splits)

lemma registrySecret_displayName [simp]: "registrySecret (reg\<lparr>r_DisplayName := dn\<rparr>) = registrySecret reg"
  by (simp add: registrySecret_def)

lemma createRegistryRow_Inr:
  assumes "createRegistryRow row now d = (Inr r, d')"
  shows "r = row\<lparr>rdb_ID := t_next d, rdb_CreateTime := now, rdb_UpdateTime := now\<rparr>"
    and "d' = d\<lparr>t_registries := t_registries d @ [r], t_next := Suc (t_next d)\<rparr>"
    and "\<And>x. x \<in> set (t_registries d) \<Longrightarrow> \<not> inProject (rdb_ProjectUUID row) (rdb_Name row) x"
  using assms by (auto simp: createRegistryRow_def Let_def list_ex_iff inProject_def split: if_splits)

lemma createRegistry_success:
  assumes "createRegistry env p reg t = (Inr created, t')"
  shows "storedRow env p reg created"
    and "rdb_CreateTime created = tx_now t" and "rdb_UpdateTime created = tx_now t"
    and "tx_db t' = (tx_db t)\<lparr>t_registries := t_registries (tx_db t) @ [created], t_next := Suc (t_next (tx_db t))\<rparr>"
    and "\<And>x. x \<in> set (t_registries (tx_db t)) \<Longrightarrow> \<not> inProject p (r_Name reg) x"
    and "\<And>x. effectiveName reg \<noteq> [] \<Longrightarrow> x \<in> set (t_registries (tx_db t)) \<Longrightarrow> rdb_ProjectUUID x = p \<Longrightarrow>
      rdb_DisplayNameLc x \<noteq> ToLower (effectiveName reg)"
    and "e_UseSecretService env \<Longrightarrow>
      tx_vault t' (MakeSecretPath p (r_Name reg)) = Some (e_EncodeBase64 env (registrySecret reg))"
    and "tx_regEvents t' = tx_regEvents t @ [(event CreatedEvent p, reg\<lparr>r_DisplayName := effectiveName reg\<rparr>)]"
proof -
  define reg' where "reg' = reg\<lparr>r_DisplayName := effectiveName reg\<rparr>"
  obtain t1 t2 t3 u w where run: "checkRegistryUniqueness p reg' t = (Inr u, t1)"
    "mutate (createRegistryRow (newRegistryRow env p (effectiveName reg) reg')) t1 = (Inr (Inr created), t2)"
    "writeRegistrySecret env p reg' t2 = (Inr w, t3)" "appendEvent CreatedEvent p reg' t3 = (Inr (), t')"
    using assms unfolding createRegistry_def Let_def reg'_def
    by (auto simp: success_simps dest: validateDisplayName_effective split: prod.splits if_splits sum.splits)
  note uniq = checkRegistryUniqueness_success [OF run(1)]
  have t1: "tx_db t1 = tx_db t" "tx_now t1 = tx_now t" "tx_vault t1 = tx_vault t" "tx_regEvents t1 = tx_regEvents t"
    using uniq(1) by auto
  from run(2) obtain d where d: "createRegistryRow (newRegistryRow env p (effectiveName reg) reg') (tx_now t) (tx_db t) = (Inr created, d)"
    "t2 = (tick t1)\<lparr>tx_db := d\<rparr>"
    by (auto simp: mutate_Inr t1 split: if_splits)
  note row = createRegistryRow_Inr [OF d(1)]
  have t2: "tx_db t2 = d" "tx_vault t2 = tx_vault t" "tx_regEvents t2 = tx_regEvents t" using d(2) t1 by auto
  note sec = writeRegistrySecret_success [OF run(3)]
  have t': "t' = t3\<lparr>tx_regEvents := appendRegistryEvent (tx_regEvents t3) CreatedEvent p reg'\<rparr>"
    using run(4) by (simp add: appendEvent_def modify_Inr)
  show "storedRow env p reg created" "rdb_CreateTime created = tx_now t" "rdb_UpdateTime created = tx_now t"
    unfolding row(1) by (simp_all add: storedRow_def newRegistryRow_def reg'_def)
  show "tx_db t' = (tx_db t)\<lparr>t_registries := t_registries (tx_db t) @ [created], t_next := Suc (t_next (tx_db t))\<rparr>"
    using sec t2 row(2) t' by simp
  show "\<not> inProject p (r_Name reg) x" if "x \<in> set (t_registries (tx_db t))" for x
    using row(3) [OF that] by (simp add: newRegistryRow_def reg'_def)
  then show "rdb_DisplayNameLc x \<noteq> ToLower (effectiveName reg)"
    if "effectiveName reg \<noteq> []" "x \<in> set (t_registries (tx_db t))" "rdb_ProjectUUID x = p" for x
    using uniq(2) [of x] that by (auto simp: reg'_def inProject_def)
  show "tx_vault t' (MakeSecretPath p (r_Name reg)) = Some (e_EncodeBase64 env (registrySecret reg))"
    if "e_UseSecretService env"
    using sec that t' by (simp add: reg'_def)
  show "tx_regEvents t' = tx_regEvents t @ [(event CreatedEvent p, reg\<lparr>r_DisplayName := effectiveName reg\<rparr>)]"
    using sec t2 t' by (simp add: appendRegistryEvent_def reg'_def)
qed

end
