(* ===== verification/Artifact_Service.thy ===== *)
theory Artifact_Service
  imports Registry_Service
begin

text \<open>
  The artifact handlers, \<^verbatim>\<open>internal/northbound/artifact.go\<close>. The parsers of JSON, YAML, PNG and JPEG
  and the malware scanner are in the environment; the check that a payload is UTF-8 text is
  modelled byte by byte.
\<close>

section \<open>Payloads\<close>

abbreviation byte :: "char \<Rightarrow> nat" where "byte c \<equiv> of_char c"

definition isCont :: "char \<Rightarrow> bool" where
  "isCont c \<longleftrightarrow> charIn 128 191 c"

text \<open>The number of bytes of the rune at the head of a string; 0 when they encode none.\<close>

fun runeLen :: "string \<Rightarrow> nat" where
  "runeLen [] = 0"
| "runeLen (c # cs) =
     (if charIn 0 127 c then 1
      else if charIn 194 223 c then (case cs of c1 # _ \<Rightarrow> if isCont c1 then 2 else 0 | _ \<Rightarrow> 0)
      else if charIn 224 239 c then
        (case cs of
           c1 # c2 # _ \<Rightarrow>
             if isCont c1 \<and> isCont c2 \<and> (byte c = 224 \<longrightarrow> 160 \<le> byte c1) \<and> (byte c = 237 \<longrightarrow> byte c1 \<le> 159)
             then 3 else 0
         | _ \<Rightarrow> 0)
      else if charIn 240 244 c then
        (case cs of
           c1 # c2 # c3 # _ \<Rightarrow>
             if isCont c1 \<and> isCont c2 \<and> isCont c3 \<and> (byte c = 240 \<longrightarrow> 144 \<le> byte c1) \<and>
                (byte c = 244 \<longrightarrow> byte c1 \<le> 143)
             then 4 else 0
         | _ \<Rightarrow> 0)
      else 0)"

text \<open>\<^verbatim>\<open>strings.ToValidUTF8(s, "")\<close>: the bytes that start no rune are dropped.\<close>

function ToValidUTF8 :: "string \<Rightarrow> string" where
  "ToValidUTF8 s =
     (if s = [] then []
      else if runeLen s = 0 then ToValidUTF8 (tl s)
      else take (runeLen s) s @ ToValidUTF8 (drop (runeLen s) s))"
  by pat_completeness auto
termination by (relation "measure length") auto

declare ToValidUTF8.simps [simp del]

definition validateTextPlain :: "string \<Rightarrow> bool" where
  "validateTextPlain data \<longleftrightarrow> length (ToValidUTF8 data) = length data"

definition validateApplicationJSON :: "env \<Rightarrow> string \<Rightarrow> bool" where
  "validateApplicationJSON env data \<longleftrightarrow> validateTextPlain data \<and> e_json env data"

definition validateApplicationYAML :: "env \<Rightarrow> string \<Rightarrow> bool" where
  "validateApplicationYAML env data \<longleftrightarrow> validateTextPlain data \<and> e_yaml env data"

definition validateImagePng :: "env \<Rightarrow> string \<Rightarrow> bool" where
  "validateImagePng env data \<longleftrightarrow> e_png env data"

definition validateImageJpeg :: "env \<Rightarrow> string \<Rightarrow> bool" where
  "validateImageJpeg env data \<longleftrightarrow> e_jpeg env data"

definition artifactInvalid :: "string \<Rightarrow> string \<Rightarrow> string list \<Rightarrow> Status" where
  "artifactInvalid name msg args =
     NewInvalidArgument [WithResourceType ArtifactType, WithResourceName name, WithMessage msg args]"

definition validateArtifactData :: "env \<Rightarrow> string \<Rightarrow> string \<Rightarrow> string option \<Rightarrow> unit result" where
  "validateArtifactData env name mime payload =
     (let data = (case payload of None \<Rightarrow> [] | Some b \<Rightarrow> b)
      in if mime = ''text/plain'' then
           (if validateTextPlain data then Inr ()
            else Inl (artifactInvalid name ''artifact data is not valid Plain Text'' []))
         else if mime = ''application/json'' then
           (if validateApplicationJSON env data then Inr ()
            else Inl (artifactInvalid name ''artifact data is not valid JSON'' []))
         else if mime = ''application/yaml'' then
           (if validateApplicationYAML env data then Inr ()
            else Inl (artifactInvalid name ''artifact data is not valid YAML'' []))
         else if mime = ''image/png'' then
           (if validateImagePng env data then Inr ()
            else Inl (artifactInvalid name ''artifact data is not valid PNG'' []))
         else if mime = ''image/jpeg'' then
           (if validateImageJpeg env data then Inr ()
            else Inl (artifactInvalid name ''artifact data is not valid JPEG'' []))
         else Inl (artifactInvalid name ''artifact contents do not match mime type %s'' [mime]))"

definition scanArtifact :: "env \<Rightarrow> string option \<Rightarrow> unit result" where
  "scanArtifact env payload =
     (case payload of
        None \<Rightarrow> Inr ()
      | Some data \<Rightarrow>
          (case e_scanner env of
             None \<Rightarrow> Inr ()
           | Some sc \<Rightarrow>
               (case sc_ScanBytes sc data of
                  ScanError _ \<Rightarrow>
                    if sc_permissive sc then Inr ()
                    else Inl (NewUnavailable [WithResourceType ArtifactType,
                      WithMessage ''malware scanner configured but not available'' []])
                | ScanClean \<Rightarrow> Inr ()
                | ScanInfected res \<Rightarrow> Inl (NewInvalidArgument [WithResourceType ArtifactType,
                    WithMessage ''malware detected: %s'' [res]]))))"

section \<open>Helpers on a transaction\<close>

definition artifactIn :: "string \<Rightarrow> string \<Rightarrow> ArtifactDB \<Rightarrow> bool" where
  "artifactIn projectUUID name r \<longleftrightarrow> tdb_ProjectUUID r = projectUUID \<and> tdb_Name r = name"

definition appendArtifact :: "string \<Rightarrow> string \<Rightarrow> Artifact \<Rightarrow> unit txm" where
  "appendArtifact eventType projectUUID art =
     modify (\<lambda>s. s\<lparr>tx_artEvents := appendArtifactEvent (tx_artEvents s) eventType projectUUID art\<rparr>)"

definition checkArtifactUniqueness :: "string \<Rightarrow> Artifact \<Rightarrow> unit txm" where
  "checkArtifactUniqueness projectUUID a =
     (if art_DisplayName a \<noteq> [] then
        bnd (orDBError (query (\<lambda>d. q_count (\<lambda>x. tdb_ProjectUUID x = projectUUID \<and>
                tdb_DisplayNameLc x = ToLower (art_DisplayName a) \<and> tdb_Name x \<noteq> art_Name a) (t_artifacts d))))
          (\<lambda>existing. if existing > 0 then throw (NewAlreadyExists [WithResourceType ArtifactType,
               WithResourceName (art_Name a), WithMessage ''display name %s is not unique'' [art_DisplayName a]])
             else ret ())
      else ret ())"

definition newArtifactRow :: "string \<Rightarrow> string \<Rightarrow> Artifact \<Rightarrow> ArtifactDB" where
  "newArtifactRow projectUUID displayName art =
     \<lparr>tdb_ID = 0, tdb_ProjectUUID = projectUUID, tdb_Name = art_Name art, tdb_DisplayName = displayName,
      tdb_DisplayNameLc = ToLower displayName, tdb_Description = art_Description art,
      tdb_MimeType = art_MimeType art, tdb_Artifact = art_Artifact art, tdb_CreateTime = 0, tdb_UpdateTime = 0\<rparr>"

definition createArtifact :: "env \<Rightarrow> string \<Rightarrow> Artifact \<Rightarrow> ArtifactDB txm" where
  "createArtifact env projectUUID art0 =
     (case validateDisplayName (art_Name art0) (art_DisplayName art0) of (displayName, ok) \<Rightarrow>
        if \<not> ok then throw (NewInvalidArgument [WithResourceType ArtifactType,
          WithMessage ''display name cannot contain leading or trailing spaces'' []])
        else
          let art = art0\<lparr>art_DisplayName := displayName\<rparr>
          in bnd (liftE (validateArtifactData env (art_Name art) (art_MimeType art) (art_Artifact art))) (\<lambda>_.
             bnd (liftE (scanArtifact env (art_Artifact art))) (\<lambda>_.
             bnd (checkArtifactUniqueness projectUUID art) (\<lambda>_.
             bnd (mutate (createArtifactRow (newArtifactRow projectUUID displayName art))) (\<lambda>saved.
             case saved of
               Inl err \<Rightarrow>
                 if err = EntConstraint
                 then throw (artifactInvalid (art_Name art) ''artifact %s already exists'' [art_Name art])
                 else throw (dbError err)
             | Inr created \<Rightarrow>
                 bnd (appendArtifact CreatedEvent projectUUID art) (\<lambda>_. ret created))))))"

definition artifactColumns :: "(string \<times> string) list" where
  "artifactColumns =
     [(''project_uuid'', []), (''name'', ''name''), (''displayName'', ''display_name''),
      (''description'', ''description''), (''mimeType'', ''mime_type''), (''createTime'', ''create_time''),
      (''updateTime'', ''update_time'')]"

definition extractArtifact :: "ArtifactDB \<Rightarrow> Artifact" where
  "extractArtifact artifactDB =
     \<lparr>art_Name = tdb_Name artifactDB, art_DisplayName = tdb_DisplayName artifactDB,
      art_Description = tdb_Description artifactDB, art_MimeType = tdb_MimeType artifactDB,
      art_Artifact = tdb_Artifact artifactDB, art_CreateTime = Some (tdb_CreateTime artifactDB),
      art_UpdateTime = Some (tdb_UpdateTime artifactDB)\<rparr>"

definition getArtifacts ::
    "env \<Rightarrow> string \<Rightarrow> orderBy list \<Rightarrow> filter list \<Rightarrow> int32 \<Rightarrow> int32 \<Rightarrow>
     (Artifact list \<times> string list \<times> int32) txm" where
  "getArtifacts env projectUUID orderBys filters pageSize offset =
     bnd (liftE (orderByOptions orderBys artifactColumns ArtifactType)) (\<lambda>orderOptions.
     bnd (liftE (filterPredicates filters artifactColumns ArtifactType)) (\<lambda>artifactPreds.
     bnd (orDBError (query (\<lambda>d. q_list (e_engine env) artifactColumn artifactText orderOptions artifactPreds
            (\<lambda>r. projectUUID = AdminProjectID \<or> tdb_ProjectUUID r = projectUUID) (t_artifacts d)))) (\<lambda>artifactsDB.
     bnd (liftE (computePageRange pageSize offset (int (length artifactsDB)))) (\<lambda>(startIndex, endIndex, totalElements).
     if artifactsDB = [] then ret ([], [], 0)
     else (case pageOf artifactsDB startIndex endIndex of
             None \<Rightarrow> throw goPanic
           | Some page \<Rightarrow> ret (map extractArtifact page, map tdb_ProjectUUID page, totalElements))))))"

definition setArtifact :: "string \<Rightarrow> Artifact \<Rightarrow> ArtifactDB \<Rightarrow> ArtifactDB" where
  "setArtifact displayName art r =
     r\<lparr>tdb_DisplayName := displayName, tdb_DisplayNameLc := ToLower displayName,
       tdb_Description := art_Description art, tdb_MimeType := art_MimeType art,
       tdb_Artifact := art_Artifact art\<rparr>"

text \<open>An update does not scan the payload.\<close>

definition updateArtifact :: "env \<Rightarrow> string \<Rightarrow> Artifact \<Rightarrow> unit txm" where
  "updateArtifact env projectUUID art0 =
     (case validateDisplayName (art_Name art0) (art_DisplayName art0) of (displayName, ok) \<Rightarrow>
        if \<not> ok then throw (NewInvalidArgument [WithResourceType ArtifactType,
          WithMessage ''display name cannot contain leading or trailing spaces'' []])
        else
          let art = art0\<lparr>art_DisplayName := displayName\<rparr>
          in bnd (liftE (validateArtifactData env (art_Name art) (art_MimeType art) (art_Artifact art))) (\<lambda>_.
             bnd (checkArtifactUniqueness projectUUID art) (\<lambda>_.
             bnd (orDBError (mutate (updateArtifactRows (artifactIn projectUUID (art_Name art))
                    (setArtifact displayName art)))) (\<lambda>updateCount.
             if updateCount = 0
             then throw (NewNotFound [WithResourceType ArtifactType, WithResourceName (art_Name art)])
             else appendArtifact UpdatedEvent projectUUID art))))"

section \<open>Handlers\<close>

text \<open>The handler returns the error of the creation without ending its transaction.\<close>

definition CreateArtifact :: "env \<Rightarrow> metadata option \<Rightarrow> Artifact option \<Rightarrow> server \<Rightarrow> Artifact result \<times> server" where
  "CreateArtifact env ctx artifact srv =
     (case GetActiveProjectID ctx of
        Inl e \<Rightarrow> (Inl e, srv)
      | Inr projectUUID \<Rightarrow>
     (case artifact of
        None \<Rightarrow> (Inl (incomplete ArtifactType), srv)
      | Some art \<Rightarrow>
     (case Artifact_Validate art of
        Some err \<Rightarrow> (Inl (artifactInvalid (art_Name art) err []), srv)
      | None \<Rightarrow>
     (case authCheckAllowed env ctx (CreateArtifactRequest artifact) [] of
        Inl e \<Rightarrow> (Inl e, srv)
      | Inr _ \<Rightarrow>
     (case startTransaction env srv of
        (Inl e, srv1) \<Rightarrow> (Inl (dbError e), srv1)
      | (Inr t, srv1) \<Rightarrow>
     (case createArtifact env projectUUID art t of
        (Inl e, t1) \<Rightarrow> (Inl e, abandonTransaction t1 srv1)
      | (Inr created, t1) \<Rightarrow>
     (case commitTransaction t1 srv1 of
        (Inl e, srv2) \<Rightarrow> (Inl (dbError e), srv2)
      | (Inr _, srv2) \<Rightarrow>
          (Inr ((extractArtifact created)\<lparr>art_UpdateTime := None\<rparr>), sendArtifact t1 srv2))))))))"

definition ListArtifacts ::
    "env \<Rightarrow> metadata option \<Rightarrow> ListArtifactsRequest option \<Rightarrow> server \<Rightarrow> (Artifact list \<times> int32) result \<times> server" where
  "ListArtifacts env ctx req srv =
     (case GetActiveProjectID ctx of
        Inl e \<Rightarrow> (Inl e, srv)
      | Inr projectUUID \<Rightarrow>
     (case req of
        None \<Rightarrow> (Inl (incomplete ArtifactType), srv)
      | Some r \<Rightarrow>
     (case authCheckAllowed env ctx (ListArtifactsReq r) [] of
        Inl e \<Rightarrow> (Inl e, srv)
      | Inr _ \<Rightarrow>
     (case withTransaction env
             (bnd (liftE (parseOrderBy (la_OrderBy r) ArtifactType)) (\<lambda>orderBys.
              bnd (liftE (parseFilter (la_Filter r) ArtifactType)) (\<lambda>filters.
              getArtifacts env projectUUID orderBys filters (la_PageSize r) (la_Offset r)))) srv of
        (Inl e, srv1) \<Rightarrow> (Inl e, srv1)
      | (Inr ((artifacts, _, totalElements), t), srv1) \<Rightarrow> (Inr (artifacts, totalElements), srv1)))))"

definition findArtifact :: "string \<Rightarrow> string \<Rightarrow> ArtifactDB txm" where
  "findArtifact projectUUID artifactName =
     bnd (query (\<lambda>d. q_first (artifactIn projectUUID artifactName) (t_artifacts d))) (\<lambda>found.
     case found of
       Inl err \<Rightarrow>
         if err = EntNotFound then throw (NewNotFound [WithResourceType ArtifactType, WithResourceName artifactName])
         else throw (dbError err)
     | Inr r \<Rightarrow> ret r)"

definition GetArtifact :: "env \<Rightarrow> metadata option \<Rightarrow> string \<Rightarrow> server \<Rightarrow> Artifact result \<times> server" where
  "GetArtifact env ctx artifactName srv =
     (case GetActiveProjectID ctx of
        Inl e \<Rightarrow> (Inl e, srv)
      | Inr projectUUID \<Rightarrow>
     if artifactName = [] then (Inl (incomplete ArtifactType), srv)
     else
     (case authCheckAllowed env ctx (GetArtifactRequest artifactName) [] of
        Inl e \<Rightarrow> (Inl e, srv)
      | Inr _ \<Rightarrow>
     (case withTransaction env (findArtifact projectUUID artifactName) srv of
        (Inl e, srv1) \<Rightarrow> (Inl e, srv1)
      | (Inr (artifactDB, t), srv1) \<Rightarrow> (Inr (extractArtifact artifactDB), srv1))))"

definition UpdateArtifact ::
    "env \<Rightarrow> metadata option \<Rightarrow> string \<Rightarrow> Artifact option \<Rightarrow> server \<Rightarrow> unit result \<times> server" where
  "UpdateArtifact env ctx artifactName artifact srv =
     (case GetActiveProjectID ctx of
        Inl e \<Rightarrow> (Inl e, srv)
      | Inr projectUUID \<Rightarrow>
     (case artifact of
        None \<Rightarrow> (Inl (incomplete ArtifactType), srv)
      | Some art \<Rightarrow>
     if artifactName = [] then (Inl (incomplete ArtifactType), srv)
     else
     (case Artifact_Validate art of
        Some err \<Rightarrow> (Inl (invalidMessage ArtifactType err), srv)
      | None \<Rightarrow>
     if artifactName \<noteq> art_Name art then (Inl (NewInvalidArgument [WithResourceType ArtifactType,
       WithMessage ''name cannot be changed %s != %s'' [artifactName, art_Name art]]), srv)
     else
     (case authCheckAllowed env ctx (UpdateArtifactRequest artifactName artifact) [] of
        Inl e \<Rightarrow> (Inl e, srv)
      | Inr _ \<Rightarrow>
     (case withTransaction env (updateArtifact env projectUUID art) srv of
        (Inl e, srv1) \<Rightarrow> (Inl e, srv1)
      | (Inr (_, t), srv1) \<Rightarrow> (Inr (), sendArtifact t srv1))))))"

definition emptyArtifact :: "string \<Rightarrow> Artifact" where
  "emptyArtifact name = \<lparr>art_Name = name, art_DisplayName = [], art_Description = [], art_MimeType = [],
     art_Artifact = None, art_CreateTime = None, art_UpdateTime = None\<rparr>"

text \<open>The handler returns without ending its transaction when the artifact is in use.\<close>

definition DeleteArtifact :: "env \<Rightarrow> metadata option \<Rightarrow> string \<Rightarrow> server \<Rightarrow> unit result \<times> server" where
  "DeleteArtifact env ctx artifactName srv =
     (case GetActiveProjectID ctx of
        Inl e \<Rightarrow> (Inl e, srv)
      | Inr projectUUID \<Rightarrow>
     if artifactName = [] then (Inl (incomplete ArtifactType), srv)
     else
     (case authCheckAllowed env ctx (DeleteArtifactRequest artifactName) [] of
        Inl e \<Rightarrow> (Inl e, srv)
      | Inr _ \<Rightarrow>
     (case startTransaction env srv of
        (Inl e, srv1) \<Rightarrow> (Inl (dbError e), srv1)
      | (Inr t, srv1) \<Rightarrow>
     (case mutate (deleteArtifactRows (artifactIn projectUUID artifactName)) t of
        (Inl e, t1) \<Rightarrow> (Inl e, rollbackTransaction t1 srv1)
      | (Inr (Inl err), t1) \<Rightarrow>
          if err = EntConstraint
          then (Inl (artifactInvalid artifactName ''%s %s is in use and cannot be deleted'' [ArtifactType, artifactName]),
                abandonTransaction t1 srv1)
          else (Inl (dbError err), rollbackTransaction t1 srv1)
      | (Inr (Inr deleteCount), t1) \<Rightarrow>
          if deleteCount = 0
          then (Inl (NewNotFound [WithResourceType ArtifactType, WithResourceName artifactName]),
                rollbackTransaction t1 srv1)
          else
     (case checkDeleteResult t1 None srv1 of
        (Inl e, srv2) \<Rightarrow> (Inl e, srv2)
      | (Inr _, srv2) \<Rightarrow>
          (Inr (), sendArtifact (snd (appendArtifact DeletedEvent projectUUID (emptyArtifact artifactName) t1)) srv2))))))"

definition replayArtifacts :: "Artifact list \<Rightarrow> string list \<Rightarrow> ArtifactEvents" where
  "replayArtifacts artifacts projectUUIDs =
     foldl (\<lambda>q (art, p). appendArtifactEvent q ReplayedEvent p art) [] (zip artifacts projectUUIDs)"

definition listenArtifact :: "chan \<Rightarrow> WatchArtifactsRequest \<Rightarrow> server \<Rightarrow> server" where
  "listenArtifact ch req srv = srv\<lparr>sv_listeners := addArtifactListener ch req (sv_listeners srv)\<rparr>"

definition WatchArtifacts ::
    "env \<Rightarrow> WatchArtifactsRequest option \<Rightarrow> WatchArtifactsResponse stream option \<Rightarrow> chan \<Rightarrow> server \<Rightarrow>
     unit result \<times> ArtifactEvents \<times> server" where
  "WatchArtifacts env request stream ch srv =
     (case stream of
        None \<Rightarrow> (Inl (NewInvalidArgument [WithMessage ''incomplete request'' []]), [], srv)
      | Some (ctx, send) \<Rightarrow>
     (case request of
        None \<Rightarrow> (Inl goPanic, [], srv)
      | Some req \<Rightarrow>
     (case GetActiveProjectIDAllowAdmin ctx (wa_ProjectId req) of
        Inl e \<Rightarrow> (Inl e, [], srv)
      | Inr projectUUID \<Rightarrow>
     (case authCheckAllowed env ctx (WatchArtifactsReq req) [] of
        Inl e \<Rightarrow> (Inl e, [], srv)
      | Inr _ \<Rightarrow>
     if wa_NoReplay req then (Inr (), [], listenArtifact ch req srv)
     else
     (case startTransaction env srv of
        (Inl e, srv1) \<Rightarrow> (Inl (dbError e), [], srv1)
      | (Inr t, srv1) \<Rightarrow>
     (case getArtifacts env projectUUID [] [] 0 0 t of
        (Inl e, t1) \<Rightarrow> (Inl e, [], rollbackTransaction t1 srv1)
      | (Inr (artifacts, projectUUIDs, _), t1) \<Rightarrow>
     (case watchEvents send (replayArtifacts artifacts projectUUIDs) of
        (sent, Some err) \<Rightarrow> (Inl err, sent, rollbackTransaction t1 srv1)
      | (sent, None) \<Rightarrow>
     (case commitTransaction t1 (listenArtifact ch req srv1) of
        (Inl e, srv2) \<Rightarrow> (Inl (dbError e), sent, srv2)
      | (Inr _, srv2) \<Rightarrow> (Inr (), sent, srv2)))))))))"

definition watchArtifactEvents ::
    "(WatchArtifactsResponse \<Rightarrow> Status option) \<Rightarrow> ArtifactEvents \<Rightarrow> ArtifactEvents \<times> Status option" where
  "watchArtifactEvents send = watchEvents send"

definition closeArtifactWatch :: "chan \<Rightarrow> server \<Rightarrow> server" where
  "closeArtifactWatch ch srv = srv\<lparr>sv_listeners := deleteArtifactListener ch (sv_listeners srv)\<rparr>"

section \<open>Artifacts stay well-formed\<close>

lemma tri_checkArtifactUniqueness [tri_intro]: "tri P (checkArtifactUniqueness projectUUID a) (\<lambda>_. P)"
  unfolding checkArtifactUniqueness_def by (intro tri_intro tri_bnd_same tri_found)

lemma tri_appendArtifact [tri_intro]: "tri P (appendArtifact ev projectUUID a) (\<lambda>_. P)"
  unfolding appendArtifact_def by (intro tri_intro)

lemma createArtifact_ok: "tri db_ok (createArtifact env projectUUID art) (\<lambda>_. db_ok)"
  unfolding createArtifact_def Let_def
  by (intro tri_intro tri_bnd_saved [where R = "\<lambda>_. db_ok"] tri_bnd_same)
    (auto simp: newArtifactRow_def dest!: createArtifactRow_ok)

lemma updateArtifact_ok: "tri db_ok (updateArtifact env projectUUID art) (\<lambda>_. db_ok)"
  unfolding updateArtifact_def Let_def
  by (intro tri_intro tri_done tri_bnd_same)
    (auto simp: setArtifact_def artifactKey_def elim!: updateArtifactRows_ok)

lemma tri_getArtifacts [tri_intro]: "tri P (getArtifacts env projectUUID obs fs pageSize off) (\<lambda>_. P)"
  unfolding getArtifacts_def by (intro tri_intro tri_bnd_same tri_found)

lemma tri_findArtifact [tri_intro]: "tri P (findArtifact projectUUID name) (\<lambda>_. P)"
  unfolding findArtifact_def by (intro tri_intro tri_bnd_same tri_query_same)

lemma sendArtifact_simps [simp]:
  "sv_db (sendArtifact t srv) = sv_db srv" "sv_open (sendArtifact t srv) = sv_open srv"
  "sv_listeners (sendArtifact t srv) = sv_listeners srv" "sv_vault (sendArtifact t srv) = sv_vault srv"
  "sv_regOut (sendArtifact t srv) = sv_regOut srv" "sv_appOut (sendArtifact t srv) = sv_appOut srv"
  "sv_pkgOut (sendArtifact t srv) = sv_pkgOut srv"
  by (simp_all add: sendArtifact_def)

section \<open>The handlers meet the contract\<close>

definition admitsCreateArtifact :: "env \<Rightarrow> metadata option \<Rightarrow> Artifact option \<Rightarrow> string \<times> Artifact \<Rightarrow> bool" where
  "admitsCreateArtifact env ctx artifact x \<longleftrightarrow>
     GetActiveProjectID ctx = Inr (fst x) \<and> artifact = Some (snd x) \<and> Artifact_Validate (snd x) = None \<and>
     authCheckAllowed env ctx (CreateArtifactRequest artifact) [] = Inr ()"

interpretation create_artifact: transaction_handler CreateArtifact admitsCreateArtifact fst
  "\<lambda>artifact. (CreateArtifactRequest artifact, [])" "\<lambda>env x. createArtifact env (fst x) (snd x)"
  "\<lambda>env x created. (extractArtifact created)\<lparr>art_UpdateTime := None\<rparr>" "\<lambda>x. sendArtifact"
proof (unfold_locales, goal_cases)
  case (1 env ctx artifact srv out)
  show ?case
  proof (cases "\<exists>p art. admitsCreateArtifact env ctx artifact (p, art)")
    case True
    then obtain p art where p: "admitsCreateArtifact env ctx artifact (p, art)" by blast
    have "runs env (createArtifact env p art) (\<lambda>created. (extractArtifact created)\<lparr>art_UpdateTime := None\<rparr>)
        sendArtifact srv out"
      using 1 p by (auto simp: CreateArtifact_def admitsCreateArtifact_def runs_def commits_def
        split: sum.splits prod.splits)
    with p show ?thesis by fastforce
  next
    case False
    with 1 show ?thesis
      by (auto simp: CreateArtifact_def admitsCreateArtifact_def split: sum.splits option.splits)
  qed
qed (auto simp: admitsCreateArtifact_def intro: createArtifact_ok)

definition admitsUpdateArtifact ::
    "env \<Rightarrow> metadata option \<Rightarrow> string \<times> Artifact option \<Rightarrow> string \<times> Artifact \<Rightarrow> bool" where
  "admitsUpdateArtifact env ctx req x \<longleftrightarrow>
     GetActiveProjectID ctx = Inr (fst x) \<and> req = (art_Name (snd x), Some (snd x)) \<and>
     Artifact_Validate (snd x) = None \<and>
     authCheckAllowed env ctx (UpdateArtifactRequest (fst req) (snd req)) [] = Inr ()"

interpretation update_artifact: transaction_handler "\<lambda>env ctx (name, artifact). UpdateArtifact env ctx name artifact"
  admitsUpdateArtifact fst "\<lambda>(name, artifact). (UpdateArtifactRequest name artifact, [])"
  "\<lambda>env x. updateArtifact env (fst x) (snd x)" "\<lambda>env x v. v" "\<lambda>x. sendArtifact"
proof (unfold_locales, goal_cases)
  case (1 env ctx req srv out)
  obtain name artifact where "req = (name, artifact)" by (cases req)
  with 1 show ?case
    by (auto simp: UpdateArtifact_def admitsUpdateArtifact_def
        intro!: withTransaction_runs split: sum.splits option.splits if_splits)
qed (auto simp: admitsUpdateArtifact_def intro: updateArtifact_ok)

definition listArtifactsBody :: "env \<Rightarrow> string \<times> ListArtifactsRequest \<Rightarrow> (Artifact list \<times> string list \<times> int32) txm" where
  "listArtifactsBody env x = (case x of (projectUUID, r) \<Rightarrow>
     bnd (liftE (parseOrderBy (la_OrderBy r) ArtifactType)) (\<lambda>orderBys.
     bnd (liftE (parseFilter (la_Filter r) ArtifactType)) (\<lambda>filters.
     getArtifacts env projectUUID orderBys filters (la_PageSize r) (la_Offset r))))"

definition admitsListArtifacts ::
    "env \<Rightarrow> metadata option \<Rightarrow> ListArtifactsRequest option \<Rightarrow> string \<times> ListArtifactsRequest \<Rightarrow> bool" where
  "admitsListArtifacts env ctx req x \<longleftrightarrow>
     GetActiveProjectID ctx = Inr (fst x) \<and> req = Some (snd x) \<and>
     authCheckAllowed env ctx (ListArtifactsReq (snd x)) [] = Inr ()"

lemma tri_listArtifactsBody: "tri P (listArtifactsBody env x) (\<lambda>_. P)"
  unfolding listArtifactsBody_def by (intro tri_intro tri_bnd_same)

interpretation list_artifacts: reading_handler ListArtifacts admitsListArtifacts fst
  "\<lambda>req. case req of Some r \<Rightarrow> (ListArtifactsReq r, []) | None \<Rightarrow> (GetArtifactRequest [], [])"
  listArtifactsBody "\<lambda>env x (artifacts, _, n). (artifacts, n)" "\<lambda>x t srv. srv"
proof (unfold_locales, goal_cases)
  case (1 env ctx req srv out)
  then show ?case
    by (auto simp: ListArtifacts_def admitsListArtifacts_def listArtifactsBody_def listing_response
        intro!: withTransaction_runs split: sum.splits option.splits)
qed (auto simp: admitsListArtifacts_def intro: tri_listArtifactsBody)

definition admitsGetArtifact :: "env \<Rightarrow> metadata option \<Rightarrow> string \<Rightarrow> string \<times> string \<Rightarrow> bool" where
  "admitsGetArtifact env ctx name x \<longleftrightarrow>
     GetActiveProjectID ctx = Inr (fst x) \<and> name = snd x \<and> name \<noteq> [] \<and>
     authCheckAllowed env ctx (GetArtifactRequest name) [] = Inr ()"

interpretation get_artifact: reading_handler GetArtifact admitsGetArtifact fst
  "\<lambda>name. (GetArtifactRequest name, [])" "\<lambda>env x. findArtifact (fst x) (snd x)" "\<lambda>env x. extractArtifact" "\<lambda>x t srv. srv"
proof (unfold_locales, goal_cases)
  case (1 env ctx name srv out)
  then show ?case
    by (auto simp: GetArtifact_def admitsGetArtifact_def
        intro!: withTransaction_runs split: sum.splits if_splits)
qed (auto simp: admitsGetArtifact_def intro: tri_findArtifact)

text \<open>The deletion as a body: the refusal of the database and the missing row are its errors.\<close>

definition deleteArtifactBody :: "env \<Rightarrow> string \<times> string \<Rightarrow> unit txm" where
  "deleteArtifactBody env x = (case x of (projectUUID, artifactName) \<Rightarrow>
     bnd (mutate (deleteArtifactRows (artifactIn projectUUID artifactName))) (\<lambda>deleted.
     case deleted of
       Inl err \<Rightarrow>
         if err = EntConstraint
         then throw (artifactInvalid artifactName ''%s %s is in use and cannot be deleted'' [ArtifactType, artifactName])
         else throw (dbError err)
     | Inr deleteCount \<Rightarrow>
         if deleteCount = 0 then throw (NewNotFound [WithResourceType ArtifactType, WithResourceName artifactName])
         else ret ()))"

definition deletedArtifact :: "string \<times> string \<Rightarrow> tx \<Rightarrow> server \<Rightarrow> server" where
  "deletedArtifact x t srv = sendArtifact (snd (appendArtifact DeletedEvent (fst x) (emptyArtifact (snd x)) t)) srv"

definition admitsDeleteArtifact :: "env \<Rightarrow> metadata option \<Rightarrow> string \<Rightarrow> string \<times> string \<Rightarrow> bool" where
  "admitsDeleteArtifact env ctx name x \<longleftrightarrow>
     GetActiveProjectID ctx = Inr (fst x) \<and> name = snd x \<and> name \<noteq> [] \<and>
     authCheckAllowed env ctx (DeleteArtifactRequest name) [] = Inr ()"

lemma deleteArtifactBody_ok: "tri db_ok (deleteArtifactBody env x) (\<lambda>_. db_ok)"
  unfolding deleteArtifactBody_def
  by (intro tri_case_prod tri_bnd_saved [where R = "\<lambda>_. db_ok"] tri_intro) (auto dest: deleteArtifactRows_ok)

interpretation delete_artifact: transaction_handler DeleteArtifact admitsDeleteArtifact fst
  "\<lambda>name. (DeleteArtifactRequest name, [])" deleteArtifactBody "\<lambda>env x v. v" deletedArtifact
proof (unfold_locales, goal_cases)
  case (1 env ctx name srv out)
  show ?case
  proof (cases "\<exists>p. admitsDeleteArtifact env ctx name (p, name)")
    case True
    then obtain p where p: "admitsDeleteArtifact env ctx name (p, name)" by blast
    have "runs env (deleteArtifactBody env (p, name)) (\<lambda>v. v) (deletedArtifact (p, name)) srv out"
      using 1 p by (auto simp: DeleteArtifact_def admitsDeleteArtifact_def runs_def commits_def deletedArtifact_def
        deleteArtifactBody_def bnd_phase throw_def ret_def checkDeleteResult_def
        split: sum.splits prod.splits if_splits)
    with p show ?thesis by blast
  next
    case False
    with 1 show ?thesis
      by (auto simp: DeleteArtifact_def admitsDeleteArtifact_def split: sum.splits if_splits)
  qed
qed (auto simp: admitsDeleteArtifact_def deletedArtifact_def intro: deleteArtifactBody_ok)

lemma getArtifacts_db:
  "getArtifacts env p obs fs n off t = (Inr v, t1) \<Longrightarrow> tx_db t1 = tx_db t"
  using triD [OF tri_getArtifacts [of "\<lambda>d. d = tx_db t"]] by blast

interpretation watch_artifacts: watch_handler WatchArtifacts addArtifactListener
proof (unfold_locales, goal_cases)
  case 1
  then show ?case
    unfolding WatchArtifacts_def listenArtifact_def rollbackTransaction_def
    by (auto dest!: getArtifacts_db transaction_dests split: watch_splits)
next
  case 2
  then show ?case
    unfolding WatchArtifacts_def listenArtifact_def rollbackTransaction_def
    by (auto dest!: transaction_dests split: watch_splits)
next
  case 3
  then show ?case
    unfolding WatchArtifacts_def listenArtifact_def
    by (auto dest!: transaction_dests split: watch_splits)
qed

end
