(* ===== verification/Profile_Service.thy ===== *)
theory Profile_Service
  imports Artifact_Service
begin

text \<open>
  The profiles of an application, \<^verbatim>\<open>internal/northbound/profile.go\<close>: creation, replacement and
  extraction of a profile with its deployment requirements and parameter templates. A query from
  an entity, such as \<^verbatim>\<open>app.QueryProfiles()\<close>, selects by the identifier of its row.
\<close>

section \<open>Queries from an entity\<close>

definition profilesOf :: "nat \<Rightarrow> db \<Rightarrow> ProfileDB list" where
  "profilesOf appID d = List.filter (\<lambda>p. pdb_application_fk p = appID) (t_profiles d)"

definition requirementsOf :: "nat \<Rightarrow> db \<Rightarrow> DeploymentRequirementDB list" where
  "requirementsOf profileID d = List.filter (\<lambda>q. drdb_profile_fk q = profileID) (t_deployment_requirements d)"

definition templatesOf :: "nat \<Rightarrow> db \<Rightarrow> ParameterTemplateDB list" where
  "templatesOf profileID d = List.filter (\<lambda>q. ptdb_profile_fk q = profileID) (t_parameter_templates d)"

section \<open>Parameter templates\<close>

fun validateTemplates :: "string \<Rightarrow> string list \<Rightarrow> ParameterTemplate list \<Rightarrow> unit result" where
  "validateTemplates profileName ptNames [] = Inr ()"
| "validateTemplates profileName ptNames (pt # pts) =
     (if pt_Name pt \<in> set ptNames then Inl (NewInvalidArgument [WithResourceType ApplicationType,
        WithResourceName profileName, WithMessage ''duplicate parameter template %s'' [pt_Name pt]])
      else if \<not> snd (validateDisplayName (pt_Name pt) (pt_DisplayName pt)) then
        Inl (NewInvalidArgument [WithResourceType ProfileType, WithResourceName profileName,
          WithMessage ''display name cannot contain leading or trailing spaces'' []])
      else if (pt_Mandatory pt \<or> pt_Secret pt) \<and> pt_Default pt \<noteq> [] then
        Inl (NewInvalidArgument [WithResourceType ApplicationType, WithResourceName profileName,
          WithMessage ''mandatory or secret parameter template %s should have no default value'' [pt_Name pt]])
      else validateTemplates profileName (pt_Name pt # ptNames) pts)"

definition validateParameterTemplates :: "Profile \<Rightarrow> unit result" where
  "validateParameterTemplates profile = validateTemplates (p_Name profile) [] (p_ParameterTemplates profile)"

definition newTemplateRow :: "nat \<Rightarrow> ParameterTemplate \<Rightarrow> ParameterTemplateDB" where
  "newTemplateRow profileID pt =
     \<lparr>ptdb_profile_fk = profileID, ptdb_Name = pt_Name pt, ptdb_DisplayName = pt_DisplayName pt,
      ptdb_Default = pt_Default pt, ptdb_Type = pt_Type pt, ptdb_Validator = pt_Validator pt,
      ptdb_SuggestedValues = pt_SuggestedValues pt, ptdb_Mandatory = pt_Mandatory pt, ptdb_Secret = pt_Secret pt\<rparr>"

definition createTemplates :: "nat \<Rightarrow> ParameterTemplate list \<Rightarrow> unit txm" where
  "createTemplates profileID pts =
     forM pts (\<lambda>pt. orDBError (mutate (createParameterTemplateRow (newTemplateRow profileID pt))))"

definition extractTemplate :: "ParameterTemplateDB \<Rightarrow> ParameterTemplate" where
  "extractTemplate ptDB =
     \<lparr>pt_Name = ptdb_Name ptDB, pt_DisplayName = ptdb_DisplayName ptDB, pt_Default = ptdb_Default ptDB,
      pt_Type = ptdb_Type ptDB, pt_Validator = ptdb_Validator ptDB,
      pt_SuggestedValues = ptdb_SuggestedValues ptDB, pt_Secret = ptdb_Secret ptDB,
      pt_Mandatory = ptdb_Mandatory ptDB\<rparr>"

definition extractParameterTemplates :: "ProfileDB \<Rightarrow> ParameterTemplate list txm" where
  "extractParameterTemplates profileDB =
     bnd (orDBError (query (\<lambda>d. Inr (templatesOf (pdb_ID profileDB) d)))) (\<lambda>parameterTemplatesDB.
     ret (map extractTemplate parameterTemplatesDB))"

section \<open>Deployment requirements\<close>

definition injectDeploymentRequirement :: "string \<Rightarrow> nat \<Rightarrow> DeploymentRequirement \<Rightarrow> unit txm" where
  "injectDeploymentRequirement projectUUID profileID requirement =
     bnd (query (\<lambda>d. q_first (\<lambda>k. kdb_ProjectUUID k = projectUUID \<and> kdb_Name k = dr_Name requirement \<and>
            kdb_Version k = dr_Version requirement) (t_deployment_packages d))) (\<lambda>found.
     case found of
       Inl err \<Rightarrow>
         if err = EntNotFound then throw (NewNotFound [WithResourceType DeploymentPackageType,
           WithMessage ''deployment package %s not found'' [dr_Name requirement]])
         else throw (dbError err)
     | Inr pkg \<Rightarrow>
         bnd (if dr_DeploymentProfileName requirement \<noteq> [] then
                bnd (orDBError (query (\<lambda>d. q_first (\<lambda>p. dpdb_deployment_package_fk p = kdb_ID pkg \<and>
                       dpdb_Name p = dr_DeploymentProfileName requirement) (t_deployment_profiles d))))
                  (\<lambda>p. ret (Some (dpdb_ID p)))
              else ret None) (\<lambda>dpID.
         orDBError (mutate (createDeploymentRequirementRow
           \<lparr>drdb_profile_fk = profileID, drdb_deployment_package_fk = kdb_ID pkg, drdb_deployment_profile_fk = dpID\<rparr>))))"

definition deploymentProfileOf :: "DeploymentRequirementDB \<Rightarrow> db \<Rightarrow> DeploymentProfileDB \<Rightarrow> bool" where
  "deploymentProfileOf drDB d p \<longleftrightarrow> drdb_deployment_profile_fk drDB = Some (dpdb_ID p)"

text \<open>The two queries for the deployment profile ignore their errors; the second overrides the first.\<close>

definition extractDeploymentRequirement :: "DeploymentRequirementDB \<Rightarrow> DeploymentRequirement txm" where
  "extractDeploymentRequirement drDB =
     bnd (orDBError (query (\<lambda>d. q_only (\<lambda>k. kdb_ID k = drdb_deployment_package_fk drDB) (t_deployment_packages d)))) (\<lambda>dpkgDB.
     bnd (query (\<lambda>d. q_only (deploymentProfileOf drDB d) (t_deployment_profiles d))) (\<lambda>dprof.
     bnd (query (\<lambda>d. q_first (deploymentProfileOf drDB d) (t_deployment_profiles d))) (\<lambda>dpProfile.
     let dprofName = (case dprof of Inl _ \<Rightarrow> [] | Inr p \<Rightarrow> dpdb_Name p)
     in ret \<lparr>dr_Name = kdb_Name dpkgDB, dr_Version = kdb_Version dpkgDB,
             dr_DeploymentProfileName = (case dpProfile of Inl _ \<Rightarrow> dprofName | Inr p \<Rightarrow> dpdb_Name p)\<rparr>)))"

definition extractDeploymentRequirements :: "ProfileDB \<Rightarrow> DeploymentRequirement list txm" where
  "extractDeploymentRequirements profileDB =
     bnd (orDBError (query (\<lambda>d. Inr (requirementsOf (pdb_ID profileDB) d)))) (\<lambda>requirementsDB.
     mapM extractDeploymentRequirement requirementsDB)"

section \<open>Profiles\<close>

definition checkProfileUniqueness :: "Profile \<Rightarrow> nat \<Rightarrow> unit txm" where
  "checkProfileUniqueness p appID =
     (if p_DisplayName p \<noteq> [] then
        bnd (query (\<lambda>d. q_count (\<lambda>x. pdb_DisplayNameLc x = ToLower (p_DisplayName p) \<and> pdb_Name x \<noteq> p_Name p)
               (profilesOf appID d)))
          (\<lambda>existing. liftE (checkUniqueness existing ''profile'' (p_Name p) (p_DisplayName p) ProfileType))
      else ret ())"

definition profileSpaces :: "string \<Rightarrow> Status" where
  "profileSpaces name = NewInvalidArgument [WithResourceType ProfileType, WithResourceName name,
     WithMessage ''display name cannot contain leading or trailing spaces'' []]"

definition newProfileRow :: "nat \<Rightarrow> string \<Rightarrow> Profile \<Rightarrow> ProfileDB" where
  "newProfileRow appID displayName profile =
     \<lparr>pdb_ID = 0, pdb_application_fk = appID, pdb_Name = p_Name profile, pdb_DisplayName = displayName,
      pdb_DisplayNameLc = ToLower displayName, pdb_Description = p_Description profile,
      pdb_ChartValues = p_ChartValues profile, pdb_CreateTime = 0, pdb_UpdateTime = 0\<rparr>"

definition injectProfile :: "string \<Rightarrow> nat \<Rightarrow> Profile \<Rightarrow> unit txm" where
  "injectProfile projectUUID appID profile =
     (case validateDisplayName (p_Name profile) (p_DisplayName profile) of (displayName, ok) \<Rightarrow>
        if \<not> ok then throw (profileSpaces (p_Name profile))
        else
          bnd (checkProfileUniqueness profile appID) (\<lambda>_.
          bnd (mutate (createProfileRow (newProfileRow appID displayName profile))) (\<lambda>saved.
          case saved of
            Inl err \<Rightarrow>
              if err = EntConstraint
              then throw (NewAlreadyExists [WithResourceType ProfileType, WithResourceName (p_Name profile)])
              else throw (dbError err)
          | Inr created \<Rightarrow>
              bnd (forM (p_DeploymentRequirement profile)
                    (injectDeploymentRequirement projectUUID (pdb_ID created))) (\<lambda>_.
              bnd (liftE (validateParameterTemplates profile)) (\<lambda>_.
              createTemplates (pdb_ID created) (p_ParameterTemplates profile))))))"

definition setProfile :: "string \<Rightarrow> Profile \<Rightarrow> ProfileDB \<Rightarrow> ProfileDB" where
  "setProfile displayName p r =
     r\<lparr>pdb_DisplayName := displayName, pdb_DisplayNameLc := ToLower displayName,
       pdb_Description := p_Description p, pdb_ChartValues := p_ChartValues p\<rparr>"

definition updateProfile :: "string \<Rightarrow> Profile \<Rightarrow> ProfileDB \<Rightarrow> unit txm" where
  "updateProfile projectUUID p pDB =
     (case validateDisplayName (p_Name p) (p_DisplayName p) of (displayName, ok) \<Rightarrow>
        if \<not> ok then throw (profileSpaces (p_Name p))
        else
          bnd (orDBError (mutate (updateProfileRows (\<lambda>r. pdb_ID r = pdb_ID pDB) (setProfile displayName p)))) (\<lambda>_.
          bnd (orDBError (mutate (deleteDeploymentRequirementRows (\<lambda>q. drdb_profile_fk q = pdb_ID pDB)))) (\<lambda>_.
          bnd (forM (p_DeploymentRequirement p) (injectDeploymentRequirement projectUUID (pdb_ID pDB))) (\<lambda>_.
          bnd (orDBError (mutate (deleteParameterTemplateRows (\<lambda>q. ptdb_profile_fk q = pdb_ID pDB)))) (\<lambda>_.
          bnd (liftE (validateParameterTemplates p)) (\<lambda>_.
          createTemplates (pdb_ID pDB) (p_ParameterTemplates p)))))))"

section \<open>Profiles stay well-formed\<close>

text \<open>What the steps of a profile's creation keep: well-formed tables that have the application and some profiles.\<close>

definition withApp :: "nat \<Rightarrow> db \<Rightarrow> bool" where
  "withApp appID d \<longleftrightarrow> db_ok d \<and> hasApplication d appID"

definition withProfiles :: "nat \<Rightarrow> nat set \<Rightarrow> db \<Rightarrow> bool" where
  "withProfiles appID ids d \<longleftrightarrow> db_ok d \<and> hasApplication d appID \<and> (\<forall>i \<in> ids. hasProfile d i)"

lemma tri_checkProfileUniqueness [tri_intro]: "tri P (checkProfileUniqueness p appID) (\<lambda>_. P)"
  unfolding checkProfileUniqueness_def by (intro tri_intro tri_bnd_same tri_query_same)

lemma validateTemplates_defaults:
  "validateTemplates n names pts = Inr () \<Longrightarrow> pt \<in> set pts \<Longrightarrow> pt_Mandatory pt \<or> pt_Secret pt \<Longrightarrow> pt_Default pt = []"
  by (induction pts arbitrary: names) (auto split: if_splits)

lemma createTemplates_ok:
  assumes "profileID \<in> ids" and "\<And>pt. pt \<in> set pts \<Longrightarrow> pt_Mandatory pt \<or> pt_Secret pt \<Longrightarrow> pt_Default pt = []"
  shows "tri (withProfiles appID ids) (createTemplates profileID pts) (\<lambda>_. withProfiles appID ids)"
  unfolding createTemplates_def
proof (rule tri_forM)
  fix pt assume "pt \<in> set pts"
  with assms show "tri (withProfiles appID ids)
      (orDBError (mutate (createParameterTemplateRow (newTemplateRow profileID pt)))) (\<lambda>_. withProfiles appID ids)"
    by (intro tri_done) (auto simp: withProfiles_def newTemplateRow_def dest!: createParameterTemplateRow_ok)
qed

lemma injectDeploymentRequirement_ok:
  assumes "profileID \<in> ids"
  shows "tri (withProfiles appID ids) (injectDeploymentRequirement projectUUID profileID q) (\<lambda>_. withProfiles appID ids)"
proof -
  define found where "found k d \<longleftrightarrow> withProfiles appID ids d \<and> k \<in> set (t_deployment_packages d)" for k d
  define chosen where "chosen k i d \<longleftrightarrow> found k d \<and>
    (\<forall>j. i = Some j \<longrightarrow> (\<exists>p \<in> set (t_deployment_profiles d). dpdb_ID p = j \<and> dpdb_deployment_package_fk p = kdb_ID k))"
    for k i d
  have pick: "tri (found k) (if dr_DeploymentProfileName q \<noteq> [] then
                bnd (orDBError (query (\<lambda>d. q_first (\<lambda>p. dpdb_deployment_package_fk p = kdb_ID k \<and>
                       dpdb_Name p = dr_DeploymentProfileName q) (t_deployment_profiles d))))
                  (\<lambda>p. ret (Some (dpdb_ID p)))
              else ret None) (chosen k)" for k
  proof (intro tri_if)
    show "tri (found k) (bnd (orDBError (query (\<lambda>d. q_first (\<lambda>p. dpdb_deployment_package_fk p = kdb_ID k \<and>
        dpdb_Name p = dr_DeploymentProfileName q) (t_deployment_profiles d)))) (\<lambda>p. ret (Some (dpdb_ID p)))) (chosen k)"
      by (rule tri_bnd [where R = "\<lambda>p. chosen k (Some (dpdb_ID p))"])
        (auto simp: chosen_def intro!: tri_found tri_ret dest!: q_first_Inr)
  qed (auto simp: chosen_def intro: tri_ret)
  have make: "tri (chosen k i) (orDBError (mutate (createDeploymentRequirementRow
      \<lparr>drdb_profile_fk = profileID, drdb_deployment_package_fk = kdb_ID k, drdb_deployment_profile_fk = i\<rparr>)))
      (\<lambda>_. withProfiles appID ids)" for k i
    by (intro tri_done)
      (use assms in \<open>auto simp: chosen_def found_def withProfiles_def requirement_ok_def dest!: createDeploymentRequirementRow_ok\<close>)
  show ?thesis
    unfolding injectDeploymentRequirement_def
    by (intro tri_bnd_found [where R = found] tri_if tri_throw tri_bnd [OF pick make])
      (auto simp: found_def dest: q_first_Inr)
qed

lemma templates_validated:
  assumes "profileID \<in> ids"
  shows "tri (withProfiles appID ids) (bnd (liftE (validateParameterTemplates p))
     (\<lambda>_. createTemplates profileID (p_ParameterTemplates p))) (\<lambda>_. withProfiles appID ids)"
proof (cases "validateParameterTemplates p")
  case (Inl e)
  then show ?thesis by (auto simp: tri_def liftE_def bnd_def)
next
  case (Inr u)
  then show ?thesis
    using assms by (intro tri_bnd_same tri_liftE createTemplates_ok)
      (auto simp: validateParameterTemplates_def dest: validateTemplates_defaults)
qed

lemma injectProfile_ok: "tri (withApp appID) (injectProfile projectUUID appID profile) (\<lambda>_. withApp appID)"
proof -
  have last: "tri (withProfiles appID {i}) (bnd (forM (p_DeploymentRequirement profile) (injectDeploymentRequirement projectUUID i))
      (\<lambda>_. bnd (liftE (validateParameterTemplates profile)) (\<lambda>_. createTemplates i (p_ParameterTemplates profile))))
      (\<lambda>_. withApp appID)" for i
    by (rule tri_weaken [OF tri_bnd_same [OF tri_forM [OF injectDeploymentRequirement_ok [of i "{i}"]]
        templates_validated [of i "{i}"]]])
      (auto simp: withProfiles_def withApp_def)
  show ?thesis
    unfolding injectProfile_def
    by (intro tri_case_prod tri_if tri_throw tri_bnd_same tri_checkProfileUniqueness
        tri_bnd_saved [where R = "\<lambda>created. withProfiles appID {pdb_ID created}"] last)
      (auto simp: withApp_def withProfiles_def newProfileRow_def dest!: createProfileRow_ok)
qed

lemma updateProfile_ok:
  assumes "pdb_ID pDB \<in> ids"
  shows "tri (withProfiles appID ids) (updateProfile projectUUID p pDB) (\<lambda>_. withProfiles appID ids)"
  unfolding updateProfile_def
  by (intro tri_case_prod tri_if tri_throw tri_bnd_same tri_done tri_forM injectDeploymentRequirement_ok
      templates_validated assms)
    (auto simp: withProfiles_def setProfile_def profileKey_def
      dest!: deleteDeploymentRequirementRows_ok deleteParameterTemplateRows_ok updateProfileRows_ok)

end
