(* ===== verification/Application_Service.thy ===== *)
theory Application_Service
  imports Profile_Service
begin

text \<open>
  The application handlers, \<^verbatim>\<open>internal/northbound/application.go\<close>, and \<^verbatim>\<open>getApplication\<close> of
  \<^verbatim>\<open>profile.go\<close>. An update first computes what changed: a change of the kind alone is applied
  directly, any other change needs the application not to be part of a deployed package.
\<close>

section \<open>Queries\<close>

definition applicationIn :: "string \<Rightarrow> string \<Rightarrow> string \<Rightarrow> ApplicationDB \<Rightarrow> bool" where
  "applicationIn projectUUID name version a \<longleftrightarrow>
     adb_ProjectUUID a = projectUUID \<and> adb_Name a = name \<and> adb_Version a = version"

definition appendApplication :: "string \<Rightarrow> string \<Rightarrow> Application \<Rightarrow> unit txm" where
  "appendApplication eventType projectUUID app =
     modify (\<lambda>s. s\<lparr>tx_appEvents := appendApplicationEvent (tx_appEvents s) eventType projectUUID app\<rparr>)"

text \<open>A nullable column read into a Go string: the empty string for NULL.\<close>

definition kindColumn :: "ApplicationDB \<Rightarrow> string" where
  "kindColumn a = (case adb_Kind a of None \<Rightarrow> [] | Some k \<Rightarrow> k)"

definition appError :: "string \<Rightarrow> string list \<Rightarrow> Status" where
  "appError msg args = NewInvalidArgument [WithResourceType ApplicationType, WithMessage msg args]"

definition appNotFound :: "string \<Rightarrow> string \<Rightarrow> Status" where
  "appNotFound name version = NewNotFound [WithResourceType ApplicationType, WithResourceName name, WithResourceVersion version]"

definition getApplication :: "string \<Rightarrow> string \<Rightarrow> string \<Rightarrow> ApplicationDB option txm" where
  "getApplication projectUUID name version =
     bnd (query (\<lambda>d. q_first (applicationIn projectUUID name version) (t_applications d))) (\<lambda>found.
     case found of
       Inl err \<Rightarrow> if err = EntNotFound then ret None else throw (dbError err)
     | Inr a \<Rightarrow> ret (Some a))"

definition getRegistry :: "string \<Rightarrow> string \<Rightarrow> string \<Rightarrow> RegistryDB option txm" where
  "getRegistry projectUUID registryName registryType =
     bnd (query (\<lambda>d. q_first (inProject projectUUID registryName) (t_registries d))) (\<lambda>found.
     case found of
       Inl err \<Rightarrow> if err = EntNotFound then ret None else throw (dbError err)
     | Inr r \<Rightarrow> if rdb_Type r \<noteq> registryType then ret None else ret (Some r))"

definition checkApplicationUniqueness :: "string \<Rightarrow> Application \<Rightarrow> unit txm" where
  "checkApplicationUniqueness projectUUID a =
     (if a_DisplayName a \<noteq> [] then
        bnd (orDBError (query (\<lambda>d. q_count (\<lambda>x. adb_ProjectUUID x = projectUUID \<and>
               adb_DisplayNameLc x = ToLower (a_DisplayName a) \<and> adb_Name x \<noteq> a_Name a) (t_applications d)))) (\<lambda>n.
        if n > 0 then throw (NewAlreadyExists [WithResourceType ApplicationType, WithResourceName (a_Name a),
          WithResourceVersion (a_Version a), WithMessage ''display name already exists'' []])
        else ret ())
      else ret ())"

text \<open>The packages that refer to an application by project, name and version.\<close>

definition refersTo :: "string \<Rightarrow> string \<Rightarrow> string \<Rightarrow> db \<Rightarrow> DeploymentPackageDB \<Rightarrow> bool" where
  "refersTo projectUUID name version d k \<longleftrightarrow>
     list_ex (\<lambda>(p, i). p = kdb_ID k \<and>
       list_ex (\<lambda>a. adb_ID a = i \<and> applicationIn projectUUID name version a) (t_applications d))
       (t_package_applications d)"

definition checkApplication :: "string \<Rightarrow> string \<Rightarrow> string \<Rightarrow> unit txm" where
  "checkApplication name version projectUUID =
     bnd (orRawError (query (\<lambda>d. q_count (applicationIn projectUUID name version) (t_applications d)))) (\<lambda>n.
     if n = 0 then throw (appNotFound name version) else ret ())"

definition checkApplicationNotInDeployedPackages :: "string \<Rightarrow> string \<Rightarrow> string \<Rightarrow> unit txm" where
  "checkApplicationNotInDeployedPackages projectUUID appName version =
     bnd (orDBError (query (\<lambda>d. q_count (\<lambda>k. kdb_IsDeployed k \<and> refersTo projectUUID appName version d k)
            (t_deployment_packages d)))) (\<lambda>n.
     if n > 0 then throw (NewFailedPrecondition [WithResourceType ApplicationType, WithResourceName appName,
       WithResourceVersion version,
       WithMessage ''cannot update application that is part of %d packages; please create a new version instead'' [showNat n]])
     else ret ())"

section \<open>Creation\<close>

definition createProfiles :: "string \<Rightarrow> Profile list \<Rightarrow> nat \<Rightarrow> unit txm" where
  "createProfiles projectUUID profiles appID = forM profiles (injectProfile projectUUID appID)"

definition updateDefaultProfile :: "string \<Rightarrow> nat \<Rightarrow> bool txm" where
  "updateDefaultProfile name appID =
     (if name = [] then
        bnd (orDBError (mutate (updateApplicationRows (\<lambda>a. adb_ID a = appID) (\<lambda>a. a\<lparr>adb_default_profile := None\<rparr>)))) (\<lambda>_.
        ret True)
      else
        bnd (query (\<lambda>d. q_first (\<lambda>p. pdb_application_fk p = appID \<and> pdb_Name p = name) (profilesOf appID d))) (\<lambda>found.
        case found of
          Inl err \<Rightarrow> if err = EntNotFound then ret False else throw (dbError err)
        | Inr defaultProfile \<Rightarrow>
            bnd (orDBError (mutate (updateApplicationRows (\<lambda>a. adb_ID a = appID)
                   (\<lambda>a. a\<lparr>adb_default_profile := Some (pdb_ID defaultProfile)\<rparr>)))) (\<lambda>_.
            ret True)))"

definition createIgnoredResources :: "Application \<Rightarrow> nat \<Rightarrow> unit txm" where
  "createIgnoredResources app appID =
     forM (a_IgnoredResources app) (\<lambda>ir. orRawError (mutate (createIgnoredResourceRow
       \<lparr>irdb_application_fk = appID, irdb_Name = rr_Name ir, irdb_Kind = rr_Kind ir, irdb_Namespace = rr_Namespace ir\<rparr>)))"

definition newApplicationRow :: "string \<Rightarrow> string \<Rightarrow> Application \<Rightarrow> nat \<Rightarrow> nat option \<Rightarrow> ApplicationDB" where
  "newApplicationRow projectUUID displayName app helmID imageID =
     \<lparr>adb_ID = 0, adb_ProjectUUID = projectUUID, adb_Name = a_Name app, adb_DisplayName = displayName,
      adb_DisplayNameLc = ToLower displayName, adb_Description = a_Description app, adb_Version = a_Version app,
      adb_ChartName = a_ChartName app, adb_ChartVersion = a_ChartVersion app,
      adb_Kind = Some (kindToDB (a_Kind app)), adb_registry_fk = helmID, adb_image_registry_fk = imageID,
      adb_default_profile = None, adb_CreateTime = 0, adb_UpdateTime = 0\<rparr>"

text \<open>The image registry an application names, if it names one.\<close>

definition imageRegistryOf :: "string \<Rightarrow> Application \<Rightarrow> Status \<Rightarrow> RegistryDB option txm" where
  "imageRegistryOf projectUUID app notFound =
     (if a_ImageRegistryName app \<noteq> [] then
        bnd (getRegistry projectUUID (a_ImageRegistryName app) imageType) (\<lambda>r.
        case r of None \<Rightarrow> throw notFound | Some reg \<Rightarrow> ret (Some reg))
      else ret None)"

definition createApplication :: "string \<Rightarrow> Application \<Rightarrow> ApplicationDB txm" where
  "createApplication projectUUID app =
     (if a_Profiles app \<noteq> [] \<and> a_DefaultProfileName app = []
      then throw (appError ''default profile name must be specified'' [])
      else (case validateDisplayName (a_Name app) (a_DisplayName app) of (displayName, ok) \<Rightarrow>
        if \<not> ok then throw (appError ''display name cannot contain leading or trailing spaces'' [])
        else
          bnd (checkApplicationUniqueness projectUUID app) (\<lambda>_.
          bnd (getRegistry projectUUID (a_HelmRegistryName app) helmType) (\<lambda>helm.
          case helm of
            None \<Rightarrow> throw (appError ''helm registry %s not found'' [a_HelmRegistryName app])
          | Some helmRegistry \<Rightarrow>
              bnd (imageRegistryOf projectUUID app
                    (appError ''image registry %s not found'' [a_ImageRegistryName app])) (\<lambda>image.
              bnd (mutate (createApplicationRow (newApplicationRow projectUUID displayName app
                    (rdb_ID helmRegistry) (map_option rdb_ID image)))) (\<lambda>saved.
              case saved of
                Inl err \<Rightarrow>
                  if err = EntConstraint then throw (NewInvalidArgument [WithResourceType ApplicationType,
                    WithResourceName (a_Name app), WithMessage ''deployment application %s already exists'' [a_Name app]])
                  else throw (dbError err)
              | Inr created \<Rightarrow>
                  bnd (createProfiles projectUUID (a_Profiles app) (adb_ID created)) (\<lambda>_.
                  bnd (updateDefaultProfile (a_DefaultProfileName app) (adb_ID created)) (\<lambda>ok.
                  if \<not> ok then throw (NewInvalidArgument [WithResourceType ApplicationType,
                    WithResourceName (a_Name app), WithResourceVersion (a_Version app),
                    WithMessage ''could not update default profile %s'' [a_DefaultProfileName app]])
                  else
                    bnd (createIgnoredResources app (adb_ID created)) (\<lambda>_.
                    bnd (appendApplication CreatedEvent projectUUID app) (\<lambda>_.
                    ret created))))))))))"

section \<open>Extraction\<close>

definition extractProfile :: "ProfileDB \<Rightarrow> Profile txm" where
  "extractProfile profileDB =
     bnd (extractDeploymentRequirements profileDB) (\<lambda>requirements.
     bnd (extractParameterTemplates profileDB) (\<lambda>templates.
     ret \<lparr>p_Name = pdb_Name profileDB, p_DisplayName = pdb_DisplayName profileDB,
          p_Description = pdb_Description profileDB, p_ChartValues = pdb_ChartValues profileDB,
          p_ParameterTemplates = templates, p_DeploymentRequirement = requirements,
          p_CreateTime = Some (pdb_CreateTime profileDB), p_UpdateTime = Some (pdb_UpdateTime profileDB)\<rparr>))"

definition extractIgnoredResource :: "IgnoredResourceDB \<Rightarrow> ResourceReference" where
  "extractIgnoredResource irDB = \<lparr>rr_Name = irdb_Name irDB, rr_Kind = irdb_Kind irDB, rr_Namespace = irdb_Namespace irDB\<rparr>"

definition applicationExtract :: "ApplicationDB \<Rightarrow> Application txm" where
  "applicationExtract appDB =
     bnd (orDBError (query (\<lambda>d. q_only (\<lambda>r. rdb_ID r = adb_registry_fk appDB) (t_registries d)))) (\<lambda>helmRegistry.
     bnd (orDBError (query (\<lambda>d. Inr (profilesOf (adb_ID appDB) d)))) (\<lambda>profilesDB.
     bnd (mapM extractProfile profilesDB) (\<lambda>profiles.
     bnd (query (\<lambda>d. q_first (\<lambda>p. adb_default_profile appDB = Some (pdb_ID p)) (t_profiles d))) (\<lambda>defProfileDB.
     bnd (orDBError (query (\<lambda>d. q_all (\<lambda>q. irdb_application_fk q = adb_ID appDB) (t_ignored_resources d)))) (\<lambda>ignoredResourcesDB.
     bnd (query (\<lambda>d. q_only (\<lambda>r. adb_image_registry_fk appDB = Some (rdb_ID r)) (t_registries d))) (\<lambda>imageRegistry.
     ret \<lparr>a_Name = adb_Name appDB, a_DisplayName = adb_DisplayName appDB, a_Description = adb_Description appDB,
          a_Version = adb_Version appDB, a_Kind = kindFromDB (kindColumn appDB), a_ChartName = adb_ChartName appDB,
          a_ChartVersion = adb_ChartVersion appDB, a_HelmRegistryName = rdb_Name helmRegistry,
          a_Profiles = profiles,
          a_DefaultProfileName = (case defProfileDB of Inl _ \<Rightarrow> [] | Inr p \<Rightarrow> pdb_Name p),
          a_ImageRegistryName = (case imageRegistry of Inl _ \<Rightarrow> [] | Inr r \<Rightarrow> rdb_Name r),
          a_IgnoredResources = map extractIgnoredResource ignoredResourcesDB,
          a_CreateTime = Some (adb_CreateTime appDB), a_UpdateTime = Some (adb_UpdateTime appDB)\<rparr>))))))"

definition applicationsExtract ::
    "ApplicationDB list \<Rightarrow> int32 \<Rightarrow> int32 \<Rightarrow> (Application list \<times> string list \<times> int32) txm" where
  "applicationsExtract appsDB pageSize offset =
     bnd (liftE (computePageRange pageSize offset (int (length appsDB)))) (\<lambda>(startIndex, endIndex, totalElements).
     if appsDB = [] then ret ([], [], 0)
     else (case pageOf appsDB startIndex endIndex of
             None \<Rightarrow> throw goPanic
           | Some page \<Rightarrow>
               bnd (mapM applicationExtract page) (\<lambda>applications.
               ret (applications, map adb_ProjectUUID page, totalElements))))"

definition applicationColumns :: "(string \<times> string) list" where
  "applicationColumns =
     [(''publisher_name'', []), (''name'', ''name''), (''displayName'', ''display_name''),
      (''description'', ''description''), (''version'', ''version''), (''chartName'', ''chart_name''),
      (''chartVersion'', ''chart_version''), (''helmRegistryName'', ''helm_registry_name''),
      (''createTime'', ''create_time''), (''updateTime'', ''update_time''),
      (''defaultProfileName'', ''default_profile_name''), (''imageRegistryName'', ''image_registry_name'')]"

definition getApplications ::
    "env \<Rightarrow> string \<Rightarrow> Kind list \<Rightarrow> orderBy list \<Rightarrow> filter list \<Rightarrow> int32 \<Rightarrow> int32 \<Rightarrow>
     (Application list \<times> string list \<times> int32) txm" where
  "getApplications env projectUUID kinds orderBys filters pageSize offset =
     bnd (liftE (orderByOptions orderBys applicationColumns ApplicationType)) (\<lambda>orderOptions.
     bnd (liftE (filterPredicates filters applicationColumns ApplicationType)) (\<lambda>applicationPreds.
     let kindFilter = (case kindPredicate kinds of None \<Rightarrow> (\<lambda>_. True) | Some P \<Rightarrow> P)
     in bnd (orDBError (query (\<lambda>d. q_list (e_engine env) applicationColumn applicationText orderOptions applicationPreds
               (\<lambda>a. kindFilter (adb_Kind a) \<and> (projectUUID = [] \<or> adb_ProjectUUID a = projectUUID))
               (t_applications d)))) (\<lambda>applicationsDB.
        applicationsExtract applicationsDB pageSize offset)))"

section \<open>What an update changes\<close>

record applicationChanges =
  ch_kind :: bool
  ch_rootRecord :: bool
  ch_profiles :: bool
  ch_profile :: bool
  ch_ignoredResources :: bool
  ch_helmRegistry :: RegistryDB
  ch_imageRegistry :: "RegistryDB option"
  ch_newProfiles :: "Profile list"

definition changed :: "applicationChanges \<Rightarrow> bool" where
  "changed c \<longleftrightarrow> ch_rootRecord c \<or> ch_profiles c \<or> ch_profile c"

definition changedKind :: "applicationChanges \<Rightarrow> bool" where
  "changedKind c \<longleftrightarrow> ch_kind c"

definition applicationChanged :: "Application \<Rightarrow> ApplicationDB \<Rightarrow> RegistryDB \<Rightarrow> RegistryDB option \<Rightarrow> bool" where
  "applicationChanged app appDB helmRegistry imageRegistry \<longleftrightarrow>
     a_DisplayName app \<noteq> adb_DisplayName appDB \<or> a_Description app \<noteq> adb_Description appDB \<or>
     a_ChartName app \<noteq> adb_ChartName appDB \<or> a_ChartVersion app \<noteq> adb_ChartVersion appDB \<or>
     a_HelmRegistryName app \<noteq> rdb_Name helmRegistry \<or>
     (case imageRegistry of None \<Rightarrow> a_ImageRegistryName app \<noteq> [] | Some r \<Rightarrow> a_ImageRegistryName app \<noteq> rdb_Name r)"

definition profilesAreSame :: "Profile \<Rightarrow> ProfileDB \<Rightarrow> bool" where
  "profilesAreSame profile profileDB \<longleftrightarrow>
     p_Name profile = pdb_Name profileDB \<and> p_DisplayName profile = pdb_DisplayName profileDB \<and>
     p_Description profile = pdb_Description profileDB \<and> p_ChartValues profile = pdb_ChartValues profileDB"

text \<open>
  The map of the existing requirements by name and version, built by one query per requirement;
  a failing query makes the answer false.
\<close>

definition requirementKey :: "string \<Rightarrow> string \<Rightarrow> string" where
  "requirementKey name version = name @ '':'' @ version"

fun existingRequirements ::
    "DeploymentRequirementDB list \<Rightarrow> (string \<times> DeploymentRequirementDB) list \<Rightarrow>
     (string \<times> DeploymentRequirementDB) list option txm" where
  "existingRequirements [] m = ret (Some m)"
| "existingRequirements (q # qs) m =
     bnd (query (\<lambda>d. q_first (\<lambda>k. kdb_ID k = drdb_deployment_package_fk q) (t_deployment_packages d))) (\<lambda>found.
     case found of
       Inl _ \<Rightarrow> ret None
     | Inr k \<Rightarrow> existingRequirements qs (AList.update (requirementKey (kdb_Name k) (kdb_Version k)) q m))"

fun requirementsMatch :: "(string \<times> DeploymentRequirementDB) list \<Rightarrow> DeploymentRequirement list \<Rightarrow> bool txm" where
  "requirementsMatch m [] = ret True"
| "requirementsMatch m (requirement # rs) =
     (case map_of m (requirementKey (dr_Name requirement) (dr_Version requirement)) of
        None \<Rightarrow> ret False
      | Some requirementDB \<Rightarrow>
          bnd (query (\<lambda>d. q_first (deploymentProfileOf requirementDB d) (t_deployment_profiles d))) (\<lambda>found.
          case found of
            Inl _ \<Rightarrow> ret False
          | Inr deploymentProfile \<Rightarrow>
              if dpdb_Name deploymentProfile \<noteq> dr_DeploymentProfileName requirement then ret False
              else requirementsMatch m rs))"

definition requirementsAreSame :: "Profile \<Rightarrow> ProfileDB \<Rightarrow> bool txm" where
  "requirementsAreSame p existingProfile =
     bnd (query (\<lambda>d. Inr (requirementsOf (pdb_ID existingProfile) d))) (\<lambda>found.
     case found of
       Inl _ \<Rightarrow> ret False
     | Inr requirementsDB \<Rightarrow>
         if length requirementsDB \<noteq> length (p_DeploymentRequirement p) then ret False
         else
           bnd (existingRequirements requirementsDB []) (\<lambda>m.
           case m of
             None \<Rightarrow> ret False
           | Some existing \<Rightarrow> requirementsMatch existing (p_DeploymentRequirement p)))"

fun templatesMatch :: "(string \<times> ParameterTemplateDB) list \<Rightarrow> ParameterTemplate list \<Rightarrow> bool" where
  "templatesMatch m [] = True"
| "templatesMatch m (pt # pts) =
     (case map_of m (pt_Name pt) of
        None \<Rightarrow> False
      | Some ptDB \<Rightarrow>
          ptdb_Default ptDB = pt_Default pt \<and> ptdb_Type ptDB = pt_Type pt \<and>
          ptdb_DisplayName ptDB = pt_DisplayName pt \<and>
          length (ptdb_SuggestedValues ptDB) = length (pt_SuggestedValues pt) \<and>
          ptdb_Mandatory ptDB = pt_Mandatory pt \<and> ptdb_Secret ptDB = pt_Secret pt \<and>
          list_all2 (=) (ptdb_SuggestedValues ptDB) (pt_SuggestedValues pt) \<and> templatesMatch m pts)"

definition parameterTemplatesAreSame :: "Profile \<Rightarrow> ProfileDB \<Rightarrow> bool txm" where
  "parameterTemplatesAreSame p pDB =
     bnd (orDBError (query (\<lambda>d. Inr (templatesOf (pdb_ID pDB) d)))) (\<lambda>parameterTemplatesDB.
     if length (p_ParameterTemplates p) \<noteq> length parameterTemplatesDB then ret False
     else ret (templatesMatch (foldl (\<lambda>m t. AList.update (ptdb_Name t) t m) [] parameterTemplatesDB)
                 (p_ParameterTemplates p)))"

text \<open>
  The loop over the given profiles. The result is whether the profiles changed, and the profiles
  to add when they did not.
\<close>

fun compareProfiles ::
    "(string \<times> ProfileDB) list \<Rightarrow> Profile list \<Rightarrow> Profile list \<Rightarrow> (bool \<times> Profile list) txm" where
  "compareProfiles existing newProfiles [] = ret (if existing \<noteq> [] then (True, []) else (False, newProfiles))"
| "compareProfiles existing newProfiles (p # ps) =
     (case map_of existing (p_Name p) of
        Some existingProfile \<Rightarrow>
          if \<not> profilesAreSame p existingProfile then ret (True, [])
          else
            bnd (requirementsAreSame p existingProfile) (\<lambda>same.
            if \<not> same then ret (True, [])
            else
              bnd (parameterTemplatesAreSame p existingProfile) (\<lambda>templatesSame.
              if \<not> templatesSame then ret (True, [])
              else compareProfiles (AList.delete (pdb_Name existingProfile) existing) newProfiles ps))
      | None \<Rightarrow> compareProfiles existing (newProfiles @ [p]) ps)"

definition applicationProfilesChanged :: "Application \<Rightarrow> ApplicationDB \<Rightarrow> (bool \<times> Profile list) txm" where
  "applicationProfilesChanged app appDB =
     bnd (orDBError (query (\<lambda>d. Inr (profilesOf (adb_ID appDB) d)))) (\<lambda>profiles.
     if length profiles > length (a_Profiles app) then ret (True, [])
     else compareProfiles (foldl (\<lambda>m p. AList.update (pdb_Name p) p m) [] profiles) [] (a_Profiles app))"

definition defaultApplicationProfileChanged :: "Application \<Rightarrow> ApplicationDB \<Rightarrow> bool txm" where
  "defaultApplicationProfileChanged app appDB =
     bnd (query (\<lambda>d. q_only (\<lambda>p. adb_default_profile appDB = Some (pdb_ID p)) (t_profiles d))) (\<lambda>found.
     case found of
       Inl err \<Rightarrow> if err = EntNotFound then ret (a_DefaultProfileName app \<noteq> []) else throw (dbError err)
     | Inr pDB \<Rightarrow> ret (a_DefaultProfileName app \<noteq> pdb_Name pDB))"

definition ignoredKey :: "string \<Rightarrow> string \<Rightarrow> string \<Rightarrow> string" where
  "ignoredKey name namespace kind = name @ ''/'' @ namespace @ ''/'' @ kind"

definition applicationIgnoredResourcesChanged :: "Application \<Rightarrow> ApplicationDB \<Rightarrow> bool txm" where
  "applicationIgnoredResourcesChanged app appDB =
     (if a_IgnoredResources app = [] then ret False
      else
        bnd (orDBError (query (\<lambda>d. q_all (\<lambda>q. irdb_application_fk q = adb_ID appDB) (t_ignored_resources d)))) (\<lambda>ignoredResources.
        if length ignoredResources \<noteq> length (a_IgnoredResources app) then ret True
        else
          let existing = map (\<lambda>q. ignoredKey (irdb_Name q) (irdb_Namespace q) (irdb_Kind q)) ignoredResources
          in ret (list_ex (\<lambda>q. ignoredKey (rr_Name q) (rr_Namespace q) (rr_Kind q) \<notin> set existing)
                   (a_IgnoredResources app))))"

definition computeApplicationChanges :: "string \<Rightarrow> Application \<Rightarrow> ApplicationDB \<Rightarrow> applicationChanges txm" where
  "computeApplicationChanges projectUUID app appDB =
     (let notFound = (\<lambda>msg name. NewInvalidArgument [WithResourceType ApplicationType,
            WithResourceName (adb_Name appDB), WithResourceVersion (adb_Version appDB), WithMessage msg [name]])
      in bnd (getRegistry projectUUID (a_HelmRegistryName app) helmType) (\<lambda>helm.
         case helm of
           None \<Rightarrow> throw (notFound ''helm registry %s not found'' (a_HelmRegistryName app))
         | Some helmRegistry \<Rightarrow>
             bnd (imageRegistryOf projectUUID app
                   (notFound ''image registry %s not found'' (a_ImageRegistryName app))) (\<lambda>imageRegistry.
             bnd (applicationProfilesChanged app appDB) (\<lambda>(profiles, newProfiles).
             bnd (defaultApplicationProfileChanged app appDB) (\<lambda>profile.
             bnd (applicationIgnoredResourcesChanged app appDB) (\<lambda>ignored.
             ret \<lparr>ch_kind = \<not> isSameKind (a_Kind app) (kindColumn appDB),
                  ch_rootRecord = applicationChanged app appDB helmRegistry imageRegistry,
                  ch_profiles = profiles, ch_profile = profile, ch_ignoredResources = ignored,
                  ch_helmRegistry = helmRegistry, ch_imageRegistry = imageRegistry,
                  ch_newProfiles = newProfiles\<rparr>))))))"

section \<open>Update\<close>

text \<open>The profiles an update gives, checked for duplicate names and display names.\<close>

fun checkGivenProfiles :: "string list \<Rightarrow> string list \<Rightarrow> Profile list \<Rightarrow> unit result" where
  "checkGivenProfiles names displayNames [] = Inr ()"
| "checkGivenProfiles names displayNames (p # ps) =
     (if p_Name p \<in> set names
      then Inl (NewAlreadyExists [WithResourceType ProfileType, WithResourceName (p_Name p)])
      else if ToLower (p_DisplayName p) \<in> set displayNames
      then Inl (NewAlreadyExists [WithResourceType ProfileType, WithResourceName (p_Name p),
        WithMessage ''profile %s display name %s is not unique'' [p_Name p, p_DisplayName p]])
      else checkGivenProfiles (p_Name p # names) (ToLower (p_DisplayName p) # displayNames) ps)"

fun replaceProfiles :: "string \<Rightarrow> (string \<times> Profile) list \<Rightarrow> ProfileDB list \<Rightarrow> (string \<times> Profile) list txm" where
  "replaceProfiles projectUUID given [] = ret given"
| "replaceProfiles projectUUID given (profileDB # profilesDB) =
     bnd (case map_of given (pdb_Name profileDB) of
            None \<Rightarrow>
              bnd (orDBError (query (\<lambda>d. q_count (\<lambda>l. snd l = pdb_ID profileDB) (t_deployment_profile_profiles d)))) (\<lambda>n.
              if n > 0 then throw (NewFailedPrecondition
                [WithMessage ''profile %s cannot be deleted; it is in use by another deployment profile'' [pdb_Name profileDB]])
              else orDBError (mutate (deleteProfileID (pdb_ID profileDB))))
          | Some profile \<Rightarrow> updateProfile projectUUID profile profileDB) (\<lambda>_.
     replaceProfiles projectUUID (AList.delete (pdb_Name profileDB) given) profilesDB)"

definition updateProfiles :: "env \<Rightarrow> string \<Rightarrow> Application \<Rightarrow> nat \<Rightarrow> unit txm" where
  "updateProfiles env projectUUID app appID =
     bnd (liftE (checkGivenProfiles [] [] (a_Profiles app))) (\<lambda>_.
     bnd (orDBError (query (\<lambda>d. Inr (profilesOf appID d)))) (\<lambda>profilesDB.
     bnd (replaceProfiles projectUUID (map (\<lambda>p. (p_Name p, p)) (a_Profiles app)) profilesDB) (\<lambda>given.
     createProfiles projectUUID (e_rangeProfiles env (map snd given)) appID)))"

definition updateIgnoredResources :: "Application \<Rightarrow> nat \<Rightarrow> unit txm" where
  "updateIgnoredResources app appID =
     bnd (orDBError (mutate (deleteIgnoredResourceRows (\<lambda>q. irdb_application_fk q = appID)))) (\<lambda>_.
     createIgnoredResources app appID)"

definition updateApplicationKind :: "string \<Rightarrow> Application \<Rightarrow> unit txm" where
  "updateApplicationKind projectUUID app =
     bnd (orDBError (mutate (updateApplicationRows (applicationIn projectUUID (a_Name app) (a_Version app))
            (\<lambda>a. a\<lparr>adb_Kind := Some (kindToDB (a_Kind app))\<rparr>)))) (\<lambda>updateCount.
     if updateCount = 0 then throw (appNotFound (a_Name app) (a_Version app)) else ret ())"

definition setApplication :: "string \<Rightarrow> Application \<Rightarrow> applicationChanges \<Rightarrow> ApplicationDB \<Rightarrow> ApplicationDB" where
  "setApplication displayName app changes a =
     a\<lparr>adb_DisplayName := displayName, adb_DisplayNameLc := ToLower displayName,
       adb_Description := a_Description app, adb_registry_fk := rdb_ID (ch_helmRegistry changes),
       adb_Version := a_Version app, adb_ChartName := a_ChartName app, adb_ChartVersion := a_ChartVersion app,
       adb_Kind := Some (kindToDB (a_Kind app)),
       adb_image_registry_fk := (if a_ImageRegistryName app \<noteq> [] then map_option rdb_ID (ch_imageRegistry changes) else None)\<rparr>"

text \<open>
  The record itself, its profiles, default profile and ignored resources: the part of the update
  after its checks. The display name is looked up in the project with the empty name, as the code
  does.
\<close>

definition applyApplicationChanges ::
    "env \<Rightarrow> string \<Rightarrow> string \<Rightarrow> Application \<Rightarrow> nat \<Rightarrow> applicationChanges \<Rightarrow> unit txm" where
  "applyApplicationChanges env projectUUID displayName app appID changes =
     bnd (checkApplicationUniqueness [] app) (\<lambda>_.
     bnd (orDBError (mutate (updateApplicationRows (applicationIn projectUUID (a_Name app) (a_Version app))
            (setApplication displayName app changes)))) (\<lambda>updateCount.
     if updateCount = 0 then throw (appNotFound (a_Name app) (a_Version app))
     else
       bnd (if ch_profiles changes then updateProfiles env projectUUID app appID
            else if ch_newProfiles changes \<noteq> [] then createProfiles projectUUID (ch_newProfiles changes) appID
            else ret ()) (\<lambda>_.
       bnd (if ch_profile changes \<or> ch_profiles changes then
              bnd (updateDefaultProfile (a_DefaultProfileName app) appID) (\<lambda>ok.
              if \<not> ok then throw (appError ''could not update default profile'' []) else ret ())
            else ret ()) (\<lambda>_.
       bnd (if ch_ignoredResources changes then updateIgnoredResources app appID else ret ()) (\<lambda>_.
       appendApplication UpdatedEvent projectUUID app)))))"

definition updateApplication :: "env \<Rightarrow> string \<Rightarrow> Application \<Rightarrow> unit txm" where
  "updateApplication env projectUUID app0 =
     (if a_Profiles app0 \<noteq> [] \<and> a_DefaultProfileName app0 = []
      then throw (appError ''default profile name must be specified'' [])
      else (case validateDisplayName (a_Name app0) (a_DisplayName app0) of (displayName, ok) \<Rightarrow>
        if \<not> ok then throw (appError ''display name cannot contain leading or trailing spaces'' [])
        else
          bnd (getApplication projectUUID (a_Name app0) (a_Version app0)) (\<lambda>found.
          case found of
            None \<Rightarrow> throw (appNotFound (a_Name app0) (a_Version app0))
          | Some appDB \<Rightarrow>
              let app = app0\<lparr>a_Kind := (if a_Kind app0 = KIND_UNSPECIFIED then kindFromDB (kindColumn appDB)
                                       else a_Kind app0), a_DisplayName := displayName\<rparr>
              in bnd (computeApplicationChanges projectUUID app appDB) (\<lambda>changes.
                 if changedKind changes \<and> \<not> changed changes then updateApplicationKind projectUUID app
                 else
                   bnd (if changedKind changes \<or> changed changes
                        then checkApplicationNotInDeployedPackages projectUUID (a_Name app) (a_Version app)
                        else ret ()) (\<lambda>_.
                   applyApplicationChanges env projectUUID displayName app (adb_ID appDB) changes)))))"

section \<open>Handlers\<close>

definition createdApplication :: "Application \<Rightarrow> ApplicationDB \<Rightarrow> Application" where
  "createdApplication app created =
     \<lparr>a_Name = adb_Name created, a_DisplayName = adb_DisplayName created,
      a_Description = adb_Description created, a_Version = adb_Version created,
      a_Kind = kindFromDB (kindColumn created), a_ChartName = adb_ChartName created,
      a_ChartVersion = adb_ChartVersion created, a_HelmRegistryName = a_HelmRegistryName app,
      a_Profiles = a_Profiles app, a_DefaultProfileName = a_DefaultProfileName app,
      a_ImageRegistryName = a_ImageRegistryName app, a_IgnoredResources = a_IgnoredResources app,
      a_CreateTime = Some (adb_CreateTime created), a_UpdateTime = None\<rparr>"

definition CreateApplication ::
    "env \<Rightarrow> metadata option \<Rightarrow> Application option \<Rightarrow> server \<Rightarrow> Application result \<times> server" where
  "CreateApplication env ctx application srv =
     (case GetActiveProjectID ctx of
        Inl e \<Rightarrow> (Inl e, srv)
      | Inr projectUUID \<Rightarrow>
     (case application of
        None \<Rightarrow> (Inl (incomplete ApplicationType), srv)
      | Some app \<Rightarrow>
     (case Application_Validate app of
        Some err \<Rightarrow> (Inl (invalidMessage ApplicationType err), srv)
      | None \<Rightarrow>
     (case authCheckAllowed env ctx (CreateApplicationRequest application) [] of
        Inl e \<Rightarrow> (Inl e, srv)
      | Inr _ \<Rightarrow>
     (case withTransaction env (createApplication projectUUID app) srv of
        (Inl e, srv1) \<Rightarrow> (Inl e, srv1)
      | (Inr (created, t), srv1) \<Rightarrow>
          (Inr (createdApplication app created), sendApplication t srv1))))))"

definition ListApplications ::
    "env \<Rightarrow> metadata option \<Rightarrow> ListApplicationsRequest option \<Rightarrow> server \<Rightarrow>
     (Application list \<times> int32) result \<times> server" where
  "ListApplications env ctx req srv =
     (case GetActiveProjectID ctx of
        Inl e \<Rightarrow> (Inl e, srv)
      | Inr projectUUID \<Rightarrow>
     (case req of
        None \<Rightarrow> (Inl (incomplete ApplicationType), srv)
      | Some r \<Rightarrow>
     (case authCheckAllowed env ctx (ListApplicationsReq r) [] of
        Inl e \<Rightarrow> (Inl e, srv)
      | Inr _ \<Rightarrow>
     (case withTransaction env
             (bnd (liftE (parseOrderBy (lap_OrderBy r) ApplicationType)) (\<lambda>orderBys.
              bnd (liftE (parseFilter (lap_Filter r) ApplicationType)) (\<lambda>filters.
              getApplications env projectUUID (lap_Kinds r) orderBys filters (lap_PageSize r) (lap_Offset r)))) srv of
        (Inl e, srv1) \<Rightarrow> (Inl e, srv1)
      | (Inr ((applications, _, totalElements), t), srv1) \<Rightarrow> (Inr (applications, totalElements), srv1)))))"

definition applicationVersions :: "string \<Rightarrow> string \<Rightarrow> Application list txm" where
  "applicationVersions projectUUID applicationName =
     bnd (orDBError (query (\<lambda>d. q_all (\<lambda>a. adb_ProjectUUID a = projectUUID \<and> adb_Name a = applicationName)
            (t_applications d)))) (\<lambda>applicationsDB.
     if applicationsDB = [] then throw (NewNotFound [WithResourceType ApplicationType, WithResourceName applicationName])
     else bnd (applicationsExtract applicationsDB 0 0) (\<lambda>(applications, _, _). ret applications))"

definition GetApplicationVersions ::
    "env \<Rightarrow> metadata option \<Rightarrow> string \<Rightarrow> server \<Rightarrow> Application list result \<times> server" where
  "GetApplicationVersions env ctx applicationName srv =
     (case GetActiveProjectID ctx of
        Inl e \<Rightarrow> (Inl e, srv)
      | Inr projectUUID \<Rightarrow>
     if applicationName = [] then (Inl (incomplete ApplicationType), srv)
     else
     (case authCheckAllowed env ctx (GetApplicationVersionsRequest applicationName) [] of
        Inl e \<Rightarrow> (Inl e, srv)
      | Inr _ \<Rightarrow>
     (case withTransaction env (applicationVersions projectUUID applicationName) srv of
        (Inl e, srv1) \<Rightarrow> (Inl e, srv1)
      | (Inr (applications, t), srv1) \<Rightarrow> (Inr applications, srv1))))"

definition findApplication :: "string \<Rightarrow> string \<Rightarrow> string \<Rightarrow> Application txm" where
  "findApplication projectUUID applicationName version =
     bnd (query (\<lambda>d. q_first (applicationIn projectUUID applicationName version) (t_applications d))) (\<lambda>found.
     case found of
       Inl err \<Rightarrow> if err = EntNotFound then throw (appNotFound applicationName version) else throw (dbError err)
     | Inr applicationDB \<Rightarrow> applicationExtract applicationDB)"

definition GetApplication ::
    "env \<Rightarrow> metadata option \<Rightarrow> string \<Rightarrow> string \<Rightarrow> server \<Rightarrow> Application result \<times> server" where
  "GetApplication env ctx applicationName version srv =
     (case GetActiveProjectID ctx of
        Inl e \<Rightarrow> (Inl e, srv)
      | Inr projectUUID \<Rightarrow>
     if applicationName = [] \<or> version = [] then (Inl (incomplete ApplicationType), srv)
     else
     (case authCheckAllowed env ctx (GetApplicationRequest applicationName version) [] of
        Inl e \<Rightarrow> (Inl e, srv)
      | Inr _ \<Rightarrow>
     (case withTransaction env (findApplication projectUUID applicationName version) srv of
        (Inl e, srv1) \<Rightarrow> (Inl e, srv1)
      | (Inr (application, t), srv1) \<Rightarrow> (Inr application, srv1))))"

definition referenceCount :: "string \<Rightarrow> string \<Rightarrow> string \<Rightarrow> nat txm" where
  "referenceCount projectUUID applicationName version =
     bnd (checkApplication applicationName version projectUUID) (\<lambda>_.
     orDBError (query (\<lambda>d. q_count (refersTo projectUUID applicationName version d) (t_deployment_packages d))))"

definition GetApplicationReferenceCount ::
    "env \<Rightarrow> metadata option \<Rightarrow> string \<Rightarrow> string \<Rightarrow> server \<Rightarrow> 32 word result \<times> server" where
  "GetApplicationReferenceCount env ctx applicationName version srv =
     (case GetActiveProjectID ctx of
        Inl e \<Rightarrow> (Inl e, srv)
      | Inr projectUUID \<Rightarrow>
     if applicationName = [] \<or> version = [] then (Inl (incomplete ApplicationType), srv)
     else
     (case authCheckAllowed env ctx (GetApplicationReferenceCountRequest applicationName version) [] of
        Inl e \<Rightarrow> (Inl e, srv)
      | Inr _ \<Rightarrow>
     (case withTransaction env (referenceCount projectUUID applicationName version) srv of
        (Inl e, srv1) \<Rightarrow> (Inl e, srv1)
      | (Inr (n, t), srv1) \<Rightarrow> (Inr (of_nat n), srv1))))"

definition UpdateApplication ::
    "env \<Rightarrow> metadata option \<Rightarrow> string \<Rightarrow> string \<Rightarrow> Application option \<Rightarrow> server \<Rightarrow> unit result \<times> server" where
  "UpdateApplication env ctx applicationName version application srv =
     (case GetActiveProjectID ctx of
        Inl e \<Rightarrow> (Inl e, srv)
      | Inr projectUUID \<Rightarrow>
     (case application of
        None \<Rightarrow> (Inl (incomplete ApplicationType), srv)
      | Some app \<Rightarrow>
     if applicationName = [] \<or> version = [] then (Inl (incomplete ApplicationType), srv)
     else
     (case Application_Validate app of
        Some err \<Rightarrow> (Inl (invalidMessage ApplicationType err), srv)
      | None \<Rightarrow>
     if applicationName \<noteq> a_Name app
     then (Inl (appError ''name cannot be changed %s != %s'' [applicationName, a_Name app]), srv)
     else if version \<noteq> a_Version app
     then (Inl (appError ''version cannot be changed %s != %s'' [version, a_Version app]), srv)
     else
     (case authCheckAllowed env ctx (UpdateApplicationRequest applicationName version application) [] of
        Inl e \<Rightarrow> (Inl e, srv)
      | Inr _ \<Rightarrow>
     (case withTransaction env (updateApplication env projectUUID app) srv of
        (Inl e, srv1) \<Rightarrow> (Inl e, srv1)
      | (Inr (_, t), srv1) \<Rightarrow> (Inr (), sendApplication t srv1))))))"

definition emptyApplication :: "string \<Rightarrow> string \<Rightarrow> Application" where
  "emptyApplication name version =
     \<lparr>a_Name = name, a_DisplayName = [], a_Description = [], a_Version = version, a_Kind = KIND_UNSPECIFIED,
      a_ChartName = [], a_ChartVersion = [], a_HelmRegistryName = [], a_Profiles = [], a_DefaultProfileName = [],
      a_ImageRegistryName = [], a_IgnoredResources = [], a_CreateTime = None, a_UpdateTime = None\<rparr>"

text \<open>An error of the first count is returned as it is, not as an internal error.\<close>

definition deleteApplicationBody :: "string \<Rightarrow> string \<Rightarrow> string \<Rightarrow> unit txm" where
  "deleteApplicationBody projectUUID applicationName version =
     bnd (orRawError (query (\<lambda>d. q_count (refersTo projectUUID applicationName version d) (t_deployment_packages d)))) (\<lambda>n.
     if n > 0 then throw (NewFailedPrecondition [WithResourceType ApplicationType, WithResourceName applicationName,
       WithResourceVersion version,
       WithMessage ''cannot delete application that is part of one or more %s'' [DeploymentPackageType]])
     else
       bnd (orDBError (mutate (deleteApplicationRows (applicationIn projectUUID applicationName version)))) (\<lambda>deleteCount.
       if deleteCount = 0 then throw (appNotFound applicationName version) else ret ()))"

definition DeleteApplication ::
    "env \<Rightarrow> metadata option \<Rightarrow> string \<Rightarrow> string \<Rightarrow> server \<Rightarrow> unit result \<times> server" where
  "DeleteApplication env ctx applicationName version srv =
     (case GetActiveProjectID ctx of
        Inl e \<Rightarrow> (Inl e, srv)
      | Inr projectUUID \<Rightarrow>
     if applicationName = [] \<or> version = [] then (Inl (incomplete ApplicationType), srv)
     else
     (case authCheckAllowed env ctx (DeleteApplicationRequest applicationName version) [] of
        Inl e \<Rightarrow> (Inl e, srv)
      | Inr _ \<Rightarrow>
     (case startTransaction env srv of
        (Inl e, srv1) \<Rightarrow> (Inl (dbError e), srv1)
      | (Inr t, srv1) \<Rightarrow>
     (case deleteApplicationBody projectUUID applicationName version t of
        (Inl e, t1) \<Rightarrow> (Inl e, rollbackTransaction t1 srv1)
      | (Inr _, t1) \<Rightarrow>
     (case checkDeleteResult t1 None srv1 of
        (Inl e, srv2) \<Rightarrow> (Inl e, srv2)
      | (Inr _, srv2) \<Rightarrow>
          (Inr (), sendApplication (snd (appendApplication DeletedEvent projectUUID
             (emptyApplication applicationName version) t1)) srv2))))))"

definition replayApplications :: "Application list \<Rightarrow> string list \<Rightarrow> ApplicationEvents" where
  "replayApplications applications projectUUIDs =
     foldl (\<lambda>q (app, p). appendApplicationEvent q ReplayedEvent p app) [] (zip applications projectUUIDs)"

definition listenApplication :: "chan \<Rightarrow> WatchApplicationsRequest \<Rightarrow> server \<Rightarrow> server" where
  "listenApplication ch req srv = srv\<lparr>sv_listeners := addApplicationListener ch req (sv_listeners srv)\<rparr>"

text \<open>A failure to send while replaying ends the watch without ending the transaction.\<close>

definition WatchApplications ::
    "env \<Rightarrow> WatchApplicationsRequest option \<Rightarrow> WatchApplicationsResponse stream option \<Rightarrow> chan \<Rightarrow> server \<Rightarrow>
     unit result \<times> ApplicationEvents \<times> server" where
  "WatchApplications env request stream ch srv =
     (case stream of
        None \<Rightarrow> (Inl (NewInvalidArgument [WithMessage ''incomplete request'' []]), [], srv)
      | Some (ctx, send) \<Rightarrow>
     (case request of
        None \<Rightarrow> (Inl goPanic, [], srv)
      | Some req \<Rightarrow>
     (case GetActiveProjectIDAllowAdmin ctx (wap_ProjectId req) of
        Inl e \<Rightarrow> (Inl e, [], srv)
      | Inr projectUUID \<Rightarrow>
     (case authCheckAllowed env ctx (WatchApplicationsReq req) [] of
        Inl e \<Rightarrow> (Inl e, [], srv)
      | Inr _ \<Rightarrow>
     if wap_NoReplay req then (Inr (), [], listenApplication ch req srv)
     else
     (case startTransaction env srv of
        (Inl e, srv1) \<Rightarrow> (Inl (dbError e), [], srv1)
      | (Inr t, srv1) \<Rightarrow>
     (case getApplications env projectUUID (wap_Kinds req) [] [] 0 0 t of
        (Inl e, t1) \<Rightarrow> (Inl e, [], rollbackTransaction t1 srv1)
      | (Inr (applications, projectUUIDs, _), t1) \<Rightarrow>
     (case watchEvents send (replayApplications applications projectUUIDs) of
        (sent, Some err) \<Rightarrow> (Inl err, sent, abandonTransaction t1 srv1)
      | (sent, None) \<Rightarrow>
     (case commitTransaction t1 (listenApplication ch req srv1) of
        (Inl e, srv2) \<Rightarrow> (Inl (dbError e), sent, srv2)
      | (Inr _, srv2) \<Rightarrow> (Inr (), sent, srv2)))))))))"

definition watchApplicationEvents ::
    "(WatchApplicationsResponse \<Rightarrow> Status option) \<Rightarrow> ApplicationEvents \<Rightarrow> ApplicationEvents \<times> Status option" where
  "watchApplicationEvents send = watchEvents send"

definition closeApplicationWatch :: "chan \<Rightarrow> server \<Rightarrow> server" where
  "closeApplicationWatch ch srv = srv\<lparr>sv_listeners := deleteApplicationListener ch (sv_listeners srv)\<rparr>"

section \<open>Applications stay well-formed\<close>

lemma tri_appendApplication [tri_intro]: "tri P (appendApplication ev projectUUID a) (\<lambda>_. P)"
  unfolding appendApplication_def by (intro tri_intro)

lemma tri_checkApplicationUniqueness [tri_intro]: "tri P (checkApplicationUniqueness projectUUID a) (\<lambda>_. P)"
  unfolding checkApplicationUniqueness_def by (intro tri_intro tri_bnd_same tri_found)

lemma tri_checkApplicationNotInDeployedPackages [tri_intro]:
  "tri P (checkApplicationNotInDeployedPackages projectUUID n v) (\<lambda>_. P)"
  unfolding checkApplicationNotInDeployedPackages_def by (intro tri_intro tri_bnd_same tri_found)

lemma tri_checkApplication [tri_intro]: "tri P (checkApplication n v projectUUID) (\<lambda>_. P)"
  unfolding checkApplication_def by (intro tri_intro tri_bnd_same tri_found_raw)

lemma getApplication_found:
  "tri P (getApplication projectUUID n v) (\<lambda>r d. P d \<and>
     (\<forall>a. r = Some a \<longrightarrow> a \<in> set (t_applications d) \<and> applicationIn projectUUID n v a))"
  unfolding getApplication_def
  by (rule tri_bnd_found [where R = "\<lambda>a d. P d \<and> a \<in> set (t_applications d) \<and> applicationIn projectUUID n v a"])
    (auto intro!: tri_if tri_throw tri_ret dest: q_first_Inr)

lemma getRegistry_found:
  "tri P (getRegistry projectUUID n ty) (\<lambda>r d. P d \<and> (\<forall>reg. r = Some reg \<longrightarrow> hasRegistry d projectUUID ty (rdb_ID reg)))"
  unfolding getRegistry_def
  by (rule tri_bnd_found [where R = "\<lambda>r d. P d \<and> r \<in> set (t_registries d) \<and> inProject projectUUID n r"])
    (auto intro!: tri_if tri_throw tri_ret simp: hasRegistry_def inProject_def dest: q_first_Inr)

lemma imageRegistryOf_found:
  "tri P (imageRegistryOf projectUUID app e) (\<lambda>r d. P d \<and> (\<forall>reg. r = Some reg \<longrightarrow> hasRegistry d projectUUID imageType (rdb_ID reg)))"
  unfolding imageRegistryOf_def
  by (intro tri_if tri_bnd [OF getRegistry_found] tri_case_option tri_throw tri_ret) auto

lemma createProfiles_ok: "tri (withApp appID) (createProfiles projectUUID ps appID) (\<lambda>_. withApp appID)"
  unfolding createProfiles_def by (rule tri_forM) (rule injectProfile_ok)

lemma updateDefaultProfile_ok: "tri (withApp appID) (updateDefaultProfile name appID) (\<lambda>_. withApp appID)"
proof -
  have clear: "tri (withApp appID) (orDBError (mutate (updateApplicationRows (\<lambda>a. adb_ID a = appID)
      (\<lambda>a. a\<lparr>adb_default_profile := None\<rparr>)))) (\<lambda>_. withApp appID)"
  proof (rule tri_done)
    fix n d v d'
    assume d: "withApp appID d" and u: "updateApplicationRows (\<lambda>a. adb_ID a = appID)
      (\<lambda>a. a\<lparr>adb_default_profile := None\<rparr>) n d = (Inr v, d')"
    have "db_ok d'"
      using d by (intro updateApplicationRows_ok [OF u])
        (auto simp: withApp_def applicationKey_def db_ok_iff names_ok_def registries_ok_def)
    with d updateApplicationRows_has [OF u] show "withApp appID d'" by (simp add: withApp_def)
  qed
  have set: "tri (\<lambda>d. withApp appID d \<and> p \<in> set (t_profiles d) \<and> pdb_application_fk p = appID)
      (orDBError (mutate (updateApplicationRows (\<lambda>a. adb_ID a = appID)
      (\<lambda>a. a\<lparr>adb_default_profile := Some (pdb_ID p)\<rparr>)))) (\<lambda>_. withApp appID)" for p
  proof (rule tri_done)
    fix n d v d'
    assume d: "withApp appID d \<and> p \<in> set (t_profiles d) \<and> pdb_application_fk p = appID"
      and u: "updateApplicationRows (\<lambda>a. adb_ID a = appID)
      (\<lambda>a. a\<lparr>adb_default_profile := Some (pdb_ID p)\<rparr>) n d = (Inr v, d')"
    have "db_ok d'"
      using d by (intro updateApplicationRows_ok [OF u])
        (auto simp: withApp_def applicationKey_def db_ok_iff names_ok_def registries_ok_def)
    with d updateApplicationRows_has [OF u] show "withApp appID d'" by (simp add: withApp_def)
  qed
  show ?thesis
    unfolding updateDefaultProfile_def
    by (intro tri_if tri_bnd_same [OF clear] tri_bnd_found [where R = "\<lambda>p d. withApp appID d \<and>
        p \<in> set (t_profiles d) \<and> pdb_application_fk p = appID"] tri_throw tri_ret tri_bnd [OF set])
      (auto simp: profilesOf_def dest!: q_first_Inr)
qed

lemma createIgnoredResources_ok: "tri (withApp appID) (createIgnoredResources app appID) (\<lambda>_. withApp appID)"
  unfolding createIgnoredResources_def
  by (intro tri_forM tri_done_raw) (auto simp: withApp_def dest!: createIgnoredResourceRow_ok)

lemma createApplication_ok: "tri db_ok (createApplication projectUUID app) (\<lambda>_. db_ok)"
proof -
  define helm where "helm r d \<longleftrightarrow> db_ok d \<and> hasRegistry d projectUUID helmType (rdb_ID r)" for r :: RegistryDB and d
  define both where "both r i d \<longleftrightarrow> helm r d \<and> (\<forall>q. i = Some q \<longrightarrow> hasRegistry d projectUUID imageType (rdb_ID q))"
    for r :: RegistryDB and i :: "RegistryDB option" and d
  have "tri (helm r) (imageRegistryOf projectUUID app e) (both r)" for r e
    by (rule tri_weaken [OF imageRegistryOf_found [of "helm r"]]) (auto simp: both_def)
  moreover have "withApp (adb_ID a) d'"
    if "both r i d" "createApplicationRow (newApplicationRow projectUUID dn app (rdb_ID r) (map_option rdb_ID i)) n d = (Inr a, d')"
    for r i dn n d a d'
    using createApplicationRow_ok [OF that(2)] that(1)
    by (auto simp: both_def helm_def withApp_def newApplicationRow_def)
  moreover have "tri (withApp i) (bnd (createProfiles projectUUID (a_Profiles app) i) (\<lambda>_.
      bnd (updateDefaultProfile (a_DefaultProfileName app) i) (\<lambda>ok. if \<not> ok then throw e
        else bnd (createIgnoredResources app i) (\<lambda>_. bnd (appendApplication CreatedEvent projectUUID app) (\<lambda>_. ret a)))))
      (\<lambda>_. db_ok)" for i e and a :: ApplicationDB
    by (intro tri_bnd_same [OF createProfiles_ok] tri_bnd_same [OF updateDefaultProfile_ok] tri_if tri_throw
        tri_bnd_same [OF createIgnoredResources_ok] tri_bnd_same [OF tri_appendApplication] tri_ret)
      (simp add: withApp_def)
  ultimately have rest: "tri (helm r) (bnd (imageRegistryOf projectUUID app e1) (\<lambda>image.
      bnd (mutate (createApplicationRow (newApplicationRow projectUUID dn app (rdb_ID r) (map_option rdb_ID image)))) (\<lambda>saved.
      case saved of Inl err \<Rightarrow> (if err = EntConstraint then throw e2 else throw (dbError err))
      | Inr created \<Rightarrow> bnd (createProfiles projectUUID (a_Profiles app) (adb_ID created)) (\<lambda>_.
          bnd (updateDefaultProfile (a_DefaultProfileName app) (adb_ID created)) (\<lambda>ok. if \<not> ok then throw e3
          else bnd (createIgnoredResources app (adb_ID created)) (\<lambda>_.
            bnd (appendApplication CreatedEvent projectUUID app) (\<lambda>_. ret created))))))) (\<lambda>_. db_ok)" for r dn e1 e2 e3
    by (intro tri_bnd [where x = "imageRegistryOf projectUUID app e1" and R = "both r"]
        tri_bnd_saved [where R = "\<lambda>a. withApp (adb_ID a)"] tri_if tri_throw) blast+
  show ?thesis
    unfolding createApplication_def
    by (intro tri_if tri_throw tri_case_prod tri_bnd_same [OF tri_checkApplicationUniqueness]
        tri_bnd [OF getRegistry_found] tri_case_option tri_weaken [OF rest]) (auto simp: helm_def)
qed

subsection \<open>Computing the changes reads only\<close>

lemma tri_existingRequirements [tri_intro]: "tri P (existingRequirements qs m) (\<lambda>_. P)"
  by (induction qs arbitrary: m) (auto intro!: tri_ret tri_bnd_same [OF tri_query_same] tri_case_sum)

lemma tri_requirementsMatch [tri_intro]: "tri P (requirementsMatch m rs) (\<lambda>_. P)"
  by (induction rs)
    (auto intro!: tri_ret tri_bnd_same [OF tri_query_same] tri_case_sum tri_case_option tri_if)

lemma tri_requirementsAreSame [tri_intro]: "tri P (requirementsAreSame p pDB) (\<lambda>_. P)"
  unfolding requirementsAreSame_def by (intro tri_intro tri_bnd_same tri_query_same)

lemma tri_parameterTemplatesAreSame [tri_intro]: "tri P (parameterTemplatesAreSame p pDB) (\<lambda>_. P)"
  unfolding parameterTemplatesAreSame_def by (intro tri_intro tri_bnd_same tri_found)

lemma tri_compareProfiles [tri_intro]: "tri P (compareProfiles existing news ps) (\<lambda>_. P)"
proof (induction ps arbitrary: existing news)
  case Nil
  then show ?case by (simp add: tri_ret)
next
  case (Cons p ps)
  show ?case
    unfolding compareProfiles.simps
    by (intro tri_case_option tri_if tri_ret tri_bnd_same [OF tri_requirementsAreSame]
        tri_bnd_same [OF tri_parameterTemplatesAreSame] Cons)
qed

lemma tri_applicationProfilesChanged [tri_intro]: "tri P (applicationProfilesChanged app appDB) (\<lambda>_. P)"
  unfolding applicationProfilesChanged_def by (intro tri_intro tri_bnd_same tri_found)

lemma tri_defaultApplicationProfileChanged [tri_intro]: "tri P (defaultApplicationProfileChanged app appDB) (\<lambda>_. P)"
  unfolding defaultApplicationProfileChanged_def by (intro tri_intro tri_bnd_same tri_query_same)

lemma tri_applicationIgnoredResourcesChanged [tri_intro]: "tri P (applicationIgnoredResourcesChanged app appDB) (\<lambda>_. P)"
  unfolding applicationIgnoredResourcesChanged_def Let_def by (intro tri_intro tri_bnd_same tri_found)

text \<open>The registries of the changes exist in the project, with the right types.\<close>

definition registriesFit :: "string \<Rightarrow> RegistryDB \<Rightarrow> RegistryDB option \<Rightarrow> db \<Rightarrow> bool" where
  "registriesFit projectUUID helm img d \<longleftrightarrow>
     hasRegistry d projectUUID helmType (rdb_ID helm) \<and>
     (\<forall>q. img = Some q \<longrightarrow> hasRegistry d projectUUID imageType (rdb_ID q))"

lemma computeApplicationChanges_found:
  "tri P (computeApplicationChanges projectUUID app appDB)
     (\<lambda>c d. P d \<and> registriesFit projectUUID (ch_helmRegistry c) (ch_imageRegistry c) d)"
proof -
  have image: "tri (\<lambda>d. P d \<and> hasRegistry d projectUUID helmType (rdb_ID h)) (imageRegistryOf projectUUID app e)
      (\<lambda>image d. P d \<and> registriesFit projectUUID h image d)" for h e
    by (rule tri_weaken [OF imageRegistryOf_found
        [of "\<lambda>d. P d \<and> hasRegistry d projectUUID helmType (rdb_ID h)"]]) (auto simp: registriesFit_def)
  show ?thesis
    unfolding computeApplicationChanges_def Let_def
    by (intro tri_bnd [OF getRegistry_found] tri_case_option tri_throw tri_bnd [OF tri_weaken [OF image]]
        tri_case_prod tri_bnd_same [OF tri_applicationProfilesChanged]
        tri_bnd_same [OF tri_defaultApplicationProfileChanged]
        tri_bnd_same [OF tri_applicationIgnoredResourcesChanged] tri_ret) auto
qed

subsection \<open>Applying them\<close>

lemma deleteProfileID_has:
  "deleteProfileID i now d = (Inr u, d') \<Longrightarrow> hasProfile d' j \<longleftrightarrow> hasProfile d j \<and> j \<noteq> i"
  by (auto simp: deleteProfileID_def dropProfiles_def has_defs Let_def split: if_splits)

lemma replaceProfiles_ok:
  "distinct (map pdb_ID ps) \<Longrightarrow>
   tri (withProfiles appID (pdb_ID ` set ps)) (replaceProfiles projectUUID given ps) (\<lambda>_. withApp appID)"
proof (induction ps arbitrary: given)
  case Nil
  then show ?case by (auto simp: withProfiles_def withApp_def intro: tri_ret)
next
  case (Cons p ps)
  define before where "before = withProfiles appID (pdb_ID ` set (p # ps))"
  define rest where "rest = withProfiles appID (pdb_ID ` set ps)"
  have drop: "tri before (orDBError (mutate (deleteProfileID (pdb_ID p)))) (\<lambda>_. rest)"
  proof (rule tri_done)
    fix n d v d' assume "before d" "deleteProfileID (pdb_ID p) n d = (Inr v, d')"
    then show "rest d'"
      using Cons.prems deleteProfileID_ok [of "pdb_ID p" n d v d'] deleteProfileID_has [of "pdb_ID p" n d v d']
      by (auto simp: before_def rest_def withProfiles_def intro: rev_image_eqI)
  qed
  have update: "tri before (updateProfile projectUUID q p) (\<lambda>_. rest)" for q
    unfolding before_def
    by (rule tri_weaken [OF updateProfile_ok [of p "pdb_ID ` set (p # ps)"]]) (auto simp: rest_def withProfiles_def)
  have one: "tri before (case map_of given (pdb_Name p) of
        None \<Rightarrow> bnd (orDBError (query (\<lambda>d. q_count (\<lambda>l. snd l = pdb_ID p) (t_deployment_profile_profiles d)))) (\<lambda>n.
          if n > 0 then throw e else orDBError (mutate (deleteProfileID (pdb_ID p))))
      | Some q \<Rightarrow> updateProfile projectUUID q p) (\<lambda>_. rest)" for e
    by (intro tri_case_option tri_bnd [OF tri_found [where Q = "\<lambda>_. before"]] tri_if tri_throw drop update)
  show ?case
    unfolding replaceProfiles.simps before_def [symmetric]
    by (rule tri_bnd [OF one]) (use Cons in \<open>auto simp: rest_def\<close>)
qed

lemma updateProfiles_ok: "tri (withApp appID) (updateProfiles env projectUUID app appID) (\<lambda>_. withApp appID)"
proof -
  have found: "tri (withApp appID) (orDBError (query (\<lambda>d. Inr (profilesOf appID d))))
      (\<lambda>ps d. distinct (map pdb_ID ps) \<and> withProfiles appID (pdb_ID ` set ps) d)"
    by (rule tri_found)
      (auto simp: withApp_def withProfiles_def profilesOf_def hasProfile_def db_ok_iff keys_ok_def keyed_def
        distinct_map_filter)
  have rep: "tri (\<lambda>d. distinct (map pdb_ID ps) \<and> withProfiles appID (pdb_ID ` set ps) d)
      (replaceProfiles projectUUID given ps) (\<lambda>_. withApp appID)" for given ps
    using replaceProfiles_ok [of ps appID projectUUID given] by (auto simp: tri_def)
  show ?thesis
    unfolding updateProfiles_def
    by (intro tri_bnd_same [OF tri_liftE] tri_bnd [OF found] tri_bnd [OF rep] createProfiles_ok)
qed

lemma updateIgnoredResources_ok: "tri (withApp appID) (updateIgnoredResources app appID) (\<lambda>_. withApp appID)"
  unfolding updateIgnoredResources_def
  by (intro tri_bnd_same [OF tri_done] createIgnoredResources_ok)
    (auto simp: withApp_def dest!: deleteIgnoredResourceRows_ok)

lemma setApplication_ok:
  assumes "updateApplicationRows (applicationIn projectUUID (a_Name app) (a_Version app))
      (setApplication dn app changes) n d = (Inr v, d')"
    and "withApp appID d" and "registriesFit projectUUID (ch_helmRegistry changes) (ch_imageRegistry changes) d"
  shows "withApp appID d'"
proof -
  have "db_ok d'"
    using assms(2,3) by (intro updateApplicationRows_ok [OF assms(1)])
      (auto simp: withApp_def setApplication_def applicationKey_def applicationIn_def registriesFit_def
        db_ok_iff profiles_ok_def split: if_splits)
  moreover have "hasApplication d' = hasApplication d"
    by (rule updateApplicationRows_has(1) [OF assms(1)]) (simp add: setApplication_def)
  ultimately show ?thesis using assms(2) by (simp add: withApp_def)
qed

lemma applyApplicationChanges_ok:
  "tri (\<lambda>d. withApp appID d \<and> registriesFit projectUUID (ch_helmRegistry changes) (ch_imageRegistry changes) d)
     (applyApplicationChanges env projectUUID dn app appID changes) (\<lambda>_. db_ok)"
proof -
  have upd: "tri (\<lambda>d. withApp appID d \<and> registriesFit projectUUID (ch_helmRegistry changes) (ch_imageRegistry changes) d)
      (orDBError (mutate (updateApplicationRows (applicationIn projectUUID (a_Name app) (a_Version app))
            (setApplication dn app changes)))) (\<lambda>_. withApp appID)"
    by (rule tri_done) (auto intro: setApplication_ok)
  have app: "tri (withApp appID) (appendApplication UpdatedEvent projectUUID app) (\<lambda>_. db_ok)"
    by (rule tri_weaken [OF tri_appendApplication [of "withApp appID"]]) (auto simp: withApp_def)
  show ?thesis
    unfolding applyApplicationChanges_def
    by (intro tri_bnd_same [OF tri_checkApplicationUniqueness] tri_bnd [OF upd] tri_if tri_throw
        tri_bnd [where R = "\<lambda>_. withApp appID"] updateProfiles_ok createProfiles_ok updateDefaultProfile_ok
        updateIgnoredResources_ok app tri_ret)
qed

lemma updateApplicationKind_ok: "tri db_ok (updateApplicationKind projectUUID app) (\<lambda>_. db_ok)"
  unfolding updateApplicationKind_def
proof (intro tri_bnd_same [OF tri_done] tri_if tri_throw tri_ret)
  fix n d v d'
  assume d: "db_ok d" and u: "updateApplicationRows (applicationIn projectUUID (a_Name app) (a_Version app))
    (\<lambda>a. a\<lparr>adb_Kind := Some (kindToDB (a_Kind app))\<rparr>) n d = (Inr v, d')"
  show "db_ok d'"
    using d by (intro updateApplicationRows_ok [OF u])
      (auto simp: applicationKey_def db_ok_iff names_ok_def registries_ok_def profiles_ok_def)
qed simp

lemma updateApplication_ok: "tri db_ok (updateApplication env projectUUID app) (\<lambda>_. db_ok)"
proof -
  have compute: "tri (\<lambda>d. db_ok d \<and> a \<in> set (t_applications d)) (computeApplicationChanges projectUUID app' a)
      (\<lambda>c d. withApp (adb_ID a) d \<and> registriesFit projectUUID (ch_helmRegistry c) (ch_imageRegistry c) d)" for a app'
    by (rule tri_weaken [OF computeApplicationChanges_found [of "\<lambda>d. db_ok d \<and> a \<in> set (t_applications d)"]])
      (auto simp: withApp_def hasApplication_def)
  have kind: "tri (\<lambda>d. withApp i d \<and> registriesFit projectUUID (ch_helmRegistry c) (ch_imageRegistry c) d)
      (updateApplicationKind projectUUID app') (\<lambda>_. db_ok)" for i c app'
    by (rule tri_weaken [OF updateApplicationKind_ok]) (auto simp: withApp_def)
  have change: "tri (\<lambda>d. db_ok d \<and> a \<in> set (t_applications d))
      (bnd (computeApplicationChanges projectUUID app' a) (\<lambda>changes.
         if changedKind changes \<and> \<not> changed changes then updateApplicationKind projectUUID app'
         else bnd (if changedKind changes \<or> changed changes
                then checkApplicationNotInDeployedPackages projectUUID (a_Name app') (a_Version app')
                else ret ()) (\<lambda>_. applyApplicationChanges env projectUUID dn app' (adb_ID a) changes))) (\<lambda>_. db_ok)"
    for a app' dn
    by (intro tri_bnd [OF compute] tri_if kind tri_bnd_same applyApplicationChanges_ok
        tri_checkApplicationNotInDeployedPackages tri_ret)
  show ?thesis
    unfolding updateApplication_def Let_def
    by (intro tri_if tri_throw tri_case_prod tri_bnd [OF getApplication_found] tri_case_option
        tri_weaken [OF change]) auto
qed

lemma deleteApplicationBody_ok: "tri db_ok (deleteApplicationBody projectUUID n v) (\<lambda>_. db_ok)"
  unfolding deleteApplicationBody_def
  by (intro tri_intro tri_bnd_same tri_found_raw tri_done) (auto dest: deleteApplicationRows_ok)

subsection \<open>Extraction reads only\<close>

lemma tri_extractDeploymentRequirement [tri_intro]: "tri P (extractDeploymentRequirement q) (\<lambda>_. P)"
  unfolding extractDeploymentRequirement_def Let_def by (intro tri_intro tri_bnd_same tri_found tri_query_same)

lemma tri_extractProfile [tri_intro]: "tri P (extractProfile p) (\<lambda>_. P)"
  unfolding extractProfile_def extractDeploymentRequirements_def extractParameterTemplates_def
  by (intro tri_intro tri_bnd_same tri_found tri_mapM)

lemma tri_applicationExtract [tri_intro]: "tri P (applicationExtract a) (\<lambda>_. P)"
  unfolding applicationExtract_def by (intro tri_intro tri_bnd_same tri_found tri_mapM tri_query_same)

lemma tri_applicationsExtract [tri_intro]: "tri P (applicationsExtract as pageSize off) (\<lambda>_. P)"
  unfolding applicationsExtract_def by (intro tri_intro tri_bnd_same tri_mapM)

lemma tri_getApplications [tri_intro]: "tri P (getApplications env projectUUID kinds obs fs pageSize off) (\<lambda>_. P)"
  unfolding getApplications_def Let_def by (intro tri_intro tri_bnd_same tri_found)

lemma tri_applicationVersions [tri_intro]: "tri P (applicationVersions projectUUID n) (\<lambda>_. P)"
  unfolding applicationVersions_def by (intro tri_intro tri_bnd_same tri_found)

lemma tri_findApplication [tri_intro]: "tri P (findApplication projectUUID n v) (\<lambda>_. P)"
  unfolding findApplication_def by (intro tri_intro tri_bnd_same tri_query_same)

lemma tri_referenceCount [tri_intro]: "tri P (referenceCount projectUUID n v) (\<lambda>_. P)"
  unfolding referenceCount_def by (intro tri_intro tri_bnd_same tri_found)

section \<open>The handlers meet the contract\<close>

lemma sendApplication_simps [simp]:
  "sv_db (sendApplication t srv) = sv_db srv" "sv_open (sendApplication t srv) = sv_open srv"
  "sv_listeners (sendApplication t srv) = sv_listeners srv" "sv_vault (sendApplication t srv) = sv_vault srv"
  "sv_regOut (sendApplication t srv) = sv_regOut srv" "sv_artOut (sendApplication t srv) = sv_artOut srv"
  "sv_pkgOut (sendApplication t srv) = sv_pkgOut srv"
  by (simp_all add: sendApplication_def)

definition admitsCreateApplication :: "env \<Rightarrow> metadata option \<Rightarrow> Application option \<Rightarrow> string \<times> Application \<Rightarrow> bool" where
  "admitsCreateApplication env ctx application x \<longleftrightarrow>
     GetActiveProjectID ctx = Inr (fst x) \<and> application = Some (snd x) \<and> Application_Validate (snd x) = None \<and>
     authCheckAllowed env ctx (CreateApplicationRequest application) [] = Inr ()"

interpretation create_application: transaction_handler CreateApplication admitsCreateApplication fst
  "\<lambda>application. (CreateApplicationRequest application, [])" "\<lambda>env x. createApplication (fst x) (snd x)"
  "\<lambda>env x. createdApplication (snd x)" "\<lambda>x. sendApplication"
proof (unfold_locales, goal_cases)
  case (1 env ctx req srv out)
  then show ?case
    by (auto simp: CreateApplication_def admitsCreateApplication_def
        intro!: withTransaction_runs split: sum.splits option.splits)
qed (auto simp: admitsCreateApplication_def intro: createApplication_ok)

definition admitsUpdateApplication ::
    "env \<Rightarrow> metadata option \<Rightarrow> string \<times> string \<times> Application option \<Rightarrow> string \<times> Application \<Rightarrow> bool" where
  "admitsUpdateApplication env ctx req x \<longleftrightarrow>
     GetActiveProjectID ctx = Inr (fst x) \<and> req = (a_Name (snd x), a_Version (snd x), Some (snd x)) \<and>
     Application_Validate (snd x) = None \<and>
     authCheckAllowed env ctx (UpdateApplicationRequest (a_Name (snd x)) (a_Version (snd x)) (Some (snd x))) [] = Inr ()"

interpretation update_application: transaction_handler
  "\<lambda>env ctx (name, version, application). UpdateApplication env ctx name version application"
  admitsUpdateApplication fst "\<lambda>(name, version, application). (UpdateApplicationRequest name version application, [])"
  "\<lambda>env x. updateApplication env (fst x) (snd x)" "\<lambda>env x v. v" "\<lambda>x. sendApplication"
proof (unfold_locales, goal_cases)
  case (1 env ctx req srv out)
  obtain name version application where "req = (name, version, application)" by (cases req)
  with 1 show ?case
    by (auto simp: UpdateApplication_def admitsUpdateApplication_def
        intro!: withTransaction_runs split: sum.splits option.splits if_splits)
qed (auto simp: admitsUpdateApplication_def intro: updateApplication_ok)

definition listApplicationsBody ::
    "env \<Rightarrow> string \<times> ListApplicationsRequest \<Rightarrow> (Application list \<times> string list \<times> int32) txm" where
  "listApplicationsBody env x = (case x of (projectUUID, r) \<Rightarrow>
     bnd (liftE (parseOrderBy (lap_OrderBy r) ApplicationType)) (\<lambda>orderBys.
     bnd (liftE (parseFilter (lap_Filter r) ApplicationType)) (\<lambda>filters.
     getApplications env projectUUID (lap_Kinds r) orderBys filters (lap_PageSize r) (lap_Offset r))))"

definition admitsListApplications ::
    "env \<Rightarrow> metadata option \<Rightarrow> ListApplicationsRequest option \<Rightarrow> string \<times> ListApplicationsRequest \<Rightarrow> bool" where
  "admitsListApplications env ctx req x \<longleftrightarrow>
     GetActiveProjectID ctx = Inr (fst x) \<and> req = Some (snd x) \<and>
     authCheckAllowed env ctx (ListApplicationsReq (snd x)) [] = Inr ()"

lemma tri_listApplicationsBody: "tri P (listApplicationsBody env x) (\<lambda>_. P)"
  unfolding listApplicationsBody_def by (intro tri_intro tri_bnd_same)

interpretation list_applications: reading_handler ListApplications admitsListApplications fst
  "\<lambda>req. case req of Some r \<Rightarrow> (ListApplicationsReq r, []) | None \<Rightarrow> (GetApplicationVersionsRequest [], [])"
  listApplicationsBody "\<lambda>env x (applications, _, n). (applications, n)" "\<lambda>x t srv. srv"
proof (unfold_locales, goal_cases)
  case (1 env ctx req srv out)
  then show ?case
    by (auto simp: ListApplications_def admitsListApplications_def listApplicationsBody_def listing_response
        intro!: withTransaction_runs split: sum.splits option.splits)
qed (auto simp: admitsListApplications_def intro: tri_listApplicationsBody)

definition admitsApplicationVersions :: "env \<Rightarrow> metadata option \<Rightarrow> string \<Rightarrow> string \<times> string \<Rightarrow> bool" where
  "admitsApplicationVersions env ctx name x \<longleftrightarrow>
     GetActiveProjectID ctx = Inr (fst x) \<and> name = snd x \<and> name \<noteq> [] \<and>
     authCheckAllowed env ctx (GetApplicationVersionsRequest name) [] = Inr ()"

interpretation application_versions: reading_handler GetApplicationVersions admitsApplicationVersions fst
  "\<lambda>name. (GetApplicationVersionsRequest name, [])" "\<lambda>env x. applicationVersions (fst x) (snd x)"
  "\<lambda>env x v. v" "\<lambda>x t srv. srv"
proof (unfold_locales, goal_cases)
  case (1 env ctx name srv out)
  then show ?case
    by (auto simp: GetApplicationVersions_def admitsApplicationVersions_def
        intro!: withTransaction_runs split: sum.splits if_splits)
qed (auto simp: admitsApplicationVersions_def intro: tri_applicationVersions)

definition admitsApplication ::
    "(string \<Rightarrow> string \<Rightarrow> Request) \<Rightarrow> env \<Rightarrow> metadata option \<Rightarrow> string \<times> string \<Rightarrow> string \<times> string \<times> string \<Rightarrow> bool" where
  "admitsApplication request env ctx req x \<longleftrightarrow>
     GetActiveProjectID ctx = Inr (fst x) \<and> req = snd x \<and> fst req \<noteq> [] \<and> snd req \<noteq> [] \<and>
     authCheckAllowed env ctx (request (fst req) (snd req)) [] = Inr ()"

interpretation get_application: reading_handler
  "\<lambda>env ctx (name, version). GetApplication env ctx name version" "admitsApplication GetApplicationRequest" fst
  "\<lambda>(name, version). (GetApplicationRequest name version, [])"
  "\<lambda>env (projectUUID, name, version). findApplication projectUUID name version" "\<lambda>env x v. v" "\<lambda>x t srv. srv"
proof (unfold_locales, goal_cases)
  case (1 env ctx req srv out)
  obtain name version where "req = (name, version)" by (cases req)
  with 1 show ?case
    by (auto simp: GetApplication_def admitsApplication_def
        intro!: withTransaction_runs split: sum.splits if_splits)
qed (auto simp: admitsApplication_def intro: tri_findApplication)

interpretation application_reference_count: reading_handler
  "\<lambda>env ctx (name, version). GetApplicationReferenceCount env ctx name version"
  "admitsApplication GetApplicationReferenceCountRequest" fst
  "\<lambda>(name, version). (GetApplicationReferenceCountRequest name version, [])"
  "\<lambda>env (projectUUID, name, version). referenceCount projectUUID name version" "\<lambda>env x. of_nat" "\<lambda>x t srv. srv"
proof (unfold_locales, goal_cases)
  case (1 env ctx req srv out)
  obtain name version where "req = (name, version)" by (cases req)
  with 1 show ?case
    by (auto simp: GetApplicationReferenceCount_def admitsApplication_def
        intro!: withTransaction_runs split: sum.splits if_splits)
qed (auto simp: admitsApplication_def intro: tri_referenceCount)

definition deletedApplication :: "string \<times> string \<times> string \<Rightarrow> tx \<Rightarrow> server \<Rightarrow> server" where
  "deletedApplication x t srv =
     sendApplication (snd (appendApplication DeletedEvent (fst x) (emptyApplication (fst (snd x)) (snd (snd x))) t)) srv"

interpretation delete_application: transaction_handler
  "\<lambda>env ctx (name, version). DeleteApplication env ctx name version" "admitsApplication DeleteApplicationRequest" fst
  "\<lambda>(name, version). (DeleteApplicationRequest name version, [])"
  "\<lambda>env (projectUUID, name, version). deleteApplicationBody projectUUID name version" "\<lambda>env x v. v" deletedApplication
proof (unfold_locales, goal_cases)
  case (1 env ctx req srv out)
  obtain name version where req: "req = (name, version)" by (cases req)
  show ?case
  proof (cases "\<exists>p. admitsApplication DeleteApplicationRequest env ctx req (p, name, version)")
    case True
    then obtain p where p: "admitsApplication DeleteApplicationRequest env ctx req (p, name, version)" by blast
    have "runs env (deleteApplicationBody p name version) (\<lambda>v. v) (deletedApplication (p, name, version)) srv out"
      using 1 p by (auto simp: req DeleteApplication_def admitsApplication_def runs_def commits_def
        deletedApplication_def checkDeleteResult_def split: sum.splits prod.splits)
    with p show ?thesis by fastforce
  next
    case False
    with 1 show ?thesis
      by (auto simp: req DeleteApplication_def admitsApplication_def split: sum.splits if_splits)
  qed
qed (auto simp: admitsApplication_def deletedApplication_def intro: deleteApplicationBody_ok)

lemma getApplications_db:
  "getApplications env p ks obs fs n off t = (Inr v, t1) \<Longrightarrow> tx_db t1 = tx_db t"
  using triD [OF tri_getApplications [of "\<lambda>d. d = tx_db t"]] by blast

interpretation watch_applications: watch_handler WatchApplications addApplicationListener
proof (unfold_locales, goal_cases)
  case 1
  then show ?case
    unfolding WatchApplications_def listenApplication_def rollbackTransaction_def abandonTransaction_def
    by (auto dest!: getApplications_db transaction_dests split: watch_splits)
next
  case 2
  then show ?case
    unfolding WatchApplications_def listenApplication_def rollbackTransaction_def abandonTransaction_def
    by (auto dest!: transaction_dests split: watch_splits)
next
  case 3
  then show ?case
    unfolding WatchApplications_def listenApplication_def
    by (auto dest!: transaction_dests split: watch_splits)
qed

end
