(* ===== verification/Package_Invariant.thy ===== *)
theory Package_Invariant
  imports Catalog_Invariant
begin

text \<open>
  The mutations of deployment packages keep the tables well-formed. While a package is
  replaced its dependencies (\<open>dl\<close>) or default namespaces (\<open>nl\<close>) may lag behind the
  applications it refers to; \<open>replacing\<close> describes the tables then.
\<close>

section \<open>What the mutations of packages leave alone\<close>

definition sideTables :: "db \<Rightarrow> _" where
  "sideTables d = (t_registries d, t_artifacts d, t_applications d, t_profiles d, t_parameter_templates d,
     t_ignored_resources d)"

lemma sideTables_has:
  assumes "sideTables d' = sideTables d"
  shows "hasProfile d' = hasProfile d" "hasApplication d' = hasApplication d" "hasRegistry d' = hasRegistry d"
    "applicationOwners d' = applicationOwners d" "artifactOwners d' = artifactOwners d"
  using assms by (auto simp: sideTables_def has_defs fun_eq_iff applicationOwners_def artifactOwners_def)

lemma requirement_ok_alt:
  "requirement_ok d q \<longleftrightarrow> hasProfile d (drdb_profile_fk q) \<and> hasPackage d (drdb_deployment_package_fk q) \<and>
     (\<forall>i. drdb_deployment_profile_fk q = Some i \<longrightarrow> (i, drdb_deployment_package_fk q) \<in> deploymentProfiles d)"
  by (force simp: requirement_ok_def hasPackage_def deploymentProfiles_def)

lemma base_ok_frame:
  assumes d: "base_ok d" and side: "sideTables d' = sideTables d" and more: "t_next d \<le> t_next d'"
    and "\<And>i j. (i, j) \<in> set (t_deployment_profile_profiles d') \<Longrightarrow> hasProfile d j"
    and "\<And>q. q \<in> set (t_deployment_requirements d') \<Longrightarrow> requirement_ok d' q"
    and "\<And>q. q \<in> set (t_application_dependencies d') \<Longrightarrow>
      hasApplication d (adepdb_source_fk q) \<and> hasApplication d (adepdb_target_fk q)"
    and "\<And>q. q \<in> set (t_application_namespaces d') \<Longrightarrow> hasApplication d (ansdb_source_fk q)"
    and "packages_ok d'"
  shows "base_ok d'"
proof -
  note has = sideTables_has [OF side]
  have "keys_ok d'" "names_ok d'"
    using d side more by (auto simp: base_ok_def keys_ok_def names_ok_def sideTables_def intro: keyed_mono)
  moreover have "registries_ok d'" "templates_ok d'"
    using d side unfolding base_ok_def registries_ok_def templates_ok_def has by (auto simp: sideTables_def)
  moreover have "profiles_ok d'"
    using d side assms(4) unfolding base_ok_def profiles_ok_def has by (auto simp: sideTables_def)
  moreover have "uses_ok d'"
    using d side assms(5-7) unfolding base_ok_def uses_ok_def has by (auto simp: sideTables_def)
  ultimately show ?thesis using assms(8) by (simp add: base_ok_def)
qed

lemma requirements_grow:
  assumes "base_ok d" and "sideTables d' = sideTables d" and "t_deployment_requirements d' = t_deployment_requirements d"
    and "\<And>i. hasPackage d i \<Longrightarrow> hasPackage d' i" and "deploymentProfiles d \<subseteq> deploymentProfiles d'"
    and "q \<in> set (t_deployment_requirements d')"
  shows "requirement_ok d' q"
  using assms sideTables_has [OF assms(2)] by (auto simp: base_ok_def uses_ok_def requirement_ok_alt)

text \<open>What the rest of the tables may rely on.\<close>

lemma base_okD:
  assumes "base_ok d"
  shows "\<And>i j. (i, j) \<in> set (t_deployment_profile_profiles d) \<Longrightarrow> hasProfile d j"
    and "\<And>q. q \<in> set (t_application_dependencies d) \<Longrightarrow> hasApplication d (adepdb_source_fk q) \<and> hasApplication d (adepdb_target_fk q)"
    and "\<And>q. q \<in> set (t_application_namespaces d) \<Longrightarrow> hasApplication d (ansdb_source_fk q)"
    and "\<And>q. q \<in> set (t_deployment_requirements d) \<Longrightarrow> requirement_ok d q"
    and "packageKeys_ok d" and "packageOwned_ok d" and "links_ok d" and "packages_ok d"
  using assms by (auto simp: base_ok_def profiles_ok_def uses_ok_def packages_ok_def)

text \<open>A mutation of what packages own: the packages and their deployment profiles stay.\<close>

lemma base_ok_owned:
  assumes "base_ok d" and "sideTables d' = sideTables d" and "t_next d \<le> t_next d'"
    and "t_deployment_packages d' = t_deployment_packages d" and "t_deployment_profiles d' = t_deployment_profiles d"
    and "t_deployment_requirements d' = t_deployment_requirements d"
    and "t_deployment_profile_profiles d' = t_deployment_profile_profiles d"
    and "\<And>q. q \<in> set (t_application_dependencies d') \<Longrightarrow>
      hasApplication d (adepdb_source_fk q) \<and> hasApplication d (adepdb_target_fk q)"
    and "\<And>q. q \<in> set (t_application_namespaces d') \<Longrightarrow> hasApplication d (ansdb_source_fk q)"
    and "packages_ok d'"
  shows "base_ok d'"
proof (rule base_ok_frame [OF assms(1-3)])
  show "requirement_ok d' q" if "q \<in> set (t_deployment_requirements d')" for q
    by (rule requirements_grow [OF assms(1,2,6) _ _ that])
      (use assms(4,5) in \<open>auto simp: hasPackage_def deploymentProfiles_def\<close>)
qed (use assms base_okD(1) [OF assms(1)] in auto)

section \<open>Packages whose members lag\<close>

definition members_upto :: "bool \<Rightarrow> bool \<Rightarrow> nat \<Rightarrow> db \<Rightarrow> bool" where
  "members_upto dl nl k d \<longleftrightarrow>
     (\<forall>q \<in> set (t_application_dependencies d). dl \<and> adepdb_deployment_package_fk q = k \<or>
        (adepdb_deployment_package_fk q, adepdb_source_fk q) \<in> set (t_package_applications d) \<and>
        (adepdb_deployment_package_fk q, adepdb_target_fk q) \<in> set (t_package_applications d) \<and>
        adepdb_source_fk q \<noteq> adepdb_target_fk q) \<and>
     (\<forall>q \<in> set (t_application_namespaces d). nl \<and> ansdb_deployment_package_fk q = k \<or>
        (ansdb_deployment_package_fk q, ansdb_source_fk q) \<in> set (t_package_applications d))"

definition replacing :: "string \<Rightarrow> bool \<Rightarrow> bool \<Rightarrow> nat \<Rightarrow> db \<Rightarrow> bool" where
  "replacing u dl nl k d \<longleftrightarrow> base_ok d \<and> (k, u) \<in> packageOwners d \<and> members_upto dl nl k d"

text \<open>A package without dependencies and default namespaces, as right after its creation.\<close>

definition blank :: "nat \<Rightarrow> db \<Rightarrow> bool" where
  "blank k d \<longleftrightarrow> (\<forall>q \<in> set (t_application_dependencies d). adepdb_deployment_package_fk q \<noteq> k) \<and>
     (\<forall>q \<in> set (t_application_namespaces d). ansdb_deployment_package_fk q \<noteq> k)"

lemma members_upto_iff: "members_upto False False k d \<longleftrightarrow> members_ok d"
  by (simp add: members_upto_def members_ok_def)

lemma members_upto_blank: "blank k d \<Longrightarrow> members_upto dl nl k d \<longleftrightarrow> members_ok d"
  by (auto simp: blank_def members_upto_def members_ok_def)

lemma members_upto_weaken: "members_upto dl nl k d \<Longrightarrow> members_upto True True k d"
  by (auto simp: members_upto_def)

lemma replacing_db_ok: "replacing u False False k d \<longleftrightarrow> db_ok d \<and> (k, u) \<in> packageOwners d"
  by (auto simp: replacing_def members_upto_iff db_ok_def)

lemma replacing_blank: "replacing u dl nl k d \<Longrightarrow> blank k d \<Longrightarrow> replacing u False False k d"
  by (auto simp: replacing_def members_upto_blank members_upto_iff)

lemma replacing_hasPackage: "replacing u dl nl k d \<Longrightarrow> hasPackage d k"
  by (auto simp: replacing_def packageOwners_def hasPackage_def)

lemma members_upto_frame:
  "t_application_dependencies d' = t_application_dependencies d \<Longrightarrow>
   t_application_namespaces d' = t_application_namespaces d \<Longrightarrow>
   t_package_applications d' = t_package_applications d \<Longrightarrow> members_upto dl nl k d' = members_upto dl nl k d"
  by (simp add: members_upto_def)

section \<open>What packages own\<close>

text \<open>The tables of namespaces, extensions and artifact references.\<close>

abbreviation ownedMutation :: "db \<Rightarrow> db \<Rightarrow> bool" where
  "ownedMutation d d' \<equiv> sideTables d' = sideTables d \<and> t_next d \<le> t_next d' \<and>
     t_deployment_packages d' = t_deployment_packages d \<and> t_deployment_profiles d' = t_deployment_profiles d \<and>
     t_deployment_requirements d' = t_deployment_requirements d \<and>
     t_deployment_profile_profiles d' = t_deployment_profile_profiles d \<and>
     t_package_applications d' = t_package_applications d"

lemma replacing_owned:
  assumes "replacing u dl nl k d" and "ownedMutation d d'"
    and "t_application_dependencies d' = t_application_dependencies d"
    and "t_application_namespaces d' = t_application_namespaces d"
    and "packages_ok d'"
  shows "replacing u dl nl k d'"
proof -
  have d: "base_ok d" "(k, u) \<in> packageOwners d" "members_upto dl nl k d"
    using assms(1) by (auto simp: replacing_def)
  have "base_ok d'"
    by (rule base_ok_owned [OF d(1)]) (use assms base_okD [OF d(1)] in auto)
  moreover have "members_upto dl nl k d'"
    using d(3) assms(2-4) by (subst members_upto_frame [of d' d]) auto
  ultimately show ?thesis using d(2) assms(2) by (simp add: replacing_def packageOwners_def)
qed

lemma createNamespaceRow_ok:
  assumes "createNamespaceRow row now d = (Inr n, d')" and d: "replacing u dl nl k d"
    and "nsdb_deployment_package_fk row = k"
  shows "replacing u dl nl k d' \<and> nsdb_ID n \<in> nsdb_ID ` set (t_namespaces d')"
proof -
  have n: "n = row\<lparr>nsdb_ID := t_next d\<rparr>" and d': "d' = d\<lparr>t_namespaces := t_namespaces d @ [n], t_next := Suc (t_next d)\<rparr>"
    using assms(1) by (auto simp: createNamespaceRow_def Let_def)
  have b: "packageKeys_ok d" "packageOwned_ok d" "links_ok d" "hasPackage d k"
    using d base_okD [of d] replacing_hasPackage [OF d] by (auto simp: replacing_def)
  have "packageKeys_ok d'"
    using b(1) unfolding d' packageKeys_ok_def by (auto simp: n keyed_def less_Suc_eq)
  moreover have "packageOwned_ok d'"
    using b(2,4) assms(3) by (auto simp: d' n packageOwned_ok_def hasPackage_def deploymentProfiles_def)
  moreover have "links_ok d'"
    using b(3) by (simp add: d' links_ok_def packageOwners_def applicationOwners_def artifactOwners_def)
  ultimately have "replacing u dl nl k d'"
    by (intro replacing_owned [OF d]) (auto simp: d' sideTables_def packages_ok_def)
  then show ?thesis by (simp add: d')
qed

lemma createNamespaceAdornmentRow_ok:
  assumes "createNamespaceAdornmentRow row now d = (Inr n, d')" and d: "replacing u dl nl k d"
    and "nadb_namespace_fk row \<in> nsdb_ID ` set (t_namespaces d)"
  shows "replacing u dl nl k d' \<and> t_namespaces d' = t_namespaces d"
proof -
  have d': "d' = d\<lparr>t_namespace_adornments := t_namespace_adornments d @ [row]\<rparr>"
    using assms(1) by (auto simp: createNamespaceAdornmentRow_def)
  have b: "packages_ok d" using d base_okD [of d] by (simp add: replacing_def)
  have "packages_ok d'"
    using b assms(3) by (auto simp: d' package_ok_defs)
  then have "replacing u dl nl k d'"
    by (intro replacing_owned [OF d]) (auto simp: d' sideTables_def)
  then show ?thesis by (simp add: d')
qed

lemma deleteNamespaceRows_ok:
  assumes "deleteNamespaceRows P now d = (Inr n, d')" and d: "replacing u dl nl k d"
  shows "replacing u dl nl k d'"
proof -
  define gone where "gone = nsdb_ID ` set (List.filter P (t_namespaces d))"
  have d': "d' = d\<lparr>t_namespaces := List.filter (\<lambda>n. \<not> P n) (t_namespaces d),
      t_namespace_adornments := List.filter (\<lambda>a. nadb_namespace_fk a \<notin> gone) (t_namespace_adornments d)\<rparr>"
    using assms(1) by (auto simp: deleteNamespaceRows_def Let_def gone_def)
  have b: "packageKeys_ok d" "packageOwned_ok d" "links_ok d" using d base_okD [of d] by (auto simp: replacing_def)
  have "packageKeys_ok d'"
    using b(1) by (auto simp: d' packageKeys_ok_def intro: keyed_filter)
  moreover have "packageOwned_ok d'"
    using b(2) by (fastforce simp: d' packageOwned_ok_def hasPackage_def deploymentProfiles_def gone_def)
  moreover have "links_ok d'"
    using b(3) by (simp add: d' links_ok_def packageOwners_def applicationOwners_def artifactOwners_def)
  ultimately show ?thesis
    by (intro replacing_owned [OF d]) (auto simp: d' sideTables_def packages_ok_def)
qed

lemma createExtensionRow_ok:
  assumes "createExtensionRow row now d = (Inr x, d')" and d: "replacing u dl nl k d"
    and "exdb_deployment_package_fk row = k"
  shows "replacing u dl nl k d' \<and> exdb_ID x \<in> exdb_ID ` set (t_extensions d')"
proof -
  have x: "x = row\<lparr>exdb_ID := t_next d\<rparr>" and d': "d' = d\<lparr>t_extensions := t_extensions d @ [x], t_next := Suc (t_next d)\<rparr>"
    and new: "extensionKey row \<notin> extensionKey ` set (t_extensions d)"
    using assms(1) by (auto simp: createExtensionRow_def Let_def list_ex_iff extensionKey_def split: if_splits)
  have b: "packageKeys_ok d" "packageOwned_ok d" "links_ok d" "hasPackage d k"
    using d base_okD [of d] replacing_hasPackage [OF d] by (auto simp: replacing_def)
  have "packageKeys_ok d'"
    using b(1) new unfolding d' x packageKeys_ok_def
    by (simp add: keyed_Suc keyed_append_new extensionKey_def)
  moreover have "packageOwned_ok d'"
    using b(2,4) assms(3) by (auto simp: d' x packageOwned_ok_def hasPackage_def deploymentProfiles_def)
  moreover have "links_ok d'"
    using b(3) by (simp add: d' links_ok_def packageOwners_def applicationOwners_def artifactOwners_def)
  ultimately have "replacing u dl nl k d'"
    by (intro replacing_owned [OF d]) (auto simp: d' sideTables_def packages_ok_def)
  then show ?thesis by (simp add: d')
qed

lemma createEndpointRow_ok:
  assumes "createEndpointRow row now d = (Inr n, d')" and d: "replacing u dl nl k d"
    and "epdb_extension_fk row \<in> exdb_ID ` set (t_extensions d)"
  shows "replacing u dl nl k d' \<and> t_extensions d' = t_extensions d"
proof -
  have d': "d' = d\<lparr>t_endpoints := t_endpoints d @ [row]\<rparr>" and new: "endpointKey row \<notin> endpointKey ` set (t_endpoints d)"
    using assms(1) by (auto simp: createEndpointRow_def list_ex_iff endpointKey_def split: if_splits)
  have b: "packages_ok d" using d base_okD [of d] by (simp add: replacing_def)
  have "packages_ok d'"
    using b new assms(3) by (auto simp: d' package_ok_defs)
  then have "replacing u dl nl k d'"
    by (intro replacing_owned [OF d]) (auto simp: d' sideTables_def)
  then show ?thesis by (simp add: d')
qed

lemma deleteExtensionRows_ok:
  assumes "deleteExtensionRows P now d = (Inr n, d')" and d: "replacing u dl nl k d"
  shows "replacing u dl nl k d'"
proof -
  define gone where "gone = exdb_ID ` set (List.filter P (t_extensions d))"
  have d': "d' = d\<lparr>t_extensions := List.filter (\<lambda>n. \<not> P n) (t_extensions d),
      t_endpoints := List.filter (\<lambda>a. epdb_extension_fk a \<notin> gone) (t_endpoints d)\<rparr>"
    using assms(1) by (auto simp: deleteExtensionRows_def Let_def gone_def)
  have b: "packageKeys_ok d" "packageOwned_ok d" "links_ok d" using d base_okD [of d] by (auto simp: replacing_def)
  have "packageKeys_ok d'"
    using b(1) by (auto simp: d' packageKeys_ok_def intro: keyed_filter distinct_map_filter)
  moreover have "packageOwned_ok d'"
    using b(2) by (fastforce simp: d' packageOwned_ok_def hasPackage_def deploymentProfiles_def gone_def)
  moreover have "links_ok d'"
    using b(3) by (simp add: d' links_ok_def packageOwners_def applicationOwners_def artifactOwners_def)
  ultimately show ?thesis
    by (intro replacing_owned [OF d]) (auto simp: d' sideTables_def packages_ok_def)
qed

lemma createArtifactReferenceRow_ok:
  assumes "createArtifactReferenceRow row now d = (Inr n, d')" and d: "replacing u dl nl k d"
    and "afdb_deployment_package_fk row = k" and "(afdb_artifact row, u) \<in> artifactOwners d"
  shows "replacing u dl nl k d'"
proof -
  have d': "d' = d\<lparr>t_artifact_references := t_artifact_references d @ [row]\<rparr>"
    using assms(1) by (auto simp: createArtifactReferenceRow_def)
  have b: "packageKeys_ok d" "packageOwned_ok d" "links_ok d" "(k, u) \<in> packageOwners d"
    using d base_okD [of d] by (auto simp: replacing_def)
  have "packageKeys_ok d'" "packageOwned_ok d'"
    using b(1,2) by (simp_all add: d' packageKeys_ok_def packageOwned_ok_def hasPackage_def deploymentProfiles_def)
  moreover have "links_ok d'"
    using b(3,4) assms(3,4) by (auto simp: d' links_ok_def packageOwners_def applicationOwners_def artifactOwners_def)
  ultimately show ?thesis
    by (intro replacing_owned [OF d]) (auto simp: d' sideTables_def packages_ok_def)
qed

lemma deleteArtifactReferenceRows_ok:
  assumes "deleteArtifactReferenceRows P now d = (Inr n, d')" and d: "replacing u dl nl k d"
  shows "replacing u dl nl k d'"
proof -
  have d': "d' = d\<lparr>t_artifact_references := List.filter (\<lambda>f. \<not> P f) (t_artifact_references d)\<rparr>"
    using assms(1) by (auto simp: deleteArtifactReferenceRows_def)
  have b: "packages_ok d" using d base_okD [of d] by (simp add: replacing_def)
  have "packages_ok d'"
    using b by (simp add: d' package_ok_defs)
  then show ?thesis
    by (intro replacing_owned [OF d]) (auto simp: d' sideTables_def)
qed

section \<open>Applications, dependencies and default namespaces\<close>

lemma set_addLinks: "set (addLinks k ids links) = set links \<union> {k} \<times> set ids"
proof (induction ids arbitrary: links)
  case Nil
  then show ?case by (simp add: addLinks_def)
next
  case (Cons i ids)
  have "addLinks k (i # ids) links = addLinks k ids (if (k, i) \<in> set links then links else links @ [(k, i)])"
    by (simp add: addLinks_def)
  with Cons.IH show ?case by auto
qed

lemma distinct_addLinks: "distinct links \<Longrightarrow> distinct (addLinks k ids links)"
  unfolding addLinks_def by (induction ids arbitrary: links) auto

lemma setPackageApplications_ok:
  assumes "setPackageApplications k ids now d = (Inr w, d')" and d: "replacing u dl nl k d"
    and ids: "\<And>i. i \<in> set ids \<Longrightarrow> (i, u) \<in> applicationOwners d"
  shows "replacing u True True k d' \<and> t_application_dependencies d' = t_application_dependencies d \<and>
     t_application_namespaces d' = t_application_namespaces d"
proof -
  define g where "g r = (if kdb_ID r = k then r\<lparr>kdb_UpdateTime := now\<rparr> else r)" for r :: DeploymentPackageDB
  define links where "links = addLinks k ids (List.filter (\<lambda>l. fst l \<noteq> k) (t_package_applications d))"
  have d': "d' = d\<lparr>t_deployment_packages := map g (t_deployment_packages d), t_package_applications := links\<rparr>"
    using assms(1) by (auto simp: setPackageApplications_def g_def links_def split: if_splits)
  have g: "kdb_ID (g r) = kdb_ID r" "packageKey (g r) = packageKey r" "kdb_ProjectUUID (g r) = kdb_ProjectUUID r"
    "kdb_DisplayName (g r) = kdb_DisplayName r" "kdb_DisplayNameLc (g r) = kdb_DisplayNameLc r"
    "kdb_default_profile (g r) = kdb_default_profile r" for r
    by (auto simp: g_def packageKey_def)
  have links: "set links = {l \<in> set (t_package_applications d). fst l \<noteq> k} \<union> {k} \<times> set ids"
    by (auto simp: links_def set_addLinks)
  have own: "packageOwners d' = packageOwners d" "hasPackage d' = hasPackage d"
    "deploymentProfiles d' = deploymentProfiles d"
    by (auto simp: d' packageOwners_def hasPackage_def deploymentProfiles_def image_image g fun_eq_iff)
  have b: "base_ok d" "(k, u) \<in> packageOwners d" "members_upto dl nl k d"
    using d by (auto simp: replacing_def)
  note bd = base_okD [OF b(1)]
  have "packageKeys_ok d'"
    using bd(5) g unfolding packageKeys_ok_def d' links_def
    by (auto intro!: keyed_map distinct_addLinks distinct_filter)
  moreover have "packageOwned_ok d'"
    using bd(6) unfolding packageOwned_ok_def own by (auto simp: d' g)
  moreover have "links_ok d'"
    unfolding links_ok_def own
  proof (intro conjI allI impI ballI)
    fix j i assume "(j, i) \<in> set (t_package_applications d')"
    then consider "(j, i) \<in> set (t_package_applications d)" | "j = k" "i \<in> set ids" by (auto simp: d' links)
    then show "\<exists>u. (j, u) \<in> packageOwners d \<and> (i, u) \<in> applicationOwners d'"
      using b(2) ids bd(7) by cases (auto simp: d' applicationOwners_def elim!: links_ok_application)
  next
    fix f assume "f \<in> set (t_artifact_references d')"
    then show "\<exists>u. (afdb_deployment_package_fk f, u) \<in> packageOwners d \<and> (afdb_artifact f, u) \<in> artifactOwners d'"
      using bd(7) by (auto simp: d' artifactOwners_def elim!: links_ok_artifact)
  qed
  ultimately have "base_ok d'"
    by (intro base_ok_frame [OF b(1)]) (use bd own in \<open>auto simp: d' sideTables_def packages_ok_def
        intro!: requirements_grow [OF b(1)]\<close>)
  moreover have "members_upto True True k d'"
    using b(3) by (auto simp: members_upto_def d' links)
  ultimately show ?thesis using b(2) own by (simp add: replacing_def d')
qed

lemma replacing_members:
  assumes "replacing u dl nl k d" and "ownedMutation d d'"
    and deps: "\<And>q. q \<in> set (t_application_dependencies d') \<Longrightarrow> q \<in> set (t_application_dependencies d) \<and>
        (dl' \<or> \<not> dl \<or> adepdb_deployment_package_fk q \<noteq> k) \<or>
      adepdb_deployment_package_fk q = k \<and> (k, adepdb_source_fk q) \<in> set (t_package_applications d) \<and>
      (k, adepdb_target_fk q) \<in> set (t_package_applications d) \<and> adepdb_source_fk q \<noteq> adepdb_target_fk q"
    and nss: "\<And>q. q \<in> set (t_application_namespaces d') \<Longrightarrow> q \<in> set (t_application_namespaces d) \<and>
        (nl' \<or> \<not> nl \<or> ansdb_deployment_package_fk q \<noteq> k) \<or>
      ansdb_deployment_package_fk q = k \<and> (k, ansdb_source_fk q) \<in> set (t_package_applications d)"
    and rest: "t_namespaces d' = t_namespaces d" "t_namespace_adornments d' = t_namespace_adornments d"
      "t_extensions d' = t_extensions d" "t_endpoints d' = t_endpoints d" "t_next d' = t_next d"
      "t_artifact_references d' = t_artifact_references d"
  shows "replacing u dl' nl' k d'"
proof -
  have b: "base_ok d" "(k, u) \<in> packageOwners d" "members_upto dl nl k d"
    using assms(1) by (auto simp: replacing_def)
  note bd = base_okD [OF b(1)]
  have app: "hasApplication d i" if "(k, i) \<in> set (t_package_applications d)" for i
    using bd(7) that by (rule links_ok_application) (auto simp: applicationOwners_def hasApplication_def)
  have dep_app: "hasApplication d (adepdb_source_fk q) \<and> hasApplication d (adepdb_target_fk q)"
    if "q \<in> set (t_application_dependencies d')" for q
    using deps [OF that] bd(2) [of q] app by auto
  have ns_app: "hasApplication d (ansdb_source_fk q)" if "q \<in> set (t_application_namespaces d')" for q
    using nss [OF that] bd(3) [of q] app by auto
  have pk: "hasPackage d k" using assms(1) by (rule replacing_hasPackage)
  have dep_pk: "hasPackage d (adepdb_deployment_package_fk q)" if "q \<in> set (t_application_dependencies d')" for q
    using deps [OF that] bd(6) pk by (auto simp: packageOwned_ok_def)
  have ns_pk: "hasPackage d (ansdb_deployment_package_fk q)" if "q \<in> set (t_application_namespaces d')" for q
    using nss [OF that] bd(6) pk by (auto simp: packageOwned_ok_def)
  have own: "packageOwners d' = packageOwners d" "hasPackage d' = hasPackage d"
    "deploymentProfiles d' = deploymentProfiles d" "applicationOwners d' = applicationOwners d" "artifactOwners d' = artifactOwners d"
    using assms(2) sideTables_has(4,5) [of d' d]
    by (auto simp: packageOwners_def hasPackage_def deploymentProfiles_def fun_eq_iff)
  have "packageKeys_ok d'"
    using bd(5) assms(2) rest by (simp add: packageKeys_ok_def)
  moreover have "packageOwned_ok d'"
    using bd(6) assms(2) rest dep_pk ns_pk unfolding packageOwned_ok_def own by simp
  moreover have "links_ok d'"
    using bd(7) assms(2) rest unfolding links_ok_def own by auto
  ultimately have "base_ok d'"
    by (intro base_ok_owned [OF b(1)]) (use assms(2) dep_app ns_app in \<open>auto simp: packages_ok_def\<close>)
  moreover have "members_upto dl' nl' k d'"
    unfolding members_upto_def
  proof (intro conjI ballI)
    fix q assume q: "q \<in> set (t_application_dependencies d')"
    show "dl' \<and> adepdb_deployment_package_fk q = k \<or>
        (adepdb_deployment_package_fk q, adepdb_source_fk q) \<in> set (t_package_applications d') \<and>
        (adepdb_deployment_package_fk q, adepdb_target_fk q) \<in> set (t_package_applications d') \<and>
        adepdb_source_fk q \<noteq> adepdb_target_fk q"
      using deps [OF q] b(3) assms(2) by (auto simp: members_upto_def)
  next
    fix q assume q: "q \<in> set (t_application_namespaces d')"
    show "nl' \<and> ansdb_deployment_package_fk q = k \<or>
        (ansdb_deployment_package_fk q, ansdb_source_fk q) \<in> set (t_package_applications d')"
      using nss [OF q] b(3) assms(2) by (auto simp: members_upto_def)
  qed
  ultimately show ?thesis using b(2) own by (simp add: replacing_def)
qed

lemma createApplicationDependencyRow_ok:
  assumes "createApplicationDependencyRow row now d = (Inr n, d')" and d: "replacing u dl nl k d"
    and "adepdb_deployment_package_fk row = k" and "(k, adepdb_source_fk row) \<in> set (t_package_applications d)"
    and "(k, adepdb_target_fk row) \<in> set (t_package_applications d)" and "adepdb_source_fk row \<noteq> adepdb_target_fk row"
  shows "replacing u dl nl k d' \<and> t_package_applications d' = t_package_applications d \<and>
    t_applications d' = t_applications d \<and> t_application_namespaces d' = t_application_namespaces d"
proof -
  have d': "d' = d\<lparr>t_application_dependencies := t_application_dependencies d @ [row]\<rparr>"
    using assms(1) by (auto simp: createApplicationDependencyRow_def)
  have "replacing u dl nl k d'"
    by (rule replacing_members [OF d]) (use assms(3-) in \<open>auto simp: d' sideTables_def\<close>)
  then show ?thesis by (simp add: d')
qed

lemma deleteApplicationDependencyRows_ok:
  assumes "deleteApplicationDependencyRows (\<lambda>q. adepdb_deployment_package_fk q = k) now d = (Inr n, d')"
    and d: "replacing u dl nl k d"
  shows "replacing u False nl k d'"
proof -
  have d': "d' = d\<lparr>t_application_dependencies := List.filter (\<lambda>q. adepdb_deployment_package_fk q \<noteq> k) (t_application_dependencies d)\<rparr>"
    using assms(1) by (auto simp: deleteApplicationDependencyRows_def)
  show ?thesis
    by (rule replacing_members [OF d]) (auto simp: d' sideTables_def)
qed

lemma createApplicationNamespaceRow_ok:
  assumes "createApplicationNamespaceRow row now d = (Inr n, d')" and d: "replacing u dl nl k d"
    and "ansdb_deployment_package_fk row = k" and "(k, ansdb_source_fk row) \<in> set (t_package_applications d)"
  shows "replacing u dl nl k d' \<and> t_package_applications d' = t_package_applications d \<and>
    t_applications d' = t_applications d"
proof -
  have d': "d' = d\<lparr>t_application_namespaces := t_application_namespaces d @ [row]\<rparr>"
    using assms(1) by (auto simp: createApplicationNamespaceRow_def)
  have "replacing u dl nl k d'"
    by (rule replacing_members [OF d]) (use assms(3-) in \<open>auto simp: d' sideTables_def\<close>)
  then show ?thesis by (simp add: d')
qed

lemma deleteApplicationNamespaceRows_ok:
  assumes "deleteApplicationNamespaceRows (\<lambda>q. ansdb_deployment_package_fk q = k) now d = (Inr n, d')"
    and d: "replacing u dl nl k d"
  shows "replacing u dl False k d'"
proof -
  have d': "d' = d\<lparr>t_application_namespaces := List.filter (\<lambda>q. ansdb_deployment_package_fk q \<noteq> k) (t_application_namespaces d)\<rparr>"
    using assms(1) by (auto simp: deleteApplicationNamespaceRows_def)
  show ?thesis
    by (rule replacing_members [OF d]) (auto simp: d' sideTables_def)
qed

section \<open>Packages and their deployment profiles\<close>

lemma links_ok_grow:
  assumes "links_ok d" and "packageOwners d \<subseteq> packageOwners d'" and "sideTables d' = sideTables d"
    and "t_package_applications d' = t_package_applications d" and "t_artifact_references d' = t_artifact_references d"
  shows "links_ok d'"
  unfolding links_ok_def sideTables_has(4,5) [OF assms(3)] assms(4,5)
  using assms(1,2) by (blast elim: links_ok_application links_ok_artifact)

lemma createDeploymentPackageRow_ok:
  assumes "createDeploymentPackageRow row now d = (Inr k, d')" and d: "db_ok d"
    and "kdb_DisplayNameLc row = ToLower (kdb_DisplayName row)" and "kdb_default_profile row = None"
  shows "replacing (kdb_ProjectUUID row) False False (kdb_ID k) d' \<and> blank (kdb_ID k) d'"
proof -
  have k: "k = row\<lparr>kdb_ID := t_next d, kdb_CreateTime := now, kdb_UpdateTime := now\<rparr>"
    and d': "d' = d\<lparr>t_deployment_packages := t_deployment_packages d @ [k], t_next := Suc (t_next d)\<rparr>"
    and new: "packageKey row \<notin> packageKey ` set (t_deployment_packages d)"
    using assms(1) by (auto simp: createDeploymentPackageRow_def Let_def list_ex_iff packageKey_def split: if_splits)
  have b: "base_ok d" using d by (simp add: db_ok_def)
  note bd = base_okD [OF b]
  have own: "packageOwners d' = insert (t_next d, kdb_ProjectUUID row) (packageOwners d)"
    "hasPackage d' = (\<lambda>i. i = t_next d \<or> hasPackage d i)" "deploymentProfiles d' = deploymentProfiles d"
    by (auto simp: d' k packageOwners_def hasPackage_def deploymentProfiles_def)
  have old: "i < t_next d" if "hasPackage d i" for i
    using bd(5) that by (auto simp: packageKeys_ok_def keyed_def hasPackage_def)
  have "packageKeys_ok d'"
    using bd(5) new assms(3) unfolding packageKeys_ok_def d' k
    by (simp add: keyed_Suc keyed_append_new packageKey_def)
  moreover have "packageOwned_ok d'"
    using bd(6) assms(4) unfolding packageOwned_ok_def own by (auto simp: d' k)
  moreover have "links_ok d'"
    using bd(7) by (rule links_ok_grow) (use own(1) in \<open>auto simp: d' sideTables_def\<close>)
  ultimately have "base_ok d'"
    by (intro base_ok_frame [OF b]) (use bd own in \<open>auto simp: d' sideTables_def packages_ok_def
        intro!: requirements_grow [OF b]\<close>)
  moreover have "blank (kdb_ID k) d'"
    using bd(6) old by (fastforce simp: blank_def d' k packageOwned_ok_def)
  moreover have "members_ok d'"
    using d by (simp add: db_ok_def members_ok_def d')
  ultimately show ?thesis by (simp add: replacing_db_ok db_ok_def own k)
qed

lemma updateDeploymentPackageRows_ok:
  assumes "updateDeploymentPackageRows P f now d = (Inr n, d')" and d: "replacing u dl nl k d"
    and keep: "\<And>r. r \<in> set (t_deployment_packages d) \<Longrightarrow> P r \<Longrightarrow>
      kdb_ID (f r) = kdb_ID r \<and> packageKey (f r) = packageKey r \<and>
      kdb_DisplayNameLc (f r) = ToLower (kdb_DisplayName (f r)) \<and>
      (\<forall>i. kdb_default_profile (f r) = Some i \<longrightarrow> (i, kdb_ID r) \<in> deploymentProfiles d)"
  shows "replacing u dl nl k d' \<and> deploymentProfiles d' = deploymentProfiles d"
proof -
  define g where "g r = (if P r then (f r)\<lparr>kdb_UpdateTime := now\<rparr> else r)" for r
  have d': "d' = d\<lparr>t_deployment_packages := map g (t_deployment_packages d)\<rparr>"
    using assms(1) by (auto simp: updateDeploymentPackageRows_def updateRows_def g_def)
  have b: "base_ok d" "(k, u) \<in> packageOwners d" "members_upto dl nl k d" using d by (auto simp: replacing_def)
  note bd = base_okD [OF b(1)]
  have g: "kdb_ID (g r) = kdb_ID r \<and> packageKey (g r) = packageKey r \<and> kdb_ProjectUUID (g r) = kdb_ProjectUUID r"
    if "r \<in> set (t_deployment_packages d)" for r
    using keep [OF that] by (auto simp: g_def packageKey_def)
  have dflt: "(i, kdb_ID r) \<in> deploymentProfiles d"
    if "r \<in> set (t_deployment_packages d)" "kdb_default_profile (g r) = Some i" for r i
    using keep [OF that(1)] that bd(6) by (auto simp: g_def packageOwned_ok_def split: if_splits)
  have lc: "kdb_DisplayNameLc (g r) = ToLower (kdb_DisplayName (g r))" if "r \<in> set (t_deployment_packages d)" for r
    using keep [OF that] that bd(5) by (auto simp: g_def packageKeys_ok_def)
  have own: "packageOwners d' = packageOwners d" "hasPackage d' = hasPackage d"
    "deploymentProfiles d' = deploymentProfiles d"
    using g by (force simp: d' packageOwners_def hasPackage_def deploymentProfiles_def image_image fun_eq_iff
        intro!: image_cong)+
  have "packageKeys_ok d'"
    using bd(5) g lc unfolding packageKeys_ok_def d' by (auto intro!: keyed_map)
  moreover have "packageOwned_ok d'"
    using bd(6) g dflt unfolding packageOwned_ok_def own by (auto simp: d')
  moreover have "links_ok d'"
    using bd(7) by (rule links_ok_grow) (use own(1) in \<open>auto simp: d' sideTables_def\<close>)
  ultimately have "base_ok d'"
    by (intro base_ok_frame [OF b(1)]) (use bd own in \<open>auto simp: d' sideTables_def packages_ok_def
        intro!: requirements_grow [OF b(1)]\<close>)
  moreover have "members_upto dl nl k d'"
    using b(3) by (simp add: d' members_upto_def)
  ultimately show ?thesis using b(2) own by (simp add: replacing_def)
qed

lemma createDeploymentProfileRow_ok:
  assumes "createDeploymentProfileRow row ids now d = (Inr p, d')" and d: "replacing u dl nl k d"
    and "dpdb_deployment_package_fk row = k" and "dpdb_DisplayNameLc row = ToLower (dpdb_DisplayName row)"
    and "\<And>i. i \<in> set ids \<Longrightarrow> hasProfile d i"
  shows "replacing u dl nl k d' \<and> deploymentProfiles d' = insert (dpdb_ID p, k) (deploymentProfiles d)"
proof -
  define links where "links = addLinks (t_next d) ids (t_deployment_profile_profiles d)"
  have p: "p = row\<lparr>dpdb_ID := t_next d, dpdb_CreateTime := now, dpdb_UpdateTime := now\<rparr>"
    and d': "d' = d\<lparr>t_deployment_profiles := t_deployment_profiles d @ [p], t_deployment_profile_profiles := links,
      t_next := Suc (t_next d)\<rparr>"
    and new: "deploymentProfileKey row \<notin> deploymentProfileKey ` set (t_deployment_profiles d)"
    using assms(1) by (auto simp: createDeploymentProfileRow_def Let_def list_ex_iff deploymentProfileKey_def links_def
        split: if_splits)
  have b: "base_ok d" "(k, u) \<in> packageOwners d" "members_upto dl nl k d" using d by (auto simp: replacing_def)
  have pk: "hasPackage d k" using d by (rule replacing_hasPackage)
  note bd = base_okD [OF b(1)]
  have own: "packageOwners d' = packageOwners d" "hasPackage d' = hasPackage d"
    "deploymentProfiles d' = insert (t_next d, k) (deploymentProfiles d)"
    by (auto simp: d' p assms(3) packageOwners_def hasPackage_def deploymentProfiles_def fun_eq_iff)
  have "packageKeys_ok d'"
    using bd(5) new assms(4) unfolding packageKeys_ok_def d' p links_def
    by (simp add: keyed_Suc keyed_append_new deploymentProfileKey_def distinct_addLinks)
  moreover have "packageOwned_ok d'"
    using bd(6) pk unfolding packageOwned_ok_def own by (auto simp: d' links_def set_addLinks)
  moreover have "links_ok d'"
    using bd(7) by (rule links_ok_grow) (use own(1) in \<open>auto simp: d' sideTables_def\<close>)
  ultimately have "base_ok d'"
    by (intro base_ok_frame [OF b(1)]) (use bd own assms(5) in \<open>auto simp: d' sideTables_def packages_ok_def links_def set_addLinks
        intro!: requirements_grow [OF b(1)]\<close>)
  moreover have "members_upto dl nl k d'"
    using b(3) by (simp add: d' members_upto_def)
  ultimately show ?thesis using b(2) own by (simp add: replacing_def p)
qed

lemma updateDeploymentProfileRow_ok:
  assumes "updateDeploymentProfileRow i f ids now d = (Inr n, d')" and d: "replacing u dl nl k d"
    and keep: "\<And>p. dpdb_ID (f p) = dpdb_ID p \<and> deploymentProfileKey (f p) = deploymentProfileKey p \<and>
      dpdb_DisplayNameLc (f p) = ToLower (dpdb_DisplayName (f p))"
    and "\<And>i. i \<in> set ids \<Longrightarrow> hasProfile d i"
  shows "replacing u dl nl k d' \<and> deploymentProfiles d' = deploymentProfiles d"
proof -
  define g where "g p = (if dpdb_ID p = i then (f p)\<lparr>dpdb_UpdateTime := now\<rparr> else p)" for p
  define links where "links = t_deployment_profile_profiles d'"
  have d': "d' = d\<lparr>t_deployment_profiles := map g (t_deployment_profiles d), t_deployment_profile_profiles := links\<rparr>"
    using assms(1) by (auto simp: updateDeploymentProfileRow_def updateRows_def g_def links_def)
  have links: "distinct (t_deployment_profile_profiles d) \<Longrightarrow> distinct links"
    "\<And>a b. (a, b) \<in> set links \<Longrightarrow> (a, b) \<in> set (t_deployment_profile_profiles d) \<or>
       b \<in> set ids \<and> a \<in> dpdb_ID ` set (t_deployment_profiles d)"
    using assms(1) unfolding links_def
    by (auto simp: updateDeploymentProfileRow_def updateRows_def set_addLinks filter_empty_conv split: if_splits
        intro: distinct_addLinks)
  have b: "base_ok d" "(k, u) \<in> packageOwners d" "members_upto dl nl k d" using d by (auto simp: replacing_def)
  note bd = base_okD [OF b(1)]
  have g: "dpdb_ID (g p) = dpdb_ID p" "deploymentProfileKey (g p) = deploymentProfileKey p"
    "dpdb_deployment_package_fk (g p) = dpdb_deployment_package_fk p" for p
    using keep [of p] by (auto simp: g_def deploymentProfileKey_def)
  have lc: "dpdb_DisplayNameLc (g p) = ToLower (dpdb_DisplayName (g p))" if "p \<in> set (t_deployment_profiles d)" for p
    using keep [of p] that bd(5) by (auto simp: g_def packageKeys_ok_def)
  have own: "packageOwners d' = packageOwners d" "hasPackage d' = hasPackage d"
    "deploymentProfiles d' = deploymentProfiles d"
    by (auto simp: d' g packageOwners_def hasPackage_def deploymentProfiles_def image_image fun_eq_iff)
  have fst: "fst ` deploymentProfiles d = dpdb_ID ` set (t_deployment_profiles d)"
    by (auto simp: deploymentProfiles_def image_image)
  have linked: "a \<in> dpdb_ID ` set (t_deployment_profiles d)" if "(a, b) \<in> set links" for a b
    using links(2) [OF that] bd(6) unfolding packageOwned_ok_def fst by blast
  have "packageKeys_ok d'"
    using bd(5) g lc links(1) unfolding packageKeys_ok_def d' by (auto intro!: keyed_map)
  moreover have "packageOwned_ok d'"
    using bd(6) linked unfolding packageOwned_ok_def own fst by (auto simp: d')
  moreover have "links_ok d'"
    using bd(7) by (rule links_ok_grow) (use own(1) in \<open>auto simp: d' sideTables_def\<close>)
  moreover have "hasProfile d b" if "(a, b) \<in> set links" for a b
    using links(2) [OF that] bd(1) assms(4) by auto
  ultimately have "base_ok d'"
    by (intro base_ok_frame [OF b(1)]) (use bd own in \<open>auto simp: d' sideTables_def packages_ok_def
        intro!: requirements_grow [OF b(1)]\<close>)
  moreover have "members_upto dl nl k d'"
    using b(3) by (simp add: d' members_upto_def)
  ultimately show ?thesis using b(2) own by (simp add: replacing_def)
qed

text \<open>Deleting deployment profiles clears the references to them.\<close>

lemma clearDefaultDeployment_simps [simp]:
  "kdb_ID (clearDefaultDeployment gone k) = kdb_ID k" "packageKey (clearDefaultDeployment gone k) = packageKey k"
  "kdb_ProjectUUID (clearDefaultDeployment gone k) = kdb_ProjectUUID k"
  "kdb_Name (clearDefaultDeployment gone k) = kdb_Name k" "kdb_Version (clearDefaultDeployment gone k) = kdb_Version k"
  "kdb_DisplayName (clearDefaultDeployment gone k) = kdb_DisplayName k"
  "kdb_DisplayNameLc (clearDefaultDeployment gone k) = kdb_DisplayNameLc k"
  "kdb_default_profile (clearDefaultDeployment gone k) = Some i \<longleftrightarrow> kdb_default_profile k = Some i \<and> i \<notin> set gone"
  by (auto simp: clearDefaultDeployment_def packageKey_def split: option.splits)

lemma clearRequirement_simps [simp]:
  "drdb_profile_fk (clearRequirement gone q) = drdb_profile_fk q"
  "drdb_deployment_package_fk (clearRequirement gone q) = drdb_deployment_package_fk q"
  "drdb_deployment_profile_fk (clearRequirement gone q) = Some i \<longleftrightarrow> drdb_deployment_profile_fk q = Some i \<and> i \<notin> set gone"
  by (auto simp: clearRequirement_def split: option.splits)

lemma dropDeploymentProfiles_ok:
  assumes "base_ok d" and d': "d' = dropDeploymentProfiles P d"
  shows "base_ok d'" and "packageOwners d' = packageOwners d" and "hasPackage d' = hasPackage d"
    and "deploymentProfiles d' = {(i, k). (i, k) \<in> deploymentProfiles d \<and> i \<notin> dpdb_ID ` set (List.filter P (t_deployment_profiles d))}"
proof -
  define gone where "gone = map dpdb_ID (List.filter P (t_deployment_profiles d))"
  note d'_eq = d' [unfolded dropDeploymentProfiles_def Let_def, folded gone_def]
  note bd = base_okD [OF assms(1)]
  have has: "hasProfile d' = hasProfile d" by (rule sideTables_has) (simp add: d'_eq sideTables_def)
  have P: "P p \<longleftrightarrow> dpdb_ID p \<in> set gone" if "p \<in> set (t_deployment_profiles d)" for p
    using bd(5) that by (auto simp: gone_def packageKeys_ok_def dest: keyed_ident_inj)
  have own: "packageOwners d' = packageOwners d" "hasPackage d' = hasPackage d"
    "deploymentProfiles d' = {(i, k). (i, k) \<in> deploymentProfiles d \<and> i \<notin> set gone}"
    using P by (auto simp: d'_eq packageOwners_def hasPackage_def deploymentProfiles_def image_image fun_eq_iff)
  have "packageKeys_ok d'"
    using bd(5) unfolding packageKeys_ok_def d'_eq by (auto intro!: keyed_map keyed_filter)
  moreover have "packageOwned_ok d'"
    using bd(6) unfolding packageOwned_ok_def own by (auto simp: d'_eq image_iff) (metis prod.collapse)
  moreover have "links_ok d'"
    using bd(7) by (rule links_ok_grow) (use own(1) in \<open>auto simp: d'_eq sideTables_def\<close>)
  moreover have "requirement_ok d' (clearRequirement gone q)" if "q \<in> set (t_deployment_requirements d)" for q
    using bd(4) [OF that] unfolding requirement_ok_alt own has by auto
  ultimately show "base_ok d'"
    by (intro base_ok_frame [OF assms(1)]) (use bd in \<open>auto simp: d'_eq sideTables_def packages_ok_def\<close>)
  show "packageOwners d' = packageOwners d" "hasPackage d' = hasPackage d"
    "deploymentProfiles d' = {(i, k). (i, k) \<in> deploymentProfiles d \<and> i \<notin> dpdb_ID ` set (List.filter P (t_deployment_profiles d))}"
    using own by (auto simp: gone_def)
qed

lemma deleteDeploymentProfileID_ok:
  assumes "deleteDeploymentProfileID i now d = (Inr w, d')" and d: "replacing u dl nl k d"
  shows "replacing u dl nl k d'"
proof -
  have d': "d' = dropDeploymentProfiles (\<lambda>p. dpdb_ID p = i) d"
    using assms(1) by (auto simp: deleteDeploymentProfileID_def split: if_splits)
  have "members_upto dl nl k d' = members_upto dl nl k d"
    by (rule members_upto_frame) (simp_all add: d' dropDeploymentProfiles_def Let_def)
  then show ?thesis
    using d dropDeploymentProfiles_ok [OF _ d'] by (auto simp: replacing_def)
qed

lemma dropPackages_ok:
  assumes "base_ok d" and "members_ok d"
    and free: "\<And>q. q \<in> set (t_deployment_requirements d) \<Longrightarrow> drdb_deployment_package_fk q \<notin> gone"
      "\<And>i k. (i, k) \<in> deploymentProfiles d \<Longrightarrow> k \<notin> gone"
    and goneN: "goneN = nsdb_ID ` {n \<in> set (t_namespaces d). nsdb_deployment_package_fk n \<in> gone}"
    and goneX: "goneX = exdb_ID ` {x \<in> set (t_extensions d). exdb_deployment_package_fk x \<in> gone}"
    and d': "d' = d\<lparr>t_deployment_packages := List.filter (\<lambda>k. kdb_ID k \<notin> gone) (t_deployment_packages d),
      t_package_applications := List.filter (\<lambda>l. fst l \<notin> gone) (t_package_applications d),
      t_artifact_references := List.filter (\<lambda>f. afdb_deployment_package_fk f \<notin> gone) (t_artifact_references d),
      t_application_dependencies := List.filter (\<lambda>q. adepdb_deployment_package_fk q \<notin> gone) (t_application_dependencies d),
      t_application_namespaces := List.filter (\<lambda>q. ansdb_deployment_package_fk q \<notin> gone) (t_application_namespaces d),
      t_namespaces := List.filter (\<lambda>n. nsdb_ID n \<notin> goneN) (t_namespaces d),
      t_namespace_adornments := List.filter (\<lambda>a. nadb_namespace_fk a \<notin> goneN) (t_namespace_adornments d),
      t_extensions := List.filter (\<lambda>x. exdb_ID x \<notin> goneX) (t_extensions d),
      t_endpoints := List.filter (\<lambda>e. epdb_extension_fk e \<notin> goneX) (t_endpoints d)\<rparr>"
  shows "db_ok d'"
proof -
  note bd = base_okD [OF assms(1)]
  have own: "packageOwners d' = {(k, u). (k, u) \<in> packageOwners d \<and> k \<notin> gone}"
    "hasPackage d' = (\<lambda>k. hasPackage d k \<and> k \<notin> gone)" "deploymentProfiles d' = deploymentProfiles d"
    "applicationOwners d' = applicationOwners d" "artifactOwners d' = artifactOwners d"
    by (auto simp: d' packageOwners_def hasPackage_def deploymentProfiles_def applicationOwners_def artifactOwners_def
        fun_eq_iff)
  have has: "hasProfile d' = hasProfile d" by (rule sideTables_has) (simp add: d' sideTables_def)
  have nsp: "nsdb_deployment_package_fk n \<notin> gone" if "n \<in> set (t_namespaces d)" "nsdb_ID n \<notin> goneN" for n
    using that by (auto simp: goneN)
  have exp: "exdb_deployment_package_fk x \<notin> gone" if "x \<in> set (t_extensions d)" "exdb_ID x \<notin> goneX" for x
    using that by (auto simp: goneX)
  have nsl: "nadb_namespace_fk a \<in> nsdb_ID ` {n \<in> set (t_namespaces d). nsdb_ID n \<notin> goneN}"
    if "a \<in> set (t_namespace_adornments d)" "nadb_namespace_fk a \<notin> goneN" for a
    using that bd(6) by (force simp: packageOwned_ok_def)
  have exl: "epdb_extension_fk e \<in> exdb_ID ` {x \<in> set (t_extensions d). exdb_ID x \<notin> goneX}"
    if "e \<in> set (t_endpoints d)" "epdb_extension_fk e \<notin> goneX" for e
    using that bd(6) by (force simp: packageOwned_ok_def)
  have "packageKeys_ok d'"
    using bd(5) unfolding packageKeys_ok_def d' by (auto intro!: keyed_filter distinct_map_filter)
  moreover have "packageOwned_ok d'"
    using bd(6) free(2) nsp exp nsl exl unfolding packageOwned_ok_def own by (simp add: d')
  moreover have "links_ok d'"
    unfolding links_ok_def own
    by (auto simp: d' intro: links_ok_application [OF bd(7)] links_ok_artifact [OF bd(7)])
  moreover have "requirement_ok d' q" if "q \<in> set (t_deployment_requirements d')" for q
  proof -
    from that have q: "q \<in> set (t_deployment_requirements d)" by (simp add: d')
    show ?thesis using bd(4) [OF q] free(1) [OF q] unfolding requirement_ok_alt own has by auto
  qed
  ultimately have "base_ok d'"
    by (intro base_ok_frame [OF assms(1)]) (use bd in \<open>auto simp: d' sideTables_def packages_ok_def\<close>)
  moreover have "members_ok d'"
    using assms(2) by (auto simp: members_ok_def d')
  ultimately show ?thesis by (simp add: db_ok_def)
qed

lemma deleteDeploymentPackageRows_ok:
  assumes "deleteDeploymentPackageRows P now d = (Inr n, d')" and "db_ok d"
  shows "db_ok d'"
proof -
  define gone where "gone = set (map kdb_ID (List.filter P (t_deployment_packages d)))"
  define d1 where "d1 = dropDeploymentProfiles (\<lambda>p. dpdb_deployment_package_fk p \<in> gone) d"
  define goneN where "goneN = nsdb_ID ` {n \<in> set (t_namespaces d1). nsdb_deployment_package_fk n \<in> gone}"
  define goneX where "goneX = exdb_ID ` {x \<in> set (t_extensions d1). exdb_deployment_package_fk x \<in> gone}"
  have goneL: "goneN = set (map nsdb_ID (List.filter (\<lambda>n. nsdb_deployment_package_fk n \<in> gone) (t_namespaces d1)))"
    "goneX = set (map exdb_ID (List.filter (\<lambda>x. exdb_deployment_package_fk x \<in> gone) (t_extensions d1)))"
    by (auto simp: goneN_def goneX_def)
  have free: "drdb_deployment_package_fk q \<notin> gone" if "q \<in> set (t_deployment_requirements d)" for q
    using assms(1) that by (auto simp: deleteDeploymentPackageRows_def Let_def list_ex_iff gone_def split: if_splits)
  have "base_ok d" "members_ok d" using assms(2) by (auto simp: db_ok_def)
  note drop = dropDeploymentProfiles_ok [OF \<open>base_ok d\<close> d1_def]
  show ?thesis
  proof (rule dropPackages_ok [OF drop(1) _ _ _ goneN_def goneX_def])
    show "members_ok d1"
      using \<open>members_ok d\<close> by (simp add: members_ok_def d1_def dropDeploymentProfiles_def Let_def)
    show "drdb_deployment_package_fk q \<notin> gone" if "q \<in> set (t_deployment_requirements d1)" for q
      using that free by (auto simp: d1_def dropDeploymentProfiles_def Let_def)
    show "k \<notin> gone" if "(i, k) \<in> deploymentProfiles d1" for i k
      using that by (auto simp: d1_def deploymentProfiles_def dropDeploymentProfiles_def Let_def)
    show "d' = d1\<lparr>t_deployment_packages := List.filter (\<lambda>k. kdb_ID k \<notin> gone) (t_deployment_packages d1),
      t_package_applications := List.filter (\<lambda>l. fst l \<notin> gone) (t_package_applications d1),
      t_artifact_references := List.filter (\<lambda>f. afdb_deployment_package_fk f \<notin> gone) (t_artifact_references d1),
      t_application_dependencies := List.filter (\<lambda>q. adepdb_deployment_package_fk q \<notin> gone) (t_application_dependencies d1),
      t_application_namespaces := List.filter (\<lambda>q. ansdb_deployment_package_fk q \<notin> gone) (t_application_namespaces d1),
      t_namespaces := List.filter (\<lambda>n. nsdb_ID n \<notin> goneN) (t_namespaces d1),
      t_namespace_adornments := List.filter (\<lambda>a. nadb_namespace_fk a \<notin> goneN) (t_namespace_adornments d1),
      t_extensions := List.filter (\<lambda>x. exdb_ID x \<notin> goneX) (t_extensions d1),
      t_endpoints := List.filter (\<lambda>e. epdb_extension_fk e \<notin> goneX) (t_endpoints d1)\<rparr>"
      using assms(1) unfolding deleteDeploymentPackageRows_def Let_def gone_def [symmetric] d1_def [symmetric] goneL [symmetric]
      by (simp split: if_splits)
  qed
qed

end
