(* ===== verification/Package_Validation.thy ===== *)
theory Package_Validation
  imports Validation
begin

text \<open>
  The validators of deployment packages and the messages they embed, of
  \<^verbatim>\<open>pkg/api/catalog/v3/resources.pb.validate.go\<close>, in the order of their checks.
\<close>

abbreviation nameSource :: string where "nameSource \<equiv> ''\"^[a-z0-9][a-z0-9-]{0,38}[a-z0-9]{0,1}$\"''"
abbreviation shortNameSource :: string where "shortNameSource \<equiv> ''\"^[a-z0-9][a-z0-9-]{0,24}[a-z0-9]{0,1}$\"''"
abbreviation versionSource :: string where "versionSource \<equiv> ''\"^[a-z0-9][a-z0-9-.]{0,18}[a-z0-9]{0,1}$\"''"

definition schemePattern :: re where
  "schemePattern = upTo 1 (Seq (Class (charIn 97 122)) (Seq (upTo 30 (Class nameChar)) (Class lowerAlnum)))"

definition authTypePattern :: re where
  "authTypePattern = upTo 16 (Class (charIn 97 122))"

definition DeploymentProfile_Validate :: "DeploymentProfile \<Rightarrow> string option" where
  "DeploymentProfile_Validate m = firstFailure ''DeploymentProfile''
     [lengthCheck ''Name'' (dpr_Name m) 1 40,
      patternCheck ''Name'' (dpr_Name m) namePattern nameSource,
      lengthCheck ''DisplayName'' (dpr_DisplayName m) 0 40,
      patternCheck ''DisplayName'' (dpr_DisplayName m) printablePattern printableSource,
      lengthCheck ''Description'' (dpr_Description m) 0 1000]"

definition ApplicationReference_Validate :: "ApplicationReference \<Rightarrow> string option" where
  "ApplicationReference_Validate m = firstFailure ''ApplicationReference''
     [lengthCheck ''Name'' (ar_Name m) 1 40,
      patternCheck ''Name'' (ar_Name m) namePattern nameSource,
      lengthCheck ''Version'' (ar_Version m) 1 20,
      patternCheck ''Version'' (ar_Version m) versionPattern versionSource]"

definition ApplicationDependency_Validate :: "ApplicationDependency \<Rightarrow> string option" where
  "ApplicationDependency_Validate m = firstFailure ''ApplicationDependency''
     [lengthCheck ''Name'' (ad_Name m) 1 26,
      patternCheck ''Name'' (ad_Name m) applicationNamePattern shortNameSource,
      lengthCheck ''Requires'' (ad_Requires m) 1 26,
      patternCheck ''Requires'' (ad_Requires m) applicationNamePattern shortNameSource]"

definition UIExtension_Validate :: "UIExtension \<Rightarrow> string option" where
  "UIExtension_Validate m = firstFailure ''UIExtension''
     [lengthCheck ''Label'' (ui_Label m) 0 40,
      patternCheck ''Label'' (ui_Label m) printablePattern printableSource,
      lengthCheck ''ServiceName'' (ui_ServiceName m) 1 40,
      lengthCheck ''Description'' (ui_Description m) 1 1000,
      lengthCheck ''FileName'' (ui_FileName m) 1 40,
      lengthCheck ''AppName'' (ui_AppName m) 1 40,
      lengthCheck ''ModuleName'' (ui_ModuleName m) 1 40]"

definition Endpoint_Validate :: "Endpoint \<Rightarrow> string option" where
  "Endpoint_Validate m = firstFailure ''Endpoint''
     [lengthCheck ''ServiceName'' (ep_ServiceName m) 1 40,
      patternCheck ''ServiceName'' (ep_ServiceName m) namePattern nameSource,
      lengthCheck ''ExternalPath'' (ep_ExternalPath m) 1 128,
      lengthCheck ''InternalPath'' (ep_InternalPath m) 1 128,
      lengthCheck ''Scheme'' (ep_Scheme m) 0 32,
      patternCheck ''Scheme'' (ep_Scheme m) schemePattern ''\"^([a-z][a-z0-9-]{0,30}[a-z0-9]){0,1}$\"'',
      lengthCheck ''AuthType'' (ep_AuthType m) 0 16,
      patternCheck ''AuthType'' (ep_AuthType m) authTypePattern ''\"^[a-z]{0,16}$\"'',
      lengthCheck ''AppName'' (ep_AppName m) 0 40]"

text \<open>A single embedded message; a nil one passes.\<close>

definition embeddedOption :: "string \<Rightarrow> string \<Rightarrow> ('m \<Rightarrow> string option) \<Rightarrow> 'm option \<Rightarrow> string option" where
  "embeddedOption message field validate m =
     (case m of
        None \<Rightarrow> None
      | Some x \<Rightarrow>
          (case validate x of
             None \<Rightarrow> None
           | Some cause \<Rightarrow> Some (''invalid '' @ message @ ''.'' @ field @ '': '' @
               ''embedded message failed validation | caused by: '' @ cause)))"

definition APIExtension_Validate :: "APIExtension \<Rightarrow> string option" where
  "APIExtension_Validate m = firstOf
     [firstFailure ''APIExtension''
        [lengthCheck ''Name'' (ext_Name m) 1 40,
         patternCheck ''Name'' (ext_Name m) namePattern nameSource,
         lengthCheck ''Version'' (ext_Version m) 1 20,
         patternCheck ''Version'' (ext_Version m) versionPattern versionSource,
         lengthCheck ''DisplayName'' (ext_DisplayName m) 0 40,
         patternCheck ''DisplayName'' (ext_DisplayName m) printablePattern printableSource,
         lengthCheck ''Description'' (ext_Description m) 0 1000],
      embeddedFailure ''APIExtension'' ''Endpoints'' Endpoint_Validate 0 (ext_Endpoints m),
      embeddedOption ''APIExtension'' ''UiExtension'' UIExtension_Validate (ext_UiExtension m)]"

definition ArtifactReference_Validate :: "ArtifactReference \<Rightarrow> string option" where
  "ArtifactReference_Validate m = firstFailure ''ArtifactReference''
     [lengthCheck ''Name'' (aref_Name m) 1 40,
      patternCheck ''Name'' (aref_Name m) namePattern nameSource,
      lengthCheck ''Purpose'' (aref_Purpose m) 0 20,
      patternCheck ''Purpose'' (aref_Purpose m) printablePattern printableSource]"

definition Namespace_Validate :: "Namespace \<Rightarrow> string option" where
  "Namespace_Validate m = firstFailure ''Namespace''
     [lengthCheck ''Name'' (ns_Name m) 1 40,
      patternCheck ''Name'' (ns_Name m) namePattern nameSource]"

definition DeploymentPackage_Validate :: "DeploymentPackage \<Rightarrow> string option" where
  "DeploymentPackage_Validate m = firstOf
     [firstFailure ''DeploymentPackage''
        [lengthCheck ''Name'' (dp_Name m) 1 40,
         patternCheck ''Name'' (dp_Name m) namePattern nameSource,
         lengthCheck ''DisplayName'' (dp_DisplayName m) 0 40,
         patternCheck ''DisplayName'' (dp_DisplayName m) printablePattern printableSource,
         lengthCheck ''Description'' (dp_Description m) 0 1000,
         lengthCheck ''Version'' (dp_Version m) 1 20,
         patternCheck ''Version'' (dp_Version m) versionPattern versionSource],
      embeddedFailure ''DeploymentPackage'' ''ApplicationReferences'' ApplicationReference_Validate 0 (dp_ApplicationReferences m),
      embeddedFailure ''DeploymentPackage'' ''Profiles'' DeploymentProfile_Validate 0 (dp_Profiles m),
      embeddedFailure ''DeploymentPackage'' ''ApplicationDependencies'' ApplicationDependency_Validate 0 (dp_ApplicationDependencies m),
      firstFailure ''DeploymentPackage''
        [(length (dp_Extensions m) \<le> 100, ''Extensions'', ''value must contain no more than 100 item(s)'')],
      embeddedFailure ''DeploymentPackage'' ''Extensions'' APIExtension_Validate 0 (dp_Extensions m),
      firstFailure ''DeploymentPackage''
        [(length (dp_Artifacts m) \<le> 100, ''Artifacts'', ''value must contain no more than 100 item(s)'')],
      embeddedFailure ''DeploymentPackage'' ''Artifacts'' ArtifactReference_Validate 0 (dp_Artifacts m),
      embeddedFailure ''DeploymentPackage'' ''Namespaces'' Namespace_Validate 0 (dp_Namespaces m)]"

section \<open>What a valid package has\<close>

lemma firstOf_None: "firstOf rs = None \<longleftrightarrow> list_all (\<lambda>r. r = None) rs"
  by (induction rs rule: firstOf.induct) auto

lemma embeddedFailure_None:
  "embeddedFailure message field validate idx ms = None \<longleftrightarrow> list_all (\<lambda>m. validate m = None) ms"
  by (induction ms arbitrary: idx) (auto split: option.splits)

lemma embeddedOption_None:
  "embeddedOption message field validate m = None \<longleftrightarrow> (\<forall>x. m = Some x \<longrightarrow> validate x = None)"
  by (auto simp: embeddedOption_def split: option.splits)

lemma DeploymentPackage_Validate_parts:
  assumes "DeploymentPackage_Validate m = None"
  shows "dp_Name m \<noteq> []" and "dp_Version m \<noteq> []"
    and "length (dp_Extensions m) \<le> 100" and "length (dp_Artifacts m) \<le> 100"
    and "\<forall>r \<in> set (dp_ApplicationReferences m). ApplicationReference_Validate r = None"
    and "\<forall>x \<in> set (dp_Extensions m). APIExtension_Validate x = None"
  using assms unfolding DeploymentPackage_Validate_def firstOf_None
  by (auto simp: firstFailure_None embeddedFailure_None list_all_iff lengthCheck_def runeCount_def
      simp del: firstFailure.simps)

end
