(* ===== verification/Deployment_Profile_Service.thy ===== *)
theory Deployment_Profile_Service
  imports Application_Service Package_Invariant Package_Validation
begin

text \<open>
  The deployment profiles of a package, \<^verbatim>\<open>internal/northbound/deployment-profile.go\<close>: a deployment
  profile chooses, for applications of its package, a profile each. The choice is given and shown as a
  map from application names (or names with versions, \<^verbatim>\<open>app:version\<close>) to profile names.
\<close>

section \<open>Queries from an entity\<close>

definition applicationsIn :: "nat \<Rightarrow> db \<Rightarrow> ApplicationDB list" where
  "applicationsIn pkgID d = List.filter (\<lambda>a. (pkgID, adb_ID a) \<in> set (t_package_applications d)) (t_applications d)"

definition deploymentProfilesIn :: "nat \<Rightarrow> db \<Rightarrow> DeploymentProfileDB list" where
  "deploymentProfilesIn pkgID d = List.filter (\<lambda>p. dpdb_deployment_package_fk p = pkgID) (t_deployment_profiles d)"

definition profilesIn :: "nat \<Rightarrow> db \<Rightarrow> ProfileDB list" where
  "profilesIn deploymentProfileID d =
     List.filter (\<lambda>p. (deploymentProfileID, pdb_ID p) \<in> set (t_deployment_profile_profiles d)) (t_profiles d)"

section \<open>The profiles a deployment profile names\<close>

definition findApplicationInPackage :: "DeploymentPackageDB \<Rightarrow> string \<Rightarrow> ApplicationDB txm" where
  "findApplicationInPackage pkg appReference =
     (let fields = Split CHR '':'' appReference; appName = hd fields
      in bnd (orDBError (query (\<lambda>d. q_all (\<lambda>a. adb_Name a = appName) (applicationsIn (kdb_ID pkg) d)))) (\<lambda>appsDB.
         if length fields = 1 \<and> appsDB \<noteq> [] then ret (hd appsDB)
         else
           let appVersion = (if length fields > 1 then fields ! 1 else [])
           in (case List.find (\<lambda>a. appVersion = [] \<or> adb_Version a = appVersion) appsDB of
                 Some appDB \<Rightarrow> ret appDB
               | None \<Rightarrow> throw (NewNotFound [WithMessage ''application %s:%s not found'' [appName, appVersion]]))))"

definition validateProfile :: "DeploymentPackageDB \<Rightarrow> string \<Rightarrow> string \<Rightarrow> ProfileDB txm" where
  "validateProfile pkg appReference profileName s =
     (case findApplicationInPackage pkg appReference s of
        (Inl err, s1) \<Rightarrow> (Inl (NewDBError [WithError (st_format err)]), s1)
      | (Inr appDB, s1) \<Rightarrow>
          orRawError (query (\<lambda>d. q_only (\<lambda>p. pdb_Name p = profileName) (profilesOf (adb_ID appDB) d))) s1)"

definition validateAllProfiles :: "DeploymentPackageDB \<Rightarrow> DeploymentProfile \<Rightarrow> ProfileDB list txm" where
  "validateAllProfiles pkg cp =
     mapM (\<lambda>(appReference, profileName). validateProfile pkg appReference profileName) (mapEntries (dpr_ApplicationProfiles cp))"

section \<open>Creation and update\<close>

definition deploymentProfileError :: "string \<Rightarrow> string \<Rightarrow> Status" where
  "deploymentProfileError name msg =
     NewInvalidArgument [WithResourceType DeploymentProfileType, WithResourceName name, WithMessage msg []]"

definition checkDeploymentProfileUniqueness :: "DeploymentProfile \<Rightarrow> DeploymentPackageDB \<Rightarrow> unit txm" where
  "checkDeploymentProfileUniqueness p pkgDB =
     (if dpr_DisplayName p \<noteq> [] then
        bnd (query (\<lambda>d. q_count (\<lambda>x. dpdb_DisplayNameLc x = ToLower (dpr_DisplayName p) \<and> dpdb_Name x \<noteq> dpr_Name p)
               (deploymentProfilesIn (kdb_ID pkgDB) d)))
          (\<lambda>existing. liftE (checkUniqueness existing ''deployment profile'' (dpr_Name p) (dpr_DisplayName p)
             DeploymentProfileType))
      else ret ())"

text \<open>
  Whatever is wrong with the profiles, the answer is the same; the transaction is rolled back there
  and then, and once more by the caller.
\<close>

definition congruentProfiles :: "DeploymentPackageDB \<Rightarrow> DeploymentProfile \<Rightarrow> ProfileDB list txm" where
  "congruentProfiles pkgDB profile s =
     (case validateAllProfiles pkgDB profile s of
        (Inl _, s1) \<Rightarrow> (Inl (deploymentProfileError (dpr_Name profile) ''application profiles are incongruent''), s1)
      | (Inr profiles, s1) \<Rightarrow> (Inr profiles, s1))"

definition newDeploymentProfileRow :: "nat \<Rightarrow> string \<Rightarrow> DeploymentProfile \<Rightarrow> DeploymentProfileDB" where
  "newDeploymentProfileRow pkgID displayName profile =
     \<lparr>dpdb_ID = 0, dpdb_deployment_package_fk = pkgID, dpdb_Name = dpr_Name profile, dpdb_DisplayName = displayName,
      dpdb_DisplayNameLc = ToLower displayName, dpdb_Description = dpr_Description profile,
      dpdb_CreateTime = 0, dpdb_UpdateTime = 0\<rparr>"

definition injectDeploymentProfile :: "DeploymentPackageDB \<Rightarrow> DeploymentProfile \<Rightarrow> DeploymentProfileDB txm" where
  "injectDeploymentProfile pkgDB profile =
     (case validateDisplayName (dpr_Name profile) (dpr_DisplayName profile) of (displayName, ok) \<Rightarrow>
        if \<not> ok then throw (deploymentProfileError (dpr_Name profile) ''display name cannot contain leading or trailing spaces'')
        else
          bnd (checkDeploymentProfileUniqueness profile pkgDB) (\<lambda>_.
          bnd (congruentProfiles pkgDB profile) (\<lambda>profiles.
          bnd (mutate (createDeploymentProfileRow (newDeploymentProfileRow (kdb_ID pkgDB) displayName profile)
                 (map pdb_ID profiles))) (\<lambda>saved.
          case saved of
            Inl err \<Rightarrow>
              if err = EntConstraint then throw (deploymentProfileError (dpr_Name profile) ''deployment profile already exists'')
              else throw (dbError err)
          | Inr created \<Rightarrow> ret created))))"

definition setDeploymentProfile :: "string \<Rightarrow> DeploymentProfile \<Rightarrow> DeploymentProfileDB \<Rightarrow> DeploymentProfileDB" where
  "setDeploymentProfile displayName p r =
     r\<lparr>dpdb_DisplayName := displayName, dpdb_DisplayNameLc := ToLower displayName, dpdb_Description := dpr_Description p\<rparr>"

text \<open>The profiles are added to the ones the deployment profile has; none is removed.\<close>

definition updateDeploymentProfile ::
    "DeploymentProfile \<Rightarrow> DeploymentProfileDB \<Rightarrow> DeploymentPackageDB \<Rightarrow> unit txm" where
  "updateDeploymentProfile deploymentProfile deploymentProfileDB pkgDB =
     (case validateDisplayName (dpr_Name deploymentProfile) (dpr_DisplayName deploymentProfile) of (displayName, ok) \<Rightarrow>
        if \<not> ok then throw (deploymentProfileError (dpr_Name deploymentProfile)
          ''display name cannot contain leading or trailing spaces'')
        else
          bnd (congruentProfiles pkgDB deploymentProfile) (\<lambda>profiles.
          bnd (orDBError (mutate (updateDeploymentProfileRow (dpdb_ID deploymentProfileDB)
                 (setDeploymentProfile displayName deploymentProfile) (map pdb_ID profiles)))) (\<lambda>_.
          ret ())))"

definition packageIn :: "string \<Rightarrow> string \<Rightarrow> string \<Rightarrow> DeploymentPackageDB \<Rightarrow> bool" where
  "packageIn projectUUID name version k \<longleftrightarrow>
     kdb_ProjectUUID k = projectUUID \<and> kdb_Name k = name \<and> kdb_Version k = version"

definition getDeploymentPackage :: "string \<Rightarrow> string \<Rightarrow> string \<Rightarrow> DeploymentPackageDB option txm" where
  "getDeploymentPackage projectUUID pkgName pkgVersion =
     bnd (query (\<lambda>d. q_only (packageIn projectUUID pkgName pkgVersion) (t_deployment_packages d))) (\<lambda>found.
     case found of
       Inl err \<Rightarrow> if err = EntNotFound then ret None else throw (dbError err)
     | Inr k \<Rightarrow> ret (Some k))"

section \<open>Extraction\<close>

text \<open>One query for the profiles and one per profile for its application. A later entry of the same name wins.\<close>

definition composeAppProfileMap :: "DeploymentProfileDB \<Rightarrow> bool \<Rightarrow> strmap txm" where
  "composeAppProfileMap cp useFQNames =
     bnd (orDBError (query (\<lambda>d. Inr (profilesIn (dpdb_ID cp) d)))) (\<lambda>cpProfiles.
     bnd (mapM (\<lambda>profile.
            bnd (orDBError (query (\<lambda>d. q_only (\<lambda>a. adb_ID a = pdb_application_fk profile) (t_applications d)))) (\<lambda>app.
            ret (if useFQNames then adb_Name app @ '':'' @ adb_Version app else adb_Name app, pdb_Name profile)))
            cpProfiles) (\<lambda>entries.
     ret (foldl (\<lambda>m (ref, name). AList.update ref name m) [] entries)))"

definition implicitDefaultDeploymentProfile :: "DeploymentPackageDB \<Rightarrow> DeploymentProfile option txm" where
  "implicitDefaultDeploymentProfile pkgDB =
     bnd (orDBError (query (\<lambda>d. q_all (\<lambda>a. adb_default_profile a \<noteq> None) (applicationsIn (kdb_ID pkgDB) d)))) (\<lambda>appsDB.
     if appsDB = [] then ret None
     else
       bnd (mapM (\<lambda>appDB.
              bnd (orDBError (query (\<lambda>d. q_first (\<lambda>p. adb_default_profile appDB = Some (pdb_ID p)) (t_profiles d)))) (\<lambda>profileDB.
              ret (adb_Name appDB, pdb_Name profileDB))) appsDB) (\<lambda>entries.
       ret (Some \<lparr>dpr_Name = ''implicit-default'', dpr_DisplayName = ''Implicit Default'',
         dpr_Description = ''Implicit default deployment profile'',
         dpr_ApplicationProfiles = Some (foldl (\<lambda>m (ref, name). AList.update ref name m) [] entries),
         dpr_CreateTime = None, dpr_UpdateTime = None\<rparr>)))"

section \<open>Deployment profiles stay well-formed\<close>

lemma tri_findApplicationInPackage [tri_intro]: "tri P (findApplicationInPackage pkg r) (\<lambda>_. P)"
  unfolding findApplicationInPackage_def Let_def by (intro tri_intro tri_bnd_same tri_found)

lemma validateProfile_found:
  "tri P (validateProfile pkg r n) (\<lambda>p d. P d \<and> hasProfile d (pdb_ID p))"
proof -
  have "tri P (\<lambda>s. orRawError (query (\<lambda>d. q_only (\<lambda>p. pdb_Name p = n) (profilesOf i d))) s)
     (\<lambda>p d. P d \<and> hasProfile d (pdb_ID p))" for i
    by (rule tri_found_raw) (auto simp: profilesOf_def hasProfile_def dest!: q_only_Inr_in)
  then have "tri P (bnd (findApplicationInPackage pkg r) (\<lambda>a s.
      orRawError (query (\<lambda>d. q_only (\<lambda>p. pdb_Name p = n) (profilesOf (adb_ID a) d))) s))
      (\<lambda>p d. P d \<and> hasProfile d (pdb_ID p))"
    by (intro tri_bnd_same [OF tri_findApplicationInPackage])
  then show ?thesis
    by (auto simp: tri_def validateProfile_def bnd_def split: prod.splits sum.splits)
qed

lemma mapM_found:
  assumes "\<And>x P. tri P (f x) (\<lambda>y d. P d \<and> Q y d)"
  shows "tri P (mapM f xs) (\<lambda>ys d. P d \<and> (\<forall>y \<in> set ys. Q y d))"
proof (induction xs arbitrary: P)
  case Nil
  then show ?case by (auto intro: tri_ret)
next
  case (Cons x xs)
  have "tri (\<lambda>d. P d \<and> Q y d) (mapM f xs) (\<lambda>ys d. (P d \<and> Q y d) \<and> (\<forall>y \<in> set ys. Q y d))" for y
    by (rule Cons.IH)
  then show ?case
    unfolding mapM.simps by (intro tri_bnd [OF assms(1)] tri_bnd [rotated, OF tri_ret]) auto
qed

lemma congruentProfiles_found:
  "tri P (congruentProfiles pkg profile) (\<lambda>ps d. P d \<and> (\<forall>p \<in> set ps. hasProfile d (pdb_ID p)))"
proof -
  have "tri P (validateAllProfiles pkg profile) (\<lambda>ps d. P d \<and> (\<forall>p \<in> set ps. hasProfile d (pdb_ID p)))"
    unfolding validateAllProfiles_def
    by (rule mapM_found) (auto intro!: tri_case_prod validateProfile_found)
  then show ?thesis
    by (auto simp: tri_def congruentProfiles_def split: prod.splits sum.splits)
qed

lemma tri_checkDeploymentProfileUniqueness [tri_intro]:
  "tri P (checkDeploymentProfileUniqueness p pkgDB) (\<lambda>_. P)"
  unfolding checkDeploymentProfileUniqueness_def by (intro tri_intro tri_bnd_same tri_query_same)

text \<open>Tables of a package under replacement that have some deployment profiles of it.\<close>

definition replacingWith :: "string \<Rightarrow> bool \<Rightarrow> bool \<Rightarrow> nat \<Rightarrow> nat set \<Rightarrow> db \<Rightarrow> bool" where
  "replacingWith u dl nl k ids d \<longleftrightarrow> replacing u dl nl k d \<and> (\<lambda>i. (i, k)) ` ids \<subseteq> deploymentProfiles d"

lemma injectDeploymentProfile_ok:
  assumes "kdb_ID pkgDB = k"
  shows "tri (replacingWith u dl nl k ids) (injectDeploymentProfile pkgDB profile)
     (\<lambda>created. replacingWith u dl nl k (insert (dpdb_ID created) ids))"
proof -
  have saved: "replacingWith u dl nl k (insert (dpdb_ID c) ids) d'"
    if d: "replacingWith u dl nl k ids d \<and> (\<forall>p \<in> set ps. hasProfile d (pdb_ID p))"
      and c: "createDeploymentProfileRow (newDeploymentProfileRow (kdb_ID pkgDB) dn profile) (map pdb_ID ps) n d = (Inr c, d')"
    for ps dn n d c d'
  proof -
    have "replacing u dl nl k d' \<and> deploymentProfiles d' = insert (dpdb_ID c, k) (deploymentProfiles d)"
      using d assms by (intro createDeploymentProfileRow_ok [OF c]) (auto simp: replacingWith_def newDeploymentProfileRow_def)
    with d show ?thesis by (auto simp: replacingWith_def)
  qed
  show ?thesis
    unfolding injectDeploymentProfile_def
    by (intro tri_case_prod tri_if tri_throw tri_bnd_same [OF tri_checkDeploymentProfileUniqueness]
        tri_bnd [OF congruentProfiles_found]
        tri_bnd_saved [where R = "\<lambda>c. replacingWith u dl nl k (insert (dpdb_ID c) ids)"] tri_ret) (auto intro: saved)
qed

lemma updateDeploymentProfile_ok:
  "tri (replacing u dl nl k) (updateDeploymentProfile p pDB pkgDB) (\<lambda>_. replacing u dl nl k)"
proof -
  have upd: "tri (\<lambda>d. replacing u dl nl k d \<and> (\<forall>p \<in> set ps. hasProfile d (pdb_ID p)))
      (orDBError (mutate (updateDeploymentProfileRow i (setDeploymentProfile dn p) (map pdb_ID ps)))) (\<lambda>_. replacing u dl nl k)"
    for ps i dn
    by (rule tri_done)
      (auto simp: setDeploymentProfile_def deploymentProfileKey_def dest!: updateDeploymentProfileRow_ok)
  show ?thesis
    unfolding updateDeploymentProfile_def
    by (intro tri_case_prod tri_if tri_throw tri_bnd [OF congruentProfiles_found] tri_bnd [OF upd] tri_ret)
qed

lemma getDeploymentPackage_found:
  "tri P (getDeploymentPackage projectUUID n v) (\<lambda>r d. P d \<and>
     (\<forall>k. r = Some k \<longrightarrow> k \<in> set (t_deployment_packages d) \<and> packageIn projectUUID n v k))"
  unfolding getDeploymentPackage_def
  by (rule tri_bnd_found [where R = "\<lambda>k d. P d \<and> k \<in> set (t_deployment_packages d) \<and> packageIn projectUUID n v k"])
    (auto intro!: tri_if tri_throw tri_ret dest: q_only_Inr_in)

lemma tri_composeAppProfileMap [tri_intro]: "tri P (composeAppProfileMap cp b) (\<lambda>_. P)"
  unfolding composeAppProfileMap_def by (intro tri_intro tri_bnd_same tri_found tri_mapM)

lemma tri_implicitDefaultDeploymentProfile [tri_intro]: "tri P (implicitDefaultDeploymentProfile pkgDB) (\<lambda>_. P)"
  unfolding implicitDefaultDeploymentProfile_def by (intro tri_intro tri_bnd_same tri_found tri_mapM)

end
