(* ===== verification/Deployment_Package_Service.thy ===== *)
theory Deployment_Package_Service
  imports Deployment_Profile_Service
begin

text \<open>
  Deployment packages, \<^verbatim>\<open>internal/northbound/deployment-package.go\<close>: creation with everything a
  package owns, extraction, and the comparison of a given package with the stored one that decides
  what an update replaces.

  The comparison uses \<^verbatim>\<open>reflect.DeepEqual\<close> on maps and lists: the stored side is always allocated,
  while an empty field of a decoded message is nil, so the two differ when the given one is empty.
\<close>

definition packageKind :: "DeploymentPackageDB \<Rightarrow> string" where
  "packageKind k = (case kdb_Kind k of None \<Rightarrow> [] | Some kind \<Rightarrow> kind)"

definition pkgError :: "string \<Rightarrow> string list \<Rightarrow> Status" where
  "pkgError msg args = NewInvalidArgument [WithResourceType DeploymentPackageType, WithMessage msg args]"

definition pkgNamedError :: "string \<Rightarrow> string \<Rightarrow> string \<Rightarrow> string list \<Rightarrow> Status" where
  "pkgNamedError name version msg args = NewInvalidArgument [WithResourceType DeploymentPackageType,
     WithResourceName name, WithResourceVersion version, WithMessage msg args]"

definition pkgNotFound :: "string \<Rightarrow> string \<Rightarrow> Status" where
  "pkgNotFound name version =
     NewNotFound [WithResourceType DeploymentPackageType, WithResourceName name, WithResourceVersion version]"

definition appendPackage :: "string \<Rightarrow> string \<Rightarrow> DeploymentPackage \<Rightarrow> unit txm" where
  "appendPackage eventType projectUUID pkg =
     modify (\<lambda>s. s\<lparr>tx_pkgEvents := appendDeploymentPackageEvent (tx_pkgEvents s) eventType projectUUID pkg\<rparr>)"

section \<open>Checks of a given package\<close>

definition hasDuplicateAppNames :: "ApplicationReference list \<Rightarrow> bool" where
  "hasDuplicateAppNames refs \<longleftrightarrow> length (remdups (map ar_Name refs)) \<noteq> length refs"

definition validateDeploymentProfiles :: "DeploymentPackage \<Rightarrow> unit result" where
  "validateDeploymentProfiles pkg =
     (if dp_Profiles pkg = [] \<or> length (dp_ApplicationReferences pkg) = 1 then Inr ()
      else if list_all (\<lambda>dp. list_all (\<lambda>(an, _). CHR '':'' \<in> set an) (mapEntries (dpr_ApplicationProfiles dp))) (dp_Profiles pkg)
      then Inr ()
      else if hasDuplicateAppNames (dp_ApplicationReferences pkg)
      then Inl (pkgError (''package %s contains duplicate application names, '' @
        ''but does not use fully qualified profile references'') [dp_Name pkg])
      else Inr ())"

definition checkDeploymentPackageUniqueness :: "string \<Rightarrow> DeploymentPackage \<Rightarrow> unit txm" where
  "checkDeploymentPackageUniqueness projectUUID a =
     (if dp_DisplayName a \<noteq> [] then
        bnd (query (\<lambda>d. q_count (\<lambda>x. kdb_ProjectUUID x = projectUUID \<and>
               kdb_DisplayNameLc x = ToLower (dp_DisplayName a) \<and> kdb_Name x \<noteq> dp_Name a) (t_deployment_packages d)))
          (\<lambda>existing. liftE (checkUniqueness existing ''deployment package'' (dp_Name a) (dp_DisplayName a)
             DeploymentPackageType))
      else ret ())"

definition checkDeploymentPackageNotDeployed :: "string \<Rightarrow> DeploymentPackage \<Rightarrow> unit txm" where
  "checkDeploymentPackageNotDeployed projectUUID pkg =
     bnd (query (\<lambda>d. q_first (packageIn projectUUID (dp_Name pkg) (dp_Version pkg)) (t_deployment_packages d))) (\<lambda>found.
     case found of
       Inl err \<Rightarrow> if err = EntNotFound then ret () else throw (dbError err)
     | Inr first \<Rightarrow>
         if kdb_IsDeployed first \<and> dp_IsDeployed pkg
         then throw (NewFailedPrecondition [WithResourceType DeploymentPackageType, WithResourceName (dp_Name pkg),
           WithResourceVersion (dp_Version pkg), WithMessage ''cannot modify deployed package'' []])
         else ret ())"

section \<open>Creation\<close>

definition findReference :: "string \<Rightarrow> ApplicationReference \<Rightarrow> nat txm" where
  "findReference projectUUID appRef =
     bnd (query (\<lambda>d. q_first (applicationIn projectUUID (ar_Name appRef) (ar_Version appRef)) (t_applications d))) (\<lambda>found.
     case found of
       Inl err \<Rightarrow>
         if err = EntNotFound then throw (NewInvalidArgument [WithResourceType ApplicationReferenceType,
           WithMessage ''application reference not found'' [], WithResourceName (ar_Name appRef),
           WithResourceVersion (ar_Version appRef)])
         else throw (dbError err)
     | Inr a \<Rightarrow> ret (adb_ID a))"

definition createApplicationReferences :: "string \<Rightarrow> DeploymentPackage \<Rightarrow> DeploymentPackageDB \<Rightarrow> unit txm" where
  "createApplicationReferences projectUUID pkg pkgDB =
     bnd (mapM (findReference projectUUID) (dp_ApplicationReferences pkg)) (\<lambda>appIDs.
     orDBError (mutate (setPackageApplications (kdb_ID pkgDB) appIDs)))"

text \<open>The applications of a package by name; a later one of the same name wins.\<close>

definition applicationsByName :: "ApplicationDB list \<Rightarrow> (string \<times> ApplicationDB) list" where
  "applicationsByName appsDB = foldl (\<lambda>m a. AList.update (adb_Name a) a m) [] appsDB"

definition createDependency ::
    "DeploymentPackage \<Rightarrow> DeploymentPackageDB \<Rightarrow> (string \<times> ApplicationDB) list \<Rightarrow> ApplicationDependency \<Rightarrow> unit txm" where
  "createDependency pkg pkgDB ars appDep =
     (if ad_Name appDep = ad_Requires appDep
      then throw (pkgNamedError (dp_Name pkg) (dp_Version pkg) ''application %s cannot depend on itself'' [ad_Name appDep])
      else (case map_of ars (ad_Name appDep) of
        None \<Rightarrow> throw (pkgNamedError (dp_Name pkg) (dp_Version pkg) ''dependency for application %s does not exist'' [ad_Name appDep])
      | Some source \<Rightarrow>
     (case map_of ars (ad_Requires appDep) of
        None \<Rightarrow> throw (pkgNamedError (dp_Name pkg) (dp_Version pkg) ''dependency requirement %s does not exist'' [ad_Requires appDep])
      | Some target \<Rightarrow>
          orDBError (mutate (createApplicationDependencyRow \<lparr>adepdb_deployment_package_fk = kdb_ID pkgDB,
            adepdb_source_fk = adb_ID source, adepdb_target_fk = adb_ID target\<rparr>)))))"

definition createApplicationDependencies :: "DeploymentPackage \<Rightarrow> DeploymentPackageDB \<Rightarrow> unit txm" where
  "createApplicationDependencies pkg pkgDB =
     bnd (orDBError (query (\<lambda>d. Inr (applicationsIn (kdb_ID pkgDB) d)))) (\<lambda>appsDB.
     forM (dp_ApplicationDependencies pkg) (createDependency pkg pkgDB (applicationsByName appsDB)))"

definition createNamespaceOf ::
    "DeploymentPackage \<Rightarrow> DeploymentPackageDB \<Rightarrow> (string \<times> ApplicationDB) list \<Rightarrow> string \<times> string \<Rightarrow> unit txm" where
  "createNamespaceOf pkg pkgDB namespaces entry =
     (case map_of namespaces (fst entry) of
        None \<Rightarrow> throw (pkgNamedError (dp_Name pkg) (dp_Version pkg) ''application %s does not exist'' [fst entry])
      | Some aDB \<Rightarrow>
          orDBError (mutate (createApplicationNamespaceRow \<lparr>ansdb_deployment_package_fk = kdb_ID pkgDB,
            ansdb_source_fk = adb_ID aDB, ansdb_Namespace = snd entry\<rparr>)))"

definition createApplicationNamespaces :: "DeploymentPackage \<Rightarrow> DeploymentPackageDB \<Rightarrow> unit txm" where
  "createApplicationNamespaces pkg pkgDB =
     bnd (orDBError (query (\<lambda>d. Inr (applicationsIn (kdb_ID pkgDB) d)))) (\<lambda>appsDB.
     forM (dp_DefaultNamespaces pkg) (createNamespaceOf pkg pkgDB (applicationsByName appsDB)))"

abbreviation namespaceLabelType :: string where "namespaceLabelType \<equiv> ''label''"
abbreviation namespaceAnnotationType :: string where "namespaceAnnotationType \<equiv> ''annotation''"

definition createAdornments :: "nat \<Rightarrow> string \<Rightarrow> strmap \<Rightarrow> unit txm" where
  "createAdornments nsID adornmentType entries =
     forM entries (\<lambda>(key, val). orDBError (mutate (createNamespaceAdornmentRow
       \<lparr>nadb_namespace_fk = nsID, nadb_Type = adornmentType, nadb_Key = key, nadb_Value = val\<rparr>)))"

definition createNamespaces :: "DeploymentPackage \<Rightarrow> DeploymentPackageDB \<Rightarrow> unit txm" where
  "createNamespaces pkg pkgDB =
     forM (dp_Namespaces pkg) (\<lambda>namespace.
       bnd (orDBError (mutate (createNamespaceRow \<lparr>nsdb_ID = 0, nsdb_deployment_package_fk = kdb_ID pkgDB,
              nsdb_Name = ns_Name namespace\<rparr>))) (\<lambda>nsDB.
       bnd (createAdornments (nsdb_ID nsDB) namespaceLabelType (mapEntries (ns_Labels namespace))) (\<lambda>_.
       createAdornments (nsdb_ID nsDB) namespaceAnnotationType (mapEntries (ns_Annotations namespace)))))"

fun injectAll :: "DeploymentPackage \<Rightarrow> DeploymentPackageDB \<Rightarrow> nat option \<Rightarrow> DeploymentProfile list \<Rightarrow> nat option txm" where
  "injectAll pkg pkgDB defaultProfile [] = ret defaultProfile"
| "injectAll pkg pkgDB defaultProfile (profile # profiles) =
     bnd (injectDeploymentProfile pkgDB profile) (\<lambda>createdProfile.
     injectAll pkg pkgDB
       (if dp_DefaultProfileName pkg \<noteq> [] \<and> dp_DefaultProfileName pkg = dpr_Name profile
        then Some (dpdb_ID createdProfile) else defaultProfile) profiles)"

definition createDeploymentProfiles ::
    "DeploymentProfile list \<Rightarrow> DeploymentPackage \<Rightarrow> DeploymentPackageDB \<Rightarrow> unit txm" where
  "createDeploymentProfiles profiles pkg pkgDB =
     bnd (injectAll pkg pkgDB None profiles) (\<lambda>defaultProfile.
     case defaultProfile of
       None \<Rightarrow> ret ()
     | Some i \<Rightarrow>
         bnd (orDBError (mutate (updateDeploymentPackageRows (\<lambda>k. kdb_ID k = kdb_ID pkgDB)
                (\<lambda>k. k\<lparr>kdb_default_profile := Some i\<rparr>)))) (\<lambda>_. ret ()))"

definition updateDefaultDeploymentProfile :: "string \<Rightarrow> string \<Rightarrow> string \<Rightarrow> string \<Rightarrow> unit txm" where
  "updateDefaultDeploymentProfile projectUUID name pkgName version =
     (if name \<noteq> [] then
        bnd (query (\<lambda>d. q_first (\<lambda>p. dpdb_Name p = name \<and>
               list_ex (\<lambda>k. kdb_ID k = dpdb_deployment_package_fk p \<and> packageIn projectUUID pkgName version k)
                 (t_deployment_packages d)) (t_deployment_profiles d))) (\<lambda>found.
        case found of
          Inl err \<Rightarrow>
            if err = EntNotFound
            then throw (pkgNamedError pkgName version ''%s %s not found'' [DeploymentProfileType, name])
            else throw (dbError err)
        | Inr dpDB \<Rightarrow>
            bnd (orDBError (mutate (updateDeploymentPackageRows (packageIn projectUUID pkgName version)
                   (\<lambda>k. k\<lparr>kdb_default_profile := Some (dpdb_ID dpDB)\<rparr>)))) (\<lambda>_. ret ()))
      else ret ())"

definition newExtensionRow :: "nat \<Rightarrow> APIExtension \<Rightarrow> ExtensionDB" where
  "newExtensionRow pkgID ext =
     (let ui = (\<lambda>f. case ext_UiExtension ext of None \<Rightarrow> [] | Some u \<Rightarrow> f u)
      in \<lparr>exdb_ID = 0, exdb_deployment_package_fk = pkgID, exdb_Name = ext_Name ext, exdb_Version = ext_Version ext,
          exdb_DisplayName = ext_DisplayName ext, exdb_Description = ext_Description ext, exdb_UILabel = ui ui_Label,
          exdb_UIServiceName = ui ui_ServiceName, exdb_UIDescription = ui ui_Description,
          exdb_UIFileName = ui ui_FileName, exdb_UIAppName = ui ui_AppName, exdb_UIModuleName = ui ui_ModuleName\<rparr>)"

definition newEndpointRow :: "nat \<Rightarrow> Endpoint \<Rightarrow> EndpointDB" where
  "newEndpointRow extID ep =
     \<lparr>epdb_extension_fk = extID, epdb_ServiceName = ep_ServiceName ep, epdb_ExternalPath = ep_ExternalPath ep,
      epdb_InternalPath = ep_InternalPath ep, epdb_Scheme = ep_Scheme ep, epdb_AuthType = ep_AuthType ep,
      epdb_AppName = ep_AppName ep\<rparr>"

definition createExtensions :: "DeploymentPackage \<Rightarrow> DeploymentPackageDB \<Rightarrow> unit txm" where
  "createExtensions pkg pkgDB =
     forM (dp_Extensions pkg) (\<lambda>ext.
       bnd (orDBError (mutate (createExtensionRow (newExtensionRow (kdb_ID pkgDB) ext)))) (\<lambda>extDB.
       forM (ext_Endpoints ext) (\<lambda>ep. orDBError (mutate (createEndpointRow (newEndpointRow (exdb_ID extDB) ep))))))"

definition createArtifactReferences :: "string \<Rightarrow> DeploymentPackage \<Rightarrow> DeploymentPackageDB \<Rightarrow> unit txm" where
  "createArtifactReferences projectUUID pkg pkgDB =
     forM (dp_Artifacts pkg) (\<lambda>art.
       bnd (query (\<lambda>d. q_only (\<lambda>r. tdb_ProjectUUID r = projectUUID \<and> tdb_Name r = aref_Name art) (t_artifacts d))) (\<lambda>found.
       case found of
         Inl err \<Rightarrow>
           if err = EntNotFound
           then throw (pkgNamedError (dp_Name pkg) (dp_Version pkg) ''artifact %s not found'' [aref_Name art])
           else throw (dbError err)
       | Inr artifactDB \<Rightarrow>
           orDBError (mutate (createArtifactReferenceRow \<lparr>afdb_deployment_package_fk = kdb_ID pkgDB,
             afdb_artifact = tdb_ID artifactDB, afdb_Purpose = aref_Purpose art\<rparr>))))"

definition newPackageRow :: "string \<Rightarrow> string \<Rightarrow> DeploymentPackage \<Rightarrow> DeploymentPackageDB" where
  "newPackageRow projectUUID displayName pkg =
     \<lparr>kdb_ID = 0, kdb_ProjectUUID = projectUUID, kdb_Name = dp_Name pkg, kdb_DisplayName = displayName,
      kdb_DisplayNameLc = ToLower displayName, kdb_Description = dp_Description pkg, kdb_Version = dp_Version pkg,
      kdb_IsDeployed = dp_IsDeployed pkg, kdb_IsVisible = dp_IsVisible pkg,
      kdb_AllowsMultipleDeployments = (\<not> dp_ForbidsMultipleDeployments pkg),
      kdb_Kind = Some (kindToDB (dp_Kind pkg)), kdb_default_profile = None, kdb_CreateTime = 0, kdb_UpdateTime = 0\<rparr>"

text \<open>What is created after the row of the package, in this order.\<close>

definition createPackageParts :: "string \<Rightarrow> DeploymentPackage \<Rightarrow> DeploymentPackageDB \<Rightarrow> unit txm" where
  "createPackageParts projectUUID pkg created =
     bnd (createApplicationReferences projectUUID pkg created) (\<lambda>_.
     bnd (createApplicationDependencies pkg created) (\<lambda>_.
     bnd (createApplicationNamespaces pkg created) (\<lambda>_.
     bnd (createNamespaces pkg created) (\<lambda>_.
     bnd (createDeploymentProfiles (dp_Profiles pkg) pkg created) (\<lambda>_.
     bnd (updateDefaultDeploymentProfile projectUUID (dp_DefaultProfileName pkg) (dp_Name pkg) (dp_Version pkg)) (\<lambda>_.
     bnd (createExtensions pkg created) (\<lambda>_.
     createArtifactReferences projectUUID pkg created)))))))"

definition createDeploymentPackage :: "string \<Rightarrow> DeploymentPackage \<Rightarrow> DeploymentPackageDB txm" where
  "createDeploymentPackage projectUUID pkg =
     (if dp_Profiles pkg \<noteq> [] \<and> dp_DefaultProfileName pkg = []
      then throw (pkgError ''default profile name must be specified'' [])
      else (case validateDisplayName (dp_Name pkg) (dp_DisplayName pkg) of (displayName, ok) \<Rightarrow>
        if \<not> ok then throw (pkgError ''display name cannot contain leading or trailing spaces'' [])
        else
          bnd (checkDeploymentPackageUniqueness projectUUID pkg) (\<lambda>_.
          bnd (mutate (createDeploymentPackageRow (newPackageRow projectUUID displayName pkg))) (\<lambda>saved.
          case saved of
            Inl err \<Rightarrow>
              if err = EntConstraint
              then throw (pkgNamedError (dp_Name pkg) (dp_Version pkg) ''deployment package %s already exists'' [dp_Name pkg])
              else throw (dbError err)
          | Inr created \<Rightarrow>
              bnd (createPackageParts projectUUID pkg created) (\<lambda>_.
              bnd (appendPackage CreatedEvent projectUUID pkg) (\<lambda>_.
              ret created))))))"

section \<open>Extraction\<close>

definition extractApplicationReferences :: "DeploymentPackageDB \<Rightarrow> ApplicationReference list txm" where
  "extractApplicationReferences pkgDB =
     bnd (orDBError (query (\<lambda>d. Inr (applicationsIn (kdb_ID pkgDB) d)))) (\<lambda>applicationsDB.
     ret (map (\<lambda>a. \<lparr>ar_Name = adb_Name a, ar_Version = adb_Version a\<rparr>) applicationsDB))"

definition extractDeploymentProfile :: "bool \<Rightarrow> DeploymentProfileDB \<Rightarrow> DeploymentProfile txm" where
  "extractDeploymentProfile useFQNames profileDB =
     bnd (composeAppProfileMap profileDB useFQNames) (\<lambda>applicationProfiles.
     ret \<lparr>dpr_Name = dpdb_Name profileDB, dpr_DisplayName = dpdb_DisplayName profileDB,
          dpr_Description = dpdb_Description profileDB, dpr_ApplicationProfiles = Some applicationProfiles,
          dpr_CreateTime = Some (dpdb_CreateTime profileDB), dpr_UpdateTime = Some (dpdb_UpdateTime profileDB)\<rparr>)"

definition extractDeploymentProfiles :: "DeploymentPackageDB \<Rightarrow> bool \<Rightarrow> bool \<Rightarrow> DeploymentProfile list txm" where
  "extractDeploymentProfiles pkgDB useFQNames includeSyntheticDefault =
     bnd (orDBError (query (\<lambda>d. Inr (deploymentProfilesIn (kdb_ID pkgDB) d)))) (\<lambda>profilesDB.
     if profilesDB \<noteq> [] then mapM (extractDeploymentProfile useFQNames) profilesDB
     else if includeSyntheticDefault then
       bnd (implicitDefaultDeploymentProfile pkgDB) (\<lambda>defaultProfile.
       ret (case defaultProfile of None \<Rightarrow> [] | Some p \<Rightarrow> [p]))
     else ret [])"

definition extractDependency :: "ApplicationDependencyDB \<Rightarrow> ApplicationDependency txm" where
  "extractDependency dependencyDB =
     bnd (orDBError (query (\<lambda>d. q_only (\<lambda>a. adb_ID a = adepdb_source_fk dependencyDB) (t_applications d)))) (\<lambda>source.
     bnd (orDBError (query (\<lambda>d. q_only (\<lambda>a. adb_ID a = adepdb_target_fk dependencyDB) (t_applications d)))) (\<lambda>target.
     ret \<lparr>ad_Name = adb_Name source, ad_Requires = adb_Name target\<rparr>))"

definition extractApplicationDependencies :: "DeploymentPackageDB \<Rightarrow> ApplicationDependency list txm" where
  "extractApplicationDependencies pkgDB =
     bnd (orDBError (query (\<lambda>d. q_all (\<lambda>q. adepdb_deployment_package_fk q = kdb_ID pkgDB) (t_application_dependencies d))))
       (mapM extractDependency)"

definition extractNamespaceOf :: "ApplicationNamespaceDB \<Rightarrow> (string \<times> string) txm" where
  "extractNamespaceOf namespaceDB =
     bnd (orDBError (query (\<lambda>d. q_only (\<lambda>a. adb_ID a = ansdb_source_fk namespaceDB) (t_applications d)))) (\<lambda>sourceDB.
     ret (adb_Name sourceDB, ansdb_Namespace namespaceDB))"

definition extractApplicationNamespaces :: "DeploymentPackageDB \<Rightarrow> strmap txm" where
  "extractApplicationNamespaces pkgDB =
     bnd (orDBError (query (\<lambda>d. q_all (\<lambda>q. ansdb_deployment_package_fk q = kdb_ID pkgDB) (t_application_namespaces d)))) (\<lambda>namespacesDB.
     bnd (mapM extractNamespaceOf namespacesDB) (\<lambda>entries.
     ret (foldl (\<lambda>m (name, namespace). AList.update name namespace m) [] entries)))"

definition adornmentsOf :: "string \<Rightarrow> NamespaceAdornmentDB list \<Rightarrow> strmap" where
  "adornmentsOf adornmentType adornmentsDB =
     foldl (\<lambda>m a. if nadb_Type a = adornmentType then AList.update (nadb_Key a) (nadb_Value a) m else m) [] adornmentsDB"

definition extractNamespace :: "NamespaceDB \<Rightarrow> Namespace txm" where
  "extractNamespace namespaceDB =
     bnd (orDBError (query (\<lambda>d. q_all (\<lambda>a. nadb_namespace_fk a = nsdb_ID namespaceDB) (t_namespace_adornments d)))) (\<lambda>adornmentsDB.
     ret \<lparr>ns_Name = nsdb_Name namespaceDB, ns_Labels = Some (adornmentsOf namespaceLabelType adornmentsDB),
          ns_Annotations = Some (adornmentsOf namespaceAnnotationType adornmentsDB)\<rparr>)"

definition extractNamespaces :: "DeploymentPackageDB \<Rightarrow> Namespace list txm" where
  "extractNamespaces pkgDB =
     bnd (orDBError (query (\<lambda>d. q_all (\<lambda>n. nsdb_deployment_package_fk n = kdb_ID pkgDB) (t_namespaces d))))
       (mapM extractNamespace)"

definition extractEndpoint :: "EndpointDB \<Rightarrow> Endpoint" where
  "extractEndpoint epDB =
     \<lparr>ep_ServiceName = epdb_ServiceName epDB, ep_ExternalPath = epdb_ExternalPath epDB,
      ep_InternalPath = epdb_InternalPath epDB, ep_Scheme = epdb_Scheme epDB, ep_AuthType = epdb_AuthType epDB,
      ep_AppName = epdb_AppName epDB\<rparr>"

definition extractUIExtension :: "ExtensionDB \<Rightarrow> UIExtension option" where
  "extractUIExtension extDB =
     (if exdb_UILabel extDB \<noteq> [] then
        Some \<lparr>ui_Label = exdb_UILabel extDB, ui_ServiceName = exdb_UIServiceName extDB,
              ui_Description = exdb_UIDescription extDB, ui_FileName = exdb_UIFileName extDB,
              ui_AppName = exdb_UIAppName extDB, ui_ModuleName = exdb_UIModuleName extDB\<rparr>
      else None)"

definition extractExtension :: "ExtensionDB \<Rightarrow> APIExtension txm" where
  "extractExtension extDB =
     bnd (orDBError (query (\<lambda>d. q_all (\<lambda>e. epdb_extension_fk e = exdb_ID extDB) (t_endpoints d)))) (\<lambda>epsDB.
     ret \<lparr>ext_Name = exdb_Name extDB, ext_Version = exdb_Version extDB, ext_DisplayName = exdb_DisplayName extDB,
          ext_Description = exdb_Description extDB, ext_Endpoints = map extractEndpoint epsDB,
          ext_UiExtension = extractUIExtension extDB\<rparr>)"

definition extractExtensions :: "DeploymentPackageDB \<Rightarrow> APIExtension list txm" where
  "extractExtensions pkgDB =
     bnd (orDBError (query (\<lambda>d. q_all (\<lambda>x. exdb_deployment_package_fk x = kdb_ID pkgDB) (t_extensions d))))
       (mapM extractExtension)"

definition extractArtifactReference :: "ArtifactReferenceDB \<Rightarrow> ArtifactReference txm" where
  "extractArtifactReference refDB =
     bnd (orDBError (query (\<lambda>d. q_only (\<lambda>r. tdb_ID r = afdb_artifact refDB) (t_artifacts d)))) (\<lambda>artifactDB.
     ret \<lparr>aref_Name = tdb_Name artifactDB, aref_Purpose = afdb_Purpose refDB\<rparr>)"

definition extractArtifactReferences :: "DeploymentPackageDB \<Rightarrow> ArtifactReference list txm" where
  "extractArtifactReferences pkgDB =
     bnd (orDBError (query (\<lambda>d. q_all (\<lambda>f. afdb_deployment_package_fk f = kdb_ID pkgDB) (t_artifact_references d))))
       (mapM extractArtifactReference)"

definition extractDeploymentPackage :: "DeploymentPackageDB \<Rightarrow> DeploymentPackage txm" where
  "extractDeploymentPackage pkgDB =
     bnd (extractApplicationReferences pkgDB) (\<lambda>applications.
     bnd (extractDeploymentProfiles pkgDB (hasDuplicateAppNames applications) True) (\<lambda>profiles.
     bnd (extractApplicationDependencies pkgDB) (\<lambda>applicationDependencies.
     bnd (extractApplicationNamespaces pkgDB) (\<lambda>applicationNamespaces.
     bnd (extractNamespaces pkgDB) (\<lambda>namespaces.
     bnd (extractExtensions pkgDB) (\<lambda>extensions.
     bnd (extractArtifactReferences pkgDB) (\<lambda>artifacts.
     bnd (query (\<lambda>d. q_only (\<lambda>p. kdb_default_profile pkgDB = Some (dpdb_ID p)) (t_deployment_profiles d))) (\<lambda>found.
     bnd (case found of
            Inl err \<Rightarrow>
              if err = EntNotFound
              then ret (if length profiles = 1 then dpr_Name (hd profiles) else [])
              else throw (dbError err)
          | Inr profileDB \<Rightarrow> ret (dpdb_Name profileDB)) (\<lambda>defaultProfileName.
     ret \<lparr>dp_Name = kdb_Name pkgDB, dp_DisplayName = kdb_DisplayName pkgDB, dp_Description = kdb_Description pkgDB,
          dp_Version = kdb_Version pkgDB, dp_Kind = kindFromDB (packageKind pkgDB),
          dp_ApplicationReferences = applications, dp_IsDeployed = kdb_IsDeployed pkgDB,
          dp_IsVisible = kdb_IsVisible pkgDB, dp_Profiles = profiles, dp_DefaultProfileName = defaultProfileName,
          dp_ApplicationDependencies = applicationDependencies, dp_Extensions = extensions, dp_Artifacts = artifacts,
          dp_DefaultNamespaces = applicationNamespaces,
          dp_ForbidsMultipleDeployments = (\<not> kdb_AllowsMultipleDeployments pkgDB), dp_Namespaces = namespaces,
          dp_CreateTime = Some (kdb_CreateTime pkgDB), dp_UpdateTime = Some (kdb_UpdateTime pkgDB)\<rparr>)))))))))"

definition dpColumns :: "(string \<times> string) list" where
  "dpColumns =
     [(''publisherName'', []), (''name'', ''name''), (''displayName'', ''display_name''),
      (''description'', ''description''), (''version'', ''version''), (''createTime'', ''create_time''),
      (''updateTime'', ''update_time'')]"

definition getDeploymentPackages ::
    "env \<Rightarrow> string \<Rightarrow> Kind list \<Rightarrow> orderBy list \<Rightarrow> filter list \<Rightarrow> int32 \<Rightarrow> int32 \<Rightarrow>
     (DeploymentPackage list \<times> string list \<times> int32) txm" where
  "getDeploymentPackages env projectUUID kinds orderBys filters pageSize offset =
     bnd (liftE (orderByOptions orderBys dpColumns DeploymentPackageType)) (\<lambda>orderOptions.
     bnd (liftE (filterPredicates filters dpColumns DeploymentPackageType)) (\<lambda>dpPreds.
     let kindFilter = (case kindPredicate kinds of None \<Rightarrow> (\<lambda>_. True) | Some P \<Rightarrow> P)
     in bnd (orDBError (query (\<lambda>d. q_list (e_engine env) packageColumn packageText orderOptions dpPreds
               (\<lambda>k. kindFilter (kdb_Kind k) \<and> (projectUUID = [] \<or> kdb_ProjectUUID k = projectUUID))
               (t_deployment_packages d)))) (\<lambda>pkgsDB.
        bnd (liftE (computePageRange pageSize offset (int (length pkgsDB)))) (\<lambda>(startIndex, endIndex, _).
        if pkgsDB = [] then ret ([], [], 0)
        else (case pageOf pkgsDB startIndex endIndex of
                None \<Rightarrow> throw goPanic
              | Some page \<Rightarrow>
                  bnd (mapM extractDeploymentPackage page) (\<lambda>packages.
                  ret (packages, map kdb_ProjectUUID page, of_nat (length pkgsDB))))))))"

section \<open>Creation keeps the tables well-formed\<close>

lemma tri_appendPackage [tri_intro]: "tri P (appendPackage ev projectUUID pkg) (\<lambda>_. P)"
  unfolding appendPackage_def by (intro tri_intro)

lemma tri_checkDeploymentPackageUniqueness [tri_intro]: "tri P (checkDeploymentPackageUniqueness projectUUID a) (\<lambda>_. P)"
  unfolding checkDeploymentPackageUniqueness_def by (intro tri_intro tri_bnd_same tri_query_same)

lemma tri_checkDeploymentPackageNotDeployed [tri_intro]:
  "tri P (checkDeploymentPackageNotDeployed projectUUID pkg) (\<lambda>_. P)"
  unfolding checkDeploymentPackageNotDeployed_def by (intro tri_intro tri_bnd_same tri_query_same)

lemma findReference_found:
  "tri P (findReference u r) (\<lambda>i d. P d \<and> (i, u) \<in> applicationOwners d)"
  unfolding findReference_def
  by (rule tri_bnd_found [where R = "\<lambda>a d. P d \<and> (adb_ID a, u) \<in> applicationOwners d"])
    (auto intro!: tri_if tri_throw tri_ret simp: applicationOwners_def applicationIn_def image_iff dest!: q_first_Inr)

text \<open>Replacing the applications leaves the dependencies and namespaces as they are.\<close>

lemma createApplicationReferences_ok:
  assumes "kdb_ID pkgDB = k"
  shows "tri (replacing u dl nl k) (createApplicationReferences u pkg pkgDB) (\<lambda>_. replacing u True True k)"
    and "tri (\<lambda>d. replacing u dl nl k d \<and> blank k d) (createApplicationReferences u pkg pkgDB)
      (\<lambda>_ d. replacing u True True k d \<and> blank k d)"
proof -
  have found: "tri P (mapM (findReference u) rs) (\<lambda>is d. P d \<and> (\<forall>i \<in> set is. (i, u) \<in> applicationOwners d))" for P rs
    by (rule mapM_found) (rule findReference_found)
  show "tri (replacing u dl nl k) (createApplicationReferences u pkg pkgDB) (\<lambda>_. replacing u True True k)"
    unfolding createApplicationReferences_def assms
    by (intro tri_bnd [OF found] tri_done) (auto dest!: setPackageApplications_ok)
  show "tri (\<lambda>d. replacing u dl nl k d \<and> blank k d) (createApplicationReferences u pkg pkgDB)
      (\<lambda>_ d. replacing u True True k d \<and> blank k d)"
    unfolding createApplicationReferences_def assms
    by (intro tri_bnd [OF found] tri_done) (auto simp: blank_def dest!: setPackageApplications_ok)
qed

text \<open>The applications found by name are among the ones the package refers to.\<close>

definition members :: "nat \<Rightarrow> (string \<times> ApplicationDB) list \<Rightarrow> db \<Rightarrow> bool" where
  "members k m d \<longleftrightarrow> (\<forall>n a. map_of m n = Some a \<longrightarrow> adb_Name a = n \<and> (k, adb_ID a) \<in> set (t_package_applications d) \<and>
     a \<in> set (t_applications d))"

lemma map_of_applicationsByName:
  "map_of (applicationsByName as) n = Some a \<Longrightarrow> a \<in> set as \<and> adb_Name a = n"
  unfolding applicationsByName_def
  by (induction as rule: rev_induct) (auto simp: map_of_AList_update split: if_splits)

lemma applicationsIn_found:
  "tri P (orDBError (query (\<lambda>d. Inr (applicationsIn k d)))) (\<lambda>as d. P d \<and> members k (applicationsByName as) d)"
  by (rule tri_found) (auto simp: members_def applicationsIn_def dest!: map_of_applicationsByName)

lemma createDependency_ok:
  assumes "kdb_ID pkgDB = k"
  shows "tri (\<lambda>d. replacing u dl nl k d \<and> members k m d) (createDependency pkg pkgDB m dep)
     (\<lambda>_ d. replacing u dl nl k d \<and> members k m d)"
proof -
  have "replacing u dl nl k d' \<and> members k m d'"
    if d: "replacing u dl nl k d \<and> members k m d" and "ad_Name dep \<noteq> ad_Requires dep"
      and m: "map_of m (ad_Name dep) = Some a" "map_of m (ad_Requires dep) = Some b"
      and c: "createApplicationDependencyRow \<lparr>adepdb_deployment_package_fk = kdb_ID pkgDB, adepdb_source_fk = adb_ID a,
        adepdb_target_fk = adb_ID b\<rparr> n d = (Inr v, d')" for d n v d' a b
  proof -
    have ab: "adb_Name a = ad_Name dep" "adb_Name b = ad_Requires dep" "a \<in> set (t_applications d)" "b \<in> set (t_applications d)"
      "(k, adb_ID a) \<in> set (t_package_applications d)" "(k, adb_ID b) \<in> set (t_package_applications d)"
      using d m by (auto simp: members_def)
    have "keyed (t_next d) adb_ID applicationKey (t_applications d)"
      using d by (simp add: replacing_def base_ok_def keys_ok_def)
    then have "adb_ID a \<noteq> adb_ID b"
      using ab that(2) keyed_ident_inj [of _ adb_ID applicationKey _ a b] by metis
    then show ?thesis
      using createApplicationDependencyRow_ok [OF c, of u dl nl k] d ab assms by (auto simp: members_def)
  qed
  then show ?thesis
    unfolding createDependency_def by (intro tri_if tri_throw tri_case_option tri_done)
qed

lemma createApplicationDependencies_ok:
  assumes "kdb_ID pkgDB = k"
  shows "tri (replacing u dl nl k) (createApplicationDependencies pkg pkgDB) (\<lambda>_. replacing u dl nl k)"
  unfolding createApplicationDependencies_def assms
  by (rule tri_bnd [OF applicationsIn_found], rule tri_weaken [OF tri_forM [OF createDependency_ok [OF assms]]])
    auto

lemma createNamespaceOf_ok:
  assumes "kdb_ID pkgDB = k"
  shows "tri (\<lambda>d. replacing u dl nl k d \<and> members k m d) (createNamespaceOf pkg pkgDB m entry)
     (\<lambda>_ d. replacing u dl nl k d \<and> members k m d)"
proof -
  have "replacing u dl nl k d' \<and> members k m d'"
    if d: "replacing u dl nl k d \<and> members k m d" and m: "map_of m (fst entry) = Some a"
      and c: "createApplicationNamespaceRow \<lparr>ansdb_deployment_package_fk = kdb_ID pkgDB, ansdb_source_fk = adb_ID a,
        ansdb_Namespace = snd entry\<rparr> n d = (Inr v, d')" for d n v d' a
    using createApplicationNamespaceRow_ok [OF c, of u dl nl k] d m assms by (auto simp: members_def)
  then show ?thesis
    unfolding createNamespaceOf_def by (intro tri_throw tri_case_option tri_done)
qed

lemma createApplicationNamespaces_ok:
  assumes "kdb_ID pkgDB = k"
  shows "tri (replacing u dl nl k) (createApplicationNamespaces pkg pkgDB) (\<lambda>_. replacing u dl nl k)"
  unfolding createApplicationNamespaces_def assms
  by (rule tri_bnd [OF applicationsIn_found], rule tri_weaken [OF tri_forM [OF createNamespaceOf_ok [OF assms]]])
    auto

lemma createAdornments_ok:
  "tri (\<lambda>d. replacing u dl nl k d \<and> i \<in> nsdb_ID ` set (t_namespaces d)) (createAdornments i ty entries)
     (\<lambda>_ d. replacing u dl nl k d \<and> i \<in> nsdb_ID ` set (t_namespaces d))"
  unfolding createAdornments_def
  by (intro tri_forM tri_case_prod tri_done) (auto dest!: createNamespaceAdornmentRow_ok)

lemma createNamespaces_ok:
  assumes "kdb_ID pkgDB = k"
  shows "tri (replacing u dl nl k) (createNamespaces pkg pkgDB) (\<lambda>_. replacing u dl nl k)"
proof -
  have make: "tri (replacing u dl nl k) (orDBError (mutate (createNamespaceRow
      \<lparr>nsdb_ID = 0, nsdb_deployment_package_fk = kdb_ID pkgDB, nsdb_Name = n\<rparr>)))
      (\<lambda>ns d. replacing u dl nl k d \<and> nsdb_ID ns \<in> nsdb_ID ` set (t_namespaces d))" for n
    by (rule tri_done) (auto simp: assms dest!: createNamespaceRow_ok)
  show ?thesis
    unfolding createNamespaces_def
    by (intro tri_forM tri_bnd [OF make] tri_bnd [OF createAdornments_ok] tri_weaken [OF createAdornments_ok]) auto
qed

lemma createExtensions_ok:
  assumes "kdb_ID pkgDB = k"
  shows "tri (replacing u dl nl k) (createExtensions pkg pkgDB) (\<lambda>_. replacing u dl nl k)"
proof -
  have make: "tri (replacing u dl nl k) (orDBError (mutate (createExtensionRow (newExtensionRow (kdb_ID pkgDB) ext))))
      (\<lambda>x d. replacing u dl nl k d \<and> exdb_ID x \<in> exdb_ID ` set (t_extensions d))" for ext
    by (rule tri_done) (auto simp: assms newExtensionRow_def Let_def dest!: createExtensionRow_ok)
  have ep: "tri (\<lambda>d. replacing u dl nl k d \<and> i \<in> exdb_ID ` set (t_extensions d))
      (forM eps (\<lambda>ep. orDBError (mutate (createEndpointRow (newEndpointRow i ep)))))
      (\<lambda>_ d. replacing u dl nl k d \<and> i \<in> exdb_ID ` set (t_extensions d))" for i eps
    by (intro tri_forM tri_done) (auto simp: newEndpointRow_def dest!: createEndpointRow_ok)
  show ?thesis
    unfolding createExtensions_def
    by (intro tri_forM tri_bnd [OF make] tri_weaken [OF ep]) auto
qed

lemma createArtifactReferences_ok:
  assumes "kdb_ID pkgDB = k"
  shows "tri (replacing u dl nl k) (createArtifactReferences u pkg pkgDB) (\<lambda>_. replacing u dl nl k)"
  unfolding createArtifactReferences_def
  by (intro tri_forM tri_bnd_found [where R = "\<lambda>r d. replacing u dl nl k d \<and> (tdb_ID r, u) \<in> artifactOwners d"]
      tri_if tri_throw tri_done)
    (auto simp: assms artifactOwners_def dest!: q_only_Inr_in createArtifactReferenceRow_ok)

lemma injectAll_ok:
  assumes "kdb_ID pkgDB = k"
  shows "tri (replacingWith u dl nl k (set_option i)) (injectAll pkg pkgDB i ps) (\<lambda>i. replacingWith u dl nl k (set_option i))"
proof (induction ps arbitrary: i)
  case Nil
  then show ?case by (simp add: tri_ret)
next
  case (Cons p ps)
  show ?case
    unfolding injectAll.simps
  proof (rule tri_bnd [OF injectDeploymentProfile_ok [OF assms]])
    fix c
    show "tri (replacingWith u dl nl k (insert (dpdb_ID c) (set_option i)))
       (injectAll pkg pkgDB (if dp_DefaultProfileName pkg \<noteq> [] \<and> dp_DefaultProfileName pkg = dpr_Name p
          then Some (dpdb_ID c) else i) ps) (\<lambda>i. replacingWith u dl nl k (set_option i))"
      by (rule tri_weaken [OF Cons.IH]) (auto simp: replacingWith_def split: if_splits)
  qed
qed

text \<open>Only the default profile of a package changes, to one of its own.\<close>

lemma setDefault_ok:
  assumes "updateDeploymentPackageRows P (\<lambda>k. k\<lparr>kdb_default_profile := Some i\<rparr>) n d = (Inr v, d')"
    and "replacing u dl nl k d" and "\<And>r. r \<in> set (t_deployment_packages d) \<Longrightarrow> P r \<Longrightarrow> (i, kdb_ID r) \<in> deploymentProfiles d"
  shows "replacing u dl nl k d'"
proof -
  have "packageKeys_ok d" using assms(2) base_okD(5) by (simp add: replacing_def)
  then have "replacing u dl nl k d' \<and> deploymentProfiles d' = deploymentProfiles d"
    using assms(3) by (intro updateDeploymentPackageRows_ok [OF assms(1,2)]) (auto simp: packageKey_def packageKeys_ok_def)
  then show ?thesis ..
qed

lemma createDeploymentProfiles_ok:
  assumes "kdb_ID pkgDB = k"
  shows "tri (replacing u dl nl k) (createDeploymentProfiles ps pkg pkgDB) (\<lambda>_. replacing u dl nl k)"
proof -
  have inj: "tri (replacing u dl nl k) (injectAll pkg pkgDB None ps) (\<lambda>i. replacingWith u dl nl k (set_option i))"
    by (rule tri_weaken [OF injectAll_ok [OF assms, of u dl nl None]]) (auto simp: replacingWith_def)
  have "tri (replacingWith u dl nl k {i}) (orDBError (mutate (updateDeploymentPackageRows (\<lambda>k. kdb_ID k = kdb_ID pkgDB)
      (\<lambda>k. k\<lparr>kdb_default_profile := Some i\<rparr>)))) (\<lambda>_. replacing u dl nl k)" for i
    by (rule tri_done) (auto simp: replacingWith_def assms intro: setDefault_ok)
  then show ?thesis
    unfolding createDeploymentProfiles_def
    by (intro tri_bnd [OF inj] tri_case_option tri_bnd [where R = "\<lambda>_. replacing u dl nl k"] tri_ret)
      (auto simp: replacingWith_def)
qed

lemma updateDefaultDeploymentProfile_ok:
  "tri (replacing u dl nl k) (updateDefaultDeploymentProfile projectUUID name n v) (\<lambda>_. replacing u dl nl k)"
proof -
  have set: "tri (\<lambda>d. replacing u dl nl k d \<and> p \<in> set (t_deployment_profiles d) \<and>
        (\<exists>r \<in> set (t_deployment_packages d). kdb_ID r = dpdb_deployment_package_fk p \<and> packageIn projectUUID n v r))
      (orDBError (mutate (updateDeploymentPackageRows (packageIn projectUUID n v)
        (\<lambda>k. k\<lparr>kdb_default_profile := Some (dpdb_ID p)\<rparr>)))) (\<lambda>_. replacing u dl nl k)" for p
  proof (rule tri_done)
    fix now d w d'
    assume d: "replacing u dl nl k d \<and> p \<in> set (t_deployment_profiles d) \<and>
        (\<exists>r \<in> set (t_deployment_packages d). kdb_ID r = dpdb_deployment_package_fk p \<and> packageIn projectUUID n v r)"
      and w: "updateDeploymentPackageRows (packageIn projectUUID n v) (\<lambda>k. k\<lparr>kdb_default_profile := Some (dpdb_ID p)\<rparr>) now d = (Inr w, d')"
    then obtain r where r: "r \<in> set (t_deployment_packages d)" "kdb_ID r = dpdb_deployment_package_fk p" "packageIn projectUUID n v r"
      by blast
    have k: "keyed (t_next d) kdb_ID packageKey (t_deployment_packages d)"
      using d base_okD(5) by (auto simp: replacing_def packageKeys_ok_def)
    have "(dpdb_ID p, kdb_ID q) \<in> deploymentProfiles d"
      if "q \<in> set (t_deployment_packages d)" "packageIn projectUUID n v q" for q
    proof -
      have "q = r" using keyed_key_inj [OF k that(1) r(1)] that(2) r(3) by (simp add: packageKey_def packageIn_def)
      with d r(2) show ?thesis by (auto simp: deploymentProfiles_def)
    qed
    with d w show "replacing u dl nl k d'" by (auto intro: setDefault_ok)
  qed
  show ?thesis
    unfolding updateDefaultDeploymentProfile_def
    by (intro tri_if tri_ret tri_bnd_found [where R = "\<lambda>p d. replacing u dl nl k d \<and> p \<in> set (t_deployment_profiles d) \<and>
        (\<exists>r \<in> set (t_deployment_packages d). kdb_ID r = dpdb_deployment_package_fk p \<and> packageIn projectUUID n v r)"]
        tri_throw tri_bnd [OF set])
      (auto simp: list_ex_iff dest!: q_first_Inr)
qed

lemma createPackageParts_ok:
  assumes "kdb_ID pkgDB = k"
  shows "tri (\<lambda>d. replacing u False False k d \<and> blank k d) (createPackageParts u pkg pkgDB) (\<lambda>_. db_ok)"
proof -
  have refs: "tri (\<lambda>d. replacing u False False k d \<and> blank k d) (createApplicationReferences u pkg pkgDB)
      (\<lambda>_. replacing u False False k)"
    by (rule tri_weaken [OF createApplicationReferences_ok(2) [OF assms]]) (auto intro: replacing_blank)
  have last: "tri (replacing u False False k) (createArtifactReferences u pkg pkgDB) (\<lambda>_. db_ok)"
    by (rule tri_weaken [OF createArtifactReferences_ok [OF assms, of u False False]]) (auto simp: replacing_db_ok)
  show ?thesis
    unfolding createPackageParts_def
    by (intro tri_bnd [OF refs] tri_bnd [OF createApplicationDependencies_ok [OF assms]]
        tri_bnd [OF createApplicationNamespaces_ok [OF assms]] tri_bnd [OF createNamespaces_ok [OF assms]]
        tri_bnd [OF createDeploymentProfiles_ok [OF assms]] tri_bnd [OF updateDefaultDeploymentProfile_ok]
        tri_bnd [OF createExtensions_ok [OF assms]] last)
qed

lemma createDeploymentPackage_ok: "tri db_ok (createDeploymentPackage projectUUID pkg) (\<lambda>_. db_ok)"
proof -
  have saved: "replacing projectUUID False False (kdb_ID k) d' \<and> blank (kdb_ID k) d'"
    if "db_ok d" "createDeploymentPackageRow (newPackageRow projectUUID dn pkg) n d = (Inr k, d')" for dn n d k d'
    using createDeploymentPackageRow_ok [OF that(2,1)] by (simp add: newPackageRow_def)
  show ?thesis
    unfolding createDeploymentPackage_def
    by (intro tri_if tri_throw tri_case_prod tri_bnd_same [OF tri_checkDeploymentPackageUniqueness]
        tri_bnd_saved [where R = "\<lambda>k d. replacing projectUUID False False (kdb_ID k) d \<and> blank (kdb_ID k) d"]
        tri_bnd [OF createPackageParts_ok [OF refl]] tri_bnd_same [OF tri_appendPackage] tri_ret)
      (auto dest: saved)
qed

section \<open>Extraction reads only\<close>

lemma tri_extractApplicationReferences [tri_intro]: "tri P (extractApplicationReferences k) (\<lambda>_. P)"
  unfolding extractApplicationReferences_def by (intro tri_intro tri_bnd_same tri_found)

lemma tri_extractDeploymentProfiles [tri_intro]: "tri P (extractDeploymentProfiles k b c) (\<lambda>_. P)"
  unfolding extractDeploymentProfiles_def extractDeploymentProfile_def
  by (intro tri_intro tri_bnd_same tri_found tri_mapM)

lemma tri_extractApplicationDependencies [tri_intro]: "tri P (extractApplicationDependencies k) (\<lambda>_. P)"
  unfolding extractApplicationDependencies_def extractDependency_def
  by (intro tri_intro tri_bnd_same tri_found tri_mapM)

lemma tri_extractApplicationNamespaces [tri_intro]: "tri P (extractApplicationNamespaces k) (\<lambda>_. P)"
  unfolding extractApplicationNamespaces_def extractNamespaceOf_def
  by (intro tri_intro tri_bnd_same tri_found tri_mapM)

lemma tri_extractNamespaces [tri_intro]: "tri P (extractNamespaces k) (\<lambda>_. P)"
  unfolding extractNamespaces_def extractNamespace_def by (intro tri_intro tri_bnd_same tri_found tri_mapM)

lemma tri_extractExtensions [tri_intro]: "tri P (extractExtensions k) (\<lambda>_. P)"
  unfolding extractExtensions_def extractExtension_def by (intro tri_intro tri_bnd_same tri_found tri_mapM)

lemma tri_extractArtifactReferences [tri_intro]: "tri P (extractArtifactReferences k) (\<lambda>_. P)"
  unfolding extractArtifactReferences_def extractArtifactReference_def
  by (intro tri_intro tri_bnd_same tri_found tri_mapM)

lemma tri_extractDeploymentPackage [tri_intro]: "tri P (extractDeploymentPackage k) (\<lambda>_. P)"
  unfolding extractDeploymentPackage_def by (intro tri_intro tri_bnd_same tri_query_same)

lemma tri_getDeploymentPackages [tri_intro]: "tri P (getDeploymentPackages env p ks obs fs n off) (\<lambda>_. P)"
  unfolding getDeploymentPackages_def Let_def by (intro tri_intro tri_bnd_same tri_found tri_mapM)

end
