(* ===== verification/Deployment_Package_Update.thy ===== *)
theory Deployment_Package_Update
  imports Deployment_Package_Service
begin

text \<open>
  The update of a deployment package, \<^verbatim>\<open>internal/northbound/deployment-package.go\<close>: what differs
  between the given and the stored package, and the replacement of the parts that differ. While
  the applications are replaced the dependencies and default namespaces lag behind; the update
  always rebuilds both, so that the tables it commits are well-formed again.
\<close>

section \<open>What an update changes\<close>

record packageChanges =
  pc_kindOrState :: bool
  pc_rootRecord :: bool
  pc_applications :: bool
  pc_profiles :: bool
  pc_profile :: bool
  pc_dependencies :: bool
  pc_defaultNamespaces :: bool
  pc_namespaces :: bool
  pc_extensions :: bool
  pc_artifacts :: bool
  pc_newProfiles :: "DeploymentProfile list"

definition packageChanged :: "packageChanges \<Rightarrow> bool" where
  "packageChanged c \<longleftrightarrow> pc_rootRecord c \<or> pc_applications c \<or> pc_profiles c \<or> pc_profile c \<or> pc_dependencies c \<or>
     pc_defaultNamespaces c \<or> pc_namespaces c \<or> pc_extensions c \<or> pc_artifacts c"

definition changedKindOrDeployedState :: "packageChanges \<Rightarrow> bool" where
  "changedKindOrDeployedState c \<longleftrightarrow> pc_kindOrState c"

text \<open>
  \<^verbatim>\<open>reflect.DeepEqual\<close> of two maps. A nil map equals only a nil map: a map of a message
  decoded from the wire is nil when it has no entries, a map read from the tables never is.
\<close>

definition sameMap :: "strmap option \<Rightarrow> strmap option \<Rightarrow> bool" where
  "sameMap given stored = (case (given, stored) of
     (None, None) \<Rightarrow> True
   | (Some a, Some b) \<Rightarrow> length a = length b \<and> list_all (\<lambda>(k, v). map_of b k = Some v) a
   | _ \<Rightarrow> False)"

definition deploymentPackageChanged :: "DeploymentPackage \<Rightarrow> DeploymentPackageDB \<Rightarrow> bool" where
  "deploymentPackageChanged pkg pkgDB \<longleftrightarrow>
     dp_DisplayName pkg \<noteq> kdb_DisplayName pkgDB \<or> dp_Description pkg \<noteq> kdb_Description pkgDB \<or>
     dp_IsVisible pkg \<noteq> kdb_IsVisible pkgDB \<or>
     dp_ForbidsMultipleDeployments pkg = kdb_AllowsMultipleDeployments pkgDB"

definition referenceKey :: "ApplicationReference \<Rightarrow> string" where
  "referenceKey ref = ar_Name ref @ ''@'' @ ar_Version ref"

definition appReferencesAreSame :: "ApplicationReference \<Rightarrow> ApplicationReference \<Rightarrow> bool" where
  "appReferencesAreSame a b \<longleftrightarrow> ar_Name a = ar_Name b \<and> ar_Version a = ar_Version b"

text \<open>The map of a list by a key, built in order: a later element of the same key wins.\<close>

definition byKey :: "('x \<Rightarrow> string) \<Rightarrow> 'x list \<Rightarrow> (string \<times> 'x) list" where
  "byKey key xs = foldl (\<lambda>m x. AList.update (key x) x m) [] xs"

text \<open>Whether one of the given elements has no equal among the existing ones.\<close>

definition differs :: "('x \<Rightarrow> string) \<Rightarrow> ('x \<Rightarrow> 'x \<Rightarrow> bool) \<Rightarrow> 'x list \<Rightarrow> 'x list \<Rightarrow> bool" where
  "differs key same given existing \<longleftrightarrow>
     list_ex (\<lambda>x. case map_of (byKey key existing) (key x) of None \<Rightarrow> True | Some y \<Rightarrow> \<not> same x y) given"

definition applicationReferencesChanged :: "DeploymentPackage \<Rightarrow> DeploymentPackageDB \<Rightarrow> bool txm" where
  "applicationReferencesChanged pkg pkgDB =
     bnd (extractApplicationReferences pkgDB) (\<lambda>appRefs.
     if length appRefs \<noteq> length (dp_ApplicationReferences pkg) then ret True
     else ret (differs referenceKey appReferencesAreSame (dp_ApplicationReferences pkg) appRefs))"

definition deploymentProfilesAreSame :: "DeploymentProfile \<Rightarrow> DeploymentProfile \<Rightarrow> bool" where
  "deploymentProfilesAreSame a b \<longleftrightarrow>
     dpr_Name a = dpr_Name b \<and> dpr_DisplayName a = dpr_DisplayName b \<and> dpr_Description a = dpr_Description b \<and>
     sameMap (dpr_ApplicationProfiles a) (dpr_ApplicationProfiles b)"

fun compareDeploymentProfiles ::
    "(string \<times> DeploymentProfile) list \<Rightarrow> DeploymentProfile list \<Rightarrow> DeploymentProfile list \<Rightarrow> bool \<times> DeploymentProfile list" where
  "compareDeploymentProfiles existing newProfiles [] = (if existing \<noteq> [] then (True, []) else (False, newProfiles))"
| "compareDeploymentProfiles existing newProfiles (p # ps) =
     (case map_of existing (dpr_Name p) of
        Some existingProfile \<Rightarrow>
          if \<not> deploymentProfilesAreSame p existingProfile then (True, [])
          else compareDeploymentProfiles (AList.delete (dpr_Name existingProfile) existing) newProfiles ps
      | None \<Rightarrow> compareDeploymentProfiles existing (newProfiles @ [p]) ps)"

definition deploymentProfilesChanged ::
    "DeploymentPackage \<Rightarrow> DeploymentPackageDB \<Rightarrow> (bool \<times> DeploymentProfile list) txm" where
  "deploymentProfilesChanged pkg pkgDB =
     bnd (extractDeploymentProfiles pkgDB False False) (\<lambda>profiles.
     if length profiles > length (dp_Profiles pkg) then ret (True, [])
     else ret (compareDeploymentProfiles (byKey dpr_Name profiles) [] (dp_Profiles pkg)))"

definition defaultDeploymentProfileChanged :: "DeploymentPackage \<Rightarrow> DeploymentPackageDB \<Rightarrow> bool txm" where
  "defaultDeploymentProfileChanged pkg pkgDB =
     bnd (query (\<lambda>d. q_only (\<lambda>p. kdb_default_profile pkgDB = Some (dpdb_ID p)) (t_deployment_profiles d))) (\<lambda>found.
     case found of
       Inl err \<Rightarrow> if err = EntNotFound then ret (dp_DefaultProfileName pkg \<noteq> []) else throw (dbError err)
     | Inr dpDB \<Rightarrow> ret (dp_DefaultProfileName pkg \<noteq> dpdb_Name dpDB))"

definition dependencyKey :: "ApplicationDependency \<Rightarrow> string" where
  "dependencyKey dep = ad_Name dep @ ''/'' @ ad_Requires dep"

fun compareDependencies ::
    "DeploymentPackage \<Rightarrow> string list \<Rightarrow> string list \<Rightarrow> ApplicationDependency list \<Rightarrow> bool result" where
  "compareDependencies pkg existing apps [] = Inr False"
| "compareDependencies pkg existing apps (dep # deps) =
     (if dependencyKey dep \<notin> set existing then Inr True
      else if ad_Name dep \<notin> set apps
      then Inl (pkgNamedError (dp_Name pkg) (dp_Version pkg) ''dependency source %s not found'' [ad_Name dep])
      else if ad_Requires dep \<notin> set apps
      then Inl (pkgNamedError (dp_Name pkg) (dp_Version pkg) ''dependency target %s not found'' [ad_Requires dep])
      else compareDependencies pkg existing apps deps)"

definition applicationDependenciesChanged :: "DeploymentPackage \<Rightarrow> DeploymentPackageDB \<Rightarrow> bool txm" where
  "applicationDependenciesChanged pkg pkgDB =
     bnd (extractApplicationDependencies pkgDB) (\<lambda>appDeps.
     if length appDeps \<noteq> length (dp_ApplicationDependencies pkg) then ret True
     else liftE (compareDependencies pkg (map dependencyKey appDeps) (map ar_Name (dp_ApplicationReferences pkg))
            (dp_ApplicationDependencies pkg)))"

fun compareDefaultNamespaces ::
    "DeploymentPackage \<Rightarrow> strmap \<Rightarrow> string list \<Rightarrow> strmap \<Rightarrow> bool result" where
  "compareDefaultNamespaces pkg existing apps [] = Inr False"
| "compareDefaultNamespaces pkg existing apps ((appName, appNamespace) # entries) =
     (if map_of existing appName \<noteq> Some appNamespace
      then Inl (pkgNamedError (dp_Name pkg) (dp_Version pkg) ''application %s does not exist'' [appName])
      else if appName \<notin> set apps then Inr True
      else compareDefaultNamespaces pkg existing apps entries)"

definition applicationNamespacesChanged :: "DeploymentPackage \<Rightarrow> DeploymentPackageDB \<Rightarrow> bool txm" where
  "applicationNamespacesChanged pkg pkgDB =
     bnd (extractApplicationNamespaces pkgDB) (\<lambda>existingNamespaces.
     bnd (extractApplicationReferences pkgDB) (\<lambda>appRefs.
     if length existingNamespaces \<noteq> length (dp_DefaultNamespaces pkg) then ret True
     else liftE (compareDefaultNamespaces pkg existingNamespaces (map ar_Name appRefs) (dp_DefaultNamespaces pkg))))"

definition namespacesAreSame :: "Namespace \<Rightarrow> Namespace \<Rightarrow> bool" where
  "namespacesAreSame given ns \<longleftrightarrow>
     sameMap (ns_Labels given) (ns_Labels ns) \<and> sameMap (ns_Annotations given) (ns_Annotations ns)"

definition namespacesChanged :: "DeploymentPackage \<Rightarrow> DeploymentPackageDB \<Rightarrow> bool txm" where
  "namespacesChanged pkg pkgDB =
     bnd (extractNamespaces pkgDB) (\<lambda>namespaces.
     if length namespaces \<noteq> length (dp_Namespaces pkg) then ret True
     else ret (differs ns_Name namespacesAreSame (dp_Namespaces pkg) namespaces))"

definition sameUIExtension :: "env \<Rightarrow> APIExtension \<Rightarrow> UIExtension option \<Rightarrow> bool" where
  "sameUIExtension env a b = (case (ext_UiExtension a, b) of
     (None, None) \<Rightarrow> True | (Some x, Some y) \<Rightarrow> x = y \<and> e_sameState env a | _ \<Rightarrow> False)"

definition extensionsAreSame :: "env \<Rightarrow> APIExtension \<Rightarrow> APIExtension \<Rightarrow> bool" where
  "extensionsAreSame env a b \<longleftrightarrow>
     ext_Name a = ext_Name b \<and> ext_Version a = ext_Version b \<and> ext_DisplayName a = ext_DisplayName b \<and>
     ext_Description a = ext_Description b \<and>
     (ext_Endpoints a \<noteq> [] \<and> ext_Endpoints a = ext_Endpoints b \<and> e_sameState env a) \<and>
     sameUIExtension env a (ext_UiExtension b)"

definition extensionsChanged :: "env \<Rightarrow> DeploymentPackage \<Rightarrow> DeploymentPackageDB \<Rightarrow> bool txm" where
  "extensionsChanged env pkg pkgDB =
     bnd (extractExtensions pkgDB) (\<lambda>extensions.
     if length extensions \<noteq> length (dp_Extensions pkg) then ret True
     else ret (differs ext_Name (extensionsAreSame env) (dp_Extensions pkg) extensions))"

definition artifactsAreSame :: "ArtifactReference \<Rightarrow> ArtifactReference \<Rightarrow> bool" where
  "artifactsAreSame a b \<longleftrightarrow> aref_Name a = aref_Name b \<and> aref_Purpose a = aref_Purpose b"

definition artifactReferencesChanged :: "DeploymentPackage \<Rightarrow> DeploymentPackageDB \<Rightarrow> bool txm" where
  "artifactReferencesChanged pkg pkgDB =
     bnd (extractArtifactReferences pkgDB) (\<lambda>artifacts.
     if length artifacts \<noteq> length (dp_Artifacts pkg) then ret True
     else ret (differs aref_Name artifactsAreSame (dp_Artifacts pkg) artifacts))"

definition computePackageChanges :: "env \<Rightarrow> DeploymentPackage \<Rightarrow> DeploymentPackageDB \<Rightarrow> packageChanges txm" where
  "computePackageChanges env pkg pkgDB =
     bnd (applicationReferencesChanged pkg pkgDB) (\<lambda>applications.
     bnd (deploymentProfilesChanged pkg pkgDB) (\<lambda>(profiles, newProfiles).
     bnd (defaultDeploymentProfileChanged pkg pkgDB) (\<lambda>profile.
     bnd (applicationDependenciesChanged pkg pkgDB) (\<lambda>dependencies.
     bnd (applicationNamespacesChanged pkg pkgDB) (\<lambda>defaultNamespaces.
     bnd (namespacesChanged pkg pkgDB) (\<lambda>namespaces.
     bnd (extensionsChanged env pkg pkgDB) (\<lambda>extensions.
     bnd (artifactReferencesChanged pkg pkgDB) (\<lambda>artifacts.
     ret \<lparr>pc_kindOrState = (\<not> isSameKind (dp_Kind pkg) (packageKind pkgDB) \<or> dp_IsDeployed pkg \<noteq> kdb_IsDeployed pkgDB),
          pc_rootRecord = deploymentPackageChanged pkg pkgDB, pc_applications = applications,
          pc_profiles = profiles, pc_profile = profile, pc_dependencies = dependencies,
          pc_defaultNamespaces = defaultNamespaces, pc_namespaces = namespaces, pc_extensions = extensions,
          pc_artifacts = artifacts, pc_newProfiles = newProfiles\<rparr>))))))))"

section \<open>Replacing the parts\<close>

definition updateApplicationDependencies :: "DeploymentPackage \<Rightarrow> DeploymentPackageDB \<Rightarrow> unit txm" where
  "updateApplicationDependencies pkg pkgDB =
     bnd (orDBError (mutate (deleteApplicationDependencyRows (\<lambda>q. adepdb_deployment_package_fk q = kdb_ID pkgDB)))) (\<lambda>_.
     createApplicationDependencies pkg pkgDB)"

definition updateApplicationNamespaces :: "DeploymentPackage \<Rightarrow> DeploymentPackageDB \<Rightarrow> unit txm" where
  "updateApplicationNamespaces pkg pkgDB =
     bnd (orDBError (mutate (deleteApplicationNamespaceRows (\<lambda>q. ansdb_deployment_package_fk q = kdb_ID pkgDB)))) (\<lambda>_.
     createApplicationNamespaces pkg pkgDB)"

definition updateNamespaces :: "DeploymentPackage \<Rightarrow> DeploymentPackageDB \<Rightarrow> unit txm" where
  "updateNamespaces pkg pkgDB =
     bnd (orDBError (mutate (deleteNamespaceRows (\<lambda>n. nsdb_deployment_package_fk n = kdb_ID pkgDB)))) (\<lambda>_.
     createNamespaces pkg pkgDB)"

definition updateExtensions :: "DeploymentPackage \<Rightarrow> DeploymentPackageDB \<Rightarrow> unit txm" where
  "updateExtensions pkg pkgDB =
     bnd (orDBError (mutate (deleteExtensionRows (\<lambda>x. exdb_deployment_package_fk x = kdb_ID pkgDB)))) (\<lambda>_.
     createExtensions pkg pkgDB)"

definition updateArtifactReferences :: "string \<Rightarrow> DeploymentPackage \<Rightarrow> DeploymentPackageDB \<Rightarrow> unit txm" where
  "updateArtifactReferences projectUUID pkg pkgDB =
     bnd (orDBError (mutate (deleteArtifactReferenceRows (\<lambda>f. afdb_deployment_package_fk f = kdb_ID pkgDB)))) (\<lambda>_.
     createArtifactReferences projectUUID pkg pkgDB)"

fun checkGivenDeploymentProfiles :: "string list \<Rightarrow> string list \<Rightarrow> DeploymentProfile list \<Rightarrow> unit result" where
  "checkGivenDeploymentProfiles names displayNames [] = Inr ()"
| "checkGivenDeploymentProfiles names displayNames (p # ps) =
     (if dpr_Name p \<in> set names
      then Inl (NewAlreadyExists [WithResourceType DeploymentProfileType, WithResourceName (dpr_Name p)])
      else if ToLower (dpr_DisplayName p) \<in> set displayNames
      then Inl (NewAlreadyExists [WithResourceType DeploymentProfileType, WithResourceName (dpr_Name p),
        WithMessage ''deployment profile %s display name %s is not unique'' [dpr_Name p, dpr_DisplayName p]])
      else checkGivenDeploymentProfiles (dpr_Name p # names) (ToLower (dpr_DisplayName p) # displayNames) ps)"

fun replaceDeploymentProfiles ::
    "DeploymentPackageDB \<Rightarrow> (string \<times> DeploymentProfile) list \<Rightarrow> DeploymentProfileDB list \<Rightarrow>
     (string \<times> DeploymentProfile) list txm" where
  "replaceDeploymentProfiles pkgDB given [] = ret given"
| "replaceDeploymentProfiles pkgDB given (profileDB # profilesDB) =
     bnd (case map_of given (dpdb_Name profileDB) of
            None \<Rightarrow> orDBError (mutate (deleteDeploymentProfileID (dpdb_ID profileDB)))
          | Some profile \<Rightarrow> updateDeploymentProfile profile profileDB pkgDB) (\<lambda>_.
     replaceDeploymentProfiles pkgDB (AList.delete (dpdb_Name profileDB) given) profilesDB)"

definition updateDeploymentProfiles :: "env \<Rightarrow> DeploymentPackage \<Rightarrow> DeploymentPackageDB \<Rightarrow> unit txm" where
  "updateDeploymentProfiles env pkg pkgDB =
     bnd (liftE (checkGivenDeploymentProfiles [] [] (dp_Profiles pkg))) (\<lambda>_.
     bnd (orDBError (query (\<lambda>d. Inr (deploymentProfilesIn (kdb_ID pkgDB) d)))) (\<lambda>profilesDB.
     bnd (replaceDeploymentProfiles pkgDB (map (\<lambda>p. (dpr_Name p, p)) (dp_Profiles pkg)) profilesDB) (\<lambda>given.
     createDeploymentProfiles (e_rangeDeploymentProfiles env (map snd given)) pkg pkgDB)))"

definition updatePackageKindOrDeployedState :: "string \<Rightarrow> DeploymentPackage \<Rightarrow> unit txm" where
  "updatePackageKindOrDeployedState projectUUID pkg =
     bnd (orDBError (mutate (updateDeploymentPackageRows (packageIn projectUUID (dp_Name pkg) (dp_Version pkg))
            (\<lambda>k. k\<lparr>kdb_IsDeployed := dp_IsDeployed pkg, kdb_Kind := Some (kindToDB (dp_Kind pkg))\<rparr>)))) (\<lambda>updateCount.
     if updateCount = 0 then throw (pkgNotFound (dp_Name pkg) (dp_Version pkg)) else ret ())"

definition setPackage :: "string \<Rightarrow> DeploymentPackage \<Rightarrow> DeploymentPackageDB \<Rightarrow> DeploymentPackageDB" where
  "setPackage displayName pkg k =
     k\<lparr>kdb_DisplayName := displayName, kdb_DisplayNameLc := ToLower displayName,
       kdb_Description := dp_Description pkg, kdb_Version := dp_Version pkg, kdb_IsVisible := dp_IsVisible pkg,
       kdb_IsDeployed := dp_IsDeployed pkg,
       kdb_AllowsMultipleDeployments := (\<not> dp_ForbidsMultipleDeployments pkg),
       kdb_Kind := Some (kindToDB (dp_Kind pkg))\<rparr>"

text \<open>
  The record itself and the parts that changed, after the checks. The display name is looked up
  in the project with the empty name, as the code does.
\<close>

definition replacePackageParts ::
    "env \<Rightarrow> string \<Rightarrow> DeploymentPackage \<Rightarrow> DeploymentPackageDB \<Rightarrow> packageChanges \<Rightarrow> unit txm" where
  "replacePackageParts env projectUUID pkg pkgDB changes =
     bnd (if pc_applications changes then createApplicationReferences projectUUID pkg pkgDB else ret ()) (\<lambda>_.
     bnd (if pc_dependencies changes \<or> pc_applications changes then updateApplicationDependencies pkg pkgDB else ret ()) (\<lambda>_.
     bnd (if pc_defaultNamespaces changes \<or> pc_applications changes then updateApplicationNamespaces pkg pkgDB else ret ()) (\<lambda>_.
     bnd (if pc_namespaces changes then updateNamespaces pkg pkgDB else ret ()) (\<lambda>_.
     bnd (if pc_profiles changes \<or> pc_applications changes then updateDeploymentProfiles env pkg pkgDB
          else if pc_newProfiles changes \<noteq> [] then createDeploymentProfiles (pc_newProfiles changes) pkg pkgDB
          else ret ()) (\<lambda>_.
     bnd (if pc_profile changes \<or> pc_profiles changes
          then updateDefaultDeploymentProfile projectUUID (dp_DefaultProfileName pkg) (dp_Name pkg) (dp_Version pkg)
          else ret ()) (\<lambda>_.
     bnd (if pc_extensions changes then updateExtensions pkg pkgDB else ret ()) (\<lambda>_.
     if pc_artifacts changes then updateArtifactReferences projectUUID pkg pkgDB else ret ())))))))"

definition applyPackageChanges ::
    "env \<Rightarrow> string \<Rightarrow> string \<Rightarrow> DeploymentPackage \<Rightarrow> DeploymentPackageDB \<Rightarrow> packageChanges \<Rightarrow> unit txm" where
  "applyPackageChanges env projectUUID displayName pkg pkgDB changes =
     bnd (checkDeploymentPackageUniqueness [] pkg) (\<lambda>_.
     bnd (orDBError (mutate (updateDeploymentPackageRows (packageIn projectUUID (dp_Name pkg) (dp_Version pkg))
            (setPackage displayName pkg)))) (\<lambda>updateCount.
     if updateCount = 0 then throw (pkgNotFound (dp_Name pkg) (dp_Version pkg))
     else
       bnd (replacePackageParts env projectUUID pkg pkgDB changes) (\<lambda>_.
       appendPackage UpdatedEvent projectUUID pkg)))"

definition updateDeploymentPackage :: "env \<Rightarrow> string \<Rightarrow> DeploymentPackage \<Rightarrow> unit txm" where
  "updateDeploymentPackage env projectUUID pkg =
     (if dp_Profiles pkg \<noteq> [] \<and> dp_DefaultProfileName pkg = []
      then throw (pkgError ''default profile name must be specified'' [])
      else (case validateDisplayName (dp_Name pkg) (dp_DisplayName pkg) of (displayName, ok) \<Rightarrow>
        if \<not> ok then throw (pkgNamedError (dp_Name pkg) (dp_Version pkg) ''display name cannot contain leading or trailing spaces'' [])
        else
          bnd (getDeploymentPackage projectUUID (dp_Name pkg) (dp_Version pkg)) (\<lambda>found.
          case found of
            None \<Rightarrow> throw (pkgNotFound (dp_Name pkg) (dp_Version pkg))
          | Some pkgDB \<Rightarrow>
              bnd (computePackageChanges env pkg pkgDB) (\<lambda>changes.
              if changedKindOrDeployedState changes \<and> \<not> packageChanged changes
              then updatePackageKindOrDeployedState projectUUID pkg
              else
                bnd (if packageChanged changes then checkDeploymentPackageNotDeployed projectUUID pkg else ret ()) (\<lambda>_.
                applyPackageChanges env projectUUID displayName pkg pkgDB changes)))))"

section \<open>Computing the changes reads only\<close>

lemma tri_computePackageChanges [tri_intro]: "tri P (computePackageChanges env pkg pkgDB) (\<lambda>_. P)"
  unfolding computePackageChanges_def applicationReferencesChanged_def deploymentProfilesChanged_def
    defaultDeploymentProfileChanged_def applicationDependenciesChanged_def applicationNamespacesChanged_def
    namespacesChanged_def extensionsChanged_def artifactReferencesChanged_def
  by (intro tri_intro tri_bnd_same tri_query_same)

section \<open>The update keeps the tables well-formed\<close>

lemma updateApplicationDependencies_ok:
  assumes "kdb_ID pkgDB = k"
  shows "tri (replacing u dl nl k) (updateApplicationDependencies pkg pkgDB) (\<lambda>_. replacing u False nl k)"
proof -
  have "tri (replacing u dl nl k) (orDBError (mutate (deleteApplicationDependencyRows
      (\<lambda>q. adepdb_deployment_package_fk q = k)))) (\<lambda>_. replacing u False nl k)"
    by (rule tri_done) (rule deleteApplicationDependencyRows_ok)
  then show ?thesis
    unfolding updateApplicationDependencies_def assms
    by (rule tri_bnd) (rule createApplicationDependencies_ok [OF assms])
qed

lemma updateApplicationNamespaces_ok:
  assumes "kdb_ID pkgDB = k"
  shows "tri (replacing u dl nl k) (updateApplicationNamespaces pkg pkgDB) (\<lambda>_. replacing u dl False k)"
proof -
  have "tri (replacing u dl nl k) (orDBError (mutate (deleteApplicationNamespaceRows
      (\<lambda>q. ansdb_deployment_package_fk q = k)))) (\<lambda>_. replacing u dl False k)"
    by (rule tri_done) (rule deleteApplicationNamespaceRows_ok)
  then show ?thesis
    unfolding updateApplicationNamespaces_def assms
    by (rule tri_bnd) (rule createApplicationNamespaces_ok [OF assms])
qed

lemma updateOwned_ok:
  assumes "kdb_ID pkgDB = k"
  shows "tri (replacing u dl nl k) (updateNamespaces pkg pkgDB) (\<lambda>_. replacing u dl nl k)"
    and "tri (replacing u dl nl k) (updateExtensions pkg pkgDB) (\<lambda>_. replacing u dl nl k)"
    and "tri (replacing u dl nl k) (updateArtifactReferences u pkg pkgDB) (\<lambda>_. replacing u dl nl k)"
  unfolding updateNamespaces_def updateExtensions_def updateArtifactReferences_def
  by (intro tri_bnd_same tri_done createNamespaces_ok [OF assms] createExtensions_ok [OF assms]
      createArtifactReferences_ok [OF assms],
      (erule deleteNamespaceRows_ok | erule deleteExtensionRows_ok | erule deleteArtifactReferenceRows_ok), assumption)+

lemma replaceDeploymentProfiles_ok:
  "tri (replacing u dl nl k) (replaceDeploymentProfiles pkgDB given ps) (\<lambda>_. replacing u dl nl k)"
proof (induction ps arbitrary: given)
  case Nil
  then show ?case by (simp add: tri_ret)
next
  case (Cons p ps)
  have "tri (replacing u dl nl k) (orDBError (mutate (deleteDeploymentProfileID (dpdb_ID p)))) (\<lambda>_. replacing u dl nl k)"
    by (rule tri_done) (rule deleteDeploymentProfileID_ok)
  then show ?case
    unfolding replaceDeploymentProfiles.simps
    by (intro tri_bnd_same [OF tri_case_option] updateDeploymentProfile_ok Cons.IH)
qed

lemma updateDeploymentProfiles_ok:
  assumes "kdb_ID pkgDB = k"
  shows "tri (replacing u dl nl k) (updateDeploymentProfiles env pkg pkgDB) (\<lambda>_. replacing u dl nl k)"
  unfolding updateDeploymentProfiles_def
  by (intro tri_bnd_same [OF tri_liftE] tri_bnd_same [OF tri_found] tri_bnd_same [OF replaceDeploymentProfiles_ok]
      createDeploymentProfiles_ok [OF assms])

lemma replacing_weaken: "replacing u dl nl k d \<Longrightarrow> (dl \<Longrightarrow> dl') \<Longrightarrow> (nl \<Longrightarrow> nl') \<Longrightarrow> replacing u dl' nl' k d"
  unfolding replacing_def members_upto_def by blast

text \<open>Dependencies and namespaces lag from the moment the applications are replaced until they are rebuilt.\<close>

lemma replacePackageParts_ok:
  assumes "kdb_ID pkgDB = k"
  shows "tri (replacing u False False k) (replacePackageParts env u pkg pkgDB changes) (\<lambda>_. replacing u False False k)"
proof -
  let ?a = "pc_applications changes"
  have refs: "tri (replacing u False False k) (if ?a then createApplicationReferences u pkg pkgDB else ret ())
      (\<lambda>_. replacing u ?a ?a k)"
    using createApplicationReferences_ok(1) [OF assms] by (auto intro: tri_ret)
  have deps: "tri (replacing u ?a ?a k) (if pc_dependencies changes \<or> ?a then updateApplicationDependencies pkg pkgDB
      else ret ()) (\<lambda>_. replacing u False ?a k)"
    using updateApplicationDependencies_ok [OF assms] by (auto intro: tri_ret)
  have nss: "tri (replacing u False ?a k) (if pc_defaultNamespaces changes \<or> ?a then updateApplicationNamespaces pkg pkgDB
      else ret ()) (\<lambda>_. replacing u False False k)"
    using updateApplicationNamespaces_ok [OF assms] by (auto intro: tri_ret)
  show ?thesis
    unfolding replacePackageParts_def
    by (intro tri_bnd [OF refs] tri_bnd [OF deps] tri_bnd [OF nss] tri_bnd_same [OF tri_if] tri_if tri_ret
        updateOwned_ok [OF assms] updateDeploymentProfiles_ok [OF assms] createDeploymentProfiles_ok [OF assms]
        updateDefaultDeploymentProfile_ok)
qed

lemma packageRows_ok:
  assumes "updateDeploymentPackageRows P f n d = (Inr v, d')" and "replacing u dl nl k d"
    and "\<And>r. P r \<Longrightarrow> kdb_ID (f r) = kdb_ID r \<and> packageKey (f r) = packageKey r \<and>
      (kdb_DisplayNameLc r = ToLower (kdb_DisplayName r) \<longrightarrow> kdb_DisplayNameLc (f r) = ToLower (kdb_DisplayName (f r))) \<and>
      kdb_default_profile (f r) = kdb_default_profile r"
  shows "replacing u dl nl k d'"
proof -
  have "packageKeys_ok d" "packageOwned_ok d" using assms(2) base_okD(5,6) by (auto simp: replacing_def)
  then have "replacing u dl nl k d' \<and> deploymentProfiles d' = deploymentProfiles d"
    using assms(3) by (intro updateDeploymentPackageRows_ok [OF assms(1,2)]) (auto simp: packageKeys_ok_def packageOwned_ok_def)
  then show ?thesis ..
qed

lemma applyPackageChanges_ok:
  assumes "kdb_ID pkgDB = k"
  shows "tri (replacing u False False k) (applyPackageChanges env u dn pkg pkgDB changes) (\<lambda>_. db_ok)"
proof -
  have upd: "tri (replacing u False False k) (orDBError (mutate (updateDeploymentPackageRows
      (packageIn u (dp_Name pkg) (dp_Version pkg)) (setPackage dn pkg)))) (\<lambda>_. replacing u False False k)"
    by (rule tri_done, rule packageRows_ok, assumption, assumption) (auto simp: setPackage_def packageKey_def packageIn_def)
  have event: "tri (replacing u False False k) (appendPackage UpdatedEvent u pkg) (\<lambda>_. db_ok)"
    by (rule tri_weaken [OF tri_appendPackage [of "replacing u False False k"]]) (auto simp: replacing_db_ok)
  show ?thesis
    unfolding applyPackageChanges_def
    by (intro tri_bnd_same [OF tri_checkDeploymentPackageUniqueness] tri_bnd [OF upd] tri_if tri_throw
        tri_bnd [OF replacePackageParts_ok [OF assms]] event)
qed

lemma updatePackageKindOrDeployedState_ok:
  "tri (replacing u False False k) (updatePackageKindOrDeployedState u pkg) (\<lambda>_. db_ok)"
proof -
  have upd: "tri (replacing u False False k) (orDBError (mutate (updateDeploymentPackageRows
      (packageIn u (dp_Name pkg) (dp_Version pkg))
      (\<lambda>k. k\<lparr>kdb_IsDeployed := dp_IsDeployed pkg, kdb_Kind := Some (kindToDB (dp_Kind pkg))\<rparr>)))) (\<lambda>_. replacing u False False k)"
    by (rule tri_done, rule packageRows_ok, assumption, assumption) (auto simp: packageKey_def)
  show ?thesis
    unfolding updatePackageKindOrDeployedState_def
    by (intro tri_bnd [OF upd] tri_if tri_throw tri_ret) (simp add: replacing_db_ok)
qed

lemma updateDeploymentPackage_ok: "tri db_ok (updateDeploymentPackage env u pkg) (\<lambda>_. db_ok)"
proof -
  have rest: "tri (replacing u False False (kdb_ID k)) (bnd (computePackageChanges env pkg k) (\<lambda>changes.
      if changedKindOrDeployedState changes \<and> \<not> packageChanged changes then updatePackageKindOrDeployedState u pkg
      else bnd (if packageChanged changes then checkDeploymentPackageNotDeployed u pkg else ret ()) (\<lambda>_.
        applyPackageChanges env u dn pkg k changes))) (\<lambda>_. db_ok)" for k dn
    by (intro tri_bnd_same [OF tri_computePackageChanges] tri_if updatePackageKindOrDeployedState_ok
        tri_bnd_same [OF tri_if] tri_checkDeploymentPackageNotDeployed tri_ret applyPackageChanges_ok [OF refl])
  have "tri (\<lambda>d. db_ok d \<and> (\<forall>k. Some k' = Some k \<longrightarrow> k \<in> set (t_deployment_packages d) \<and> packageIn u n v k))
      (bnd (computePackageChanges env pkg k') (\<lambda>changes.
      if changedKindOrDeployedState changes \<and> \<not> packageChanged changes then updatePackageKindOrDeployedState u pkg
      else bnd (if packageChanged changes then checkDeploymentPackageNotDeployed u pkg else ret ()) (\<lambda>_.
        applyPackageChanges env u dn pkg k' changes))) (\<lambda>_. db_ok)" for n v dn k'
    by (rule tri_weaken [OF rest]) (auto simp: replacing_db_ok packageOwners_def packageIn_def)
  then show ?thesis
    unfolding updateDeploymentPackage_def
    by (intro tri_if tri_throw tri_case_prod tri_bnd [OF getDeploymentPackage_found] tri_case_option) auto
qed

end
