(* ===== verification/Deployment_Package_Handlers.thy ===== *)
theory Deployment_Package_Handlers
  imports Deployment_Package_Update
begin

text \<open>
  The handlers of deployment packages, \<^verbatim>\<open>internal/northbound/deployment-package.go\<close>, and that they
  meet the contracts of handlers, of reading handlers and of watches.
\<close>

section \<open>Handlers\<close>

definition createdPackage :: "DeploymentPackage \<Rightarrow> DeploymentPackageDB \<Rightarrow> DeploymentPackage" where
  "createdPackage pkg created =
     \<lparr>dp_Name = kdb_Name created, dp_DisplayName = kdb_DisplayName created, dp_Description = kdb_Description created,
      dp_Version = kdb_Version created, dp_Kind = kindFromDB (packageKind created),
      dp_ApplicationReferences = dp_ApplicationReferences pkg, dp_IsDeployed = kdb_IsDeployed created,
      dp_IsVisible = kdb_IsVisible created, dp_Profiles = dp_Profiles pkg,
      dp_DefaultProfileName = dp_DefaultProfileName pkg,
      dp_ApplicationDependencies = dp_ApplicationDependencies pkg, dp_Extensions = dp_Extensions pkg,
      dp_Artifacts = dp_Artifacts pkg, dp_DefaultNamespaces = dp_DefaultNamespaces pkg,
      dp_ForbidsMultipleDeployments = dp_ForbidsMultipleDeployments pkg, dp_Namespaces = dp_Namespaces pkg,
      dp_CreateTime = Some (kdb_CreateTime created), dp_UpdateTime = None\<rparr>"

definition CreateDeploymentPackage ::
    "env \<Rightarrow> metadata option \<Rightarrow> DeploymentPackage option \<Rightarrow> server \<Rightarrow> DeploymentPackage result \<times> server" where
  "CreateDeploymentPackage env ctx deploymentPackage srv =
     (case GetActiveProjectID ctx of
        Inl e \<Rightarrow> (Inl e, srv)
      | Inr projectUUID \<Rightarrow>
     (case deploymentPackage of
        None \<Rightarrow> (Inl (incomplete DeploymentPackageType), srv)
      | Some pkg \<Rightarrow>
     (case DeploymentPackage_Validate pkg of
        Some err \<Rightarrow> (Inl (invalidMessage DeploymentPackageType err), srv)
      | None \<Rightarrow>
     (case validateDeploymentProfiles pkg of
        Inl e \<Rightarrow> (Inl e, srv)
      | Inr _ \<Rightarrow>
     (case authCheckAllowed env ctx (CreateDeploymentPackageRequest deploymentPackage) [] of
        Inl e \<Rightarrow> (Inl e, srv)
      | Inr _ \<Rightarrow>
     (case withTransaction env (createDeploymentPackage projectUUID pkg) srv of
        (Inl e, srv1) \<Rightarrow> (Inl e, srv1)
      | (Inr (created, t), srv1) \<Rightarrow>
          (Inr (createdPackage pkg created), sendDeploymentPackage t srv1)))))))"

definition ListDeploymentPackages ::
    "env \<Rightarrow> metadata option \<Rightarrow> ListDeploymentPackagesRequest option \<Rightarrow> server \<Rightarrow>
     (DeploymentPackage list \<times> int32) result \<times> server" where
  "ListDeploymentPackages env ctx req srv =
     (case GetActiveProjectID ctx of
        Inl e \<Rightarrow> (Inl e, srv)
      | Inr projectUUID \<Rightarrow>
     (case req of
        None \<Rightarrow> (Inl (incomplete DeploymentPackageType), srv)
      | Some r \<Rightarrow>
     (case authCheckAllowed env ctx (ListDeploymentPackagesReq r) [] of
        Inl e \<Rightarrow> (Inl e, srv)
      | Inr _ \<Rightarrow>
     (case withTransaction env
             (bnd (liftE (parseOrderBy (ldp_OrderBy r) DeploymentPackageType)) (\<lambda>orderBys.
              bnd (liftE (parseFilter (ldp_Filter r) DeploymentPackageType)) (\<lambda>filters.
              getDeploymentPackages env projectUUID (ldp_Kinds r) orderBys filters (ldp_PageSize r) (ldp_Offset r)))) srv of
        (Inl e, srv1) \<Rightarrow> (Inl e, srv1)
      | (Inr ((packages, _, totalElements), t), srv1) \<Rightarrow> (Inr (packages, totalElements), srv1)))))"

definition packageVersions :: "string \<Rightarrow> string \<Rightarrow> DeploymentPackage list txm" where
  "packageVersions projectUUID name =
     bnd (orDBError (query (\<lambda>d. q_all (\<lambda>k. kdb_ProjectUUID k = projectUUID \<and> kdb_Name k = name)
            (t_deployment_packages d)))) (\<lambda>pkgsDB.
     if pkgsDB = [] then throw (NewNotFound [WithResourceType DeploymentPackageType, WithResourceName name])
     else mapM extractDeploymentPackage pkgsDB)"

definition GetDeploymentPackageVersions ::
    "env \<Rightarrow> metadata option \<Rightarrow> string \<Rightarrow> server \<Rightarrow> DeploymentPackage list result \<times> server" where
  "GetDeploymentPackageVersions env ctx deploymentPackageName srv =
     (case GetActiveProjectID ctx of
        Inl e \<Rightarrow> (Inl e, srv)
      | Inr projectUUID \<Rightarrow>
     if deploymentPackageName = [] then (Inl (incomplete DeploymentPackageType), srv)
     else
     (case authCheckAllowed env ctx (GetDeploymentPackageVersionsRequest deploymentPackageName) [] of
        Inl e \<Rightarrow> (Inl e, srv)
      | Inr _ \<Rightarrow>
     (case withTransaction env (packageVersions projectUUID deploymentPackageName) srv of
        (Inl e, srv1) \<Rightarrow> (Inl e, srv1)
      | (Inr (pkgs, t), srv1) \<Rightarrow> (Inr pkgs, srv1))))"

text \<open>An error of the extraction is wrapped in a database error of its own.\<close>

definition wrapDBError :: "'a txm \<Rightarrow> 'a txm" where
  "wrapDBError x s = (case x s of
     (Inl err, s1) \<Rightarrow> (Inl (NewDBError [WithError (st_format err)]), s1) | (Inr v, s1) \<Rightarrow> (Inr v, s1))"

definition findDeploymentPackage :: "string \<Rightarrow> string \<Rightarrow> string \<Rightarrow> DeploymentPackage txm" where
  "findDeploymentPackage projectUUID name version =
     bnd (query (\<lambda>d. q_only (packageIn projectUUID name version) (t_deployment_packages d))) (\<lambda>found.
     case found of
       Inl err \<Rightarrow> if err = EntNotFound then throw (pkgNotFound name version) else throw (dbError err)
     | Inr pkgDB \<Rightarrow> wrapDBError (extractDeploymentPackage pkgDB))"

definition GetDeploymentPackage ::
    "env \<Rightarrow> metadata option \<Rightarrow> string \<Rightarrow> string \<Rightarrow> server \<Rightarrow> DeploymentPackage result \<times> server" where
  "GetDeploymentPackage env ctx deploymentPackageName version srv =
     (case GetActiveProjectID ctx of
        Inl e \<Rightarrow> (Inl e, srv)
      | Inr projectUUID \<Rightarrow>
     if deploymentPackageName = [] \<or> version = [] then (Inl (incomplete DeploymentPackageType), srv)
     else
     (case authCheckAllowed env ctx (GetDeploymentPackageRequest deploymentPackageName version) [] of
        Inl e \<Rightarrow> (Inl e, srv)
      | Inr _ \<Rightarrow>
     (case withTransaction env (findDeploymentPackage projectUUID deploymentPackageName version) srv of
        (Inl e, srv1) \<Rightarrow> (Inl e, srv1)
      | (Inr (ca, t), srv1) \<Rightarrow> (Inr ca, srv1))))"

definition UpdateDeploymentPackage ::
    "env \<Rightarrow> metadata option \<Rightarrow> string \<Rightarrow> string \<Rightarrow> DeploymentPackage option \<Rightarrow> server \<Rightarrow> unit result \<times> server" where
  "UpdateDeploymentPackage env ctx deploymentPackageName version deploymentPackage srv =
     (case GetActiveProjectID ctx of
        Inl e \<Rightarrow> (Inl e, srv)
      | Inr projectUUID \<Rightarrow>
     (case deploymentPackage of
        None \<Rightarrow> (Inl (incomplete DeploymentPackageType), srv)
      | Some pkg \<Rightarrow>
     if deploymentPackageName = [] \<or> version = [] then (Inl (incomplete DeploymentPackageType), srv)
     else
     (case DeploymentPackage_Validate pkg of
        Some err \<Rightarrow> (Inl (invalidMessage DeploymentPackageType err), srv)
      | None \<Rightarrow>
     if deploymentPackageName \<noteq> dp_Name pkg
     then (Inl (pkgError ''name cannot be changed %s != %s'' [deploymentPackageName, dp_Name pkg]), srv)
     else if version \<noteq> dp_Version pkg
     then (Inl (pkgError ''version cannot be changed %s != %s'' [version, dp_Version pkg]), srv)
     else
     (case validateDeploymentProfiles pkg of
        Inl e \<Rightarrow> (Inl e, srv)
      | Inr _ \<Rightarrow>
     (case authCheckAllowed env ctx (UpdateDeploymentPackageRequest deploymentPackageName version deploymentPackage) [] of
        Inl e \<Rightarrow> (Inl e, srv)
      | Inr _ \<Rightarrow>
     (case withTransaction env (updateDeploymentPackage env projectUUID pkg) srv of
        (Inl e, srv1) \<Rightarrow> (Inl e, srv1)
      | (Inr (_, t), srv1) \<Rightarrow> (Inr (), sendDeploymentPackage t srv1)))))))"

definition emptyPackage :: "string \<Rightarrow> string \<Rightarrow> bool \<Rightarrow> DeploymentPackage" where
  "emptyPackage name version isDeployed =
     \<lparr>dp_Name = name, dp_DisplayName = [], dp_Description = [], dp_Version = version, dp_Kind = KIND_UNSPECIFIED,
      dp_ApplicationReferences = [], dp_IsDeployed = isDeployed, dp_IsVisible = False, dp_Profiles = [],
      dp_DefaultProfileName = [], dp_ApplicationDependencies = [], dp_Extensions = [], dp_Artifacts = [],
      dp_DefaultNamespaces = [], dp_ForbidsMultipleDeployments = False, dp_Namespaces = [], dp_CreateTime = None,
      dp_UpdateTime = None\<rparr>"

definition deletePackageBody :: "string \<Rightarrow> string \<Rightarrow> string \<Rightarrow> unit txm" where
  "deletePackageBody projectUUID name version =
     bnd (checkDeploymentPackageNotDeployed projectUUID (emptyPackage name version True)) (\<lambda>_.
     bnd (orDBError (mutate (deleteDeploymentPackageRows (packageIn projectUUID name version)))) (\<lambda>deleteCount.
     if deleteCount = 0 then throw (pkgNotFound name version) else ret ()))"

definition DeleteDeploymentPackage ::
    "env \<Rightarrow> metadata option \<Rightarrow> string \<Rightarrow> string \<Rightarrow> server \<Rightarrow> unit result \<times> server" where
  "DeleteDeploymentPackage env ctx deploymentPackageName version srv =
     (case GetActiveProjectID ctx of
        Inl e \<Rightarrow> (Inl e, srv)
      | Inr projectUUID \<Rightarrow>
     if deploymentPackageName = [] \<or> version = [] then (Inl (incomplete DeploymentPackageType), srv)
     else
     (case authCheckAllowed env ctx (DeleteDeploymentPackageRequest deploymentPackageName version) [] of
        Inl e \<Rightarrow> (Inl e, srv)
      | Inr _ \<Rightarrow>
     (case startTransaction env srv of
        (Inl e, srv1) \<Rightarrow> (Inl (dbError e), srv1)
      | (Inr t, srv1) \<Rightarrow>
     (case deletePackageBody projectUUID deploymentPackageName version t of
        (Inl e, t1) \<Rightarrow> (Inl e, rollbackTransaction t1 srv1)
      | (Inr _, t1) \<Rightarrow>
     (case checkDeleteResult t1 None srv1 of
        (Inl e, srv2) \<Rightarrow> (Inl e, srv2)
      | (Inr _, srv2) \<Rightarrow>
          (Inr (), sendDeploymentPackage (snd (appendPackage DeletedEvent projectUUID
             (emptyPackage deploymentPackageName version False) t1)) srv2))))))"

definition replayPackages :: "DeploymentPackage list \<Rightarrow> string list \<Rightarrow> DeploymentPackageEvents" where
  "replayPackages packages projectUUIDs =
     foldl (\<lambda>q (pkg, p). appendDeploymentPackageEvent q ReplayedEvent p pkg) [] (zip packages projectUUIDs)"

definition listenPackage :: "chan \<Rightarrow> WatchDeploymentPackagesRequest \<Rightarrow> server \<Rightarrow> server" where
  "listenPackage ch req srv = srv\<lparr>sv_listeners := addDeploymentPackageListener ch req (sv_listeners srv)\<rparr>"

definition WatchDeploymentPackages ::
    "env \<Rightarrow> WatchDeploymentPackagesRequest option \<Rightarrow> WatchDeploymentPackagesResponse stream option \<Rightarrow> chan \<Rightarrow> server \<Rightarrow>
     unit result \<times> DeploymentPackageEvents \<times> server" where
  "WatchDeploymentPackages env request stream ch srv =
     (case stream of
        None \<Rightarrow> (Inl (NewInvalidArgument [WithMessage ''incomplete request'' []]), [], srv)
      | Some (ctx, send) \<Rightarrow>
     (case request of
        None \<Rightarrow> (Inl goPanic, [], srv)
      | Some req \<Rightarrow>
     (case GetActiveProjectIDAllowAdmin ctx (wdp_ProjectId req) of
        Inl e \<Rightarrow> (Inl e, [], srv)
      | Inr projectUUID \<Rightarrow>
     (case authCheckAllowed env ctx (WatchDeploymentPackagesReq req) [] of
        Inl e \<Rightarrow> (Inl e, [], srv)
      | Inr _ \<Rightarrow>
     if wdp_NoReplay req then (Inr (), [], listenPackage ch req srv)
     else
     (case startTransaction env srv of
        (Inl e, srv1) \<Rightarrow> (Inl (dbError e), [], srv1)
      | (Inr t, srv1) \<Rightarrow>
     (case getDeploymentPackages env projectUUID (wdp_Kinds req) [] [] 0 0 t of
        (Inl e, t1) \<Rightarrow> (Inl e, [], rollbackTransaction t1 srv1)
      | (Inr (packages, projectUUIDs, _), t1) \<Rightarrow>
     (case watchEvents send (replayPackages packages projectUUIDs) of
        (sent, Some err) \<Rightarrow> (Inl err, sent, rollbackTransaction t1 srv1)
      | (sent, None) \<Rightarrow>
     (case commitTransaction t1 (listenPackage ch req srv1) of
        (Inl e, srv2) \<Rightarrow> (Inl (dbError e), sent, srv2)
      | (Inr _, srv2) \<Rightarrow> (Inr (), sent, srv2)))))))))"

definition watchDeploymentPackageEvents ::
    "(WatchDeploymentPackagesResponse \<Rightarrow> Status option) \<Rightarrow> DeploymentPackageEvents \<Rightarrow> DeploymentPackageEvents \<times> Status option" where
  "watchDeploymentPackageEvents send = watchEvents send"

definition closePackageWatch :: "chan \<Rightarrow> server \<Rightarrow> server" where
  "closePackageWatch ch srv = srv\<lparr>sv_listeners := deleteDeploymentPackageListener ch (sv_listeners srv)\<rparr>"

section \<open>Reading and deleting\<close>

lemma tri_packageVersions [tri_intro]: "tri P (packageVersions projectUUID n) (\<lambda>_. P)"
  unfolding packageVersions_def by (intro tri_intro tri_bnd_same tri_found tri_mapM)

lemma wrapDBError_Inr: "wrapDBError x s = (Inr v, s1) \<longleftrightarrow> x s = (Inr v, s1)"
  by (auto simp: wrapDBError_def split: prod.splits sum.splits)

lemma tri_wrapDBError [tri_intro]: "tri P x Q \<Longrightarrow> tri P (wrapDBError x) Q"
  by (auto simp: tri_def wrapDBError_Inr)

lemma tri_findDeploymentPackage [tri_intro]: "tri P (findDeploymentPackage projectUUID n v) (\<lambda>_. P)"
  unfolding findDeploymentPackage_def by (intro tri_intro tri_bnd_same tri_query_same)

lemma deletePackageBody_ok: "tri db_ok (deletePackageBody projectUUID n v) (\<lambda>_. db_ok)"
  unfolding deletePackageBody_def
  by (intro tri_intro tri_bnd_same tri_done) (auto dest: deleteDeploymentPackageRows_ok)

section \<open>The handlers meet the contract\<close>

lemma sendDeploymentPackage_simps [simp]:
  "sv_db (sendDeploymentPackage t srv) = sv_db srv" "sv_open (sendDeploymentPackage t srv) = sv_open srv"
  "sv_listeners (sendDeploymentPackage t srv) = sv_listeners srv" "sv_vault (sendDeploymentPackage t srv) = sv_vault srv"
  "sv_regOut (sendDeploymentPackage t srv) = sv_regOut srv" "sv_artOut (sendDeploymentPackage t srv) = sv_artOut srv"
  "sv_appOut (sendDeploymentPackage t srv) = sv_appOut srv"
  by (simp_all add: sendDeploymentPackage_def)

definition admitsCreatePackage :: "env \<Rightarrow> metadata option \<Rightarrow> DeploymentPackage option \<Rightarrow> string \<times> DeploymentPackage \<Rightarrow> bool" where
  "admitsCreatePackage env ctx pkg x \<longleftrightarrow>
     GetActiveProjectID ctx = Inr (fst x) \<and> pkg = Some (snd x) \<and> DeploymentPackage_Validate (snd x) = None \<and>
     validateDeploymentProfiles (snd x) = Inr () \<and>
     authCheckAllowed env ctx (CreateDeploymentPackageRequest pkg) [] = Inr ()"

interpretation create_package: transaction_handler CreateDeploymentPackage admitsCreatePackage fst
  "\<lambda>pkg. (CreateDeploymentPackageRequest pkg, [])" "\<lambda>env x. createDeploymentPackage (fst x) (snd x)"
  "\<lambda>env x. createdPackage (snd x)" "\<lambda>x. sendDeploymentPackage"
proof (unfold_locales, goal_cases)
  case (1 env ctx req srv out)
  then show ?case
    by (auto simp: CreateDeploymentPackage_def admitsCreatePackage_def
        intro!: withTransaction_runs split: sum.splits option.splits)
qed (auto simp: admitsCreatePackage_def intro: createDeploymentPackage_ok)

definition admitsUpdatePackage ::
    "env \<Rightarrow> metadata option \<Rightarrow> string \<times> string \<times> DeploymentPackage option \<Rightarrow> string \<times> DeploymentPackage \<Rightarrow> bool" where
  "admitsUpdatePackage env ctx req x \<longleftrightarrow>
     GetActiveProjectID ctx = Inr (fst x) \<and> req = (dp_Name (snd x), dp_Version (snd x), Some (snd x)) \<and>
     DeploymentPackage_Validate (snd x) = None \<and> validateDeploymentProfiles (snd x) = Inr () \<and>
     authCheckAllowed env ctx (UpdateDeploymentPackageRequest (dp_Name (snd x)) (dp_Version (snd x)) (Some (snd x))) [] = Inr ()"

interpretation update_package: transaction_handler
  "\<lambda>env ctx (name, version, pkg). UpdateDeploymentPackage env ctx name version pkg"
  admitsUpdatePackage fst "\<lambda>(name, version, pkg). (UpdateDeploymentPackageRequest name version pkg, [])"
  "\<lambda>env x. updateDeploymentPackage env (fst x) (snd x)" "\<lambda>env x v. v" "\<lambda>x. sendDeploymentPackage"
proof (unfold_locales, goal_cases)
  case (1 env ctx req srv out)
  obtain name version pkg where "req = (name, version, pkg)" by (cases req)
  with 1 show ?case
    by (auto simp: UpdateDeploymentPackage_def admitsUpdatePackage_def
        intro!: withTransaction_runs split: sum.splits option.splits if_splits)
qed (auto simp: admitsUpdatePackage_def intro: updateDeploymentPackage_ok)

definition listPackagesBody ::
    "env \<Rightarrow> string \<times> ListDeploymentPackagesRequest \<Rightarrow> (DeploymentPackage list \<times> string list \<times> int32) txm" where
  "listPackagesBody env x = (case x of (projectUUID, r) \<Rightarrow>
     bnd (liftE (parseOrderBy (ldp_OrderBy r) DeploymentPackageType)) (\<lambda>orderBys.
     bnd (liftE (parseFilter (ldp_Filter r) DeploymentPackageType)) (\<lambda>filters.
     getDeploymentPackages env projectUUID (ldp_Kinds r) orderBys filters (ldp_PageSize r) (ldp_Offset r))))"

definition admitsListPackages ::
    "env \<Rightarrow> metadata option \<Rightarrow> ListDeploymentPackagesRequest option \<Rightarrow> string \<times> ListDeploymentPackagesRequest \<Rightarrow> bool" where
  "admitsListPackages env ctx req x \<longleftrightarrow>
     GetActiveProjectID ctx = Inr (fst x) \<and> req = Some (snd x) \<and>
     authCheckAllowed env ctx (ListDeploymentPackagesReq (snd x)) [] = Inr ()"

lemma tri_listPackagesBody: "tri P (listPackagesBody env x) (\<lambda>_. P)"
  unfolding listPackagesBody_def by (intro tri_intro tri_bnd_same)

interpretation list_packages: reading_handler ListDeploymentPackages admitsListPackages fst
  "\<lambda>req. case req of Some r \<Rightarrow> (ListDeploymentPackagesReq r, []) | None \<Rightarrow> (GetDeploymentPackageVersionsRequest [], [])"
  listPackagesBody "\<lambda>env x (packages, _, n). (packages, n)" "\<lambda>x t srv. srv"
proof (unfold_locales, goal_cases)
  case (1 env ctx req srv out)
  then show ?case
    by (auto simp: ListDeploymentPackages_def admitsListPackages_def listPackagesBody_def listing_response
        intro!: withTransaction_runs split: sum.splits option.splits)
qed (auto simp: admitsListPackages_def intro: tri_listPackagesBody)

definition admitsPackageVersions :: "env \<Rightarrow> metadata option \<Rightarrow> string \<Rightarrow> string \<times> string \<Rightarrow> bool" where
  "admitsPackageVersions env ctx name x \<longleftrightarrow>
     GetActiveProjectID ctx = Inr (fst x) \<and> name = snd x \<and> name \<noteq> [] \<and>
     authCheckAllowed env ctx (GetDeploymentPackageVersionsRequest name) [] = Inr ()"

interpretation package_versions: reading_handler GetDeploymentPackageVersions admitsPackageVersions fst
  "\<lambda>name. (GetDeploymentPackageVersionsRequest name, [])" "\<lambda>env x. packageVersions (fst x) (snd x)"
  "\<lambda>env x v. v" "\<lambda>x t srv. srv"
proof (unfold_locales, goal_cases)
  case (1 env ctx name srv out)
  then show ?case
    by (auto simp: GetDeploymentPackageVersions_def admitsPackageVersions_def
        intro!: withTransaction_runs split: sum.splits if_splits)
qed (auto simp: admitsPackageVersions_def intro: tri_packageVersions)

definition admitsPackage ::
    "(string \<Rightarrow> string \<Rightarrow> Request) \<Rightarrow> env \<Rightarrow> metadata option \<Rightarrow> string \<times> string \<Rightarrow> string \<times> string \<times> string \<Rightarrow> bool" where
  "admitsPackage request env ctx req x \<longleftrightarrow>
     GetActiveProjectID ctx = Inr (fst x) \<and> req = snd x \<and> fst req \<noteq> [] \<and> snd req \<noteq> [] \<and>
     authCheckAllowed env ctx (request (fst req) (snd req)) [] = Inr ()"

interpretation get_package: reading_handler
  "\<lambda>env ctx (name, version). GetDeploymentPackage env ctx name version" "admitsPackage GetDeploymentPackageRequest" fst
  "\<lambda>(name, version). (GetDeploymentPackageRequest name version, [])"
  "\<lambda>env (projectUUID, name, version). findDeploymentPackage projectUUID name version" "\<lambda>env x v. v" "\<lambda>x t srv. srv"
proof (unfold_locales, goal_cases)
  case (1 env ctx req srv out)
  obtain name version where "req = (name, version)" by (cases req)
  with 1 show ?case
    by (auto simp: GetDeploymentPackage_def admitsPackage_def
        intro!: withTransaction_runs split: sum.splits if_splits)
qed (auto simp: admitsPackage_def intro: tri_findDeploymentPackage)

definition deletedPackage :: "string \<times> string \<times> string \<Rightarrow> tx \<Rightarrow> server \<Rightarrow> server" where
  "deletedPackage x t srv =
     sendDeploymentPackage (snd (appendPackage DeletedEvent (fst x) (emptyPackage (fst (snd x)) (snd (snd x)) False) t)) srv"

interpretation delete_package: transaction_handler
  "\<lambda>env ctx (name, version). DeleteDeploymentPackage env ctx name version"
  "admitsPackage DeleteDeploymentPackageRequest" fst
  "\<lambda>(name, version). (DeleteDeploymentPackageRequest name version, [])"
  "\<lambda>env (projectUUID, name, version). deletePackageBody projectUUID name version" "\<lambda>env x v. v" deletedPackage
proof (unfold_locales, goal_cases)
  case (1 env ctx req srv out)
  obtain name version where req: "req = (name, version)" by (cases req)
  show ?case
  proof (cases "\<exists>p. admitsPackage DeleteDeploymentPackageRequest env ctx req (p, name, version)")
    case True
    then obtain p where p: "admitsPackage DeleteDeploymentPackageRequest env ctx req (p, name, version)" by blast
    have "runs env (deletePackageBody p name version) (\<lambda>v. v) (deletedPackage (p, name, version)) srv out"
      using 1 p by (auto simp: req DeleteDeploymentPackage_def admitsPackage_def runs_def commits_def
        deletedPackage_def checkDeleteResult_def split: sum.splits prod.splits)
    with p show ?thesis by fastforce
  next
    case False
    with 1 show ?thesis
      by (auto simp: req DeleteDeploymentPackage_def admitsPackage_def split: sum.splits if_splits)
  qed
qed (auto simp: admitsPackage_def deletedPackage_def intro: deletePackageBody_ok)

lemma getDeploymentPackages_db:
  "getDeploymentPackages env p ks obs fs n off t = (Inr v, t1) \<Longrightarrow> tx_db t1 = tx_db t"
  using triD [OF tri_getDeploymentPackages [of "\<lambda>d. d = tx_db t"]] by blast

interpretation watch_packages: watch_handler WatchDeploymentPackages addDeploymentPackageListener
proof (unfold_locales, goal_cases)
  case 1
  then show ?case
    unfolding WatchDeploymentPackages_def listenPackage_def rollbackTransaction_def
    by (auto dest!: getDeploymentPackages_db transaction_dests split: watch_splits)
next
  case 2
  then show ?case
    unfolding WatchDeploymentPackages_def listenPackage_def rollbackTransaction_def
    by (auto dest!: transaction_dests split: watch_splits)
next
  case 3
  then show ?case
    unfolding WatchDeploymentPackages_def listenPackage_def
    by (auto dest!: transaction_dests split: watch_splits)
qed

end
