(* ===== verification/Upload_Service.thy ===== *)
theory Upload_Service
  imports Deployment_Package_Handlers
begin

text \<open>
  Uploads, \<^verbatim>\<open>internal/northbound/upload.go\<close>: the sessions, the unpacking of the uploaded files into sets,
  the YAML documents of a set in loading order, and the loading of each document with the operations of its service,
  all documents of a session in one transaction. A session keeps its files and the queues of its events after the
  last upload, whether it succeeded or not.
\<close>

section \<open>File names\<close>

definition HasSuffix :: "string \<Rightarrow> string \<Rightarrow> bool" where
  "HasSuffix s t \<longleftrightarrow> length t \<le> length s \<and> drop (length s - length t) s = t"

text \<open>\<^verbatim>\<open>path.Clean\<close> and \<^verbatim>\<open>path.Dir\<close>: the elements of the path, kept in reverse order.\<close>

fun cleanElements :: "bool \<Rightarrow> string list \<Rightarrow> string list \<Rightarrow> string list" where
  "cleanElements rooted out [] = rev out"
| "cleanElements rooted out (e # es) =
     (if e = [] \<or> e = ''.'' then cleanElements rooted out es
      else if e = ''..'' then
        (case out of
           o1 # os \<Rightarrow> if o1 = ''..'' then cleanElements rooted (e # out) es else cleanElements rooted os es
         | [] \<Rightarrow> if rooted then cleanElements rooted [] es else cleanElements rooted [e] es)
      else cleanElements rooted (e # out) es)"

definition pathClean :: "string \<Rightarrow> string" where
  "pathClean p =
     (let rooted = (p \<noteq> [] \<and> hd p = CHR ''/'');
          s = (if rooted then ''/'' else []) @ intercalate ''/'' (cleanElements rooted [] (Split CHR ''/'' p))
      in if s = [] then ''.'' else s)"

definition pathDir :: "string \<Rightarrow> string" where
  "pathDir p = pathClean (rev (dropWhile (\<lambda>c. c \<noteq> CHR ''/'') (rev p)))"

section \<open>File sets\<close>

type_synonym fileSet = "(string \<times> string) list"

definition goError :: "string \<Rightarrow> string list \<Rightarrow> Status" where
  "goError format args = \<lparr>st_code = Unknown, st_format = format, st_args = args\<rparr>"

definition MaxExtractedFileSize :: nat where
  "MaxExtractedFileSize = 10 * 1024 * 1024"

text \<open>The loop over the archive: at most the first ten megabytes of a file are kept.\<close>

fun extractEntries :: "fileSet \<Rightarrow> tarEntry list \<Rightarrow> string option \<Rightarrow> fileSet result" where
  "extractEntries contents [] (Some err) = Inl (goError ''Failed to read tar header while extracting: %w'' [err])"
| "extractEntries contents [] None = Inr contents"
| "extractEntries contents (e # es) end =
     (if \<not> te_regular e then extractEntries contents es end
      else (case te_error e of
              Some err \<Rightarrow> Inl (goError ''Failed to copy file content while extracting: %w'' [err])
            | None \<Rightarrow> extractEntries (AList.update (te_Name e) (take MaxExtractedFileSize (te_contents e)) contents) es end))"

definition extractTarball :: "env \<Rightarrow> string \<Rightarrow> fileSet result" where
  "extractTarball env fileBytes =
     (case e_untar env fileBytes of
        Inl err \<Rightarrow> Inl (goError ''Failed to create gzip reader while extracting: %w'' [err])
      | Inr (entries, end) \<Rightarrow> extractEntries [] entries end)"

fun loadFiles :: "env \<Rightarrow> fileSet \<Rightarrow> fileSet list \<Rightarrow> Upload list \<Rightarrow> fileSet list result" where
  "loadFiles env base sets [] = Inr (if base \<noteq> [] then sets @ [base] else sets)"
| "loadFiles env base sets (file # files) =
     (if HasSuffix (up_FileName file) ''.tgz'' \<or> HasSuffix (up_FileName file) ''.tar.gz'' then
        (case extractTarball env (up_Artifact file) of
           Inl err \<Rightarrow> Inl (goError ''failed to extract tarball %s: %w'' [up_FileName file, e_errorText env err])
         | Inr extracted \<Rightarrow> loadFiles env base (sets @ [extracted]) files)
      else loadFiles env (AList.update (up_FileName file) (up_Artifact file) base) sets files)"

definition loadFileSets :: "env \<Rightarrow> uploadSession \<Rightarrow> fileSet list result" where
  "loadFileSets env u = loadFiles env [] [] (us_uploads u)"

section \<open>Documents\<close>

text \<open>\<^verbatim>\<open>\s\<close> of Go's regular expressions.\<close>

definition spaceClass :: re where
  "spaceClass = Class (\<lambda>c. c \<in> {CHR 0x09, CHR 0x0A, CHR 0x0C, CHR 0x0D, CHR 0x20})"

definition schemaDirective :: re where
  "schemaDirective = Seq (Star (Class (\<lambda>_. True))) (Seq (lit ''$schema:'') (Seq (Star spaceClass)
     (Seq (lit (CHR 0x22 # ''https://schema.intel.com/catalog.orchestrator/0.1/schema'')) (Star (Class (\<lambda>_. True))))))"

definition shouldValidateYAMLSchema :: "env \<Rightarrow> string \<Rightarrow> bool" where
  "shouldValidateYAMLSchema env fileBytes \<longleftrightarrow> e_yaml env fileBytes \<or> MatchString schemaDirective fileBytes"

fun decodeSpecs :: "env \<Rightarrow> string \<Rightarrow> string \<Rightarrow> YamlSpec list \<Rightarrow> string option \<Rightarrow> YamlSpec list result" where
  "decodeSpecs env fileName fileBytes [] (Some err) = Inl (goError ''document decode failed: %w'' [err])"
| "decodeSpecs env fileName fileBytes [] None = Inr []"
| "decodeSpecs env fileName fileBytes (d # ds) end =
     (if y_SpecSchema d = [] then decodeSpecs env fileName fileBytes ds end
      else (case e_yamlSchema env fileBytes of
              Some err \<Rightarrow> Inl (NewInvalidArgument [WithMessage ''uploaded file %s is invalid YAML: %+v'' [fileName, err], WithError err])
            | None \<Rightarrow> map_sum (\<lambda>e. e) (\<lambda>specs. d\<lparr>y_FileName := fileName\<rparr> # specs) (decodeSpecs env fileName fileBytes ds end)))"

fun loadSpecs :: "env \<Rightarrow> fileSet \<Rightarrow> YamlSpec list result" where
  "loadSpecs env [] = Inr []"
| "loadSpecs env ((fileName, fileBytes) # files) =
     (case (if shouldValidateYAMLSchema env fileBytes
            then (case e_yamlDocs env fileBytes of (docs, end) \<Rightarrow> decodeSpecs env fileName fileBytes docs end)
            else Inr []) of
        Inl e \<Rightarrow> Inl e
      | Inr specs \<Rightarrow> map_sum (\<lambda>e. e) (\<lambda>rest. specs @ rest) (loadSpecs env files))"

definition loadYamlSpecs :: "env \<Rightarrow> fileSet \<Rightarrow> YamlSpec list result" where
  "loadYamlSpecs env files = map_sum (\<lambda>e. e) (sortSpecs (e_sort env)) (loadSpecs env (e_rangeFiles env files))"

section \<open>Messages from documents\<close>

definition valueOrDefault :: "string \<Rightarrow> string \<Rightarrow> string" where
  "valueOrDefault val def = (if val = [] then def else val)"

definition registryOfSpec :: "YamlSpec \<Rightarrow> Registry" where
  "registryOfSpec d =
     \<lparr>r_Name = y_Name d, r_DisplayName = y_DisplayName d, r_Description = y_Description d, r_RootUrl = y_RootURL d,
      r_Username = y_UserName d, r_AuthToken = y_AuthToken d, r_Type = valueOrDefault (GetRegistryType d) helmType,
      r_Cacerts = y_CACerts d, r_ApiType = y_APIType d, r_InventoryUrl = y_InventoryURL d,
      r_CreateTime = None, r_UpdateTime = None\<rparr>"

definition artifactOfSpec :: "YamlSpec \<Rightarrow> string \<Rightarrow> Artifact" where
  "artifactOfSpec d artifactBinary =
     \<lparr>art_Name = y_Name d, art_DisplayName = y_DisplayName d, art_Description = y_Description d,
      art_MimeType = y_MimeType d, art_Artifact = Some artifactBinary, art_CreateTime = None, art_UpdateTime = None\<rparr>"

definition loadProfile :: "string \<Rightarrow> YamlProfile \<Rightarrow> fileSet \<Rightarrow> Profile result" where
  "loadProfile appFileName p f =
     (case (case map_of f (yp_ValuesFileName p) of
              Some b \<Rightarrow> Some b
            | None \<Rightarrow> map_of f (pathDir appFileName @ ''/'' @ yp_ValuesFileName p)) of
        None \<Rightarrow> Inl (NewInvalidArgument [WithMessage ''chart values file %s not found in uploads'' [yp_ValuesFileName p]])
      | Some fileBytes \<Rightarrow> Inr
          \<lparr>p_Name = yp_Name p, p_DisplayName = yp_DisplayName p, p_Description = yp_Description p, p_ChartValues = fileBytes,
           p_ParameterTemplates = map (\<lambda>pt. \<lparr>pt_Name = ypt_Name pt, pt_DisplayName = ypt_DisplayName pt,
             pt_Default = ypt_Default pt, pt_Type = ypt_Type pt, pt_Validator = ypt_Validator pt,
             pt_SuggestedValues = ypt_SuggestedValues pt, pt_Secret = ypt_Secret pt, pt_Mandatory = ypt_Mandatory pt\<rparr>)
             (yp_ParameterTemplates p),
           p_DeploymentRequirement = map (\<lambda>dr. \<lparr>dr_Name = ydr_Name dr, dr_Version = ydr_Version dr,
             dr_DeploymentProfileName = ydr_DeploymentProfile dr\<rparr>) (yp_DeploymentRequirements p),
           p_CreateTime = None, p_UpdateTime = None\<rparr>)"

fun loadProfiles :: "string \<Rightarrow> fileSet \<Rightarrow> YamlProfile list \<Rightarrow> Profile list result" where
  "loadProfiles appFileName f [] = Inr []"
| "loadProfiles appFileName f (p # ps) =
     (case loadProfile appFileName p f of
        Inl e \<Rightarrow> Inl e
      | Inr prof \<Rightarrow> map_sum (\<lambda>e. e) (\<lambda>profs. prof # profs) (loadProfiles appFileName f ps))"

text \<open>The first profile is the default when none is named.\<close>

definition applicationOfSpec :: "YamlSpec \<Rightarrow> Profile list \<Rightarrow> Application" where
  "applicationOfSpec d profiles =
     \<lparr>a_Name = y_Name d, a_DisplayName = y_DisplayName d, a_Description = y_Description d, a_Version = y_Version d,
      a_Kind = kindFromDB (y_Kind d), a_ChartName = y_ChartName d, a_ChartVersion = y_ChartVersion d,
      a_HelmRegistryName = GetHelmRegistry d, a_Profiles = profiles,
      a_DefaultProfileName = (case y_Profiles d of
        p # _ \<Rightarrow> if y_DefaultProfile d = [] then yp_Name p else y_DefaultProfile d | [] \<Rightarrow> y_DefaultProfile d),
      a_ImageRegistryName = y_ImageRegistry d,
      a_IgnoredResources = map (\<lambda>r. \<lparr>rr_Name = yrr_Name r, rr_Kind = yrr_Kind r, rr_Namespace = yrr_Namespace r\<rparr>)
        (y_IgnoredResources d),
      a_CreateTime = None, a_UpdateTime = None\<rparr>"

text \<open>The endpoints and the label of an extension are pointers the code dereferences without a test.\<close>

fun endpointsOfSpec :: "YamlEndpoint option list \<Rightarrow> Endpoint list result" where
  "endpointsOfSpec [] = Inr []"
| "endpointsOfSpec (None # eps) = Inl goPanic"
| "endpointsOfSpec (Some ep # eps) =
     map_sum (\<lambda>err. err) (\<lambda>endpoints. \<lparr>ep_ServiceName = ye_ServiceName ep, ep_ExternalPath = ye_ExternalPath ep,
       ep_InternalPath = ye_InternalPath ep, ep_Scheme = ye_Scheme ep, ep_AuthType = ye_AuthType ep,
       ep_AppName = ye_AppName ep\<rparr> # endpoints) (endpointsOfSpec eps)"

definition uiExtensionOfSpec :: "YamlUIExtension option \<Rightarrow> UIExtension option result" where
  "uiExtensionOfSpec ui =
     (case ui of
        None \<Rightarrow> Inr None
      | Some u \<Rightarrow>
          (case yu_Label u of
             None \<Rightarrow> Inl goPanic
           | Some label \<Rightarrow> Inr (Some \<lparr>ui_Label = label, ui_ServiceName = yu_ServiceName u,
               ui_Description = yu_Description u, ui_FileName = yu_FileName u, ui_AppName = yu_AppName u,
               ui_ModuleName = yu_ModuleName u\<rparr>)))"

definition extensionOfSpec :: "YamlAPIExtension \<Rightarrow> APIExtension result" where
  "extensionOfSpec e =
     (case endpointsOfSpec (yx_Endpoints e) of
        Inl err \<Rightarrow> Inl err
      | Inr endpoints \<Rightarrow>
     (case uiExtensionOfSpec (yx_UIExtension e) of
        Inl err \<Rightarrow> Inl err
      | Inr uiExtension \<Rightarrow> Inr
          \<lparr>ext_Name = yx_Name e, ext_Version = yx_Version e, ext_DisplayName = yx_DisplayName e,
           ext_Description = yx_Description e, ext_Endpoints = endpoints, ext_UiExtension = uiExtension\<rparr>))"

fun extensionsOfSpec :: "YamlAPIExtension list \<Rightarrow> APIExtension list result" where
  "extensionsOfSpec [] = Inr []"
| "extensionsOfSpec (e # es) =
     (case extensionOfSpec e of
        Inl err \<Rightarrow> Inl err
      | Inr ext \<Rightarrow> map_sum (\<lambda>err. err) (\<lambda>exts. ext # exts) (extensionsOfSpec es))"

text \<open>The map of application profiles is allocated, even without entries.\<close>

definition deploymentProfile :: "YamlDeploymentProfile \<Rightarrow> DeploymentProfile" where
  "deploymentProfile p =
     \<lparr>dpr_Name = ydp_Name p, dpr_DisplayName = ydp_DisplayName p, dpr_Description = ydp_Description p,
      dpr_ApplicationProfiles = Some (foldl (\<lambda>m q. AList.update (yap_ApplicationName q) (yap_ProfileName q) m) []
        (ydp_ApplicationProfiles p)),
      dpr_CreateTime = None, dpr_UpdateTime = None\<rparr>"

definition packageOfSpec :: "YamlSpec \<Rightarrow> APIExtension list \<Rightarrow> DeploymentPackage" where
  "packageOfSpec d extensions =
     \<lparr>dp_Name = y_Name d, dp_DisplayName = y_DisplayName d, dp_Description = y_Description d, dp_Version = y_Version d,
      dp_Kind = kindFromDB (y_Kind d),
      dp_ApplicationReferences = map (\<lambda>a. \<lparr>ar_Name = ya_Name a, ar_Version = ya_Version a\<rparr>) (y_Applications d),
      dp_IsDeployed = y_IsDeployed d, dp_IsVisible = y_IsVisible d,
      dp_Profiles = map deploymentProfile (y_DeploymentProfiles d),
      dp_DefaultProfileName = (case y_DeploymentProfiles d of
        p # _ \<Rightarrow> if y_DefaultProfile d = [] then ydp_Name p else y_DefaultProfile d | [] \<Rightarrow> y_DefaultProfile d),
      dp_ApplicationDependencies = map (\<lambda>a. \<lparr>ad_Name = yad_Name a, ad_Requires = yad_Requires a\<rparr>) (y_ApplicationDependencies d),
      dp_Extensions = extensions,
      dp_Artifacts = map (\<lambda>a. \<lparr>aref_Name = yar_Name a, aref_Purpose = yar_Purpose a\<rparr>) (GetArtifacts d),
      dp_DefaultNamespaces = y_DefaultNamespaces d,
      dp_ForbidsMultipleDeployments = y_ForbidsMultipleDeployments d,
      dp_Namespaces = map (\<lambda>n. \<lparr>ns_Name = yn_Name n, ns_Labels = yn_Labels n, ns_Annotations = yn_Annotations n\<rparr>) (y_Namespaces d),
      dp_CreateTime = None, dp_UpdateTime = None\<rparr>"

section \<open>Loading a document\<close>

text \<open>
  A resource that the query does not find is created, one it finds updated; a query that fails for another reason
  counts as not found.
\<close>

definition loadRegistry :: "env \<Rightarrow> string \<Rightarrow> YamlSpec \<Rightarrow> unit txm" where
  "loadRegistry env projectUUID d =
     (let reg = registryOfSpec d
      in bnd (query (\<lambda>t. q_first (inProject projectUUID (r_Name reg)) (t_registries t))) (\<lambda>found.
         case found of
           Inl _ \<Rightarrow> bnd (createRegistry env projectUUID reg) (\<lambda>_. ret ())
         | Inr _ \<Rightarrow> updateRegistry env projectUUID reg))"

definition loadArtifact :: "env \<Rightarrow> string \<Rightarrow> YamlSpec \<Rightarrow> unit txm" where
  "loadArtifact env projectUUID d =
     (case e_base64 env (y_Artifact d) of
        Inl err \<Rightarrow> throw (NewInvalidArgument [WithResourceType ArtifactType,
          WithMessage ''error decoding base64 from file %s %v'' [y_FileName d, err]])
      | Inr artifactBinary \<Rightarrow>
          bnd (liftE (scanArtifact env (Some artifactBinary))) (\<lambda>_.
          let art = artifactOfSpec d artifactBinary
          in bnd (query (\<lambda>t. q_first (artifactIn projectUUID (art_Name art)) (t_artifacts t))) (\<lambda>found.
             case found of
               Inl _ \<Rightarrow> bnd (createArtifact env projectUUID art) (\<lambda>_. ret ())
             | Inr _ \<Rightarrow> updateArtifact env projectUUID art)))"

definition loadApplication :: "env \<Rightarrow> string \<Rightarrow> YamlSpec \<Rightarrow> fileSet \<Rightarrow> unit txm" where
  "loadApplication env projectUUID d f =
     bnd (liftE (loadProfiles (y_FileName d) f (y_Profiles d))) (\<lambda>profiles.
     let app = applicationOfSpec d profiles
     in bnd (query (\<lambda>t. q_first (applicationIn projectUUID (a_Name app) (a_Version app)) (t_applications t))) (\<lambda>found.
        case found of
          Inl _ \<Rightarrow> bnd (createApplication projectUUID app) (\<lambda>_. ret ())
        | Inr _ \<Rightarrow> updateApplication env projectUUID app))"

definition loadDeploymentPackage :: "env \<Rightarrow> string \<Rightarrow> YamlSpec \<Rightarrow> unit txm" where
  "loadDeploymentPackage env projectUUID d =
     bnd (liftE (extensionsOfSpec (y_Extensions d))) (\<lambda>extensions.
     let pkg = packageOfSpec d extensions
     in bnd (query (\<lambda>t. q_first (packageIn projectUUID (dp_Name pkg) (dp_Version pkg)) (t_deployment_packages t))) (\<lambda>found.
        case found of
          Inl _ \<Rightarrow> bnd (createDeploymentPackage projectUUID pkg) (\<lambda>_. ret ())
        | Inr _ \<Rightarrow> updateDeploymentPackage env projectUUID pkg))"

section \<open>Processing a session\<close>

text \<open>The error of a document is reported with its file; a panic is not an error.\<close>

definition inFile :: "env \<Rightarrow> YamlSpec \<Rightarrow> unit txm \<Rightarrow> unit txm" where
  "inFile env d x t =
     (case x t of
        (Inl e, t1) \<Rightarrow> (Inl (if e = goPanic then e else NewInvalidArgument [WithError (e_errorText env e),
          WithMessage ''uploaded file %s: %v'' [y_FileName d, e_errorText env e]]), t1)
      | (Inr v, t1) \<Rightarrow> (Inr v, t1))"

definition loadSpec :: "env \<Rightarrow> string \<Rightarrow> fileSet \<Rightarrow> YamlSpec \<Rightarrow> unit txm" where
  "loadSpec env projectUUID fs d =
     (if y_SpecSchema d = schemaDeploymentPackage \<or> y_SpecSchema d = schemaDeploymentPackageLegacy
      then inFile env d (loadDeploymentPackage env projectUUID d)
      else if y_SpecSchema d = schemaApplication then inFile env d (loadApplication env projectUUID d fs)
      else if y_SpecSchema d = schemaRegistry then inFile env d (loadRegistry env projectUUID d)
      else if y_SpecSchema d = schemaArtifact then inFile env d (loadArtifact env projectUUID d)
      else throw (NewInvalidArgument [WithMessage ''uploaded file %s: unhandled type %s'' [y_FileName d, y_SpecSchema d]]))"

definition processUploadSession :: "env \<Rightarrow> uploadSession \<Rightarrow> unit txm" where
  "processUploadSession env u =
     bnd (liftE (loadFileSets env u)) (\<lambda>fileSets.
     forM fileSets (\<lambda>fs.
       bnd (liftE (loadYamlSpecs env fs)) (\<lambda>orderedSpecs.
       forM orderedSpecs (loadSpec env (us_projectUUID u) fs))))"

section \<open>Sessions\<close>

definition putSession :: "uploadSession \<Rightarrow> server \<Rightarrow> server" where
  "putSession s srv = srv\<lparr>sv_sessions := AList.update (us_sessionID s) s (sv_sessions srv)\<rparr>"

definition newSession :: "env \<Rightarrow> string \<Rightarrow> server \<Rightarrow> uploadSession \<times> server" where
  "newSession env projectUUID srv =
     (let session = \<lparr>us_sessionID = e_uuid env, us_projectUUID = projectUUID, us_uploads = [], us_registryEvents = [],
            us_artifactEvents = [], us_applicationEvents = [], us_deploymentPackageEvents = []\<rparr>
      in (session, putSession session srv))"

definition getSession :: "string \<Rightarrow> string \<Rightarrow> server \<Rightarrow> uploadSession result" where
  "getSession sessionID projectUUID srv =
     (case map_of (sv_sessions srv) sessionID of
        None \<Rightarrow> Inl (NewInvalidArgument [WithResourceType UploadSession, WithResourceName sessionID,
          WithMessage ''session not found'' []])
      | Some session \<Rightarrow>
          if projectUUID \<noteq> us_projectUUID session
          then Inl (NewInvalidArgument [WithResourceType UploadSession, WithResourceName sessionID,
            WithMessage ''session not found for project'' []])
          else Inr session)"

definition scanUpload :: "env \<Rightarrow> string \<Rightarrow> unit result" where
  "scanUpload env data =
     (case e_scanner env of
        None \<Rightarrow> Inr ()
      | Some sc \<Rightarrow>
          (case sc_ScanBytes sc data of
             ScanError _ \<Rightarrow>
               if sc_permissive sc then Inr ()
               else Inl (NewUnavailable [WithMessage ''malware scanner configured but not available'' []])
           | ScanClean \<Rightarrow> Inr ()
           | ScanInfected res \<Rightarrow> Inl (NewInvalidArgument [WithMessage ''malware detected: %s'' [res]])))"

text \<open>The transaction appends to the queues of the session, which keeps what was appended in every case.\<close>

definition withQueues :: "uploadSession \<Rightarrow> tx \<Rightarrow> tx" where
  "withQueues u t = t\<lparr>tx_regEvents := us_registryEvents u, tx_artEvents := us_artifactEvents u,
     tx_appEvents := us_applicationEvents u, tx_pkgEvents := us_deploymentPackageEvents u\<rparr>"

definition keepQueues :: "uploadSession \<Rightarrow> tx \<Rightarrow> server \<Rightarrow> server" where
  "keepQueues u t = putSession (u\<lparr>us_registryEvents := tx_regEvents t, us_artifactEvents := tx_artEvents t,
     us_applicationEvents := tx_appEvents t, us_deploymentPackageEvents := tx_pkgEvents t\<rparr>)"

definition sendSession :: "tx \<Rightarrow> server \<Rightarrow> server" where
  "sendSession t srv = sendDeploymentPackage t (sendApplication t (sendArtifact t (sendRegistry t srv)))"

definition processLast :: "env \<Rightarrow> uploadSession \<Rightarrow> server \<Rightarrow> string result \<times> server" where
  "processLast env u srv =
     (case startTransaction env srv of
        (Inl e, srv1) \<Rightarrow> (Inl (rawError e), srv1)
      | (Inr t, srv1) \<Rightarrow>
     (case processUploadSession env u (withQueues u t) of
        (Inl e, t1) \<Rightarrow> (Inl e, keepQueues u t1 (if e = goPanic then abandonTransaction t1 srv1 else rollbackTransaction t1 srv1))
      | (Inr _, t1) \<Rightarrow>
     (case commitTransaction t1 srv1 of
        (Inl e, srv2) \<Rightarrow> (Inl (rawError e), keepQueues u t1 srv2)
      | (Inr _, srv2) \<Rightarrow> (Inr (us_sessionID u), sendSession t1 (keepQueues u t1 srv2)))))"

definition uploadTo :: "env \<Rightarrow> bool \<Rightarrow> Upload \<Rightarrow> uploadSession \<Rightarrow> server \<Rightarrow> string result \<times> server" where
  "uploadTo env lastUpload file session srv =
     (case scanUpload env (up_Artifact file) of
        Inl e \<Rightarrow> (Inl e, srv)
      | Inr _ \<Rightarrow>
          (let u = session\<lparr>us_uploads := us_uploads session @ [file]\<rparr>
           in if lastUpload then processLast env u (putSession u srv) else (Inr (us_sessionID u), putSession u srv)))"

text \<open>The identifier of the session is the response. No rule applies to the upload message.\<close>

definition UploadCatalogEntities ::
    "env \<Rightarrow> metadata option \<Rightarrow> UploadCatalogEntitiesRequest option \<Rightarrow> server \<Rightarrow> string result \<times> server" where
  "UploadCatalogEntities env ctx request srv =
     (case GetActiveProjectID ctx of
        Inl e \<Rightarrow> (Inl e, srv)
      | Inr projectUUID \<Rightarrow>
     (case request of
        None \<Rightarrow> (Inl (NewInvalidArgument [WithMessage ''incomplete request'' []]), srv)
      | Some req \<Rightarrow>
     (case ue_Upload req of
        None \<Rightarrow> (Inl (NewInvalidArgument [WithMessage ''incomplete request'' []]), srv)
      | Some file \<Rightarrow>
     (case authCheckAllowed env ctx (UploadCatalogEntitiesReq req) [] of
        Inl e \<Rightarrow> (Inl e, srv)
      | Inr _ \<Rightarrow>
     if ue_SessionId req = [] then
       (case newSession env projectUUID srv of (session, srv1) \<Rightarrow> uploadTo env (ue_LastUpload req) file session srv1)
     else
     (case getSession (ue_SessionId req) projectUUID srv of
        Inl e \<Rightarrow> (Inl e, srv)
      | Inr session \<Rightarrow> uploadTo env (ue_LastUpload req) file session srv)))))"

section \<open>An upload keeps the tables well-formed\<close>

text \<open>
  What the code relies on: sorting gives a permutation, and a file that complies with the schema
  \<^verbatim>\<open>pkg/schema/catalog-schema.go\<close> gives every registry the type HELM or IMAGE. The handler itself does not
  validate the messages it builds.
\<close>

definition soundUploads :: "env \<Rightarrow> bool" where
  "soundUploads env \<longleftrightarrow> permutes (e_sort env) \<and>
     (\<forall>fileBytes. e_yamlSchema env fileBytes = None \<longrightarrow>
       (\<forall>d \<in> set (fst (e_yamlDocs env fileBytes)). y_SpecSchema d = schemaRegistry \<longrightarrow> y_Type d \<in> {helmType, imageType}))"

definition typedSpec :: "YamlSpec \<Rightarrow> bool" where
  "typedSpec d \<longleftrightarrow> (y_SpecSchema d = schemaRegistry \<longrightarrow> y_Type d \<in> {helmType, imageType})"

lemma typedSpec_file [simp]: "typedSpec (d\<lparr>y_FileName := f\<rparr>) = typedSpec d"
  by (simp add: typedSpec_def)

lemma decodeSpecs_typed:
  assumes "decodeSpecs env fileName fileBytes docs end = Inr specs" and "d \<in> set specs"
    and "e_yamlSchema env fileBytes = None \<longrightarrow> (\<forall>x \<in> set docs. typedSpec x)"
  shows "typedSpec d"
  using assms
proof (induction docs arbitrary: specs)
  case Nil
  then show ?case by (cases "end") auto
next
  case (Cons x docs)
  then show ?case
    by (cases "decodeSpecs env fileName fileBytes docs end") (auto split: if_splits option.splits)
qed

lemma loadSpecs_typed:
  assumes "soundUploads env" and "loadSpecs env files = Inr specs" and "d \<in> set specs"
  shows "typedSpec d"
  using assms(2,3)
proof (induction files arbitrary: specs)
  case Nil
  then show ?case by simp
next
  case (Cons f files)
  obtain fileName fileBytes where f: "f = (fileName, fileBytes)" by (cases f)
  have "typedSpec d" if "decodeSpecs env fileName fileBytes docs rest = Inr ds" "d \<in> set ds"
    "e_yamlDocs env fileBytes = (docs, rest)" for docs rest ds
  proof (rule decodeSpecs_typed [OF that(1,2)])
    show "e_yamlSchema env fileBytes = None \<longrightarrow> (\<forall>x \<in> set docs. typedSpec x)"
      using assms(1) that(3) by (auto simp: soundUploads_def typedSpec_def dest!: spec [of _ fileBytes])
  qed
  with Cons f show ?case
    by (cases "loadSpecs env files") (auto split: sum.splits if_splits prod.splits)
qed

lemma loadYamlSpecs_typed:
  assumes "soundUploads env" and "loadYamlSpecs env files = Inr specs" and "d \<in> set specs"
  shows "typedSpec d"
proof -
  from assms(2) obtain ds where ds: "loadSpecs env (e_rangeFiles env files) = Inr ds" "specs = sortSpecs (e_sort env) ds"
    by (cases "loadSpecs env (e_rangeFiles env files)") (auto simp: loadYamlSpecs_def)
  have "set specs = set ds" using set_sortSpecs assms(1) ds(2) by (metis mset_eq_setD soundUploads_def)
  with assms(3) loadSpecs_typed [OF assms(1) ds(1)] show ?thesis by simp
qed

lemma tri_inFile: "tri P x Q \<Longrightarrow> tri P (inFile env d x) Q"
  by (auto simp: tri_def inFile_def split: prod.splits sum.splits)

lemma loadRegistry_ok:
  assumes "y_Type d \<in> {helmType, imageType}"
  shows "tri db_ok (loadRegistry env projectUUID d) (\<lambda>_. db_ok)"
proof -
  have "r_Type (registryOfSpec d) = helmType \<or> r_Type (registryOfSpec d) = imageType"
    using assms by (auto simp: registryOfSpec_def GetRegistryType_def valueOrDefault_def)
  then show ?thesis
    unfolding loadRegistry_def Let_def
    by (intro tri_bnd_same [OF tri_query_same] tri_case_sum tri_bnd_same [OF createRegistry_ok] tri_ret updateRegistry_ok)
qed

lemma loadArtifact_ok: "tri db_ok (loadArtifact env projectUUID d) (\<lambda>_. db_ok)"
  unfolding loadArtifact_def Let_def
  by (intro tri_case_sum tri_throw tri_bnd_same [OF tri_liftE] tri_bnd_same [OF tri_query_same]
      tri_bnd_same [OF createArtifact_ok] tri_ret updateArtifact_ok)

lemma loadApplication_ok: "tri db_ok (loadApplication env projectUUID d f) (\<lambda>_. db_ok)"
  unfolding loadApplication_def Let_def
  by (intro tri_bnd_same [OF tri_liftE] tri_bnd_same [OF tri_query_same] tri_case_sum
      tri_bnd_same [OF createApplication_ok] tri_ret updateApplication_ok)

lemma loadDeploymentPackage_ok: "tri db_ok (loadDeploymentPackage env projectUUID d) (\<lambda>_. db_ok)"
  unfolding loadDeploymentPackage_def Let_def
  by (intro tri_bnd_same [OF tri_liftE] tri_bnd_same [OF tri_query_same] tri_case_sum
      tri_bnd_same [OF createDeploymentPackage_ok] tri_ret updateDeploymentPackage_ok)

lemma processUploadSession_ok:
  assumes "soundUploads env"
  shows "tri db_ok (processUploadSession env u) (\<lambda>_. db_ok)"
proof -
  have spec: "tri db_ok (loadSpec env p fs d) (\<lambda>_. db_ok)" if "typedSpec d" for p fs d
    using that unfolding loadSpec_def typedSpec_def
    by (intro tri_if tri_inFile tri_throw loadDeploymentPackage_ok loadApplication_ok loadArtifact_ok loadRegistry_ok) simp
  have one_set: "tri db_ok (bnd (liftE (loadYamlSpecs env fs)) (\<lambda>specs. forM specs (loadSpec env p fs))) (\<lambda>_. db_ok)" for p fs
  proof (rule tri_bnd [where R = "\<lambda>specs d. db_ok d \<and> (\<forall>x \<in> set specs. typedSpec x)"])
    show "tri db_ok (liftE (loadYamlSpecs env fs)) (\<lambda>specs d. db_ok d \<and> (\<forall>x \<in> set specs. typedSpec x))"
      using loadYamlSpecs_typed [OF assms] by (auto intro: tri_liftE)
    show "tri (\<lambda>d. db_ok d \<and> (\<forall>x \<in> set specs. typedSpec x)) (forM specs (loadSpec env p fs)) (\<lambda>_. db_ok)" for specs
    proof (cases "\<forall>x \<in> set specs. typedSpec x")
      case True
      then have "tri db_ok (forM specs (loadSpec env p fs)) (\<lambda>_. db_ok)" by (intro tri_forM spec) simp
      then show ?thesis by (rule tri_weaken) auto
    qed (auto simp: tri_def)
  qed
  show ?thesis
    unfolding processUploadSession_def by (intro tri_bnd_same [OF tri_liftE] tri_forM one_set)
qed


section \<open>What an upload call changes\<close>

lemma session_frame [simp]:
  "sv_db (putSession u srv) = sv_db srv" "sv_open (putSession u srv) = sv_open srv"
  "sv_listeners (putSession u srv) = sv_listeners srv" "public (putSession u srv) = public srv"
  "sv_db (keepQueues u t srv) = sv_db srv" "sv_open (keepQueues u t srv) = sv_open srv"
  "sv_listeners (keepQueues u t srv) = sv_listeners srv" "public (keepQueues u t srv) = public srv"
  by (simp_all add: putSession_def keepQueues_def public_def)

lemma sendSession_frame [simp]:
  "sv_db (sendSession t srv) = sv_db srv" "sv_open (sendSession t srv) = sv_open srv"
  "sv_listeners (sendSession t srv) = sv_listeners srv" "sv_vault (sendSession t srv) = sv_vault srv"
  by (simp_all add: sendSession_def sendRegistry_def sendArtifact_def sendApplication_def sendDeploymentPackage_def)

lemma processLast_error:
  assumes "processLast env u srv = (Inl e, srv')"
  shows "public srv' = public srv"
proof (cases "startTransaction env srv")
  case (Pair r srv1)
  with assms show ?thesis
    using startTransaction_Inl [of env srv _ srv1] startTransaction_Inr [of env srv _ srv1]
    by (cases r) (auto simp: processLast_def rollbackTransaction_def abandonTransaction_def public_def [of "sv_vault_update _ _"]
        public_def [of srv] split: prod.splits sum.splits dest!: commitTransaction_Inl)
qed

lemma processLast_success:
  assumes "processLast env u srv = (Inr w, srv')"
  obtains t0 t where "startTransaction env srv = (Inr t0, srv\<lparr>sv_open := Suc (sv_open srv)\<rparr>)"
    "processUploadSession env u (withQueues u t0) = (Inr (), t)" "w = us_sessionID u"
    "srv' = sendSession t (keepQueues u t (srv\<lparr>sv_db := tx_db t, sv_vault := tx_vault t\<rparr>))"
proof (cases "startTransaction env srv")
  case (Pair r srv1)
  with assms obtain t0 where t0: "r = Inr t0" by (cases r) (auto simp: processLast_def)
  note start = startTransaction_Inr [OF Pair [unfolded t0]]
  from assms Pair t0 obtain t srv2 where t: "processUploadSession env u (withQueues u t0) = (Inr (), t)"
    "commitTransaction t srv1 = (Inr (), srv2)" "w = us_sessionID u" "srv' = sendSession t (keepQueues u t srv2)"
    by (auto simp: processLast_def split: prod.splits sum.splits)
  have "srv2 = srv\<lparr>sv_db := tx_db t, sv_vault := tx_vault t\<rparr>" using commitTransaction_Inr [OF t(2)] start by simp
  with that [of t0 t] Pair t0 start t show thesis by simp
qed

text \<open>The session an upload goes to, and the server it starts from.\<close>

lemma UploadCatalogEntities_cases:
  assumes "UploadCatalogEntities env ctx request srv = out"
  obtains (rejected) e where "out = (Inl e, srv)"
    | (admitted) p req u session srv1 where "GetActiveProjectID ctx = Inr p" "request = Some req" "ue_Upload req = Some u"
        "authCheckAllowed env ctx (UploadCatalogEntitiesReq req) [] = Inr ()" "us_projectUUID session = p"
        "srv1 = srv \<or> srv1 = putSession session srv" "uploadTo env (ue_LastUpload req) u session srv1 = out"
proof (cases "\<exists>p req u. GetActiveProjectID ctx = Inr p \<and> request = Some req \<and> ue_Upload req = Some u \<and>
    authCheckAllowed env ctx (UploadCatalogEntitiesReq req) [] = Inr ()")
  case False
  with assms rejected show ?thesis
    by (auto simp: UploadCatalogEntities_def split: sum.splits option.splits)
next
  case True
  then obtain p req u where call: "GetActiveProjectID ctx = Inr p" "request = Some req" "ue_Upload req = Some u"
    "authCheckAllowed env ctx (UploadCatalogEntitiesReq req) [] = Inr ()" by blast
  show ?thesis
  proof (cases "ue_SessionId req = []")
    case True
    with assms call show ?thesis
      by (intro admitted [OF call, of "fst (newSession env p srv)" "snd (newSession env p srv)"])
        (simp_all add: UploadCatalogEntities_def newSession_def Let_def)
  next
    case False
    show ?thesis
    proof (cases "getSession (ue_SessionId req) p srv")
      case (Inl e)
      with assms call False have "out = (Inl e, srv)" by (simp add: UploadCatalogEntities_def)
      then show ?thesis by (rule rejected)
    next
      case (Inr session)
      then have "us_projectUUID session = p" by (auto simp: getSession_def split: option.splits if_splits)
      with Inr assms call False show ?thesis
        by (intro admitted [OF call, of session srv]) (simp_all add: UploadCatalogEntities_def)
    qed
  qed
qed

lemma upload_error:
  assumes "UploadCatalogEntities env ctx request srv = (Inl e, srv')"
  shows "public srv' = public srv"
  using assms
proof (cases rule: UploadCatalogEntities_cases)
  case (admitted p req u session srv1)
  then show ?thesis by (auto simp: uploadTo_def Let_def split: sum.splits if_splits dest!: processLast_error)
qed simp

lemma processLast_keeps_db_ok:
  assumes "processLast env u srv = (r, srv')" and "soundUploads env" and "db_ok (sv_db srv)"
  shows "db_ok (sv_db srv')"
proof (cases r)
  case (Inl e)
  with assms(1,3) processLast_error [of env u srv e srv'] show ?thesis by (simp add: public_def)
next
  case (Inr w)
  with assms(1) obtain t0 t where run: "startTransaction env srv = (Inr t0, srv\<lparr>sv_open := Suc (sv_open srv)\<rparr>)"
    "processUploadSession env u (withQueues u t0) = (Inr (), t)" "sv_db srv' = tx_db t"
    by (auto elim!: processLast_success)
  have "tx_db (withQueues u t0) = sv_db srv" using startTransaction_Inr [OF run(1)] by (simp add: withQueues_def)
  with triD [OF processUploadSession_ok [OF assms(2), of u], of "withQueues u t0" "()" t] run assms(3) show ?thesis by simp
qed

lemma upload_keeps_db_ok:
  assumes "UploadCatalogEntities env ctx request srv = (r, srv')" and "soundUploads env" and "db_ok (sv_db srv)"
  shows "db_ok (sv_db srv')"
  using assms(1)
proof (cases rule: UploadCatalogEntities_cases)
  case (admitted p req u session srv1)
  then have "db_ok (sv_db srv1)" using assms(3) by auto
  with admitted assms(2) show ?thesis
    by (auto simp: uploadTo_def Let_def split: sum.splits if_splits intro: processLast_keeps_db_ok)
qed (use assms(3) in simp)

lemma upload_success:
  assumes "UploadCatalogEntities env ctx request srv = (Inr w, srv')"
  shows "sv_open srv' = sv_open srv"
  using assms
proof (cases rule: UploadCatalogEntities_cases)
  case (admitted p req u session srv1)
  then show ?thesis by (auto simp: uploadTo_def Let_def split: sum.splits if_splits elim!: processLast_success)
qed simp

lemma upload_unauthorized:
  assumes "\<And>req. request = Some req \<Longrightarrow> authCheckAllowed env ctx (UploadCatalogEntitiesReq req) [] \<noteq> Inr ()"
  shows "\<exists>e. UploadCatalogEntities env ctx request srv = (Inl e, srv)"
proof -
  define out where "out = UploadCatalogEntities env ctx request srv"
  have "\<exists>e. out = (Inl e, srv)"
    using out_def [symmetric]
  proof (cases rule: UploadCatalogEntities_cases)
    case (admitted p req u session srv1)
    with assms [of req] show ?thesis by simp
  qed blast
  then show ?thesis by (simp add: out_def)
qed

end
