(* ===== verification/Catalog_Server.thy ===== *)
theory Catalog_Server
  imports Upload_Service
begin

text \<open>
  The server as a whole: one call of the gRPC service is one step on the server, whatever handler
  it invokes, and a run is a sequence of calls. Each call brings its environment, so that the faults
  of the database and of the secret service, the answers of the policy agent and the time may
  differ from call to call. Transactions do not overlap: a call runs to its end before the next
  begins, except for a watch, whose end is a call of its own.
\<close>

section \<open>Calls\<close>

datatype call =
    CallCreateRegistry env "metadata option" "Registry option"
  | CallListRegistries env "metadata option" "ListRegistriesRequest option"
  | CallGetRegistry env "metadata option" string bool
  | CallUpdateRegistry env "metadata option" string "Registry option"
  | CallDeleteRegistry env "metadata option" string
  | CallWatchRegistries env "WatchRegistriesRequest option" "WatchRegistriesResponse stream option" chan
  | CallCreateArtifact env "metadata option" "Artifact option"
  | CallListArtifacts env "metadata option" "ListArtifactsRequest option"
  | CallGetArtifact env "metadata option" string
  | CallUpdateArtifact env "metadata option" string "Artifact option"
  | CallDeleteArtifact env "metadata option" string
  | CallWatchArtifacts env "WatchArtifactsRequest option" "WatchArtifactsResponse stream option" chan
  | CallCreateApplication env "metadata option" "Application option"
  | CallListApplications env "metadata option" "ListApplicationsRequest option"
  | CallGetApplication env "metadata option" string string
  | CallGetApplicationVersions env "metadata option" string
  | CallGetApplicationReferenceCount env "metadata option" string string
  | CallUpdateApplication env "metadata option" string string "Application option"
  | CallDeleteApplication env "metadata option" string string
  | CallWatchApplications env "WatchApplicationsRequest option" "WatchApplicationsResponse stream option" chan
  | CallCreateDeploymentPackage env "metadata option" "DeploymentPackage option"
  | CallListDeploymentPackages env "metadata option" "ListDeploymentPackagesRequest option"
  | CallGetDeploymentPackage env "metadata option" string string
  | CallGetDeploymentPackageVersions env "metadata option" string
  | CallUpdateDeploymentPackage env "metadata option" string string "DeploymentPackage option"
  | CallDeleteDeploymentPackage env "metadata option" string string
  | CallWatchDeploymentPackages env "WatchDeploymentPackagesRequest option" "WatchDeploymentPackagesResponse stream option" chan
  | CallUploadCatalogEntities env "metadata option" "UploadCatalogEntitiesRequest option"
  | EndWatchRegistries chan
  | EndWatchArtifacts chan
  | EndWatchApplications chan
  | EndWatchDeploymentPackages chan

text \<open>The error a call returns, if any, and the server after it.\<close>

definition reply :: "'a result \<times> server \<Rightarrow> Status option \<times> server" where
  "reply out = (case out of (Inl e, srv) \<Rightarrow> (Some e, srv) | (Inr _, srv) \<Rightarrow> (None, srv))"

definition replyWatch :: "unit result \<times> 'ev list \<times> server \<Rightarrow> Status option \<times> server" where
  "replyWatch out = (case out of (r, _, srv) \<Rightarrow> reply (r, srv))"

fun serve :: "call \<Rightarrow> server \<Rightarrow> Status option \<times> server" where
  "serve (CallCreateRegistry env ctx r) srv = reply (CreateRegistry env ctx r srv)"
| "serve (CallListRegistries env ctx q) srv = reply (ListRegistries env ctx q srv)"
| "serve (CallGetRegistry env ctx n b) srv = reply (GetRegistry env ctx n b srv)"
| "serve (CallUpdateRegistry env ctx n r) srv = reply (UpdateRegistry env ctx n r srv)"
| "serve (CallDeleteRegistry env ctx n) srv = reply (DeleteRegistry env ctx n srv)"
| "serve (CallWatchRegistries env q st ch) srv = replyWatch (WatchRegistries env q st ch srv)"
| "serve (CallCreateArtifact env ctx a) srv = reply (CreateArtifact env ctx a srv)"
| "serve (CallListArtifacts env ctx q) srv = reply (ListArtifacts env ctx q srv)"
| "serve (CallGetArtifact env ctx n) srv = reply (GetArtifact env ctx n srv)"
| "serve (CallUpdateArtifact env ctx n a) srv = reply (UpdateArtifact env ctx n a srv)"
| "serve (CallDeleteArtifact env ctx n) srv = reply (DeleteArtifact env ctx n srv)"
| "serve (CallWatchArtifacts env q st ch) srv = replyWatch (WatchArtifacts env q st ch srv)"
| "serve (CallCreateApplication env ctx a) srv = reply (CreateApplication env ctx a srv)"
| "serve (CallListApplications env ctx q) srv = reply (ListApplications env ctx q srv)"
| "serve (CallGetApplication env ctx n v) srv = reply (GetApplication env ctx n v srv)"
| "serve (CallGetApplicationVersions env ctx n) srv = reply (GetApplicationVersions env ctx n srv)"
| "serve (CallGetApplicationReferenceCount env ctx n v) srv = reply (GetApplicationReferenceCount env ctx n v srv)"
| "serve (CallUpdateApplication env ctx n v a) srv = reply (UpdateApplication env ctx n v a srv)"
| "serve (CallDeleteApplication env ctx n v) srv = reply (DeleteApplication env ctx n v srv)"
| "serve (CallWatchApplications env q st ch) srv = replyWatch (WatchApplications env q st ch srv)"
| "serve (CallCreateDeploymentPackage env ctx k) srv = reply (CreateDeploymentPackage env ctx k srv)"
| "serve (CallListDeploymentPackages env ctx q) srv = reply (ListDeploymentPackages env ctx q srv)"
| "serve (CallGetDeploymentPackage env ctx n v) srv = reply (GetDeploymentPackage env ctx n v srv)"
| "serve (CallGetDeploymentPackageVersions env ctx n) srv = reply (GetDeploymentPackageVersions env ctx n srv)"
| "serve (CallUpdateDeploymentPackage env ctx n v k) srv = reply (UpdateDeploymentPackage env ctx n v k srv)"
| "serve (CallDeleteDeploymentPackage env ctx n v) srv = reply (DeleteDeploymentPackage env ctx n v srv)"
| "serve (CallWatchDeploymentPackages env q st ch) srv = replyWatch (WatchDeploymentPackages env q st ch srv)"
| "serve (CallUploadCatalogEntities env ctx q) srv = reply (UploadCatalogEntities env ctx q srv)"
| "serve (EndWatchRegistries ch) srv = (None, closeRegistryWatch ch srv)"
| "serve (EndWatchArtifacts ch) srv = (None, closeArtifactWatch ch srv)"
| "serve (EndWatchApplications ch) srv = (None, closeApplicationWatch ch srv)"
| "serve (EndWatchDeploymentPackages ch) srv = (None, closePackageWatch ch srv)"

text \<open>
  The steps of the server, and the servers a run can reach. What an upload relies on, the sorting and the
  YAML schema, holds of its environment.
\<close>

fun soundCall :: "call \<Rightarrow> bool" where
  "soundCall (CallUploadCatalogEntities env ctx q) = soundUploads env"
| "soundCall _ = True"

inductive step :: "server \<Rightarrow> server \<Rightarrow> bool" where
  "serve c srv = (r, srv') \<Longrightarrow> soundCall c \<Longrightarrow> step srv srv'"

inductive reachable :: "server \<Rightarrow> bool" where
  initial: "reachable Register"
| next_call: "reachable srv \<Longrightarrow> step srv srv' \<Longrightarrow> reachable srv'"

fun isWatch :: "call \<Rightarrow> bool" where
  "isWatch (CallWatchRegistries _ _ _ _) = True"
| "isWatch (CallWatchArtifacts _ _ _ _) = True"
| "isWatch (CallWatchApplications _ _ _ _) = True"
| "isWatch (CallWatchDeploymentPackages _ _ _ _) = True"
| "isWatch (EndWatchRegistries _) = True"
| "isWatch (EndWatchArtifacts _) = True"
| "isWatch (EndWatchApplications _) = True"
| "isWatch (EndWatchDeploymentPackages _) = True"
| "isWatch _ = False"

fun isEnd :: "call \<Rightarrow> bool" where
  "isEnd (EndWatchRegistries _) = True"
| "isEnd (EndWatchArtifacts _) = True"
| "isEnd (EndWatchApplications _) = True"
| "isEnd (EndWatchDeploymentPackages _) = True"
| "isEnd _ = False"

text \<open>The authorization check a call makes; none when it carries no request.\<close>

fun callCheck :: "call \<Rightarrow> unit result option" where
  "callCheck (CallCreateRegistry env ctx r) = Some (authCheckAllowed env ctx (CreateRegistryRequest r) [])"
| "callCheck (CallListRegistries env ctx q) =
     map_option (\<lambda>r. authCheckAllowed env ctx (ListRegistriesReq r) [listRegistriesName r]) q"
| "callCheck (CallGetRegistry env ctx n b) =
     Some (authCheckAllowed env ctx (GetRegistryRequest n b) [getRegistryName b])"
| "callCheck (CallUpdateRegistry env ctx n r) = Some (authCheckAllowed env ctx (UpdateRegistryRequest n r) [])"
| "callCheck (CallDeleteRegistry env ctx n) = Some (authCheckAllowed env ctx (DeleteRegistryRequest n) [])"
| "callCheck (CallWatchRegistries env q st ch) =
     (case (q, st) of (Some r, Some (ctx, _)) \<Rightarrow> Some (authCheckAllowed env ctx (WatchRegistriesReq r) []) | _ \<Rightarrow> None)"
| "callCheck (CallCreateArtifact env ctx a) = Some (authCheckAllowed env ctx (CreateArtifactRequest a) [])"
| "callCheck (CallListArtifacts env ctx q) = map_option (\<lambda>r. authCheckAllowed env ctx (ListArtifactsReq r) []) q"
| "callCheck (CallGetArtifact env ctx n) = Some (authCheckAllowed env ctx (GetArtifactRequest n) [])"
| "callCheck (CallUpdateArtifact env ctx n a) = Some (authCheckAllowed env ctx (UpdateArtifactRequest n a) [])"
| "callCheck (CallDeleteArtifact env ctx n) = Some (authCheckAllowed env ctx (DeleteArtifactRequest n) [])"
| "callCheck (CallWatchArtifacts env q st ch) =
     (case (q, st) of (Some r, Some (ctx, _)) \<Rightarrow> Some (authCheckAllowed env ctx (WatchArtifactsReq r) []) | _ \<Rightarrow> None)"
| "callCheck (CallCreateApplication env ctx a) = Some (authCheckAllowed env ctx (CreateApplicationRequest a) [])"
| "callCheck (CallListApplications env ctx q) = map_option (\<lambda>r. authCheckAllowed env ctx (ListApplicationsReq r) []) q"
| "callCheck (CallGetApplication env ctx n v) = Some (authCheckAllowed env ctx (GetApplicationRequest n v) [])"
| "callCheck (CallGetApplicationVersions env ctx n) =
     Some (authCheckAllowed env ctx (GetApplicationVersionsRequest n) [])"
| "callCheck (CallGetApplicationReferenceCount env ctx n v) =
     Some (authCheckAllowed env ctx (GetApplicationReferenceCountRequest n v) [])"
| "callCheck (CallUpdateApplication env ctx n v a) =
     Some (authCheckAllowed env ctx (UpdateApplicationRequest n v a) [])"
| "callCheck (CallDeleteApplication env ctx n v) = Some (authCheckAllowed env ctx (DeleteApplicationRequest n v) [])"
| "callCheck (CallWatchApplications env q st ch) =
     (case (q, st) of (Some r, Some (ctx, _)) \<Rightarrow> Some (authCheckAllowed env ctx (WatchApplicationsReq r) []) | _ \<Rightarrow> None)"
| "callCheck (CallCreateDeploymentPackage env ctx k) =
     Some (authCheckAllowed env ctx (CreateDeploymentPackageRequest k) [])"
| "callCheck (CallListDeploymentPackages env ctx q) =
     map_option (\<lambda>r. authCheckAllowed env ctx (ListDeploymentPackagesReq r) []) q"
| "callCheck (CallGetDeploymentPackage env ctx n v) =
     Some (authCheckAllowed env ctx (GetDeploymentPackageRequest n v) [])"
| "callCheck (CallGetDeploymentPackageVersions env ctx n) =
     Some (authCheckAllowed env ctx (GetDeploymentPackageVersionsRequest n) [])"
| "callCheck (CallUpdateDeploymentPackage env ctx n v k) =
     Some (authCheckAllowed env ctx (UpdateDeploymentPackageRequest n v k) [])"
| "callCheck (CallDeleteDeploymentPackage env ctx n v) =
     Some (authCheckAllowed env ctx (DeleteDeploymentPackageRequest n v) [])"
| "callCheck (CallWatchDeploymentPackages env q st ch) =
     (case (q, st) of (Some r, Some (ctx, _)) \<Rightarrow> Some (authCheckAllowed env ctx (WatchDeploymentPackagesReq r) []) | _ \<Rightarrow> None)"
| "callCheck (CallUploadCatalogEntities env ctx q) =
     map_option (\<lambda>r. authCheckAllowed env ctx (UploadCatalogEntitiesReq r) []) q"
| "callCheck _ = None"

text \<open>The handlers that end their transaction on every path.\<close>

fun endsTransaction :: "call \<Rightarrow> bool" where
  "endsTransaction (CallGetRegistry _ _ _ _) = False"
| "endsTransaction (CallDeleteRegistry _ _ _) = False"
| "endsTransaction (CallCreateArtifact _ _ _) = False"
| "endsTransaction (CallDeleteArtifact _ _ _) = False"
| "endsTransaction (CallWatchApplications _ _ _ _) = False"
| "endsTransaction (CallUploadCatalogEntities _ _ _) = False"
| "endsTransaction _ = True"

section \<open>What every call keeps\<close>

lemma reply_eq:
  "reply out = (Some e, srv') \<longleftrightarrow> out = (Inl e, srv')" "reply out = (None, srv') \<longleftrightarrow> (\<exists>v. out = (Inr v, srv'))"
  by (auto simp: reply_def split: prod.splits sum.splits)

lemma replyWatch_eq:
  "replyWatch out = (Some e, srv') \<longleftrightarrow> (\<exists>sent. out = (Inl e, sent, srv'))"
  "replyWatch out = (None, srv') \<longleftrightarrow> (\<exists>u sent. out = (Inr u, sent, srv'))"
  by (auto simp: replyWatch_def reply_eq split: prod.splits)

lemma reply_server: "reply out = (r, srv') \<Longrightarrow> \<exists>q. out = (q, srv')"
  by (auto simp: reply_def split: prod.splits sum.splits)

lemma replyWatch_server: "replyWatch out = (r, srv') \<Longrightarrow> \<exists>q sent. out = (q, sent, srv')"
  by (auto simp: replyWatch_def reply_def split: prod.splits sum.splits)

lemma close_db [simp]:
  "sv_db (closeRegistryWatch ch srv) = sv_db srv" "sv_db (closeArtifactWatch ch srv) = sv_db srv"
  "sv_db (closeApplicationWatch ch srv) = sv_db srv" "sv_db (closePackageWatch ch srv) = sv_db srv"
  by (simp_all add: closeRegistryWatch_def closeArtifactWatch_def closeApplicationWatch_def closePackageWatch_def)

lemmas handlers_keep_db_ok =
  create_registry.keeps_db_ok list_registries.keeps_db_ok get_registry.keeps_db_ok [of _ _ "(n, b)" for n b, simplified]
  update_registry.keeps_db_ok [of _ _ "(n, r)" for n r, simplified] delete_registry.keeps_db_ok
  create_artifact.keeps_db_ok list_artifacts.keeps_db_ok get_artifact.keeps_db_ok
  update_artifact.keeps_db_ok [of _ _ "(n, r)" for n r, simplified] delete_artifact.keeps_db_ok
  create_application.keeps_db_ok list_applications.keeps_db_ok get_application.keeps_db_ok [of _ _ "(n, v)" for n v, simplified]
  application_versions.keeps_db_ok application_reference_count.keeps_db_ok [of _ _ "(n, v)" for n v, simplified]
  update_application.keeps_db_ok [of _ _ "(n, v, a)" for n v a, simplified]
  delete_application.keeps_db_ok [of _ _ "(n, v)" for n v, simplified]
  create_package.keeps_db_ok list_packages.keeps_db_ok get_package.keeps_db_ok [of _ _ "(n, v)" for n v, simplified] package_versions.keeps_db_ok
  update_package.keeps_db_ok [of _ _ "(n, v, a)" for n v a, simplified] delete_package.keeps_db_ok [of _ _ "(n, v)" for n v, simplified]
  watch_registries.watch_keeps_db_ok watch_artifacts.watch_keeps_db_ok watch_applications.watch_keeps_db_ok
  watch_packages.watch_keeps_db_ok

lemma serve_keeps_db_ok:
  "serve c srv = (r, srv') \<Longrightarrow> soundCall c \<Longrightarrow> db_ok (sv_db srv) \<Longrightarrow> db_ok (sv_db srv')"
  by (cases c) (auto dest!: reply_server replyWatch_server dest: handlers_keep_db_ok upload_keeps_db_ok)

lemmas handlers_error_public =
  create_registry.error_public list_registries.error_public get_registry.error_public [of _ _ "(n, b)" for n b, simplified]
  update_registry.error_public [of _ _ "(n, r)" for n r, simplified] delete_registry.error_public
  create_artifact.error_public list_artifacts.error_public get_artifact.error_public
  update_artifact.error_public [of _ _ "(n, r)" for n r, simplified] delete_artifact.error_public
  create_application.error_public list_applications.error_public get_application.error_public [of _ _ "(n, v)" for n v, simplified]
  application_versions.error_public application_reference_count.error_public [of _ _ "(n, v)" for n v, simplified]
  update_application.error_public [of _ _ "(n, v, a)" for n v a, simplified]
  delete_application.error_public [of _ _ "(n, v)" for n v, simplified]
  create_package.error_public list_packages.error_public get_package.error_public [of _ _ "(n, v)" for n v, simplified] package_versions.error_public
  update_package.error_public [of _ _ "(n, v, a)" for n v a, simplified] delete_package.error_public [of _ _ "(n, v)" for n v, simplified]

lemma serve_error_public:
  "serve c srv = (Some e, srv') \<Longrightarrow> \<not> isWatch c \<Longrightarrow> public srv' = public srv"
  by (cases c) (auto simp: reply_eq dest: handlers_error_public upload_error)

lemmas handlers_unauthorized =
  create_registry.unauthorized get_registry.unauthorized [of _ _ "(n, b)" for n b, simplified]
  update_registry.unauthorized [of _ _ "(n, r)" for n r, simplified] delete_registry.unauthorized
  create_artifact.unauthorized get_artifact.unauthorized
  update_artifact.unauthorized [of _ _ "(n, r)" for n r, simplified] delete_artifact.unauthorized
  create_application.unauthorized get_application.unauthorized [of _ _ "(n, v)" for n v, simplified]
  application_versions.unauthorized application_reference_count.unauthorized [of _ _ "(n, v)" for n v, simplified]
  update_application.unauthorized [of _ _ "(n, v, a)" for n v a, simplified]
  delete_application.unauthorized [of _ _ "(n, v)" for n v, simplified]
  create_package.unauthorized get_package.unauthorized [of _ _ "(n, v)" for n v, simplified] package_versions.unauthorized
  update_package.unauthorized [of _ _ "(n, v, a)" for n v a, simplified] delete_package.unauthorized [of _ _ "(n, v)" for n v, simplified]
  list_registries.unauthorized [of _ _ "Some r" for r, simplified]
  list_artifacts.unauthorized [of _ _ "Some r" for r, simplified]
  list_applications.unauthorized [of _ _ "Some r" for r, simplified]
  list_packages.unauthorized [of _ _ "Some r" for r, simplified]

lemma reply_Inl: "\<exists>e. out = (Inl e, srv) \<Longrightarrow> \<exists>e. reply out = (Some e, srv)"
  by (auto simp: reply_def)

lemma replyWatch_Inl: "\<exists>e sent. out = (Inl e, sent, srv) \<Longrightarrow> \<exists>e. replyWatch out = (Some e, srv)"
  by (auto simp: replyWatch_def reply_def)

lemma list_nil_request:
  "\<exists>e. ListRegistries env ctx None srv = (Inl e, srv)" "\<exists>e. ListArtifacts env ctx None srv = (Inl e, srv)"
  "\<exists>e. ListApplications env ctx None srv = (Inl e, srv)" "\<exists>e. ListDeploymentPackages env ctx None srv = (Inl e, srv)"
  by (auto simp: ListRegistries_def ListArtifacts_def ListApplications_def ListDeploymentPackages_def split: sum.splits)

lemma watch_unauthorized:
  "callCheck (CallWatchRegistries env q1 st1 ch) \<noteq> Some (Inr ()) \<Longrightarrow>
     \<exists>e sent. WatchRegistries env q1 st1 ch srv = (Inl e, sent, srv)"
  "callCheck (CallWatchArtifacts env q2 st2 ch) \<noteq> Some (Inr ()) \<Longrightarrow>
     \<exists>e sent. WatchArtifacts env q2 st2 ch srv = (Inl e, sent, srv)"
  "callCheck (CallWatchApplications env q3 st3 ch) \<noteq> Some (Inr ()) \<Longrightarrow>
     \<exists>e sent. WatchApplications env q3 st3 ch srv = (Inl e, sent, srv)"
  "callCheck (CallWatchDeploymentPackages env q4 st4 ch) \<noteq> Some (Inr ()) \<Longrightarrow>
     \<exists>e sent. WatchDeploymentPackages env q4 st4 ch srv = (Inl e, sent, srv)"
  by (auto simp: WatchRegistries_def WatchArtifacts_def WatchApplications_def WatchDeploymentPackages_def split: option.splits sum.splits prod.splits)

lemma serve_unauthorized:
  "callCheck c \<noteq> Some (Inr ()) \<Longrightarrow> \<not> isEnd c \<Longrightarrow> \<exists>e. serve c srv = (Some e, srv)"
proof (cases c)
  case (CallListRegistries env ctx q)
  then show "callCheck c \<noteq> Some (Inr ()) \<Longrightarrow> \<exists>e. serve c srv = (Some e, srv)"
    by (cases q) (auto intro!: reply_Inl list_nil_request handlers_unauthorized)
next
  case (CallListArtifacts env ctx q)
  then show "callCheck c \<noteq> Some (Inr ()) \<Longrightarrow> \<exists>e. serve c srv = (Some e, srv)"
    by (cases q) (auto intro!: reply_Inl list_nil_request handlers_unauthorized)
next
  case (CallListApplications env ctx q)
  then show "callCheck c \<noteq> Some (Inr ()) \<Longrightarrow> \<exists>e. serve c srv = (Some e, srv)"
    by (cases q) (auto intro!: reply_Inl list_nil_request handlers_unauthorized)
next
  case (CallListDeploymentPackages env ctx q)
  then show "callCheck c \<noteq> Some (Inr ()) \<Longrightarrow> \<exists>e. serve c srv = (Some e, srv)"
    by (cases q) (auto intro!: reply_Inl list_nil_request handlers_unauthorized)
next
  case (CallUploadCatalogEntities env ctx q)
  then show "callCheck c \<noteq> Some (Inr ()) \<Longrightarrow> \<exists>e. serve c srv = (Some e, srv)"
    by (auto intro!: reply_Inl upload_unauthorized)
qed (auto simp del: callCheck.simps(6,12,20,27) intro!: reply_Inl replyWatch_Inl watch_unauthorized handlers_unauthorized)

section \<open>Calls that only read\<close>

fun isRead :: "call \<Rightarrow> bool" where
  "isRead (CallListRegistries _ _ _) = True"
| "isRead (CallGetRegistry _ _ _ _) = True"
| "isRead (CallListArtifacts _ _ _) = True"
| "isRead (CallGetArtifact _ _ _) = True"
| "isRead (CallListApplications _ _ _) = True"
| "isRead (CallGetApplication _ _ _ _) = True"
| "isRead (CallGetApplicationVersions _ _ _) = True"
| "isRead (CallGetApplicationReferenceCount _ _ _ _) = True"
| "isRead (CallListDeploymentPackages _ _ _) = True"
| "isRead (CallGetDeploymentPackage _ _ _ _) = True"
| "isRead (CallGetDeploymentPackageVersions _ _ _) = True"
| "isRead _ = False"

lemma serve_read_public: "serve c srv = (r, srv') \<Longrightarrow> isRead c \<Longrightarrow> public srv' = public srv"
  by (cases c) (auto dest!: reply_server dest: list_registries.public_unchanged list_artifacts.public_unchanged
      get_registry.public_unchanged [of _ _ "(n, b)" for n b, simplified] get_artifact.public_unchanged
      list_applications.public_unchanged get_application.public_unchanged [of _ _ "(n, v)" for n v, simplified]
      application_versions.public_unchanged application_reference_count.public_unchanged [of _ _ "(n, v)" for n v, simplified]
      list_packages.public_unchanged get_package.public_unchanged [of _ _ "(n, v)" for n v, simplified]
      package_versions.public_unchanged)

section \<open>Open transactions\<close>

lemmas handlers_success_open =
  create_registry.success_open list_registries.success_open get_registry.success_open [of _ _ "(n, b)" for n b, simplified]
  update_registry.success_open [of _ _ "(n, r)" for n r, simplified] delete_registry.success_open
  create_artifact.success_open list_artifacts.success_open get_artifact.success_open
  update_artifact.success_open [of _ _ "(n, r)" for n r, simplified] delete_artifact.success_open
  create_application.success_open list_applications.success_open get_application.success_open [of _ _ "(n, v)" for n v, simplified]
  application_versions.success_open application_reference_count.success_open [of _ _ "(n, v)" for n v, simplified]
  update_application.success_open [of _ _ "(n, v, a)" for n v a, simplified]
  delete_application.success_open [of _ _ "(n, v)" for n v, simplified]
  create_package.success_open list_packages.success_open get_package.success_open [of _ _ "(n, v)" for n v, simplified] package_versions.success_open
  update_package.success_open [of _ _ "(n, v, a)" for n v a, simplified] delete_package.success_open [of _ _ "(n, v)" for n v, simplified]

lemma close_open [simp]:
  "sv_open (closeRegistryWatch ch srv) = sv_open srv" "sv_open (closeArtifactWatch ch srv) = sv_open srv"
  "sv_open (closeApplicationWatch ch srv) = sv_open srv" "sv_open (closePackageWatch ch srv) = sv_open srv"
  by (simp_all add: closeRegistryWatch_def closeArtifactWatch_def closeApplicationWatch_def closePackageWatch_def)

lemma serve_success_open: "serve c srv = (None, srv') \<Longrightarrow> sv_open srv' = sv_open srv"
  by (cases c)
    (auto simp: reply_eq replyWatch_eq dest: handlers_success_open upload_success watch_registries.watch_success watch_artifacts.watch_success watch_applications.watch_success
        watch_packages.watch_success)

text \<open>The handlers built on \<^const>\<open>withTransaction\<close> leave none open.\<close>

lemma CreateRegistry_open: "CreateRegistry env ctx r srv = (out, srv') \<Longrightarrow> sv_open srv' = sv_open srv"
  unfolding CreateRegistry_def by (auto dest: withTransaction_open split: watch_splits)

lemma ListRegistries_open: "ListRegistries env ctx q srv = (out, srv') \<Longrightarrow> sv_open srv' = sv_open srv"
  unfolding ListRegistries_def by (auto dest: withTransaction_open split: watch_splits)

lemma UpdateRegistry_open: "UpdateRegistry env ctx n r srv = (out, srv') \<Longrightarrow> sv_open srv' = sv_open srv"
  unfolding UpdateRegistry_def by (auto dest: withTransaction_open split: watch_splits)

lemma ListArtifacts_open: "ListArtifacts env ctx q srv = (out, srv') \<Longrightarrow> sv_open srv' = sv_open srv"
  unfolding ListArtifacts_def by (auto dest: withTransaction_open split: watch_splits)

lemma GetArtifact_open: "GetArtifact env ctx n srv = (out, srv') \<Longrightarrow> sv_open srv' = sv_open srv"
  unfolding GetArtifact_def by (auto dest: withTransaction_open split: watch_splits)

lemma UpdateArtifact_open: "UpdateArtifact env ctx n r srv = (out, srv') \<Longrightarrow> sv_open srv' = sv_open srv"
  unfolding UpdateArtifact_def by (auto dest: withTransaction_open split: watch_splits)

lemma CreateApplication_open: "CreateApplication env ctx a srv = (out, srv') \<Longrightarrow> sv_open srv' = sv_open srv"
  unfolding CreateApplication_def by (auto dest: withTransaction_open split: watch_splits)

lemma ListApplications_open: "ListApplications env ctx q srv = (out, srv') \<Longrightarrow> sv_open srv' = sv_open srv"
  unfolding ListApplications_def by (auto dest: withTransaction_open split: watch_splits)

lemma GetApplication_open: "GetApplication env ctx n v srv = (out, srv') \<Longrightarrow> sv_open srv' = sv_open srv"
  unfolding GetApplication_def by (auto dest: withTransaction_open split: watch_splits)

lemma GetApplicationVersions_open: "GetApplicationVersions env ctx n srv = (out, srv') \<Longrightarrow> sv_open srv' = sv_open srv"
  unfolding GetApplicationVersions_def by (auto dest: withTransaction_open split: watch_splits)

lemma GetApplicationReferenceCount_open: "GetApplicationReferenceCount env ctx n v srv = (out, srv') \<Longrightarrow> sv_open srv' = sv_open srv"
  unfolding GetApplicationReferenceCount_def by (auto dest: withTransaction_open split: watch_splits)

lemma UpdateApplication_open: "UpdateApplication env ctx n v a srv = (out, srv') \<Longrightarrow> sv_open srv' = sv_open srv"
  unfolding UpdateApplication_def by (auto dest: withTransaction_open split: watch_splits)

lemma CreateDeploymentPackage_open: "CreateDeploymentPackage env ctx k srv = (out, srv') \<Longrightarrow> sv_open srv' = sv_open srv"
  unfolding CreateDeploymentPackage_def by (auto dest: withTransaction_open split: watch_splits)

lemma ListDeploymentPackages_open: "ListDeploymentPackages env ctx q srv = (out, srv') \<Longrightarrow> sv_open srv' = sv_open srv"
  unfolding ListDeploymentPackages_def by (auto dest: withTransaction_open split: watch_splits)

lemma GetDeploymentPackage_open: "GetDeploymentPackage env ctx n v srv = (out, srv') \<Longrightarrow> sv_open srv' = sv_open srv"
  unfolding GetDeploymentPackage_def by (auto dest: withTransaction_open split: watch_splits)

lemma GetDeploymentPackageVersions_open:
  "GetDeploymentPackageVersions env ctx n srv = (out, srv') \<Longrightarrow> sv_open srv' = sv_open srv"
  unfolding GetDeploymentPackageVersions_def by (auto dest: withTransaction_open split: watch_splits)

lemma UpdateDeploymentPackage_open:
  "UpdateDeploymentPackage env ctx n v k srv = (out, srv') \<Longrightarrow> sv_open srv' = sv_open srv"
  unfolding UpdateDeploymentPackage_def by (auto dest: withTransaction_open split: watch_splits)

text \<open>The deletions end theirs in \<^const>\<open>checkDeleteResult\<close>.\<close>

lemma checkDeleteResult_open:
  assumes "startTransaction env srv = (Inr t, srv1)" and "checkDeleteResult t1 None srv1 = (c, srv3)"
  shows "sv_open srv3 = sv_open srv"
  using assms startTransaction_Inr [OF assms(1)]
  by (auto simp: checkDeleteResult_def commitTransaction_def split: if_splits)

lemma rollback_open:
  "startTransaction env srv = (Inr t, srv1) \<Longrightarrow> sv_open (rollbackTransaction t1 srv1) = sv_open srv"
  using startTransaction_Inr by (fastforce simp: rollbackTransaction_def)

lemma DeleteApplication_open: "DeleteApplication env ctx n v srv = (out, srv') \<Longrightarrow> sv_open srv' = sv_open srv"
  unfolding DeleteApplication_def
  by (auto simp: rollback_open dest: startTransaction_Inl checkDeleteResult_open split: watch_splits)

lemma DeleteDeploymentPackage_open: "DeleteDeploymentPackage env ctx n v srv = (out, srv') \<Longrightarrow> sv_open srv' = sv_open srv"
  unfolding DeleteDeploymentPackage_def
  by (auto simp: rollback_open dest: startTransaction_Inl checkDeleteResult_open split: watch_splits)

lemma WatchRegistries_open: "WatchRegistries env q st ch srv = (out, sent, srv') \<Longrightarrow> sv_open srv' = sv_open srv"
  unfolding WatchRegistries_def listenRegistry_def rollbackTransaction_def
  by (auto dest!: transaction_dests split: watch_splits)

lemma WatchArtifacts_open: "WatchArtifacts env q st ch srv = (out, sent, srv') \<Longrightarrow> sv_open srv' = sv_open srv"
  unfolding WatchArtifacts_def listenArtifact_def rollbackTransaction_def
  by (auto dest!: transaction_dests split: watch_splits)

lemma WatchDeploymentPackages_open:
  "WatchDeploymentPackages env q st ch srv = (out, sent, srv') \<Longrightarrow> sv_open srv' = sv_open srv"
  unfolding WatchDeploymentPackages_def listenPackage_def rollbackTransaction_def
  by (auto dest!: transaction_dests split: watch_splits)

lemma serve_ends_transaction:
  "serve c srv = (r, srv') \<Longrightarrow> endsTransaction c \<Longrightarrow> sv_open srv' = sv_open srv"
  by (cases c)
    (auto dest!: reply_server replyWatch_server
      dest: CreateRegistry_open ListRegistries_open UpdateRegistry_open ListArtifacts_open GetArtifact_open
        UpdateArtifact_open CreateApplication_open ListApplications_open GetApplication_open
        GetApplicationVersions_open GetApplicationReferenceCount_open UpdateApplication_open DeleteApplication_open
        WatchRegistries_open WatchArtifacts_open CreateDeploymentPackage_open ListDeploymentPackages_open
        GetDeploymentPackage_open GetDeploymentPackageVersions_open UpdateDeploymentPackage_open
        DeleteDeploymentPackage_open WatchDeploymentPackages_open)

end
