(* ===== verification/Sample_Environment.thy ===== *)
theory Sample_Environment
  imports Catalog_Server
begin

text \<open>
  A concrete environment, in which the properties are applied to concrete requests: no policy agent,
  secrets kept in the table, an encoder that joins the fields, no faults, and a registry, an artifact and
  an application to store.
\<close>

definition joinSecret :: "registrySecretData \<Rightarrow> string" where
  "joinSecret r = intercalate [CHR 0x00] [sd_RootURL r, sd_InventoryURL r, sd_Username r, sd_AuthToken r, sd_Cacerts r]"

definition splitSecret :: "string \<Rightarrow> registrySecretData option" where
  "splitSecret s = (case Split CHR 0x00 s of
     [a, b, c, d, e] \<Rightarrow> Some \<lparr>sd_RootURL = a, sd_InventoryURL = b, sd_Username = c, sd_AuthToken = d, sd_Cacerts = e\<rparr>
   | _ \<Rightarrow> None)"

definition sampleEngine :: engine where
  "sampleEngine = \<lparr>g_like = (\<lambda>v p. True), g_collate = (\<lambda>a b. True)\<rparr>"

definition sampleEnv :: env where
  "sampleEnv = \<lparr>e_opa = None, e_UseSecretService = False, e_EncodeBase64 = joinSecret, e_DecodeBase64 = splitSecret,
     e_readTLSCert = Some ''certificate'', e_scanner = None, e_json = (\<lambda>_. True), e_yaml = (\<lambda>_. True),
     e_png = (\<lambda>_. True), e_jpeg = (\<lambda>_. True), e_engine = sampleEngine, e_rangeProfiles = (\<lambda>ps. ps), e_rangeDeploymentProfiles = (\<lambda>ps. ps),
     e_sameState = (\<lambda>_. True),
     e_uuid = ''s1'', e_untar = (\<lambda>_. Inl ''unknown compression''), e_yamlDocs = (\<lambda>_. ([], None)), e_yamlSchema = (\<lambda>_. None),
     e_base64 = Inr, e_rangeFiles = (\<lambda>fs. fs), e_sort = insertionSort, e_errorText = st_format,
     e_fault = (\<lambda>_. False), e_now = 7\<rparr>"

definition sampleCtx :: "metadata option" where
  "sampleCtx = Some [(ActiveProjectID, [''p1''])]"

definition sampleRegistry :: Registry where
  "sampleRegistry = \<lparr>r_Name = ''r1'', r_DisplayName = ''Reg'', r_Description = [], r_RootUrl = ''oci://a.b'',
     r_Username = ''u'', r_AuthToken = ''tok'', r_Type = ''HELM'', r_Cacerts = [], r_ApiType = [],
     r_InventoryUrl = [], r_CreateTime = None, r_UpdateTime = None\<rparr>"

definition sampleArtifact :: Artifact where
  "sampleArtifact = \<lparr>art_Name = ''icon'', art_DisplayName = [], art_Description = [], art_MimeType = ''text/plain'',
     art_Artifact = Some ''data'', art_CreateTime = None, art_UpdateTime = None\<rparr>"

definition sampleApplication :: Application where
  "sampleApplication = \<lparr>a_Name = ''app'', a_DisplayName = [], a_Description = [], a_Version = ''v1'', a_Kind = KIND_NORMAL,
     a_ChartName = ''chart'', a_ChartVersion = ''1.0'', a_HelmRegistryName = ''r1'', a_Profiles = [],
     a_DefaultProfileName = [], a_ImageRegistryName = [], a_IgnoredResources = [], a_CreateTime = None,
     a_UpdateTime = None\<rparr>"

definition sampleServer :: server where
  "sampleServer = snd (CreateRegistry sampleEnv sampleCtx (Some sampleRegistry) Register)"

section \<open>The samples are valid\<close>

lemma sampleUrl: "MatchString rootUrlPattern ''oci://a.b''"
  by code_simp

lemma sampleRegistry_valid: "Registry_Validate sampleRegistry = None"
  unfolding Registry_Validate_def firstFailure_None sampleRegistry_def
  by (simp add: validation_eval sampleUrl del: MatchString.simps lit.simps)

lemma sampleArtifact_valid: "Artifact_Validate sampleArtifact = None"
  unfolding Artifact_Validate_def firstFailure_None sampleArtifact_def
  by (simp add: validation_eval del: MatchString.simps lit.simps)

lemma sampleApplication_valid: "Application_Validate sampleApplication = None"
  by code_simp

section \<open>Running a handler on concrete values\<close>

lemma sampleProject: "GetActiveProjectID sampleCtx = Inr ''p1''"
  by (simp add: GetActiveProjectID_def sampleCtx_def md_Get_def ToLower_def lowerChar_def)

lemma sampleAuth: "authCheckAllowed sampleEnv ctx request names = Inr ()"
  by (simp add: authCheckAllowed_def sampleEnv_def)

lemmas registry_eval = createRegistry_def checkRegistryUniqueness_def checkUniqueness_def newRegistryRow_def
  writeRegistrySecret_def createRegistryRow_def appendEvent_def validateDisplayName_def TrimSpace_def trimBoth_def
  go_space_def q_count_def

lemmas sample_eval = sampleEnv_def sampleRegistry_def Register_def empty_db_def createdRegistry_def Let_def

lemma sampleCreate: "CreateRegistry sampleEnv sampleCtx (Some sampleRegistry) Register =
   (Inr (sampleRegistry\<lparr>r_CreateTime := Some 7\<rparr>), sampleServer)"
  unfolding sampleServer_def
  by (simp add: CreateRegistry_def sampleProject sampleRegistry_valid sampleAuth)
    (simp add: transaction_eval monad_eval registry_eval sample_eval)

definition sampleRow :: RegistryDB where
  "sampleRow = (newRegistryRow sampleEnv ''p1'' ''Reg'' sampleRegistry)\<lparr>rdb_ID := t_next empty_db, rdb_CreateTime := 7, rdb_UpdateTime := 7\<rparr>"

lemma sampleServer_eq: "sampleServer =
   Register\<lparr>sv_db := empty_db\<lparr>t_registries := [sampleRow], t_next := Suc (t_next empty_db)\<rparr>\<rparr>"
  unfolding sampleServer_def sampleRow_def
  by (simp add: CreateRegistry_def sampleProject sampleRegistry_valid sampleAuth)
    (simp add: transaction_eval monad_eval registry_eval sample_eval sendRegistry_def sendToAllRegistryEvents_def
      sendRegistryEvents_def NewEventListeners_def appendRegistryEvent_def)

text \<open>The application of the sample, stored after the registry.\<close>

definition sampleAppServer :: server where
  "sampleAppServer = snd (CreateApplication sampleEnv sampleCtx (Some sampleApplication) sampleServer)"

definition sampleAppRow :: ApplicationDB where
  "sampleAppRow = (newApplicationRow ''p1'' ''app'' sampleApplication (rdb_ID sampleRow) None)
     \<lparr>adb_ID := Suc (t_next empty_db), adb_CreateTime := 7, adb_UpdateTime := 7\<rparr>"

lemmas application_eval = createApplication_def checkApplicationUniqueness_def getRegistry_def imageRegistryOf_def
  createApplicationRow_def newApplicationRow_def createProfiles_def updateDefaultProfile_def createIgnoredResources_def
  appendApplication_def createdApplication_def q_only_def inProject_def updateApplicationRows_def updateRows_def

lemma sampleCreateApplication: "CreateApplication sampleEnv sampleCtx (Some sampleApplication) sampleServer =
   (Inr (createdApplication sampleApplication sampleAppRow),
    sampleServer\<lparr>sv_db := (sv_db sampleServer)\<lparr>t_applications := [sampleAppRow], t_next := Suc (Suc (t_next empty_db))\<rparr>\<rparr>)"
  unfolding sampleServer_eq
  by (simp add: CreateApplication_def sampleProject sampleApplication_valid sampleAuth)
    (simp add: transaction_eval monad_eval registry_eval application_eval sample_eval sampleApplication_def sampleRow_def
      sampleAppRow_def sendApplication_def sendToAllApplicationEvents_def sendApplicationEvents_def NewEventListeners_def
      appendApplicationEvent_def q_first_def)

lemma sampleAppServer_eq: "sampleAppServer =
   Register\<lparr>sv_db := empty_db\<lparr>t_registries := [sampleRow], t_applications := [sampleAppRow], t_next := Suc (Suc (t_next empty_db))\<rparr>\<rparr>"
  unfolding sampleAppServer_def sampleCreateApplication by (simp add: sampleServer_eq)

end
