(* ===== verification/Registry_Properties.thy ===== *)
theory Registry_Properties
  imports Sample_Environment
begin

text \<open>
  What the registry operations do from request to response: the properties of
  \<^verbatim>\<open>internal/northbound/registry.go\<close>, each with an application to a concrete request where it has
  hypotheses.
\<close>

section \<open>Runs of the handlers\<close>

lemma CreateRegistry_success:
  assumes "CreateRegistry env ctx (Some reg) srv = (Inr w, srv1)"
  obtains p created t0 t where "admitsCreateRegistry env ctx (Some reg) (p, reg)"
    "startTransaction env srv = (Inr t0, srv\<lparr>sv_open := Suc (sv_open srv)\<rparr>)"
    "createRegistry env p reg t0 = (Inr created, t)" "w = createdRegistry reg created"
    "srv1 = sendRegistry t (srv\<lparr>sv_db := tx_db t, sv_vault := tx_vault t\<rparr>)"
proof -
  obtain x t0 v t where run: "admitsCreateRegistry env ctx (Some reg) x"
    "startTransaction env srv = (Inr t0, srv\<lparr>sv_open := Suc (sv_open srv)\<rparr>)"
    "createRegistry env (fst x) (snd x) t0 = (Inr v, t)" "w = createdRegistry (snd x) v"
    "srv1 = sendRegistry t (srv\<lparr>sv_db := tx_db t, sv_vault := tx_vault t\<rparr>)"
    by (rule create_registry.success [OF assms]) (rule that)
  moreover from run(1) have "snd x = reg" by (simp add: admitsCreateRegistry_def)
  ultimately show thesis using that [of "fst x" t0 v t] by (metis prod.collapse)
qed

text \<open>Reading a registry in an environment without faults.\<close>

definition encodedSecret :: "env \<Rightarrow> server \<Rightarrow> RegistryDB \<Rightarrow> string option" where
  "encodedSecret env srv r =
     (if e_UseSecretService env then sv_vault srv (MakeSecretPath (rdb_ProjectUUID r) (rdb_Name r))
      else Some (rdb_AuthToken r))"

definition readRegistry :: "bool \<Rightarrow> RegistryDB \<Rightarrow> registrySecretData \<Rightarrow> Registry" where
  "readRegistry b r rsd =
     \<lparr>r_Name = rdb_Name r, r_DisplayName = rdb_DisplayName r, r_Description = rdb_Description r,
      r_RootUrl = sd_RootURL rsd, r_Username = (if b then sd_Username rsd else []),
      r_AuthToken = (if b then sd_AuthToken rsd else []), r_Type = rdb_Type r,
      r_Cacerts = (if b then sd_Cacerts rsd else []), r_ApiType = rdb_APIType r,
      r_InventoryUrl = sd_InventoryURL rsd, r_CreateTime = Some (rdb_CreateTime r),
      r_UpdateTime = Some (rdb_UpdateTime r)\<rparr>"

lemma GetRegistry_reads:
  assumes "admitsGetRegistry env ctx (name, b) (p, name, b)" and "\<And>n. \<not> e_fault env n"
    and "q_first (inProject p name) (t_registries (sv_db srv)) = Inr r"
    and "encodedSecret env srv r = Some s" and "e_DecodeBase64 env s = Some rsd"
    and "sd_Cacerts rsd \<noteq> dynamicCACertsName"
  shows "GetRegistry env ctx name b srv = (Inr (readRegistry b r rsd), srv)"
  using assms
  by (auto simp: GetRegistry_def admitsGetRegistry_def getRegistryName_def encodedSecret_def readRegistry_def
      findRegistry_def extractRegistry_def monad_eval transaction_eval Let_def split: if_splits)

lemma GetRegistry_missing:
  assumes "admitsGetRegistry env ctx (name, b) (p, name, b)" and "\<And>n. \<not> e_fault env n"
    and "\<And>r. r \<in> set (t_registries (sv_db srv)) \<Longrightarrow> \<not> inProject p name r"
  shows "GetRegistry env ctx name b srv =
    (Inl (NewNotFound [WithResourceType RegistryType, WithResourceName name]), srv)"
  using assms
  by (auto simp: GetRegistry_def admitsGetRegistry_def getRegistryName_def findRegistry_def monad_eval transaction_eval
      q_first_def filter_False Let_def)

section \<open>Creation and reading\<close>



section \<open>Names stay unique\<close>

text \<open>
  C30. A creation that succeeds adds exactly one row, for the active project, under a name and a display name (up to
  case) that no registry of the project had, and changes nothing else in the tables; the event of the creation is
  sent to the listeners.
\<close>

theorem creation_adds_one_registry:
  assumes "CreateRegistry env ctx (Some reg) srv = (Inr w, srv1)" and "GetActiveProjectID ctx = Inr p"
  shows "\<exists>r. storedRow env p reg r \<and>
    sv_db srv1 = (sv_db srv)\<lparr>t_registries := t_registries (sv_db srv) @ [r], t_next := Suc (t_next (sv_db srv))\<rparr> \<and>
    (\<forall>x \<in> set (t_registries (sv_db srv)). rdb_ProjectUUID x = p \<longrightarrow>
       rdb_Name x \<noteq> r_Name reg \<and> rdb_DisplayNameLc x \<noteq> ToLower (effectiveName reg)) \<and>
    sv_regOut srv1 = sv_regOut srv @ sendToAllRegistryEvents
       [(event CreatedEvent p, reg\<lparr>r_DisplayName := effectiveName reg\<rparr>)] (sv_listeners srv)"
proof -
  obtain q created t0 t where run: "admitsCreateRegistry env ctx (Some reg) (q, reg)"
    "startTransaction env srv = (Inr t0, srv\<lparr>sv_open := Suc (sv_open srv)\<rparr>)"
    "createRegistry env q reg t0 = (Inr created, t)" "w = createdRegistry reg created"
    "srv1 = sendRegistry t (srv\<lparr>sv_db := tx_db t, sv_vault := tx_vault t\<rparr>)"
    by (rule CreateRegistry_success [OF assms(1)]) (rule that)
  have q: "q = p" using run(1) assms(2) by (simp add: admitsCreateRegistry_def)
  note row = createRegistry_success [OF run(3) [unfolded q]]
  note start = startTransaction_Inr [OF run(2)]
  have named: "effectiveName reg \<noteq> []"
    using run(1) Registry_Validate_name by (auto simp: admitsCreateRegistry_def effectiveName_def)
  show ?thesis
  proof (intro exI conjI ballI impI)
    show "storedRow env p reg created" by (rule row(1))
    show "sv_db srv1 = (sv_db srv)\<lparr>t_registries := t_registries (sv_db srv) @ [created], t_next := Suc (t_next (sv_db srv))\<rparr>"
      using row(4) start run(5) by simp
    fix x assume x: "x \<in> set (t_registries (sv_db srv))" "rdb_ProjectUUID x = p"
    with row(5) [of x] start show "rdb_Name x \<noteq> r_Name reg" by (auto simp: inProject_def)
    from x row(6) [OF named] start show "rdb_DisplayNameLc x \<noteq> ToLower (effectiveName reg)" by simp
  next
    show "sv_regOut srv1 = sv_regOut srv @ sendToAllRegistryEvents
       [(event CreatedEvent p, reg\<lparr>r_DisplayName := effectiveName reg\<rparr>)] (sv_listeners srv)"
      using row(8) start run(5) by (simp add: sendRegistry_def)
  qed
qed

theorem creation_adds_one_registry_witness:
  "\<exists>r. storedRow sampleEnv ''p1'' sampleRegistry r \<and> sv_db sampleServer =
     empty_db\<lparr>t_registries := [r], t_next := Suc (t_next empty_db)\<rparr>"
  using creation_adds_one_registry [OF sampleCreate sampleProject] by (auto simp: Register_def empty_db_def)

lemma checkRegistryUniqueness_no_fault:
  assumes "\<And>n. \<not> tx_fault t n"
  shows "(\<exists>e. checkRegistryUniqueness p reg t = (Inl e, tick t) \<and> st_code e = AlreadyExists) \<or>
    checkRegistryUniqueness p reg t = (Inr (), tick t) \<or> checkRegistryUniqueness p reg t = (Inr (), t)"
  using assms by (auto simp: checkRegistryUniqueness_def monad_eval checkUniqueness_def q_count_def tick_def Let_def)

text \<open>
  Conversely a creation whose name is taken in the project is refused with the code of an invalid argument, or of
  something that already exists when its display name belongs to another registry, and changes nothing at all.
\<close>

theorem existing_registry_not_created_again:
  assumes "admitsCreateRegistry env ctx (Some reg) (p, reg)" and "\<And>n. \<not> e_fault env n"
    and "x \<in> set (t_registries (sv_db srv))" and "inProject p (r_Name reg) x"
  shows "\<exists>e. CreateRegistry env ctx (Some reg) srv = (Inl e, srv) \<and> st_code e \<in> {InvalidArgument, AlreadyExists}"
proof -
  define t0 where "t0 = freshTx env srv"
  have start: "startTransaction env srv = (Inr t0, srv\<lparr>sv_open := Suc (sv_open srv)\<rparr>)"
    using assms(2) by (simp add: startTransaction_fresh t0_def)
  have taken: "createRegistryRow (newRegistryRow env p dn reg') n (tx_db t0) = (Inl EntConstraint, tx_db t0)"
    if "r_Name reg' = r_Name reg" for dn reg' n
    using assms(3,4) that by (auto simp: createRegistryRow_def newRegistryRow_def t0_def freshTx_def list_ex_iff inProject_def)
  have "\<exists>e t. createRegistry env p reg t0 = (Inl e, t) \<and> st_code e \<in> {InvalidArgument, AlreadyExists} \<and>
      tx_vault t = sv_vault srv"
  proof (cases "validateDisplayName (r_Name reg) (r_DisplayName reg)")
    case (Pair dn ok)
    let ?reg = "reg\<lparr>r_DisplayName := dn\<rparr>"
    have nofault: "\<And>n. \<not> tx_fault t0 n" using assms(2) by (simp add: t0_def freshTx_def)
    consider e where "checkRegistryUniqueness p ?reg t0 = (Inl e, tick t0)" "st_code e = AlreadyExists"
      | t where "checkRegistryUniqueness p ?reg t0 = (Inr (), t)" "t = tick t0 \<or> t = t0"
      using checkRegistryUniqueness_no_fault [OF nofault, of p ?reg] by blast
    then show ?thesis
    proof cases
      case 1
      with Pair show ?thesis
        by (auto simp: createRegistry_def bnd_def throw_def t0_def freshTx_def Let_def)
    next
      case 2
      then have "tx_db t = tx_db t0" "\<not> tx_fault t (tx_clock t)" "tx_vault t = sv_vault srv"
        using nofault by (auto simp: t0_def freshTx_def)
      with 2 Pair taken show ?thesis
        by (auto simp: createRegistry_def monad_eval Let_def)
    qed
  qed
  then show ?thesis
    using assms(1) start
    by (auto simp: CreateRegistry_def admitsCreateRegistry_def withTransaction_def rollbackTransaction_def)
qed

theorem existing_registry_not_created_again_witness:
  "\<exists>e. CreateRegistry sampleEnv sampleCtx (Some sampleRegistry) sampleServer = (Inl e, sampleServer) \<and>
     st_code e \<in> {InvalidArgument, AlreadyExists}"
proof -
  have a: "admitsCreateRegistry sampleEnv sampleCtx (Some sampleRegistry) (''p1'', sampleRegistry)"
    by (simp add: admitsCreateRegistry_def sampleProject sampleAuth sampleRegistry_valid)
  have "sampleRow \<in> set (t_registries (sv_db sampleServer))" "inProject ''p1'' (r_Name sampleRegistry) sampleRow"
    by (simp_all add: sampleServer_eq inProject_def sampleRow_def newRegistryRow_def)
  with existing_registry_not_created_again [OF a, of sampleRow sampleServer] show ?thesis by (simp add: sampleEnv_def)
qed

section \<open>Deletion\<close>

lemma deleteRegistryBody_success:
  assumes "deleteRegistryBody p name t = (Inr u, t1)"
  obtains r d where "\<And>a. a \<in> set (t_applications (tx_db t)) \<Longrightarrow> \<not> usesRegistry p name (tx_db t) a"
    "r \<in> set (t_registries (tx_db t))" "inProject p name r"
    "d = (tx_db t)\<lparr>t_registries := List.filter (\<lambda>r. \<not> inProject p name r) (t_registries (tx_db t)),
       t_applications := map (clearImage (map rdb_ID (List.filter (inProject p name) (t_registries (tx_db t)))))
         (t_applications (tx_db t))\<rparr>"
    "tx_db t1 = d" "tx_vault t1 = tx_vault t" "tx_regEvents t1 = tx_regEvents t"
  using assms
  by (auto simp: deleteRegistryBody_def success_simps q_count_def deleteRegistryRows_def Let_def filter_empty_conv
      length_greater_0_conv [symmetric] split: if_splits)


lemma DeleteRegistry_success:
  assumes "DeleteRegistry env ctx name srv = (Inr u, srv1)"
  obtains p t0 t1 t where "admitsDeleteRegistry env ctx name (p, name)"
    "startTransaction env srv = (Inr t0, srv\<lparr>sv_open := Suc (sv_open srv)\<rparr>)"
    "deleteRegistryBody p name t0 = (Inr (), t1)" "tx_db t = tx_db t1" "tx_regEvents t = tx_regEvents t1"
    "tx_vault t = (if e_UseSecretService env then (tx_vault t1)(MakeSecretPath p name := None) else tx_vault t1)"
    "srv1 = deletedRegistry (p, name) t (srv\<lparr>sv_db := tx_db t, sv_vault := tx_vault t\<rparr>)"
proof -
  obtain x t0 v t where run: "admitsDeleteRegistry env ctx name x"
    "startTransaction env srv = (Inr t0, srv\<lparr>sv_open := Suc (sv_open srv)\<rparr>)" "tx_db t0 = sv_db srv"
    "deleteRegistryPhases env x t0 = (Inr v, t)" "u = v"
    "srv1 = deletedRegistry x t (srv\<lparr>sv_db := tx_db t, sv_vault := tx_vault t\<rparr>)"
    by (rule delete_registry.success [OF assms]) (rule that)
  obtain p where x: "x = (p, name)" using run(1) by (cases x) (auto simp: admitsDeleteRegistry_def)
  from run(4) obtain t1 where "deleteRegistryBody p name t0 = (Inr (), t1)" "tx_db t = tx_db t1"
    "tx_regEvents t = tx_regEvents t1"
    "tx_vault t = (if e_UseSecretService env then (tx_vault t1)(MakeSecretPath p name := None) else tx_vault t1)"
    by (auto simp: x deleteRegistryPhases_def loginSecrets_def success_simps split: if_splits)
  with that run x show thesis by blast
qed


lemma sampleDelete: "\<exists>srv1. DeleteRegistry sampleEnv sampleCtx ''r1'' sampleServer = (Inr (), srv1)"
  by (simp add: DeleteRegistry_def sampleProject sampleAuth)
    (auto simp: transaction_eval monad_eval deleteRegistryBody_def checkDeleteResult_def sampleServer_eq sampleRow_def
      newRegistryRow_def q_count_def deleteRegistryRows_def inProject_def sample_eval)


text \<open>
  A registry an application of the project uses is not deleted: the call fails with a failed precondition and
  changes nothing.
\<close>

theorem used_registry_not_deleted:
  assumes "admitsDeleteRegistry env ctx name (p, name)" and "\<And>n. \<not> e_fault env n"
    and "a \<in> set (t_applications (sv_db srv))" and "usesRegistry p name (sv_db srv) a"
  shows "DeleteRegistry env ctx name srv = (Inl (NewFailedPrecondition [WithResourceType RegistryType,
       WithResourceName name, WithMessage ''cannot delete registry while in use'' []]), srv)"
  using assms
  by (auto simp: DeleteRegistry_def admitsDeleteRegistry_def transaction_eval monad_eval deleteRegistryBody_def
      q_count_def filter_empty_conv Let_def)

theorem used_registry_not_deleted_witness:
  "DeleteRegistry sampleEnv sampleCtx ''r1'' sampleAppServer = (Inl (NewFailedPrecondition [WithResourceType RegistryType,
       WithResourceName ''r1'', WithMessage ''cannot delete registry while in use'' []]), sampleAppServer)"
proof (rule used_registry_not_deleted)
  show "admitsDeleteRegistry sampleEnv sampleCtx ''r1'' (''p1'', ''r1'')"
    by (simp add: admitsDeleteRegistry_def sampleProject sampleAuth)
  show "sampleAppRow \<in> set (t_applications (sv_db sampleAppServer))"
    by (simp add: sampleAppServer_eq)
  show "usesRegistry ''p1'' ''r1'' (sv_db sampleAppServer) sampleAppRow"
    by (simp add: sampleAppServer_eq usesRegistry_def sampleAppRow_def newApplicationRow_def sampleRow_def newRegistryRow_def
        sampleRegistry_def)
qed (simp add: sampleEnv_def)

text \<open>
  After a deletion the registry is gone: a request for it in the same project, allowed and without faults, fails
  with not found.
\<close>

theorem deleted_registry_is_not_found:
  assumes "DeleteRegistry env ctx name srv = (Inr u, srv1)"
    and "GetActiveProjectID ctx' = GetActiveProjectID ctx"
    and "authCheckAllowed env' ctx' (GetRegistryRequest name b) [getRegistryName b] = Inr ()"
    and "\<And>n. \<not> e_fault env' n"
  shows "GetRegistry env' ctx' name b srv1 =
    (Inl (NewNotFound [WithResourceType RegistryType, WithResourceName name]), srv1)"
proof -
  obtain q t0 t1 t where run: "admitsDeleteRegistry env ctx name (q, name)"
    "startTransaction env srv = (Inr t0, srv\<lparr>sv_open := Suc (sv_open srv)\<rparr>)"
    "deleteRegistryBody q name t0 = (Inr (), t1)" "tx_db t = tx_db t1" "tx_regEvents t = tx_regEvents t1"
    "tx_vault t = (if e_UseSecretService env then (tx_vault t1)(MakeSecretPath q name := None) else tx_vault t1)"
    "srv1 = deletedRegistry (q, name) t (srv\<lparr>sv_db := tx_db t, sv_vault := tx_vault t\<rparr>)"
    by (rule DeleteRegistry_success [OF assms(1)]) (rule that)
  have "t_registries (sv_db srv1) = List.filter (\<lambda>r. \<not> inProject q name r) (t_registries (tx_db t0))"
    using run(4,7) by (auto simp: deletedRegistry_def intro: deleteRegistryBody_success [OF run(3)])
  moreover have "admitsGetRegistry env' ctx' (name, b) (q, name, b)"
    using run(1) assms(2,3) by (simp add: admitsGetRegistry_def admitsDeleteRegistry_def)
  ultimately show ?thesis by (intro GetRegistry_missing assms(4)) auto
qed

theorem deleted_registry_is_not_found_witness:
  "\<exists>srv1. DeleteRegistry sampleEnv sampleCtx ''r1'' sampleServer = (Inr (), srv1) \<and>
     GetRegistry sampleEnv sampleCtx ''r1'' False srv1 =
       (Inl (NewNotFound [WithResourceType RegistryType, WithResourceName ''r1'']), srv1)"
proof -
  obtain srv1 where d: "DeleteRegistry sampleEnv sampleCtx ''r1'' sampleServer = (Inr (), srv1)"
    using sampleDelete by blast
  with deleted_registry_is_not_found [OF d refl sampleAuth, of False] show ?thesis by (auto simp: sampleEnv_def)
qed

section \<open>Credentials\<close>

text \<open>The last step of the extraction, on a decoded secret.\<close>

definition readInto :: "env \<Rightarrow> bool \<Rightarrow> RegistryDB \<Rightarrow> registrySecretData \<Rightarrow> Registry txm" where
  "readInto env b r rsd =
     (let reg = readRegistry b r rsd
      in if b \<and> sd_Cacerts rsd = dynamicCACertsName then
           (case e_readTLSCert env of
              None \<Rightarrow> throw (vaultError EntFailure)
            | Some cert \<Rightarrow> ret (reg\<lparr>r_Cacerts := cert\<rparr>))
         else ret reg)"

lemma extractRegistry_readInto:
  "extractRegistry env b r =
     bnd (if e_UseSecretService env then orVaultError (ReadSecret (MakeSecretPath (rdb_ProjectUUID r) (rdb_Name r)))
          else ret (rdb_AuthToken r)) (\<lambda>s.
     case e_DecodeBase64 env s of None \<Rightarrow> throw (vaultError EntFailure) | Some rsd \<Rightarrow> readInto env b r rsd)"
  unfolding extractRegistry_def readInto_def readRegistry_def Let_def
  by (cases b) (simp_all cong: if_cong option.case_cong)

lemma extractRegistry_success:
  assumes "extractRegistry env b r t = (Inr reg, t1)"
  shows "r_Name reg = rdb_Name r" and "r_DisplayName reg = rdb_DisplayName r" and "r_Description reg = rdb_Description r"
    and "r_Type reg = rdb_Type r" and "r_ApiType reg = rdb_APIType r"
    and "\<not> b \<Longrightarrow> r_Username reg = [] \<and> r_AuthToken reg = [] \<and> r_Cacerts reg = []"
proof -
  from assms obtain s t2 where "(case e_DecodeBase64 env s of None \<Rightarrow> throw (vaultError EntFailure)
     | Some rsd \<Rightarrow> readInto env b r rsd) t2 = (Inr reg, t1)"
    unfolding extractRegistry_readInto bnd_Inr by blast
  then obtain rsd where "readInto env b r rsd t2 = (Inr reg, t1)"
    by (auto simp: throw_Inr split: option.splits)
  then show "r_Name reg = rdb_Name r" "r_DisplayName reg = rdb_DisplayName r" "r_Description reg = rdb_Description r"
    "r_Type reg = rdb_Type r" "r_ApiType reg = rdb_APIType r"
    "\<not> b \<Longrightarrow> r_Username reg = [] \<and> r_AuthToken reg = [] \<and> r_Cacerts reg = []"
    by (auto simp: readInto_def readRegistry_def Let_def throw_Inr ret_Inr split: if_splits option.splits)
qed

text \<open>
  The secret of a creation is written before the commit: when the commit fails, the call returns the error and no
  row is added, but the secret stays in the secret service.
\<close>

theorem secret_survives_failed_commit:
  assumes "admitsCreateRegistry env ctx (Some reg) (p, reg)" and "e_UseSecretService env"
    and "startTransaction env srv = (Inr t0, srv0)" and "createRegistry env p reg t0 = (Inr created, t)"
    and "commitTransaction t srv0 = (Inl err, srv1)"
  shows "CreateRegistry env ctx (Some reg) srv = (Inl (dbError err), srv1) \<and> sv_db srv1 = sv_db srv \<and>
    sv_vault srv1 (MakeSecretPath p (r_Name reg)) = Some (e_EncodeBase64 env (registrySecret reg))"
  using assms createRegistry_success(7) [OF assms(4,2)] startTransaction_Inr [OF assms(3)] commitTransaction_Inl [OF assms(5)]
  by (auto simp: CreateRegistry_def admitsCreateRegistry_def withTransaction_def)

definition faultyEnv :: env where
  "faultyEnv = sampleEnv\<lparr>e_UseSecretService := True, e_fault := (\<lambda>n. n = 5)\<rparr>"

theorem secret_survives_failed_commit_witness:
  "\<exists>srv1. CreateRegistry faultyEnv sampleCtx (Some sampleRegistry) Register = (Inl (dbError EntFailure), srv1) \<and>
     sv_db srv1 = empty_db \<and> sv_vault srv1 ''cat-p1_r1'' \<noteq> None"
proof -
  have a: "admitsCreateRegistry faultyEnv sampleCtx (Some sampleRegistry) (''p1'', sampleRegistry)"
    by (simp add: admitsCreateRegistry_def sampleProject sampleRegistry_valid)
      (simp add: authCheckAllowed_def faultyEnv_def sampleEnv_def)
  obtain t0 srv0 created t where run: "startTransaction faultyEnv Register = (Inr t0, srv0)"
    "createRegistry faultyEnv ''p1'' sampleRegistry t0 = (Inr created, t)" "tx_fault t (tx_clock t)"
    by (simp add: transaction_eval monad_eval registry_eval sample_eval faultyEnv_def)
  then have c: "commitTransaction t srv0 = (Inl EntFailure, srv0\<lparr>sv_vault := tx_vault t, sv_open := sv_open srv0 - 1\<rparr>)"
    by (simp add: commitTransaction_def)
  have "e_UseSecretService faultyEnv" by (simp add: faultyEnv_def)
  from secret_survives_failed_commit [OF a this run(1,2) c] show ?thesis
    by (simp add: MakeSecretPath_def sampleRegistry_def Register_def)
qed

section \<open>Listing\<close>

lemma getRegistries_success:
  assumes "getRegistries env p b obs fs n off t = (Inr (regs, ps, k), t1)"
  obtains rows where "set rows \<subseteq> {r \<in> set (t_registries (tx_db t)). p = [] \<or> rdb_ProjectUUID r = p}"
    "list_all2 (\<lambda>r reg. \<exists>s s1. extractRegistry env b r s = (Inr reg, s1)) rows regs" "ps = map rdb_ProjectUUID rows"
proof -
  from assms obtain t0 os preds all i j e where step:
    "(if e_UseSecretService env then orVaultError SecretServiceFactory else ret ()) t = (Inr (), t0)"
    "q_list (e_engine env) registryColumn registryText os preds (\<lambda>r. p = [] \<or> rdb_ProjectUUID r = p) (t_registries (tx_db t0)) = Inr all"
    "(if all = [] then ret ([], [], 0)
     else (case pageOf all i j of
             None \<Rightarrow> throw goPanic
           | Some page \<Rightarrow>
               bnd (mapM (extractRegistry env b) page) (\<lambda>registries.
               ret (registries, map rdb_ProjectUUID page, e)))) (tick t0) = (Inr (regs, ps, k), t1)"
    unfolding getRegistries_def by (auto simp: bnd_Inr liftE_Inr orDBError_query_Inr)
  have db: "tx_db t0 = tx_db t" using step(1) by (auto simp: secrets_Inr ret_Inr split: if_splits)
  have all: "set all \<subseteq> {r \<in> set (t_registries (tx_db t)). p = [] \<or> rdb_ProjectUUID r = p}"
    using step(2) by (auto simp: q_list_def db split: if_splits)
  show thesis
  proof (cases "all = []")
    case True
    with step(3) show thesis by (intro that [of "[]"]) (simp_all add: ret_Inr)
  next
    case False
    with step(3) obtain page s1 where "pageOf all i j = Some page"
      "mapM (extractRegistry env b) page (tick t0) = (Inr regs, s1)" "ps = map rdb_ProjectUUID page"
      by (auto simp: bnd_Inr ret_Inr throw_Inr split: option.splits)
    with pageOf_subset all mapM_Inr show thesis by (intro that [of page]) blast+
  qed
qed

definition listed :: "bool \<Rightarrow> RegistryDB \<Rightarrow> Registry \<Rightarrow> bool" where
  "listed b r reg \<longleftrightarrow> r_Name reg = rdb_Name r \<and> r_DisplayName reg = rdb_DisplayName r \<and>
     r_Description reg = rdb_Description r \<and> r_Type reg = rdb_Type r \<and> r_ApiType reg = rdb_APIType r \<and>
     (\<not> b \<longrightarrow> r_Username reg = [] \<and> r_AuthToken reg = [] \<and> r_Cacerts reg = [])"

lemma ListRegistries_listed:
  assumes "ListRegistries env ctx (Some req) srv = (Inr (regs, n), srv1)"
  shows "\<exists>p. GetActiveProjectID ctx = Inr p \<and> authCheckAllowed env ctx (ListRegistriesReq req) [listRegistriesName req] = Inr () \<and>
    (\<exists>rows. (\<forall>r \<in> set rows. r \<in> set (t_registries (sv_db srv)) \<and> rdb_ProjectUUID r = p) \<and>
      list_all2 (listed (lr_ShowSensitiveInfo req)) rows regs)"
proof -
  obtain x t0 v t where run: "admitsListRegistries env ctx (Some req) x"
    "startTransaction env srv = (Inr t0, srv\<lparr>sv_open := Suc (sv_open srv)\<rparr>)" "tx_db t0 = sv_db srv"
    "listRegistriesBody env x t0 = (Inr v, t)" "(regs, n) = (case v of (registries, _, n) \<Rightarrow> (registries, n))"
    "srv1 = srv\<lparr>sv_db := tx_db t, sv_vault := tx_vault t\<rparr>"
    by (rule list_registries.success [OF assms]) (rule that)
  obtain p where x: "x = (p, req)" and p: "GetActiveProjectID ctx = Inr p"
    "authCheckAllowed env ctx (ListRegistriesReq req) [listRegistriesName req] = Inr ()"
    using run(1) by (cases x) (auto simp: admitsListRegistries_def)
  obtain ps where v: "v = (regs, ps, n)" using run(5) by (auto split: prod.splits)
  from run(4) obtain obs fs where
    "getRegistries env p (lr_ShowSensitiveInfo req) obs fs (lr_PageSize req) (lr_Offset req) t0 = (Inr (regs, ps, n), t)"
    by (auto simp: listRegistriesBody_def x v bnd_Inr liftE_Inr)
  then obtain rows where rows: "set rows \<subseteq> {r \<in> set (t_registries (tx_db t0)). p = [] \<or> rdb_ProjectUUID r = p}"
    "list_all2 (\<lambda>r reg. \<exists>s s1. extractRegistry env (lr_ShowSensitiveInfo req) r s = (Inr reg, s1)) rows regs"
    by (rule getRegistries_success)
  from rows(2) have "list_all2 (listed (lr_ShowSensitiveInfo req)) rows regs"
    by (rule list_all2_mono) (auto simp: listed_def dest: extractRegistry_success)
  with rows(1) run(3) p GetActiveProjectID_nonempty [OF p(1)] show ?thesis by auto
qed

text \<open>
  C39. A listing stays in the active project: each registry returned is read from a row of that project, and shows
  its name, texts, type and API type; without a request for sensitive information no credentials are shown.
\<close>

theorem listing_stays_in_project:
  assumes "ListRegistries env ctx (Some req) srv = (Inr (regs, n), srv1)" and "GetActiveProjectID ctx = Inr p"
  shows "\<exists>rows. (\<forall>r \<in> set rows. r \<in> set (t_registries (sv_db srv)) \<and> rdb_ProjectUUID r = p) \<and>
    list_all2 (listed (lr_ShowSensitiveInfo req)) rows regs"
  using ListRegistries_listed [OF assms(1)] assms(2) by auto

definition sampleListing :: ListRegistriesRequest where
  "sampleListing = \<lparr>lr_OrderBy = ''name desc'', lr_Filter = ''name=r1'', lr_PageSize = 10, lr_Offset = 0,
     lr_ShowSensitiveInfo = False\<rparr>"

theorem listing_stays_in_project_witness:
  "\<exists>reg n srv1. ListRegistries sampleEnv sampleCtx (Some sampleListing) sampleServer = (Inr ([reg], n), srv1) \<and>
     listed False sampleRow reg"
proof -
  have "case fst (ListRegistries sampleEnv sampleCtx (Some sampleListing) sampleServer) of
      Inr (regs, n) \<Rightarrow> map r_Name regs = [''r1''] | Inl e \<Rightarrow> False"
    unfolding sampleServer_eq by code_simp
  then obtain reg n srv1 where run: "ListRegistries sampleEnv sampleCtx (Some sampleListing) sampleServer = (Inr ([reg], n), srv1)"
    by (auto split: sum.splits prod.splits simp: prod_eq_iff)
  from listing_stays_in_project [OF run sampleProject] obtain rows where
    "\<forall>r \<in> set rows. r \<in> set (t_registries (sv_db sampleServer)) \<and> rdb_ProjectUUID r = ''p1''"
    "list_all2 (listed (lr_ShowSensitiveInfo sampleListing)) rows [reg]" by blast
  then have "listed False sampleRow reg" by (auto simp: list_all2_Cons2 sampleServer_eq sampleListing_def)
  with run show ?thesis by blast
qed

text \<open>
  C14. Neither getting nor listing registries shows credentials without the permission for them: if a policy agent is
  configured and a registry returned by one of the two calls has a user name, a token or certificates, then the agent allowed
  this request under the name of the rule for sensitive information. The events of a watch are not covered: they can show
  credentials under the rule of the watch.
\<close>

theorem credentials_need_permission:
  assumes "e_opa env = Some opa" and "r_Username reg \<noteq> [] \<or> r_AuthToken reg \<noteq> [] \<or> r_Cacerts reg \<noteq> []"
  shows "(GetRegistry env ctx name b srv = (Inr reg, srv1) \<longrightarrow>
      (\<exists>md. ctx = Some md \<and> opa (GetRegistryRequest name True) ''GetRegistryWithSensitiveInfoRequest'' md = OpaBool True)) \<and>
    (ListRegistries env ctx (Some req) srv = (Inr (regs, n), srv2) \<and> reg \<in> set regs \<longrightarrow>
      (\<exists>md. ctx = Some md \<and> lr_ShowSensitiveInfo req \<and>
        opa (ListRegistriesReq req) ''ListRegistriesWithSensitiveInfoRequest'' md = OpaBool True))"
proof (intro conjI impI)
  assume "GetRegistry env ctx name b srv = (Inr reg, srv1)"
  then obtain x t0 v t where run: "admitsGetRegistry env ctx (name, b) x"
    "startTransaction env srv = (Inr t0, srv\<lparr>sv_open := Suc (sv_open srv)\<rparr>)" "tx_db t0 = sv_db srv"
    "getRegistryBody env x t0 = (Inr v, t)" "reg = v" "srv1 = srv\<lparr>sv_db := tx_db t, sv_vault := tx_vault t\<rparr>"
    by (rule get_registry.success [of env ctx "(name, b)", simplified]) (rule that)
  from run(1) obtain p where x: "x = (p, name, b)" by (cases x) (auto simp: admitsGetRegistry_def)
  from run(4,5) obtain r s s1 where "extractRegistry env b r s = (Inr reg, s1)"
    by (auto simp: getRegistryBody_def x bnd_Inr)
  with assms(2) have b: b using extractRegistry_success(6) by blast
  with run(1) have "authCheckAllowed env ctx (GetRegistryRequest name True) [getRegistryName True] = Inr ()"
    by (simp add: admitsGetRegistry_def)
  from authCheckAllowed_ok [OF assms(1) this]
  show "\<exists>md. ctx = Some md \<and> opa (GetRegistryRequest name True) ''GetRegistryWithSensitiveInfoRequest'' md = OpaBool True"
    by (simp add: getRegistryName_def)
next
  assume l: "ListRegistries env ctx (Some req) srv = (Inr (regs, n), srv2) \<and> reg \<in> set regs"
  obtain p where p: "authCheckAllowed env ctx (ListRegistriesReq req) [listRegistriesName req] = Inr ()"
    "\<exists>rows. list_all2 (listed (lr_ShowSensitiveInfo req)) rows regs"
    using ListRegistries_listed [OF conjunct1 [OF l]] by blast
  then obtain r where "listed (lr_ShowSensitiveInfo req) r reg" using l by (auto simp: list_all2_conv_all_nth in_set_conv_nth)
  with assms(2) have show_info: "lr_ShowSensitiveInfo req" by (auto simp: listed_def)
  with authCheckAllowed_ok [OF assms(1) p(1)]
  show "\<exists>md. ctx = Some md \<and> lr_ShowSensitiveInfo req \<and>
      opa (ListRegistriesReq req) ''ListRegistriesWithSensitiveInfoRequest'' md = OpaBool True"
    by (simp add: listRegistriesName_def)
qed

definition allowEnv :: env where
  "allowEnv = sampleEnv\<lparr>e_opa := Some (\<lambda>request name md. OpaBool (name \<noteq> ''GetRegistryRequest''))\<rparr>"

definition sensitiveListing :: ListRegistriesRequest where
  "sensitiveListing = sampleListing\<lparr>lr_ShowSensitiveInfo := True\<rparr>"

lemma allow_get: "\<exists>reg srv1. GetRegistry allowEnv sampleCtx ''r1'' True sampleServer = (Inr reg, srv1) \<and> r_AuthToken reg = ''tok''"
proof -
  have decode: "splitSecret (joinSecret (registrySecret sampleRegistry)) = Some (registrySecret sampleRegistry)"
    by code_simp
  have get: "GetRegistry allowEnv sampleCtx ''r1'' True sampleServer =
      (Inr (readRegistry True sampleRow (registrySecret sampleRegistry)), sampleServer)"
  proof (rule GetRegistry_reads)
    show "admitsGetRegistry allowEnv sampleCtx (''r1'', True) (''p1'', ''r1'', True)"
      by (simp add: admitsGetRegistry_def sampleProject) (simp add: authCheckAllowed_def allowEnv_def sampleCtx_def getRegistryName_def)
    show "q_first (inProject ''p1'' ''r1'') (t_registries (sv_db sampleServer)) = Inr sampleRow"
      by (simp add: sampleServer_eq q_first_def inProject_def sampleRow_def newRegistryRow_def sampleRegistry_def)
    show "encodedSecret allowEnv sampleServer sampleRow = Some (joinSecret (registrySecret sampleRegistry))"
      by (simp add: encodedSecret_def allowEnv_def sampleEnv_def sampleRow_def newRegistryRow_def)
    show "e_DecodeBase64 allowEnv (joinSecret (registrySecret sampleRegistry)) = Some (registrySecret sampleRegistry)"
      using decode by (simp add: allowEnv_def sampleEnv_def)
  qed (simp_all add: allowEnv_def sampleEnv_def registrySecret_def sampleRegistry_def)
  then show ?thesis by (simp add: readRegistry_def registrySecret_def sampleRegistry_def)
qed

lemma allow_list: "\<exists>reg n srv1. ListRegistries allowEnv sampleCtx (Some sensitiveListing) sampleServer = (Inr ([reg], n), srv1) \<and>
   r_AuthToken reg = ''tok''"
proof -
  have "case fst (ListRegistries allowEnv sampleCtx (Some sensitiveListing) sampleServer) of
      Inr (regs, n) \<Rightarrow> map r_AuthToken regs = [''tok''] | Inl e \<Rightarrow> False"
    unfolding sampleServer_eq by code_simp
  then show ?thesis by (auto split: sum.splits prod.splits simp: prod_eq_iff)
qed

theorem credentials_need_permission_witness:
  "(\<exists>reg srv1. GetRegistry allowEnv sampleCtx ''r1'' True sampleServer = (Inr reg, srv1) \<and> r_AuthToken reg = ''tok'') \<and>
   (\<exists>reg n srv1. ListRegistries allowEnv sampleCtx (Some sensitiveListing) sampleServer = (Inr ([reg], n), srv1) \<and>
     r_AuthToken reg = ''tok'') \<and> lr_ShowSensitiveInfo sensitiveListing"
proof -
  have opa: "e_opa allowEnv = Some (\<lambda>request name md. OpaBool (name \<noteq> ''GetRegistryRequest''))" by (simp add: allowEnv_def)
  obtain reg n srv1 where l: "ListRegistries allowEnv sampleCtx (Some sensitiveListing) sampleServer = (Inr ([reg], n), srv1)"
    "r_AuthToken reg = ''tok''" using allow_list by (elim exE conjE) (rule that)
  have "r_Username reg \<noteq> [] \<or> r_AuthToken reg \<noteq> [] \<or> r_Cacerts reg \<noteq> []" using l(2) by simp
  note allowed = credentials_need_permission [OF opa this, where ctx = sampleCtx and req = sensitiveListing and regs = "[reg]"
    and srv = sampleServer and n = n and ?srv2.0 = srv1]
  have "lr_ShowSensitiveInfo sensitiveListing" using allowed l by simp
  with l allow_get show ?thesis by blast
qed

section \<open>Updates\<close>

lemma checkRegistryType_success: "checkRegistryType p reg t = (Inr u, t1) \<Longrightarrow> onlyCalls t t1"
  by (auto simp: checkRegistryType_def bnd_Inr branch_Inr throw_Inr ret_Inr query_Inr q_count_def split: if_splits)

definition updatedRow :: "env \<Rightarrow> Registry \<Rightarrow> RegistryDB \<Rightarrow> RegistryDB" where
  "updatedRow env reg r = (setRegistry env (effectiveName reg) reg r)\<lparr>rdb_UpdateTime := e_now env\<rparr>"

lemma updateRegistry_success:
  assumes "updateRegistry env p reg t = (Inr u, t1)" and "tx_now t = e_now env"
  shows "tx_db t1 = (tx_db t)\<lparr>t_registries := map (\<lambda>r. if inProject p (r_Name reg) r then updatedRow env reg r else r)
      (t_registries (tx_db t))\<rparr>"
    and "\<exists>r \<in> set (t_registries (tx_db t)). inProject p (r_Name reg) r"
    and "e_UseSecretService env \<Longrightarrow>
      tx_vault t1 (MakeSecretPath p (r_Name reg)) = Some (e_EncodeBase64 env (registrySecret reg))"
    and "tx_regEvents t1 = tx_regEvents t @ [(event UpdatedEvent p, reg)]"
proof -
  obtain u1 t2 u2 t3 n t4 u3 t5 where run: "checkRegistryUniqueness p reg t = (Inr u1, t2)"
    "checkRegistryType p reg t2 = (Inr u2, t3)"
    "mutate (updateRegistryRows (inProject p (r_Name reg)) (setRegistry env (effectiveName reg) reg)) t3 = (Inr (Inr n), t4)"
    "n \<noteq> 0" "writeRegistrySecret env p reg t4 = (Inr u3, t5)" "appendEvent UpdatedEvent p reg t5 = (Inr u, t1)"
    using assms(1) unfolding updateRegistry_def
    by (auto simp: bnd_Inr branch_Inr dest!: validateDisplayName_effective split: prod.splits)
  have "onlyCalls t t2" using checkRegistryUniqueness_success(1) [OF run(1)] by auto
  note calls = onlyCalls_fields [OF this] onlyCalls_fields [OF checkRegistryType_success [OF run(2)]]
  have t4: "tx_db t4 = (tx_db t)\<lparr>t_registries := map (\<lambda>r. if inProject p (r_Name reg) r then updatedRow env reg r else r)
      (t_registries (tx_db t))\<rparr>" "tx_regEvents t4 = tx_regEvents t"
    "n = length (List.filter (inProject p (r_Name reg)) (t_registries (tx_db t)))"
    using run(3) assms(2) calls
    by (auto simp: mutate_Inr updateRegistryRows_def updateRows_def updatedRow_def split: if_splits)
  note sec = writeRegistrySecret_success [OF run(5)]
  have t1: "t1 = t5\<lparr>tx_regEvents := appendRegistryEvent (tx_regEvents t5) UpdatedEvent p reg\<rparr>"
    using run(6) by (simp add: appendEvent_def modify_Inr)
  show "tx_db t1 = (tx_db t)\<lparr>t_registries := map (\<lambda>r. if inProject p (r_Name reg) r then updatedRow env reg r else r)
      (t_registries (tx_db t))\<rparr>"
    using t1 sec t4(1) by simp
  show "\<exists>r \<in> set (t_registries (tx_db t)). inProject p (r_Name reg) r"
    using run(4) t4(3) by (auto simp: filter_empty_conv)
  show "tx_vault t1 (MakeSecretPath p (r_Name reg)) = Some (e_EncodeBase64 env (registrySecret reg))"
    if "e_UseSecretService env" using t1 sec that by simp
  show "tx_regEvents t1 = tx_regEvents t @ [(event UpdatedEvent p, reg)]"
    using t1 sec t4(2) by (simp add: appendRegistryEvent_def)
qed

text \<open>
  A registry that was updated is read back as it was given in the update, API type included, with the time of its
  creation unchanged and the time of the update.
\<close>

theorem updated_registry_is_read_back:
  assumes update: "UpdateRegistry env ctx name (Some reg) srv = (Inr (), srv1)" and here: "GetActiveProjectID ctx = Inr p"
    and old: "q_first (inProject p name) (t_registries (sv_db srv)) = Inr old"
    and project: "GetActiveProjectID ctx' = Inr p"
    and allowed: "authCheckAllowed env' ctx' (GetRegistryRequest name b) [getRegistryName b] = Inr ()"
    and faults: "\<And>n. \<not> e_fault env' n" and service: "e_UseSecretService env' = e_UseSecretService env"
    and decode: "e_DecodeBase64 env' (e_EncodeBase64 env (registrySecret reg)) = Some (registrySecret reg)"
    and certs: "r_Cacerts reg \<noteq> dynamicCACertsName"
  shows "GetRegistry env' ctx' name b srv1 =
    (Inr (reg\<lparr>r_DisplayName := effectiveName reg, r_CreateTime := Some (rdb_CreateTime old),
              r_UpdateTime := Some (e_now env), r_Username := if b then r_Username reg else [],
              r_AuthToken := if b then r_AuthToken reg else [], r_Cacerts := if b then r_Cacerts reg else []\<rparr>), srv1)"
proof -
  obtain x t0 t where run: "admitsUpdateRegistry env ctx (name, Some reg) x"
    "startTransaction env srv = (Inr t0, srv\<lparr>sv_open := Suc (sv_open srv)\<rparr>)" "tx_db t0 = sv_db srv"
    "updateRegistry env (fst x) (snd x) t0 = (Inr (), t)"
    "srv1 = sendRegistry t (srv\<lparr>sv_db := tx_db t, sv_vault := tx_vault t\<rparr>)"
    by (rule update_registry.success [of env ctx "(name, Some reg)", simplified, OF update]) (rule that)
  have x: "fst x = p" "snd x = reg" "name = r_Name reg" "r_Name reg \<noteq> []"
    using run(1) here Registry_Validate_name by (auto simp: admitsUpdateRegistry_def)
  have now: "tx_now t0 = e_now env" using startTransaction_Inr [OF run(2)] by simp
  note row = updateRegistry_success [OF run(4) [unfolded x(1,2)] now]
  have admitted: "admitsGetRegistry env' ctx' (r_Name reg, b) (p, r_Name reg, b)"
    using project allowed x by (simp add: admitsGetRegistry_def)
  let ?f = "\<lambda>r. if inProject p (r_Name reg) r then updatedRow env reg r else r"
  have kept: "inProject p (r_Name reg) (?f r) = inProject p (r_Name reg) r" for r
    by (simp add: inProject_def updatedRow_def setRegistry_def Let_def)
  have inold: "inProject p (r_Name reg) old"
    using old x(3) by (auto dest: q_first_Inr)
  have found: "q_first (inProject p (r_Name reg)) (t_registries (sv_db srv1)) = Inr (updatedRow env reg old)"
    using q_first_map [of "inProject p (r_Name reg)" ?f, OF kept old [unfolded x(3)]] row(1) run(3,5) inold by simp
  have secret: "encodedSecret env' srv1 (updatedRow env reg old) = Some (e_EncodeBase64 env (registrySecret reg))"
    using row(3) service run(5) inold
    by (auto simp: encodedSecret_def updatedRow_def setRegistry_def inProject_def Let_def)
  have "GetRegistry env' ctx' (r_Name reg) b srv1 = (Inr (readRegistry b (updatedRow env reg old) (registrySecret reg)), srv1)"
    using certs by (intro GetRegistry_reads [OF admitted faults found secret decode]) (simp add: registrySecret_def)
  then show ?thesis
    using x(3) inold
    by (cases reg) (simp add: readRegistry_def updatedRow_def setRegistry_def registrySecret_def inProject_def Let_def)
qed

definition laterEnv :: env where
  "laterEnv = sampleEnv\<lparr>e_now := 9\<rparr>"

lemma laterAuth: "authCheckAllowed laterEnv ctx request names = Inr ()"
  by (simp add: authCheckAllowed_def laterEnv_def sampleEnv_def)

theorem updated_registry_is_read_back_witness:
  "\<exists>srv1. UpdateRegistry laterEnv sampleCtx ''r1'' (Some sampleRegistry) sampleServer = (Inr (), srv1) \<and>
    GetRegistry sampleEnv sampleCtx ''r1'' True srv1 =
      (Inr (sampleRegistry\<lparr>r_CreateTime := Some 7, r_UpdateTime := Some 9\<rparr>), srv1)"
proof -
  have name: "r_Name sampleRegistry = ''r1''" by (simp add: sampleRegistry_def)
  obtain srv1 where u: "UpdateRegistry laterEnv sampleCtx ''r1'' (Some sampleRegistry) sampleServer = (Inr (), srv1)"
    by (simp add: UpdateRegistry_def sampleProject sampleRegistry_valid laterAuth name)
      (simp add: transaction_eval monad_eval registry_eval sample_eval laterEnv_def sampleServer_eq sampleRow_def
        updateRegistry_def checkRegistryType_def updateRegistryRows_def updateRows_def q_only_def inProject_def)
  have decode: "splitSecret (joinSecret (registrySecret sampleRegistry)) = Some (registrySecret sampleRegistry)"
    by code_simp
  have old: "q_first (inProject ''p1'' ''r1'') (t_registries (sv_db sampleServer)) = Inr sampleRow"
    by (simp add: sampleServer_eq q_first_def inProject_def sampleRow_def newRegistryRow_def sampleRegistry_def)
  have env: "\<not> e_fault sampleEnv n" "e_UseSecretService sampleEnv = e_UseSecretService laterEnv"
    "e_DecodeBase64 sampleEnv (e_EncodeBase64 laterEnv (registrySecret sampleRegistry)) = Some (registrySecret sampleRegistry)"
    "r_Cacerts sampleRegistry \<noteq> dynamicCACertsName" for n
    using decode by (simp_all add: sampleEnv_def laterEnv_def) (simp add: sampleRegistry_def)
  have "GetRegistry sampleEnv sampleCtx ''r1'' True srv1 = (Inr (sampleRegistry\<lparr>r_DisplayName := effectiveName sampleRegistry,
      r_CreateTime := Some (rdb_CreateTime sampleRow), r_UpdateTime := Some (e_now laterEnv), r_Username := r_Username sampleRegistry,
      r_AuthToken := r_AuthToken sampleRegistry, r_Cacerts := r_Cacerts sampleRegistry\<rparr>), srv1)"
    using updated_registry_is_read_back [where b = True and env' = sampleEnv and ctx' = sampleCtx, OF u sampleProject old
        sampleProject sampleAuth env] by simp
  then show ?thesis using u by (simp add: sampleRegistry_def effectiveName_def sampleRow_def laterEnv_def)
qed

text \<open>
  The type of a registry that an application uses cannot be changed: without faults the update is refused, with
  a failed precondition unless its display name is refused first, and changes nothing.
\<close>

theorem used_registry_keeps_its_type:
  assumes "admitsUpdateRegistry env ctx (name, Some reg) (p, reg)" and "\<And>n. \<not> e_fault env n" and "db_ok (sv_db srv)"
    and r: "r \<in> set (t_registries (sv_db srv))" "inProject p name r" "rdb_Type r \<noteq> r_Type reg"
    and a: "a \<in> set (t_applications (sv_db srv))"
      "adb_registry_fk a = rdb_ID r \<or> adb_image_registry_fk a = Some (rdb_ID r)"
  shows "\<exists>e. UpdateRegistry env ctx name (Some reg) srv = (Inl e, srv) \<and>
    st_code e \<in> {InvalidArgument, AlreadyExists, FailedPrecondition}"
proof -
  have name: "name = r_Name reg" "r_Name reg \<noteq> []"
    using assms(1) Registry_Validate_name by (auto simp: admitsUpdateRegistry_def)
  have type: "r_Type reg = helmType \<or> r_Type reg = imageType"
    using assms(1) Registry_Validate_type by (auto simp: admitsUpdateRegistry_def)
  have keys: "keyed (t_next (sv_db srv)) rdb_ID registryKey (t_registries (sv_db srv))"
    using assms(3) by (simp add: db_ok_iff keys_ok_def)
  have only: "q_only (inProject p (r_Name reg)) (t_registries (sv_db srv)) = Inr r"
  proof (rule q_only_keyed)
    show "distinct (t_registries (sv_db srv))" using keys by (auto simp: keyed_def distinct_map)
    show "\<forall>q \<in> set (t_registries (sv_db srv)). inProject p (r_Name reg) q \<longrightarrow> q = r"
      using keys r name by (auto simp: inProject_def registryKey_def dest: keyed_key_inj)
  qed (use r name in auto)
  have fits: "\<exists>q \<in> set (t_registries (sv_db srv)). rdb_ID q = adb_registry_fk a \<and> rdb_Type q = helmType"
    "\<And>i. adb_image_registry_fk a = Some i \<Longrightarrow> \<exists>q \<in> set (t_registries (sv_db srv)). rdb_ID q = i \<and> rdb_Type q = imageType"
    using assms(3) a(1) by (auto simp: db_ok_iff registries_ok_def hasRegistry_def)
  have same: "\<forall>q \<in> set (t_registries (sv_db srv)). rdb_ID q = rdb_ID r \<longrightarrow> q = r"
    using keyed_ident_inj [OF keys _ r(1)] by blast
  have rtype: "rdb_Type r = helmType \<and> adb_registry_fk a = rdb_ID r \<or> rdb_Type r = imageType \<and> adb_image_registry_fk a = Some (rdb_ID r)"
    using a(2) fits(1) fits(2) [of "rdb_ID r"] same by auto
  have refused: "\<exists>e t1. checkRegistryType p reg t = (Inl e, t1) \<and> st_code e = FailedPrecondition \<and> tx_vault t1 = tx_vault t"
    if "tx_db t = sv_db srv" "\<And>n. \<not> tx_fault t n" for t
    using that only r(3) type rtype a(1)
    by (auto simp: checkRegistryType_def monad_eval Let_def q_count_def filter_empty_conv)
  define t0 where "t0 = freshTx env srv"
  have start: "startTransaction env srv = (Inr t0, srv\<lparr>sv_open := Suc (sv_open srv)\<rparr>)"
    using assms(2) by (simp add: startTransaction_fresh t0_def)
  have nofault: "\<And>n. \<not> tx_fault t0 n" using assms(2) by (simp add: t0_def freshTx_def)
  have "\<exists>e t. updateRegistry env p reg t0 = (Inl e, t) \<and> st_code e \<in> {InvalidArgument, AlreadyExists, FailedPrecondition} \<and>
      tx_vault t = sv_vault srv"
    using checkRegistryUniqueness_no_fault [OF nofault, of p reg] refused [of t0] refused [of "tick t0"] nofault
    by (auto simp: updateRegistry_def bnd_def throw_def t0_def freshTx_def split: prod.splits)
  then show ?thesis
    using assms(1) start
    by (auto simp: UpdateRegistry_def admitsUpdateRegistry_def withTransaction_def rollbackTransaction_def name)
qed

theorem used_registry_keeps_its_type_witness:
  "\<exists>e. UpdateRegistry sampleEnv sampleCtx ''r1'' (Some (sampleRegistry\<lparr>r_Type := ''IMAGE''\<rparr>)) sampleAppServer =
     (Inl e, sampleAppServer)"
proof -
  have valid: "Registry_Validate (sampleRegistry\<lparr>r_Type := ''IMAGE''\<rparr>) = None"
    unfolding Registry_Validate_def firstFailure_None sampleRegistry_def
    by (simp add: validation_eval sampleUrl del: MatchString.simps lit.simps)
  have ok: "db_ok (sv_db sampleAppServer)"
    using create_application.keeps_db_ok [OF sampleCreateApplication] create_registry.keeps_db_ok [OF sampleCreate]
    by (simp add: Register_def db_ok_empty sampleAppServer_def sampleCreateApplication)
  have "\<exists>e. UpdateRegistry sampleEnv sampleCtx ''r1'' (Some (sampleRegistry\<lparr>r_Type := ''IMAGE''\<rparr>)) sampleAppServer =
     (Inl e, sampleAppServer) \<and> st_code e \<in> {InvalidArgument, AlreadyExists, FailedPrecondition}"
  proof (rule used_registry_keeps_its_type [where p = "''p1''" and r = sampleRow and a = sampleAppRow])
    show "admitsUpdateRegistry sampleEnv sampleCtx (''r1'', Some (sampleRegistry\<lparr>r_Type := ''IMAGE''\<rparr>))
        (''p1'', sampleRegistry\<lparr>r_Type := ''IMAGE''\<rparr>)"
      by (simp add: admitsUpdateRegistry_def sampleProject sampleAuth valid) (simp add: sampleRegistry_def)
  qed (use ok in \<open>simp_all add: sampleAppServer_eq sampleEnv_def sampleRow_def sampleAppRow_def newRegistryRow_def
      newApplicationRow_def inProject_def sampleRegistry_def\<close>)
  then show ?thesis by blast
qed

end
