(* ===== verification/Utility_Properties.thy ===== *)
theory Utility_Properties
  imports Artifact_Service
begin

text \<open>
  The helpers every handler relies on: the parameters of a list request, the pages, the rules for
  names, the payload check and the listener tables, each against a definition that does not follow the code.
\<close>

section \<open>Parameters of a list request\<close>

text \<open>
  C31. The filter parameter a client writes for a list of terms, each a name and a value of one or more words, joined by
  OR, is parsed back to the filters of those terms.
\<close>

theorem filter_round_trip:
  assumes "\<forall>t \<in> set ts. wellFormedTerm t"
  shows "parseFilter (printFilter ts) rt = Inr (map termFilter ts)"
  using assms by (intro parseFilter_print) simp

theorem filter_round_trip_witness:
  "parseFilter ''name=web server OR version=1'' RegistryType =
     Inr [\<lparr>f_name = ''name'', f_value = ''web server''\<rparr>, \<lparr>f_name = ''version'', f_value = ''1''\<rparr>]"
  using filter_round_trip [of "[(''name'', ''web'', [''server'']), (''version'', ''1'', [])]" RegistryType]
  by (simp add: wellFormedTerm_def printFilter_def termFilter_def)

section \<open>Pages\<close>

text \<open>
  C32. The range computed for a page is in bounds, and the page is the slice of at most the page size that starts at the
  offset, unless twice the offset exceeds the number of rows: then it is everything from the offset on, which can be more
  than the page size (100 rows, page size 10 and offset 60 give 40).
\<close>

theorem page_contents:
  assumes "computePageRange pageSize offset (int (length rows)) = Inr (i, j, n)" and "rows \<noteq> []"
  shows "pageOf rows i j = Some (if 2 * sint offset > int (length rows) then drop (nat (sint offset)) rows
      else take (nat (effectiveSize pageSize)) (drop (nat (sint offset)) rows)) \<and>
    effectiveSize pageSize \<in> {1..500} \<and> n = word_of_int (int (length rows))"
proof -
  have pos: "0 < int (length rows)" using assms(2) by simp
  note b = computePageRange_Inr_bounds [OF assms(1) pos]
  have slice: "pageOf rows i j = Some (take (nat (j - i + 1)) (drop (nat i) rows))"
    by (rule pageOf_slice) (use b in auto)
  have j: "j = (if 2 * sint offset > int (length rows) \<or> sint (offset + (if pageSize = 0 then DefaultPageSize else pageSize)) > int (length rows)
      then int (length rows) - 1 else sint offset + effectiveSize pageSize - 1)"
    using assms pos by (auto simp: computePageRange_def effectiveSize_def Let_def split: if_splits)
  have short: "sint offset + effectiveSize pageSize > int (length rows)"
    if "sint (offset + (if pageSize = 0 then DefaultPageSize else pageSize)) > int (length rows)"
  proof (rule ccontr)
    let ?ps = "if pageSize = 0 then DefaultPageSize else pageSize"
    have ps: "sint ?ps = effectiveSize pageSize" by (simp add: effectiveSize_def)
    assume "\<not> ?thesis"
    then have "sint offset + sint ?ps \<le> int (length rows)" using ps by simp
    moreover have "int (length rows) < 2 ^ 31" using that sint_lt [of "offset + ?ps"] by simp
    ultimately have "sint (offset + ?ps) = sint offset + sint ?ps"
      using b(1,2,5) ps by (intro sint_add_small) auto
    with that \<open>sint offset + sint ?ps \<le> int (length rows)\<close> show False by simp
  qed
  have "take (nat (j - i + 1)) (drop (nat i) rows) = (if 2 * sint offset > int (length rows) then drop (nat (sint offset)) rows
      else take (nat (effectiveSize pageSize)) (drop (nat (sint offset)) rows))"
    using j short b(1,2,5) by auto
  with slice b show ?thesis by simp
qed

theorem page_contents_witness:
  "computePageRange 1 3 5 = Inr (3, 4, 5) \<and> pageOf [10, 11, 12, 13, 14 :: nat] 3 4 = Some [13, 14]"
proof -
  have r: "computePageRange 1 3 (int (length [10, 11, 12, 13, 14 :: nat])) = Inr (3, 4, 5)" by (simp add: computePageRange_def)
  from page_contents [OF r] r show ?thesis by (simp add: effectiveSize_def)
qed

section \<open>Names and payloads\<close>

text \<open>
  C33. The rule for names, a regular expression in the code, admits exactly the strings of 1 to 40 lower-case letters,
  digits and dashes that start with a letter or digit and, at the full length, end with one.
\<close>

theorem name_rule:
  "MatchString namePattern s \<longleftrightarrow>
     1 \<le> length s \<and> length s \<le> 40 \<and>
     (\<forall>c \<in> set s. c = CHR ''-'' \<or> 97 \<le> byte c \<and> byte c \<le> 122 \<or> 48 \<le> byte c \<and> byte c \<le> 57) \<and>
     hd s \<noteq> CHR ''-'' \<and> (length s = 40 \<longrightarrow> last s \<noteq> CHR ''-'')"
proof (cases s)
  case Nil
  then show ?thesis by (simp add: MatchString_name del: MatchString.simps)
next
  case (Cons c cs)
  have strict: "nameChar d \<and> d \<noteq> CHR ''-'' \<longleftrightarrow> lowerAlnum d" for d
    by (auto simp: nameChar_def lowerAlnum_def charIn_def)
  have wide: "(c = CHR ''-'' \<or> 97 \<le> byte c \<and> byte c \<le> 122 \<or> 48 \<le> byte c \<and> byte c \<le> 57) \<longleftrightarrow> nameChar c" for c
    by (auto simp: nameChar_def lowerAlnum_def charIn_def)
  have "last s \<in> set s" using Cons by simp
  then show ?thesis
    unfolding MatchString_name wide using Cons strict [of c] strict [of "last s"]
    by (auto simp: list_all_iff)
qed

theorem name_rule_witness: "MatchString namePattern ''web-server-1''"
  using name_rule [of "''web-server-1''"] by simp

text \<open>A byte sequence that encodes one rune.\<close>

definition encodesRune :: "string \<Rightarrow> bool" where
  "encodesRune r \<longleftrightarrow> r \<noteq> [] \<and> runeLen r = length r"

lemma runeLen_le: "runeLen s \<le> length s"
  by (cases s) (auto split: list.splits if_splits)

lemma runeLen_append: "encodesRune r \<Longrightarrow> runeLen (r @ s) = length r"
  by (cases r) (auto simp: encodesRune_def split: list.splits if_splits)

lemma encodesRune_take: "runeLen s \<noteq> 0 \<Longrightarrow> encodesRune (take (runeLen s) s)"
  by (cases s) (auto simp: encodesRune_def split: list.splits if_splits)

lemma ToValidUTF8_skip: "s \<noteq> [] \<Longrightarrow> runeLen s = 0 \<Longrightarrow> ToValidUTF8 s = ToValidUTF8 (tl s)"
  by (simp add: ToValidUTF8.simps [of s] del: runeLen.simps)

lemma ToValidUTF8_length: "length (ToValidUTF8 s) \<le> length s"
proof (induction s rule: ToValidUTF8.induct)
  case (1 s)
  show ?case
  proof (cases "s = [] \<or> runeLen s = 0")
    case True
    with 1(1) ToValidUTF8_skip [of s] show ?thesis
      by (cases "s = []") (auto simp: ToValidUTF8.simps [of "[]"] simp del: runeLen.simps)
  next
    case False
    with 1(2) runeLen_le [of s] show ?thesis by (simp add: ToValidUTF8.simps [of s])
  qed
qed

lemma ToValidUTF8_concat: "(\<forall>r \<in> set rs. encodesRune r) \<Longrightarrow> ToValidUTF8 (concat rs) = concat rs"
proof (induction rs)
  case Nil
  then show ?case by (simp add: ToValidUTF8.simps [of "[]"])
next
  case (Cons r rs)
  then have "runeLen (r @ concat rs) = length r" "r \<noteq> []" by (auto simp: runeLen_append encodesRune_def)
  with Cons show ?case by (simp add: ToValidUTF8.simps [of "r @ concat rs"])
qed

lemma ToValidUTF8_full: "length (ToValidUTF8 s) = length s \<Longrightarrow> \<exists>rs. s = concat rs \<and> (\<forall>r \<in> set rs. encodesRune r)"
proof (induction s rule: ToValidUTF8.induct)
  case (1 s)
  show ?case
  proof (cases "s = []")
    case True
    then show ?thesis by (intro exI [of _ "[]"]) simp
  next
    case nonempty: False
    have "runeLen s \<noteq> 0"
    proof
      assume "runeLen s = 0"
      with nonempty 1(3) ToValidUTF8_length [of "tl s"] ToValidUTF8_skip [of s] show False
        by (simp del: runeLen.simps) (metis Suc_n_not_le_n Suc_pred length_greater_0_conv)
    qed
    with nonempty 1(3) runeLen_le [of s] have "length (ToValidUTF8 (drop (runeLen s) s)) = length (drop (runeLen s) s)"
      by (simp add: ToValidUTF8.simps [of s])
    with 1(2) nonempty \<open>runeLen s \<noteq> 0\<close> obtain rs where "drop (runeLen s) s = concat rs" "\<forall>r \<in> set rs. encodesRune r" by blast
    with encodesRune_take [OF \<open>runeLen s \<noteq> 0\<close>] show ?thesis
      by (intro exI [of _ "take (runeLen s) s # rs"]) (metis append_take_drop_id concat.simps(2) set_ConsD)
  qed
qed

text \<open>
  C36. A payload passes the check for plain text exactly when it is a sequence of well-formed encodings of
  runes: the code drops invalid bytes and compares the lengths.
\<close>

theorem text_check_is_utf8:
  "validateTextPlain payload \<longleftrightarrow> (\<exists>runes. payload = concat runes \<and> list_all encodesRune runes)"
  using ToValidUTF8_full [of payload] ToValidUTF8_concat by (auto simp: validateTextPlain_def list_all_iff)

section \<open>Listeners\<close>

text \<open>
  C22. The table of package listeners implements the map from channels to the requests of their last
  registration: after any sequence of registrations and departures, a channel receives, in order, exactly the events of
  a queue that its request asks for, and nothing when it has left.
\<close>

theorem package_listeners_refine_map:
  "map snd (List.filter (\<lambda>d. fst d = ch) (sendToAllDeploymentPackageEvents queue
      (foldl (\<lambda>el op. case op of Listen c req \<Rightarrow> addDeploymentPackageListener c req el
                | Leave c \<Rightarrow> deleteDeploymentPackageListener c el) NewEventListeners ops))) =
   (case listenerSpec ops ch of
      None \<Rightarrow> []
    | Some req \<Rightarrow> List.filter (\<lambda>ev. (wdp_ProjectId req = [] \<or> wdp_ProjectId req = ev_ProjectId (fst ev)) \<and>
        (wdp_Kinds req = [] \<or> dp_Kind (snd ev) \<in> set (wdp_Kinds req))) queue)"
proof -
  have "(\<lambda>ev. (wdp_ProjectId req = [] \<or> wdp_ProjectId req = ev_ProjectId (fst ev)) \<and>
        (wdp_Kinds req = [] \<or> dp_Kind (snd ev) \<in> set (wdp_Kinds req))) = wantsDeploymentPackage req" for req
    by (rule ext) (simp add: wantsDeploymentPackage_def kindMatches_iff)
  then show ?thesis
    using pkg_fanout.received_ops [of NewEventListeners ch queue ops]
    by (simp add: pkg_fanout.received_def NewEventListeners_def split: option.splits)
qed

end
