(* ===== verification/Sample_Package.thy ===== *)
theory Sample_Package
  imports Sample_Environment
begin

text \<open>
  A concrete package: the artifact and a package that refers to the application and to the artifact, stored
  after the registry and the application of the samples.
\<close>

definition samplePackage :: DeploymentPackage where
  "samplePackage = \<lparr>dp_Name = ''pkg'', dp_DisplayName = [], dp_Description = [], dp_Version = ''1'', dp_Kind = KIND_NORMAL,
     dp_ApplicationReferences = [\<lparr>ar_Name = ''app'', ar_Version = ''v1''\<rparr>], dp_IsDeployed = True, dp_IsVisible = False,
     dp_Profiles = [], dp_DefaultProfileName = [], dp_ApplicationDependencies = [], dp_Extensions = [],
     dp_Artifacts = [\<lparr>aref_Name = ''icon'', aref_Purpose = ''icon''\<rparr>], dp_DefaultNamespaces = [],
     dp_ForbidsMultipleDeployments = False, dp_Namespaces = [], dp_CreateTime = None, dp_UpdateTime = None\<rparr>"

lemma samplePackage_valid: "DeploymentPackage_Validate samplePackage = None"
  by code_simp

lemma samplePackage_profiles: "validateDeploymentProfiles samplePackage = Inr ()"
  by code_simp

lemmas artifact_eval = createArtifact_def validateDisplayName_def validateArtifactData_def validateTextPlain_def
  ToValidUTF8.simps charIn_def scanArtifact_def checkArtifactUniqueness_def createArtifactRow_def newArtifactRow_def
  appendArtifact_def q_count_def TrimSpace_def trimBoth_def go_space_def

lemma sampleCreateArtifact:
  "\<exists>w srv1. CreateArtifact sampleEnv sampleCtx (Some sampleArtifact) Register = (Inr w, srv1)"
  by (simp add: CreateArtifact_def sampleProject sampleArtifact_valid sampleAuth)
    (simp add: artifact_eval transaction_eval monad_eval sample_eval sampleArtifact_def)

definition sampleArtServer :: server where
  "sampleArtServer = snd (CreateArtifact sampleEnv sampleCtx (Some sampleArtifact) sampleAppServer)"

definition sampleArtRow :: ArtifactDB where
  "sampleArtRow = (newArtifactRow ''p1'' ''icon'' sampleArtifact)\<lparr>tdb_ID := Suc (Suc (t_next empty_db)), tdb_CreateTime := 7, tdb_UpdateTime := 7\<rparr>"

lemma sampleArtServer_eq: "sampleArtServer =
   Register\<lparr>sv_db := empty_db\<lparr>t_registries := [sampleRow], t_applications := [sampleAppRow], t_artifacts := [sampleArtRow],
     t_next := Suc (Suc (Suc (t_next empty_db)))\<rparr>\<rparr>"
  unfolding sampleArtServer_def sampleAppServer_eq sampleArtRow_def
  by (simp add: CreateArtifact_def sampleProject sampleArtifact_valid sampleAuth)
    (simp add: artifact_eval transaction_eval monad_eval sample_eval sampleArtifact_def
      sendArtifact_def sendToAllArtifactEvents_def sendArtifactEvents_def NewEventListeners_def appendArtifactEvent_def)

definition samplePackageServer :: server where
  "samplePackageServer = snd (CreateDeploymentPackage sampleEnv sampleCtx (Some samplePackage) sampleArtServer)"

definition samplePkgRow :: DeploymentPackageDB where
  "samplePkgRow = (newPackageRow ''p1'' ''pkg'' samplePackage)
     \<lparr>kdb_ID := Suc (Suc (Suc (t_next empty_db))), kdb_CreateTime := 7, kdb_UpdateTime := 7\<rparr>"

lemmas package_eval = createDeploymentPackage_def validateDisplayName_def checkDeploymentPackageUniqueness_def
  createDeploymentPackageRow_def newPackageRow_def createPackageParts_def createApplicationReferences_def
  findReference_def applicationIn_def setPackageApplications_def createApplicationDependencies_def
  createApplicationNamespaces_def createNamespaces_def createDeploymentProfiles_def updateDefaultDeploymentProfile_def
  createExtensions_def createArtifactReferences_def createArtifactReferenceRow_def appendPackage_def q_only_def
  q_first_def samplePackage_def

lemma sampleCreatePackage: "CreateDeploymentPackage sampleEnv sampleCtx (Some samplePackage) sampleArtServer =
  (Inr (createdPackage samplePackage samplePkgRow), samplePackageServer)"
  unfolding samplePackageServer_def sampleArtServer_eq samplePkgRow_def
  by (simp add: CreateDeploymentPackage_def sampleProject samplePackage_valid samplePackage_profiles sampleAuth)
    (simp add: package_eval transaction_eval monad_eval sample_eval sampleAppRow_def newApplicationRow_def sampleApplication_def
      sampleArtRow_def newArtifactRow_def sampleArtifact_def)

lemma samplePackageServer_eq: "samplePackageServer =
   Register\<lparr>sv_db := empty_db\<lparr>t_registries := [sampleRow], t_applications := [sampleAppRow], t_artifacts := [sampleArtRow],
     t_deployment_packages := [samplePkgRow], t_package_applications := [(kdb_ID samplePkgRow, adb_ID sampleAppRow)],
     t_artifact_references := [\<lparr>afdb_deployment_package_fk = kdb_ID samplePkgRow, afdb_artifact = tdb_ID sampleArtRow,
       afdb_Purpose = ''icon''\<rparr>], t_next := Suc (Suc (Suc (Suc (t_next empty_db))))\<rparr>\<rparr>"
  unfolding samplePackageServer_def sampleArtServer_eq samplePkgRow_def
  by (simp add: CreateDeploymentPackage_def sampleProject samplePackage_valid samplePackage_profiles sampleAuth)
    (simp add: package_eval transaction_eval monad_eval sample_eval sampleAppRow_def newApplicationRow_def sampleApplication_def
      sampleArtRow_def newArtifactRow_def sampleArtifact_def sendDeploymentPackage_def sendToAllDeploymentPackageEvents_def
      sendDeploymentPackageEvents_def NewEventListeners_def appendDeploymentPackageEvent_def addLinks_def)

lemma sampleApp_ok: "db_ok (sv_db sampleAppServer)"
proof -
  have "db_ok (sv_db sampleServer)"
    using create_registry.keeps_db_ok [OF sampleCreate] by (simp add: Register_def db_ok_empty)
  then show ?thesis
    unfolding sampleAppServer_def
    by (rule create_application.keeps_db_ok [OF surjective_pairing])
qed

lemma sampleArt_ok: "db_ok (sv_db sampleArtServer)"
  unfolding sampleArtServer_def by (intro create_artifact.keeps_db_ok [OF surjective_pairing] sampleApp_ok)

lemma samplePackage_ok: "db_ok (sv_db samplePackageServer)"
  unfolding samplePackageServer_def by (intro create_package.keeps_db_ok [OF surjective_pairing] sampleArt_ok)

end
