(* ===== verification/Artifact_Properties.thy ===== *)
theory Artifact_Properties
  imports Sample_Package
begin

text \<open>
  What the artifact operations do from request to response: the properties of
  \<^verbatim>\<open>internal/northbound/artifact.go\<close>.
\<close>

section \<open>Runs of the handlers\<close>

definition shownName :: "Artifact \<Rightarrow> string" where
  "shownName art = (if art_DisplayName art = [] then art_Name art else art_DisplayName art)"

lemma createArtifact_success:
  assumes "createArtifact env p art t0 = (Inr created, t)"
  shows "created = (newArtifactRow p (shownName art) art)
      \<lparr>tdb_ID := t_next (tx_db t0), tdb_CreateTime := tx_now t0, tdb_UpdateTime := tx_now t0\<rparr>"
    and "tx_db t = (tx_db t0)\<lparr>t_artifacts := t_artifacts (tx_db t0) @ [created], t_next := Suc (t_next (tx_db t0))\<rparr>"
    and "\<And>x. x \<in> set (t_artifacts (tx_db t0)) \<Longrightarrow> \<not> artifactIn p (art_Name art) x"
    and "validateArtifactData env (art_Name art) (art_MimeType art) (art_Artifact art) = Inr ()"
    and "scanArtifact env (art_Artifact art) = Inr ()"
    and "tx_artEvents t = appendArtifactEvent (tx_artEvents t0) CreatedEvent p (art\<lparr>art_DisplayName := shownName art\<rparr>)"
  using assms
  by (auto simp: createArtifact_def validateDisplayName_def shownName_def newArtifactRow_def success_simps branch_Inr
      checkArtifactUniqueness_def createArtifactRow_def appendArtifact_def artifactIn_def list_ex_iff Let_def
      split: if_splits)

lemma CreateArtifact_success:
  assumes "CreateArtifact env ctx (Some art) srv = (Inr w, srv1)"
  obtains p created t0 t where "admitsCreateArtifact env ctx (Some art) (p, art)"
    "startTransaction env srv = (Inr t0, srv\<lparr>sv_open := Suc (sv_open srv)\<rparr>)"
    "createArtifact env p art t0 = (Inr created, t)"
    "srv1 = sendArtifact t (srv\<lparr>sv_db := tx_db t, sv_vault := tx_vault t\<rparr>)"
proof -
  obtain x t0 v t where run: "admitsCreateArtifact env ctx (Some art) x"
    "startTransaction env srv = (Inr t0, srv\<lparr>sv_open := Suc (sv_open srv)\<rparr>)"
    "createArtifact env (fst x) (snd x) t0 = (Inr v, t)"
    "srv1 = sendArtifact t (srv\<lparr>sv_db := tx_db t, sv_vault := tx_vault t\<rparr>)"
    by (rule create_artifact.success [OF assms]) (rule that)
  moreover from run(1) have "snd x = art" by (simp add: admitsCreateArtifact_def)
  ultimately show thesis using that [of "fst x" t0 v t] by (metis prod.collapse)
qed

lemma GetArtifact_reads:
  assumes "admitsGetArtifact env ctx name (p, name)" and "\<And>n. \<not> e_fault env n"
    and "q_first (artifactIn p name) (t_artifacts (sv_db srv)) = Inr r"
  shows "GetArtifact env ctx name srv = (Inr (extractArtifact r), srv)"
  using assms
  by (auto simp: GetArtifact_def admitsGetArtifact_def findArtifact_def monad_eval transaction_eval Let_def)

section \<open>Creation\<close>

lemma Artifact_Validate_name: "Artifact_Validate art = None \<Longrightarrow> art_Name art \<noteq> []"
  by (auto simp: Artifact_Validate_def firstFailure_None validation_eval)

text \<open>
  C25. An artifact that was created is read back: on the server the creation left, a request for its name in the same
  project, allowed and without faults, returns it as it was given, its payload included, with the time of the creation
  and its name as the display name when it had none.
\<close>

theorem created_artifact_is_read_back:
  assumes create: "CreateArtifact env ctx (Some art) srv = (Inr w, srv1)"
    and project: "GetActiveProjectID ctx' = GetActiveProjectID ctx"
    and allowed: "authCheckAllowed env' ctx' (GetArtifactRequest (art_Name art)) [] = Inr ()"
    and faults: "\<And>n. \<not> e_fault env' n"
  shows "GetArtifact env' ctx' (art_Name art) srv1 =
    (Inr (art\<lparr>art_DisplayName := shownName art, art_CreateTime := Some (e_now env), art_UpdateTime := Some (e_now env)\<rparr>), srv1)"
proof -
  obtain p created t0 t where run: "admitsCreateArtifact env ctx (Some art) (p, art)"
    "startTransaction env srv = (Inr t0, srv\<lparr>sv_open := Suc (sv_open srv)\<rparr>)"
    "createArtifact env p art t0 = (Inr created, t)"
    "srv1 = sendArtifact t (srv\<lparr>sv_db := tx_db t, sv_vault := tx_vault t\<rparr>)"
    by (rule CreateArtifact_success [OF create]) (rule that)
  note row = createArtifact_success [OF run(3)]
  have admitted: "admitsGetArtifact env' ctx' (art_Name art) (p, art_Name art)"
    using run(1) project allowed Artifact_Validate_name by (simp add: admitsGetArtifact_def admitsCreateArtifact_def)
  have here: "artifactIn p (art_Name art) created" using row(1) by (simp add: artifactIn_def newArtifactRow_def)
  have "q_first (artifactIn p (art_Name art)) (t_artifacts (sv_db srv1)) = Inr created"
    using q_first_appended [where P = "artifactIn p (art_Name art)", OF row(3) here] row(2) run(4) by simp
  with GetArtifact_reads [OF admitted faults] row(1) startTransaction_Inr [OF run(2)] show ?thesis
    by (cases art) (simp add: extractArtifact_def newArtifactRow_def)
qed

theorem created_artifact_is_read_back_witness:
  "\<exists>srv1. GetArtifact sampleEnv sampleCtx ''icon'' srv1 =
     (Inr (sampleArtifact\<lparr>art_DisplayName := ''icon'', art_CreateTime := Some 7, art_UpdateTime := Some 7\<rparr>), srv1)"
proof -
  obtain w srv1 where c: "CreateArtifact sampleEnv sampleCtx (Some sampleArtifact) Register = (Inr w, srv1)"
    using sampleCreateArtifact by blast
  have "GetArtifact sampleEnv sampleCtx ''icon'' srv1 =
      (Inr (sampleArtifact\<lparr>art_DisplayName := ''icon'', art_CreateTime := Some 7, art_UpdateTime := Some 7\<rparr>), srv1)"
    using created_artifact_is_read_back [OF c refl, of sampleEnv] sampleAuth
    by (simp add: sampleArtifact_def shownName_def) (simp add: sampleEnv_def)
  then show ?thesis by blast
qed

text \<open>
  C12. A creation that succeeds stored a payload of the declared type that a configured scanner did not report: with a
  scanner that is not permissive, the scanner found the payload clean; text, JSON and YAML payloads are valid UTF-8, and the
  payload is accepted by the parser of its type.
\<close>

theorem created_artifact_was_checked:
  assumes "CreateArtifact env ctx (Some art) srv = (Inr w, srv1)" and "art_Artifact art = Some payload"
  shows "(\<forall>sc. e_scanner env = Some sc \<longrightarrow>
       (case sc_ScanBytes sc payload of ScanClean \<Rightarrow> True | ScanError _ \<Rightarrow> sc_permissive sc | ScanInfected _ \<Rightarrow> False)) \<and>
    (art_MimeType art = ''text/plain'' \<and> validateTextPlain payload \<or>
     art_MimeType art = ''application/json'' \<and> validateTextPlain payload \<and> e_json env payload \<or>
     art_MimeType art = ''application/yaml'' \<and> validateTextPlain payload \<and> e_yaml env payload \<or>
     art_MimeType art = ''image/png'' \<and> e_png env payload \<or>
     art_MimeType art = ''image/jpeg'' \<and> e_jpeg env payload)"
proof -
  obtain p created t0 t where run: "createArtifact env p art t0 = (Inr created, t)"
    by (rule CreateArtifact_success [OF assms(1)]) (rule that)
  note checks = createArtifact_success(4,5) [OF run]
  have "case sc_ScanBytes sc payload of ScanClean \<Rightarrow> True | ScanError _ \<Rightarrow> sc_permissive sc | ScanInfected _ \<Rightarrow> False"
    if "e_scanner env = Some sc" for sc
    using checks(2) assms(2) that by (auto simp: scanArtifact_def split: scan_result.splits if_splits)
  moreover have "art_MimeType art = ''text/plain'' \<and> validateTextPlain payload \<or>
     art_MimeType art = ''application/json'' \<and> validateTextPlain payload \<and> e_json env payload \<or>
     art_MimeType art = ''application/yaml'' \<and> validateTextPlain payload \<and> e_yaml env payload \<or>
     art_MimeType art = ''image/png'' \<and> e_png env payload \<or>
     art_MimeType art = ''image/jpeg'' \<and> e_jpeg env payload"
    using checks(1) assms(2)
    by (simp add: validateArtifactData_def validateApplicationJSON_def validateApplicationYAML_def validateImagePng_def
        validateImageJpeg_def split: if_split_asm)
  ultimately show ?thesis by blast
qed

theorem created_artifact_was_checked_witness: "validateTextPlain ''data''"
proof -
  obtain w srv1 where c: "CreateArtifact sampleEnv sampleCtx (Some sampleArtifact) Register = (Inr w, srv1)"
    using sampleCreateArtifact by blast
  show ?thesis
    using created_artifact_was_checked [OF c, of "''data''"] by (simp add: sampleArtifact_def)
qed

section \<open>Update\<close>

text \<open>
  The scanner plays no part in an update: whatever it answers, the update has the same result, so an infected
  payload is refused on creation and stored by an update.
\<close>

theorem infected_artifact_can_be_stored_by_update:
  "UpdateArtifact (env\<lparr>e_scanner := sc\<rparr>) ctx name artifact srv = UpdateArtifact env ctx name artifact srv"
proof -
  let ?env = "env\<lparr>e_scanner := sc\<rparr>"
  have data: "validateArtifactData ?env = validateArtifactData env"
    by (intro ext) (simp add: validateArtifactData_def validateApplicationJSON_def validateApplicationYAML_def
        validateImagePng_def validateImageJpeg_def Let_def)
  have update: "updateArtifact ?env = updateArtifact env"
    by (intro ext) (simp only: updateArtifact_def data)
  have auth: "authCheckAllowed ?env = authCheckAllowed env"
    by (intro ext) (simp add: authCheckAllowed_def)
  have start: "withTransaction ?env = (withTransaction env :: unit txm \<Rightarrow> _)"
    by (intro ext) (simp add: withTransaction_def startTransaction_def)
  show ?thesis by (simp only: UpdateArtifact_def update auth start)
qed

section \<open>Deletion\<close>

text \<open>
  An artifact that a package refers to is not deleted: the request is refused with the code of an invalid argument
  and no table, listener or stream changes; but the transaction it started is never ended.
\<close>

theorem referenced_artifact_not_deleted:
  assumes "admitsDeleteArtifact env ctx name (p, name)" and "\<And>n. \<not> e_fault env n"
    and "x \<in> set (t_artifacts (sv_db srv))" and "artifactIn p name x"
    and "f \<in> set (t_artifact_references (sv_db srv))" and "afdb_artifact f = tdb_ID x"
  shows "\<exists>e. DeleteArtifact env ctx name srv = (Inl e, srv\<lparr>sv_open := Suc (sv_open srv)\<rparr>) \<and> st_code e = InvalidArgument"
proof -
  have "deleteArtifactRows (artifactIn p name) n (sv_db srv) = (Inl EntConstraint, sv_db srv)" for n
    using assms(3-6) by (auto simp: deleteArtifactRows_def list_ex_iff Let_def)
  with assms(1,2) show ?thesis
    by (auto simp: DeleteArtifact_def admitsDeleteArtifact_def transaction_eval monad_eval Let_def artifactInvalid_def)
qed

theorem referenced_artifact_not_deleted_witness:
  "\<exists>e. DeleteArtifact sampleEnv sampleCtx ''icon'' samplePackageServer = (Inl e, samplePackageServer\<lparr>sv_open := 1\<rparr>) \<and>
     st_code e = InvalidArgument"
proof -
  have a: "admitsDeleteArtifact sampleEnv sampleCtx ''icon'' (''p1'', ''icon'')"
    by (simp add: admitsDeleteArtifact_def sampleProject sampleAuth)
  have "sampleArtRow \<in> set (t_artifacts (sv_db samplePackageServer))" "artifactIn ''p1'' ''icon'' sampleArtRow"
    by (simp_all add: samplePackageServer_eq artifactIn_def sampleArtRow_def newArtifactRow_def sampleArtifact_def)
  moreover obtain f where "f \<in> set (t_artifact_references (sv_db samplePackageServer))" "afdb_artifact f = tdb_ID sampleArtRow"
    by (simp add: samplePackageServer_eq)
  moreover have "sv_open samplePackageServer = 0" by (simp add: samplePackageServer_eq Register_def)
  ultimately show ?thesis
    using referenced_artifact_not_deleted [OF a, of sampleArtRow samplePackageServer f] by (simp add: sampleEnv_def)
qed

end
