(* ===== verification/Application_Properties.thy ===== *)
theory Application_Properties
  imports Sample_Package
begin

text \<open>
  What the application operations do from request to response: the properties of
  \<^verbatim>\<open>internal/northbound/application.go\<close>, which depend on the packages that refer to an application.
\<close>

section \<open>Deletion\<close>

text \<open>
  An application that a package refers to is not deleted: the request is refused as a failed precondition and nothing
  at all changes.
\<close>

theorem referenced_application_not_deleted:
  assumes "admitsApplication DeleteApplicationRequest env ctx (name, version) (p, name, version)"
    and "\<And>n. \<not> e_fault env n"
    and "k \<in> set (t_deployment_packages (sv_db srv))" and "refersTo p name version (sv_db srv) k"
  shows "\<exists>e. DeleteApplication env ctx name version srv = (Inl e, srv) \<and> st_code e = FailedPrecondition"
proof -
  have "List.filter (refersTo p name version (sv_db srv)) (t_deployment_packages (sv_db srv)) \<noteq> []"
    using assms(3,4) by (auto simp: filter_empty_conv)
  with assms(1,2) show ?thesis
    by (auto simp: DeleteApplication_def admitsApplication_def deleteApplicationBody_def monad_eval transaction_eval
        q_count_def Let_def)
qed

theorem referenced_application_not_deleted_witness:
  "\<exists>e. DeleteApplication sampleEnv sampleCtx ''app'' ''v1'' samplePackageServer = (Inl e, samplePackageServer) \<and>
     st_code e = FailedPrecondition"
proof -
  have a: "admitsApplication DeleteApplicationRequest sampleEnv sampleCtx (''app'', ''v1'') (''p1'', ''app'', ''v1'')"
    by (simp add: admitsApplication_def sampleProject sampleAuth)
  have "samplePkgRow \<in> set (t_deployment_packages (sv_db samplePackageServer))"
    "refersTo ''p1'' ''app'' ''v1'' (sv_db samplePackageServer) samplePkgRow"
    by (simp_all add: samplePackageServer_eq refersTo_def applicationIn_def sampleAppRow_def newApplicationRow_def
        sampleApplication_def)
  with referenced_application_not_deleted [OF a, of samplePkgRow samplePackageServer] show ?thesis
    by (simp add: sampleEnv_def)
qed

text \<open>In well-formed tables nothing but a package keeps an application from being deleted.\<close>

lemma unreferenced_links:
  assumes "db_ok d" and "a \<in> set (t_applications d)" and "applicationIn p name version a"
    and "\<And>k. k \<in> set (t_deployment_packages d) \<Longrightarrow> \<not> refersTo p name version d k"
  shows "(i, adb_ID a) \<notin> set (t_package_applications d)"
proof
  assume link: "(i, adb_ID a) \<in> set (t_package_applications d)"
  with assms(1) have "\<exists>u. (i, u) \<in> packageOwners d" unfolding db_ok_iff packages_ok_def links_ok_def by blast
  then obtain k where "k \<in> set (t_deployment_packages d)" "kdb_ID k = i" by (auto simp: packageOwners_def)
  with assms(2-4) link show False by (fastforce simp: refersTo_def list_ex_iff)
qed

lemma deleteApplicationRows_unreferenced:
  assumes "db_ok d" and "\<And>k. k \<in> set (t_deployment_packages d) \<Longrightarrow> \<not> refersTo p name version d k"
  shows "\<exists>d'. deleteApplicationRows (applicationIn p name version) n d =
      (Inr (length (List.filter (applicationIn p name version) (t_applications d))), d') \<and>
    t_applications d' = List.filter (\<lambda>a. \<not> applicationIn p name version a) (t_applications d) \<and>
    t_package_applications d' = t_package_applications d \<and> t_deployment_packages d' = t_deployment_packages d \<and>
    t_registries d' = t_registries d"
proof -
  let ?P = "applicationIn p name version"
  define gone where "gone = map adb_ID (List.filter ?P (t_applications d))"
  have free: "(i, j) \<notin> set (t_package_applications d)" if "j \<in> set gone" for i j
    using that unreferenced_links [OF assms(1) _ _ assms(2)] by (auto simp: gone_def)
  have "\<not> list_ex (\<lambda>q. adepdb_source_fk q \<in> set gone \<or> adepdb_target_fk q \<in> set gone) (t_application_dependencies d)"
    "\<not> list_ex (\<lambda>q. ansdb_source_fk q \<in> set gone) (t_application_namespaces d)"
    using assms(1) free by (auto simp: db_ok_iff members_ok_def list_ex_iff)
  have keep: "clearDefault (map pdb_ID (List.filter (\<lambda>p. pdb_application_fk p \<in> set gone) (t_profiles d))) a = a"
    if a: "a \<in> set (t_applications d)" "adb_ID a \<notin> set gone" for a
  proof -
    have "i \<notin> pdb_ID ` set (List.filter (\<lambda>p. pdb_application_fk p \<in> set gone) (t_profiles d))"
      if dflt: "adb_default_profile a = Some i" for i
    proof
      assume "i \<in> pdb_ID ` set (List.filter (\<lambda>p. pdb_application_fk p \<in> set gone) (t_profiles d))"
      then obtain x where x: "x \<in> set (t_profiles d)" "pdb_ID x = i" "pdb_application_fk x \<in> set gone" by auto
      obtain y where y: "y \<in> set (t_profiles d)" "pdb_ID y = i" "pdb_application_fk y = adb_ID a"
        using assms(1) a(1) dflt unfolding db_ok_iff profiles_ok_def by blast
      have "x = y" using assms(1) x y by (auto simp: db_ok_iff keys_ok_def dest: keyed_ident_inj)
      with x y a show False by simp
    qed
    then show ?thesis by (auto simp: clearDefault_def split: option.splits)
  qed
  have gone: "adb_ID a \<in> set gone \<longleftrightarrow> ?P a" if "a \<in> set (t_applications d)" for a
  proof -
    have "inj_on adb_ID (set (t_applications d))"
      using assms(1) by (auto simp: db_ok_iff keys_ok_def intro!: inj_onI dest: keyed_ident_inj)
    with that show ?thesis by (auto simp: gone_def dest: inj_onD)
  qed
  have "List.filter (\<lambda>a. adb_ID a \<notin> set gone)
      (map (clearDefault (map pdb_ID (List.filter (\<lambda>p. pdb_application_fk p \<in> set gone) (t_profiles d)))) (t_applications d)) =
    map (clearDefault (map pdb_ID (List.filter (\<lambda>p. pdb_application_fk p \<in> set gone) (t_profiles d))))
      (List.filter (\<lambda>a. adb_ID a \<notin> set gone) (t_applications d))"
    by (simp add: filter_map comp_def)
  also have "\<dots> = List.filter (\<lambda>a. adb_ID a \<notin> set gone) (t_applications d)" by (rule map_idI) (use keep in auto)
  also have "\<dots> = List.filter (\<lambda>a. \<not> ?P a) (t_applications d)" by (rule filter_cong) (use gone in auto)
  finally have "List.filter (\<lambda>a. adb_ID a \<notin> set gone)
      (map (clearDefault (map pdb_ID (List.filter (\<lambda>p. pdb_application_fk p \<in> set gone) (t_profiles d)))) (t_applications d)) =
    List.filter (\<lambda>a. \<not> ?P a) (t_applications d)" .
  then show ?thesis
    using free \<open>\<not> list_ex _ (t_application_dependencies d)\<close> \<open>\<not> list_ex _ (t_application_namespaces d)\<close>
    by (auto simp: deleteApplicationRows_def dropProfiles_def Let_def gone_def filter_id_conv)
qed

text \<open>
  C11. Conversely, on any server whose tables are well-formed, an application that exists and that no package refers to
  is deleted: the request succeeds, exactly the rows of that application leave the table of applications, and
  registries, packages and their references stay.
\<close>

theorem unreferenced_application_is_deleted:
  assumes "admitsApplication DeleteApplicationRequest env ctx (name, version) (p, name, version)"
    and "\<And>n. \<not> e_fault env n" and "db_ok (sv_db srv)"
    and "a \<in> set (t_applications (sv_db srv))" and "applicationIn p name version a"
    and "\<And>k. k \<in> set (t_deployment_packages (sv_db srv)) \<Longrightarrow> \<not> refersTo p name version (sv_db srv) k"
  shows "\<exists>srv1. DeleteApplication env ctx name version srv = (Inr (), srv1) \<and>
    t_applications (sv_db srv1) = List.filter (\<lambda>a. \<not> applicationIn p name version a) (t_applications (sv_db srv)) \<and>
    t_package_applications (sv_db srv1) = t_package_applications (sv_db srv) \<and>
    t_deployment_packages (sv_db srv1) = t_deployment_packages (sv_db srv) \<and>
    t_registries (sv_db srv1) = t_registries (sv_db srv)"
proof -
  obtain d' where d': "deleteApplicationRows (applicationIn p name version) (e_now env) (sv_db srv) =
      (Inr (length (List.filter (applicationIn p name version) (t_applications (sv_db srv)))), d')"
    "t_applications d' = List.filter (\<lambda>a. \<not> applicationIn p name version a) (t_applications (sv_db srv))"
    "t_package_applications d' = t_package_applications (sv_db srv)"
    "t_deployment_packages d' = t_deployment_packages (sv_db srv)" "t_registries d' = t_registries (sv_db srv)"
    using deleteApplicationRows_unreferenced [OF assms(3,6), of "e_now env"] by blast
  have "List.filter (refersTo p name version (sv_db srv)) (t_deployment_packages (sv_db srv)) = []"
    "List.filter (applicationIn p name version) (t_applications (sv_db srv)) \<noteq> []"
    using assms(4-6) by (auto simp: filter_empty_conv)
  with assms(1,2) d' show ?thesis
    by (simp add: DeleteApplication_def admitsApplication_def deleteApplicationBody_def monad_eval transaction_eval
        q_count_def checkDeleteResult_def appendApplication_def Let_def sendApplication_def)
qed

theorem unreferenced_application_is_deleted_witness:
  "\<exists>srv1. DeleteApplication sampleEnv sampleCtx ''app'' ''v1'' sampleAppServer = (Inr (), srv1) \<and>
     t_applications (sv_db srv1) = []"
proof -
  have a: "admitsApplication DeleteApplicationRequest sampleEnv sampleCtx (''app'', ''v1'') (''p1'', ''app'', ''v1'')"
    by (simp add: admitsApplication_def sampleProject sampleAuth)
  have here: "applicationIn ''p1'' ''app'' ''v1'' sampleAppRow"
    by (simp add: applicationIn_def sampleAppRow_def newApplicationRow_def sampleApplication_def)
  have rows: "t_applications (sv_db sampleAppServer) = [sampleAppRow]" "t_deployment_packages (sv_db sampleAppServer) = []"
    by (simp_all add: sampleAppServer_eq empty_db_def)
  have faults: "\<not> e_fault sampleEnv n" for n by (simp add: sampleEnv_def)
  show ?thesis
    using unreferenced_application_is_deleted [OF a faults sampleApp_ok, of sampleAppRow] here by (simp add: rows) blast
qed

section \<open>Update\<close>

text \<open>What identifies an application and its chart, and the profile it uses by default.\<close>

definition chartOf :: "ApplicationDB \<Rightarrow> _" where
  "chartOf a = (adb_ID a, adb_ProjectUUID a, adb_Name a, adb_Version a, adb_DisplayName a, adb_Description a,
     adb_ChartName a, adb_ChartVersion a, adb_default_profile a)"

definition keepsCharts :: "db \<Rightarrow> db \<Rightarrow> bool" where
  "keepsCharts d0 d \<longleftrightarrow> map chartOf (t_applications d) = map chartOf (t_applications d0) \<and>
     set (t_profiles d0) \<subseteq> set (t_profiles d) \<and> set (t_parameter_templates d0) \<subseteq> set (t_parameter_templates d) \<and>
     set (t_deployment_requirements d0) \<subseteq> set (t_deployment_requirements d)"

lemma createProfiles_keepsCharts: "tri (keepsCharts d0) (createProfiles p ps appID) (\<lambda>_. keepsCharts d0)"
proof -
  have rows: "tri (keepsCharts d0) (createTemplates i pts) (\<lambda>_. keepsCharts d0)"
    "tri (keepsCharts d0) (injectDeploymentRequirement p i q) (\<lambda>_. keepsCharts d0)" for i pts q
    unfolding createTemplates_def injectDeploymentRequirement_def
    by (intro tri_forM tri_done tri_bnd_found [where R = "\<lambda>_. keepsCharts d0"] tri_intro tri_bnd_same tri_found;
        auto simp: createParameterTemplateRow_def createDeploymentRequirementRow_def keepsCharts_def split: if_splits)+
  show ?thesis
    unfolding createProfiles_def injectProfile_def
    by (intro tri_forM tri_bnd_saved [where R = "\<lambda>_. keepsCharts d0"] tri_case_prod tri_if tri_throw
        tri_bnd_same [OF tri_checkProfileUniqueness] tri_bnd_same [OF tri_forM] tri_bnd_same [OF tri_liftE] rows)
      (auto simp: createProfileRow_def keepsCharts_def Let_def split: if_splits)
qed

lemma updateIgnoredResources_keepsCharts:
  "tri (keepsCharts d0) (updateIgnoredResources app appID) (\<lambda>_. keepsCharts d0)"
  unfolding updateIgnoredResources_def createIgnoredResources_def
  by (intro tri_bnd_same tri_forM tri_done tri_done_raw)
    (auto simp: deleteIgnoredResourceRows_def createIgnoredResourceRow_def keepsCharts_def Let_def split: if_splits)

definition sameRoot :: "Application \<Rightarrow> ApplicationDB \<Rightarrow> bool" where
  "sameRoot app appDB \<longleftrightarrow> a_DisplayName app = adb_DisplayName appDB \<and> a_Description app = adb_Description appDB \<and>
     a_ChartName app = adb_ChartName appDB \<and> a_ChartVersion app = adb_ChartVersion appDB"

lemma computeApplicationChanges_root:
  "tri P (computeApplicationChanges p app appDB) (\<lambda>c d. P d \<and> (ch_rootRecord c \<or> sameRoot app appDB))"
  unfolding computeApplicationChanges_def Let_def
  by (intro tri_bnd [OF getRegistry_found] tri_case_option tri_throw tri_bnd [OF tri_weaken [OF imageRegistryOf_found [of P]]]
      tri_case_prod tri_bnd_same [OF tri_applicationProfilesChanged]
      tri_bnd_same [OF tri_defaultApplicationProfileChanged]
      tri_bnd_same [OF tri_applicationIgnoredResourcesChanged] tri_ret) (auto simp: applicationChanged_def sameRoot_def)

text \<open>The application to update, as the update found it in the tables.\<close>

definition updating :: "db \<Rightarrow> string \<Rightarrow> Application \<Rightarrow> ApplicationDB \<Rightarrow> db \<Rightarrow> bool" where
  "updating d0 p app appDB d \<longleftrightarrow> d = d0 \<and> appDB \<in> set (t_applications d0) \<and>
     applicationIn p (a_Name app) (a_Version app) appDB"

lemma setApplication_keepsCharts:
  assumes "db_ok d" and "updating d p app appDB d" and "sameRoot app appDB"
    and "updateApplicationRows (applicationIn p (a_Name app) (a_Version app)) (setApplication (a_DisplayName app) app c) n d = (Inr u, d')"
  shows "keepsCharts d d'"
proof -
  have "a = appDB" if "a \<in> set (t_applications d)" "applicationIn p (a_Name app) (a_Version app) a" for a
    using assms(1,2) that
    by (auto simp: db_ok_iff keys_ok_def updating_def applicationIn_def applicationKey_def dest: keyed_key_inj)
  with assms(3,4) show ?thesis
    by (auto simp: updateApplicationRows_def updateRows_def keepsCharts_def setApplication_def chartOf_def applicationIn_def
        sameRoot_def)
qed

lemma applyApplicationChanges_keepsCharts:
  assumes "db_ok d0" and "\<not> changed c"
  shows "tri (\<lambda>d. updating d0 p app appDB d \<and> (ch_rootRecord c \<or> sameRoot app appDB))
     (applyApplicationChanges env p (a_DisplayName app) app i c) (\<lambda>_. keepsCharts d0)"
proof -
  let ?P = "\<lambda>d. updating d0 p app appDB d \<and> (ch_rootRecord c \<or> sameRoot app appDB)"
  have flags: "\<not> ch_rootRecord c" "\<not> ch_profiles c" "\<not> ch_profile c" using assms(2) by (auto simp: changed_def)
  have row: "tri ?P (orDBError (mutate (updateApplicationRows (applicationIn p (a_Name app) (a_Version app))
      (setApplication (a_DisplayName app) app c)))) (\<lambda>_. keepsCharts d0)"
    using flags assms(1) by (intro tri_done) (auto simp: updating_def intro!: setApplication_keepsCharts)
  show ?thesis
    using flags unfolding applyApplicationChanges_def
    by (intro tri_bnd_same [OF tri_checkApplicationUniqueness] tri_bnd [OF row] tri_bnd_same [OF tri_if] tri_if tri_throw tri_ret
        tri_appendApplication createProfiles_keepsCharts updateIgnoredResources_keepsCharts) auto
qed

lemma updateApplicationKind_keepsCharts: "tri (\<lambda>d. d = d0) (updateApplicationKind p app) (\<lambda>_. keepsCharts d0)"
  unfolding updateApplicationKind_def
  by (intro tri_bnd [OF tri_done [where Q = "\<lambda>_. keepsCharts d0"]] tri_if tri_throw tri_ret)
    (auto simp: updateApplicationRows_def updateRows_def keepsCharts_def chartOf_def)

lemma deployed_check:
  assumes "k \<in> set (t_deployment_packages d0)" and "kdb_IsDeployed k" and "refersTo p name version d0 k"
  shows "tri (\<lambda>d. d = d0) (bnd (checkApplicationNotInDeployedPackages p name version) f) Q"
proof (rule tri_bnd)
  show "tri (\<lambda>d. d = d0) (checkApplicationNotInDeployedPackages p name version) (\<lambda>_ _. False)"
    unfolding checkApplicationNotInDeployedPackages_def
    by (intro tri_bnd [OF tri_found [where Q = "\<lambda>n _. n > 0"]] tri_if tri_throw tri_ret)
      (use assms in \<open>auto simp: q_count_def filter_empty_conv\<close>)
qed (simp add: tri_def)

lemma updateApplication_keepsCharts:
  assumes "db_ok d0" and "k \<in> set (t_deployment_packages d0)" and "kdb_IsDeployed k"
    and "refersTo p (a_Name app0) (a_Version app0) d0 k"
  shows "tri (\<lambda>d. d = d0) (updateApplication env p app0) (\<lambda>_. keepsCharts d0)"
proof -
  have found: "tri (updating d0 p app appDB) (bnd (computeApplicationChanges p app appDB) (\<lambda>c.
      if changedKind c \<and> \<not> changed c then updateApplicationKind p app
      else bnd (if changedKind c \<or> changed c then checkApplicationNotInDeployedPackages p (a_Name app) (a_Version app) else ret ())
         (\<lambda>_. applyApplicationChanges env p dn app (adb_ID appDB) c))) (\<lambda>_. keepsCharts d0)"
    if "a_Name app = a_Name app0" "a_Version app = a_Version app0"
      and dn: "dn = a_DisplayName app" for app appDB dn
  proof (rule tri_bnd [OF computeApplicationChanges_root])
    fix c :: applicationChanges
    let ?P = "\<lambda>d. updating d0 p app appDB d \<and> (ch_rootRecord c \<or> sameRoot app appDB)"
    note check = deployed_check [OF assms(2-4)]
    have "tri ?P (bnd (if changedKind c \<or> changed c then checkApplicationNotInDeployedPackages p (a_Name app) (a_Version app)
        else ret ()) (\<lambda>_. applyApplicationChanges env p dn app (adb_ID appDB) c)) (\<lambda>_. keepsCharts d0)"
    proof (cases "changedKind c \<or> changed c")
      case True
      then show ?thesis unfolding that(1,2) if_P [OF True] by (intro tri_weaken [OF check]) (auto simp: updating_def)
    next
      case False
      then show ?thesis
        unfolding if_not_P [OF False] dn by (intro tri_bnd_same [OF tri_ret] applyApplicationChanges_keepsCharts assms(1)) auto
    qed
    then show "tri ?P (if changedKind c \<and> \<not> changed c then updateApplicationKind p app
      else bnd (if changedKind c \<or> changed c then checkApplicationNotInDeployedPackages p (a_Name app) (a_Version app) else ret ())
         (\<lambda>_. applyApplicationChanges env p dn app (adb_ID appDB) c)) (\<lambda>_. keepsCharts d0)"
      by (intro tri_if tri_weaken [OF updateApplicationKind_keepsCharts]) (auto simp: updating_def)
  qed
  show ?thesis
    unfolding updateApplication_def Let_def
  proof (intro tri_if tri_throw tri_case_prod tri_bnd [OF getApplication_found] tri_case_option)
    fix dn ok appDB and r :: "ApplicationDB option"
    assume r: "r = Some appDB"
    let ?app = "app0\<lparr>a_Kind := (if a_Kind app0 = KIND_UNSPECIFIED then kindFromDB (kindColumn appDB) else a_Kind app0),
      a_DisplayName := dn\<rparr>"
    show "tri (\<lambda>d. d = d0 \<and> (\<forall>a. r = Some a \<longrightarrow> a \<in> set (t_applications d) \<and> applicationIn p (a_Name app0) (a_Version app0) a))
      (bnd (computeApplicationChanges p ?app appDB) (\<lambda>c.
        if changedKind c \<and> \<not> changed c then updateApplicationKind p ?app
        else bnd (if changedKind c \<or> changed c then checkApplicationNotInDeployedPackages p (a_Name ?app) (a_Version ?app) else ret ())
          (\<lambda>_. applyApplicationChanges env p dn ?app (adb_ID appDB) c))) (\<lambda>_. keepsCharts d0)"
    proof (rule tri_weaken)
      show "tri (updating d0 p ?app appDB) (bnd (computeApplicationChanges p ?app appDB) (\<lambda>c.
        if changedKind c \<and> \<not> changed c then updateApplicationKind p ?app
        else bnd (if changedKind c \<or> changed c then checkApplicationNotInDeployedPackages p (a_Name ?app) (a_Version ?app) else ret ())
          (\<lambda>_. applyApplicationChanges env p dn ?app (adb_ID appDB) c))) (\<lambda>_. keepsCharts d0)"
        by (rule found) simp_all
    qed (use r in \<open>auto simp: updating_def\<close>)
  qed
qed

text \<open>
  C10. An update of an application that a deployed package uses, when it succeeds, keeps the chart and the default profile of
  every application and every profile, parameter template and deployment requirement there was: it can change the
  kind and the registries and add profiles.
\<close>

theorem deployed_application_keeps_its_chart:
  assumes "UpdateApplication env ctx name version (Some app) srv = (Inr u, srv1)" and "GetActiveProjectID ctx = Inr p"
    and "db_ok (sv_db srv)" and "k \<in> set (t_deployment_packages (sv_db srv))" and "kdb_IsDeployed k"
    and "refersTo p name version (sv_db srv) k"
  shows "map chartOf (t_applications (sv_db srv1)) = map chartOf (t_applications (sv_db srv)) \<and>
    set (t_profiles (sv_db srv)) \<subseteq> set (t_profiles (sv_db srv1)) \<and>
    set (t_parameter_templates (sv_db srv)) \<subseteq> set (t_parameter_templates (sv_db srv1)) \<and>
    set (t_deployment_requirements (sv_db srv)) \<subseteq> set (t_deployment_requirements (sv_db srv1))"
proof -
  obtain x t0 v t where run: "admitsUpdateApplication env ctx (name, version, Some app) x" "tx_db t0 = sv_db srv"
    "updateApplication env (fst x) (snd x) t0 = (Inr v, t)"
    "srv1 = sendApplication t (srv\<lparr>sv_db := tx_db t, sv_vault := tx_vault t\<rparr>)"
    by (rule update_application.success [of env ctx "(name, version, Some app)" srv u srv1]) (use assms(1) in auto)
  then have "fst x = p" "name = a_Name (snd x)" "version = a_Version (snd x)"
    using assms(2) by (auto simp: admitsUpdateApplication_def)
  with assms(3-6) run(2,3) have "keepsCharts (sv_db srv) (tx_db t)"
    using triD [OF updateApplication_keepsCharts [of "sv_db srv" k p "snd x" env], of t0 v t] by simp
  with run(4) show ?thesis by (simp add: keepsCharts_def)
qed

lemma sampleUpdateApplication:
  "\<exists>srv1. UpdateApplication sampleEnv sampleCtx ''app'' ''v1'' (Some sampleApplication) samplePackageServer = (Inr (), srv1)"
  unfolding samplePackageServer_eq
  by (simp add: UpdateApplication_def sampleProject sampleApplication_valid sampleAuth sampleApplication_def [THEN arg_cong [of _ _ a_Name]]
      sampleApplication_def [THEN arg_cong [of _ _ a_Version]])
    (simp add: transaction_eval monad_eval updateApplication_def validateDisplayName_def getApplication_def
      computeApplicationChanges_def getRegistry_def imageRegistryOf_def applicationProfilesChanged_def profilesOf_def
      defaultApplicationProfileChanged_def applicationIgnoredResourcesChanged_def applyApplicationChanges_def
      checkApplicationUniqueness_def updateApplicationRows_def updateRows_def setApplication_def appendApplication_def
      changed_def changedKind_def applicationChanged_def isSameKind_def kindColumn_def q_first_def q_only_def
      q_count_def inProject_def applicationIn_def sampleApplication_def sampleAppRow_def newApplicationRow_def sampleRow_def
      newRegistryRow_def sample_eval TrimSpace_def trimBoth_def go_space_def)

theorem deployed_application_keeps_its_chart_witness:
  "\<exists>srv1. UpdateApplication sampleEnv sampleCtx ''app'' ''v1'' (Some sampleApplication) samplePackageServer = (Inr (), srv1) \<and>
     map chartOf (t_applications (sv_db srv1)) = [chartOf sampleAppRow]"
proof -
  obtain srv1 where u: "UpdateApplication sampleEnv sampleCtx ''app'' ''v1'' (Some sampleApplication) samplePackageServer = (Inr (), srv1)"
    using sampleUpdateApplication by blast
  have k: "samplePkgRow \<in> set (t_deployment_packages (sv_db samplePackageServer))" "kdb_IsDeployed samplePkgRow"
    "refersTo ''p1'' ''app'' ''v1'' (sv_db samplePackageServer) samplePkgRow"
    "t_applications (sv_db samplePackageServer) = [sampleAppRow]"
    by (simp_all add: samplePackageServer_eq refersTo_def applicationIn_def sampleAppRow_def newApplicationRow_def
        sampleApplication_def samplePkgRow_def newPackageRow_def samplePackage_def)
  from deployed_application_keeps_its_chart [OF u sampleProject samplePackage_ok k(1-3)] u k(4) show ?thesis by auto
qed

end
