(* ===== verification/Package_Properties.thy ===== *)
theory Package_Properties
  imports Sample_Package
begin

text \<open>
  What the operations on deployment packages do from request to response: the properties of
  \<^verbatim>\<open>internal/northbound/deployment-package.go\<close>.
\<close>

section \<open>Deployed packages\<close>

text \<open>
  A deployed package is not deleted: the request is refused as a failed precondition and nothing at all changes.
\<close>

theorem deployed_package_not_deleted:
  assumes "admitsPackage DeleteDeploymentPackageRequest env ctx (name, version) (p, name, version)"
    and "\<And>n. \<not> e_fault env n"
    and "q_first (packageIn p name version) (t_deployment_packages (sv_db srv)) = Inr k" and "kdb_IsDeployed k"
  shows "\<exists>e. DeleteDeploymentPackage env ctx name version srv = (Inl e, srv) \<and> st_code e = FailedPrecondition"
  using assms
  by (auto simp: DeleteDeploymentPackage_def admitsPackage_def deletePackageBody_def emptyPackage_def
      checkDeploymentPackageNotDeployed_def monad_eval transaction_eval Let_def)

theorem deployed_package_not_deleted_witness:
  "\<exists>e. DeleteDeploymentPackage sampleEnv sampleCtx ''pkg'' ''1'' samplePackageServer = (Inl e, samplePackageServer) \<and>
     st_code e = FailedPrecondition"
proof -
  have a: "admitsPackage DeleteDeploymentPackageRequest sampleEnv sampleCtx (''pkg'', ''1'') (''p1'', ''pkg'', ''1'')"
    by (simp add: admitsPackage_def sampleProject sampleAuth)
  have "q_first (packageIn ''p1'' ''pkg'' ''1'') (t_deployment_packages (sv_db samplePackageServer)) = Inr samplePkgRow"
    "kdb_IsDeployed samplePkgRow"
    by (simp_all add: samplePackageServer_eq q_first_def packageIn_def samplePkgRow_def newPackageRow_def samplePackage_def)
  from deployed_package_not_deleted [OF a _ this] show ?thesis by (simp add: sampleEnv_def)
qed

text \<open>What a package is apart from its kind and the time of its last update, and the tables of the parts of packages.\<close>

definition rootOf :: "DeploymentPackageDB \<Rightarrow> _" where
  "rootOf k = (kdb_ID k, kdb_ProjectUUID k, kdb_Name k, kdb_Version k,
     if kdb_DisplayName k = [] then kdb_Name k else kdb_DisplayName k,
     if kdb_DisplayName k = [] then ToLower (kdb_Name k) else kdb_DisplayNameLc k, kdb_Description k, kdb_IsDeployed k,
     kdb_IsVisible k, kdb_AllowsMultipleDeployments k, kdb_default_profile k, kdb_CreateTime k)"

definition partsOf :: "db \<Rightarrow> _" where
  "partsOf d = (t_applications d, t_package_applications d, t_application_dependencies d, t_application_namespaces d,
     t_namespaces d, t_namespace_adornments d, t_extensions d, t_endpoints d, t_artifacts d, t_artifact_references d)"

definition keepsPackages :: "db \<Rightarrow> db \<Rightarrow> bool" where
  "keepsPackages d0 d \<longleftrightarrow> map rootOf (t_deployment_packages d) = map rootOf (t_deployment_packages d0) \<and>
     partsOf d = partsOf d0 \<and> set (t_deployment_profiles d0) \<subseteq> set (t_deployment_profiles d) \<and>
     set (t_deployment_profile_profiles d0) \<subseteq> set (t_deployment_profile_profiles d)"

lemma addLinks_subset: "set links \<subseteq> set (addLinks k ids links)"
  unfolding addLinks_def by (induction ids arbitrary: links) fastforce+

lemma rootOf_frame [simp]: "rootOf (r\<lparr>kdb_UpdateTime := n\<rparr>) = rootOf r"
  by (simp add: rootOf_def)

text \<open>The default profile that a request names is, when it names one, a profile the package has.\<close>

definition defaultHeld :: "DeploymentPackage \<Rightarrow> DeploymentPackageDB \<Rightarrow> db \<Rightarrow> bool" where
  "defaultHeld pkg pkgDB d \<longleftrightarrow> dp_DefaultProfileName pkg \<noteq> [] \<longrightarrow>
     (\<exists>p \<in> set (t_deployment_profiles d). dpdb_deployment_package_fk p = kdb_ID pkgDB \<and> dpdb_Name p = dp_DefaultProfileName pkg)"

text \<open>A deployment profile of a name that the package has already is not created.\<close>

lemma injectDeploymentProfile_keepsPackages:
  "tri (keepsPackages d0) (injectDeploymentProfile pkgDB profile) (\<lambda>_ d. keepsPackages d0 d \<and>
     (defaultHeld pkg pkgDB d0 \<longrightarrow> dp_DefaultProfileName pkg = [] \<or> dp_DefaultProfileName pkg \<noteq> dpr_Name profile))"
proof -
  let ?R = "\<lambda>d. keepsPackages d0 d \<and>
     (defaultHeld pkg pkgDB d0 \<longrightarrow> dp_DefaultProfileName pkg = [] \<or> dp_DefaultProfileName pkg \<noteq> dpr_Name profile)"
  have saved: "?R d'"
    if d: "keepsPackages d0 d"
      and c: "createDeploymentProfileRow (newDeploymentProfileRow (kdb_ID pkgDB) dn profile) ids n d = (Inr c, d')"
    for dn ids n d c d'
  proof
    show "keepsPackages d0 d'"
      using d c addLinks_subset [of "t_deployment_profile_profiles d" "t_next d" ids]
      by (auto simp: createDeploymentProfileRow_def keepsPackages_def partsOf_def Let_def split: if_splits)
    have "\<not> (\<exists>p \<in> set (t_deployment_profiles d). dpdb_deployment_package_fk p = kdb_ID pkgDB \<and> dpdb_Name p = dpr_Name profile)"
      using c by (auto simp: createDeploymentProfileRow_def newDeploymentProfileRow_def list_ex_iff split: if_splits)
    with d show "defaultHeld pkg pkgDB d0 \<longrightarrow> dp_DefaultProfileName pkg = [] \<or> dp_DefaultProfileName pkg \<noteq> dpr_Name profile"
      by (auto simp: defaultHeld_def keepsPackages_def)
  qed
  show ?thesis
    unfolding injectDeploymentProfile_def
    by (intro tri_case_prod tri_if tri_throw tri_bnd_same [OF tri_checkDeploymentProfileUniqueness]
        tri_bnd [OF congruentProfiles_found] tri_bnd_saved [where R = "\<lambda>_. ?R"] tri_ret) (auto dest: saved)
qed

lemma tri_known: "(A \<Longrightarrow> tri P x Q) \<Longrightarrow> tri (\<lambda>d. P d \<and> A) x Q"
  by (auto simp: tri_def)

text \<open>So the profiles that are added do not become the default one.\<close>

lemma injectAll_keepsPackages:
  assumes "defaultHeld pkg pkgDB d0"
  shows "tri (keepsPackages d0) (injectAll pkg pkgDB None ps) (\<lambda>r d. keepsPackages d0 d \<and> r = None)"
proof (induction ps)
  case Nil
  then show ?case by (auto intro: tri_ret)
next
  case (Cons q ps)
  show ?case
    unfolding injectAll.simps
  proof (rule tri_bnd [OF injectDeploymentProfile_keepsPackages [where pkg = pkg]], rule tri_known)
    fix created
    assume "defaultHeld pkg pkgDB d0 \<longrightarrow> dp_DefaultProfileName pkg = [] \<or> dp_DefaultProfileName pkg \<noteq> dpr_Name q"
    with assms Cons.IH show "tri (keepsPackages d0) (injectAll pkg pkgDB
        (if dp_DefaultProfileName pkg \<noteq> [] \<and> dp_DefaultProfileName pkg = dpr_Name q then Some (dpdb_ID created) else None) ps)
        (\<lambda>r d. keepsPackages d0 d \<and> r = None)" by auto
  qed
qed

lemma createDeploymentProfiles_keepsPackages:
  assumes "defaultHeld pkg pkgDB d0"
  shows "tri (keepsPackages d0) (createDeploymentProfiles ps pkg pkgDB) (\<lambda>_. keepsPackages d0)"
  unfolding createDeploymentProfiles_def
  by (intro tri_bnd [OF injectAll_keepsPackages [OF assms]] tri_known) (simp add: tri_ret)

text \<open>What the computed changes say of the record itself and of its default profile.\<close>

definition defaultNamed :: "DeploymentPackage \<Rightarrow> DeploymentPackageDB \<Rightarrow> db \<Rightarrow> bool" where
  "defaultNamed pkg pkgDB d \<longleftrightarrow> dp_DefaultProfileName pkg \<noteq> [] \<longrightarrow>
     (\<exists>p \<in> set (t_deployment_profiles d). kdb_default_profile pkgDB = Some (dpdb_ID p) \<and> dpdb_Name p = dp_DefaultProfileName pkg)"

lemma defaultDeploymentProfileChanged_named:
  "tri P (defaultDeploymentProfileChanged pkg pkgDB) (\<lambda>changed d. P d \<and> (changed \<or> defaultNamed pkg pkgDB d))"
  unfolding defaultDeploymentProfileChanged_def
proof (rule tri_bnd)
  show "tri P (query (\<lambda>d. q_only (\<lambda>p. kdb_default_profile pkgDB = Some (dpdb_ID p)) (t_deployment_profiles d)))
      (\<lambda>r d. P d \<and> (\<forall>p. r = Inr p \<longrightarrow> p \<in> set (t_deployment_profiles d) \<and> kdb_default_profile pkgDB = Some (dpdb_ID p)))"
    by (rule tri_query) (auto dest: q_only_Inr_in)
next
  fix found
  show "tri (\<lambda>d. P d \<and> (\<forall>p. found = Inr p \<longrightarrow> p \<in> set (t_deployment_profiles d) \<and> kdb_default_profile pkgDB = Some (dpdb_ID p)))
      (case found of
         Inl err \<Rightarrow> if err = EntNotFound then ret (dp_DefaultProfileName pkg \<noteq> []) else throw (dbError err)
       | Inr dpDB \<Rightarrow> ret (dp_DefaultProfileName pkg \<noteq> dpdb_Name dpDB))
      (\<lambda>changed d. P d \<and> (changed \<or> defaultNamed pkg pkgDB d))"
    by (intro tri_case_sum tri_if tri_throw tri_ret) (auto simp: defaultNamed_def)
qed

lemma computePackageChanges_root:
  "tri P (computePackageChanges env pkg pkgDB) (\<lambda>c d. P d \<and> (pc_rootRecord c \<longleftrightarrow> deploymentPackageChanged pkg pkgDB) \<and>
     (pc_profile c \<or> defaultNamed pkg pkgDB d))"
proof -
  have parts: "tri Q (applicationReferencesChanged pkg pkgDB) (\<lambda>_. Q)" "tri Q (deploymentProfilesChanged pkg pkgDB) (\<lambda>_. Q)"
    "tri Q (applicationDependenciesChanged pkg pkgDB) (\<lambda>_. Q)" "tri Q (applicationNamespacesChanged pkg pkgDB) (\<lambda>_. Q)"
    "tri Q (namespacesChanged pkg pkgDB) (\<lambda>_. Q)" "tri Q (extensionsChanged env pkg pkgDB) (\<lambda>_. Q)"
    "tri Q (artifactReferencesChanged pkg pkgDB) (\<lambda>_. Q)" for Q
    unfolding applicationReferencesChanged_def deploymentProfilesChanged_def applicationDependenciesChanged_def
      applicationNamespacesChanged_def namespacesChanged_def extensionsChanged_def artifactReferencesChanged_def
    by (intro tri_intro tri_bnd_same tri_query_same; simp)+
  show ?thesis
    unfolding computePackageChanges_def
    by (intro tri_bnd_same [OF parts(1)] tri_bnd_same [OF parts(2)] tri_case_prod
        tri_bnd [OF defaultDeploymentProfileChanged_named] tri_bnd_same [OF parts(3)] tri_bnd_same [OF parts(4)]
        tri_bnd_same [OF parts(5)] tri_bnd_same [OF parts(6)] tri_bnd_same [OF parts(7)] tri_ret) auto
qed

text \<open>The package to update, as the update found it in the tables, and the request, both deployed.\<close>

definition updatingPackage :: "db \<Rightarrow> string \<Rightarrow> DeploymentPackage \<Rightarrow> DeploymentPackageDB \<Rightarrow> db \<Rightarrow> bool" where
  "updatingPackage d0 p pkg pkgDB d \<longleftrightarrow> d = d0 \<and> pkgDB \<in> set (t_deployment_packages d0) \<and>
     packageIn p (dp_Name pkg) (dp_Version pkg) pkgDB \<and> kdb_IsDeployed pkgDB \<and> dp_IsDeployed pkg"

text \<open>The stored default profile of a package is one of its own.\<close>

lemma defaultNamed_held:
  assumes "db_ok d" and "pkgDB \<in> set (t_deployment_packages d)" and "defaultNamed pkg pkgDB d"
  shows "defaultHeld pkg pkgDB d"
  unfolding defaultHeld_def
proof
  assume "dp_DefaultProfileName pkg \<noteq> []"
  with assms(3) obtain p where p: "p \<in> set (t_deployment_profiles d)" "kdb_default_profile pkgDB = Some (dpdb_ID p)"
    "dpdb_Name p = dp_DefaultProfileName pkg" by (auto simp: defaultNamed_def)
  with assms(1,2) have "(dpdb_ID p, kdb_ID pkgDB) \<in> deploymentProfiles d"
    by (auto simp: db_ok_iff packages_ok_def packageOwned_ok_def)
  then obtain q where q: "q \<in> set (t_deployment_profiles d)" "dpdb_ID q = dpdb_ID p" "dpdb_deployment_package_fk q = kdb_ID pkgDB"
    by (auto simp: deploymentProfiles_def)
  have "keyed (t_next d) dpdb_ID deploymentProfileKey (t_deployment_profiles d)"
    using assms(1) by (simp add: db_ok_iff packages_ok_def packageKeys_ok_def)
  from keyed_ident_inj [OF this q(1) p(1) q(2)] p q
  show "\<exists>p \<in> set (t_deployment_profiles d). dpdb_deployment_package_fk p = kdb_ID pkgDB \<and> dpdb_Name p = dp_DefaultProfileName pkg"
    by auto
qed

lemma package_unique:
  assumes "db_ok d" and "k \<in> set (t_deployment_packages d)" and "packageIn p n v k"
    and "r \<in> set (t_deployment_packages d)" and "packageIn p n v r"
  shows "r = k"
  using assms
  by (auto simp: db_ok_iff packages_ok_def packageKeys_ok_def packageIn_def packageKey_def dest: keyed_key_inj)

lemma packageRows_keep:
  assumes "db_ok d0" and "\<And>d. P d \<Longrightarrow> updatingPackage d0 p pkg pkgDB d \<and> rootOf (f pkgDB) = rootOf pkgDB"
  shows "tri P (orDBError (mutate (updateDeploymentPackageRows (packageIn p (dp_Name pkg) (dp_Version pkg)) f)))
     (\<lambda>_. keepsPackages d0)"
proof (rule tri_done)
  fix n d v d'
  assume "P d" and u: "updateDeploymentPackageRows (packageIn p (dp_Name pkg) (dp_Version pkg)) f n d = (Inr v, d')"
  note k = assms(2) [OF \<open>P d\<close>]
  have "rootOf (f r) = rootOf r" if "r \<in> set (t_deployment_packages d0)" "packageIn p (dp_Name pkg) (dp_Version pkg) r" for r
    using package_unique [OF assms(1) _ _ that] k unfolding updatingPackage_def by metis
  with k u show "keepsPackages d0 d'"
    by (auto simp: updateDeploymentPackageRows_def updateRows_def keepsPackages_def partsOf_def updatingPackage_def)
qed

lemma updatePackageKindOrDeployedState_keepsPackages:
  assumes "db_ok d0"
  shows "tri (updatingPackage d0 p pkg pkgDB) (updatePackageKindOrDeployedState p pkg) (\<lambda>_. keepsPackages d0)"
  unfolding updatePackageKindOrDeployedState_def
  by (intro tri_bnd [OF packageRows_keep [OF assms]] tri_if tri_throw tri_ret) (auto simp: updatingPackage_def rootOf_def)

text \<open>What is known of the package while its changes are applied.\<close>

definition changing :: "db \<Rightarrow> string \<Rightarrow> DeploymentPackage \<Rightarrow> DeploymentPackageDB \<Rightarrow> packageChanges \<Rightarrow> db \<Rightarrow> bool" where
  "changing d0 p pkg pkgDB c d \<longleftrightarrow> updatingPackage d0 p pkg pkgDB d \<and>
     (pc_rootRecord c \<longleftrightarrow> deploymentPackageChanged pkg pkgDB) \<and> (pc_profile c \<or> defaultNamed pkg pkgDB d)"

lemma applyPackageChanges_keepsPackages:
  assumes "db_ok d0" and "\<not> packageChanged c"
  shows "tri (changing d0 p pkg pkgDB c)
     (applyPackageChanges env p (fst (validateDisplayName (dp_Name pkg) (dp_DisplayName pkg))) pkg pkgDB c) (\<lambda>_. keepsPackages d0)"
proof (cases "changing d0 p pkg pkgDB c d0")
  case False
  then have "\<not> changing d0 p pkg pkgDB c d" for d by (auto simp: changing_def updatingPackage_def)
  then show ?thesis by (simp add: tri_def)
next
  case True
  let ?dn = "fst (validateDisplayName (dp_Name pkg) (dp_DisplayName pkg))"
  have flags: "\<not> pc_rootRecord c" "\<not> pc_applications c" "\<not> pc_profiles c" "\<not> pc_profile c" "\<not> pc_dependencies c"
    "\<not> pc_defaultNamespaces c" "\<not> pc_namespaces c" "\<not> pc_extensions c" "\<not> pc_artifacts c"
    using assms(2) by (auto simp: packageChanged_def)
  have pkgDB: "updatingPackage d0 p pkg pkgDB d0" "\<not> deploymentPackageChanged pkg pkgDB" "defaultNamed pkg pkgDB d0"
    using True flags by (simp_all add: changing_def)
  then have held: "defaultHeld pkg pkgDB d0" using defaultNamed_held [OF assms(1)] by (simp add: updatingPackage_def)
  have "kdb_DisplayNameLc pkgDB = ToLower (kdb_DisplayName pkgDB)"
    using pkgDB(1) assms(1) by (simp add: updatingPackage_def db_ok_iff packages_ok_def packageKeys_ok_def)
  with pkgDB(1,2) have root: "rootOf (setPackage ?dn pkg pkgDB) = rootOf pkgDB"
    by (auto simp: rootOf_def setPackage_def deploymentPackageChanged_def updatingPackage_def packageIn_def
        validateDisplayName_def)
  have row: "tri (changing d0 p pkg pkgDB c) (orDBError (mutate (updateDeploymentPackageRows (packageIn p (dp_Name pkg) (dp_Version pkg))
      (setPackage ?dn pkg)))) (\<lambda>_. keepsPackages d0)"
    by (rule packageRows_keep [OF assms(1), where pkgDB = pkgDB]) (use root in \<open>simp add: changing_def\<close>)
  have parts: "tri (keepsPackages d0) (replacePackageParts env p pkg pkgDB c) (\<lambda>_. keepsPackages d0)"
    using flags unfolding replacePackageParts_def
    by (intro tri_bnd_same [OF tri_if] tri_if tri_ret createDeploymentProfiles_keepsPackages [OF held]) auto
  show ?thesis
    unfolding applyPackageChanges_def
    by (intro tri_bnd_same [OF tri_checkDeploymentPackageUniqueness] tri_bnd [OF row] tri_if tri_throw tri_bnd_same [OF parts]
        tri_appendPackage)
qed

lemma deployed_package_check:
  assumes "db_ok d0"
  shows "tri (updatingPackage d0 p pkg pkgDB) (bnd (checkDeploymentPackageNotDeployed p pkg) f) Q"
proof (rule tri_bnd)
  have "kdb_IsDeployed r" if "updatingPackage d0 p pkg pkgDB d"
    "q_first (packageIn p (dp_Name pkg) (dp_Version pkg)) (t_deployment_packages d) = Inr r" for d r
  proof -
    have "r \<in> set (t_deployment_packages d0)" "packageIn p (dp_Name pkg) (dp_Version pkg) r"
      using that q_first_Inr [OF that(2)] by (auto simp: updatingPackage_def)
    with that(1) package_unique [OF assms] show ?thesis unfolding updatingPackage_def by metis
  qed
  moreover have "q_first (packageIn p (dp_Name pkg) (dp_Version pkg)) (t_deployment_packages d) \<noteq> Inl EntNotFound"
    if "updatingPackage d0 p pkg pkgDB d" for d
    using that by (auto simp: updatingPackage_def q_first_def filter_empty_conv split: list.splits)
  ultimately show "tri (updatingPackage d0 p pkg pkgDB) (checkDeploymentPackageNotDeployed p pkg) (\<lambda>_ _. False)"
    unfolding checkDeploymentPackageNotDeployed_def
    by (intro tri_bnd [OF tri_query [where Q = "\<lambda>r d. dp_IsDeployed pkg \<and>
          (case r of Inl e \<Rightarrow> e \<noteq> EntNotFound | Inr k \<Rightarrow> kdb_IsDeployed k)"]] tri_case_sum tri_if tri_throw tri_ret)
      (auto simp: updatingPackage_def split: sum.splits)
qed (simp add: tri_def)

lemma updateDeploymentPackage_keepsPackages:
  assumes "db_ok d0" and "k \<in> set (t_deployment_packages d0)" and "packageIn p (dp_Name pkg) (dp_Version pkg) k"
    and "kdb_IsDeployed k" and "dp_IsDeployed pkg"
  shows "tri (\<lambda>d. d = d0) (updateDeploymentPackage env p pkg) (\<lambda>_. keepsPackages d0)"
proof -
  have found: "tri (updatingPackage d0 p pkg pkgDB) (bnd (computePackageChanges env pkg pkgDB) (\<lambda>c.
      if changedKindOrDeployedState c \<and> \<not> packageChanged c then updatePackageKindOrDeployedState p pkg
      else bnd (if packageChanged c then checkDeploymentPackageNotDeployed p pkg else ret ())
        (\<lambda>_. applyPackageChanges env p (fst (validateDisplayName (dp_Name pkg) (dp_DisplayName pkg))) pkg pkgDB c)))
      (\<lambda>_. keepsPackages d0)" for pkgDB
  proof (rule tri_bnd [OF tri_weaken [OF computePackageChanges_root, where Q' = "changing d0 p pkg pkgDB"]])
    show "updatingPackage d0 p pkg pkgDB d" if "updatingPackage d0 p pkg pkgDB d" for d using that .
    show "changing d0 p pkg pkgDB c d" if "updatingPackage d0 p pkg pkgDB d \<and>
        (pc_rootRecord c \<longleftrightarrow> deploymentPackageChanged pkg pkgDB) \<and> (pc_profile c \<or> defaultNamed pkg pkgDB d)" for c d
      using that by (simp add: changing_def)
    fix c :: packageChanges
    let ?apply = "\<lambda>_ :: unit. applyPackageChanges env p (fst (validateDisplayName (dp_Name pkg) (dp_DisplayName pkg))) pkg pkgDB c"
    have state: "updatingPackage d0 p pkg pkgDB d" if "changing d0 p pkg pkgDB c d" for d using that by (simp add: changing_def)
    have "tri (changing d0 p pkg pkgDB c) (bnd (if packageChanged c then checkDeploymentPackageNotDeployed p pkg else ret ()) ?apply)
        (\<lambda>_. keepsPackages d0)"
    proof (cases "packageChanged c")
      case True
      then show ?thesis unfolding if_P [OF True] by (intro tri_weaken [OF deployed_package_check [OF assms(1)]]) (auto dest: state)
    next
      case False
      then show ?thesis
        unfolding if_not_P [OF False] by (intro tri_bnd_same [OF tri_ret] applyPackageChanges_keepsPackages assms(1)) auto
    qed
    then show "tri (changing d0 p pkg pkgDB c) (if changedKindOrDeployedState c \<and> \<not> packageChanged c
        then updatePackageKindOrDeployedState p pkg
      else bnd (if packageChanged c then checkDeploymentPackageNotDeployed p pkg else ret ()) ?apply) (\<lambda>_. keepsPackages d0)"
      by (intro tri_if tri_weaken [OF updatePackageKindOrDeployedState_keepsPackages [OF assms(1)]]) (auto dest: state)
  qed
  show ?thesis
    unfolding updateDeploymentPackage_def
  proof (intro tri_if tri_throw tri_case_prod tri_bnd [OF getDeploymentPackage_found] tri_case_option)
    fix dn ok pkgDB and r :: "DeploymentPackageDB option"
    assume r: "r = Some pkgDB" and dn: "validateDisplayName (dp_Name pkg) (dp_DisplayName pkg) = (dn, ok)"
    show "tri (\<lambda>d. d = d0 \<and> (\<forall>k. r = Some k \<longrightarrow> k \<in> set (t_deployment_packages d) \<and> packageIn p (dp_Name pkg) (dp_Version pkg) k))
      (bnd (computePackageChanges env pkg pkgDB) (\<lambda>c.
        if changedKindOrDeployedState c \<and> \<not> packageChanged c then updatePackageKindOrDeployedState p pkg
        else bnd (if packageChanged c then checkDeploymentPackageNotDeployed p pkg else ret ())
          (\<lambda>_. applyPackageChanges env p dn pkg pkgDB c))) (\<lambda>_. keepsPackages d0)"
    proof (rule tri_weaken [OF found [of pkgDB, unfolded dn fst_conv]])
      fix d assume "d = d0 \<and> (\<forall>k. r = Some k \<longrightarrow> k \<in> set (t_deployment_packages d) \<and> packageIn p (dp_Name pkg) (dp_Version pkg) k)"
      with r have "d = d0" "pkgDB \<in> set (t_deployment_packages d0)" "packageIn p (dp_Name pkg) (dp_Version pkg) pkgDB" by auto
      with assms(4,5) package_unique [OF assms(1-3), of pkgDB] show "updatingPackage d0 p pkg pkgDB d"
        by (simp add: updatingPackage_def)
    qed
  qed
qed

text \<open>
  C6. An update of a deployed package whose request does not end its deployment, when it succeeds, keeps the
  record of every package, its default profile included, up to its kind and the time of its update, and every application, reference, dependency, namespace, extension, artifact and
  deployment profile there was: it can change the kind and add deployment profiles.
\<close>

theorem deployed_package_keeps_its_parts:
  assumes "UpdateDeploymentPackage env ctx name version (Some pkg) srv = (Inr u, srv1)" and "GetActiveProjectID ctx = Inr p"
    and "db_ok (sv_db srv)" and "k \<in> set (t_deployment_packages (sv_db srv))" and "packageIn p name version k"
    and "kdb_IsDeployed k" and "dp_IsDeployed pkg"
  shows "map rootOf (t_deployment_packages (sv_db srv1)) = map rootOf (t_deployment_packages (sv_db srv)) \<and>
    partsOf (sv_db srv1) = partsOf (sv_db srv) \<and>
    set (t_deployment_profiles (sv_db srv)) \<subseteq> set (t_deployment_profiles (sv_db srv1)) \<and>
    set (t_deployment_profile_profiles (sv_db srv)) \<subseteq> set (t_deployment_profile_profiles (sv_db srv1))"
proof -
  obtain x t0 v t where run: "admitsUpdatePackage env ctx (name, version, Some pkg) x" "tx_db t0 = sv_db srv"
    "updateDeploymentPackage env (fst x) (snd x) t0 = (Inr v, t)"
    "srv1 = sendDeploymentPackage t (srv\<lparr>sv_db := tx_db t, sv_vault := tx_vault t\<rparr>)"
    by (rule update_package.success [of env ctx "(name, version, Some pkg)" srv u srv1]) (use assms(1) in auto)
  then have x: "fst x = p" "snd x = pkg" "name = dp_Name pkg" "version = dp_Version pkg"
    using assms(2) by (auto simp: admitsUpdatePackage_def)
  have "keepsPackages (sv_db srv) (tx_db t)"
    by (rule triD [OF updateDeploymentPackage_keepsPackages [OF assms(3,4) _ assms(6,7), of p env], of t0 v t])
      (use assms(5) run(2,3) x in auto)
  with run(4) show ?thesis by (simp add: keepsPackages_def)
qed

lemmas package_update_eval = updateDeploymentPackage_def validateDisplayName_def getDeploymentPackage_def computePackageChanges_def
  applicationReferencesChanged_def extractApplicationReferences_def applicationsIn_def differs_def byKey_def referenceKey_def
  appReferencesAreSame_def deploymentProfilesChanged_def extractDeploymentProfiles_def deploymentProfilesIn_def
  defaultDeploymentProfileChanged_def applicationDependenciesChanged_def extractApplicationDependencies_def
  applicationNamespacesChanged_def extractApplicationNamespaces_def namespacesChanged_def extractNamespaces_def
  extensionsChanged_def extractExtensions_def artifactReferencesChanged_def extractArtifactReferences_def
  extractArtifactReference_def artifactsAreSame_def isSameKind_def packageKind_def deploymentPackageChanged_def
  changedKindOrDeployedState_def packageChanged_def updatePackageKindOrDeployedState_def checkDeploymentPackageNotDeployed_def
  applyPackageChanges_def checkDeploymentPackageUniqueness_def updateDeploymentPackageRows_def updateRows_def setPackage_def
  replacePackageParts_def appendPackage_def packageIn_def q_only_def q_first_def q_all_def q_count_def checkUniqueness_def
  TrimSpace_def trimBoth_def go_space_def

lemmas sample_rows_eval = samplePkgRow_def newPackageRow_def samplePackage_def sampleAppRow_def newApplicationRow_def
  sampleApplication_def sampleArtRow_def newArtifactRow_def sampleArtifact_def

definition namedPackage :: DeploymentPackage where
  "namedPackage = samplePackage\<lparr>dp_DisplayName := ''pkg''\<rparr>"

lemma namedPackage_valid: "DeploymentPackage_Validate namedPackage = None" "validateDeploymentProfiles namedPackage = Inr ()"
  "dp_Name namedPackage = ''pkg''" "dp_Version namedPackage = ''1''" "dp_IsDeployed namedPackage"
  by code_simp+

lemma sampleUpdatePackage:
  "\<exists>srv1. UpdateDeploymentPackage sampleEnv sampleCtx ''pkg'' ''1'' (Some namedPackage) samplePackageServer = (Inr (), srv1)"
  unfolding samplePackageServer_eq
  by (simp add: UpdateDeploymentPackage_def sampleProject namedPackage_valid sampleAuth)
    (simp add: package_update_eval transaction_eval monad_eval sample_eval namedPackage_def sample_rows_eval)

theorem deployed_package_keeps_its_parts_witness:
  "\<exists>srv1. UpdateDeploymentPackage sampleEnv sampleCtx ''pkg'' ''1'' (Some namedPackage) samplePackageServer = (Inr (), srv1) \<and>
     map rootOf (t_deployment_packages (sv_db srv1)) = map rootOf (t_deployment_packages (sv_db samplePackageServer)) \<and>
     partsOf (sv_db srv1) = partsOf (sv_db samplePackageServer)"
proof -
  obtain srv1 where u: "UpdateDeploymentPackage sampleEnv sampleCtx ''pkg'' ''1'' (Some namedPackage) samplePackageServer = (Inr (), srv1)"
    using sampleUpdatePackage by blast
  have k: "samplePkgRow \<in> set (t_deployment_packages (sv_db samplePackageServer))" "packageIn ''p1'' ''pkg'' ''1'' samplePkgRow"
    "kdb_IsDeployed samplePkgRow"
    by (simp_all add: samplePackageServer_eq packageIn_def samplePkgRow_def newPackageRow_def samplePackage_def)
  from deployed_package_keeps_its_parts [OF u sampleProject samplePackage_ok k namedPackage_valid(5)] u show ?thesis by blast
qed

section \<open>Creation\<close>

lemma tri_fact: "tri P x Q \<Longrightarrow> tri (\<lambda>d. P d \<and> A) x (\<lambda>v d. Q v d \<and> A)"
  by (auto simp: tri_def)

lemma findReferences_found:
  "tri (\<lambda>d. d = d0) (mapM (findReference p) refs) (\<lambda>ids d. d = d0 \<and>
     list_all2 (\<lambda>r i. \<exists>a \<in> set (t_applications d0). applicationIn p (ar_Name r) (ar_Version r) a \<and> adb_ID a = i) refs ids)"
proof (induction refs)
  case Nil
  then show ?case by (auto intro: tri_ret)
next
  case (Cons r refs)
  have one: "tri (\<lambda>d. d = d0) (findReference p r) (\<lambda>i d. d = d0 \<and>
      (\<exists>a \<in> set (t_applications d0). applicationIn p (ar_Name r) (ar_Version r) a \<and> adb_ID a = i))"
    unfolding findReference_def
    by (rule tri_bnd_found [where R = "\<lambda>a d. d = d0 \<and> a \<in> set (t_applications d0) \<and> applicationIn p (ar_Name r) (ar_Version r) a"])
      (auto intro!: tri_if tri_throw tri_ret dest: q_first_Inr)
  show ?case
    unfolding mapM.simps
    by (intro tri_bnd [OF one] tri_bnd [OF tri_fact [OF Cons.IH]] tri_ret) auto
qed

lemma map_updated: "(\<And>r. g (f r) = g r) \<Longrightarrow> map g (map (\<lambda>r. if P r then f r else r) rows) = map g rows"
  by simp

definition keyOf :: "DeploymentPackageDB \<Rightarrow> nat \<times> string \<times> string \<times> string" where
  "keyOf k = (kdb_ID k, packageKey k)"

lemma keyOf_frame [simp]:
  "keyOf (r\<lparr>kdb_UpdateTime := n\<rparr>) = keyOf r" "keyOf (r\<lparr>kdb_default_profile := i\<rparr>) = keyOf r"
  by (simp_all add: keyOf_def packageKey_def)

text \<open>What the creation of the other parts of a package keeps.\<close>

definition withLinks :: "db \<Rightarrow> nat \<Rightarrow> string \<times> string \<times> string \<Rightarrow> (nat \<times> nat) list \<Rightarrow> db \<Rightarrow> bool" where
  "withLinks d0 i key links d \<longleftrightarrow> t_applications d = t_applications d0 \<and> t_package_applications d = links \<and>
     (i, key) \<in> set (map keyOf (t_deployment_packages d))"

lemma withLinks_setDefault:
  assumes "withLinks d0 i key links d" and "updateDeploymentPackageRows P (\<lambda>k. k\<lparr>kdb_default_profile := j\<rparr>) n d = (Inr u, d')"
  shows "withLinks d0 i key links d'"
  using assms map_updated [of keyOf "\<lambda>k. k\<lparr>kdb_default_profile := j, kdb_UpdateTime := n\<rparr>"]
  by (auto simp: updateDeploymentPackageRows_def updateRows_def withLinks_def simp del: map_map set_map)

lemma createPackageParts_withLinks:
  "tri (withLinks d0 i key links) (bnd (createApplicationDependencies pkg created) (\<lambda>_.
     bnd (createApplicationNamespaces pkg created) (\<lambda>_.
     bnd (createNamespaces pkg created) (\<lambda>_.
     bnd (createDeploymentProfiles ps pkg created) (\<lambda>_.
     bnd (updateDefaultDeploymentProfile p n m v) (\<lambda>_.
     bnd (createExtensions pkg created) (\<lambda>_.
     createArtifactReferences p pkg created)))))))  (\<lambda>_. withLinks d0 i key links)"
proof -
  let ?I = "withLinks d0 i key links"
  have inject: "tri ?I (injectDeploymentProfile created profile) (\<lambda>_. ?I)" for profile
    unfolding injectDeploymentProfile_def
    by (intro tri_case_prod tri_if tri_throw tri_bnd_same [OF tri_checkDeploymentProfileUniqueness]
      tri_bnd [OF congruentProfiles_found] tri_bnd_saved [where R = "\<lambda>_. ?I"] tri_ret)
      (auto simp: createDeploymentProfileRow_def withLinks_def Let_def split: if_splits)
  have all: "tri ?I (injectAll pkg created j ps) (\<lambda>_. ?I)" for j ps
    by (induction ps arbitrary: j) (auto intro!: tri_ret tri_bnd_same [OF inject])
  have "tri ?I (createApplicationDependencies pkg created) (\<lambda>_. ?I)"
    unfolding createApplicationDependencies_def createDependency_def
    by (intro tri_bnd_same [OF tri_found] tri_forM tri_if tri_throw tri_case_option tri_done)
      (auto simp: createApplicationDependencyRow_def withLinks_def)
  moreover have "tri ?I (createApplicationNamespaces pkg created) (\<lambda>_. ?I)"
    unfolding createApplicationNamespaces_def createNamespaceOf_def
    by (intro tri_bnd_same [OF tri_found] tri_forM tri_if tri_throw tri_case_option tri_done)
      (auto simp: createApplicationNamespaceRow_def withLinks_def)
  moreover have "tri ?I (createNamespaces pkg created) (\<lambda>_. ?I)"
    unfolding createNamespaces_def createAdornments_def
    by (intro tri_bnd_same tri_forM tri_case_prod tri_done)
      (auto simp: createNamespaceRow_def createNamespaceAdornmentRow_def withLinks_def Let_def)
  moreover have "tri ?I (createDeploymentProfiles ps pkg created) (\<lambda>_. ?I)"
    unfolding createDeploymentProfiles_def
    by (intro tri_bnd_same [OF all] tri_case_option tri_ret tri_bnd_same [OF tri_done]) (auto intro: withLinks_setDefault)
  moreover have "tri ?I (updateDefaultDeploymentProfile p n m v) (\<lambda>_. ?I)"
    unfolding updateDefaultDeploymentProfile_def
    by (intro tri_if tri_bnd_found [where R = "\<lambda>_. ?I"] tri_throw tri_ret tri_bnd_same [OF tri_done]) (auto intro: withLinks_setDefault)
  moreover have "tri ?I (createExtensions pkg created) (\<lambda>_. ?I)"
    unfolding createExtensions_def
    by (intro tri_bnd_same tri_forM tri_done)
      (auto simp: createExtensionRow_def createEndpointRow_def withLinks_def Let_def split: if_splits)
  moreover have "tri ?I (createArtifactReferences p pkg created) (\<lambda>_. ?I)"
    unfolding createArtifactReferences_def
    by (intro tri_forM tri_bnd_found [where R = "\<lambda>_. ?I"] tri_if tri_throw tri_done)
      (auto simp: createArtifactReferenceRow_def withLinks_def)
  ultimately show ?thesis by (intro tri_bnd_same)
qed

definition resolves :: "db \<Rightarrow> string \<Rightarrow> ApplicationReference list \<Rightarrow> nat list \<Rightarrow> bool" where
  "resolves d p refs ids \<longleftrightarrow>
     list_all2 (\<lambda>r i. \<exists>a \<in> set (t_applications d). applicationIn p (ar_Name r) (ar_Version r) a \<and> adb_ID a = i) refs ids"

lemma createApplicationReferences_links:
  "tri (\<lambda>d. d = d0) (createApplicationReferences p pkg created)
     (\<lambda>_ d. \<exists>ids. resolves d0 p (dp_ApplicationReferences pkg) ids \<and> t_applications d = t_applications d0 \<and>
        t_package_applications d = addLinks (kdb_ID created) ids
          (List.filter (\<lambda>l. fst l \<noteq> kdb_ID created) (t_package_applications d0)) \<and>
        map keyOf (t_deployment_packages d) = map keyOf (t_deployment_packages d0))"
  unfolding createApplicationReferences_def
proof (intro tri_bnd [OF findReferences_found] tri_done)
  fix ids n d v d'
  assume "d = d0 \<and> list_all2 (\<lambda>r i. \<exists>a \<in> set (t_applications d0). applicationIn p (ar_Name r) (ar_Version r) a \<and> adb_ID a = i)
      (dp_ApplicationReferences pkg) ids" and "setPackageApplications (kdb_ID created) ids n d = (Inr v, d')"
  then show "\<exists>ids. resolves d0 p (dp_ApplicationReferences pkg) ids \<and> t_applications d' = t_applications d0 \<and>
        t_package_applications d' = addLinks (kdb_ID created) ids
          (List.filter (\<lambda>l. fst l \<noteq> kdb_ID created) (t_package_applications d0)) \<and>
        map keyOf (t_deployment_packages d') = map keyOf (t_deployment_packages d0)"
    using map_updated [of keyOf "\<lambda>k. k\<lparr>kdb_UpdateTime := n\<rparr>"]
    by (intro exI [of _ ids]) (auto simp: setPackageApplications_def resolves_def simp del: map_map split: if_splits)
qed

lemma fresh_links:
  assumes "db_ok d" and "(k, i) \<in> set (t_package_applications d)"
  shows "k < t_next d"
proof -
  have "\<exists>u. (k, u) \<in> packageOwners d" using assms unfolding db_ok_iff packages_ok_def links_ok_def by blast
  then obtain r where "r \<in> set (t_deployment_packages d)" "kdb_ID r = k" by (auto simp: packageOwners_def)
  with assms(1) show ?thesis by (auto simp: db_ok_iff packages_ok_def packageKeys_ok_def keyed_def)
qed

lemma filter_addLinks: "List.filter (\<lambda>l. fst l \<noteq> k) (addLinks k ids links) = List.filter (\<lambda>l. fst l \<noteq> k) links"
  unfolding addLinks_def by (induction ids arbitrary: links) auto

lemma resolved_links:
  assumes "db_ok d" and "resolves d p refs ids" and "\<And>i. (k, i) \<notin> set links"
  shows "(\<lambda>a. (adb_ProjectUUID a, adb_Name a, adb_Version a)) ` {a \<in> set (t_applications d). (k, adb_ID a) \<in> set (addLinks k ids links)} =
     (\<lambda>r. (p, ar_Name r, ar_Version r)) ` set refs"
proof -
  have inj: "inj_on adb_ID (set (t_applications d))"
    using assms(1) by (auto simp: db_ok_iff keys_ok_def intro!: inj_onI dest: keyed_ident_inj)
  have found: "\<exists>a \<in> set (t_applications d). applicationIn p (ar_Name r) (ar_Version r) a \<and> adb_ID a \<in> set ids" if "r \<in> set refs" for r
    using that assms(2) unfolding resolves_def list_all2_conv_all_nth in_set_conv_nth by metis
  have source: "\<exists>r \<in> set refs. applicationIn p (ar_Name r) (ar_Version r) a" if "a \<in> set (t_applications d)" "adb_ID a \<in> set ids" for a
  proof -
    from that(2) obtain j where j: "j < length ids" "ids ! j = adb_ID a" by (auto simp: in_set_conv_nth)
    with assms(2) obtain b where b: "b \<in> set (t_applications d)" "applicationIn p (ar_Name (refs ! j)) (ar_Version (refs ! j)) b"
      "adb_ID b = adb_ID a" "refs ! j \<in> set refs" by (fastforce simp: resolves_def list_all2_conv_all_nth)
    with inj that(1) have "b = a" by (auto dest: inj_onD)
    with b show ?thesis by blast
  qed
  have link: "(k, adb_ID a) \<in> set (addLinks k ids links) \<longleftrightarrow> adb_ID a \<in> set ids" for a
    using assms(3) by (auto simp: set_addLinks)
  show ?thesis
    unfolding link
  proof (intro equalityI subsetI)
    fix x assume "x \<in> (\<lambda>a. (adb_ProjectUUID a, adb_Name a, adb_Version a)) ` {a \<in> set (t_applications d). adb_ID a \<in> set ids}"
    then obtain a where "a \<in> set (t_applications d)" "adb_ID a \<in> set ids" "x = (adb_ProjectUUID a, adb_Name a, adb_Version a)" by blast
    with source show "x \<in> (\<lambda>r. (p, ar_Name r, ar_Version r)) ` set refs" by (fastforce simp: applicationIn_def)
  next
    fix x assume "x \<in> (\<lambda>r. (p, ar_Name r, ar_Version r)) ` set refs"
    then obtain r where "r \<in> set refs" "x = (p, ar_Name r, ar_Version r)" by blast
    with found [of r] show "x \<in> (\<lambda>a. (adb_ProjectUUID a, adb_Name a, adb_Version a)) `
        {a \<in> set (t_applications d). adb_ID a \<in> set ids}" by (fastforce simp: applicationIn_def)
  qed
qed

lemma tri_each: "(\<And>d0. P d0 \<Longrightarrow> tri (\<lambda>d. d = d0) x Q) \<Longrightarrow> tri P x Q"
  by (simp add: tri_def)

definition linked :: "db \<Rightarrow> string \<Rightarrow> DeploymentPackage \<Rightarrow> db \<Rightarrow> bool" where
  "linked d0 p pkg d \<longleftrightarrow>
     (\<exists>ids. resolves d0 p (dp_ApplicationReferences pkg) ids \<and>
        withLinks d0 (t_next d0) (p, dp_Name pkg, dp_Version pkg) (addLinks (t_next d0) ids (t_package_applications d0)) d)"

lemma createDeploymentPackage_links:
  assumes "db_ok d0"
  shows "tri (\<lambda>d. d = d0) (createDeploymentPackage p pkg) (\<lambda>created. linked d0 p pkg)"
proof -
  let ?key = "(p, dp_Name pkg, dp_Version pkg)"
  define saved where "saved c d \<longleftrightarrow> kdb_ID c = t_next d0 \<and> withLinks d0 (t_next d0) ?key (t_package_applications d0) d"
    for c :: DeploymentPackageDB and d
  have old: "List.filter (\<lambda>l. fst l \<noteq> t_next d0) (t_package_applications d0) = t_package_applications d0"
    using fresh_links [OF assms] by (fastforce simp: filter_id_conv)
  have parts: "tri (saved c) (createPackageParts p pkg c) (\<lambda>_. linked d0 p pkg)" for c
  proof (rule tri_each)
    fix d1 assume d1: "saved c d1"
    have refs: "tri (\<lambda>d. d = d1) (createApplicationReferences p pkg c) (\<lambda>_ d. linked d0 p pkg d)"
      by (rule tri_weaken [OF createApplicationReferences_links])
        (use d1 old in \<open>auto simp: saved_def withLinks_def linked_def resolves_def simp del: set_map\<close>)
    have "tri (linked d0 p pkg) (bnd (createApplicationDependencies pkg c) (\<lambda>_.
       bnd (createApplicationNamespaces pkg c) (\<lambda>_. bnd (createNamespaces pkg c) (\<lambda>_.
       bnd (createDeploymentProfiles (dp_Profiles pkg) pkg c) (\<lambda>_.
       bnd (updateDefaultDeploymentProfile p (dp_DefaultProfileName pkg) (dp_Name pkg) (dp_Version pkg)) (\<lambda>_.
       bnd (createExtensions pkg c) (\<lambda>_. createArtifactReferences p pkg c)))))))  (\<lambda>_. linked d0 p pkg)"
    proof (rule tri_each)
      fix d assume "linked d0 p pkg d"
      then obtain ids where ids: "resolves d0 p (dp_ApplicationReferences pkg) ids"
        "withLinks d0 (t_next d0) ?key (addLinks (t_next d0) ids (t_package_applications d0)) d"
        by (auto simp: linked_def)
      then show "tri (\<lambda>d'. d' = d) (bnd (createApplicationDependencies pkg c) (\<lambda>_.
       bnd (createApplicationNamespaces pkg c) (\<lambda>_. bnd (createNamespaces pkg c) (\<lambda>_.
       bnd (createDeploymentProfiles (dp_Profiles pkg) pkg c) (\<lambda>_.
       bnd (updateDefaultDeploymentProfile p (dp_DefaultProfileName pkg) (dp_Name pkg) (dp_Version pkg)) (\<lambda>_.
       bnd (createExtensions pkg c) (\<lambda>_. createArtifactReferences p pkg c)))))))  (\<lambda>_. linked d0 p pkg)"
        by (intro tri_weaken [OF createPackageParts_withLinks [of d0 "t_next d0" ?key "addLinks (t_next d0) ids (t_package_applications d0)"]])
          (auto simp: linked_def)
    qed
    then show "tri (\<lambda>d. d = d1) (createPackageParts p pkg c) (\<lambda>_. linked d0 p pkg)"
      unfolding createPackageParts_def by (rule tri_bnd [OF refs])
  qed
  show ?thesis
    unfolding createDeploymentPackage_def
    by (intro tri_if tri_throw tri_case_prod tri_bnd_same [OF tri_checkDeploymentPackageUniqueness] tri_bnd_saved [where R = saved]
        tri_bnd [OF parts] tri_bnd_same [OF tri_appendPackage] tri_ret)
      (auto simp: createDeploymentPackageRow_def newPackageRow_def saved_def withLinks_def keyOf_def packageKey_def Let_def
        split: if_splits)
qed

text \<open>
  C5. A creation that succeeds stores a package under a new key, with the name and version of the request in the active
  project, whose applications are exactly those the request refers to, all of that project, and leaves the
  references of all other packages and all applications as they were.
\<close>

theorem created_package_refers_to_its_applications:
  assumes "CreateDeploymentPackage env ctx (Some pkg) srv = (Inr w, srv1)" and "GetActiveProjectID ctx = Inr p"
    and "db_ok (sv_db srv)"
  shows "\<exists>k \<in> set (t_deployment_packages (sv_db srv1)). packageIn p (dp_Name pkg) (dp_Version pkg) k \<and>
    kdb_ID k \<notin> kdb_ID ` set (t_deployment_packages (sv_db srv)) \<and>
    (\<lambda>a. (adb_ProjectUUID a, adb_Name a, adb_Version a)) ` set (applicationsIn (kdb_ID k) (sv_db srv1)) =
      (\<lambda>r. (p, ar_Name r, ar_Version r)) ` set (dp_ApplicationReferences pkg) \<and>
    List.filter (\<lambda>l. fst l \<noteq> kdb_ID k) (t_package_applications (sv_db srv1)) = t_package_applications (sv_db srv) \<and>
    t_applications (sv_db srv1) = t_applications (sv_db srv)"
proof -
  let ?d = "sv_db srv"
  obtain x t0 v t where run: "admitsCreatePackage env ctx (Some pkg) x" "tx_db t0 = ?d"
    "createDeploymentPackage (fst x) (snd x) t0 = (Inr v, t)"
    "srv1 = sendDeploymentPackage t (srv\<lparr>sv_db := tx_db t, sv_vault := tx_vault t\<rparr>)"
    by (rule create_package.success [OF assms(1)]) (rule that)
  then have "fst x = p" "snd x = pkg" using assms(2) by (auto simp: admitsCreatePackage_def)
  with run have "linked ?d p pkg (sv_db srv1)"
    using triD [OF createDeploymentPackage_links [OF assms(3), of p pkg], of t0 v t] by simp
  then obtain ids k where k: "resolves ?d p (dp_ApplicationReferences pkg) ids" "t_applications (sv_db srv1) = t_applications ?d"
    "t_package_applications (sv_db srv1) = addLinks (t_next ?d) ids (t_package_applications ?d)"
    "k \<in> set (t_deployment_packages (sv_db srv1))" "kdb_ID k = t_next ?d" "packageIn p (dp_Name pkg) (dp_Version pkg) k"
    by (auto simp: linked_def withLinks_def keyOf_def packageKey_def packageIn_def)
  have fresh: "(t_next ?d, i) \<notin> set (t_package_applications ?d)" for i using fresh_links [OF assms(3)] by blast
  have "kdb_ID k \<notin> kdb_ID ` set (t_deployment_packages ?d)"
    using assms(3) k(5) by (auto simp: db_ok_iff packages_ok_def packageKeys_ok_def keyed_def)
  moreover have "List.filter (\<lambda>l. fst l \<noteq> kdb_ID k) (t_package_applications (sv_db srv1)) = t_package_applications ?d"
    using fresh by (auto simp: k(3,5) filter_addLinks filter_id_conv)
  ultimately show ?thesis
    using k(4,6) k(2) resolved_links [OF assms(3) k(1) fresh]
    by (intro bexI [of _ k]) (simp_all add: applicationsIn_def k(2,3,5))
qed

theorem created_package_refers_to_its_applications_witness:
  "\<exists>k \<in> set (t_deployment_packages (sv_db samplePackageServer)).
     (\<lambda>a. (adb_ProjectUUID a, adb_Name a, adb_Version a)) ` set (applicationsIn (kdb_ID k) (sv_db samplePackageServer)) =
     {(''p1'', ''app'', ''v1'')}"
  using created_package_refers_to_its_applications [OF sampleCreatePackage sampleProject sampleArt_ok]
  by (auto simp: samplePackage_def)

section \<open>Display names\<close>

text \<open>A second package, not deployed, and the request to give it the display name of the first.\<close>

definition secondPackage :: DeploymentPackage where
  "secondPackage = samplePackage\<lparr>dp_Name := ''two'', dp_IsDeployed := False, dp_Artifacts := []\<rparr>"

definition takingPackage :: DeploymentPackage where
  "takingPackage = secondPackage\<lparr>dp_DisplayName := ''pkg''\<rparr>"

definition twoPackages :: server where
  "twoPackages = snd (CreateDeploymentPackage sampleEnv sampleCtx (Some secondPackage) samplePackageServer)"

lemma secondPackage_valid: "DeploymentPackage_Validate secondPackage = None" "validateDeploymentProfiles secondPackage = Inr ()"
  by code_simp+

lemma takingPackage_valid: "DeploymentPackage_Validate takingPackage = None" "validateDeploymentProfiles takingPackage = Inr ()"
  "dp_Name takingPackage = ''two''" "dp_Version takingPackage = ''1''"
  by code_simp+

definition secondRow :: DeploymentPackageDB where
  "secondRow = (newPackageRow ''p1'' ''two'' secondPackage)
     \<lparr>kdb_ID := Suc (Suc (Suc (Suc (t_next empty_db)))), kdb_CreateTime := 7, kdb_UpdateTime := 7\<rparr>"

lemma twoPackages_eq: "twoPackages = samplePackageServer\<lparr>sv_db := (sv_db samplePackageServer)\<lparr>
   t_deployment_packages := [samplePkgRow, secondRow],
   t_package_applications := [(kdb_ID samplePkgRow, adb_ID sampleAppRow), (kdb_ID secondRow, adb_ID sampleAppRow)],
   t_next := Suc (Suc (Suc (Suc (Suc (t_next empty_db)))))\<rparr>\<rparr>"
  unfolding twoPackages_def samplePackageServer_eq secondRow_def
  by (simp add: CreateDeploymentPackage_def sampleProject secondPackage_valid sampleAuth)
    (simp add: package_eval transaction_eval monad_eval sample_eval secondPackage_def sample_rows_eval sendDeploymentPackage_def
      sendToAllDeploymentPackageEvents_def sendDeploymentPackageEvents_def NewEventListeners_def
      appendDeploymentPackageEvent_def addLinks_def)

text \<open>
  The uniqueness of display names is enforced by creations only: on a server with two packages of one project, an
  update gives the second the display name of the first and succeeds, while a creation with that name is refused.
  The update looks for duplicates in the project with the empty name.
\<close>

theorem package_display_name_can_be_taken:
  "(\<exists>srv1. UpdateDeploymentPackage sampleEnv sampleCtx ''two'' ''1'' (Some takingPackage) twoPackages = (Inr (), srv1) \<and>
      map (\<lambda>k. (kdb_ProjectUUID k, kdb_DisplayName k)) (t_deployment_packages (sv_db srv1)) =
        [(''p1'', ''pkg''), (''p1'', ''pkg'')]) \<and>
   (\<exists>e. CreateDeploymentPackage sampleEnv sampleCtx (Some takingPackage) samplePackageServer = (Inl e, samplePackageServer) \<and>
      st_code e = AlreadyExists)"
proof
  show "\<exists>srv1. UpdateDeploymentPackage sampleEnv sampleCtx ''two'' ''1'' (Some takingPackage) twoPackages = (Inr (), srv1) \<and>
      map (\<lambda>k. (kdb_ProjectUUID k, kdb_DisplayName k)) (t_deployment_packages (sv_db srv1)) =
        [(''p1'', ''pkg''), (''p1'', ''pkg'')]"
    unfolding twoPackages_eq samplePackageServer_eq
    by (simp add: UpdateDeploymentPackage_def sampleProject takingPackage_valid sampleAuth)
      (simp add: package_update_eval transaction_eval monad_eval sample_eval takingPackage_def secondPackage_def secondRow_def
        sample_rows_eval sendDeploymentPackage_def)
  show "\<exists>e. CreateDeploymentPackage sampleEnv sampleCtx (Some takingPackage) samplePackageServer = (Inl e, samplePackageServer) \<and>
      st_code e = AlreadyExists"
    unfolding samplePackageServer_eq
    by (simp add: CreateDeploymentPackage_def sampleProject takingPackage_valid sampleAuth)
      (simp add: package_eval transaction_eval monad_eval sample_eval takingPackage_def secondPackage_def sample_rows_eval
        q_count_def checkUniqueness_def ToLower_def lowerChar_def TrimSpace_def trimBoth_def go_space_def)
qed

section \<open>Deployment profiles\<close>

text \<open>
  An update of a deployment profile adds the application profiles of the request to those it had and removes
  none, for this and for every other deployment profile.
\<close>

lemma updated_profile_keeps_its_links:
  assumes "updateDeploymentProfile profile profileDB pkgDB t = (Inr u, t1)"
  shows "set (t_deployment_profile_profiles (tx_db t)) \<subseteq> set (t_deployment_profile_profiles (tx_db t1)) \<and>
    (\<forall>l \<in> set (t_deployment_profile_profiles (tx_db t1)) - set (t_deployment_profile_profiles (tx_db t)). fst l = dpdb_ID profileDB)"
proof -
  let ?L = "t_deployment_profile_profiles"
  have "tri (\<lambda>d. d = tx_db t) (updateDeploymentProfile profile profileDB pkgDB)
      (\<lambda>_ d. set (?L (tx_db t)) \<subseteq> set (?L d) \<and> (\<forall>l \<in> set (?L d) - set (?L (tx_db t)). fst l = dpdb_ID profileDB))"
    unfolding updateDeploymentProfile_def
    by (intro tri_case_prod tri_if tri_throw tri_bnd [OF congruentProfiles_found] tri_bnd [OF tri_done [where Q = "\<lambda>_ d.
        set (?L (tx_db t)) \<subseteq> set (?L d) \<and> (\<forall>l \<in> set (?L d) - set (?L (tx_db t)). fst l = dpdb_ID profileDB)"]] tri_ret)
      (auto simp: updateDeploymentProfileRow_def updateRows_def set_addLinks split: if_splits)
  from triD [OF this refl assms] show ?thesis .
qed

end
