(* ===== verification/Upload_Properties.thy ===== *)
theory Upload_Properties
  imports Sample_Environment
begin

text \<open>
  What an upload does: the properties of \<^verbatim>\<open>internal/northbound/upload.go\<close> and of the order of documents in
  \<^verbatim>\<open>pkg/schema/upload/schema.go\<close>.
\<close>

section \<open>The order of documents\<close>

definition blankSpec :: "string \<Rightarrow> string \<Rightarrow> YamlSpec" where
  "blankSpec sch name = \<lparr>y_FileName = [], y_SpecSchema = sch, y_SchemaVersion = [], y_Name = name, y_DisplayName = [],
     y_Version = ''1'', y_Kind = [], y_Description = [], y_HelmRegistry = [], y_Type = ''HELM'', y_ChartName = [], y_ChartVersion = [],
     y_ImageRegistry = [], y_MimeType = [], y_Artifact = [], y_RootURL = ''oci://a.b'', y_InventoryURL = [], y_APIType = [],
     y_UserName = [], y_AuthToken = [], y_CACerts = [], y_Profiles = [], y_DeploymentProfiles = [], y_DefaultProfile = [],
     y_Applications = [], y_ApplicationDependencies = [], y_Extensions = [], y_Artifacts = [], y_DefaultNamespaces = [],
     y_Namespaces = [], y_IgnoredResources = [], y_IsVisible = False, y_IsDeployed = False,
     y_ForbidsMultipleDeployments = False, y_Registry = [], y_ArtifactReferences = [], y_RegistryType = []\<rparr>"

lemma blankSpec_simps [simp]:
  "y_SpecSchema (blankSpec sch name) = sch" "y_Name (blankSpec sch name) = name"
  by (simp_all add: blankSpec_def)

text \<open>
  C7. Loading keeps every document of the set of files, as often as the files have it. When each has one of the four
  schemas, and there are at most twelve, or applications and artifacts do not occur together, they are loaded in the order
  registries, applications and artifacts, packages. Longer mixed collections are not covered: \<^verbatim>\<open>Less\<close> is no
  ordering on them, and \<^verbatim>\<open>sort.Sort\<close> promises nothing then.
\<close>

theorem documents_load_in_order:
  assumes "sorts (e_sort env)" and "loadYamlSpecs env files = Inr specs"
  shows "(\<exists>docs. loadSpecs env (e_rangeFiles env files) = Inr docs \<and> mset specs = mset docs) \<and>
    ((\<forall>d \<in> set specs. knownSchema d) \<and> (length specs \<le> 12 \<or> unmixed (set specs)) \<longrightarrow> sorted (map rank specs))"
proof -
  from assms(2) obtain docs where docs: "loadSpecs env (e_rangeFiles env files) = Inr docs" "specs = sortSpecs (e_sort env) docs"
    by (cases "loadSpecs env (e_rangeFiles env files)") (auto simp: loadYamlSpecs_def)
  have same: "mset specs = mset docs" using set_sortSpecs [of "e_sort env"] assms(1) docs(2) by (simp add: sorts_def)
  then have "set specs = set docs" and "length specs = length docs" by (metis mset_eq_setD, metis mset_eq_length)
  with sortSpecs_rank [OF assms(1), of docs] docs same show ?thesis by auto
qed

definition uploadEnv :: "YamlSpec list \<Rightarrow> env" where
  "uploadEnv docs = sampleEnv\<lparr>e_yamlDocs := (\<lambda>_. (docs, None))\<rparr>"

text \<open>Three documents, an artifact and an application among them, and thirteen applications.\<close>

theorem documents_load_in_order_witness:
  "(\<exists>specs. loadYamlSpecs (uploadEnv [blankSpec ''Artifact'' ''b'', blankSpec ''Application'' ''a'', blankSpec ''Registry'' ''r''])
      [(''f'', [])] = Inr specs \<and> length specs = 3 \<and> sorted (map rank specs)) \<and>
   (\<exists>specs. loadYamlSpecs (uploadEnv (blankSpec ''Registry'' ''r'' # replicate 12 (blankSpec ''Application'' ''a'')))
      [(''f'', [])] = Inr specs \<and> length specs = 13 \<and> sorted (map rank specs))"
proof -
  let ?a = "blankSpec ''Application'' ''a''" and ?b = "blankSpec ''Artifact'' ''b''" and ?r = "blankSpec ''Registry'' ''r''"
  let ?env = "uploadEnv [?b, ?a, ?r]" and ?env' = "uploadEnv (?r # replicate 12 ?a)"
  have s: "sorts (e_sort ?env)" "sorts (e_sort ?env')" by (simp_all add: uploadEnv_def sampleEnv_def sorts_insertionSort)
  have l: "loadYamlSpecs ?env [(''f'', [])] = Inr [?r\<lparr>y_FileName := ''f''\<rparr>, ?b\<lparr>y_FileName := ''f''\<rparr>, ?a\<lparr>y_FileName := ''f''\<rparr>]"
    by (simp add: loadYamlSpecs_def uploadEnv_def sampleEnv_def shouldValidateYAMLSchema_def sortSpecs_def insertionSort_def
        Less_def)
  have l': "loadYamlSpecs ?env' [(''f'', [])] = Inr (?r\<lparr>y_FileName := ''f''\<rparr> # replicate 12 (?a\<lparr>y_FileName := ''f''\<rparr>))"
    by (simp add: loadYamlSpecs_def uploadEnv_def sampleEnv_def shouldValidateYAMLSchema_def sortSpecs_def insertionSort_def
        Less_def numeral_eq_Suc)
  from documents_load_in_order [OF s(1) l] documents_load_in_order [OF s(2) l'] l l' show ?thesis
    by (simp add: knownSchema_def unmixed_def)
qed

text \<open>
  The legacy schema of packages is not part of that order: two documents, one a package of the legacy schema and
  one an application, stay in the order in which the files were visited, so the package can be loaded before
  the application it refers to.
\<close>

theorem legacy_package_is_not_ordered:
  assumes "y_SpecSchema a = ''Deployment-Package''" and "y_SpecSchema b = ''Application''"
  shows "sortSpecs large [a, b] = [a, b] \<and> sortSpecs large [b, a] = [b, a]"
  using assms by (simp add: sortSpecs_def insertionSort_def Less_def Let_def)

theorem legacy_package_is_not_ordered_witness:
  "sortSpecs insertionSort [blankSpec ''Deployment-Package'' ''p'', blankSpec ''Application'' ''a''] =
     [blankSpec ''Deployment-Package'' ''p'', blankSpec ''Application'' ''a'']"
  using legacy_package_is_not_ordered [of "blankSpec ''Deployment-Package'' ''p''" "blankSpec ''Application'' ''a''" insertionSort]
  by simp

section \<open>Archives\<close>

lemma extractEntries_bounded:
  assumes "extractEntries contents entries err = Inr files" and "\<forall>f \<in> set contents. length (snd f) \<le> MaxExtractedFileSize"
  shows "\<forall>f \<in> set files. length (snd f) \<le> MaxExtractedFileSize"
  using assms
proof (induction contents entries err rule: extractEntries.induct)
  case (3 contents e es err)
  have "set (AList.update k v xs) \<subseteq> insert (k, v) (set xs)" for k :: string and v :: string and xs
    by (induction xs) auto
  with 3 show ?case by (force split: if_splits option.splits)
qed auto

text \<open>
  C40. No file extracted from an archive is larger than ten megabytes, and nothing is said to the client about a
  file that was cut: the extraction of an archive whose entries can all be read succeeds.
\<close>

theorem extracted_files_are_bounded:
  "(\<forall>files. extractTarball env archive = Inr files \<longrightarrow> (\<forall>f \<in> set files. length (snd f) \<le> 10 * 1024 * 1024)) \<and>
   (\<forall>entries. e_untar env archive = Inr (entries, None) \<and> (\<forall>e \<in> set entries. te_error e = None) \<longrightarrow>
      (\<exists>files. extractTarball env archive = Inr files))"
proof (intro conjI allI impI)
  fix files assume "extractTarball env archive = Inr files"
  then obtain entries err where "extractEntries [] entries err = Inr files"
    by (auto simp: extractTarball_def split: sum.splits prod.splits)
  then show "\<forall>f \<in> set files. length (snd f) \<le> 10 * 1024 * 1024"
    using extractEntries_bounded [of "[]" entries err files] by (simp add: MaxExtractedFileSize_def)
next
  fix entries assume a: "e_untar env archive = Inr (entries, None) \<and> (\<forall>e \<in> set entries. te_error e = None)"
  have "\<exists>files. extractEntries contents entries None = Inr files" if "\<forall>e \<in> set entries. te_error e = None" for contents
    using that by (induction entries arbitrary: contents) auto
  with a show "\<exists>files. extractTarball env archive = Inr files" by (simp add: extractTarball_def)
qed

definition archiveEnv :: env where
  "archiveEnv = sampleEnv\<lparr>e_untar := (\<lambda>_. Inr ([\<lparr>te_regular = True, te_Name = ''f'', te_contents = ''x'', te_error = None\<rparr>], None))\<rparr>"

theorem extracted_files_are_bounded_witness: "\<exists>files. extractTarball archiveEnv [] = Inr files"
  using extracted_files_are_bounded [of archiveEnv "[]"] by (simp add: archiveEnv_def)

section \<open>Sessions\<close>

text \<open>
  A session belongs to the project that opened it: an upload that names the session of another project is refused and
  changes nothing.
\<close>

lemma session_of_another_project_refused:
  assumes "GetActiveProjectID ctx = Inr p" and "ue_SessionId req \<noteq> []"
    and "map_of (sv_sessions srv) (ue_SessionId req) = Some session" and "us_projectUUID session \<noteq> p"
  shows "\<exists>e. UploadCatalogEntities env ctx (Some req) srv = (Inl e, srv)"
  using assms by (auto simp: UploadCatalogEntities_def getSession_def split: option.splits sum.splits)

text \<open>
  A registry document, the last upload that brings it, a watcher of all registries, and two attempts: the first fails
  because the database refuses the commit, the second goes to the same session.
\<close>

definition registryDoc :: YamlSpec where
  "registryDoc = blankSpec ''Registry'' ''r1''"

definition lastUpload :: "string \<Rightarrow> UploadCatalogEntitiesRequest" where
  "lastUpload session = \<lparr>ue_SessionId = session, ue_UploadNumber = 1, ue_LastUpload = True,
     ue_Upload = Some \<lparr>up_FileName = ''f.yaml'', up_Artifact = []\<rparr>\<rparr>"

definition watchedServer :: server where
  "watchedServer = Register\<lparr>sv_listeners := addRegistryListener 5 \<lparr>wr_ProjectId = [], wr_NoReplay = True, wr_ShowSensitiveInfo = False\<rparr>
     NewEventListeners\<rparr>"

definition firstAttempt :: "string result \<times> server" where
  "firstAttempt = UploadCatalogEntities ((uploadEnv [registryDoc])\<lparr>e_fault := (\<lambda>n. n = 4)\<rparr>) sampleCtx (Some (lastUpload [])) watchedServer"

definition secondAttempt :: "string result \<times> server" where
  "secondAttempt = UploadCatalogEntities (uploadEnv [registryDoc]) sampleCtx (Some (lastUpload ''s1'')) (snd firstAttempt)"

definition uploadedRegistry :: Registry where
  "uploadedRegistry = (registryOfSpec registryDoc)\<lparr>r_DisplayName := ''r1''\<rparr>"

lemmas upload_eval = UploadCatalogEntities_def lastUpload_def authCheckAllowed_def uploadEnv_def
  newSession_def getSession_def uploadTo_def scanUpload_def processLast_def withQueues_def Let_def
  monad_eval transaction_eval processUploadSession_def loadFileSets_def HasSuffix_def loadYamlSpecs_def
  shouldValidateYAMLSchema_def sortSpecs_def insertionSort_def Less_def loadSpec_def inFile_def loadRegistry_def
  registryOfSpec_def registryDoc_def blankSpec_def valueOrDefault_def GetRegistryType_def registry_eval sample_eval q_first_def
  appendRegistryEvent_def keepQueues_def putSession_def goPanic_def addRegistryListener_def NewEventListeners_def
  sendSession_def sendRegistry_def sendArtifact_def sendApplication_def sendDeploymentPackage_def
  sendToAllRegistryEvents_def sendRegistryEvents_def sendToAllArtifactEvents_def sendToAllApplicationEvents_def
  sendToAllDeploymentPackageEvents_def

lemma firstAttempt_eq:
  "\<exists>e. firstAttempt = (Inl e, watchedServer\<lparr>sv_sessions := [(''s1'', \<lparr>us_sessionID = ''s1'', us_projectUUID = ''p1'',
     us_uploads = [\<lparr>up_FileName = ''f.yaml'', up_Artifact = []\<rparr>], us_registryEvents = [(event CreatedEvent ''p1'', uploadedRegistry)],
     us_artifactEvents = [], us_applicationEvents = [], us_deploymentPackageEvents = []\<rparr>)]\<rparr>)"
  unfolding firstAttempt_def watchedServer_def uploadedRegistry_def by (simp add: sampleProject upload_eval)

text \<open>
  The queue of a session survives a failed attempt: the first attempt creates no registry, the second creates one, and
  the watcher is told twice that it was created.
\<close>

theorem retried_upload_repeats_its_events:
  "t_registries (sv_db (snd firstAttempt)) = [] \<and> length (t_registries (sv_db (snd secondAttempt))) = 1 \<and>
   sv_regOut (snd secondAttempt) =
     [(5, event CreatedEvent ''p1'', uploadedRegistry), (5, event CreatedEvent ''p1'', uploadedRegistry)]"
proof -
  obtain e where first: "firstAttempt = (Inl e, watchedServer\<lparr>sv_sessions := [(''s1'', \<lparr>us_sessionID = ''s1'', us_projectUUID = ''p1'',
     us_uploads = [\<lparr>up_FileName = ''f.yaml'', up_Artifact = []\<rparr>], us_registryEvents = [(event CreatedEvent ''p1'', uploadedRegistry)],
     us_artifactEvents = [], us_applicationEvents = [], us_deploymentPackageEvents = []\<rparr>)]\<rparr>)"
    using firstAttempt_eq by blast
  show ?thesis
    unfolding secondAttempt_def first
    by (simp add: sampleProject upload_eval watchedServer_def uploadedRegistry_def)
qed

end
