(* ===== verification/Server_Properties.thy ===== *)
theory Server_Properties
  imports Sample_Package
begin

text \<open>
  What holds of the server as a whole beside the invariant of its tables: the listener tables, the events of a
  creation, the replay of a watch and the calls that only read.
\<close>

section \<open>Listener tables\<close>

definition distinctTables :: "EventListeners \<Rightarrow> bool" where
  "distinctTables el \<longleftrightarrow> distinct (map fst (registryListeners el)) \<and> distinct (map fst (artifactListeners el)) \<and>
     distinct (map fst (applicationListeners el)) \<and> distinct (map fst (deploymentPackageListeners el))"

lemmas listener_defs = addRegistryListener_def addArtifactListener_def addApplicationListener_def
  addDeploymentPackageListener_def deleteRegistryListener_def deleteArtifactListener_def deleteApplicationListener_def
  deleteDeploymentPackageListener_def closeRegistryWatch_def closeArtifactWatch_def closeApplicationWatch_def
  closePackageWatch_def

lemma distinctTables_add [simp]:
  "distinctTables el \<Longrightarrow> distinctTables (addRegistryListener ch r el)"
  "distinctTables el \<Longrightarrow> distinctTables (addArtifactListener ch a el)"
  "distinctTables el \<Longrightarrow> distinctTables (addApplicationListener ch b el)"
  "distinctTables el \<Longrightarrow> distinctTables (addDeploymentPackageListener ch c el)"
  by (simp_all add: distinctTables_def listener_defs distinct_update)

lemma distinctTables_close [simp]:
  "distinctTables (sv_listeners srv) \<Longrightarrow> distinctTables (sv_listeners (closeRegistryWatch ch srv))"
  "distinctTables (sv_listeners srv) \<Longrightarrow> distinctTables (sv_listeners (closeArtifactWatch ch srv))"
  "distinctTables (sv_listeners srv) \<Longrightarrow> distinctTables (sv_listeners (closeApplicationWatch ch srv))"
  "distinctTables (sv_listeners srv) \<Longrightarrow> distinctTables (sv_listeners (closePackageWatch ch srv))"
  by (simp_all add: distinctTables_def listener_defs distinct_delete)

lemma upload_listeners:
  assumes "UploadCatalogEntities env ctx request srv = (r, srv')"
  shows "sv_listeners srv' = sv_listeners srv"
proof (cases r)
  case (Inl e)
  with assms upload_error [of env ctx request srv e srv'] show ?thesis by (simp add: public_def)
next
  case (Inr w)
  with assms have "UploadCatalogEntities env ctx request srv = (Inr w, srv')" by simp
  then show ?thesis
  proof (cases rule: UploadCatalogEntities_cases)
    case (admitted p req u session srv1)
    then show ?thesis
      by (auto simp: uploadTo_def putSession_def keepQueues_def Let_def split: sum.splits if_splits elim!: processLast_success)
  qed simp
qed

lemmas handlers_listeners =
  create_registry.listeners_unchanged list_registries.listeners_unchanged
  get_registry.listeners_unchanged [of _ _ "(n, b)" for n b, simplified]
  update_registry.listeners_unchanged [of _ _ "(n, r)" for n r, simplified] delete_registry.listeners_unchanged
  create_artifact.listeners_unchanged list_artifacts.listeners_unchanged get_artifact.listeners_unchanged
  update_artifact.listeners_unchanged [of _ _ "(n, r)" for n r, simplified] delete_artifact.listeners_unchanged
  create_application.listeners_unchanged list_applications.listeners_unchanged
  get_application.listeners_unchanged [of _ _ "(n, v)" for n v, simplified] application_versions.listeners_unchanged
  application_reference_count.listeners_unchanged [of _ _ "(n, v)" for n v, simplified]
  update_application.listeners_unchanged [of _ _ "(n, v, a)" for n v a, simplified]
  delete_application.listeners_unchanged [of _ _ "(n, v)" for n v, simplified]
  create_package.listeners_unchanged list_packages.listeners_unchanged
  get_package.listeners_unchanged [of _ _ "(n, v)" for n v, simplified] package_versions.listeners_unchanged
  update_package.listeners_unchanged [of _ _ "(n, v, a)" for n v a, simplified]
  delete_package.listeners_unchanged [of _ _ "(n, v)" for n v, simplified] upload_listeners

lemmas watches_listeners = watch_registries.watch_listeners watch_artifacts.watch_listeners
  watch_applications.watch_listeners watch_packages.watch_listeners

lemma serve_distinctTables:
  assumes "serve c srv = (r, srv')" and "distinctTables (sv_listeners srv)"
  shows "distinctTables (sv_listeners srv')"
proof -
  have keep: "sv_listeners srv' = sv_listeners srv \<Longrightarrow> ?thesis" using assms(2) by simp
  show ?thesis
    using assms(1)
    by (cases c) (auto dest!: reply_server replyWatch_server intro: keep assms(2) distinctTables_close
        dest: handlers_listeners watches_listeners simp: assms(2))
qed

lemma reachable_distinctTables: "reachable srv \<Longrightarrow> distinctTables (sv_listeners srv)"
proof (induction rule: reachable.induct)
  case initial
  then show ?case by (simp add: Register_def NewEventListeners_def distinctTables_def)
next
  case (next_call srv srv')
  then show ?case by (auto elim!: step.cases intro: serve_distinctTables)
qed

lemma reachable_ok: "reachable srv \<Longrightarrow> db_ok (sv_db srv)"
proof (induction rule: reachable.induct)
  case initial
  then show ?case by (simp add: Register_def db_ok_empty)
next
  case (next_call srv srv')
  then show ?case by (auto elim!: step.cases intro: serve_keeps_db_ok)
qed

section \<open>A creation is announced\<close>

text \<open>Computations that queue no event of a package.\<close>

abbreviation quiet :: "DeploymentPackageEvents \<Rightarrow> 'a txm \<Rightarrow> bool" where
  "quiet q x \<equiv> keeps (\<lambda>s. tx_pkgEvents s = q) x"

lemma quiet_calls [keeps_intro]: "quiet q (query f)" "quiet q (mutate g)"
  by (auto simp: keeps_def query_def mutate_def external_def Let_def split: prod.splits)

lemma quiet_orError [keeps_intro]: "quiet q x \<Longrightarrow> quiet q (orDBError x)" "quiet q x \<Longrightarrow> quiet q (orRawError x)"
  unfolding orDBError_def orRawError_def by (auto intro!: keeps_intro)

lemma quiet_validateProfile [keeps_intro]: "quiet q (validateProfile pkg r n)"
proof -
  have "quiet q (findApplicationInPackage pkg r)"
    unfolding findApplicationInPackage_def Let_def by (intro keeps_intro)
  moreover have "quiet q (\<lambda>s. orRawError (query (\<lambda>d. q_only (\<lambda>p. pdb_Name p = n) (profilesOf i d))) s)" for i
    by (intro keeps_intro)
  ultimately show ?thesis
    by (auto simp: keeps_def validateProfile_def split: prod.splits sum.splits)
qed

lemma quiet_congruentProfiles [keeps_intro]: "quiet q (congruentProfiles pkg profile)"
proof -
  have "quiet q (validateAllProfiles pkg profile)" unfolding validateAllProfiles_def by (intro keeps_intro)
  then show ?thesis by (auto simp: keeps_def congruentProfiles_def split: prod.splits sum.splits)
qed

lemma quiet_injectAll [keeps_intro]: "quiet q (injectAll pkg pkgDB i ps)"
proof (induction ps arbitrary: i)
  case (Cons p ps)
  have "quiet q (injectDeploymentProfile pkgDB p)"
    unfolding injectDeploymentProfile_def checkDeploymentProfileUniqueness_def by (intro keeps_intro)
  with Cons.IH show ?case by (auto intro!: keeps_intro)
qed (auto intro: keeps_intro)

lemma quiet_createPackageParts [keeps_intro]: "quiet q (createPackageParts p pkg created)"
  unfolding createPackageParts_def createApplicationReferences_def findReference_def createApplicationDependencies_def
    createDependency_def createApplicationNamespaces_def createNamespaceOf_def createNamespaces_def createAdornments_def
    createDeploymentProfiles_def updateDefaultDeploymentProfile_def createExtensions_def createArtifactReferences_def
  by (intro keeps_intro)

lemma createDeploymentPackage_events:
  assumes "createDeploymentPackage p pkg t0 = (Inr created, t)"
  shows "tx_pkgEvents t = tx_pkgEvents t0 @ [(event CreatedEvent p, pkg)]"
proof -
  let ?q = "tx_pkgEvents t0"
  have check: "quiet ?q (checkDeploymentPackageUniqueness p pkg)"
    unfolding checkDeploymentPackageUniqueness_def by (intro keeps_intro)
  obtain dn t1 t2 t3 where run: "checkDeploymentPackageUniqueness p pkg t0 = (Inr (), t1)"
    "mutate (createDeploymentPackageRow (newPackageRow p dn pkg)) t1 = (Inr (Inr created), t2)"
    "createPackageParts p pkg created t2 = (Inr (), t3)" "t = t3\<lparr>tx_pkgEvents := tx_pkgEvents t3 @ [(event CreatedEvent p, pkg)]\<rparr>"
    using assms
    by (auto simp: createDeploymentPackage_def bnd_Inr ret_Inr throw_Inr branch_Inr modify_Inr appendPackage_def
        appendDeploymentPackageEvent_def split: prod.splits if_splits sum.splits)
  have "tx_pkgEvents t1 = ?q" using keepsD [OF check, of t0] run(1) by simp
  then have "tx_pkgEvents t2 = ?q" using keepsD [OF quiet_calls(2), of t1 ?q "createDeploymentPackageRow (newPackageRow p dn pkg)"] run(2) by simp
  then have "tx_pkgEvents t3 = ?q" using keepsD [OF quiet_createPackageParts, of t2 ?q p pkg created] run(3) by simp
  with run(4) show ?thesis by simp
qed

text \<open>
  C4. On every reachable server, a watcher registered for packages whose request names no project or the active one, and
  no kinds or that of the package, is sent the event of a package creation that succeeds, exactly once and after everything
  it was sent before. That is about \<^verbatim>\<open>CreateDeploymentPackage\<close> alone: what an upload creates and the other kinds of
  entities are not covered.
\<close>

theorem creation_is_announced:
  assumes "reachable srv" and "CreateDeploymentPackage env ctx (Some pkg) srv = (Inr w, srv1)" and "GetActiveProjectID ctx = Inr p"
    and "(ch, req) \<in> set (deploymentPackageListeners (sv_listeners srv))"
    and "wdp_ProjectId req \<in> {[], p}" and "wdp_Kinds req = [] \<or> dp_Kind pkg \<in> set (wdp_Kinds req)"
  shows "map snd (List.filter (\<lambda>d. fst d = ch) (sv_pkgOut srv1)) =
    map snd (List.filter (\<lambda>d. fst d = ch) (sv_pkgOut srv)) @ [(event CreatedEvent p, pkg)]"
proof -
  obtain x t0 v t where run: "admitsCreatePackage env ctx (Some pkg) x"
    "startTransaction env srv = (Inr t0, srv\<lparr>sv_open := Suc (sv_open srv)\<rparr>)"
    "createDeploymentPackage (fst x) (snd x) t0 = (Inr v, t)"
    "srv1 = sendDeploymentPackage t (srv\<lparr>sv_db := tx_db t, sv_vault := tx_vault t\<rparr>)"
    by (rule create_package.success [OF assms(2)]) (rule that)
  then have x: "fst x = p" "snd x = pkg" using assms(3) by (auto simp: admitsCreatePackage_def)
  have events: "tx_pkgEvents t = [(event CreatedEvent p, pkg)]"
    using createDeploymentPackage_events [OF run(3)] startTransaction_Inr [OF run(2)] x by simp
  have table: "distinct (map fst (deploymentPackageListeners (sv_listeners srv)))"
    using reachable_distinctTables [OF assms(1)] by (simp add: distinctTables_def)
  have "wantsDeploymentPackage req (event CreatedEvent p, pkg)"
    using assms(5,6) by (auto simp: wantsDeploymentPackage_def event_def)
  moreover have "map_of (deploymentPackageListeners (sv_listeners srv)) ch = Some req"
    using assms(4) table by simp
  ultimately show ?thesis
    using pkg_fanout.received_sendAll [OF table, of ch "tx_pkgEvents t"] run(4) events
    by (simp add: sendDeploymentPackage_def pkg_fanout.received_def pkg_fanout.registered_def)
qed

lemma reachable_serve: "reachable srv \<Longrightarrow> soundCall c \<Longrightarrow> reachable (snd (serve c srv))"
  by (rule reachable.next_call) (auto intro: step.intros [of c _ "fst (serve c srv)"])

lemma reply_snd: "snd (reply out) = snd out"
  by (auto simp: reply_def split: prod.splits sum.splits)

definition anyPackage :: WatchDeploymentPackagesRequest where
  "anyPackage = \<lparr>wdp_ProjectId = [], wdp_NoReplay = True, wdp_Kinds = []\<rparr>"

definition sampleWatched :: server where
  "sampleWatched = listenPackage 5 anyPackage sampleArtServer"

lemma sampleServer_reachable: "reachable sampleServer"
  using reachable_serve [OF reachable.initial, of "CallCreateRegistry sampleEnv sampleCtx (Some sampleRegistry)"]
  by (simp add: sampleServer_def reply_snd)

lemma sampleArt_reachable: "reachable sampleArtServer"
proof -
  have "reachable sampleAppServer"
    using reachable_serve [OF sampleServer_reachable, of "CallCreateApplication sampleEnv sampleCtx (Some sampleApplication)"]
    by (simp add: sampleAppServer_def reply_snd)
  then show ?thesis
    using reachable_serve [of _ "CallCreateArtifact sampleEnv sampleCtx (Some sampleArtifact)"]
    by (simp add: sampleArtServer_def reply_snd)
qed

lemma sampleWatched_reachable: "reachable sampleWatched"
proof -
  have "snd (serve (CallWatchDeploymentPackages sampleEnv (Some anyPackage) (Some (sampleCtx, \<lambda>_. None)) 5) sampleArtServer) = sampleWatched"
    by (simp add: WatchDeploymentPackages_def anyPackage_def GetActiveProjectIDAllowAdmin_def sampleProject sampleAuth replyWatch_def
        reply_def sampleWatched_def)
  with reachable_serve [OF sampleArt_reachable, of "CallWatchDeploymentPackages sampleEnv (Some anyPackage) (Some (sampleCtx, \<lambda>_. None)) 5"]
  show ?thesis by simp
qed

theorem creation_is_announced_witness:
  "\<exists>w srv1. CreateDeploymentPackage sampleEnv sampleCtx (Some samplePackage) sampleWatched = (Inr w, srv1) \<and>
     map snd (List.filter (\<lambda>d. fst d = 5) (sv_pkgOut srv1)) = [(event CreatedEvent ''p1'', samplePackage)]"
proof -
  have "\<exists>w srv1. CreateDeploymentPackage sampleEnv sampleCtx (Some samplePackage) sampleWatched = (Inr w, srv1)"
    unfolding sampleWatched_def sampleArtServer_eq listenPackage_def
    by (simp add: CreateDeploymentPackage_def sampleProject samplePackage_valid samplePackage_profiles sampleAuth)
      (simp add: package_eval transaction_eval monad_eval sample_eval sampleAppRow_def newApplicationRow_def sampleApplication_def
        sampleArtRow_def newArtifactRow_def sampleArtifact_def)
  then obtain w srv1 where c: "CreateDeploymentPackage sampleEnv sampleCtx (Some samplePackage) sampleWatched = (Inr w, srv1)" by blast
  have here: "(5, anyPackage) \<in> set (deploymentPackageListeners (sv_listeners sampleWatched))" "sv_pkgOut sampleWatched = []"
    by (simp_all add: sampleWatched_def listenPackage_def addDeploymentPackageListener_def sampleArtServer_eq Register_def
        NewEventListeners_def)
  from creation_is_announced [OF sampleWatched_reachable c sampleProject here(1)] c here(2) show ?thesis
    by (simp add: anyPackage_def)
qed

section \<open>Replay\<close>

lemma watchEvents_length: "length (fst (watchEvents send es)) \<le> length es"
  by (induction es) (auto split: option.splits prod.splits)

lemma firstPage_length:
  assumes "computePageRange 0 0 (int (length xs)) = Inr (i, j, n)" and "xs \<noteq> []" and "pageOf xs i j = Some page"
  shows "length page \<le> 20"
proof -
  have "pageOf xs i j = Some (take (nat (j - i + 1)) (drop (nat i) xs))"
    by (rule pageOf_slice) (use computePageRange_Inr_bounds [OF assms(1)] assms(2) in auto)
  moreover have "i = 0" "j \<le> 19"
    using assms(1,2) by (auto simp: computePageRange_def split: if_splits)
  ultimately show ?thesis using assms(3) by auto
qed

lemma mapM_length: "mapM f xs t = (Inr ys, t1) \<Longrightarrow> length ys = length xs"
  using mapM_Inr [of f xs t ys t1] by (simp add: list_all2_lengthD)

lemma firstRegistries_length:
  assumes "getRegistries env p b [] [] 0 0 t = (Inr (rs, ps, n), t1)"
  shows "length rs \<le> 20"
proof -
  have page: "length rs \<le> 20" if "mapM f page t2 = (Inr rs, t3)" "computePageRange 0 0 (int (length xs)) = Inr (i, j, m)"
    "xs \<noteq> []" "pageOf xs i j = Some page" for f :: "RegistryDB \<Rightarrow> Registry txm" and rs page t2 t3 i j m and xs :: "RegistryDB list"
    using firstPage_length [OF that(2-4)] mapM_length [OF that(1)] by simp
  show ?thesis
    using assms unfolding getRegistries_def
    by (auto simp: bnd_Inr liftE_Inr ret_Inr throw_Inr branch_Inr split: if_splits prod.splits option.splits dest: page)
qed

lemma replayRegistries_length: "length (replayRegistries rs ps) \<le> length rs"
proof -
  have "length (foldl (\<lambda>q (reg, p). appendRegistryEvent q ReplayedEvent p reg) q xs) = length q + length xs" for q xs
    by (induction xs arbitrary: q) (auto simp: appendRegistryEvent_def)
  then show ?thesis by (simp add: replayRegistries_def)
qed

text \<open>
  A watch of registries replays at most 20 of the registries there are, whatever their number: it lists them with
  page size 0, which stands for the default size of a page.
\<close>

theorem replay_is_bounded:
  assumes "WatchRegistries env request stream ch srv = (r, sent, srv1)"
  shows "length sent \<le> 20"
proof -
  have bound: "length es \<le> 20"
    if "watchEvents send (replayRegistries rs ps) = (es, err)" "getRegistries env p b [] [] 0 0 t = (Inr (rs, ps, n), t1)"
    for p b t rs ps n t1 send es err
    using watchEvents_length [of send "replayRegistries rs ps"] replayRegistries_length [of rs ps] firstRegistries_length [OF that(2)]
      that(1) by simp
  from assms show ?thesis
    by (auto simp: WatchRegistries_def split: option.splits prod.splits sum.splits if_splits dest: bound)
qed

theorem replay_is_bounded_witness:
  "length (fst (snd (WatchRegistries sampleEnv (Some \<lparr>wr_ProjectId = [], wr_NoReplay = False, wr_ShowSensitiveInfo = False\<rparr>)
     (Some (sampleCtx, \<lambda>_. None)) 5 sampleServer))) \<le> 20"
proof -
  let ?w = "WatchRegistries sampleEnv (Some \<lparr>wr_ProjectId = [], wr_NoReplay = False, wr_ShowSensitiveInfo = False\<rparr>)
     (Some (sampleCtx, \<lambda>_. None)) 5 sampleServer"
  have "?w = (fst ?w, fst (snd ?w), snd (snd ?w))" by simp
  then show ?thesis by (rule replay_is_bounded)
qed

section \<open>Calls that only read\<close>

text \<open>
  A call that lists or gets entities, whether it succeeds or not, leaves the tables, the listeners and everything sent
  to the listeners as they were.
\<close>

theorem reading_call_changes_nothing:
  assumes "serve c srv = (r, srv1)" and "isRead c"
  shows "public srv1 = public srv"
  using assms by (rule serve_read_public)

theorem reading_call_changes_nothing_witness:
  "public (snd (serve (CallGetArtifact sampleEnv sampleCtx ''icon'') samplePackageServer)) = public samplePackageServer"
  using reading_call_changes_nothing [of "CallGetArtifact sampleEnv sampleCtx ''icon''" samplePackageServer
      "fst (serve (CallGetArtifact sampleEnv sampleCtx ''icon'') samplePackageServer)"
      "snd (serve (CallGetArtifact sampleEnv sampleCtx ''icon'') samplePackageServer)"] by simp

section \<open>Types of registries\<close>

text \<open>
  C24. On every reachable server each application takes its charts from a registry of its own project whose type is
  HELM, and its images, if it names a registry for them, from one whose type is IMAGE, and the key determines that
  registry: the type of a registry in use cannot have been changed. As for every reachable server, uploads rely on
  the JSON schema for the types of the registries they create.
\<close>

theorem application_registries_are_typed:
  assumes "reachable srv" and "a \<in> set (t_applications (sv_db srv))"
  shows "(\<exists>!r. r \<in> set (t_registries (sv_db srv)) \<and> rdb_ID r = adb_registry_fk a) \<and>
    (\<forall>r \<in> set (t_registries (sv_db srv)).
       (rdb_ID r = adb_registry_fk a \<longrightarrow> rdb_Type r = ''HELM'' \<and> rdb_ProjectUUID r = adb_ProjectUUID a) \<and>
       (adb_image_registry_fk a = Some (rdb_ID r) \<longrightarrow> rdb_Type r = ''IMAGE'' \<and> rdb_ProjectUUID r = adb_ProjectUUID a))"
proof -
  let ?d = "sv_db srv"
  have ok: "db_ok ?d" using assms(1) by (rule reachable_ok)
  have same: "r = q" if "r \<in> set (t_registries ?d)" "q \<in> set (t_registries ?d)" "rdb_ID r = rdb_ID q" for r q
    using ok that by (auto simp: db_ok_iff keys_ok_def dest: keyed_ident_inj)
  have helm: "hasRegistry ?d (adb_ProjectUUID a) ''HELM'' (adb_registry_fk a)"
    and img: "\<And>i. adb_image_registry_fk a = Some i \<Longrightarrow> hasRegistry ?d (adb_ProjectUUID a) ''IMAGE'' i"
    using ok assms(2) by (auto simp: db_ok_iff registries_ok_def)
  have typed: "rdb_Type r = ty \<and> rdb_ProjectUUID r = u"
    if "hasRegistry ?d u ty (rdb_ID r)" "r \<in> set (t_registries ?d)" for r ty u
    using that same unfolding hasRegistry_def by blast
  show ?thesis
  proof (intro conjI ballI impI)
    show "\<exists>!r. r \<in> set (t_registries ?d) \<and> rdb_ID r = adb_registry_fk a"
      using helm same unfolding hasRegistry_def by metis
  qed (use typed helm img in auto)
qed

text \<open>A chart registry, an image registry, and an application that uses both.\<close>

definition imageRegistry :: Registry where
  "imageRegistry = sampleRegistry\<lparr>r_Name := ''r2'', r_DisplayName := ''Images'', r_Type := ''IMAGE''\<rparr>"

definition imageApplication :: Application where
  "imageApplication = sampleApplication\<lparr>a_ImageRegistryName := ''r2''\<rparr>"

lemma imageRegistry_valid: "Registry_Validate imageRegistry = None"
  unfolding Registry_Validate_def firstFailure_None imageRegistry_def sampleRegistry_def
  by (simp add: validation_eval sampleUrl del: MatchString.simps lit.simps)

lemma imageApplication_valid: "Application_Validate imageApplication = None"
  by code_simp

definition imagesServer :: server where
  "imagesServer = snd (serve (CallCreateRegistry sampleEnv sampleCtx (Some imageRegistry)) sampleServer)"

definition imageServer :: server where
  "imageServer = snd (serve (CallCreateApplication sampleEnv sampleCtx (Some imageApplication)) imagesServer)"

lemma imageServer_reachable: "reachable imageServer"
  unfolding imageServer_def imagesServer_def by (intro reachable_serve sampleServer_reachable) simp_all

definition imageRow :: RegistryDB where
  "imageRow = (newRegistryRow sampleEnv ''p1'' ''Images'' imageRegistry)\<lparr>rdb_ID := Suc (t_next empty_db), rdb_CreateTime := 7, rdb_UpdateTime := 7\<rparr>"

lemma imagesServer_db: "sv_db imagesServer = empty_db\<lparr>t_registries := [sampleRow, imageRow], t_next := Suc (Suc (t_next empty_db))\<rparr>"
  unfolding imagesServer_def imageRow_def sampleRow_def sampleServer_eq
  by (simp add: CreateRegistry_def sampleProject imageRegistry_valid sampleAuth reply_snd)
    (simp add: transaction_eval monad_eval registry_eval sample_eval imageRegistry_def sendRegistry_def ToLower_def lowerChar_def)

lemma imageServer_rows:
  "\<exists>a. t_applications (sv_db imageServer) = [a] \<and> t_registries (sv_db imageServer) = [sampleRow, imageRow] \<and>
     adb_registry_fk a = rdb_ID sampleRow \<and> adb_image_registry_fk a = Some (rdb_ID imageRow)"
  unfolding imageServer_def
  by (simp add: CreateApplication_def sampleProject imageApplication_valid sampleAuth reply_snd)
    (simp add: transaction_eval monad_eval registry_eval application_eval imagesServer_db sample_eval imageApplication_def sampleApplication_def sampleRow_def
      imageRow_def imageRegistry_def sendApplication_def q_first_def newApplicationRow_def)

theorem application_registries_are_typed_witness:
  "\<exists>a r i. t_applications (sv_db imageServer) = [a] \<and> t_registries (sv_db imageServer) = [r, i] \<and>
     adb_registry_fk a = rdb_ID r \<and> adb_image_registry_fk a = Some (rdb_ID i) \<and>
     rdb_Type r = ''HELM'' \<and> rdb_Type i = ''IMAGE'' \<and> rdb_ProjectUUID i = adb_ProjectUUID a"
proof -
  obtain a where rows: "t_applications (sv_db imageServer) = [a]" "t_registries (sv_db imageServer) = [sampleRow, imageRow]"
    "adb_registry_fk a = rdb_ID sampleRow" "adb_image_registry_fk a = Some (rdb_ID imageRow)"
    using imageServer_rows by (elim exE conjE) (rule that)
  then have "a \<in> set (t_applications (sv_db imageServer))" by simp
  from application_registries_are_typed [OF imageServer_reachable this] rows show ?thesis by auto
qed

end
