(* ===== verification/Malware_Scanner.thy ===== *)
theory Malware_Scanner
  imports Transactions
begin

text \<open>
  The client of the malware scanner, \<^verbatim>\<open>pkg/malware/malware.go\<close>: a payload is sent in chunks over a connection that
  is dialled anew for every attempt, and the answer is read once. The daemon and the network are a
  parameter, one \<open>attempt\<close> per dial: what fails, and what the daemon answers to the bytes it was sent.
  The format of the stream is stated by a decoder of the daemon's side, and the client's stream is shown to decode to the
  payload.
\<close>

section \<open>The connection\<close>

record attempt =
  at_dial :: "string option"
  at_deadline :: "string option"
  at_write :: "nat \<Rightarrow> string option"
  at_read :: "string \<Rightarrow> string + string"

type_synonym conn = "string list"

text \<open>The \<open>n\<close>-th write on a connection fails or adds its bytes.\<close>

definition connWrite :: "attempt \<Rightarrow> string \<Rightarrow> conn \<Rightarrow> string + conn" where
  "connWrite a bytes conn = (case at_write a (length conn) of Some err \<Rightarrow> Inl err | None \<Rightarrow> Inr (conn @ [bytes]))"

text \<open>\<^verbatim>\<open>binary.BigEndian.PutUint32\<close>.\<close>

definition PutUint32 :: "32 word \<Rightarrow> string" where
  "PutUint32 v = map (\<lambda>i. char_of (unat (drop_bit i v))) [24, 16, 8, 0]"

definition sendChunk :: "attempt \<Rightarrow> string \<Rightarrow> conn \<Rightarrow> string + conn" where
  "sendChunk a chunk conn =
     (case connWrite a (PutUint32 (word_of_nat (length chunk))) conn of
        Inl err \<Rightarrow> Inl err
      | Inr conn1 \<Rightarrow> connWrite a chunk conn1)"

section \<open>Scanning\<close>

text \<open>The loop over full chunks, with what is left when it ends.\<close>

function sendChunks :: "attempt \<Rightarrow> string \<Rightarrow> conn \<Rightarrow> string + string \<times> conn" where
  "sendChunks a contents conn =
     (if length contents > 1024 then
        (case sendChunk a (take 1024 contents) conn of
           Inl err \<Rightarrow> Inl err
         | Inr conn1 \<Rightarrow> sendChunks a (drop 1024 contents) conn1)
      else Inr (contents, conn))"
  by pat_completeness auto
termination by (relation "measure (\<lambda>(a, contents, conn). length contents)") auto

declare sendChunks.simps [simp del]

definition streamCommand :: string where
  "streamCommand = ''zINSTREAM'' @ [CHR 0x00]"

definition sendContents :: "attempt \<Rightarrow> string \<Rightarrow> string + conn" where
  "sendContents a contents =
     (case connWrite a streamCommand [] of
        Inl err \<Rightarrow> Inl err
      | Inr conn1 \<Rightarrow>
     (case sendChunks a contents conn1 of
        Inl err \<Rightarrow> Inl err
      | Inr (rest, conn2) \<Rightarrow>
     (case (if length rest > 0 then sendChunk a rest conn2 else Inr conn2) of
        Inl err \<Rightarrow> Inl err
      | Inr conn3 \<Rightarrow> sendChunk a [] conn3)))"

definition Contains :: "string \<Rightarrow> string \<Rightarrow> bool" where
  "Contains s t \<longleftrightarrow> sublist t s"

text \<open>One read into a buffer of 1024 zero bytes, trimmed of zero bytes at both ends.\<close>

definition received :: "string \<Rightarrow> string" where
  "received bytes = trimBoth (\<lambda>c. c = CHR 0x00) (take 1024 bytes @ replicate (1024 - length bytes) (CHR 0x00))"

definition scanBytes :: "attempt \<Rightarrow> string \<Rightarrow> bool \<times> string \<times> string option" where
  "scanBytes a contents =
     (case at_dial a of
        Some err \<Rightarrow> (False, [], Some err)
      | None \<Rightarrow>
     (case at_deadline a of
        Some err \<Rightarrow> (False, [], Some err)
      | None \<Rightarrow>
     (case sendContents a contents of
        Inl err \<Rightarrow> (False, [], Some err)
      | Inr conn \<Rightarrow>
     (case at_read a (concat conn) of
        Inl err \<Rightarrow> (False, [], Some err)
      | Inr bytes \<Rightarrow> (Contains (received bytes) ''OK'', received bytes, None)))))"

definition MaxErrorRetries :: nat where
  "MaxErrorRetries = 5"

text \<open>The loop over the attempts, with the results of the last one.\<close>

fun retryScan :: "(nat \<Rightarrow> attempt) \<Rightarrow> string \<Rightarrow> nat \<Rightarrow> nat \<Rightarrow> bool \<times> string \<times> string option \<Rightarrow> bool \<times> string \<times> string option" where
  "retryScan attempts contents i 0 result = result"
| "retryScan attempts contents i (Suc n) result =
     (case scanBytes (attempts i) contents of
        (ok, answer, None) \<Rightarrow> (ok, answer, None)
      | (ok, answer, Some err) \<Rightarrow> retryScan attempts contents (Suc i) n (ok, answer, Some err))"

definition ScanBytes :: "(nat \<Rightarrow> attempt) \<Rightarrow> string \<Rightarrow> bool \<times> string \<times> string option" where
  "ScanBytes attempts contents = retryScan attempts contents 0 MaxErrorRetries (False, [], None)"

text \<open>The scanner as the handlers use it: an error, a clean payload, or an infected one with the answer.\<close>

definition NewScanner :: "(nat \<Rightarrow> attempt) \<Rightarrow> bool \<Rightarrow> scanner" where
  "NewScanner attempts permissive =
     \<lparr>sc_ScanBytes = (\<lambda>contents. case ScanBytes attempts contents of
        (ok, answer, Some err) \<Rightarrow> ScanError err
      | (ok, answer, None) \<Rightarrow> if ok then ScanClean else ScanInfected answer),
      sc_permissive = permissive\<rparr>"

section \<open>The stream as the daemon reads it\<close>

text \<open>
  The format the daemon documents: the command, then chunks, each a length in network byte order and that many
  bytes, ended by a chunk of length zero.
\<close>

definition Uint32 :: "string \<Rightarrow> nat" where
  "Uint32 bytes = foldl (\<lambda>n c. 256 * n + of_char c) 0 bytes"

function decodeChunks :: "string \<Rightarrow> string option" where
  "decodeChunks s =
     (if length s < 4 then None
      else let n = Uint32 (take 4 s); rest = drop 4 s
           in if n = 0 then (if rest = [] then Some [] else None)
              else if length rest < n then None
              else map_option (\<lambda>more. take n rest @ more) (decodeChunks (drop n rest)))"
  by pat_completeness auto
termination by (relation "measure length") auto

declare decodeChunks.simps [simp del]

definition decodeStream :: "string \<Rightarrow> string option" where
  "decodeStream s = (if take 10 s = streamCommand then decodeChunks (drop 10 s) else None)"

lemma of_char_char_of_nat: "(of_char (char_of (n :: nat)) :: nat) = n mod 256"
  by simp

lemma Uint32_PutUint32:
  assumes "n < 2 ^ 32"
  shows "Uint32 (PutUint32 (word_of_nat n)) = n"
proof -
  have u: "unat (word_of_nat n :: 32 word) = n" using assms by (simp add: unat_of_nat take_bit_nat_eq_self)
  have d: "unat (drop_bit k (word_of_nat n :: 32 word)) = n div 2 ^ k" for k
    by (simp only: unat_drop_bit_eq u) (simp add: drop_bit_eq_div)
  have "n div 2 ^ 24 < 256" using assms by (simp add: div_less_iff_less_mult)
  moreover have "n div 2 ^ 16 = 256 * (n div 2 ^ 24) + n div 2 ^ 16 mod 256"
    "n div 2 ^ 8 = 256 * (n div 2 ^ 16) + n div 2 ^ 8 mod 256" "n = 256 * (n div 2 ^ 8) + n mod 256"
    using div_mult2_eq [of n "2 ^ 16" 256] div_mult2_eq [of n "2 ^ 8" 256] by simp_all
  ultimately show ?thesis by (simp add: Uint32_def PutUint32_def d)
qed

lemma length_PutUint32 [simp]: "length (PutUint32 v) = 4"
  by (simp add: PutUint32_def)

text \<open>A chunk of the client is a chunk of the daemon.\<close>

definition frame :: "string \<Rightarrow> string" where
  "frame chunk = PutUint32 (word_of_nat (length chunk)) @ chunk"

lemma decodeChunks_frame:
  assumes "chunk \<noteq> []" and "length chunk < 2 ^ 32"
  shows "decodeChunks (frame chunk @ s) = map_option (\<lambda>more. chunk @ more) (decodeChunks s)"
  using assms Uint32_PutUint32 [of "length chunk"]
  by (subst decodeChunks.simps) (simp add: frame_def)

lemma decodeChunks_last: "decodeChunks (frame []) = Some []"
  using Uint32_PutUint32 [of 0] by (subst decodeChunks.simps) (simp add: frame_def)

section \<open>What the client sends\<close>

lemma sendChunk_frame: "sendChunk a chunk conn = Inr conn1 \<Longrightarrow> concat conn1 = concat conn @ frame chunk"
  by (auto simp: sendChunk_def connWrite_def frame_def split: option.splits)

text \<open>
  Whatever the loop wrote, followed by a stream that decodes, decodes to the part of the contents before the rest.
\<close>

lemma sendChunks_decodes:
  assumes "sendChunks a contents conn = Inr (rest, conn1)"
  shows "\<exists>sent out. length rest \<le> 1024 \<and> contents = sent @ rest \<and> concat conn1 = concat conn @ out \<and>
    (\<forall>s. decodeChunks (out @ s) = map_option (\<lambda>more. sent @ more) (decodeChunks s))"
  using assms
proof (induction a contents conn rule: sendChunks.induct)
  case (1 a contents conn)
  show ?case
  proof (cases "length contents > 1024")
    case False
    with "1.prems" show ?thesis
      by (intro exI [of _ "[]"]) (auto simp: sendChunks.simps [of a contents] map_option_case split: option.splits)
  next
    case True
    with "1.prems" obtain conn0 where c0: "sendChunk a (take 1024 contents) conn = Inr conn0"
      "sendChunks a (drop 1024 contents) conn0 = Inr (rest, conn1)"
      by (auto simp: sendChunks.simps [of a contents] split: sum.splits)
    from "1.IH" [OF True c0] obtain sent out where IH: "length rest \<le> 1024" "drop 1024 contents = sent @ rest"
      "concat conn1 = concat conn0 @ out" "\<And>s. decodeChunks (out @ s) = map_option (\<lambda>more. sent @ more) (decodeChunks s)"
      by blast
    have "contents = (take 1024 contents @ sent) @ rest" using IH(2) by (metis append.assoc append_take_drop_id)
    moreover have "decodeChunks ((frame (take 1024 contents) @ out) @ s) =
        map_option (\<lambda>more. (take 1024 contents @ sent) @ more) (decodeChunks s)" for s
      using True decodeChunks_frame [of "take 1024 contents" "out @ s"] by (simp add: IH(4) option.map_comp comp_def) force
    ultimately show ?thesis using IH(1,3) sendChunk_frame [OF c0(1)]
      by (intro exI [of _ "take 1024 contents @ sent"] exI [of _ "frame (take 1024 contents) @ out"]) simp
  qed
qed

lemma sendContents_decodes:
  assumes "sendContents a contents = Inr conn"
  shows "decodeStream (concat conn) = Some contents"
proof -
  from assms obtain rest conn2 conn3 where s: "sendChunks a contents [streamCommand] = Inr (rest, conn2)"
    "(if length rest > 0 then sendChunk a rest conn2 else Inr conn2) = Inr conn3" "sendChunk a [] conn3 = Inr conn"
    by (auto simp: sendContents_def connWrite_def split: option.splits sum.splits prod.splits)
  obtain sent out where c: "length rest \<le> 1024" "contents = sent @ rest" "concat conn2 = streamCommand @ out"
    "\<And>s. decodeChunks (out @ s) = map_option (\<lambda>more. sent @ more) (decodeChunks s)"
    using sendChunks_decodes [OF s(1)] by auto
  have "concat conn = streamCommand @ out @ (if rest = [] then [] else frame rest) @ frame []"
    using s(2) sendChunk_frame [OF s(3)] sendChunk_frame [of a rest conn2 conn3] c(3) by (auto split: if_splits)
  then show ?thesis using c(1,2)
    by (auto simp: decodeStream_def streamCommand_def c(4) decodeChunks_frame decodeChunks_last)
qed

text \<open>An attempt on which nothing fails sends everything.\<close>

definition writable :: "attempt \<Rightarrow> bool" where
  "writable a \<longleftrightarrow> at_dial a = None \<and> at_deadline a = None \<and> (\<forall>n. at_write a n = None)"

lemma connWrite_writable: "writable a \<Longrightarrow> connWrite a bytes conn = Inr (conn @ [bytes])"
  by (simp add: writable_def connWrite_def)

lemma sendChunk_writable: "writable a \<Longrightarrow> \<exists>conn1. sendChunk a chunk conn = Inr conn1"
  by (simp add: sendChunk_def connWrite_writable)

lemma sendChunks_writable: "writable a \<Longrightarrow> \<exists>r. sendChunks a contents conn = Inr r"
proof (induction a contents conn rule: sendChunks.induct)
  case (1 a contents conn)
  with sendChunk_writable [OF "1.prems", of "take 1024 contents" conn] show ?case
    by (auto simp: sendChunks.simps [of a contents])
qed

lemma sendContents_writable:
  assumes "writable a"
  shows "\<exists>conn. sendContents a contents = Inr conn"
  using assms sendChunks_writable [OF assms, of contents "[streamCommand]"] sendChunk_writable [OF assms]
  by (auto simp: sendContents_def connWrite_writable split: sum.splits) (metis sum.distinct(1))+

section \<open>The answer\<close>

text \<open>An attempt without an error has the daemon's answer to a stream that decodes to the payload.\<close>

lemma scanBytes_answer:
  assumes "scanBytes a contents = (ok, answer, None)"
  shows "\<exists>s bytes. decodeStream s = Some contents \<and> at_read a s = Inr bytes \<and> answer = received bytes \<and>
    (ok \<longleftrightarrow> Contains answer ''OK'')"
  using assms by (auto simp: scanBytes_def dest!: sendContents_decodes split: option.splits sum.splits)

lemma retryScan_step:
  "retryScan attempts contents i (Suc n) r =
     (if snd (snd (scanBytes (attempts i) contents)) = None then scanBytes (attempts i) contents
      else retryScan attempts contents (Suc i) n (scanBytes (attempts i) contents))"
  by (cases "scanBytes (attempts i) contents") (auto split: option.splits)

lemma retryScan_decides: "\<exists>j. retryScan attempts contents i n (scanBytes (attempts k) contents) = scanBytes (attempts j) contents"
  by (induction n arbitrary: i k) (auto simp: retryScan_step simp del: retryScan.simps(2))

lemma ScanBytes_decides: "\<exists>j. ScanBytes attempts contents = scanBytes (attempts j) contents"
proof -
  have five: "MaxErrorRetries = Suc 4" by (simp add: MaxErrorRetries_def)
  show ?thesis unfolding ScanBytes_def five retryScan_step using retryScan_decides by auto
qed

end
