(* ===== verification/Scanner_Properties.thy ===== *)
theory Scanner_Properties
  imports Artifact_Properties Malware_Scanner
begin

text \<open>
  The malware scanner's client and the handlers together: what reaches the daemon, which attempt decides, and that a payload
  the daemon reports is not stored by a creation.
\<close>

section \<open>The stream\<close>

text \<open>
  C26. On a connection where no write fails, the daemon is sent a stream that decodes, chunk by chunk, to exactly the
  payload, whatever its size and bytes, and the result of the scan is the answer to that stream.
\<close>

theorem daemon_receives_the_payload:
  assumes "writable a"
  shows "\<exists>s. decodeStream s = Some contents \<and>
    scanBytes a contents = (case at_read a s of Inl err \<Rightarrow> (False, [], Some err)
      | Inr bytes \<Rightarrow> (Contains (received bytes) ''OK'', received bytes, None))"
proof -
  obtain conn where conn: "sendContents a contents = Inr conn" using sendContents_writable [OF assms] by blast
  with assms show ?thesis
    by (intro exI [of _ "concat conn"]) (simp add: sendContents_decodes scanBytes_def writable_def)
qed

definition okBytes :: string where
  "okBytes = ''stream: OK'' @ [CHR 0x00]"

definition okDaemon :: attempt where
  "okDaemon = \<lparr>at_dial = None, at_deadline = None, at_write = (\<lambda>_. None), at_read = (\<lambda>_. Inr okBytes)\<rparr>"

lemma trimBoth_padding:
  assumes "p z"
  shows "trimBoth p (s @ replicate n z) = trimBoth p s"
proof (cases "\<forall>c \<in> set s. p c")
  case True
  with assms have "dropWhile p (s @ replicate n z) = []" "dropWhile p s = []" by (auto simp: dropWhile_eq_Nil_conv)
  then show ?thesis by (simp only: trimBoth_def)
next
  case False
  then have "dropWhile p (s @ replicate n z) = dropWhile p s @ replicate n z" by (auto simp: dropWhile_append1)
  moreover have "dropWhile p (replicate n z @ t) = dropWhile p t" for t using assms by (induction n) auto
  ultimately show ?thesis by (simp add: trimBoth_def)
qed

lemma received_trimmed: "received bytes = trimBoth (\<lambda>c. c = CHR 0x00) (take 1024 bytes)"
  by (simp add: received_def trimBoth_padding)

lemma okAnswer: "received okBytes = ''stream: OK''"
  by (simp add: received_trimmed trimBoth_def okBytes_def)

lemma okContained: "Contains ''stream: OK'' ''OK''"
  by (simp add: Contains_def sublist_code)

theorem daemon_receives_the_payload_witness:
  "(\<exists>s. decodeStream s = Some ''data'') \<and> scanBytes okDaemon ''data'' = (True, ''stream: OK'', None)"
proof -
  have "writable okDaemon" by (simp add: writable_def okDaemon_def)
  from daemon_receives_the_payload [OF this, of "''data''"] show ?thesis
    by (auto simp: okDaemon_def okAnswer okContained)
qed

section \<open>Attempts\<close>

text \<open>
  C27. A scan makes at most five attempts: its result is that of the first attempt without an error, and when all five
  have one, that of the fifth.
\<close>

theorem scan_is_the_first_answer:
  "ScanBytes attempts contents =
     (case List.find (\<lambda>i. snd (snd (scanBytes (attempts i) contents)) = None) [0, 1, 2, 3, 4] of
        Some i \<Rightarrow> scanBytes (attempts i) contents
      | None \<Rightarrow> scanBytes (attempts 4) contents)"
proof -
  have five: "MaxErrorRetries = Suc (Suc (Suc (Suc (Suc 0))))" by (simp add: MaxErrorRetries_def)
  show ?thesis unfolding ScanBytes_def five retryScan_step
    by (simp add: numeral_2_eq_2 numeral_3_eq_3 numeral_Bit0 del: retryScan.simps(2))
qed

section \<open>An infected payload\<close>

text \<open>
  C13. With a scanner that is not permissive and a daemon whose answers to a payload never contain OK, the creation of an
  artifact with that payload fails and no table, listener or stream changes, whichever of the attempts fail. An update
  does not scan its payload and is not covered.
\<close>

theorem reported_payload_is_not_stored:
  assumes "e_scanner env = Some (NewScanner attempts False)" and "art_Artifact art = Some payload"
    and "\<And>i s bytes. decodeStream s = Some payload \<Longrightarrow> at_read (attempts i) s = Inr bytes \<Longrightarrow> \<not> Contains (received bytes) ''OK''"
  shows "\<exists>e srv1. CreateArtifact env ctx (Some art) srv = (Inl e, srv1) \<and> public srv1 = public srv"
proof -
  obtain ok answer err where scan: "ScanBytes attempts payload = (ok, answer, err)" by (cases "ScanBytes attempts payload")
  have bad: "\<not> ok" if ok: "err = None"
  proof -
    obtain i where "scanBytes (attempts i) payload = (ok, answer, None)"
      using scan ok ScanBytes_decides [of attempts payload] by metis
    from scanBytes_answer [OF this] assms(3) show ?thesis by blast
  qed
  have "\<not> (\<exists>w srv1. CreateArtifact env ctx (Some art) srv = (Inr w, srv1))"
  proof
    assume "\<exists>w srv1. CreateArtifact env ctx (Some art) srv = (Inr w, srv1)"
    then obtain w srv1 where success: "CreateArtifact env ctx (Some art) srv = (Inr w, srv1)" by blast
    obtain p created t0 t where run: "createArtifact env p art t0 = (Inr created, t)"
      by (rule CreateArtifact_success [OF success]) (rule that)
    from createArtifact_success(5) [OF run] assms(1,2) scan bad show False
      by (cases err) (auto simp: scanArtifact_def NewScanner_def split: if_splits)
  qed
  then obtain e srv1 where e: "CreateArtifact env ctx (Some art) srv = (Inl e, srv1)"
    by (cases "CreateArtifact env ctx (Some art) srv"; cases "fst (CreateArtifact env ctx (Some art) srv)") auto
  with create_artifact.error_public [OF e] show ?thesis by blast
qed

definition foundDaemon :: attempt where
  "foundDaemon = okDaemon\<lparr>at_read := (\<lambda>_. Inr ''stream: Eicar FOUND'')\<rparr>"

lemma foundAnswer: "received ''stream: Eicar FOUND'' = ''stream: Eicar FOUND''"
  by (simp add: received_trimmed trimBoth_def)

theorem reported_payload_is_not_stored_witness:
  "\<exists>e srv1. CreateArtifact (sampleEnv\<lparr>e_scanner := Some (NewScanner (\<lambda>_. foundDaemon) False)\<rparr>) sampleCtx (Some sampleArtifact)
     Register = (Inl e, srv1) \<and> public srv1 = public Register"
proof (rule reported_payload_is_not_stored)
  show "e_scanner (sampleEnv\<lparr>e_scanner := Some (NewScanner (\<lambda>_. foundDaemon) False)\<rparr>) = Some (NewScanner (\<lambda>_. foundDaemon) False)"
    by simp
  show "art_Artifact sampleArtifact = Some ''data''" by (simp add: sampleArtifact_def)
  show "\<not> Contains (received bytes) ''OK''" if "at_read foundDaemon s = Inr bytes" for s bytes
    using that by (auto simp: foundDaemon_def foundAnswer Contains_def sublist_code)
qed

text \<open>The answer is searched for OK anywhere: a report whose signature contains it counts as clean.\<close>

lemma signature_can_read_as_ok:
  "scanBytes (okDaemon\<lparr>at_read := (\<lambda>_. Inr ''stream: Win.BOOK FOUND'')\<rparr>) contents = (True, ''stream: Win.BOOK FOUND'', None)"
proof -
  let ?a = "okDaemon\<lparr>at_read := (\<lambda>_. Inr ''stream: Win.BOOK FOUND'')\<rparr>"
  have "received ''stream: Win.BOOK FOUND'' = ''stream: Win.BOOK FOUND''"
    by (simp add: received_trimmed trimBoth_def)
  moreover obtain conn where "sendContents ?a contents = Inr conn"
    using sendContents_writable [of ?a contents] by (auto simp: writable_def okDaemon_def)
  ultimately show ?thesis by (simp add: scanBytes_def okDaemon_def Contains_def sublist_code)
qed

end
