(* ===== verification/Helm_Charts.thy ===== *)
theory Helm_Charts
  imports Upload_Service
begin

text \<open>
  Fetching a helm chart from an OCI registry, \<^verbatim>\<open>internal/helm/oci.go\<close>: the parts of the URL, the tag, the chart file of the
  archive, and what is kept of it. Parsing of URLs, archives, versions and YAML and the client of the registry are parameters.
\<close>

section \<open>Data\<close>

record HelmInfo =
  hi_Name :: string
  hi_Version :: string
  hi_Description :: string
  hi_OCIRegistry :: string
  hi_Username :: string
  hi_Password :: string

text \<open>The errors of \<^verbatim>\<open>internal/helm/error.go\<close> with the fields that are set, errors of the client as they are, and a panic.\<close>

datatype HelmError =
    ParseError string string "string option"
  | ExtractError string string "string option"
  | FetchError string string string string string
  | OrasError string
  | HelmPanic

datatype Auth = NoAuth | UsernamePassword string string | AccessToken string

text \<open>
  The registry's client holds the host, the credentials and the repository chosen before; they are
  arguments here. \<open>oc_chart\<close> gives the string values of the chart file, \<open>oc_sort\<close> sorts versions.
\<close>

record oras =
  oc_parseURL :: "string \<Rightarrow> string + string \<times> string \<times> string"
  oc_NewRegistry :: "string \<Rightarrow> string option"
  oc_Repository :: "string \<Rightarrow> Auth \<Rightarrow> string \<Rightarrow> string option"
  oc_GetTags :: "string \<Rightarrow> Auth \<Rightarrow> string \<Rightarrow> string + string list"
  oc_GetTarball :: "string \<Rightarrow> Auth \<Rightarrow> string \<Rightarrow> string \<Rightarrow> string + string"
  oc_semver :: "string \<Rightarrow> bool"
  oc_sort :: "string list \<Rightarrow> string list"
  oc_untar :: "string \<Rightarrow> string + tarEntry list \<times> string option"
  oc_chart :: "string \<Rightarrow> string + (string \<Rightarrow> string option)"

section \<open>The URL\<close>

text \<open>The part before the last colon and the part after it.\<close>

fun splitLast :: "char \<Rightarrow> string \<Rightarrow> (string \<times> string) option" where
  "splitLast d [] = None"
| "splitLast d (c # cs) =
     (case splitLast d cs of
        Some (before, after) \<Rightarrow> Some (c # before, after)
      | None \<Rightarrow> if c = d then Some ([], cs) else None)"

definition splitTag :: "string \<Rightarrow> string \<times> string" where
  "splitTag path = (case splitLast CHR '':'' path of Some (before, tag) \<Rightarrow> (before, tag) | None \<Rightarrow> (path, ''latest''))"

definition parseOrasURL :: "oras \<Rightarrow> string \<Rightarrow> HelmError + string \<times> string \<times> string \<times> string" where
  "parseOrasURL oc ociurl =
     (case oc_parseURL oc ociurl of
        Inl err \<Rightarrow> Inl (ParseError ociurl ''Failed to parse URL'' (Some err))
      | Inr (scheme, host, urlPath) \<Rightarrow>
          if scheme \<noteq> ''oci'' then Inl (ParseError ociurl ''Scheme is not oci:// in URL'' None)
          else if host = [] then Inl (ParseError ociurl ''Missing host in URL'' None)
          else if urlPath = [] then Inl (ParseError ociurl ''Missing path in URL'' None)
          else (case splitTag urlPath of
                  (path, tag) \<Rightarrow>
                    (case path of
                       [] \<Rightarrow> Inl HelmPanic
                     | c # cs \<Rightarrow>
                         (let fullName = (if c = CHR ''/'' then cs else path);
                              parts = Split CHR ''/'' fullName
                          in Inr (host, (if CHR ''/'' \<in> set fullName then intercalate ''/'' (butlast parts) else fullName), fullName, tag)))))"

section \<open>The chart file\<close>

fun findEntry :: "string \<Rightarrow> tarEntry list \<Rightarrow> string option \<Rightarrow> HelmError + string" where
  "findEntry target [] (Some err) = Inl (ExtractError ''Failed to read tar header while extracting'' target (Some err))"
| "findEntry target [] None = Inl (ExtractError ''Failed to find file while extracting'' target None)"
| "findEntry target (e # es) end =
     (if te_regular e \<and> HasSuffix (te_Name e) target then
        (case te_error e of
           Some err \<Rightarrow> Inl (ExtractError ''Failed to copy file content while extracting'' target (Some err))
         | None \<Rightarrow> Inr (take MaxExtractedFileSize (te_contents e)))
      else findEntry target es end)"

definition extractFileFromTGZ :: "oras \<Rightarrow> string \<Rightarrow> string \<Rightarrow> HelmError + string" where
  "extractFileFromTGZ oc archive target =
     (case oc_untar oc archive of
        Inl err \<Rightarrow> Inl (ExtractError ''Failed to create gzip reader while extracting'' target (Some err))
      | Inr (entries, end) \<Rightarrow> findEntry target entries end)"

section \<open>Fetching\<close>

text \<open>Without a tag the greatest of the tags that are versions; the code indexes the last of them without a test.\<close>

definition latestTag :: "oras \<Rightarrow> string list \<Rightarrow> HelmError + string" where
  "latestTag oc allTags =
     (let validTags = oc_sort oc (List.filter (oc_semver oc) allTags)
      in if validTags = [] then Inl HelmPanic else Inr (last validTags))"

definition chooseAuth :: "string \<Rightarrow> string \<Rightarrow> Auth" where
  "chooseAuth user password =
     (if user \<noteq> [] \<and> password \<noteq> [] then UsernamePassword user password
      else if password \<noteq> [] then AccessToken password else NoAuth)"

definition helmInfo :: "(string \<Rightarrow> string option) \<Rightarrow> string \<Rightarrow> string \<Rightarrow> string \<Rightarrow> string \<Rightarrow> HelmError + HelmInfo" where
  "helmInfo chartData host path user password =
     (case (chartData ''name'', chartData ''version'', chartData ''description'') of
        (Some name, Some version, Some description) \<Rightarrow> Inr
          \<lparr>hi_Name = name, hi_Version = version, hi_Description = description,
           hi_OCIRegistry = intercalate ''/'' [''oci:/'', host, path], hi_Username = user, hi_Password = password\<rparr>
      | _ \<Rightarrow> Inl HelmPanic)"

definition FetchHelmChartOCI :: "oras \<Rightarrow> string \<Rightarrow> string \<Rightarrow> string \<Rightarrow> HelmError + HelmInfo" where
  "FetchHelmChartOCI oc ociurl user password =
     (case parseOrasURL oc ociurl of
        Inl e \<Rightarrow> Inl e
      | Inr (host, path, artifactName, tagName) \<Rightarrow>
     (case oc_NewRegistry oc host of
        Some err \<Rightarrow> Inl (FetchError ''Failed to create registry object'' err ociurl host [])
      | None \<Rightarrow>
     (let auth = chooseAuth user password
      in case oc_Repository oc host auth artifactName of
        Some err \<Rightarrow> Inl (FetchError ''Failed to get repository using oras'' err ociurl host artifactName)
      | None \<Rightarrow>
     (case (if tagName = ''latest'' then
              (case oc_GetTags oc host auth artifactName of
                 Inl err \<Rightarrow> Inl (FetchError ''Failed to get tags using oras'' err ociurl host artifactName)
               | Inr allTags \<Rightarrow> latestTag oc allTags)
            else Inr tagName) of
        Inl e \<Rightarrow> Inl e
      | Inr tag \<Rightarrow>
     (case oc_GetTarball oc host auth artifactName tag of
        Inl err \<Rightarrow> Inl (OrasError err)
      | Inr content \<Rightarrow>
     (case extractFileFromTGZ oc content ''Chart.yaml'' of
        Inl e \<Rightarrow> Inl e
      | Inr chart \<Rightarrow>
     (case oc_chart oc chart of
        Inl err \<Rightarrow> Inl (ExtractError ''Failed to parse the chart yaml'' [] (Some err))
      | Inr chartData \<Rightarrow> helmInfo chartData host path user password)))))))"

section \<open>The registry of a chart\<close>

lemma splitLast_None: "splitLast d s = None \<longleftrightarrow> d \<notin> set s"
  by (induction s) (auto split: option.splits)

lemma splitLast_append: "d \<notin> set after \<Longrightarrow> splitLast d (before @ d # after) = Some (before, after)"
proof (induction before)
  case Nil
  then have "splitLast d after = None" by (simp add: splitLast_None)
  then show ?case by simp
qed simp

lemma Split_Join: "intercalate ''/'' (Split CHR ''/'' s) = s"
  using intercalate_Split [of "CHR ''/''" s] by simp

lemma intercalate_snoc: "ws \<noteq> [] \<Longrightarrow> intercalate d (ws @ [w]) = intercalate d ws @ d @ w"
  by (induction ws rule: induct_list012) auto

end
