(* ===== verification/Package_Generator.thy ===== *)
theory Package_Generator
  imports Helm_Charts
begin

text \<open>
  The generator of deployment packages from helm charts, \<^verbatim>\<open>internal/dp/dp.go\<close>: what is known of a chart becomes a registry,
  an application with one profile and a package, written as YAML files with a values file. The YAML library and the
  operating system are parameters; the files written are a list of paths with contents, the latest contents first to be
  found. A path that was written is read back as written; paths are compared as they are spelled.
\<close>

section \<open>Data\<close>

record GenRegistry =
  gr_Name :: string
  gr_Description :: string
  gr_Type :: string
  gr_RootURL :: string
  gr_Username :: string
  gr_Authtoken :: string

record GenProfile =
  gp_Name :: string
  gp_ValuesFileName :: string

record GenApplication =
  ga_Name :: string
  ga_Version :: string
  ga_Description :: string
  ga_HelmRegistry :: string
  ga_ChartName :: string
  ga_ChartVersion :: string
  ga_Profiles :: "GenProfile list"

record AppProfileLink =
  apl_Application :: string
  apl_Profile :: string

record GenDeploymentProfile =
  gdp_Name :: string
  gdp_ApplicationProfiles :: "AppProfileLink list"

record ApplicationLink =
  al_Name :: string
  al_Version :: string

record GenDeploymentPackage =
  gd_Name :: string
  gd_Version :: string
  gd_Description :: string
  gd_Applications :: "ApplicationLink list"
  gd_DeploymentProfiles :: "GenDeploymentProfile list"
  gd_DefaultNamespaces :: "(string \<times> string) list"

text \<open>The errors of \<^verbatim>\<open>internal/dp/error.go\<close>, with the chart, the paths, the message and the error they wrap.\<close>

datatype GenError =
    OutputError HelmInfo string string string string
  | GenerationError HelmInfo string string
  | InputError HelmInfo string string string

text \<open>What the generator calls: the encoders of YAML, the decoder, and the file system.\<close>

record tool =
  to_marshalApplication :: "GenApplication \<Rightarrow> string + string"
  to_marshalPackage :: "GenDeploymentPackage \<Rightarrow> string + string"
  to_marshalRegistry :: "GenRegistry \<Rightarrow> string + string"
  to_unmarshal :: "string \<Rightarrow> string option"
  to_mkdir :: "string \<Rightarrow> string option"
  to_writeFile :: "string \<Rightarrow> string option"
  to_readFile :: "string \<Rightarrow> string + string"

section \<open>The files\<close>

definition SchemaVersion :: string where "SchemaVersion = ''0.1''"

definition DollarSchema :: string where
  "DollarSchema = ''https://schema.intel.com/catalog.orchestrator/0.1/schema''"

definition quoted :: "string \<Rightarrow> string" where
  "quoted s = CHR 0x22 # s @ [CHR 0x22]"

definition newline :: string where "newline = [CHR 0x0A]"

definition appendHeader :: "string \<Rightarrow> string \<Rightarrow> string" where
  "appendHeader yaml kind =
     (''---'' @ newline @ ''specSchema: '' @ quoted kind @ newline @ ''schemaVersion: '' @ quoted SchemaVersion @ newline @
      ''$schema: '' @ quoted DollarSchema @ newline @ newline) @ yaml"

text \<open>A name of more than 30 characters is cut to 25, and dashes at the end are dropped.\<close>

definition packageName :: "string \<Rightarrow> string" where
  "packageName name =
     (if length name > 30 then rev (dropWhile (\<lambda>c. c = CHR ''-'') (rev (take 25 name))) else name)"

definition writeFile :: "tool \<Rightarrow> string \<Rightarrow> string \<Rightarrow> (string \<times> string) list \<Rightarrow> string + (string \<times> string) list" where
  "writeFile os path contents files = (case to_writeFile os path of Some err \<Rightarrow> Inl err | None \<Rightarrow> Inr ((path, contents) # files))"

definition readFile :: "tool \<Rightarrow> string \<Rightarrow> (string \<times> string) list \<Rightarrow> string + string" where
  "readFile os path files = (case map_of files path of Some contents \<Rightarrow> Inr contents | None \<Rightarrow> to_readFile os path)"

definition generatedApplication :: "HelmInfo \<Rightarrow> GenApplication" where
  "generatedApplication helm =
     (let name = packageName (hi_Name helm)
      in \<lparr>ga_Name = name, ga_Version = hi_Version helm, ga_Description = hi_Description helm,
          ga_HelmRegistry = name @ ''-registry'', ga_ChartName = hi_Name helm, ga_ChartVersion = hi_Version helm,
          ga_Profiles = [\<lparr>gp_Name = ''default'', gp_ValuesFileName = name @ ''-values.yaml''\<rparr>]\<rparr>)"

definition generatedPackage :: "HelmInfo \<Rightarrow> string \<Rightarrow> GenDeploymentPackage" where
  "generatedPackage helm namespace =
     (let name = packageName (hi_Name helm)
      in \<lparr>gd_Name = name, gd_Version = hi_Version helm, gd_Description = [],
          gd_Applications = [\<lparr>al_Name = name, al_Version = hi_Version helm\<rparr>],
          gd_DeploymentProfiles = [\<lparr>gdp_Name = ''default'',
            gdp_ApplicationProfiles = [\<lparr>apl_Application = name, apl_Profile = ''default''\<rparr>]\<rparr>],
          gd_DefaultNamespaces = (if namespace \<noteq> [] then [(name, namespace)] else [])\<rparr>)"

definition generatedRegistry :: "HelmInfo \<Rightarrow> bool \<Rightarrow> GenRegistry" where
  "generatedRegistry helm includeAuth =
     (let name = packageName (hi_Name helm); auth = (includeAuth \<and> hi_Username helm \<noteq> [] \<and> hi_Password helm \<noteq> [])
      in \<lparr>gr_Name = name @ ''-registry'', gr_Description = ''OCI registry for '' @ name, gr_Type = ''HELM'',
          gr_RootURL = hi_OCIRegistry helm,
          gr_Username = (if auth then hi_Username helm else []), gr_Authtoken = (if auth then hi_Password helm else [])\<rparr>)"

definition writeValues :: "tool \<Rightarrow> HelmInfo \<Rightarrow> string \<Rightarrow> string \<Rightarrow> (string \<times> string) list \<Rightarrow> GenError + (string \<times> string) list" where
  "writeValues os helm valuesFile outputDir files =
     (let outputFile = outputDir @ ''/'' @ packageName (hi_Name helm) @ ''-values.yaml'';
          failed = (\<lambda>path. OutputError helm outputDir path ''Failed to write values file to output directory'')
      in if valuesFile \<noteq> [] then
           (case readFile os valuesFile files of
              Inl err \<Rightarrow> Inl (InputError helm valuesFile ''Failed to read values file'' err)
            | Inr content \<Rightarrow>
           (case to_unmarshal os content of
              Some err \<Rightarrow> Inl (InputError helm valuesFile ''Invalid YAML content in values file'' err)
            | None \<Rightarrow> map_sum (failed []) (\<lambda>fs. fs) (writeFile os outputFile content files)))
         else map_sum (failed outputFile) (\<lambda>fs. fs)
           (writeFile os outputFile (''# this file intentionally left blank'' @ newline) files))"

text \<open>The files written before an error stay.\<close>

definition GenerateDeploymentPackage ::
    "tool \<Rightarrow> HelmInfo \<Rightarrow> string \<Rightarrow> string \<Rightarrow> string \<Rightarrow> bool \<Rightarrow> (string \<times> string) list \<Rightarrow>
     GenError option \<times> (string \<times> string) list" where
  "GenerateDeploymentPackage os helm valuesFile outputDir namespace includeAuth files =
     (let path = (\<lambda>ending. outputDir @ ''/'' @ packageName (hi_Name helm) @ ending)
      in case to_mkdir os outputDir of
        Some err \<Rightarrow> (Some (OutputError helm outputDir [] ''Failed to create output directory'' err), files)
      | None \<Rightarrow>
     (case to_marshalApplication os (generatedApplication helm) of
        Inl err \<Rightarrow> (Some (GenerationError helm ''Failed to marshal application to YAML'' err), files)
      | Inr appYaml \<Rightarrow>
     (case writeFile os (path ''-application.yaml'') (appendHeader appYaml ''Application'') files of
        Inl err \<Rightarrow> (Some (OutputError helm outputDir [] ''Failed to create output directory'' err), files)
      | Inr files1 \<Rightarrow>
     (case to_marshalPackage os (generatedPackage helm namespace) of
        Inl err \<Rightarrow> (Some (GenerationError helm ''Failed to marshal application to YAML'' err), files1)
      | Inr dpYaml \<Rightarrow>
     (case writeFile os (path ''-deployment-package.yaml'') (appendHeader dpYaml ''DeploymentPackage'') files1 of
        Inl err \<Rightarrow> (Some (OutputError helm outputDir [] ''Failed to write deployment package YAML to file'' err), files1)
      | Inr files2 \<Rightarrow>
     (case to_marshalRegistry os (generatedRegistry helm includeAuth) of
        Inl err \<Rightarrow> (Some (GenerationError helm ''Failed to marshal registry to YAML'' err), files2)
      | Inr registryYaml \<Rightarrow>
     (case writeFile os (path ''-registry.yaml'') (appendHeader registryYaml ''Registry'') files2 of
        Inl err \<Rightarrow> (Some (OutputError helm outputDir [] ''Failed to write registry YAML to file'' err), files2)
      | Inr files3 \<Rightarrow>
     (case writeValues os helm valuesFile outputDir files3 of
        Inl err \<Rightarrow> (Some err, files3)
      | Inr files4 \<Rightarrow> (None, files4)))))))))"

end
