(* ===== verification/Tool_Properties.thy ===== *)
theory Tool_Properties
  imports Package_Generator
begin

text \<open>
  The tools that turn a chart into the files of a package: the registry a chart was fetched from, which of
  the generated names the catalog accepts, and how the generated files refer to each other.
\<close>

section \<open>Fetched charts\<close>

lemma parseOrasURL_parts:
  assumes "oc_parseURL oc url = Inr (''oci'', host, ''/'' @ name @ ending)" and "host \<noteq> []" and "CHR '':'' \<notin> set name"
    and "ending = [] \<or> (\<exists>tag. ending = CHR '':'' # tag \<and> CHR '':'' \<notin> set tag)"
  shows "parseOrasURL oc url = Inr (host,
      if CHR ''/'' \<in> set name then intercalate ''/'' (butlast (Split CHR ''/'' name)) else name, name,
      if ending = [] then ''latest'' else tl ending)"
proof -
  have "splitTag (''/'' @ name @ ending) = (''/'' @ name, if ending = [] then ''latest'' else tl ending)"
    using assms(3,4) splitLast_append [of "CHR '':''" "tl ending" "CHR ''/'' # name"] splitLast_None [of "CHR '':''" "CHR ''/'' # name"]
    by (auto simp: splitTag_def simp del: splitLast.simps)
  with assms(1,2) show ?thesis by (simp add: parseOrasURL_def Let_def)
qed

lemma directory_of_name:
  assumes "CHR ''/'' \<notin> set chart"
  shows "intercalate ''/'' (butlast (Split CHR ''/'' (directory @ CHR ''/'' # chart))) = directory"
proof -
  have "Split d (directory @ d # chart) = Split d directory @ [chart]" if "d \<notin> set chart" for d
    using that by (induction directory) (auto simp: Split_no_sep split: list.splits)
  with assms show ?thesis by (simp add: Split_Join)
qed

lemma FetchHelmChartOCI_success:
  assumes "FetchHelmChartOCI oc url user password = Inr info"
  shows "\<exists>host path name tag. parseOrasURL oc url = Inr (host, path, name, tag) \<and>
    hi_OCIRegistry info = ''oci://'' @ host @ ''/'' @ path \<and> hi_Username info = user \<and> hi_Password info = password"
  using assms
  by (auto simp: FetchHelmChartOCI_def helmInfo_def Let_def split: sum.splits prod.splits option.splits if_splits)

text \<open>
  The registry recorded for a chart fetched from \<^verbatim>\<open>oci://host/directory/chart\<close>, with or without a tag, is
  \<^verbatim>\<open>oci://host/directory\<close>, so that the registry and the name of the chart make up the URL again; but for a chart
  directly below its host the name of the chart stays part of the registry.
\<close>

theorem registry_of_a_fetched_chart:
  assumes "FetchHelmChartOCI oc url user password = Inr info"
    and "oc_parseURL oc url = Inr (''oci'', host, ''/'' @ name @ ending)" and "host \<noteq> []" and "CHR '':'' \<notin> set name"
    and "ending = [] \<or> (\<exists>tag. ending = CHR '':'' # tag \<and> CHR '':'' \<notin> set tag)"
  shows "(\<forall>directory chart. name = directory @ CHR ''/'' # chart \<and> CHR ''/'' \<notin> set chart \<longrightarrow>
      hi_OCIRegistry info = ''oci://'' @ host @ ''/'' @ directory) \<and>
    (CHR ''/'' \<notin> set name \<longrightarrow> hi_OCIRegistry info = ''oci://'' @ host @ ''/'' @ name)"
  using FetchHelmChartOCI_success [OF assms(1)] parseOrasURL_parts [OF assms(2-5)] directory_of_name by auto

definition sampleOras :: oras where
  "sampleOras = \<lparr>oc_parseURL = (\<lambda>_. Inr (''oci'', ''host'', ''/charts/web:1'')), oc_NewRegistry = (\<lambda>_. None),
     oc_Repository = (\<lambda>_ _ _. None), oc_GetTags = (\<lambda>_ _ _. Inr []), oc_GetTarball = (\<lambda>_ _ _ _. Inr ''archive''),
     oc_semver = (\<lambda>_. True), oc_sort = (\<lambda>tags. tags),
     oc_untar = (\<lambda>_. Inr ([\<lparr>te_regular = True, te_Name = ''web/Chart.yaml'', te_contents = ''chart'', te_error = None\<rparr>], None)),
     oc_chart = (\<lambda>_. Inr (\<lambda>key. Some (''the '' @ key)))\<rparr>"

lemma sampleFetch:
  "\<exists>info. FetchHelmChartOCI sampleOras ''oci://host/charts/web:1'' [] [] = Inr info"
  by (simp add: FetchHelmChartOCI_def parseOrasURL_def splitTag_def sampleOras_def extractFileFromTGZ_def HasSuffix_def
      MaxExtractedFileSize_def helmInfo_def chooseAuth_def)

theorem registry_of_a_fetched_chart_witness:
  "\<exists>info. FetchHelmChartOCI sampleOras ''oci://host/charts/web:1'' [] [] = Inr info \<and> hi_OCIRegistry info = ''oci://host/charts''"
proof -
  obtain info where info: "FetchHelmChartOCI sampleOras ''oci://host/charts/web:1'' [] [] = Inr info" using sampleFetch by blast
  have url: "oc_parseURL sampleOras ''oci://host/charts/web:1'' = Inr (''oci'', ''host'', ''/'' @ ''charts/web'' @ '':1'')"
    by (simp add: sampleOras_def)
  have "hi_OCIRegistry info = ''oci://'' @ ''host'' @ ''/'' @ ''charts''"
    using registry_of_a_fetched_chart [OF info url] by (auto dest: spec [of _ "''charts''"] spec [of _ "''web''"])
  with info show ?thesis by simp
qed

section \<open>Generated names\<close>

lemma packageName_prefix: "\<exists>n. packageName name = take n name"
proof (cases "length name > 30")
  case True
  have "\<exists>n. rev (dropWhile p (rev s)) = take n s" for p and s :: string
    by (metis append_eq_conv_conj rev_rev_ident rev_append takeWhile_dropWhile_id)
  then obtain n where "rev (dropWhile (\<lambda>c. c = CHR ''-'') (rev (take 25 name))) = take n (take 25 name)" by blast
  with True show ?thesis by (auto simp: packageName_def take_take)
next
  case False
  then show ?thesis by (intro exI [of _ "length name"]) (simp add: packageName_def)
qed

lemma packageName_short:
  assumes "length name > 30" and "hd name \<noteq> CHR ''-''"
  shows "packageName name \<noteq> []" "length (packageName name) \<le> 25" "last (packageName name) \<noteq> CHR ''-''"
proof -
  have "hd name \<in> set (take 25 name)" using assms(1) by (cases name) auto
  with assms have "dropWhile (\<lambda>c. c = CHR ''-'') (rev (take 25 name)) \<noteq> []"
    by (auto simp: dropWhile_eq_Nil_conv)
  then show "packageName name \<noteq> []" "last (packageName name) \<noteq> CHR ''-''"
    using assms(1) hd_dropWhile [of "\<lambda>c. c = CHR ''-''" "rev (take 25 name)"] by (simp_all add: packageName_def last_rev)
  show "length (packageName name) \<le> 25"
    using assms(1) length_dropWhile_le [of "\<lambda>c. c = CHR ''-''" "rev (take 25 name)"] by (simp add: packageName_def)
qed

text \<open>
  C34. For a chart whose name is not empty, has only lower-case letters, digits and dashes, and begins and ends with a
  letter or digit, the names generated for the registry
  and the package are accepted by the catalog; the name generated for the application is accepted exactly when
  the name of the chart has at most 26 or more than 30 characters, because only the latter are shortened.
\<close>

theorem generated_names_are_accepted:
  assumes "name \<noteq> []" and "list_all nameChar name" and "lowerAlnum (hd name)" and "lowerAlnum (last name)"
  shows "MatchString namePattern (packageName name @ ''-registry'') \<and> MatchString namePattern (packageName name) \<and>
    (MatchString applicationNamePattern (packageName name) \<longleftrightarrow> length name \<le> 26 \<or> 30 < length name)"
proof -
  let ?g = "packageName name"
  have dash: "\<not> lowerAlnum CHR ''-''" by (simp add: lowerAlnum_def charIn_def)
  obtain n where n: "?g = take n name" using packageName_prefix by blast
  have chars: "list_all nameChar ?g" using assms(2) n by (metis append_take_drop_id list_all_append)
  have g: "?g \<noteq> []" "length ?g \<le> 30" "length name > 30 \<Longrightarrow> length ?g \<le> 25"
    using packageName_short [of name] assms(1,3) dash by (cases "length name > 30"; force simp: packageName_def)+
  have hd: "lowerAlnum (hd ?g)" using assms(1,3) g(1) n by (metis hd_take take_eq_Nil gr0I)
  have same: "length name \<le> 30 \<Longrightarrow> ?g = name" by (simp add: packageName_def)
  show ?thesis
    unfolding MatchString_name using g hd chars same assms(4)
    by (cases ?g; cases "length name > 30") (auto simp: nameChar_def lowerAlnum_def charIn_def last_append)
qed

theorem generated_names_are_accepted_witness:
  "\<not> MatchString applicationNamePattern (packageName ''a-chart-with-a-longish-name-x'')"
proof -
  let ?n = "''a-chart-with-a-longish-name-x''"
  have "list_all nameChar ?n" "lowerAlnum (hd ?n)" "lowerAlnum (last ?n)" "length ?n = 29"
    by (simp_all add: nameChar_def lowerAlnum_def charIn_def)
  with generated_names_are_accepted [of ?n] show ?thesis by simp
qed

section \<open>Generated files\<close>

lemma generated_fields:
  "ga_Name (generatedApplication helm) = packageName (hi_Name helm)" "ga_Version (generatedApplication helm) = hi_Version helm"
  "ga_HelmRegistry (generatedApplication helm) = gr_Name (generatedRegistry helm includeAuth)"
  "ga_ChartName (generatedApplication helm) = hi_Name helm"
  "ga_Profiles (generatedApplication helm) = [\<lparr>gp_Name = ''default'', gp_ValuesFileName = packageName (hi_Name helm) @ ''-values.yaml''\<rparr>]"
  "gr_RootURL (generatedRegistry helm includeAuth) = hi_OCIRegistry helm"
  "\<not> includeAuth \<Longrightarrow> gr_Username (generatedRegistry helm includeAuth) = []"
  "\<not> includeAuth \<Longrightarrow> gr_Authtoken (generatedRegistry helm includeAuth) = []"
  "gd_Applications (generatedPackage helm namespace) = [\<lparr>al_Name = packageName (hi_Name helm), al_Version = hi_Version helm\<rparr>]"
  "gd_DeploymentProfiles (generatedPackage helm namespace) = [\<lparr>gdp_Name = ''default'',
     gdp_ApplicationProfiles = [\<lparr>apl_Application = packageName (hi_Name helm), apl_Profile = ''default''\<rparr>]\<rparr>]"
  by (simp_all add: generatedApplication_def generatedPackage_def generatedRegistry_def Let_def)

lemma writeFile_Inr: "writeFile os path contents files = Inr files1 \<longleftrightarrow> to_writeFile os path = None \<and> files1 = (path, contents) # files"
  by (auto simp: writeFile_def split: option.splits)

lemma writeValues_Inr:
  assumes "writeValues os helm valuesFile outputDir files = Inr files1"
  shows "\<exists>contents. files1 = (outputDir @ ''/'' @ packageName (hi_Name helm) @ ''-values.yaml'', contents) # files \<and>
    (valuesFile \<noteq> [] \<longrightarrow> readFile os valuesFile files = Inr contents)"
  using assms by (auto simp: writeValues_def Let_def writeFile_def split: if_splits sum.splits option.splits)

text \<open>
  C35. When the generator succeeds it has written exactly four files of four different paths, which begin with the output
  directory and the name of the application: the application, the package, the registry and the values. They fit
  together: the application takes its chart from the generated registry and its one profile from the values file, which has the
  contents of the file the user gave, unless that is one of the files written before; the package has the application, in its
  version, and its deployment profile the application's profile. The credentials of the user are part of the
  registry only when asked for.
\<close>

theorem generated_files_fit_together:
  assumes "GenerateDeploymentPackage os helm valuesFile outputDir namespace includeAuth [] = (None, files)"
  shows "\<exists>app pkg reg appYaml pkgYaml regYaml vals.
    to_marshalApplication os app = Inr appYaml \<and> to_marshalPackage os pkg = Inr pkgYaml \<and> to_marshalRegistry os reg = Inr regYaml \<and>
    files = [(outputDir @ ''/'' @ ga_Name app @ ''-values.yaml'', vals),
      (outputDir @ ''/'' @ ga_Name app @ ''-registry.yaml'', appendHeader regYaml ''Registry''),
      (outputDir @ ''/'' @ ga_Name app @ ''-deployment-package.yaml'', appendHeader pkgYaml ''DeploymentPackage''),
      (outputDir @ ''/'' @ ga_Name app @ ''-application.yaml'', appendHeader appYaml ''Application'')] \<and>
    distinct (map fst files) \<and>
    ga_HelmRegistry app = gr_Name reg \<and> gr_RootURL reg = hi_OCIRegistry helm \<and> ga_ChartName app = hi_Name helm \<and>
    (\<exists>profile. ga_Profiles app = [profile] \<and> map_of files (outputDir @ ''/'' @ gp_ValuesFileName profile) = Some vals \<and>
      gd_Applications pkg = [\<lparr>al_Name = ga_Name app, al_Version = ga_Version app\<rparr>] \<and>
      map gdp_ApplicationProfiles (gd_DeploymentProfiles pkg) =
        [[\<lparr>apl_Application = ga_Name app, apl_Profile = gp_Name profile\<rparr>]]) \<and>
    (valuesFile \<noteq> [] \<and> valuesFile \<notin> set (map fst (tl files)) \<longrightarrow> to_readFile os valuesFile = Inr vals) \<and>
    (\<not> includeAuth \<longrightarrow> gr_Username reg = [] \<and> gr_Authtoken reg = [])"
proof -
  let ?app = "generatedApplication helm" and ?pkg = "generatedPackage helm namespace" and ?reg = "generatedRegistry helm includeAuth"
  let ?path = "\<lambda>ending. outputDir @ ''/'' @ packageName (hi_Name helm) @ ending"
  let ?files = "\<lambda>appYaml pkgYaml regYaml. [(?path ''-registry.yaml'', appendHeader regYaml ''Registry''),
    (?path ''-deployment-package.yaml'', appendHeader pkgYaml ''DeploymentPackage''),
    (?path ''-application.yaml'', appendHeader appYaml ''Application'')]"
  from assms obtain appYaml pkgYaml regYaml where m: "to_marshalApplication os ?app = Inr appYaml"
    "to_marshalPackage os ?pkg = Inr pkgYaml" "to_marshalRegistry os ?reg = Inr regYaml"
    "writeValues os helm valuesFile outputDir (?files appYaml pkgYaml regYaml) = Inr files"
    by (auto simp: GenerateDeploymentPackage_def Let_def writeFile_Inr split: option.splits sum.splits)
  from writeValues_Inr [OF m(4)] obtain vals where v:
    "files = (outputDir @ ''/'' @ packageName (hi_Name helm) @ ''-values.yaml'', vals) # ?files appYaml pkgYaml regYaml"
    "valuesFile \<noteq> [] \<longrightarrow> readFile os valuesFile (?files appYaml pkgYaml regYaml) = Inr vals" by blast
  have given: "valuesFile \<noteq> [] \<and> valuesFile \<notin> set (map fst (tl files)) \<longrightarrow> to_readFile os valuesFile = Inr vals"
    using v(2) by (auto simp: v(1) readFile_def)
  show ?thesis
    by (rule exI [of _ ?app], rule exI [of _ ?pkg], rule exI [of _ ?reg], rule exI [of _ appYaml], rule exI [of _ pkgYaml],
        rule exI [of _ regYaml], rule exI [of _ vals], intro conjI given) (simp_all add: m(1-3) v(1) generated_fields)
qed

definition sampleTool :: tool where
  "sampleTool = \<lparr>to_marshalApplication = (\<lambda>a. Inr (ga_Name a)), to_marshalPackage = (\<lambda>p. Inr (gd_Name p)),
     to_marshalRegistry = (\<lambda>r. Inr (gr_Name r)), to_unmarshal = (\<lambda>_. None), to_mkdir = (\<lambda>_. None), to_writeFile = (\<lambda>_. None),
     to_readFile = (\<lambda>_. Inr ''values'')\<rparr>"

definition sampleHelm :: HelmInfo where
  "sampleHelm = \<lparr>hi_Name = ''web'', hi_Version = ''1.0'', hi_Description = [], hi_OCIRegistry = ''oci://host/charts'',
     hi_Username = ''user'', hi_Password = ''secret''\<rparr>"

theorem generated_files_fit_together_witness:
  "map fst (snd (GenerateDeploymentPackage sampleTool sampleHelm ''my-values.yaml'' ''out'' [] False [])) =
     [''out/web-values.yaml'', ''out/web-registry.yaml'', ''out/web-deployment-package.yaml'', ''out/web-application.yaml''] \<and>
   map_of (snd (GenerateDeploymentPackage sampleTool sampleHelm ''my-values.yaml'' ''out'' [] False [])) ''out/web-values.yaml'' =
     Some ''values'' \<and>
   (\<exists>reg. to_marshalRegistry sampleTool reg = Inr ''web-registry'' \<and> gr_Authtoken reg = [])"
proof -
  let ?r = "GenerateDeploymentPackage sampleTool sampleHelm ''my-values.yaml'' ''out'' [] False []"
  have r: "?r = (None, snd ?r)" "map fst (snd ?r) =
      [''out/web-values.yaml'', ''out/web-registry.yaml'', ''out/web-deployment-package.yaml'', ''out/web-application.yaml'']"
    "map_of (snd ?r) ''out/web-values.yaml'' = Some ''values''"
    by (simp_all add: GenerateDeploymentPackage_def sampleTool_def sampleHelm_def packageName_def writeFile_def readFile_def
        writeValues_def generatedApplication_def generatedPackage_def generatedRegistry_def Let_def)
  have written: "snd ?r ! 1 = (''out/web-registry.yaml'', appendHeader ''web-registry'' ''Registry'')"
    by (simp add: GenerateDeploymentPackage_def sampleTool_def sampleHelm_def packageName_def writeFile_def readFile_def
        writeValues_def generatedApplication_def generatedPackage_def generatedRegistry_def Let_def)
  from generated_files_fit_together [OF r(1)] obtain reg regYaml path where
    reg: "to_marshalRegistry sampleTool reg = Inr regYaml" "gr_Authtoken reg = []"
    "snd ?r ! 1 = (path, appendHeader regYaml ''Registry'')" by auto
  from reg(3) written have "regYaml = ''web-registry''" by (simp add: appendHeader_def)
  with reg r(2,3) show ?thesis by blast
qed

end
