(* ===== verification/Rest_Proxy.thy ===== *)
theory Rest_Proxy
  imports Helm_Charts
begin

text \<open>
  The hand-written handlers of the REST proxy, \<^verbatim>\<open>internal/restproxy\<close>: the upload of the files of a form as one
  session of the catalog (\<^verbatim>\<open>upload-handler.go\<close>), the list of charts of a registry (\<^verbatim>\<open>charts-handler.go\<close>,
  \<^verbatim>\<open>repo-oci.go\<close>), and the sessions over which a browser subscribes to events (\<^verbatim>\<open>session.go\<close>,
  \<^verbatim>\<open>event-handler.go\<close>). The catalog is called through its handlers; HTTP, the parsing of forms and of JSON
  and the transport are parameters.
\<close>

section \<open>Headers\<close>

record headers =
  hd_Authorization :: string
  hd_UserAgent :: string
  hd_ActiveProjectID :: string

definition headerMetadata :: "headers \<Rightarrow> metadata" where
  "headerMetadata h = [(''authorization'', [hd_Authorization h]), (''user-agent'', [hd_UserAgent h]),
     (''activeprojectid'', [hd_ActiveProjectID h])]"

text \<open>What a request brings: its headers, and the metadata the catalog sees of those the proxy sends.\<close>

record proxy =
  px_headers :: headers
  px_deliver :: "metadata \<Rightarrow> metadata option"

definition catalogContext :: "proxy \<Rightarrow> metadata option" where
  "catalogContext px = px_deliver px (headerMetadata (px_headers px))"

section \<open>Uploads\<close>

record formFile =
  ff_Filename :: string
  ff_ContentDisposition :: string
  ff_Open :: "string option"
  ff_contents :: "string + string"

text \<open>
  The first match of the expression for a quoted file name: the name reaches to the last quote of the line.
\<close>

fun dispositionName :: "string \<Rightarrow> string option" where
  "dispositionName [] = None"
| "dispositionName (c # cs) =
     (if take 10 (c # cs) = ''filename='' @ [CHR 0x22] then
        (case splitLast (CHR 0x22) (takeWhile (\<lambda>x. x \<noteq> CHR 0x0A) (drop 10 (c # cs))) of
           Some (name, _) \<Rightarrow> Some name
         | None \<Rightarrow> dispositionName cs)
      else dispositionName cs)"

definition uploadPath :: "formFile \<Rightarrow> string" where
  "uploadPath file = (case dispositionName (ff_ContentDisposition file) of Some path \<Rightarrow> path | None \<Rightarrow> ff_Filename file)"

record uploadResponse =
  ur_SessionId :: string
  ur_ErrorMessages :: "string list"

datatype httpReply = HttpError nat string | HttpResponses nat "uploadResponse list"

text \<open>The environment may be different for each call to the catalog.\<close>

fun uploadFiles ::
    "(nat \<Rightarrow> env) \<Rightarrow> metadata option \<Rightarrow> nat \<Rightarrow> nat \<Rightarrow> formFile list \<Rightarrow> string \<Rightarrow> uploadResponse list \<Rightarrow> nat \<Rightarrow> server \<Rightarrow>
     httpReply \<times> server" where
  "uploadFiles envs ctx filesCount index [] sessionID responses status srv = (HttpResponses status responses, srv)"
| "uploadFiles envs ctx filesCount index (file # files) sessionID responses status srv =
     (case ff_Open file of
        Some err \<Rightarrow> (HttpError 500 err, srv)
      | None \<Rightarrow>
     (case ff_contents file of
        Inl err \<Rightarrow> (HttpError 500 err, srv)
      | Inr content \<Rightarrow>
     (case UploadCatalogEntities (envs index) ctx
             (Some \<lparr>ue_SessionId = sessionID, ue_UploadNumber = 0, ue_LastUpload = (index + 1 = filesCount),
                    ue_Upload = Some \<lparr>up_FileName = uploadPath file, up_Artifact = content\<rparr>\<rparr>) srv of
        (Inl err, srv1) \<Rightarrow>
          uploadFiles envs ctx filesCount (Suc index) files sessionID
            (responses @ [\<lparr>ur_SessionId = sessionID, ur_ErrorMessages = [e_errorText (envs index) err]\<rparr>]) 400 srv1
      | (Inr res, srv1) \<Rightarrow>
          uploadFiles envs ctx filesCount (Suc index) files res
            (responses @ [\<lparr>ur_SessionId = res, ur_ErrorMessages = []\<rparr>]) status srv1)))"

definition UploadForm :: "(nat \<Rightarrow> env) \<Rightarrow> proxy \<Rightarrow> string + formFile list \<Rightarrow> server \<Rightarrow> httpReply \<times> server" where
  "UploadForm envs px form srv =
     (case form of
        Inl err \<Rightarrow> (HttpError 500 err, srv)
      | Inr files \<Rightarrow> uploadFiles envs (catalogContext px) (length files) 0 files [] [] 200 srv)"

section \<open>Charts\<close>

text \<open>\<^verbatim>\<open>strings.Replace\<close> of the first occurrence.\<close>

fun replaceFirst :: "string \<Rightarrow> string \<Rightarrow> string \<Rightarrow> string" where
  "replaceFirst old new [] = []"
| "replaceFirst old new (c # cs) =
     (if take (length old) (c # cs) = old then new @ drop (length old) (c # cs) else c # replaceFirst old new cs)"

definition inventoryURL :: "Registry \<Rightarrow> string \<Rightarrow> string" where
  "inventoryURL registry chartName =
     (let url = replaceFirst ''oci://'' ''https://'' (r_InventoryUrl registry);
          repositories = (if HasSuffix url ''/'' then url @ ''repositories'' else url @ ''/repositories'')
      in if chartName \<noteq> [] then repositories @ ''/'' @ chartName @ ''/artifacts'' else repositories)"

datatype httpAuth = BasicAuth string string | BearerAuth string | NoAuthorization

definition harborAuth :: "Registry \<Rightarrow> httpAuth" where
  "harborAuth registry =
     (if r_Username registry \<noteq> [] then BasicAuth (r_Username registry) (r_AuthToken registry)
      else if r_AuthToken registry \<noteq> [] then BearerAuth (r_AuthToken registry) else NoAuthorization)"

text \<open>
  The registry's API and the JSON decoders: the answer to a request with the certificates and the authorization, as a status
  and a body, the names of a list of repositories and the versions of a list of artifacts.
\<close>

record harbor =
  ha_request :: "string \<Rightarrow> string option"
  ha_get :: "string \<Rightarrow> httpAuth \<Rightarrow> string \<Rightarrow> string + nat \<times> (string + string)"
  ha_names :: "string \<Rightarrow> string + string list"
  ha_versions :: "string \<Rightarrow> string + string list"

text \<open>The reply of the proxy: an aborted request with its status, or the list written.\<close>

datatype chartsReply = Aborted nat | Charts "string list"

definition callHarborAPI :: "harbor \<Rightarrow> Registry \<Rightarrow> string \<Rightarrow> nat + string" where
  "callHarborAPI hb registry url =
     (case ha_request hb url of
        Some err \<Rightarrow> Inl 500
      | None \<Rightarrow>
     (case ha_get hb (r_Cacerts registry) (harborAuth registry) url of
        Inl err \<Rightarrow> Inl 500
      | Inr (status, body) \<Rightarrow>
          if status \<noteq> 200 then Inl status
          else (case body of Inl err \<Rightarrow> Inl 500 | Inr resBody \<Rightarrow> Inr resBody)))"

text \<open>\<^verbatim>\<open>strings.SplitN(name, "/", 2)\<close>: the part after the first slash, or all of it.\<close>

definition chartName :: "string \<Rightarrow> string" where
  "chartName name = (if CHR ''/'' \<in> set name then tl (dropWhile (\<lambda>c. c \<noteq> CHR ''/'') name) else name)"

definition parseChartNames :: "harbor \<Rightarrow> string \<Rightarrow> string + string list" where
  "parseChartNames hb response = map_sum (\<lambda>e. e) (map chartName) (ha_names hb response)"

definition parseOCIRecords :: "harbor \<Rightarrow> string \<Rightarrow> string \<Rightarrow> string + string list" where
  "parseOCIRecords hb response chart = (if chart = [] then parseChartNames hb response else ha_versions hb response)"

definition fetchOCIChartsList :: "harbor \<Rightarrow> Registry \<Rightarrow> string \<Rightarrow> chartsReply" where
  "fetchOCIChartsList hb registry chart =
     (case callHarborAPI hb registry (inventoryURL registry chart) of
        Inl status \<Rightarrow> Aborted status
      | Inr resBody \<Rightarrow>
     (case parseOCIRecords hb resBody chart of
        Inl err \<Rightarrow> Aborted 500
      | Inr items \<Rightarrow> Charts items))"

text \<open>
  The first status written is the one sent. A registry without an inventory is answered with
  204, and the handler goes on: the later 501 comes too late.
\<close>

definition FetchChartsList :: "env \<Rightarrow> proxy \<Rightarrow> harbor \<Rightarrow> string \<Rightarrow> string \<Rightarrow> server \<Rightarrow> chartsReply \<times> server" where
  "FetchChartsList env px hb registryName chart srv =
     (case GetRegistry env (catalogContext px) registryName True srv of
        (Inl err, srv1) \<Rightarrow> (Aborted 500, srv1)
      | (Inr registry, srv1) \<Rightarrow>
          if r_InventoryUrl registry = [] then (Aborted 204, srv1)
          else if sublist ''/api/v2.0/projects/'' (r_InventoryUrl registry) then (fetchOCIChartsList hb registry chart, srv1)
          else (Aborted 501, srv1))"

section \<open>Event sessions\<close>

record Message =
  ms_Op :: string
  ms_Kind :: string
  ms_Project :: string
  ms_Payload :: "string option"

definition eventKinds :: "string list" where
  "eventKinds = [''Registry'', ''Artifact'', ''Application'', ''DeploymentPackage'']"

text \<open>
  A session: the cancellation of each kind subscribed to, named by the number of its context, the contexts that were
  cancelled, the watches that run, each with its context, kind and project, and what was sent to the browser. The number of
  contexts made so far gives the next. Cancelling a context does not wait for its watch, which runs until its stream reports
  the end: until then it can relay events it received before.
\<close>

record Session =
  se_cancellations :: "(string \<times> nat) list"
  se_cancelled :: "nat list"
  se_watches :: "(nat \<times> string \<times> string) list"
  se_sent :: "Message list"
  se_contexts :: nat

definition NewSession :: Session where
  "NewSession = \<lparr>se_cancellations = [], se_cancelled = [], se_watches = [], se_sent = [], se_contexts = 0\<rparr>"

definition sendMessage :: "Message \<Rightarrow> Session \<Rightarrow> Session" where
  "sendMessage msg s = s\<lparr>se_sent := se_sent s @ [msg]\<rparr>"

definition startWatching :: "nat \<Rightarrow> string \<Rightarrow> string \<Rightarrow> Session \<Rightarrow> Session" where
  "startWatching ctx kind projectUUID s =
     (if kind \<in> set eventKinds then s\<lparr>se_watches := se_watches s @ [(ctx, kind, projectUUID)]\<rparr> else s)"

definition addSubscription :: "string \<Rightarrow> string \<Rightarrow> Session \<Rightarrow> Session" where
  "addSubscription kind projectUUID s =
     sendMessage \<lparr>ms_Op = ''subscribed'', ms_Kind = kind, ms_Project = projectUUID, ms_Payload = None\<rparr>
       (case map_of (se_cancellations s) kind of
          Some _ \<Rightarrow> s
        | None \<Rightarrow> startWatching (se_contexts s) kind projectUUID
            (s\<lparr>se_cancellations := AList.update kind (se_contexts s) (se_cancellations s), se_contexts := Suc (se_contexts s)\<rparr>))"

definition removeSubscription :: "string \<Rightarrow> Session \<Rightarrow> Session" where
  "removeSubscription kind s =
     sendMessage \<lparr>ms_Op = ''unsubscribed'', ms_Kind = kind, ms_Project = [], ms_Payload = None\<rparr>
       (case map_of (se_cancellations s) kind of
          None \<Rightarrow> s
        | Some ctx \<Rightarrow> s\<lparr>se_cancellations := AList.delete kind (se_cancellations s), se_cancelled := se_cancelled s @ [ctx]\<rparr>)"

text \<open>
  An event of a running watch is relayed, cancelled or not. A watch whose stream fails or whose cancellation
  took effect ends; a subscription it has stays.
\<close>

definition relayEvent :: "nat \<Rightarrow> string \<Rightarrow> string \<Rightarrow> string \<Rightarrow> Session \<Rightarrow> Session" where
  "relayEvent ctx op project payload s =
     (case map_of (se_watches s) ctx of
        None \<Rightarrow> s
      | Some (kind, _) \<Rightarrow> sendMessage \<lparr>ms_Op = op, ms_Kind = kind, ms_Project = project, ms_Payload = Some payload\<rparr> s)"

definition endWatch :: "nat \<Rightarrow> Session \<Rightarrow> Session" where
  "endWatch ctx s = s\<lparr>se_watches := List.filter (\<lambda>w. fst w \<noteq> ctx) (se_watches s)\<rparr>"

definition handleMessage :: "Message \<Rightarrow> Session \<Rightarrow> Session" where
  "handleMessage msg s =
     (if ms_Op msg = ''subscribe'' then addSubscription (ms_Kind msg) (ms_Project msg) s
      else if ms_Op msg = ''unsubscribe'' then removeSubscription (ms_Kind msg) s else s)"

text \<open>
  The event handler: the sessions by their identifier. A session is added when its socket opens and handles the
  messages of the browser; the signal that it is done leaves the selection of the next signal and not the loop, so that
  only the end of the channel of messages removes it.
\<close>

datatype sessionSignal = Opened | Received Message | Relayed nat string string string | WatchEnded nat | Done | MessagesClosed

definition signalSession :: "string \<Rightarrow> sessionSignal \<Rightarrow> (string \<times> Session) list \<Rightarrow> (string \<times> Session) list" where
  "signalSession i sig sessions =
     (case sig of
        Opened \<Rightarrow> AList.update i NewSession sessions
      | MessagesClosed \<Rightarrow> AList.delete i sessions
      | Done \<Rightarrow> sessions
      | Received msg \<Rightarrow> AList.map_entry i (handleMessage msg) sessions
      | Relayed ctx op project payload \<Rightarrow> AList.map_entry i (relayEvent ctx op project payload) sessions
      | WatchEnded ctx \<Rightarrow> AList.map_entry i (endWatch ctx) sessions)"

end
