(* ===== verification/Proxy_Properties.thy ===== *)
theory Proxy_Properties
  imports Upload_Properties Rest_Proxy
begin

text \<open>
  The REST proxy and the catalog together: the files of a form make up one session, what happens when one of them is
  refused, and the subscriptions of a browser.
\<close>

section \<open>Uploads of forms\<close>

lemma transaction_sessions [simp]:
  "sv_sessions (rollbackTransaction t srv) = sv_sessions srv" "sv_sessions (abandonTransaction t srv) = sv_sessions srv"
  "sv_sessions (sendSession t srv) = sv_sessions srv"
  by (simp_all add: rollbackTransaction_def abandonTransaction_def sendSession_def sendRegistry_def sendArtifact_def
      sendApplication_def sendDeploymentPackage_def)

text \<open>A session of the server, under its own identifier, for a project and with these files.\<close>

definition holdsSession :: "server \<Rightarrow> string \<Rightarrow> string \<Rightarrow> Upload list \<Rightarrow> bool" where
  "holdsSession srv sid p files \<longleftrightarrow>
     (\<exists>session. map_of (sv_sessions srv) sid = Some session \<and> us_sessionID session = sid \<and> us_projectUUID session = p \<and>
        us_uploads session = files)"

lemma holdsSession_put:
  assumes "us_sessionID u = sid" and "us_projectUUID u = p" and "us_uploads u = files"
  shows "holdsSession (putSession u srv) sid p files" "holdsSession (keepQueues u t srv) sid p files"
  using assms by (auto simp: holdsSession_def putSession_def keepQueues_def AList.update_conv')

lemma holdsSession_frame: "sv_sessions srv1 = sv_sessions srv \<Longrightarrow> holdsSession srv1 sid p files = holdsSession srv sid p files"
  by (simp add: holdsSession_def)

lemma processLast_session:
  assumes "processLast env u srv = (Inr sid, srv1)"
  shows "sid = us_sessionID u \<and> holdsSession srv1 sid (us_projectUUID u) (us_uploads u)"
proof -
  obtain t srv2 srv3 where "srv1 = sendSession t (keepQueues u t srv3)" "sid = us_sessionID u"
    using assms by (auto simp: processLast_def split: prod.splits sum.splits if_splits)
  with holdsSession_put(2) [of u sid] holdsSession_frame [of srv1] show ?thesis by simp
qed

lemma uploadTo_session:
  assumes "uploadTo env final f session srv = (Inr sid, srv1)"
  shows "sid = us_sessionID session \<and> holdsSession srv1 sid (us_projectUUID session) (us_uploads session @ [f])"
  using assms processLast_session [of env "session\<lparr>us_uploads := us_uploads session @ [f]\<rparr>"]
  by (auto simp: uploadTo_def Let_def holdsSession_put split: sum.splits if_splits)

lemma UploadCatalogEntities_session:
  assumes "UploadCatalogEntities env ctx (Some req) srv = (Inr sid, srv1)" and "GetActiveProjectID ctx = Inr p"
    and "ue_Upload req = Some f"
    and "ue_SessionId req = [] \<and> files = [] \<or> ue_SessionId req \<noteq> [] \<and> holdsSession srv (ue_SessionId req) p files"
  shows "sid = (if ue_SessionId req = [] then e_uuid env else ue_SessionId req) \<and> holdsSession srv1 sid p (files @ [f])"
proof (cases "ue_SessionId req = []")
  case True
  with assms obtain session srv0 where "newSession env p srv = (session, srv0)"
    "uploadTo env (ue_LastUpload req) f session srv0 = (Inr sid, srv1)"
    by (auto simp: UploadCatalogEntities_def split: sum.splits prod.splits)
  with uploadTo_session [of env _ f session srv0 sid srv1] True assms(4) show ?thesis by (auto simp: newSession_def Let_def)
next
  case False
  with assms obtain session where "getSession (ue_SessionId req) p srv = Inr session"
    "uploadTo env (ue_LastUpload req) f session srv = (Inr sid, srv1)"
    by (auto simp: UploadCatalogEntities_def split: sum.splits)
  moreover from this(1) False assms(4) have "us_sessionID session = ue_SessionId req" "us_projectUUID session = p"
    "us_uploads session = files" by (auto simp: getSession_def holdsSession_def split: option.splits if_splits)
  ultimately show ?thesis using uploadTo_session [of env _ f session srv sid srv1] False by simp
qed

text \<open>The upload the proxy sends for a file of the form.\<close>

definition uploadOf :: "formFile \<Rightarrow> Upload option" where
  "uploadOf f =
     (case (ff_Open f, ff_contents f) of
        (None, Inr content) \<Rightarrow> Some \<lparr>up_FileName = uploadPath f, up_Artifact = content\<rparr>
      | _ \<Rightarrow> None)"

lemma uploadFiles_error_status:
  assumes "uploadFiles envs ctx n i files sid responses 400 srv = (HttpResponses status out, srv1)"
  shows "status = 400"
  using assms
proof (induction files arbitrary: i sid responses srv)
  case (Cons f files)
  then show ?case by (auto split: option.splits sum.splits prod.splits)
qed simp

lemma uploadFiles_session:
  assumes "uploadFiles envs ctx n i files sid responses 200 srv = (HttpResponses 200 out, srv1)"
    and "GetActiveProjectID ctx = Inr p" and "\<And>j. e_uuid (envs j) \<noteq> []"
    and "sid = [] \<and> prior = [] \<or> sid \<noteq> [] \<and> holdsSession srv sid p prior" and "sid \<noteq> [] \<or> files \<noteq> []"
  shows "\<exists>uploads sid1. map uploadOf files = map Some uploads \<and> holdsSession srv1 sid1 p (prior @ uploads) \<and>
    (sid \<noteq> [] \<longrightarrow> sid1 = sid) \<and> out = responses @ replicate (length files) \<lparr>ur_SessionId = sid1, ur_ErrorMessages = []\<rparr>"
  using assms(1,4,5)
proof (induction files arbitrary: i sid responses srv prior)
  case Nil
  then show ?case by auto
next
  case (Cons f files)
  from Cons.prems(1) obtain content where up: "uploadOf f = Some \<lparr>up_FileName = uploadPath f, up_Artifact = content\<rparr>"
    "ff_Open f = None" "ff_contents f = Inr content"
    by (auto simp: uploadOf_def split: option.splits sum.splits)
  let ?req = "\<lparr>ue_SessionId = sid, ue_UploadNumber = 0, ue_LastUpload = (i + 1 = n),
    ue_Upload = Some \<lparr>up_FileName = uploadPath f, up_Artifact = content\<rparr>\<rparr>"
  obtain res srv0 where call: "UploadCatalogEntities (envs i) ctx (Some ?req) srv = (Inr res, srv0)"
    "uploadFiles envs ctx n (Suc i) files res (responses @ [\<lparr>ur_SessionId = res, ur_ErrorMessages = []\<rparr>]) 200 srv0 =
       (HttpResponses 200 out, srv1)"
    using Cons.prems(1) up(2,3) uploadFiles_error_status [of envs ctx n "Suc i" files sid _ _ 200 out srv1]
    by (cases "UploadCatalogEntities (envs i) ctx (Some ?req) srv"; cases "fst (UploadCatalogEntities (envs i) ctx (Some ?req) srv)") force+
  have res: "res = (if sid = [] then e_uuid (envs i) else sid)"
    "holdsSession srv0 res p (prior @ [\<lparr>up_FileName = uploadPath f, up_Artifact = content\<rparr>])"
    using UploadCatalogEntities_session [OF call(1) assms(2), of _ prior] Cons.prems(2) by auto
  have "res \<noteq> []" using res(1) assms(3) by simp
  with Cons.IH [OF call(2), of "prior @ [\<lparr>up_FileName = uploadPath f, up_Artifact = content\<rparr>]"] res(2)
  obtain uploads where "map uploadOf files = map Some uploads"
    "holdsSession srv1 res p ((prior @ [\<lparr>up_FileName = uploadPath f, up_Artifact = content\<rparr>]) @ uploads)"
    "out = (responses @ [\<lparr>ur_SessionId = res, ur_ErrorMessages = []\<rparr>]) @
       replicate (length files) \<lparr>ur_SessionId = res, ur_ErrorMessages = []\<rparr>" by auto
  then show ?case using up(1) res(1)
    by (intro exI [of _ "\<lparr>up_FileName = uploadPath f, up_Artifact = content\<rparr> # uploads"] exI [of _ res]) auto
qed

text \<open>
  C8. When the upload of a form is answered without an error, the files of the form, in their order and with the paths
  the browser gave, are the uploads of one session of the active project, and every response carries its identifier.
\<close>

theorem form_is_one_session:
  assumes "UploadForm envs px (Inr files) srv = (HttpResponses 200 responses, srv1)" and "files \<noteq> []"
    and "GetActiveProjectID (catalogContext px) = Inr p" and "\<And>j. e_uuid (envs j) \<noteq> []"
  shows "\<exists>sid session. map_of (sv_sessions srv1) sid = Some session \<and> us_projectUUID session = p \<and>
    map uploadOf files = map Some (us_uploads session) \<and>
    responses = replicate (length files) \<lparr>ur_SessionId = sid, ur_ErrorMessages = []\<rparr>"
  using uploadFiles_session [of envs "catalogContext px" "length files" 0 files "[]" "[]" srv responses srv1 p "[]"] assms
  by (auto simp: UploadForm_def holdsSession_def)

definition sampleProxy :: proxy where
  "sampleProxy = \<lparr>px_headers = \<lparr>hd_Authorization = [], hd_UserAgent = [], hd_ActiveProjectID = ''p1''\<rparr>, px_deliver = Some\<rparr>"

definition formFileOf :: "string \<Rightarrow> string \<Rightarrow> formFile" where
  "formFileOf name contents = \<lparr>ff_Filename = name, ff_ContentDisposition = [], ff_Open = None, ff_contents = Inr contents\<rparr>"

lemma sampleProxyProject: "GetActiveProjectID (catalogContext sampleProxy) = Inr ''p1''"
  by (simp add: catalogContext_def sampleProxy_def headerMetadata_def GetActiveProjectID_def md_Get_def ToLower_def lowerChar_def)

lemmas form_eval = UploadForm_def formFileOf_def uploadPath_def sampleProxyProject upload_eval

theorem form_is_one_session_witness:
  "\<exists>responses srv1 session. UploadForm (\<lambda>_. uploadEnv []) sampleProxy (Inr [formFileOf ''a.yaml'' [], formFileOf ''b.yaml'' []]) Register =
     (HttpResponses 200 responses, srv1) \<and> map_of (sv_sessions srv1) ''s1'' = Some session \<and> length (us_uploads session) = 2"
proof -
  let ?files = "[formFileOf ''a.yaml'' [], formFileOf ''b.yaml'' []]"
  obtain responses srv1 where run: "UploadForm (\<lambda>_. uploadEnv []) sampleProxy (Inr ?files) Register = (HttpResponses 200 responses, srv1)"
    and "responses = [\<lparr>ur_SessionId = ''s1'', ur_ErrorMessages = []\<rparr>, \<lparr>ur_SessionId = ''s1'', ur_ErrorMessages = []\<rparr>]"
    by (simp add: form_eval)
  moreover have "e_uuid (uploadEnv []) \<noteq> []" by (simp add: uploadEnv_def sampleEnv_def)
  ultimately show ?thesis
    using form_is_one_session [OF run _ sampleProxyProject] by (auto dest!: map_eq_imp_length_eq)
qed

definition suspicious :: scanner where
  "suspicious = \<lparr>sc_ScanBytes = (\<lambda>contents. if contents = ''virus'' then ScanInfected ''virus'' else ScanClean), sc_permissive = False\<rparr>"

text \<open>
  A file that is refused does not stop the upload: of a form with a file the scanner reports and a file
  that describes a registry, the first is refused, and the registry is created all the same although the answer is that
  the request was bad.
\<close>

theorem refused_file_does_not_stop_the_upload:
  "\<exists>responses srv1. UploadForm (\<lambda>_. (uploadEnv [registryDoc])\<lparr>e_scanner := Some suspicious\<rparr>) sampleProxy
       (Inr [formFileOf ''bad.yaml'' ''virus'', formFileOf ''f.yaml'' []]) Register = (HttpResponses 400 responses, srv1) \<and>
     map rdb_Name (t_registries (sv_db srv1)) = [''r1'']"
  by (simp add: form_eval suspicious_def)

section \<open>Subscriptions\<close>

definition live :: "Session \<Rightarrow> (nat \<times> string \<times> string) list" where
  "live s = List.filter (\<lambda>w. fst w \<notin> set (se_cancelled s)) (se_watches s)"

definition session_ok :: "Session \<Rightarrow> bool" where
  "session_ok s \<longleftrightarrow> distinct (map fst (se_watches s)) \<and>
     (\<forall>w \<in> set (live s). map_of (se_cancellations s) (fst (snd w)) = Some (fst w)) \<and>
     (\<forall>ctx \<in> fst ` set (se_watches s) \<union> set (se_cancelled s). ctx < se_contexts s) \<and>
     (\<forall>kind ctx. map_of (se_cancellations s) kind = Some ctx \<longrightarrow> ctx < se_contexts s)"

lemma session_ok_new: "session_ok NewSession"
  by (simp add: session_ok_def NewSession_def live_def)

lemma session_ok_send [simp]: "session_ok (sendMessage msg s) = session_ok s"
  by (simp add: session_ok_def sendMessage_def live_def)

lemma session_ok_subscribe:
  assumes "session_ok s" and "map_of (se_cancellations s) kind = None"
  shows "session_ok (startWatching (se_contexts s) kind projectUUID
     (s\<lparr>se_cancellations := AList.update kind (se_contexts s) (se_cancellations s), se_contexts := Suc (se_contexts s)\<rparr>))"
  using assms by (fastforce simp: startWatching_def session_ok_def live_def update_conv' less_Suc_eq)

lemma session_ok_add: "session_ok s \<Longrightarrow> session_ok (addSubscription kind project s)"
  unfolding addSubscription_def session_ok_send by (simp add: session_ok_subscribe split: option.split)

lemma session_ok_remove:
  assumes "session_ok s"
  shows "session_ok (removeSubscription kind s)"
proof (cases "map_of (se_cancellations s) kind")
  case None
  with assms show ?thesis by (simp add: removeSubscription_def)
next
  case (Some ctx)
  have own: "map_of (se_cancellations s) k = Some a" if "(a, k, b) \<in> set (se_watches s)" "a \<notin> set (se_cancelled s)" for a k b
    using assms that by (force simp: session_ok_def live_def)
  with assms Some show ?thesis
    unfolding removeSubscription_def session_ok_send by (fastforce simp: session_ok_def live_def delete_conv' dest: own)
qed

lemma session_ok_end: "session_ok s \<Longrightarrow> session_ok (endWatch ctx s)"
  by (auto simp: endWatch_def session_ok_def live_def distinct_map_filter)

lemma session_ok_relay: "session_ok s \<Longrightarrow> session_ok (relayEvent ctx op project payload s)"
  by (simp add: relayEvent_def split: option.splits prod.splits)

lemma session_ok_handle: "session_ok s \<Longrightarrow> session_ok (handleMessage msg s)"
  by (simp add: handleMessage_def session_ok_add session_ok_remove)

lemma live_kinds:
  assumes "session_ok s"
  shows "distinct (map (\<lambda>w. fst (snd w)) (live s))"
proof -
  have contexts: "distinct (map fst (live s))" using assms by (simp add: session_ok_def live_def distinct_map_filter)
  have "inj_on (\<lambda>w. fst (snd w)) (set (live s))"
  proof (rule inj_onI)
    fix v w assume vw: "v \<in> set (live s)" "w \<in> set (live s)" "fst (snd v) = fst (snd w)"
    then have "fst v = fst w" using assms unfolding session_ok_def by (metis option.inject)
    with vw contexts show "v = w" by (meson distinct_map inj_onD)
  qed
  with contexts show ?thesis by (simp add: distinct_map)
qed

definition sessions_ok :: "(string \<times> Session) list \<Rightarrow> bool" where
  "sessions_ok sessions \<longleftrightarrow> (\<forall>s \<in> ran (map_of sessions). session_ok s)"

lemma sessions_okD: "\<lbrakk>sessions_ok sessions; map_of sessions i = Some s\<rbrakk> \<Longrightarrow> session_ok s"
  by (auto simp: sessions_ok_def intro: ranI)

lemma sessions_ok_update: "\<lbrakk>sessions_ok sessions; session_ok s\<rbrakk> \<Longrightarrow> sessions_ok (AList.update i s sessions)"
  by (auto simp: sessions_ok_def AList.update_conv' ran_def split: if_splits)

lemma sessions_ok_delete: "sessions_ok sessions \<Longrightarrow> sessions_ok (AList.delete i sessions)"
  by (auto simp: sessions_ok_def AList.delete_conv' ran_def split: if_splits)

lemma sessions_ok_map_entry:
  assumes "sessions_ok sessions" and "\<And>s. session_ok s \<Longrightarrow> session_ok (f s)"
  shows "sessions_ok (AList.map_entry i f sessions)"
  unfolding sessions_ok_def
proof
  fix s
  assume "s \<in> ran (map_of (AList.map_entry i f sessions))"
  then obtain j where "map_of (AList.map_entry i f sessions) j = Some s" by (auto simp: ran_def)
  then obtain t where "map_of sessions j = Some t" and "s = t \<or> s = f t"
    by (cases "j = i"; cases "map_of sessions i") (auto simp: AList.map_of_map_entry)
  with assms show "session_ok s" by (auto dest: sessions_okD)
qed

lemma signalSession_ok: "sessions_ok sessions \<Longrightarrow> sessions_ok (signalSession i sig sessions)"
  by (auto simp: signalSession_def session_ok_new session_ok_handle session_ok_relay session_ok_end
      intro!: sessions_ok_update sessions_ok_delete sessions_ok_map_entry split: sessionSignal.split)

text \<open>
  C23. However signals and messages of browsers are interleaved, the watches of a session that have not been cancelled are at
  most one for each kind of entity, and an unsubscription cancels every watch of its kind that still runs. A cancelled watch
  can go on for a while, beside a new one of its kind, and relay events after the unsubscription was confirmed.
\<close>

theorem one_watch_per_kind:
  assumes "map_of (foldl (\<lambda>ss (i, sig). signalSession i sig ss) [] signals) i = Some s"
  shows "distinct (map (\<lambda>w. fst (snd w)) (List.filter (\<lambda>w. fst w \<notin> set (se_cancelled s)) (se_watches s))) \<and>
    (\<forall>(ctx, kind, project) \<in> set (se_watches s). ctx \<in> set (se_cancelled (removeSubscription kind s)))"
proof -
  have "sessions_ok (foldl (\<lambda>ss (i, sig). signalSession i sig ss) sessions signals)" if "sessions_ok sessions" for sessions
    using that by (induction signals arbitrary: sessions) (auto simp: signalSession_ok)
  from this [of "[]"] assms have ok: "session_ok s" by (auto simp: sessions_ok_def ran_def)
  have "ctx \<in> set (se_cancelled (removeSubscription kind s))" if w: "(ctx, kind, project) \<in> set (se_watches s)" for ctx kind project
  proof (cases "ctx \<in> set (se_cancelled s)")
    case False
    with ok w have "map_of (se_cancellations s) kind = Some ctx" by (force simp: session_ok_def live_def)
    then show ?thesis by (simp add: removeSubscription_def sendMessage_def)
  qed (simp add: removeSubscription_def sendMessage_def split: option.split)
  with live_kinds [OF ok] show ?thesis by (auto simp: live_def)
qed

definition subscribeTo :: "string \<Rightarrow> Message" where
  "subscribeTo kind = \<lparr>ms_Op = ''subscribe'', ms_Kind = kind, ms_Project = ''p1'', ms_Payload = None\<rparr>"

definition unsubscribeFrom :: "string \<Rightarrow> Message" where
  "unsubscribeFrom kind = \<lparr>ms_Op = ''unsubscribe'', ms_Kind = kind, ms_Project = [], ms_Payload = None\<rparr>"

text \<open>
  Subscribed, subscribed again, unsubscribed and subscribed once more: two watches run, one of them cancelled, whose late
  event is relayed.
\<close>

theorem one_watch_per_kind_witness:
  "\<exists>s. map_of (foldl (\<lambda>ss (i, sig). signalSession i sig ss) []
      [(''s'', Opened), (''s'', Received (subscribeTo ''Registry'')), (''s'', Received (subscribeTo ''Registry'')),
       (''s'', Received (unsubscribeFrom ''Registry'')), (''s'', Received (subscribeTo ''Registry'')),
       (''s'', Relayed 0 ''created'' ''p1'' ''{}'')]) ''s'' = Some s \<and>
    length (se_watches s) = 2 \<and> ms_Op (last (se_sent s)) = ''created'' \<and>
    distinct (map (\<lambda>w. fst (snd w)) (List.filter (\<lambda>w. fst w \<notin> set (se_cancelled s)) (se_watches s))) \<and>
    {0, 1} \<subseteq> set (se_cancelled (removeSubscription ''Registry'' s))"
proof -
  let ?signals = "[(''s'', Opened), (''s'', Received (subscribeTo ''Registry'')), (''s'', Received (subscribeTo ''Registry'')),
       (''s'', Received (unsubscribeFrom ''Registry'')), (''s'', Received (subscribeTo ''Registry'')),
       (''s'', Relayed 0 ''created'' ''p1'' ''{}'')]"
  obtain s where s: "map_of (foldl (\<lambda>ss (i, sig). signalSession i sig ss) [] ?signals) ''s'' = Some s"
    "se_watches s = [(0, ''Registry'', ''p1''), (1, ''Registry'', ''p1'')]" "ms_Op (last (se_sent s)) = ''created''"
    by (simp add: signalSession_def handleMessage_def subscribeTo_def unsubscribeFrom_def addSubscription_def removeSubscription_def
        startWatching_def relayEvent_def sendMessage_def NewSession_def eventKinds_def)
  from one_watch_per_kind [OF s(1)] s show ?thesis by simp
qed

text \<open>
  A subscription that is confirmed need not be watched: a second subscription to a kind, for another project, is
  answered like the first, and the session goes on watching the first project only; and after the watch ended because its
  stream failed, a new subscription is confirmed and starts no watch.
\<close>

theorem confirmed_subscription_may_not_be_watched:
  assumes "map_of (se_cancellations s) kind = Some ctx"
  shows "se_watches (addSubscription kind project s) = se_watches s \<and>
    ctx \<notin> fst ` set (se_watches (addSubscription kind project (endWatch ctx s))) \<and>
    last (se_sent (addSubscription kind project s)) =
      \<lparr>ms_Op = ''subscribed'', ms_Kind = kind, ms_Project = project, ms_Payload = None\<rparr>"
  using assms by (auto simp: addSubscription_def sendMessage_def endWatch_def)

theorem confirmed_subscription_may_not_be_watched_witness:
  "map snd (se_watches (addSubscription ''Registry'' ''p2'' (addSubscription ''Registry'' ''p1'' NewSession))) = [(''Registry'', ''p1'')]"
proof -
  let ?s = "addSubscription ''Registry'' ''p1'' NewSession"
  have s: "map_of (se_cancellations ?s) ''Registry'' = Some 0" "map snd (se_watches ?s) = [(''Registry'', ''p1'')]"
    by (simp_all add: addSubscription_def startWatching_def sendMessage_def NewSession_def eventKinds_def)
  with confirmed_subscription_may_not_be_watched [OF s(1), of "''p2''"] show ?thesis by simp
qed

end
