(* ===== verification/Vault_Client.thy ===== *)
theory Vault_Client
  imports Transactions Validation
begin

text \<open>
  The client of the secret service, \<^verbatim>\<open>internal/northbound/vault.go\<close>: logging in with the token of the pod, and the secrets
  as values at paths, over HTTP. The service, the network, the JSON decoders and the file of the
  token are a parameter. The interface \<^verbatim>\<open>SecretService\<close> of the handlers is the locale \<open>secret_service\<close>; it is
  interpreted on the operations the transactions of the model use.
\<close>

section \<open>HTTP\<close>

datatype json = JNull | JBool bool | JNumber string | JString string | JArray "json list" | JObject "(string \<times> json) list"

record httpRequest =
  rq_method :: string
  rq_url :: string
  rq_headers :: "(string \<times> string) list"
  rq_body :: string

text \<open>The body of a response may fail to be read.\<close>

record httpResponse =
  rs_status :: nat
  rs_body :: "string + string"

text \<open>
  The token file, the role and the encoder of the login request; the check of a URL when a request is made; the
  service with its state; the decoder of the login response, up to the token; and that of a secret, up to its data.
\<close>

record 's vault =
  va_VaultServer :: string
  va_K8STokenFile :: "string + string"
  va_ServiceAccount :: string
  va_marshalLogin :: "string \<Rightarrow> string \<Rightarrow> string"
  va_newRequest :: "string \<Rightarrow> string option"
  va_do :: "httpRequest \<Rightarrow> 's \<Rightarrow> (string + httpResponse) \<times> 's"
  va_clientToken :: "string + string \<Rightarrow> string + string"
  va_secretData :: "string \<Rightarrow> string + (string \<times> json) list"

definition vaultK8SLoginURL :: string where "vaultK8SLoginURL = ''/v1/auth/kubernetes/login''"

definition vaultSecretBaseURL :: string where "vaultSecretBaseURL = ''/v1/secret/data/''"

definition vaultRevokeSelfURL :: string where "vaultRevokeSelfURL = ''/v1/auth/token/revoke-self''"

definition httpsVaultURL :: "'s vault \<Rightarrow> string \<Rightarrow> string" where
  "httpsVaultURL va path = va_VaultServer va @ path"

text \<open>Making a request and sending it.\<close>

definition doRequest :: "'s vault \<Rightarrow> httpRequest \<Rightarrow> 's \<Rightarrow> (string + httpResponse) \<times> 's" where
  "doRequest va rq s = (case va_newRequest va (rq_url rq) of Some err \<Rightarrow> (Inl err, s) | None \<Rightarrow> va_do va rq s)"

section \<open>Login and logout\<close>

record vaultServer =
  vs_vaultToken :: string

definition loginRequest :: "'s vault \<Rightarrow> string \<Rightarrow> httpRequest" where
  "loginRequest va tokenData =
     \<lparr>rq_method = ''POST'', rq_url = httpsVaultURL va vaultK8SLoginURL, rq_headers = [(''Content-Type'', ''application/json'')],
      rq_body = va_marshalLogin va tokenData (va_ServiceAccount va)\<rparr>"

text \<open>The status of the response is not looked at.\<close>

definition loginToVault :: "'s vault \<Rightarrow> 's \<Rightarrow> (string + string) \<times> 's" where
  "loginToVault va s =
     (case va_K8STokenFile va of
        Inl err \<Rightarrow> (Inl err, s)
      | Inr tokenData \<Rightarrow>
     (case doRequest va (loginRequest va tokenData) s of
        (Inl err, s1) \<Rightarrow> (Inl err, s1)
      | (Inr resp, s1) \<Rightarrow> (va_clientToken va (rs_body resp), s1)))"

definition newSecretService :: "'s vault \<Rightarrow> 's \<Rightarrow> (string + vaultServer) \<times> 's" where
  "newSecretService va s =
     (case loginToVault va s of
        (Inl err, s1) \<Rightarrow> (Inl err, s1)
      | (Inr vaultToken, s1) \<Rightarrow> (Inr \<lparr>vs_vaultToken = vaultToken\<rparr>, s1))"

definition Logout :: "'s vault \<Rightarrow> vaultServer \<Rightarrow> 's \<Rightarrow> vaultServer \<times> 's" where
  "Logout va v s =
     (case doRequest va \<lparr>rq_method = ''POST'', rq_url = httpsVaultURL va vaultRevokeSelfURL,
             rq_headers = [(''Content-Type'', ''application/json''), (''X-Vault-Token'', vs_vaultToken v)], rq_body = []\<rparr> s of
        (Inl err, s1) \<Rightarrow> (v, s1)
      | (Inr resp, s1) \<Rightarrow> if rs_status resp \<noteq> 204 then (v, s1) else (v\<lparr>vs_vaultToken := []\<rparr>, s1))"

section \<open>Secrets\<close>

definition quote :: string where "quote = [CHR 0x22]"

definition secretBody :: "string \<Rightarrow> string" where
  "secretBody dataBlob = ''{'' @ quote @ ''data'' @ quote @ '':{'' @ quote @ ''value'' @ quote @ '':'' @ quote @ dataBlob @ quote @ ''}}''"

definition writeRequest :: "'s vault \<Rightarrow> vaultServer \<Rightarrow> string \<Rightarrow> string \<Rightarrow> httpRequest" where
  "writeRequest va v path dataBlob =
     \<lparr>rq_method = ''POST'', rq_url = httpsVaultURL va (vaultSecretBaseURL @ path),
      rq_headers = [(''Content-Type'', ''application/json''), (''X-Vault-Token'', vs_vaultToken v)], rq_body = secretBody dataBlob\<rparr>"

definition vaultWriteSecret :: "'s vault \<Rightarrow> vaultServer \<Rightarrow> string \<Rightarrow> string \<Rightarrow> 's \<Rightarrow> (string + unit) \<times> 's" where
  "vaultWriteSecret va v path dataBlob s =
     (case doRequest va (writeRequest va v path dataBlob) s of
        (Inl err, s1) \<Rightarrow> (Inl err, s1)
      | (Inr resp, s1) \<Rightarrow> if rs_status resp \<noteq> 200 then (Inl (''http error on write: '' @ showNat (rs_status resp)), s1) else (Inr (), s1))"

definition readRequest :: "'s vault \<Rightarrow> vaultServer \<Rightarrow> string \<Rightarrow> httpRequest" where
  "readRequest va v path =
     \<lparr>rq_method = ''GET'', rq_url = httpsVaultURL va (vaultSecretBaseURL @ path),
      rq_headers = [(''Content-Type'', ''application/json''), (''X-Vault-Token'', vs_vaultToken v)], rq_body = []\<rparr>"

text \<open>The value in the data of a secret: an object below \<open>data\<close> with a string below \<open>value\<close>.\<close>

definition secretValue :: "(string \<times> json) list \<Rightarrow> string + string" where
  "secretValue secretData =
     (case map_of secretData ''data'' of
        Some (JObject dataMap) \<Rightarrow>
          (case map_of dataMap ''value'' of
             Some (JString encodedSecretValue) \<Rightarrow> Inr encodedSecretValue
           | _ \<Rightarrow> Inl ''secret not found'')
      | _ \<Rightarrow> Inl ''secret not found'')"

definition vaultReadSecret :: "'s vault \<Rightarrow> vaultServer \<Rightarrow> string \<Rightarrow> 's \<Rightarrow> (string + string) \<times> 's" where
  "vaultReadSecret va v path s =
     (case doRequest va (readRequest va v path) s of
        (Inl err, s1) \<Rightarrow> (Inl err, s1)
      | (Inr resp, s1) \<Rightarrow>
          if rs_status resp \<noteq> 200 then (Inl ''secret not found'', s1)
          else (case rs_body resp of
                  Inl err \<Rightarrow> (Inl err, s1)
                | Inr getRawData \<Rightarrow>
                    (case va_secretData va getRawData of
                       Inl err \<Rightarrow> (Inl err, s1)
                     | Inr secretData \<Rightarrow> (secretValue secretData, s1))))"

definition deleteRequest :: "'s vault \<Rightarrow> vaultServer \<Rightarrow> string \<Rightarrow> httpRequest" where
  "deleteRequest va v path =
     \<lparr>rq_method = ''DELETE'', rq_url = httpsVaultURL va (vaultSecretBaseURL @ path),
      rq_headers = [(''X-Vault-Token'', vs_vaultToken v)], rq_body = []\<rparr>"

text \<open>The status of the response is not looked at.\<close>

definition vaultDeleteSecret :: "'s vault \<Rightarrow> vaultServer \<Rightarrow> string \<Rightarrow> 's \<Rightarrow> (string + unit) \<times> 's" where
  "vaultDeleteSecret va v path s =
     (case doRequest va (deleteRequest va v path) s of
        (Inl err, s1) \<Rightarrow> (Inl err, s1)
      | (Inr resp, s1) \<Rightarrow> (Inr (), s1))"

section \<open>The interface of the handlers\<close>

text \<open>
  What the handlers rely on: the state of a service has a value or none at each path, and an operation that
  succeeds has the effect its name says. The values are those that need no escape in JSON.
\<close>

definition plain :: "string \<Rightarrow> bool" where
  "plain v \<longleftrightarrow> list_all (\<lambda>c. 0x20 \<le> (of_char c :: nat) \<and> (of_char c :: nat) < 0x7F \<and> c \<noteq> CHR 0x22 \<and> c \<noteq> CHR 0x5C) v"

locale secret_service =
  fixes readSecret :: "string \<Rightarrow> 's \<Rightarrow> ('e + string) \<times> 's"
    and writeSecret :: "string \<Rightarrow> string \<Rightarrow> 's \<Rightarrow> ('e + unit) \<times> 's"
    and deleteSecret :: "string \<Rightarrow> 's \<Rightarrow> ('e + unit) \<times> 's"
    and secrets :: "'s \<Rightarrow> string \<Rightarrow> string option"
  assumes read_keeps: "readSecret path s = (r, s1) \<Longrightarrow> secrets s1 = secrets s"
    and read_value: "readSecret path s = (Inr v, s1) \<Longrightarrow> secrets s path = Some v"
    and write_secret: "\<lbrakk>writeSecret path v s = (Inr u, s1); plain v\<rbrakk> \<Longrightarrow> secrets s1 = (secrets s)(path \<mapsto> v)"
    and delete_secret: "deleteSecret path s = (Inr u, s1) \<Longrightarrow> secrets s1 = (secrets s)(path := None)"
begin

lemma written_is_read:
  assumes "writeSecret path v s = (Inr u, s1)" and "plain v" and "readSecret path s1 = (Inr w, s2)"
  shows "w = v"
  using write_secret [OF assms(1,2)] read_value [OF assms(3)] by simp

lemma deleted_is_not_read:
  assumes "deleteSecret path s = (Inr u, s1)"
  shows "\<exists>e s2. readSecret path s1 = (Inl e, s2)"
proof (cases "readSecret path s1")
  case (Pair r s2)
  with delete_secret [OF assms] read_value [of path s1 _ s2] show ?thesis by (cases r) auto
qed

lemma others_are_kept:
  assumes "writeSecret path v s = (Inr u, s1) \<and> plain v \<or> deleteSecret path s = (Inr u, s1)" and "other \<noteq> path"
  shows "secrets s1 other = secrets s other"
  using assms write_secret [of path v s u s1] delete_secret [of path s u s1] by auto

end

text \<open>The operations in a transaction.\<close>

interpretation model_secrets: secret_service "\<lambda>path. orVaultError (ReadSecret path)" "\<lambda>path v. orVaultError (WriteSecret path v)"
    "\<lambda>path. orVaultError (DeleteSecret path)" tx_vault
proof unfold_locales
  fix path t r and t1 :: tx
  assume "orVaultError (ReadSecret path) t = (r, t1)"
  then show "tx_vault t1 = tx_vault t"
    by (auto simp: orVaultError_def ReadSecret_def external_def bnd_def throw_def ret_def Let_def split: option.splits if_splits)
qed (auto simp: secrets_Inr)

end
