(* ===== verification/Vault_Properties.thy ===== *)
theory Vault_Properties
  imports Registry_Service Vault_Client
begin

text \<open>
  The client of the secret service against what the service documents: the operations of the client do to the
  secrets of the service what the operations of the model do to the secrets of a transaction, and no two
  registries share a secret.
\<close>

section \<open>The service\<close>

text \<open>
  What the HTTP API of the service documents for its store of values, version 2, mounted at \<^verbatim>\<open>secret\<close>, written out for
  arbitrary requests. A request on a secret has the URL of its path and, in the header \<^verbatim>\<open>X-Vault-Token\<close>, a token:
  \<^item> a POST of an object with an object of data, answered with 200, stores the data at the path,
  \<^item> a GET changes nothing and, answered with 200, gives the data, below \<^verbatim>\<open>data\<close> of the data of the response,
  \<^item> a DELETE answered with 200 or 204 removes the data.
  The abstraction \<open>secrets\<close> is the string below \<^verbatim>\<open>value\<close> in the data at a path, if there is one.
\<close>

definition secretURL :: "'s vault \<Rightarrow> string \<Rightarrow> string" where
  "secretURL va path = va_VaultServer va @ ''/v1/secret/data/'' @ path"

definition valueObject :: "string \<Rightarrow> string" where
  "valueObject blob = ''{'' @ [CHR 0x22] @ ''data'' @ [CHR 0x22] @ '':{'' @ [CHR 0x22] @ ''value'' @ [CHR 0x22] @ '':'' @
     [CHR 0x22] @ blob @ [CHR 0x22] @ ''}}''"

definition onSecret :: "'s vault \<Rightarrow> string \<Rightarrow> string \<Rightarrow> string \<Rightarrow> httpRequest \<Rightarrow> bool" where
  "onSecret va token method path rq \<longleftrightarrow> rq_method rq = method \<and> rq_url rq = secretURL va path \<and>
     map_of (rq_headers rq) ''X-Vault-Token'' = Some token"

definition kvStore :: "'s vault \<Rightarrow> string \<Rightarrow> ('s \<Rightarrow> string \<Rightarrow> string option) \<Rightarrow> bool" where
  "kvStore va token secrets \<longleftrightarrow>
     (\<forall>rq path blob s resp s1. onSecret va token ''POST'' path rq \<and> rq_body rq = valueObject blob \<and> plain blob \<and>
        va_do va rq s = (Inr resp, s1) \<and> rs_status resp = 200 \<longrightarrow> secrets s1 = (secrets s)(path \<mapsto> blob)) \<and>
     (\<forall>rq path s r s1. onSecret va token ''GET'' path rq \<and> va_do va rq s = (r, s1) \<longrightarrow> secrets s1 = secrets s \<and>
        (\<forall>resp body. r = Inr resp \<and> rs_status resp = 200 \<and> rs_body resp = Inr body \<longrightarrow>
           (\<exists>secretData. va_secretData va body = Inr secretData \<and>
              (\<forall>blob. secrets s path = Some blob \<longleftrightarrow>
                 (\<exists>dataMap. map_of secretData ''data'' = Some (JObject dataMap) \<and> map_of dataMap ''value'' = Some (JString blob)))))) \<and>
     (\<forall>rq path s resp s1. onSecret va token ''DELETE'' path rq \<and> va_do va rq s = (Inr resp, s1) \<and> rs_status resp \<in> {200, 204} \<longrightarrow>
        secrets s1 = (secrets s)(path := None))"

text \<open>The client does not look at the status of a deletion: it relies on a token that may delete.\<close>

definition mayDelete :: "'s vault \<Rightarrow> string \<Rightarrow> bool" where
  "mayDelete va token \<longleftrightarrow> (\<forall>rq path s resp s1. onSecret va token ''DELETE'' path rq \<and> va_do va rq s = (Inr resp, s1) \<longrightarrow>
     rs_status resp \<in> {200, 204})"

text \<open>The requests the client makes are the ones of the API.\<close>

lemma client_requests:
  "onSecret va (vs_vaultToken v) ''POST'' path (writeRequest va v path blob)"
  "rq_body (writeRequest va v path blob) = valueObject blob"
  "onSecret va (vs_vaultToken v) ''GET'' path (readRequest va v path)"
  "onSecret va (vs_vaultToken v) ''DELETE'' path (deleteRequest va v path)"
  by (simp_all add: onSecret_def secretURL_def writeRequest_def readRequest_def deleteRequest_def httpsVaultURL_def
      vaultSecretBaseURL_def secretBody_def valueObject_def quote_def)

lemma secretBody_valueObject: "secretBody blob = valueObject blob"
  by (simp add: secretBody_def valueObject_def quote_def)

lemma kvStore_write:
  assumes "kvStore va (vs_vaultToken v) secrets" and "vaultWriteSecret va v path blob s = (Inr u, s1)" and "plain blob"
  shows "secrets s1 = (secrets s)(path \<mapsto> blob)"
proof -
  obtain resp where answered: "va_do va (writeRequest va v path blob) s = (Inr resp, s1)" "rs_status resp = 200"
    using assms(2) by (auto simp: vaultWriteSecret_def doRequest_def split: prod.splits sum.splits option.splits if_splits)
  show ?thesis
    by (rule assms(1) [unfolded kvStore_def, THEN conjunct1, rule_format, of path "writeRequest va v path blob" blob s resp])
      (simp add: answered client_requests assms(3))
qed

lemma doRequest_cases:
  "doRequest va rq s = (r, s1) \<Longrightarrow> va_do va rq s = (r, s1) \<or> s1 = s \<and> (\<exists>e. r = Inl e)"
  by (auto simp: doRequest_def split: option.splits)

lemma kvStore_read:
  assumes "kvStore va (vs_vaultToken v) secrets" and "vaultReadSecret va v path s = (r, s1)"
  shows "secrets s1 = secrets s" and "r = Inr w \<Longrightarrow> secrets s path = Some w"
proof -
  obtain r1 s2 where do: "doRequest va (readRequest va v path) s = (r1, s2)" by fastforce
  have keep: "secrets s2 = secrets s \<and> (\<forall>resp body. r1 = Inr resp \<and> rs_status resp = 200 \<and> rs_body resp = Inr body \<longrightarrow>
      (\<exists>secretData. va_secretData va body = Inr secretData \<and> (\<forall>blob. secrets s path = Some blob \<longleftrightarrow>
         (\<exists>dataMap. map_of secretData ''data'' = Some (JObject dataMap) \<and> map_of dataMap ''value'' = Some (JString blob)))))"
    using doRequest_cases [OF do]
  proof
    assume "va_do va (readRequest va v path) s = (r1, s2)"
    then show ?thesis
      by (intro assms(1) [unfolded kvStore_def, THEN conjunct2, THEN conjunct1,
          THEN spec [of _ "readRequest va v path"], THEN spec [of _ path], THEN spec, THEN spec, THEN spec, THEN mp])
        (simp add: client_requests)
  qed auto
  show "secrets s1 = secrets s"
    using keep assms(2) do by (auto simp: vaultReadSecret_def split: sum.splits if_splits)
  show "secrets s path = Some w" if w: "r = Inr w"
  proof -
    obtain resp body secretData where answered: "r1 = Inr resp" "rs_status resp = 200" "rs_body resp = Inr body"
      "va_secretData va body = Inr secretData" "secretValue secretData = Inr w"
      using assms(2) do w by (cases r1) (auto simp: vaultReadSecret_def split: sum.splits if_split_asm)
    from answered(5) obtain dataMap where "map_of secretData ''data'' = Some (JObject dataMap)" "map_of dataMap ''value'' = Some (JString w)"
      by (auto simp: secretValue_def split: option.splits json.splits)
    with keep answered(1-4) show ?thesis by fastforce
  qed
qed

lemma kvStore_delete:
  assumes "kvStore va (vs_vaultToken v) secrets" and "mayDelete va (vs_vaultToken v)" and "vaultDeleteSecret va v path s = (Inr u, s1)"
  shows "secrets s1 = (secrets s)(path := None)"
proof -
  obtain resp where answered: "va_do va (deleteRequest va v path) s = (Inr resp, s1)"
    using assms(3) by (auto simp: vaultDeleteSecret_def doRequest_def split: prod.splits sum.splits option.splits)
  then have status: "rs_status resp \<in> {200, 204}" using assms(2) client_requests(4) unfolding mayDelete_def by blast
  show ?thesis
    by (rule assms(1) [unfolded kvStore_def, THEN conjunct2, THEN conjunct2, rule_format, of path "deleteRequest va v path" s resp])
      (use answered status client_requests in simp)
qed

text \<open>So the client is a secret service on every store that keeps its promises and lets it delete.\<close>

lemma vault_is_secret_service:
  assumes "kvStore va (vs_vaultToken v) secrets" and "mayDelete va (vs_vaultToken v)"
  shows "secret_service (vaultReadSecret va v) (vaultWriteSecret va v) (vaultDeleteSecret va v) secrets"
proof
  fix path blob w u r s s1
  show "vaultReadSecret va v path s = (r, s1) \<Longrightarrow> secrets s1 = secrets s" by (rule kvStore_read(1) [OF assms(1)])
  show "vaultReadSecret va v path s = (Inr w, s1) \<Longrightarrow> secrets s path = Some w" by (rule kvStore_read(2) [OF assms(1)]) simp_all
  show "\<lbrakk>vaultWriteSecret va v path blob s = (Inr u, s1); plain blob\<rbrakk> \<Longrightarrow> secrets s1 = (secrets s)(path \<mapsto> blob)"
    by (rule kvStore_write [OF assms(1)])
  show "vaultDeleteSecret va v path s = (Inr u, s1) \<Longrightarrow> secrets s1 = (secrets s)(path := None)" by (rule kvStore_delete [OF assms])
qed

section \<open>The HTTP server of the tests\<close>

text \<open>
  The server that \<^verbatim>\<open>vault_test.go\<close> runs the client against: it keeps the value of a write by its URL, and answers a read
  with it or with 404. Its JSON is read up to the one value.
\<close>

definition between :: "string \<Rightarrow> string \<Rightarrow> string \<Rightarrow> string option" where
  "between before after s =
     (let middle = take (length s - length before - length after) (drop (length before) s)
      in if s = before @ middle @ after then Some middle else None)"

lemma between_append [simp]: "between before after (before @ v @ after) = Some v"
  by (simp add: between_def Let_def)

definition secretPrefix :: string where
  "secretPrefix = ''{'' @ quote @ ''data'' @ quote @ '':{'' @ quote @ ''value'' @ quote @ '':'' @ quote"

definition secretSuffix :: string where
  "secretSuffix = quote @ ''}}''"

definition secretJSON :: "string \<Rightarrow> string" where
  "secretJSON secret = (''{'' @ quote @ ''data'' @ quote @ '':'' @ secretPrefix) @ secret @ (secretSuffix @ ''}'')"

definition handleSecret :: "httpRequest \<Rightarrow> (string \<Rightarrow> string option) \<Rightarrow> (string + httpResponse) \<times> (string \<Rightarrow> string option)" where
  "handleSecret rq store =
     (if rq_method rq = ''POST'' then
        (case between secretPrefix secretSuffix (rq_body rq) of
           None \<Rightarrow> (Inr \<lparr>rs_status = 200, rs_body = Inr []\<rparr>, store)
         | Some secret \<Rightarrow> (Inr \<lparr>rs_status = 200, rs_body = Inr []\<rparr>, store(rq_url rq \<mapsto> secret)))
      else if rq_method rq = ''GET'' then
        (case store (rq_url rq) of
           None \<Rightarrow> (Inr \<lparr>rs_status = 404, rs_body = Inr []\<rparr>, store)
         | Some secret \<Rightarrow> (Inr \<lparr>rs_status = 200, rs_body = Inr (secretJSON secret)\<rparr>, store))
      else (Inr \<lparr>rs_status = 200, rs_body = Inr []\<rparr>, store(rq_url rq := None)))"

definition testSecretData :: "string \<Rightarrow> string + (string \<times> json) list" where
  "testSecretData body =
     (case between (''{'' @ quote @ ''data'' @ quote @ '':'' @ secretPrefix) (secretSuffix @ ''}'') body of
        None \<Rightarrow> Inl ''invalid character''
      | Some secret \<Rightarrow> Inr [(''data'', JObject [(''value'', JString secret)])])"

definition testVault :: "(string \<Rightarrow> string option) vault" where
  "testVault = \<lparr>va_VaultServer = ''http://127.0.0.1'', va_K8STokenFile = Inr ''jwt'', va_ServiceAccount = ''catalog'',
     va_marshalLogin = (\<lambda>jwt role. jwt @ role), va_newRequest = (\<lambda>url. None), va_do = handleSecret,
     va_clientToken = (\<lambda>body. Inr ''token''), va_secretData = testSecretData\<rparr>"

definition testSecrets :: "(string \<Rightarrow> string option) \<Rightarrow> string \<Rightarrow> string option" where
  "testSecrets store path = store (''http://127.0.0.1/v1/secret/data/'' @ path)"

lemma testSecretData_secretJSON [simp]: "testSecretData (secretJSON v) = Inr [(''data'', JObject [(''value'', JString v)])]"
  unfolding testSecretData_def secretJSON_def between_append by simp

lemma valueObject_between [simp]: "between secretPrefix secretSuffix (valueObject v) = Some v"
proof -
  have "valueObject v = secretPrefix @ v @ secretSuffix" by (simp add: valueObject_def secretPrefix_def secretSuffix_def quote_def)
  then show ?thesis by (simp only: between_append)
qed

lemma testVault_simps:
  "va_do testVault = handleSecret" "va_secretData testVault = testSecretData"
  "secretURL testVault path = ''http://127.0.0.1/v1/secret/data/'' @ path"
  by (simp_all add: testVault_def secretURL_def)

lemma testVault_is_kvStore: "kvStore testVault token testSecrets"
  unfolding kvStore_def onSecret_def testVault_simps
  by (auto simp: handleSecret_def testSecrets_def fun_eq_iff split: option.splits)

lemma testVault_mayDelete: "mayDelete testVault token"
  by (auto simp: mayDelete_def onSecret_def testVault_simps handleSecret_def)

interpretation test_vault: secret_service "vaultReadSecret testVault v" "vaultWriteSecret testVault v" "vaultDeleteSecret testVault v" testSecrets
  for v by (rule vault_is_secret_service [OF testVault_is_kvStore testVault_mayDelete])

section \<open>Refinement\<close>

text \<open>
  C17. On a service that keeps the promises of its API to the token of the client and lets that token delete, the client does
  to the secrets what the operations of a transaction do: from equal secrets, a read, a write or a deletion of the client
  that succeeds is the same operation of the transaction, with the same result and equal secrets again. A value written is one
  that needs no escape in JSON, as the base64 of the handlers.
\<close>

theorem vault_client_refines_the_secrets:
  assumes "kvStore va (vs_vaultToken v) secrets" and "mayDelete va (vs_vaultToken v)" and "tx_vault t = secrets s"
    and "\<not> tx_fault t (tx_clock t)"
  shows "(\<forall>w s1. vaultReadSecret va v path s = (Inr w, s1) \<longrightarrow>
      (\<exists>t1. orVaultError (ReadSecret path) t = (Inr w, t1) \<and> tx_vault t1 = secrets s1)) \<and>
    (\<forall>blob s1. plain blob \<and> vaultWriteSecret va v path blob s = (Inr (), s1) \<longrightarrow>
      (\<exists>t1. orVaultError (WriteSecret path blob) t = (Inr (), t1) \<and> tx_vault t1 = secrets s1)) \<and>
    (\<forall>s1. vaultDeleteSecret va v path s = (Inr (), s1) \<longrightarrow>
      (\<exists>t1. orVaultError (DeleteSecret path) t = (Inr (), t1) \<and> tx_vault t1 = secrets s1))"
  using assms(3,4) kvStore_read [OF assms(1)] kvStore_write [OF assms(1)] kvStore_delete [OF assms(1,2)]
  by (auto simp: secrets_Inr tick_def)

definition vaultTx :: tx where
  "vaultTx = \<lparr>tx_db = empty_db, tx_vault = Map.empty, tx_fault = (\<lambda>_. False), tx_clock = 0, tx_now = 0,
     tx_regEvents = [], tx_artEvents = [], tx_appEvents = [], tx_pkgEvents = []\<rparr>"

theorem vault_client_refines_the_secrets_witness:
  "\<exists>s1 t1. vaultWriteSecret testVault \<lparr>vs_vaultToken = ''token''\<rparr> ''cat-p_r'' ''c2VjcmV0'' Map.empty = (Inr (), s1) \<and>
     orVaultError (WriteSecret ''cat-p_r'' ''c2VjcmV0'') vaultTx = (Inr (), t1) \<and> tx_vault t1 = testSecrets s1 \<and>
     tx_vault t1 ''cat-p_r'' = Some ''c2VjcmV0''"
proof -
  let ?v = "\<lparr>vs_vaultToken = ''token''\<rparr>"
  have "tx_vault vaultTx = testSecrets Map.empty" "\<not> tx_fault vaultTx (tx_clock vaultTx)"
    by (simp_all add: vaultTx_def testSecrets_def fun_eq_iff)
  from vault_client_refines_the_secrets [where secrets = testSecrets and t = vaultTx and s = Map.empty, OF testVault_is_kvStore testVault_mayDelete this,
      of ?v "''cat-p_r''"]
  have refines: "plain blob \<and> vaultWriteSecret testVault ?v ''cat-p_r'' blob Map.empty = (Inr (), s1) \<longrightarrow>
      (\<exists>t1. orVaultError (WriteSecret ''cat-p_r'' blob) vaultTx = (Inr (), t1) \<and> tx_vault t1 = testSecrets s1)" for blob s1 by blast
  obtain s1 where written: "vaultWriteSecret testVault ?v ''cat-p_r'' ''c2VjcmV0'' Map.empty = (Inr (), s1)"
    by (simp add: vaultWriteSecret_def doRequest_def writeRequest_def testVault_def handleSecret_def secretBody_valueObject)
  moreover note written
  moreover have "plain ''c2VjcmV0''" by (simp add: plain_def)
  ultimately obtain t1 where "orVaultError (WriteSecret ''cat-p_r'' ''c2VjcmV0'') vaultTx = (Inr (), t1)" "tx_vault t1 = testSecrets s1"
    using refines by blast
  moreover from this(1) have "tx_vault t1 ''cat-p_r'' = Some ''c2VjcmV0''" by (simp add: secrets_Inr)
  ultimately show ?thesis using written by blast
qed

section \<open>Paths\<close>

lemma name_has_no_underscore: "MatchString namePattern name \<Longrightarrow> CHR ''_'' \<notin> set name"
  unfolding MatchString_name by (cases name) (auto simp: list_all_iff nameChar_def lowerAlnum_def charIn_def)

lemma last_separator:
  assumes "p @ d # n = q @ d # m" and "d \<notin> set n" and "d \<notin> set m"
  shows "p = q \<and> n = m"
  using assms by (auto simp: append_eq_append_conv2 append_eq_Cons_conv Cons_eq_append_conv)

lemma MakeSecretPath_inj:
  assumes "MakeSecretPath p name = MakeSecretPath q other" and "MatchString namePattern name" and "MatchString namePattern other"
  shows "p = q \<and> name = other"
  using assms name_has_no_underscore last_separator [of p "CHR ''_''" name q other] by (simp add: MakeSecretPath_def)

text \<open>
  C37. No two registries share a secret: the paths of registries whose names the validator accepts are different when
  the names or the projects are, whatever the projects are called.
\<close>

theorem secret_paths_are_distinct:
  assumes "MakeSecretPath p name = MakeSecretPath q other" and "MatchString namePattern name" and "MatchString namePattern other"
  shows "p = q \<and> name = other"
  by (rule MakeSecretPath_inj [OF assms])

theorem secret_paths_are_distinct_witness:
  "MatchString namePattern ''r1'' \<and> MatchString namePattern ''r2'' \<and> MakeSecretPath ''p_q'' ''r1'' \<noteq> MakeSecretPath ''p'' ''r2''"
proof -
  have names: "MatchString namePattern ''r1''" "MatchString namePattern ''r2''"
    by (simp_all add: MatchString_name nameChar_def lowerAlnum_def charIn_def del: MatchString.simps)
  with secret_paths_are_distinct [of "''p_q''" "''r1''" "''p''" "''r2''"] show ?thesis by auto
qed

section \<open>Answers the client does not look at\<close>

text \<open>
  A deletion that the service refuses counts as done, and a refused login as one with the token the answer lacks: from
  a service that answers everything with 403 and changes nothing, the first succeeds, the second gives the empty token.
\<close>

definition refusing :: "'s vault \<Rightarrow> bool" where
  "refusing va \<longleftrightarrow> (\<forall>rq s. va_do va rq s = (Inr \<lparr>rs_status = 403, rs_body = Inr ''{}''\<rparr>, s)) \<and> (\<forall>url. va_newRequest va url = None) \<and>
     va_clientToken va (Inr ''{}'') = Inr []"

lemma refused_deletion_is_done: "refusing va \<Longrightarrow> vaultDeleteSecret va v path s = (Inr (), s)"
  by (simp add: refusing_def vaultDeleteSecret_def doRequest_def)

lemma refused_login_is_one: "refusing va \<Longrightarrow> va_K8STokenFile va = Inr jwt \<Longrightarrow> newSecretService va s = (Inr \<lparr>vs_vaultToken = []\<rparr>, s)"
  by (simp add: refusing_def newSecretService_def loginToVault_def doRequest_def)

end
