(* ===== verification/Wiper.thy ===== *)
theory Wiper
  imports Deployment_Package_Handlers
begin

text \<open>
  The wiper, \<^verbatim>\<open>pkg/wiper/grpc.go\<close>: a client that empties a project by listing and deleting page after page. It calls
  the handlers of the catalog, each call in an environment of its own; the state is the server with the
  number of calls made so far. The loops repeat while the catalog reports more elements than the page had, and
  need not end: their result is then \<open>None\<close>.
\<close>

section \<open>Calls\<close>

type_synonym wiped = "nat \<times> server"

definition wiperCall :: "(nat \<Rightarrow> env) \<Rightarrow> (env \<Rightarrow> server \<Rightarrow> 'a \<times> server) \<Rightarrow> wiped \<Rightarrow> 'a \<times> wiped" where
  "wiperCall envs f w = (case f (envs (fst w)) (snd w) of (r, srv1) \<Rightarrow> (r, (Suc (fst w), srv1)))"

text \<open>\<^verbatim>\<open>metadata.AppendToOutgoingContext\<close>: a value is added behind those the key has.\<close>

definition withActiveProjectID :: "metadata \<Rightarrow> string \<Rightarrow> metadata" where
  "withActiveProjectID md projectUUID =
     (if projectUUID = [] then md else AList.update ''activeprojectid'' (md_Get md ''activeprojectid'' @ [projectUUID]) md)"

abbreviation maxPageSize :: int32 where "maxPageSize \<equiv> word_of_int MaxPageSize"

section \<open>Deleting page after page\<close>

text \<open>The loop over one page.\<close>

fun forEach :: "('a \<Rightarrow> 'w \<Rightarrow> unit result \<times> 'w) \<Rightarrow> 'a list \<Rightarrow> 'w \<Rightarrow> Status list \<times> 'w" where
  "forEach delete [] w = ([], w)"
| "forEach delete (x # xs) w =
     (case delete x w of
        (Inl err, w1) \<Rightarrow> (case forEach delete xs w1 of (errs, w2) \<Rightarrow> (err # errs, w2))
      | (Inr _, w1) \<Rightarrow> forEach delete xs w1)"

text \<open>The loop over the pages, always from the start of what is left.\<close>

partial_function (option) wipePages ::
    "('w \<Rightarrow> ('a list \<times> int32) result \<times> 'w) \<Rightarrow> ('a \<Rightarrow> 'w \<Rightarrow> unit result \<times> 'w) \<Rightarrow> Status list \<Rightarrow> 'w \<Rightarrow> (Status list \<times> 'w) option" where
  "wipePages listPage delete errors w =
     (case listPage w of
        (Inl err, w1) \<Rightarrow> Some (errors @ [err], w1)
      | (Inr (page, totalElements), w1) \<Rightarrow>
          (case forEach delete page w1 of
             (errs, w2) \<Rightarrow>
               if sint totalElements > sint (word_of_nat (length page) :: int32) then wipePages listPage delete (errors @ errs) w2
               else Some (errors @ errs, w2)))"

definition wipePackages :: "(nat \<Rightarrow> env) \<Rightarrow> metadata option \<Rightarrow> wiped \<Rightarrow> (Status list \<times> wiped) option" where
  "wipePackages envs ctx =
     wipePages (wiperCall envs (\<lambda>env. ListDeploymentPackages env ctx
         (Some \<lparr>ldp_OrderBy = [], ldp_Filter = [], ldp_PageSize = maxPageSize, ldp_Offset = 0, ldp_Kinds = []\<rparr>)))
       (\<lambda>pkg. wiperCall envs (\<lambda>env. DeleteDeploymentPackage env ctx (dp_Name pkg) (dp_Version pkg))) []"

definition wipeApplications :: "(nat \<Rightarrow> env) \<Rightarrow> metadata option \<Rightarrow> wiped \<Rightarrow> (Status list \<times> wiped) option" where
  "wipeApplications envs ctx =
     wipePages (wiperCall envs (\<lambda>env. ListApplications env ctx
         (Some \<lparr>lap_OrderBy = [], lap_Filter = [], lap_PageSize = maxPageSize, lap_Offset = 0, lap_Kinds = []\<rparr>)))
       (\<lambda>app. wiperCall envs (\<lambda>env. DeleteApplication env ctx (a_Name app) (a_Version app))) []"

definition wipeArtifacts :: "(nat \<Rightarrow> env) \<Rightarrow> metadata option \<Rightarrow> wiped \<Rightarrow> (Status list \<times> wiped) option" where
  "wipeArtifacts envs ctx =
     wipePages (wiperCall envs (\<lambda>env. ListArtifacts env ctx
         (Some \<lparr>la_OrderBy = [], la_Filter = [], la_PageSize = maxPageSize, la_Offset = 0\<rparr>)))
       (\<lambda>artifact. wiperCall envs (\<lambda>env. DeleteArtifact env ctx (art_Name artifact))) []"

definition wipeRegistries :: "(nat \<Rightarrow> env) \<Rightarrow> metadata option \<Rightarrow> wiped \<Rightarrow> (Status list \<times> wiped) option" where
  "wipeRegistries envs ctx =
     wipePages (wiperCall envs (\<lambda>env. ListRegistries env ctx
         (Some \<lparr>lr_OrderBy = [], lr_Filter = [], lr_PageSize = maxPageSize, lr_Offset = 0, lr_ShowSensitiveInfo = False\<rparr>)))
       (\<lambda>registry. wiperCall envs (\<lambda>env. DeleteRegistry env ctx (r_Name registry))) []"

section \<open>Preparing packages\<close>

definition severed :: "DeploymentPackage \<Rightarrow> DeploymentPackage" where
  "severed pkg = pkg\<lparr>dp_IsDeployed := False, dp_ApplicationReferences := [], dp_ApplicationDependencies := [],
     dp_DefaultNamespaces := [], dp_DefaultProfileName := [], dp_Profiles := []\<rparr>"

text \<open>A map without entries is not sent, and decoded as a nil map.\<close>

definition decodedMap :: "strmap option \<Rightarrow> strmap option" where
  "decodedMap m = (if m = Some [] then None else m)"

definition overWire :: "DeploymentPackage \<Rightarrow> DeploymentPackage" where
  "overWire pkg = pkg\<lparr>dp_Namespaces := map (\<lambda>n. n\<lparr>ns_Labels := decodedMap (ns_Labels n), ns_Annotations := decodedMap (ns_Annotations n)\<rparr>)
     (dp_Namespaces pkg)\<rparr>"

definition preparePackageForDeletion :: "(nat \<Rightarrow> env) \<Rightarrow> metadata option \<Rightarrow> string \<Rightarrow> string \<Rightarrow> wiped \<Rightarrow> unit result \<times> wiped" where
  "preparePackageForDeletion envs ctx name version w =
     (case wiperCall envs (\<lambda>env. GetDeploymentPackage env ctx name version) w of
        (Inl err, w1) \<Rightarrow> (Inl err, w1)
      | (Inr pkg, w1) \<Rightarrow> wiperCall envs (\<lambda>env. UpdateDeploymentPackage env ctx name version (Some (overWire (severed pkg)))) w1)"

partial_function (option) preparePages ::
    "(nat \<Rightarrow> env) \<Rightarrow> metadata option \<Rightarrow> int32 \<Rightarrow> Status list \<Rightarrow> wiped \<Rightarrow> (Status list \<times> wiped) option" where
  "preparePages envs ctx offset errors w =
     (case wiperCall envs (\<lambda>env. ListDeploymentPackages env ctx
             (Some \<lparr>ldp_OrderBy = [], ldp_Filter = [], ldp_PageSize = maxPageSize, ldp_Offset = offset, ldp_Kinds = []\<rparr>)) w of
        (Inl err, w1) \<Rightarrow> Some (errors @ [err], w1)
      | (Inr (page, totalElements), w1) \<Rightarrow>
          (case forEach (\<lambda>pkg. preparePackageForDeletion envs ctx (dp_Name pkg) (dp_Version pkg)) page w1 of
             (errs, w2) \<Rightarrow>
               (let offset1 = offset + word_of_nat (length page)
                in if sint totalElements > sint offset1 then preparePages envs ctx offset1 (errors @ errs) w2
                   else Some (errors @ errs, w2))))"

definition preparePackagesForDeletion :: "(nat \<Rightarrow> env) \<Rightarrow> metadata option \<Rightarrow> wiped \<Rightarrow> (Status list \<times> wiped) option" where
  "preparePackagesForDeletion envs ctx = preparePages envs ctx 0 []"

declare wipePages.simps [code] preparePages.simps [code]

section \<open>The wiper\<close>

text \<open>One phase after the other, with the errors of all of them.\<close>

definition andThen :: "('w \<Rightarrow> (Status list \<times> 'w) option) \<Rightarrow> ('w \<Rightarrow> (Status list \<times> 'w) option) \<Rightarrow> 'w \<Rightarrow> (Status list \<times> 'w) option" where
  "andThen f g w = (case f w of None \<Rightarrow> None | Some (errs, w1) \<Rightarrow> map_option (\<lambda>(more, w2). (errs @ more, w2)) (g w1))"

text \<open>What the catalog sees of the context is \<open>deliver\<close> of its metadata.\<close>

definition Wipe :: "(nat \<Rightarrow> env) \<Rightarrow> (metadata \<Rightarrow> metadata option) \<Rightarrow> metadata \<Rightarrow> string \<Rightarrow> server \<Rightarrow> (Status list \<times> wiped) option" where
  "Wipe envs deliver md projectUUID srv =
     (let pctx = deliver (withActiveProjectID md projectUUID)
      in andThen (preparePackagesForDeletion envs pctx)
           (andThen (wipePackages envs pctx)
             (andThen (wipeApplications envs pctx)
               (andThen (wipeArtifacts envs pctx) (wipeRegistries envs pctx)))) (0, srv))"

end
