(* ===== verification/Wiper_Loops.thy ===== *)
theory Wiper_Loops
  imports Wiper
begin

text \<open>
  The loops of the wiper: the contract of one kind of entity, what a page lists and what a deletion removes, as the locale
  \<open>wiping\<close> with what a loop without errors leaves, and when a loop ends and when it does not.
\<close>

section \<open>Loops over pages\<close>

lemma forEach_Nil:
  assumes "forEach delete xs w = ([], w1)" and "\<And>x w u w1. delete x w = (Inr u, w1) \<Longrightarrow> R w w1"
    and "\<And>w. R w w" and "\<And>w w1 w2. R w w1 \<Longrightarrow> R w1 w2 \<Longrightarrow> R w w2"
  shows "R w w1"
  using assms(1)
proof (induction xs arbitrary: w)
  case Nil
  then show ?case using assms(3) by simp
next
  case (Cons x xs)
  then obtain u w2 where d: "delete x w = (Inr u, w2)" "forEach delete xs w2 = ([], w1)"
    by (auto split: prod.splits sum.splits)
  show ?case using assms(4) [OF assms(2) [OF d(1)] Cons.IH [OF d(2)]] .
qed

lemma forEach_keeps_invariant:
  assumes "forEach delete xs w = (errs, w1)" and "\<And>x w r w1. delete x w = (r, w1) \<Longrightarrow> I w \<Longrightarrow> I w1" and "I w"
  shows "I w1"
  using assms(1,3)
proof (induction xs arbitrary: w errs)
  case Nil
  then show ?case by simp
next
  case (Cons x xs)
  obtain r w2 where d: "delete x w = (r, w2)" by fastforce
  with Cons.prems(1) obtain errs1 where "forEach delete xs w2 = (errs1, w1)" by (auto split: prod.splits sum.splits)
  from Cons.IH [OF this] assms(2) [OF d Cons.prems(2)] show ?case .
qed

text \<open>A loop ends after one round when that lists all there is, whatever the deletions answer.\<close>

lemma wipePages_once:
  assumes "\<And>page n w1. listPage w = (Inr (page, n), w1) \<Longrightarrow> \<not> sint n > sint (word_of_nat (length page) :: int32)"
    and "\<And>r w1. listPage w = (r, w1) \<Longrightarrow> I w1" and "\<And>x w r w1. delete x w = (r, w1) \<Longrightarrow> I w \<Longrightarrow> I w1"
  shows "\<exists>errs w1. wipePages listPage delete errors w = Some (errs, w1) \<and> I w1"
proof (cases "listPage w")
  case (Pair r w1)
  show ?thesis
  proof (cases r)
    case (Inl e)
    with Pair assms(2) [OF Pair] show ?thesis by (simp add: wipePages.simps)
  next
    case (Inr pn)
    then obtain page n where pn: "r = Inr (page, n)" by (cases pn) auto
    obtain errs w2 where each: "forEach delete page w1 = (errs, w2)" by (rule prod.exhaust)
    have "I w2" by (rule forEach_keeps_invariant [where I = I, OF each]) (use assms(3) assms(2) [OF Pair] in blast)+
    with assms(1) [of page n w1] Pair pn each show ?thesis by (simp add: wipePages.simps)
  qed
qed

text \<open>
  A loop never ends while its listings succeed with a total above the length of the page.
\<close>

lemma wipePages_diverges:
  assumes "I w" and "\<And>w. I w \<Longrightarrow> \<exists>page n w1. listPage w = (Inr (page, n), w1) \<and> sint n > sint (word_of_nat (length page) :: int32) \<and> I w1"
    and "\<And>x w r w1. delete x w = (r, w1) \<Longrightarrow> I w \<Longrightarrow> I w1"
  shows "wipePages listPage delete errors w = None"
proof (rule ccontr)
  assume "wipePages listPage delete errors w \<noteq> None"
  then obtain y where run: "wipePages listPage delete errors w = Some y" by blast
  let ?P = "\<lambda>l d errors w (y :: Status list \<times> 'w). l = listPage \<longrightarrow> d = delete \<longrightarrow> I w \<longrightarrow> False"
  have "?P listPage delete errors w y"
  proof (rule wipePages.raw_induct [where P = ?P, OF _ run], intro impI)
    fix wp l d errors w y
    assume IH: "\<And>l d errors w y. wp l d errors w = Some y \<Longrightarrow> ?P l d errors w y" and l: "l = listPage" and d: "d = delete" and "I w"
      and round: "(case l w of (Inl err, w1) \<Rightarrow> Some (errors @ [err], w1)
        | (Inr (page, n), w1) \<Rightarrow> (case forEach d page w1 of (errs, w2) \<Rightarrow>
            if sint n > sint (word_of_nat (length page) :: int32) then wp l d (errors @ errs) w2 else Some (errors @ errs, w2))) = Some y"
    obtain page n w1 where page: "listPage w = (Inr (page, n), w1)" "sint n > sint (word_of_nat (length page) :: int32)" "I w1"
      using assms(2) [OF \<open>I w\<close>] by blast
    obtain errs w2 where each: "forEach delete page w1 = (errs, w2)" by (rule prod.exhaust)
    have "I w2" by (rule forEach_keeps_invariant [where I = I, OF each _ page(3)]) (rule assms(3))
    moreover have "wp l d (errors @ errs) w2 = Some y" using round page each by (simp add: l d)
    ultimately show False using IH l d by blast
  qed
  with assms(1) show False by blast
qed

text \<open>
  The contract: \<open>left\<close> are the keys of the entities of one kind that are left in the project, \<open>keeps\<close> what a successful call
  keeps of all kinds, \<open>small\<close> that the number of entities fits the reported total.
\<close>

locale wiping =
  fixes listPage :: "'w \<Rightarrow> ('a list \<times> int32) result \<times> 'w"
    and delete :: "'a \<Rightarrow> 'w \<Rightarrow> unit result \<times> 'w"
    and key :: "'a \<Rightarrow> 'k"
    and left :: "'w \<Rightarrow> 'k set"
    and keeps :: "'w \<Rightarrow> 'w \<Rightarrow> bool"
    and small :: "'w \<Rightarrow> bool"
  assumes keeps_refl: "keeps w w"
    and keeps_trans: "keeps w w1 \<Longrightarrow> keeps w1 w2 \<Longrightarrow> keeps w w2"
    and keeps_left: "keeps w w1 \<Longrightarrow> left w1 \<subseteq> left w"
    and keeps_small: "keeps w w1 \<Longrightarrow> small w \<Longrightarrow> small w1"
    and list_keeps: "listPage w = (r, w1) \<Longrightarrow> keeps w w1"
    and list_complete: "listPage w = (Inr (page, n), w1) \<Longrightarrow> small w \<Longrightarrow>
      \<not> sint n > sint (word_of_nat (length page) :: int32) \<Longrightarrow> left w \<subseteq> key ` set page"
    and delete_keeps: "delete x w = (Inr u, w1) \<Longrightarrow> keeps w w1"
    and delete_gone: "delete x w = (Inr u, w1) \<Longrightarrow> key x \<notin> left w1"
begin

lemma forEach_keeps: "forEach delete xs w = ([], w1) \<Longrightarrow> keeps w w1"
  by (rule forEach_Nil [where R = keeps]) (use delete_keeps keeps_refl keeps_trans in auto)

lemma forEach_gone: "forEach delete xs w = ([], w1) \<Longrightarrow> left w1 \<subseteq> left w - key ` set xs"
proof (induction xs arbitrary: w)
  case Nil
  then show ?case by simp
next
  case (Cons x xs)
  then obtain u w2 where d: "delete x w = (Inr u, w2)" "forEach delete xs w2 = ([], w1)"
    by (auto split: prod.splits sum.splits)
  have "left w1 \<subseteq> left w2 - key ` set xs" by (rule Cons.IH [OF d(2)])
  with delete_gone [OF d(1)] keeps_left [OF delete_keeps [OF d(1)]] show ?case by auto
qed

lemma wipePages_round:
  assumes "\<And>errors w y. wp errors w = Some y \<Longrightarrow>
      \<exists>more. fst y = errors @ more \<and> (more = [] \<longrightarrow> small w \<longrightarrow> keeps w (snd y) \<and> left (snd y) = {})"
    and "(case listPage w of (Inl err, w1) \<Rightarrow> Some (errors @ [err], w1)
      | (Inr (page, n), w1) \<Rightarrow> (case forEach delete page w1 of (errs, w2) \<Rightarrow>
          if sint n > sint (word_of_nat (length page) :: int32) then wp (errors @ errs) w2 else Some (errors @ errs, w2))) = Some y"
  shows "\<exists>more. fst y = errors @ more \<and> (more = [] \<longrightarrow> small w \<longrightarrow> keeps w (snd y) \<and> left (snd y) = {})"
proof (cases "listPage w")
  case (Pair r w1)
  show ?thesis
  proof (cases r)
    case (Inl e)
    with assms(2) Pair show ?thesis by auto
  next
    case (Inr pn)
    then obtain page n where pn: "r = Inr (page, n)" by (cases pn) auto
    obtain errs w2 where each: "forEach delete page w1 = (errs, w2)" by fastforce
    show ?thesis
    proof (cases "sint n > sint (word_of_nat (length page) :: int32)")
      case True
      with assms(2) Pair pn each have "wp (errors @ errs) w2 = Some y" by simp
      from assms(1) [OF this] obtain more where more: "fst y = errors @ errs @ more"
        "more = [] \<longrightarrow> small w2 \<longrightarrow> keeps w2 (snd y) \<and> left (snd y) = {}" by auto
      have "keeps w (snd y) \<and> left (snd y) = {}" if "errs @ more = []" "small w"
      proof -
        have k: "keeps w w1" "keeps w1 w2" using list_keeps [OF Pair] forEach_keeps [of page w1 w2] each that by simp_all
        have "small w2" by (rule keeps_small [OF k(2) keeps_small [OF k(1) that(2)]])
        with more(2) that(1) have "keeps w2 (snd y)" "left (snd y) = {}" by simp_all
        with keeps_trans [OF keeps_trans [OF k]] show ?thesis by simp
      qed
      with more(1) show ?thesis by auto
    next
      case False
      with assms(2) Pair pn each have y: "y = (errors @ errs, w2)" by simp
      have "keeps w w2 \<and> left w2 = {}" if "errs = []" "small w"
      proof -
        have "forEach delete page w1 = ([], w2)" using each that by simp
        then have k: "keeps w w1" "keeps w1 w2" and gone: "left w2 \<subseteq> left w1 - key ` set page"
          using list_keeps [OF Pair] forEach_keeps forEach_gone by blast+
        have "left w \<subseteq> key ` set page" by (rule list_complete [OF Pair [unfolded pn] that(2) False])
        with gone keeps_left [OF k(1)] have "left w2 = {}" by blast
        with keeps_trans [OF k] show ?thesis by simp
      qed
      with y show ?thesis by auto
    qed
  qed
qed

lemma wipePages_more:
  assumes "wipePages listPage delete errors w = Some y"
  shows "\<exists>more. fst y = errors @ more \<and> (more = [] \<longrightarrow> small w \<longrightarrow> keeps w (snd y) \<and> left (snd y) = {})"
proof -
  let ?P = "\<lambda>l d errors w y. l = listPage \<longrightarrow> d = delete \<longrightarrow>
    (\<exists>more. fst y = errors @ more \<and> (more = [] \<longrightarrow> small w \<longrightarrow> keeps w (snd y) \<and> left (snd y) = {}))"
  have "?P listPage delete errors w y"
  proof (rule wipePages.raw_induct [where P = ?P, OF _ assms], intro impI)
    fix wp l d errors w y
    assume IH: "\<And>l d errors w y. wp l d errors w = Some y \<Longrightarrow> ?P l d errors w y" and l: "l = listPage" and d: "d = delete"
      and round: "(case l w of (Inl err, w1) \<Rightarrow> Some (errors @ [err], w1)
        | (Inr (page, n), w1) \<Rightarrow> (case forEach d page w1 of (errs, w2) \<Rightarrow>
            if sint n > sint (word_of_nat (length page) :: int32) then wp l d (errors @ errs) w2 else Some (errors @ errs, w2))) = Some y"
    show "\<exists>more. fst y = errors @ more \<and> (more = [] \<longrightarrow> small w \<longrightarrow> keeps w (snd y) \<and> left (snd y) = {})"
      by (rule wipePages_round [of "wp listPage delete", OF _ round [unfolded l d]]) (rule IH [rule_format], simp_all)
  qed
  then show ?thesis by blast
qed

lemma wiped:
  assumes "wipePages listPage delete [] w = Some ([], w1)" and "small w"
  shows "left w1 = {}" and "keeps w w1"
  using wipePages_more [OF assms(1)] assms(2) by auto

end

end
