(* ===== verification/Wiper_Contract.thy ===== *)
theory Wiper_Contract
  imports Wiper_Loops Registry_Properties Artifact_Properties Application_Properties Package_Properties
begin

text \<open>
  What the wiper leaves of a project: the contract \<open>wiping\<close> is interpreted on the four kinds of entities with the
  handlers of the catalog.
\<close>

section \<open>What is left\<close>

text \<open>The keys of the four tables, and that they only shrink.\<close>

definition shrinks :: "db \<Rightarrow> db \<Rightarrow> bool" where
  "shrinks d d1 \<longleftrightarrow>
     subseq (map packageKey (t_deployment_packages d1)) (map packageKey (t_deployment_packages d)) \<and>
     subseq (map applicationKey (t_applications d1)) (map applicationKey (t_applications d)) \<and>
     subseq (map artifactKey (t_artifacts d1)) (map artifactKey (t_artifacts d)) \<and>
     subseq (map registryKey (t_registries d1)) (map registryKey (t_registries d))"

text \<open>The number of rows fits the total of a listing.\<close>

definition countable :: "db \<Rightarrow> bool" where
  "countable d \<longleftrightarrow> length (t_deployment_packages d) < 2 ^ 31 \<and> length (t_applications d) < 2 ^ 31 \<and>
     length (t_artifacts d) < 2 ^ 31 \<and> length (t_registries d) < 2 ^ 31"

lemma shrinks_refl: "shrinks d d"
  by (simp add: shrinks_def)

lemma shrinks_trans: "shrinks d d1 \<Longrightarrow> shrinks d1 d2 \<Longrightarrow> shrinks d d2"
  unfolding shrinks_def by (blast intro: subseq_order.trans)

lemma shrinks_countable: "shrinks d d1 \<Longrightarrow> countable d \<Longrightarrow> countable d1"
  unfolding shrinks_def countable_def by (auto dest!: list_emb_length)

lemma subseq_set: "subseq xs ys \<Longrightarrow> set xs \<subseteq> set ys"
  by (metis notin_set_nthsI subseq_conv_nths subsetI)

lemma subseq_keys: "subseq (map f xs) (map g ys) \<Longrightarrow> f ` set xs \<subseteq> g ` set ys"
  by (metis set_map subseq_set)

lemma shrinks_keys:
  assumes "shrinks d d1"
  shows "packageKey ` set (t_deployment_packages d1) \<subseteq> packageKey ` set (t_deployment_packages d)"
    and "applicationKey ` set (t_applications d1) \<subseteq> applicationKey ` set (t_applications d)"
    and "artifactKey ` set (t_artifacts d1) \<subseteq> artifactKey ` set (t_artifacts d)"
    and "registryKey ` set (t_registries d1) \<subseteq> registryKey ` set (t_registries d)"
  using assms by (simp_all only: shrinks_def subseq_keys)

lemma subseq_map_filter: "map g (map f xs) = map g xs \<Longrightarrow> subseq (map g (List.filter P (map f xs))) (map g xs)"
  by (metis subseq_filter_left subseq_map)

definition keepsKeys :: "wiped \<Rightarrow> wiped \<Rightarrow> bool" where
  "keepsKeys w w1 \<longleftrightarrow> shrinks (sv_db (snd w)) (sv_db (snd w1))"

definition smallTables :: "wiped \<Rightarrow> bool" where
  "smallTables w \<longleftrightarrow> countable (sv_db (snd w))"

definition leftPackages :: "metadata option \<Rightarrow> wiped \<Rightarrow> (string \<times> string) set" where
  "leftPackages ctx w = {(n, v). \<exists>p. GetActiveProjectID ctx = Inr p \<and> (p, n, v) \<in> packageKey ` set (t_deployment_packages (sv_db (snd w)))}"

definition leftApplications :: "metadata option \<Rightarrow> wiped \<Rightarrow> (string \<times> string) set" where
  "leftApplications ctx w = {(n, v). \<exists>p. GetActiveProjectID ctx = Inr p \<and> (p, n, v) \<in> applicationKey ` set (t_applications (sv_db (snd w)))}"

definition leftArtifacts :: "metadata option \<Rightarrow> wiped \<Rightarrow> string set" where
  "leftArtifacts ctx w = {n. \<exists>p. GetActiveProjectID ctx = Inr p \<and> (p, n) \<in> artifactKey ` set (t_artifacts (sv_db (snd w)))}"

definition leftRegistries :: "metadata option \<Rightarrow> wiped \<Rightarrow> string set" where
  "leftRegistries ctx w = {n. \<exists>p. GetActiveProjectID ctx = Inr p \<and> (p, n) \<in> registryKey ` set (t_registries (sv_db (snd w)))}"

lemmas left_defs = leftPackages_def leftApplications_def leftArtifacts_def leftRegistries_def

lemma keepsKeys_order: "keepsKeys w w" "keepsKeys w w1 \<Longrightarrow> keepsKeys w1 w2 \<Longrightarrow> keepsKeys w w2"
  "keepsKeys w w1 \<Longrightarrow> smallTables w \<Longrightarrow> smallTables w1"
  unfolding keepsKeys_def smallTables_def by (blast intro: shrinks_refl shrinks_trans shrinks_countable)+

lemma keepsKeys_left:
  assumes "keepsKeys w w1"
  shows "leftPackages ctx w1 \<subseteq> leftPackages ctx w" and "leftApplications ctx w1 \<subseteq> leftApplications ctx w"
    and "leftArtifacts ctx w1 \<subseteq> leftArtifacts ctx w" and "leftRegistries ctx w1 \<subseteq> leftRegistries ctx w"
proof -
  note keys = shrinks_keys [OF assms [unfolded keepsKeys_def]]
  show "leftPackages ctx w1 \<subseteq> leftPackages ctx w" using keys(1) by (auto simp: leftPackages_def)
  show "leftApplications ctx w1 \<subseteq> leftApplications ctx w" using keys(2) by (auto simp: leftApplications_def)
  show "leftArtifacts ctx w1 \<subseteq> leftArtifacts ctx w" using keys(3) by (auto simp: leftArtifacts_def)
  show "leftRegistries ctx w1 \<subseteq> leftRegistries ctx w" using keys(4) by (auto simp: leftRegistries_def)
qed

section \<open>Deletions\<close>

lemma wiperCall_Inr:
  assumes "wiperCall envs f w = (r, w1)"
  shows "f (envs (fst w)) (snd w) = (r, snd w1)"
  using assms by (auto simp: wiperCall_def split: prod.splits)

lemma clear_keys [simp]:
  "packageKey (clearDefaultDeployment gone k) = packageKey k" "kdb_ID (clearDefaultDeployment gone k) = kdb_ID k"
  "applicationKey (clearDefault gone a) = applicationKey a" "adb_ID (clearDefault gone a) = adb_ID a"
  "applicationKey (clearImage gone a) = applicationKey a"
  by (simp_all add: clearDefaultDeployment_def clearDefault_def clearImage_def packageKey_def applicationKey_def split: option.splits)

text \<open>Rows deleted by their identifiers, with a reference of the others cleared.\<close>

lemma filtered_rows:
  assumes "\<And>r. key (f r) = key r" and "\<And>r. ident (f r) = ident r"
    and "rows' = List.filter (\<lambda>r. ident r \<notin> ident ` set (List.filter P rows)) (map f rows)"
  shows "subseq (map key rows') (map key rows)" and "\<lbrakk>k \<in> key ` set rows'; \<And>r. key r = k \<Longrightarrow> P r\<rbrakk> \<Longrightarrow> False"
proof -
  have "map key (map f rows) = map key rows" using assms(1) by simp
  then show "subseq (map key rows') (map key rows)" unfolding assms(3) by (rule subseq_map_filter)
next
  assume k: "k \<in> key ` set rows'" and P: "\<And>r. key r = k \<Longrightarrow> P r"
  then obtain r where "r \<in> set rows" "key r = k" "ident r \<notin> ident ` set (List.filter P rows)"
    using assms by auto
  with P show False by auto
qed

lemma deletePackageRows_tables:
  assumes "deleteDeploymentPackageRows P now d = (Inr n, d1)"
  obtains gone where "t_deployment_packages d1 =
      List.filter (\<lambda>k. kdb_ID k \<notin> kdb_ID ` set (List.filter P (t_deployment_packages d))) (map (clearDefaultDeployment gone) (t_deployment_packages d))"
    "t_applications d1 = t_applications d" "t_artifacts d1 = t_artifacts d" "t_registries d1 = t_registries d"
  using assms by (auto simp: deleteDeploymentPackageRows_def dropDeploymentProfiles_def Let_def split: if_splits)

lemma deleteApplicationRows_tables:
  assumes "deleteApplicationRows P now d = (Inr n, d1)"
  obtains gone where "t_applications d1 =
      List.filter (\<lambda>a. adb_ID a \<notin> adb_ID ` set (List.filter P (t_applications d))) (map (clearDefault gone) (t_applications d))"
    "t_deployment_packages d1 = t_deployment_packages d" "t_artifacts d1 = t_artifacts d" "t_registries d1 = t_registries d"
  using assms by (auto simp: deleteApplicationRows_def dropProfiles_def Let_def split: if_splits)

lemma deleted_package:
  assumes "DeleteDeploymentPackage env ctx name version srv = (Inr u, srv1)"
  shows "shrinks (sv_db srv) (sv_db srv1)"
    and "GetActiveProjectID ctx = Inr p \<Longrightarrow> (p, name, version) \<notin> packageKey ` set (t_deployment_packages (sv_db srv1))"
proof -
  obtain x t0 v t where run: "admitsPackage DeleteDeploymentPackageRequest env ctx (name, version) x" "tx_db t0 = sv_db srv"
    "(case x of (p, name, version) \<Rightarrow> deletePackageBody p name version) t0 = (Inr v, t)"
    "srv1 = deletedPackage x t (srv\<lparr>sv_db := tx_db t, sv_vault := tx_vault t\<rparr>)"
    by (rule delete_package.success [of env ctx "(name, version)" srv u srv1]) (use assms in auto)
  obtain q where x: "x = (q, name, version)" "GetActiveProjectID ctx = Inr q"
    using run(1) by (cases x) (auto simp: admitsPackage_def)
  have "tri (\<lambda>d. d = sv_db srv) (deletePackageBody q name version)
      (\<lambda>_ d. \<exists>n r. deleteDeploymentPackageRows (packageIn q name version) r (sv_db srv) = (Inr n, d))"
    unfolding deletePackageBody_def checkDeploymentPackageNotDeployed_def
    by (intro tri_bnd_same [OF tri_bnd_same [OF tri_query_same]] tri_case_sum tri_if tri_throw tri_ret tri_bnd [OF tri_done]) auto
  from triD [OF this, of t0 v t] run(2,3) obtain n r
    where d: "deleteDeploymentPackageRows (packageIn q name version) r (sv_db srv) = (Inr n, sv_db srv1)"
    using run(4) by (auto simp: x(1) deletedPackage_def)
  obtain gone where tables: "t_deployment_packages (sv_db srv1) = List.filter (\<lambda>k. kdb_ID k \<notin>
        kdb_ID ` set (List.filter (packageIn q name version) (t_deployment_packages (sv_db srv))))
        (map (clearDefaultDeployment gone) (t_deployment_packages (sv_db srv)))"
    "t_applications (sv_db srv1) = t_applications (sv_db srv)" "t_artifacts (sv_db srv1) = t_artifacts (sv_db srv)"
    "t_registries (sv_db srv1) = t_registries (sv_db srv)"
    by (rule deletePackageRows_tables [OF d]) (rule that)
  note rows = filtered_rows [where key = packageKey and ident = kdb_ID, OF _ _ tables(1), simplified]
  show "shrinks (sv_db srv) (sv_db srv1)" unfolding shrinks_def using rows(1) tables(2-4) by simp
  show "(p, name, version) \<notin> packageKey ` set (t_deployment_packages (sv_db srv1))" if "GetActiveProjectID ctx = Inr p"
    using rows(2) [of "(p, name, version)"] that x(2) by (auto simp: packageKey_def packageIn_def)
qed

lemma deleted_application:
  assumes "DeleteApplication env ctx name version srv = (Inr u, srv1)"
  shows "shrinks (sv_db srv) (sv_db srv1)"
    and "GetActiveProjectID ctx = Inr p \<Longrightarrow> (p, name, version) \<notin> applicationKey ` set (t_applications (sv_db srv1))"
proof -
  obtain x t0 v t where run: "admitsApplication DeleteApplicationRequest env ctx (name, version) x" "tx_db t0 = sv_db srv"
    "(case x of (p, name, version) \<Rightarrow> deleteApplicationBody p name version) t0 = (Inr v, t)"
    "srv1 = deletedApplication x t (srv\<lparr>sv_db := tx_db t, sv_vault := tx_vault t\<rparr>)"
    by (rule delete_application.success [of env ctx "(name, version)" srv u srv1]) (use assms in auto)
  obtain q where x: "x = (q, name, version)" "GetActiveProjectID ctx = Inr q"
    using run(1) by (cases x) (auto simp: admitsApplication_def)
  obtain n r where d: "deleteApplicationRows (applicationIn q name version) r (sv_db srv) = (Inr n, sv_db srv1)"
    using run(2-4) by (auto simp: x(1) deletedApplication_def deleteApplicationBody_def success_simps split: if_splits)
  obtain gone where tables: "t_applications (sv_db srv1) = List.filter (\<lambda>a. adb_ID a \<notin>
        adb_ID ` set (List.filter (applicationIn q name version) (t_applications (sv_db srv))))
        (map (clearDefault gone) (t_applications (sv_db srv)))"
    "t_deployment_packages (sv_db srv1) = t_deployment_packages (sv_db srv)" "t_artifacts (sv_db srv1) = t_artifacts (sv_db srv)"
    "t_registries (sv_db srv1) = t_registries (sv_db srv)"
    by (rule deleteApplicationRows_tables [OF d]) (rule that)
  note rows = filtered_rows [where key = applicationKey and ident = adb_ID, OF _ _ tables(1), simplified]
  show "shrinks (sv_db srv) (sv_db srv1)" unfolding shrinks_def using rows(1) tables(2-4) by simp
  show "(p, name, version) \<notin> applicationKey ` set (t_applications (sv_db srv1))" if "GetActiveProjectID ctx = Inr p"
    using rows(2) [of "(p, name, version)"] that x(2) by (auto simp: applicationKey_def applicationIn_def)
qed

lemma deleted_artifact:
  assumes "DeleteArtifact env ctx name srv = (Inr u, srv1)"
  shows "shrinks (sv_db srv) (sv_db srv1)"
    and "GetActiveProjectID ctx = Inr p \<Longrightarrow> (p, name) \<notin> artifactKey ` set (t_artifacts (sv_db srv1))"
proof -
  obtain x t0 v t where run: "admitsDeleteArtifact env ctx name x" "tx_db t0 = sv_db srv"
    "deleteArtifactBody env x t0 = (Inr v, t)" "srv1 = deletedArtifact x t (srv\<lparr>sv_db := tx_db t, sv_vault := tx_vault t\<rparr>)"
    by (rule delete_artifact.success [OF assms]) (rule that)
  obtain q where x: "x = (q, name)" "GetActiveProjectID ctx = Inr q"
    using run(1) by (cases x) (auto simp: admitsDeleteArtifact_def)
  have "tri (\<lambda>d. d = sv_db srv) (deleteArtifactBody env x)
      (\<lambda>_ d. \<exists>n r. deleteArtifactRows (artifactIn q name) r (sv_db srv) = (Inr n, d))"
    unfolding deleteArtifactBody_def x(1) prod.case
    by (intro tri_bnd_saved [where R = "\<lambda>n d. \<exists>r. deleteArtifactRows (artifactIn q name) r (sv_db srv) = (Inr n, d)"] tri_if tri_throw tri_ret)
      auto
  from triD [OF this, of t0 v t] run(2,3) obtain n r
    where "deleteArtifactRows (artifactIn q name) r (sv_db srv) = (Inr n, sv_db srv1)"
    using run(4) by (auto simp: x(1) deletedArtifact_def)
  then have db: "sv_db srv1 = (sv_db srv)\<lparr>t_artifacts := List.filter (\<lambda>r. \<not> artifactIn q name r) (t_artifacts (sv_db srv))\<rparr>"
    by (auto simp: deleteArtifactRows_def Let_def split: if_splits)
  show "shrinks (sv_db srv) (sv_db srv1)" unfolding shrinks_def db by (simp add: subseq_map)
  show "(p, name) \<notin> artifactKey ` set (t_artifacts (sv_db srv1))" if "GetActiveProjectID ctx = Inr p"
    using that x(2) by (auto simp: db artifactKey_def artifactIn_def)
qed

lemma deleted_registry:
  assumes "DeleteRegistry env ctx name srv = (Inr u, srv1)"
  shows "shrinks (sv_db srv) (sv_db srv1)"
    and "GetActiveProjectID ctx = Inr p \<Longrightarrow> (p, name) \<notin> registryKey ` set (t_registries (sv_db srv1))"
proof -
  obtain q t0 t1 t where run: "admitsDeleteRegistry env ctx name (q, name)"
    "startTransaction env srv = (Inr t0, srv\<lparr>sv_open := Suc (sv_open srv)\<rparr>)" "deleteRegistryBody q name t0 = (Inr (), t1)"
    "tx_db t = tx_db t1" "srv1 = deletedRegistry (q, name) t (srv\<lparr>sv_db := tx_db t, sv_vault := tx_vault t\<rparr>)"
    by (rule DeleteRegistry_success [OF assms]) (rule that)
  have "tx_db t0 = sv_db srv" using startTransaction_Inr [OF run(2)] by simp
  with run(3-5) obtain gone where db: "sv_db srv1 = (sv_db srv)\<lparr>t_registries := List.filter (\<lambda>r. \<not> inProject q name r) (t_registries (sv_db srv)),
      t_applications := map (clearImage gone) (t_applications (sv_db srv))\<rparr>"
    by (auto elim!: deleteRegistryBody_success simp: deletedRegistry_def)
  show "shrinks (sv_db srv) (sv_db srv1)" unfolding shrinks_def db by (simp add: subseq_map comp_def)
  show "(p, name) \<notin> registryKey ` set (t_registries (sv_db srv1))" if "GetActiveProjectID ctx = Inr p"
    using that run(1) by (auto simp: db registryKey_def inProject_def admitsDeleteRegistry_def)
qed

section \<open>Listings\<close>

text \<open>A first page whose total is not above its length is all there is.\<close>

lemma complete_page:
  assumes "computePageRange maxPageSize 0 (int (length rows)) = Inr (i, j, n)" and "rows \<noteq> []" and "pageOf rows i j = Some page"
    and "\<not> sint n > sint (word_of_nat (length page) :: int32)" and "length rows < 2 ^ 31"
  shows "page = rows"
proof -
  have n: "n = word_of_int (int (length rows))" using computePageRange_Inr_bounds(4) [OF assms(1)] assms(2) by simp
  have page: "page = rows \<or> page = take 500 rows"
    using computePageRange_page [OF assms(1,2)] assms(3) by (auto simp: effectiveSize_def)
  then have "length page \<le> length rows" by auto
  moreover have "sint (word_of_nat k :: int32) = int k" if "k < 2 ^ 31" for k
    using that by (simp add: signed_of_nat signed_take_bit_int_eq_self)
  from this [of "length rows"] this [of "length page"] have "sint n = int (length rows)" "sint (word_of_nat (length page) :: int32) = int (length page)"
    using assms(5) calculation by (simp_all add: n)
  ultimately show ?thesis using assms(4) page by auto
qed

lemma length_insertRow [simp]: "length (insertRow le r rows) = Suc (length rows)"
  by (induction rows) auto

lemma length_orderRows [simp]: "length (orderRows le rows) = length rows"
  unfolding orderRows_def by (induction rows) auto

lemma q_list_all:
  assumes "q_list g cols texts [] [] base rows = Inr all"
  shows "r \<in> set rows \<Longrightarrow> base r \<Longrightarrow> r \<in> set all" and "length all \<le> length rows"
proof -
  have all: "all = orderRows (row_le g cols []) (List.filter base rows)" using assms by (simp add: q_list_def)
  then show "r \<in> set rows \<Longrightarrow> base r \<Longrightarrow> r \<in> set all" by simp
  show "length all \<le> length rows" by (simp add: all)
qed

text \<open>The page and the total that a listing of the first page reports for the rows of its query.\<close>

definition firstPage :: "('r \<Rightarrow> 'a \<Rightarrow> bool) \<Rightarrow> 'r list \<Rightarrow> 'a list \<Rightarrow> int32 \<Rightarrow> bool" where
  "firstPage rel all page n \<longleftrightarrow> all = [] \<and> page = [] \<and> n = 0 \<or>
     all \<noteq> [] \<and> (\<exists>i j rows. computePageRange maxPageSize 0 (int (length all)) = Inr (i, j, n) \<and> pageOf all i j = Some rows \<and>
       list_all2 rel rows page)"

lemma firstPage_complete:
  assumes "firstPage rel all page n" and "length all < 2 ^ 31" and "\<not> sint n > sint (word_of_nat (length page) :: int32)"
    and "r \<in> set all"
  shows "\<exists>x \<in> set page. rel r x"
proof -
  obtain i j rows where rows: "computePageRange maxPageSize 0 (int (length all)) = Inr (i, j, n)" "pageOf all i j = Some rows"
    "list_all2 rel rows page" "all \<noteq> []"
    using assms(1,4) by (auto simp: firstPage_def)
  have "rows = all"
    using complete_page [OF rows(1,4,2)] assms(2,3) list_all2_lengthD [OF rows(3)] by simp
  with assms(4) rows(3) show ?thesis by (metis in_set_conv_nth list_all2_conv_all_nth)
qed

lemma firstPage_few:
  assumes "firstPage rel all page n" and "length all \<le> 500"
  shows "\<not> sint n > sint (word_of_nat (length page) :: int32)"
proof (cases "all = []")
  case True
  with assms(1) show ?thesis by (simp add: firstPage_def)
next
  case False
  then obtain i j rows where rows: "computePageRange maxPageSize 0 (int (length all)) = Inr (i, j, n)" "pageOf all i j = Some rows"
    "list_all2 rel rows page"
    using assms(1) by (auto simp: firstPage_def)
  have "rows = all"
    using computePageRange_page [OF rows(1) False] rows(2) assms(2) by (auto simp: effectiveSize_def)
  moreover have "n = word_of_int (int (length all))" using computePageRange_Inr_bounds(4) [OF rows(1)] False by simp
  ultimately show ?thesis using list_all2_lengthD [OF rows(3)] by simp
qed

lemma extractDeploymentPackage_key:
  "extractDeploymentPackage k t = (Inr pkg, t1) \<Longrightarrow> dp_Name pkg = kdb_Name k \<and> dp_Version pkg = kdb_Version k"
  unfolding extractDeploymentPackage_def bnd_Inr ret_Inr by force

lemma applicationExtract_key:
  "applicationExtract a t = (Inr app, t1) \<Longrightarrow> a_Name app = adb_Name a \<and> a_Version app = adb_Version a"
  unfolding applicationExtract_def bnd_Inr ret_Inr by force

lemma listed_packages:
  assumes "ListDeploymentPackages env ctx (Some \<lparr>ldp_OrderBy = [], ldp_Filter = [], ldp_PageSize = maxPageSize, ldp_Offset = 0,
      ldp_Kinds = []\<rparr>) srv = (Inr (page, n), srv1)"
  obtains p all where "GetActiveProjectID ctx = Inr p" and "firstPage (\<lambda>k pkg. \<exists>s s1. extractDeploymentPackage k s = (Inr pkg, s1)) all page n"
    and "length all \<le> length (t_deployment_packages (sv_db srv))" and "\<And>r. \<lbrakk>r \<in> set (t_deployment_packages (sv_db srv)); kdb_ProjectUUID r = p\<rbrakk> \<Longrightarrow> r \<in> set all"
proof -
  obtain x t0 v t where run: "admitsListPackages env ctx (Some \<lparr>ldp_OrderBy = [], ldp_Filter = [], ldp_PageSize = maxPageSize,
      ldp_Offset = 0, ldp_Kinds = []\<rparr>) x" "tx_db t0 = sv_db srv" "listPackagesBody env x t0 = (Inr v, t)"
    "(page, n) = (case v of (packages, _, n) \<Rightarrow> (packages, n))"
    by (rule list_packages.success [OF assms(1)]) (rule that)
  obtain projects where v: "v = (page, projects, n)" using run(4) by (cases v) auto
  obtain p where x: "x = (p, \<lparr>ldp_OrderBy = [], ldp_Filter = [], ldp_PageSize = maxPageSize, ldp_Offset = 0, ldp_Kinds = []\<rparr>)"
    and p: "GetActiveProjectID ctx = Inr p"
    using run(1) by (cases x) (auto simp: admitsListPackages_def)
  obtain all i j m where all: "q_list (e_engine env) packageColumn packageText [] [] (\<lambda>k. p = [] \<or> kdb_ProjectUUID k = p)
      (t_deployment_packages (sv_db srv)) = Inr all"
    and range: "computePageRange maxPageSize 0 (int (length all)) = Inr (i, j, m)"
    and rest: "(if all = [] then ret ([], [], 0) else (case pageOf all i j of None \<Rightarrow> throw goPanic
      | Some page \<Rightarrow> bnd (mapM extractDeploymentPackage page) (\<lambda>packages.
          ret (packages, map kdb_ProjectUUID page, of_nat (length all))))) (tick t0) = (Inr (page, projects, n), t)"
    using run(2,3) unfolding x v
    by (auto simp: listPackagesBody_def parseOrderBy_def parseFilter_def getDeploymentPackages_def kindPredicate_def Let_def
        success_simps orDBError_query_Inr)
  have "all \<noteq> [] \<Longrightarrow> m = of_nat (length all)" using computePageRange_Inr_bounds(4) [OF range] by simp
  with rest range have "firstPage (\<lambda>k pkg. \<exists>s s1. extractDeploymentPackage k s = (Inr pkg, s1)) all page n"
    by (auto simp: firstPage_def bnd_Inr ret_Inr throw_Inr split: if_splits option.splits dest: mapM_Inr)
  then show thesis by (rule that [OF p _ q_list_all(2) [OF all]]) (rule q_list_all(1) [OF all], simp_all)
qed

lemma listed_applications:
  assumes "ListApplications env ctx (Some \<lparr>lap_OrderBy = [], lap_Filter = [], lap_PageSize = maxPageSize, lap_Offset = 0,
      lap_Kinds = []\<rparr>) srv = (Inr (page, n), srv1)"
  obtains p all where "GetActiveProjectID ctx = Inr p" and "firstPage (\<lambda>a app. \<exists>s s1. applicationExtract a s = (Inr app, s1)) all page n"
    and "length all \<le> length (t_applications (sv_db srv))" and "\<And>r. \<lbrakk>r \<in> set (t_applications (sv_db srv)); adb_ProjectUUID r = p\<rbrakk> \<Longrightarrow> r \<in> set all"
proof -
  obtain x t0 v t where run: "admitsListApplications env ctx (Some \<lparr>lap_OrderBy = [], lap_Filter = [], lap_PageSize = maxPageSize,
      lap_Offset = 0, lap_Kinds = []\<rparr>) x" "tx_db t0 = sv_db srv" "listApplicationsBody env x t0 = (Inr v, t)"
    "(page, n) = (case v of (applications, _, n) \<Rightarrow> (applications, n))"
    by (rule list_applications.success [OF assms(1)]) (rule that)
  obtain projects where v: "v = (page, projects, n)" using run(4) by (cases v) auto
  obtain p where x: "x = (p, \<lparr>lap_OrderBy = [], lap_Filter = [], lap_PageSize = maxPageSize, lap_Offset = 0, lap_Kinds = []\<rparr>)"
    and p: "GetActiveProjectID ctx = Inr p"
    using run(1) by (cases x) (auto simp: admitsListApplications_def)
  obtain all i j m where all: "q_list (e_engine env) applicationColumn applicationText [] [] (\<lambda>a. p = [] \<or> adb_ProjectUUID a = p)
      (t_applications (sv_db srv)) = Inr all"
    and range: "computePageRange maxPageSize 0 (int (length all)) = Inr (i, j, m)"
    and rest: "(if all = [] then ret ([], [], 0) else (case pageOf all i j of None \<Rightarrow> throw goPanic
      | Some page \<Rightarrow> bnd (mapM applicationExtract page) (\<lambda>applications.
          ret (applications, map adb_ProjectUUID page, m)))) (tick t0) = (Inr (page, projects, n), t)"
    using run(2,3) unfolding x v
    by (auto simp: listApplicationsBody_def parseOrderBy_def parseFilter_def getApplications_def applicationsExtract_def
        kindPredicate_def Let_def success_simps orDBError_query_Inr)
  from rest range have "firstPage (\<lambda>a app. \<exists>s s1. applicationExtract a s = (Inr app, s1)) all page n"
    by (auto simp: firstPage_def bnd_Inr ret_Inr throw_Inr split: if_splits option.splits dest: mapM_Inr)
  then show thesis by (rule that [OF p _ q_list_all(2) [OF all]]) (rule q_list_all(1) [OF all], simp_all)
qed

lemma listed_artifacts:
  assumes "ListArtifacts env ctx (Some \<lparr>la_OrderBy = [], la_Filter = [], la_PageSize = maxPageSize, la_Offset = 0\<rparr>) srv =
      (Inr (page, n), srv1)"
  obtains p all where "GetActiveProjectID ctx = Inr p" and "firstPage (\<lambda>r art. art = extractArtifact r) all page n"
    and "length all \<le> length (t_artifacts (sv_db srv))" and "\<And>r. \<lbrakk>r \<in> set (t_artifacts (sv_db srv)); tdb_ProjectUUID r = p\<rbrakk> \<Longrightarrow> r \<in> set all"
proof -
  obtain x t0 v t where run: "admitsListArtifacts env ctx (Some \<lparr>la_OrderBy = [], la_Filter = [], la_PageSize = maxPageSize,
      la_Offset = 0\<rparr>) x" "tx_db t0 = sv_db srv" "listArtifactsBody env x t0 = (Inr v, t)"
    "(page, n) = (case v of (artifacts, _, n) \<Rightarrow> (artifacts, n))"
    by (rule list_artifacts.success [OF assms(1)]) (rule that)
  obtain projects where v: "v = (page, projects, n)" using run(4) by (cases v) auto
  obtain p where x: "x = (p, \<lparr>la_OrderBy = [], la_Filter = [], la_PageSize = maxPageSize, la_Offset = 0\<rparr>)"
    and p: "GetActiveProjectID ctx = Inr p"
    using run(1) by (cases x) (auto simp: admitsListArtifacts_def)
  obtain all i j m where all: "q_list (e_engine env) artifactColumn artifactText [] []
      (\<lambda>r. p = AdminProjectID \<or> tdb_ProjectUUID r = p) (t_artifacts (sv_db srv)) = Inr all"
    and range: "computePageRange maxPageSize 0 (int (length all)) = Inr (i, j, m)"
    and rest: "(if all = [] then ret ([], [], 0) else (case pageOf all i j of None \<Rightarrow> throw goPanic
      | Some page \<Rightarrow> ret (map extractArtifact page, map tdb_ProjectUUID page, m))) (tick t0) = (Inr (page, projects, n), t)"
    using run(2,3) unfolding x v
    by (auto simp: listArtifactsBody_def parseOrderBy_def parseFilter_def getArtifacts_def success_simps orDBError_query_Inr)
  from rest range have "firstPage (\<lambda>r art. art = extractArtifact r) all page n"
    by (auto simp: firstPage_def bnd_Inr ret_Inr throw_Inr list_all2_conv_all_nth split: if_splits option.splits)
  then show thesis by (rule that [OF p _ q_list_all(2) [OF all]]) (rule q_list_all(1) [OF all], simp_all)
qed

lemma listed_registries:
  assumes "ListRegistries env ctx (Some \<lparr>lr_OrderBy = [], lr_Filter = [], lr_PageSize = maxPageSize, lr_Offset = 0,
      lr_ShowSensitiveInfo = False\<rparr>) srv = (Inr (page, n), srv1)"
  obtains p all where "GetActiveProjectID ctx = Inr p" and "firstPage (\<lambda>r reg. \<exists>s s1. extractRegistry env False r s = (Inr reg, s1)) all page n"
    and "length all \<le> length (t_registries (sv_db srv))" and "\<And>r. \<lbrakk>r \<in> set (t_registries (sv_db srv)); rdb_ProjectUUID r = p\<rbrakk> \<Longrightarrow> r \<in> set all"
proof -
  obtain x t0 v t where run: "admitsListRegistries env ctx (Some \<lparr>lr_OrderBy = [], lr_Filter = [], lr_PageSize = maxPageSize,
      lr_Offset = 0, lr_ShowSensitiveInfo = False\<rparr>) x" "tx_db t0 = sv_db srv" "listRegistriesBody env x t0 = (Inr v, t)"
    "(page, n) = (case v of (registries, _, n) \<Rightarrow> (registries, n))"
    by (rule list_registries.success [OF assms(1)]) (rule that)
  obtain projects where v: "v = (page, projects, n)" using run(4) by (cases v) auto
  obtain p where x: "x = (p, \<lparr>lr_OrderBy = [], lr_Filter = [], lr_PageSize = maxPageSize, lr_Offset = 0, lr_ShowSensitiveInfo = False\<rparr>)"
    and p: "GetActiveProjectID ctx = Inr p"
    using run(1) by (cases x) (auto simp: admitsListRegistries_def)
  obtain t1 all i j m where login: "(if e_UseSecretService env then orVaultError SecretServiceFactory else ret ()) t0 = (Inr (), t1)"
    and all1: "q_list (e_engine env) registryColumn registryText [] [] (\<lambda>r. p = [] \<or> rdb_ProjectUUID r = p)
      (t_registries (tx_db t1)) = Inr all"
    and range: "computePageRange maxPageSize 0 (int (length all)) = Inr (i, j, m)"
    and rest: "(if all = [] then ret ([], [], 0) else (case pageOf all i j of None \<Rightarrow> throw goPanic
      | Some page \<Rightarrow> bnd (mapM (extractRegistry env False) page) (\<lambda>registries.
          ret (registries, map rdb_ProjectUUID page, m)))) (tick t1) = (Inr (page, projects, n), t)"
    using run(2,3) unfolding x v listRegistriesBody_def prod.case ListRegistriesRequest.select_convs
    by (auto simp: parseOrderBy_def parseFilter_def getRegistries_def bnd_Inr liftE_Inr orDBError_query_Inr)
  have "tx_db t1 = sv_db srv" using login run(2) by (auto simp: secrets_Inr ret_Inr split: if_splits)
  with all1 have all: "q_list (e_engine env) registryColumn registryText [] [] (\<lambda>r. p = [] \<or> rdb_ProjectUUID r = p)
      (t_registries (sv_db srv)) = Inr all" by simp
  from rest range have "firstPage (\<lambda>r reg. \<exists>s s1. extractRegistry env False r s = (Inr reg, s1)) all page n"
    by (auto simp: firstPage_def bnd_Inr ret_Inr throw_Inr split: if_splits option.splits dest: mapM_Inr)
  then show thesis by (rule that [OF p _ q_list_all(2) [OF all]]) (rule q_list_all(1) [OF all], simp_all)
qed

section \<open>The four kinds\<close>

lemma reading_keeps: "public srv1 = public srv \<Longrightarrow> shrinks (sv_db srv) (sv_db srv1)"
  by (simp add: public_def shrinks_refl)

interpretation wiping_packages: wiping
  "wiperCall envs (\<lambda>env. ListDeploymentPackages env ctx
     (Some \<lparr>ldp_OrderBy = [], ldp_Filter = [], ldp_PageSize = maxPageSize, ldp_Offset = 0, ldp_Kinds = []\<rparr>))"
  "\<lambda>pkg. wiperCall envs (\<lambda>env. DeleteDeploymentPackage env ctx (dp_Name pkg) (dp_Version pkg))"
  "\<lambda>pkg. (dp_Name pkg, dp_Version pkg)" "leftPackages ctx" keepsKeys smallTables for envs ctx
proof (unfold_locales, goal_cases)
  case (5 w r w1)
  from list_packages.public_unchanged [OF wiperCall_Inr [OF 5]] show ?case by (simp add: keepsKeys_def reading_keeps)
next
  case (6 w page n w1)
  show ?case
  proof
    fix left
    assume "left \<in> leftPackages ctx w"
    then obtain p row where row: "GetActiveProjectID ctx = Inr p" "row \<in> set (t_deployment_packages (sv_db (snd w)))" "kdb_ProjectUUID row = p"
      "left = (kdb_Name row, kdb_Version row)"
      by (auto simp: leftPackages_def packageKey_def)
    obtain q all where page: "GetActiveProjectID ctx = Inr q" "firstPage (\<lambda>k pkg. \<exists>s s1. extractDeploymentPackage k s = (Inr pkg, s1)) all page n"
      "length all \<le> length (t_deployment_packages (sv_db (snd w)))" "row \<in> set all"
      by (rule listed_packages [OF wiperCall_Inr [OF 6(1)]]) (use row that in auto)
    have "length all < 2 ^ 31" using page(3) 6(2) by (simp add: smallTables_def countable_def)
    from firstPage_complete [OF page(2) this 6(3) page(4)] row(4) show "left \<in> (\<lambda>pkg. (dp_Name pkg, dp_Version pkg)) ` set page"
      by (force dest: extractDeploymentPackage_key)
  qed
next
  case (7 x w u w1)
  from deleted_package(1) [OF wiperCall_Inr [OF 7]] show ?case by (simp add: keepsKeys_def)
next
  case (8 x w u w1)
  from deleted_package(2) [OF wiperCall_Inr [OF 8]] show ?case by (auto simp: leftPackages_def)
qed (rule keepsKeys_order keepsKeys_left; assumption?)+

interpretation wiping_applications: wiping
  "wiperCall envs (\<lambda>env. ListApplications env ctx
     (Some \<lparr>lap_OrderBy = [], lap_Filter = [], lap_PageSize = maxPageSize, lap_Offset = 0, lap_Kinds = []\<rparr>))"
  "\<lambda>app. wiperCall envs (\<lambda>env. DeleteApplication env ctx (a_Name app) (a_Version app))"
  "\<lambda>app. (a_Name app, a_Version app)" "leftApplications ctx" keepsKeys smallTables for envs ctx
proof (unfold_locales, goal_cases)
  case (5 w r w1)
  from list_applications.public_unchanged [OF wiperCall_Inr [OF 5]] show ?case by (simp add: keepsKeys_def reading_keeps)
next
  case (6 w page n w1)
  show ?case
  proof
    fix left
    assume "left \<in> leftApplications ctx w"
    then obtain p row where row: "GetActiveProjectID ctx = Inr p" "row \<in> set (t_applications (sv_db (snd w)))" "adb_ProjectUUID row = p"
      "left = (adb_Name row, adb_Version row)"
      by (auto simp: leftApplications_def applicationKey_def)
    obtain q all where page: "GetActiveProjectID ctx = Inr q" "firstPage (\<lambda>a app. \<exists>s s1. applicationExtract a s = (Inr app, s1)) all page n"
      "length all \<le> length (t_applications (sv_db (snd w)))" "row \<in> set all"
      by (rule listed_applications [OF wiperCall_Inr [OF 6(1)]]) (use row that in auto)
    have "length all < 2 ^ 31" using page(3) 6(2) by (simp add: smallTables_def countable_def)
    from firstPage_complete [OF page(2) this 6(3) page(4)] row(4) show "left \<in> (\<lambda>app. (a_Name app, a_Version app)) ` set page"
      by (force dest: applicationExtract_key)
  qed
next
  case (7 x w u w1)
  from deleted_application(1) [OF wiperCall_Inr [OF 7]] show ?case by (simp add: keepsKeys_def)
next
  case (8 x w u w1)
  from deleted_application(2) [OF wiperCall_Inr [OF 8]] show ?case by (auto simp: leftApplications_def)
qed (rule keepsKeys_order keepsKeys_left; assumption?)+

interpretation wiping_artifacts: wiping
  "wiperCall envs (\<lambda>env. ListArtifacts env ctx
     (Some \<lparr>la_OrderBy = [], la_Filter = [], la_PageSize = maxPageSize, la_Offset = 0\<rparr>))"
  "\<lambda>artifact. wiperCall envs (\<lambda>env. DeleteArtifact env ctx (art_Name artifact))"
  "\<lambda>artifact. art_Name artifact" "leftArtifacts ctx" keepsKeys smallTables for envs ctx
proof (unfold_locales, goal_cases)
  case (5 w r w1)
  from list_artifacts.public_unchanged [OF wiperCall_Inr [OF 5]] show ?case by (simp add: keepsKeys_def reading_keeps)
next
  case (6 w page n w1)
  show ?case
  proof
    fix left
    assume "left \<in> leftArtifacts ctx w"
    then obtain p row where row: "GetActiveProjectID ctx = Inr p" "row \<in> set (t_artifacts (sv_db (snd w)))" "tdb_ProjectUUID row = p"
      "left = tdb_Name row"
      by (auto simp: leftArtifacts_def artifactKey_def)
    obtain q all where page: "GetActiveProjectID ctx = Inr q" "firstPage (\<lambda>r art. art = extractArtifact r) all page n"
      "length all \<le> length (t_artifacts (sv_db (snd w)))" "row \<in> set all"
      by (rule listed_artifacts [OF wiperCall_Inr [OF 6(1)]]) (use row that in auto)
    have "length all < 2 ^ 31" using page(3) 6(2) by (simp add: smallTables_def countable_def)
    from firstPage_complete [OF page(2) this 6(3) page(4)] row(4) show "left \<in> (\<lambda>artifact. art_Name artifact) ` set page"
      by (force simp: extractArtifact_def)
  qed
next
  case (7 x w u w1)
  from deleted_artifact(1) [OF wiperCall_Inr [OF 7]] show ?case by (simp add: keepsKeys_def)
next
  case (8 x w u w1)
  from deleted_artifact(2) [OF wiperCall_Inr [OF 8]] show ?case by (auto simp: leftArtifacts_def)
qed (rule keepsKeys_order keepsKeys_left; assumption?)+

interpretation wiping_registries: wiping
  "wiperCall envs (\<lambda>env. ListRegistries env ctx
     (Some \<lparr>lr_OrderBy = [], lr_Filter = [], lr_PageSize = maxPageSize, lr_Offset = 0, lr_ShowSensitiveInfo = False\<rparr>))"
  "\<lambda>registry. wiperCall envs (\<lambda>env. DeleteRegistry env ctx (r_Name registry))"
  "\<lambda>registry. r_Name registry" "leftRegistries ctx" keepsKeys smallTables for envs ctx
proof (unfold_locales, goal_cases)
  case (5 w r w1)
  from list_registries.public_unchanged [OF wiperCall_Inr [OF 5]] show ?case by (simp add: keepsKeys_def reading_keeps)
next
  case (6 w page n w1)
  show ?case
  proof
    fix left
    assume "left \<in> leftRegistries ctx w"
    then obtain p row where row: "GetActiveProjectID ctx = Inr p" "row \<in> set (t_registries (sv_db (snd w)))" "rdb_ProjectUUID row = p"
      "left = rdb_Name row"
      by (auto simp: leftRegistries_def registryKey_def)
    obtain q all where page: "GetActiveProjectID ctx = Inr q" "firstPage (\<lambda>r reg. \<exists>s s1. extractRegistry (envs (fst w)) False r s = (Inr reg, s1)) all page n"
      "length all \<le> length (t_registries (sv_db (snd w)))" "row \<in> set all"
      by (rule listed_registries [OF wiperCall_Inr [OF 6(1)]]) (use row that in auto)
    have "length all < 2 ^ 31" using page(3) 6(2) by (simp add: smallTables_def countable_def)
    from firstPage_complete [OF page(2) this 6(3) page(4)] row(4) show "left \<in> (\<lambda>registry. r_Name registry) ` set page"
      by (force dest: extractRegistry_success(1))
  qed
next
  case (7 x w u w1)
  from deleted_registry(1) [OF wiperCall_Inr [OF 7]] show ?case by (simp add: keepsKeys_def)
next
  case (8 x w u w1)
  from deleted_registry(2) [OF wiperCall_Inr [OF 8]] show ?case by (auto simp: leftRegistries_def)
qed (rule keepsKeys_order keepsKeys_left; assumption?)+

end
