(* ===== verification/Wiper_Preparation.thy ===== *)
theory Wiper_Preparation
  imports Wiper_Loops Package_Properties
begin

text \<open>
  What the preparation of the wiper keeps: an update of a package changes its parts, and no row of the four tables of
  entities comes or goes.
\<close>

section \<open>The number of rows\<close>

definition sizes :: "db \<Rightarrow> nat \<times> nat \<times> nat \<times> nat" where
  "sizes d = (length (t_deployment_packages d), length (t_applications d), length (t_artifacts d), length (t_registries d))"

abbreviation ofSizes :: "nat \<times> nat \<times> nat \<times> nat \<Rightarrow> db \<Rightarrow> bool" where
  "ofSizes n \<equiv> \<lambda>d. sizes d = n"

lemma sizes_updatePackage: "updateDeploymentPackageRows P f now d = (Inr u, d1) \<Longrightarrow> sizes d1 = sizes d"
  by (auto simp: updateDeploymentPackageRows_def updateRows_def sizes_def)

lemma sizes_parts:
  "createApplicationDependencyRow q now d = (Inr u1, d1) \<Longrightarrow> sizes d1 = sizes d"
  "createApplicationNamespaceRow ns now d = (Inr u2, d1) \<Longrightarrow> sizes d1 = sizes d"
  "createArtifactReferenceRow ref now d = (Inr u3, d1) \<Longrightarrow> sizes d1 = sizes d"
  "createNamespaceRow row1 now d = (Inr u4, d1) \<Longrightarrow> sizes d1 = sizes d"
  "createNamespaceAdornmentRow row2 now d = (Inr u5, d1) \<Longrightarrow> sizes d1 = sizes d"
  "createExtensionRow row3 now d = (Inr u6, d1) \<Longrightarrow> sizes d1 = sizes d"
  "createEndpointRow row4 now d = (Inr u7, d1) \<Longrightarrow> sizes d1 = sizes d"
  "createDeploymentProfileRow row5 ids now d = (Inr u8, d1) \<Longrightarrow> sizes d1 = sizes d"
  "setPackageApplications k ids now d = (Inr u9, d1) \<Longrightarrow> sizes d1 = sizes d"
  "deleteApplicationDependencyRows P1 now d = (Inr v1, d1) \<Longrightarrow> sizes d1 = sizes d"
  "deleteApplicationNamespaceRows P2 now d = (Inr v2, d1) \<Longrightarrow> sizes d1 = sizes d"
  "deleteArtifactReferenceRows P3 now d = (Inr v3, d1) \<Longrightarrow> sizes d1 = sizes d"
  "deleteNamespaceRows P4 now d = (Inr v4, d1) \<Longrightarrow> sizes d1 = sizes d"
  "deleteExtensionRows P5 now d = (Inr v5, d1) \<Longrightarrow> sizes d1 = sizes d"
  "deleteDeploymentProfileID i now d = (Inr v6, d1) \<Longrightarrow> sizes d1 = sizes d"
  by (auto simp: createApplicationDependencyRow_def createApplicationNamespaceRow_def createArtifactReferenceRow_def
      createNamespaceRow_def createNamespaceAdornmentRow_def createExtensionRow_def createEndpointRow_def
      createDeploymentProfileRow_def setPackageApplications_def deleteApplicationDependencyRows_def
      deleteApplicationNamespaceRows_def deleteArtifactReferenceRows_def deleteNamespaceRows_def deleteExtensionRows_def
      deleteDeploymentProfileID_def dropDeploymentProfiles_def sizes_def Let_def split: if_splits)

lemma sizes_updateProfile: "updateDeploymentProfileRow i f ids now d = (Inr u, d1) \<Longrightarrow> sizes d1 = sizes d"
  by (auto simp: updateDeploymentProfileRow_def updateRows_def sizes_def)

lemma ofSizes_done:
  assumes "\<And>now d u d1. f now d = (Inr u, d1) \<Longrightarrow> sizes d1 = sizes d"
  shows "tri (ofSizes n) (orDBError (mutate f)) (\<lambda>_. ofSizes n)"
  by (rule tri_done) (use assms in auto)

text \<open>The parts of a package, one after the other.\<close>

lemma ofSizes_inject: "tri (ofSizes n) (injectDeploymentProfile pkgDB profile) (\<lambda>_. ofSizes n)"
  unfolding injectDeploymentProfile_def
  by (intro tri_case_prod tri_if tri_throw tri_bnd_same [OF tri_checkDeploymentProfileUniqueness]
      tri_bnd [OF congruentProfiles_found] tri_bnd_saved [where R = "\<lambda>_. ofSizes n"] tri_ret) (auto dest: sizes_parts(8))

lemma ofSizes_createProfiles: "tri (ofSizes n) (createDeploymentProfiles ps pkg pkgDB) (\<lambda>_. ofSizes n)"
proof -
  have all: "tri (ofSizes n) (injectAll pkg pkgDB i ps) (\<lambda>_. ofSizes n)" for i
    by (induction ps arbitrary: i) (auto intro!: tri_ret tri_bnd_same [OF ofSizes_inject])
  show ?thesis
    unfolding createDeploymentProfiles_def
    by (intro tri_bnd_same [OF all] tri_case_option tri_ret tri_bnd_same [OF ofSizes_done]) (auto dest: sizes_updatePackage)
qed

lemma ofSizes_references: "tri (ofSizes n) (createApplicationReferences u pkg pkgDB) (\<lambda>_. ofSizes n)"
proof -
  have "tri (ofSizes n) (findReference u r) (\<lambda>_. ofSizes n)" for r
    by (rule tri_weaken [OF findReference_found [of "ofSizes n"]]) auto
  then show ?thesis
    unfolding createApplicationReferences_def
    by (intro tri_bnd_same [OF tri_mapM] ofSizes_done) (auto dest: sizes_parts(9))
qed

lemma ofSizes_dependencies: "tri (ofSizes n) (updateApplicationDependencies pkg pkgDB) (\<lambda>_. ofSizes n)"
  unfolding updateApplicationDependencies_def createApplicationDependencies_def createDependency_def
  by (intro tri_bnd_same [OF ofSizes_done] tri_bnd_same [OF tri_found] tri_forM tri_if tri_throw tri_case_option ofSizes_done)
    (auto dest: sizes_parts(1,10))

lemma ofSizes_defaultNamespaces: "tri (ofSizes n) (updateApplicationNamespaces pkg pkgDB) (\<lambda>_. ofSizes n)"
  unfolding updateApplicationNamespaces_def createApplicationNamespaces_def createNamespaceOf_def
  by (intro tri_bnd_same [OF ofSizes_done] tri_bnd_same [OF tri_found] tri_forM tri_if tri_throw tri_case_option ofSizes_done)
    (auto dest: sizes_parts(2,11))

lemma ofSizes_namespaces: "tri (ofSizes n) (updateNamespaces pkg pkgDB) (\<lambda>_. ofSizes n)"
  unfolding updateNamespaces_def createNamespaces_def createAdornments_def
  by (intro tri_bnd_same tri_forM tri_case_prod ofSizes_done) (auto dest: sizes_parts(4,5,13))

lemma ofSizes_extensions: "tri (ofSizes n) (updateExtensions pkg pkgDB) (\<lambda>_. ofSizes n)"
  unfolding updateExtensions_def createExtensions_def
  by (intro tri_bnd_same tri_forM ofSizes_done) (auto dest: sizes_parts(6,7,14))

lemma ofSizes_artifacts: "tri (ofSizes n) (updateArtifactReferences p pkg pkgDB) (\<lambda>_. ofSizes n)"
  unfolding updateArtifactReferences_def createArtifactReferences_def
  by (intro tri_bnd_same [OF ofSizes_done] tri_forM tri_bnd_found [where R = "\<lambda>_. ofSizes n"] tri_if tri_throw ofSizes_done)
    (auto dest: sizes_parts(3,12))

lemma ofSizes_default: "tri (ofSizes n) (updateDefaultDeploymentProfile p name m v) (\<lambda>_. ofSizes n)"
  unfolding updateDefaultDeploymentProfile_def
  by (intro tri_if tri_bnd_found [where R = "\<lambda>_. ofSizes n"] tri_throw tri_ret tri_bnd_same [OF ofSizes_done])
    (auto dest: sizes_updatePackage)

lemma ofSizes_found:
  "tri (ofSizes n) (congruentProfiles pkgDB profile) (\<lambda>_. ofSizes n)"
  "tri (ofSizes n) (getDeploymentPackage p name version) (\<lambda>_. ofSizes n)"
  by (rule tri_weaken [OF congruentProfiles_found [of "ofSizes n"]]; simp)
    (rule tri_weaken [OF getDeploymentPackage_found [of "ofSizes n"]]; simp)

lemma ofSizes_profiles: "tri (ofSizes n) (updateDeploymentProfiles env pkg pkgDB) (\<lambda>_. ofSizes n)"
proof -
  have update: "tri (ofSizes n) (updateDeploymentProfile p q pkgDB) (\<lambda>_. ofSizes n)" for p q
    unfolding updateDeploymentProfile_def
    by (intro tri_case_prod tri_if tri_throw tri_bnd_same [OF ofSizes_found(1)] tri_bnd_same [OF ofSizes_done] tri_ret)
      (auto dest: sizes_updateProfile)
  have "tri (ofSizes n) (replaceDeploymentProfiles pkgDB given ps) (\<lambda>_. ofSizes n)" for given ps
    by (induction ps arbitrary: given)
      (auto intro!: tri_ret tri_bnd_same tri_case_option update ofSizes_done dest: sizes_parts(15))
  then show ?thesis
    unfolding updateDeploymentProfiles_def
    by (intro tri_bnd_same [OF tri_liftE] tri_bnd_same [OF tri_found] tri_bnd_same ofSizes_createProfiles)
qed

lemma ofSizes_update: "tri (ofSizes n) (updateDeploymentPackage env p pkg) (\<lambda>_. ofSizes n)"
proof -
  have parts: "tri (ofSizes n) (replacePackageParts env p pkg pkgDB c) (\<lambda>_. ofSizes n)" for pkgDB c
    unfolding replacePackageParts_def
    by (intro tri_bnd_same tri_if tri_ret ofSizes_references ofSizes_dependencies ofSizes_defaultNamespaces ofSizes_namespaces
        ofSizes_profiles ofSizes_createProfiles ofSizes_default ofSizes_extensions ofSizes_artifacts)
  show ?thesis
    unfolding updateDeploymentPackage_def applyPackageChanges_def updatePackageKindOrDeployedState_def
    by (intro tri_if tri_throw tri_case_prod tri_bnd_same [OF ofSizes_found(2)] tri_case_option
        tri_bnd_same [OF tri_computePackageChanges] tri_bnd_same [OF ofSizes_done] tri_bnd_same [OF tri_if]
        tri_bnd_same [OF tri_checkDeploymentPackageUniqueness] tri_bnd_same [OF parts] tri_appendPackage tri_ret
        tri_checkDeploymentPackageNotDeployed)
      (auto dest: sizes_updatePackage)
qed

end
