(* ===== verification/Wiper_Properties.thy ===== *)
theory Wiper_Properties
  imports Wiper_Contract Wiper_Preparation
begin

text \<open>
  The wiper as a whole: a wiping without errors leaves nothing of the project.
\<close>

section \<open>The preparation\<close>

lemma public_sizes: "public srv1 = public srv \<Longrightarrow> sizes (sv_db srv1) = sizes (sv_db srv)"
  by (simp add: public_def)

lemma listed_sizes:
  "wiperCall envs (\<lambda>env. ListDeploymentPackages env ctx req) w = (r, w1) \<Longrightarrow> sizes (sv_db (snd w1)) = sizes (sv_db (snd w))"
  by (rule public_sizes [OF list_packages.public_unchanged [OF wiperCall_Inr]])

lemma prepared_sizes:
  assumes "preparePackageForDeletion envs ctx name version w = (r, w1)"
  shows "sizes (sv_db (snd w1)) = sizes (sv_db (snd w))"
proof -
  obtain q w2 where get: "wiperCall envs (\<lambda>env. GetDeploymentPackage env ctx name version) w = (q, w2)" by (rule prod.exhaust)
  have "public (snd w2) = public (snd w)"
    by (rule get_package.public_unchanged [where req = "(name, version)", unfolded prod.case, OF wiperCall_Inr [OF get]])
  then have same: "sizes (sv_db (snd w2)) = sizes (sv_db (snd w))" by (rule public_sizes)
  show ?thesis
  proof (cases q)
    case (Inl e)
    with assms get same show ?thesis by (auto simp: preparePackageForDeletion_def)
  next
    case (Inr pkg)
    then have update: "wiperCall envs (\<lambda>env. UpdateDeploymentPackage env ctx name version (Some (overWire (severed pkg)))) w2 = (r, w1)"
      using assms get by (simp add: preparePackageForDeletion_def)
    have "sizes (sv_db (snd w1)) = sizes (sv_db (snd w2))"
      using update_package.shape [of "envs (fst w2)" ctx "(name, version, Some (overWire (severed pkg)))" "snd w2" "(r, snd w1)"]
        wiperCall_Inr [OF update]
      by (auto dest!: runs_tri [OF _ ofSizes_update [where n = "sizes (sv_db (snd w2))"]] simp: update_package.finish_db)
    with same show ?thesis by simp
  qed
qed

lemma prepared_all:
  assumes "forEach (\<lambda>pkg. preparePackageForDeletion envs ctx (dp_Name pkg) (dp_Version pkg)) pkgs w = (errs, w1)"
  shows "sizes (sv_db (snd w1)) = sizes (sv_db (snd w))"
  by (rule forEach_keeps_invariant [where I = "\<lambda>w1. sizes (sv_db (snd w1)) = sizes (sv_db (snd w))", OF assms])
    (auto dest: prepared_sizes)

lemma preparePages_more:
  assumes "preparePages envs ctx offset errors w = Some y"
  shows "sizes (sv_db (snd (snd y))) = sizes (sv_db (snd w))"
proof -
  let ?P = "\<lambda>(envs :: nat \<Rightarrow> env) (ctx :: metadata option) (offset :: int32) (errors :: Status list) w (y :: Status list \<times> wiped).
    sizes (sv_db (snd (snd y))) = sizes (sv_db (snd w))"
  show ?thesis
  proof (rule preparePages.raw_induct [where P = ?P, OF _ assms])
    fix pp :: "(nat \<Rightarrow> env) \<Rightarrow> metadata option \<Rightarrow> int32 \<Rightarrow> Status list \<Rightarrow> wiped \<Rightarrow> (Status list \<times> wiped) option"
      and envs ctx offset errors w y
    assume IH: "\<And>envs ctx offset errors w y. pp envs ctx offset errors w = Some y \<Longrightarrow> ?P envs ctx offset errors w y"
      and round: "(case wiperCall envs (\<lambda>env. ListDeploymentPackages env ctx
             (Some \<lparr>ldp_OrderBy = [], ldp_Filter = [], ldp_PageSize = maxPageSize, ldp_Offset = offset, ldp_Kinds = []\<rparr>)) w of
        (Inl err, w1) \<Rightarrow> Some (errors @ [err], w1)
      | (Inr (page, n), w1) \<Rightarrow>
          (case forEach (\<lambda>pkg. preparePackageForDeletion envs ctx (dp_Name pkg) (dp_Version pkg)) page w1 of
             (errs, w2) \<Rightarrow>
               (let offset1 = offset + word_of_nat (length page)
                in if sint n > sint offset1 then pp envs ctx offset1 (errors @ errs) w2
                   else Some (errors @ errs, w2)))) = Some y"
    obtain r w1 where l: "wiperCall envs (\<lambda>env. ListDeploymentPackages env ctx
        (Some \<lparr>ldp_OrderBy = [], ldp_Filter = [], ldp_PageSize = maxPageSize, ldp_Offset = offset, ldp_Kinds = []\<rparr>)) w = (r, w1)"
      by (rule prod.exhaust)
    show "?P envs ctx offset errors w y"
    proof (cases r)
      case (Inl e)
      with round l listed_sizes [OF l] show ?thesis by auto
    next
      case (Inr pn)
      then obtain page n where pn: "r = Inr (page, n)" by (cases pn) auto
      obtain errs w2 where each: "forEach (\<lambda>pkg. preparePackageForDeletion envs ctx (dp_Name pkg) (dp_Version pkg)) page w1 = (errs, w2)"
        by (rule prod.exhaust)
      have same: "sizes (sv_db (snd w2)) = sizes (sv_db (snd w))" using prepared_all [OF each] listed_sizes [OF l] by simp
      have "pp envs ctx (offset + word_of_nat (length page)) (errors @ errs) w2 = Some y \<or> y = (errors @ errs, w2)"
        using round l pn each by (auto simp: Let_def split: if_splits)
      with same IH show ?thesis by fastforce
    qed
  qed
qed

lemma prepared:
  assumes "preparePackagesForDeletion envs ctx w = Some (errs, w1)" and "smallTables w"
  shows "smallTables w1"
  using preparePages_more [OF assms(1) [unfolded preparePackagesForDeletion_def]] assms(2)
  by (auto simp: smallTables_def countable_def sizes_def)

section \<open>The phases\<close>

lemma andThen_Nil:
  assumes "andThen f g w = Some ([], w2)"
  obtains w1 where "f w = Some ([], w1)" and "g w1 = Some ([], w2)"
  using assms by (auto simp: andThen_def split: option.splits)

lemma left_none:
  assumes "GetActiveProjectID ctx = Inr p"
  shows "leftPackages ctx w = {} \<longleftrightarrow> (\<forall>r. r \<in> set (t_deployment_packages (sv_db (snd w))) \<longrightarrow> kdb_ProjectUUID r \<noteq> p)"
    and "leftApplications ctx w = {} \<longleftrightarrow> (\<forall>r. r \<in> set (t_applications (sv_db (snd w))) \<longrightarrow> adb_ProjectUUID r \<noteq> p)"
    and "leftArtifacts ctx w = {} \<longleftrightarrow> (\<forall>r. r \<in> set (t_artifacts (sv_db (snd w))) \<longrightarrow> tdb_ProjectUUID r \<noteq> p)"
    and "leftRegistries ctx w = {} \<longleftrightarrow> (\<forall>r. r \<in> set (t_registries (sv_db (snd w))) \<longrightarrow> rdb_ProjectUUID r \<noteq> p)"
  by (auto simp: leftPackages_def leftApplications_def leftArtifacts_def leftRegistries_def assms packageKey_def applicationKey_def artifactKey_def registryKey_def)

text \<open>
  What the wiper relies on of gRPC: the catalog receives metadata, and under the key of the active project the values that
  the client sent under it, in their order.
\<close>

definition delivers :: "(metadata \<Rightarrow> metadata option) \<Rightarrow> bool" where
  "delivers deliver \<longleftrightarrow> (\<forall>md. \<exists>md'. deliver md = Some md' \<and> md_Get md' ActiveProjectID = md_Get md ActiveProjectID)"

text \<open>
  The project to be wiped: the one named by the argument, in a context that names none, or, without an argument, the
  one the context names first.
\<close>

definition projectToWipe :: "metadata \<Rightarrow> string \<Rightarrow> string \<Rightarrow> bool" where
  "projectToWipe md projectUUID p \<longleftrightarrow> p \<noteq> [] \<and>
     (projectUUID = p \<and> md_Get md ActiveProjectID = [] \<or> projectUUID = [] \<and> (\<exists>vs. md_Get md ActiveProjectID = p # vs))"

lemma withActiveProjectID_Get:
  "md_Get (withActiveProjectID md projectUUID) ActiveProjectID =
     md_Get md ActiveProjectID @ (if projectUUID = [] then [] else [projectUUID])"
  by (simp add: withActiveProjectID_def md_Get_def ToLower_def lowerChar_def update_conv')

lemma wiped_project:
  assumes "delivers deliver" and "projectToWipe md projectUUID p"
  shows "GetActiveProjectID (deliver (withActiveProjectID md projectUUID)) = Inr p"
proof -
  obtain md' where d: "deliver (withActiveProjectID md projectUUID) = Some md'"
    "md_Get md' ActiveProjectID = md_Get (withActiveProjectID md projectUUID) ActiveProjectID"
    using assms(1) unfolding delivers_def by blast
  with assms(2) show ?thesis by (auto simp: GetActiveProjectID_def withActiveProjectID_Get projectToWipe_def)
qed

text \<open>
  C15. A wiping over gRPC that reports no error leaves no deployment package, application, artifact and registry of the
  project it was asked to wipe, in a context that names no active project, or, asked for none, of the one the context names.
  That holds for any project with fewer than two to the power of 31 entities of a kind, whatever the environment of its
  calls, provided that gRPC delivers the metadata. A context that names another project is not covered: that project is
  wiped then.
\<close>

theorem wiped_project_is_empty:
  assumes "Wipe envs deliver md projectUUID srv = Some ([], w1)"
    and "delivers deliver" and "projectToWipe md projectUUID p" and "countable (sv_db srv)"
  shows "(\<forall>r. r \<in> set (t_deployment_packages (sv_db (snd w1))) \<longrightarrow> kdb_ProjectUUID r \<noteq> p) \<and>
    (\<forall>r. r \<in> set (t_applications (sv_db (snd w1))) \<longrightarrow> adb_ProjectUUID r \<noteq> p) \<and>
    (\<forall>r. r \<in> set (t_artifacts (sv_db (snd w1))) \<longrightarrow> tdb_ProjectUUID r \<noteq> p) \<and>
    (\<forall>r. r \<in> set (t_registries (sv_db (snd w1))) \<longrightarrow> rdb_ProjectUUID r \<noteq> p)"
proof -
  define ctx where "ctx = deliver (withActiveProjectID md projectUUID)"
  have run: "andThen (preparePackagesForDeletion envs ctx) (andThen (wipePackages envs ctx) (andThen (wipeApplications envs ctx)
      (andThen (wipeArtifacts envs ctx) (wipeRegistries envs ctx)))) (0, srv) = Some ([], w1)"
    using assms(1) by (simp add: Wipe_def ctx_def Let_def)
  obtain a b c d where phases: "preparePackagesForDeletion envs ctx (0, srv) = Some ([], a)" "wipePackages envs ctx a = Some ([], b)"
    "wipeApplications envs ctx b = Some ([], c)" "wipeArtifacts envs ctx c = Some ([], d)" "wipeRegistries envs ctx d = Some ([], w1)"
    using run by (elim andThen_Nil) blast
  have "smallTables (0, srv)" using assms(4) by (simp add: smallTables_def)
  from prepared [OF phases(1) this] have small: "smallTables a" .
  note b = wiping_packages.wiped [OF phases(2) [unfolded wipePackages_def] small]
  note small_b = keepsKeys_order(3) [OF b(2) small]
  note c = wiping_applications.wiped [OF phases(3) [unfolded wipeApplications_def] small_b]
  note small_c = keepsKeys_order(3) [OF c(2) small_b]
  note d = wiping_artifacts.wiped [OF phases(4) [unfolded wipeArtifacts_def] small_c]
  note small_d = keepsKeys_order(3) [OF d(2) small_c]
  note e = wiping_registries.wiped [OF phases(5) [unfolded wipeRegistries_def] small_d]
  note rest = keepsKeys_order(2) [OF d(2) e(2)]
  have left: "leftPackages ctx w1 = {}" "leftApplications ctx w1 = {}" "leftArtifacts ctx w1 = {}" "leftRegistries ctx w1 = {}"
    using b(1) c(1) d(1) e(1) keepsKeys_left(1) [OF keepsKeys_order(2) [OF c(2) rest]] keepsKeys_left(2) [OF rest]
      keepsKeys_left(3) [OF e(2)] by blast+
  have p: "GetActiveProjectID ctx = Inr p" using wiped_project [OF assms(2,3)] by (simp add: ctx_def)
  show ?thesis
    using left_none [OF p] left by blast
qed

text \<open>The project of the samples has one entity of each kind, and its package is deployed: eleven calls wipe it.\<close>

lemma sampleWipe: "\<exists>w1. Wipe (\<lambda>_. sampleEnv) Some [] ''p1'' samplePackageServer = Some ([], w1)"
proof -
  have "case Wipe (\<lambda>_. sampleEnv) Some [] ''p1'' samplePackageServer of Some (errs, w1) \<Rightarrow> errs = [] \<and> fst w1 = 11 | None \<Rightarrow> False"
    unfolding samplePackageServer_eq by code_simp
  then show ?thesis by (auto split: option.splits)
qed

theorem wiped_project_is_empty_witness:
  "\<exists>w1. Wipe (\<lambda>_. sampleEnv) Some [] ''p1'' samplePackageServer = Some ([], w1) \<and>
     (\<forall>r. r \<in> set (t_deployment_packages (sv_db (snd w1))) \<longrightarrow> kdb_ProjectUUID r \<noteq> ''p1'') \<and>
     (\<forall>r. r \<in> set (t_registries (sv_db (snd w1))) \<longrightarrow> rdb_ProjectUUID r \<noteq> ''p1'')"
proof -
  obtain w1 where run: "Wipe (\<lambda>_. sampleEnv) Some [] ''p1'' samplePackageServer = Some ([], w1)" using sampleWipe by blast
  have "delivers Some" by (simp add: delivers_def)
  moreover have "projectToWipe [] ''p1'' ''p1''" by (simp add: projectToWipe_def md_Get_def)
  moreover have "countable (sv_db samplePackageServer)" by (simp add: countable_def samplePackageServer_eq empty_db_def)
  ultimately show ?thesis using wiped_project_is_empty [OF run, of "''p1''"] run by blast
qed

text \<open>A context that names an active project already keeps it, in front of the one to be wiped.\<close>

lemma context_keeps_its_project:
  assumes "md_Get md ActiveProjectID = v # vs" and "v \<noteq> []"
  shows "GetActiveProjectID (Some (withActiveProjectID md projectUUID)) = Inr v"
  using assms
  by (simp add: GetActiveProjectID_def withActiveProjectID_Get)

end
