(* ===== verification/Wiper_Termination.thy ===== *)
theory Wiper_Termination
  imports Wiper_Properties
begin

text \<open>
  When the wiper returns: always on tables that fit a page, and never when the entities of a longer listing cannot be deleted.
\<close>

section \<open>Tables that fit a page\<close>

definition few :: "db \<Rightarrow> bool" where
  "few d \<longleftrightarrow> length (t_deployment_packages d) \<le> 500 \<and> length (t_applications d) \<le> 500 \<and>
     length (t_artifacts d) \<le> 500 \<and> length (t_registries d) \<le> 500"

abbreviation fewLeft :: "wiped \<Rightarrow> bool" where
  "fewLeft w \<equiv> few (sv_db (snd w))"

lemma few_sizes: "sizes d1 = sizes d \<Longrightarrow> few d \<Longrightarrow> few d1"
  by (simp add: sizes_def few_def)

lemma few_public: "public srv1 = public srv \<Longrightarrow> few (sv_db srv) \<Longrightarrow> few (sv_db srv1)"
  by (rule few_sizes [OF public_sizes])

lemma few_shrinks: "shrinks d d1 \<Longrightarrow> few d \<Longrightarrow> few d1"
  unfolding shrinks_def few_def by (auto dest!: list_emb_length)

lemma deleting_keeps_few:
  "wiperCall envs (\<lambda>env. DeleteDeploymentPackage env ctx name version) w = (r, w1) \<Longrightarrow> fewLeft w \<Longrightarrow> fewLeft w1"
  "wiperCall envs (\<lambda>env. DeleteApplication env ctx name version) w = (r, w1) \<Longrightarrow> fewLeft w \<Longrightarrow> fewLeft w1"
  "wiperCall envs (\<lambda>env. DeleteArtifact env ctx name) w = (r, w1) \<Longrightarrow> fewLeft w \<Longrightarrow> fewLeft w1"
  "wiperCall envs (\<lambda>env. DeleteRegistry env ctx name) w = (r, w1) \<Longrightarrow> fewLeft w \<Longrightarrow> fewLeft w1"
  by (cases r; drule wiperCall_Inr;
      auto intro: few_public few_shrinks deleted_package(1) deleted_application(1) deleted_artifact(1) deleted_registry(1)
        dest: delete_package.error_public [where req = "(name, version)", unfolded prod.case]
          delete_application.error_public [where req = "(name, version)", unfolded prod.case]
          delete_artifact.error_public delete_registry.error_public)+

lemma listing_keeps_few:
  "wiperCall envs (\<lambda>env. ListDeploymentPackages env ctx req1) w = (r1, w1) \<Longrightarrow> fewLeft w \<Longrightarrow> fewLeft w1"
  "wiperCall envs (\<lambda>env. ListApplications env ctx req2) w = (r2, w1) \<Longrightarrow> fewLeft w \<Longrightarrow> fewLeft w1"
  "wiperCall envs (\<lambda>env. ListArtifacts env ctx req3) w = (r3, w1) \<Longrightarrow> fewLeft w \<Longrightarrow> fewLeft w1"
  "wiperCall envs (\<lambda>env. ListRegistries env ctx req4) w = (r4, w1) \<Longrightarrow> fewLeft w \<Longrightarrow> fewLeft w1"
  by (drule wiperCall_Inr; blast intro: few_public list_packages.public_unchanged list_applications.public_unchanged
      list_artifacts.public_unchanged list_registries.public_unchanged)+

text \<open>A first page of tables that fit it has all there is.\<close>

lemma listing_few:
  "\<lbrakk>wiperCall envs (\<lambda>env. ListDeploymentPackages env ctx
      (Some \<lparr>ldp_OrderBy = [], ldp_Filter = [], ldp_PageSize = maxPageSize, ldp_Offset = 0, ldp_Kinds = []\<rparr>)) w = (Inr (page1, n), w1);
    fewLeft w\<rbrakk> \<Longrightarrow> \<not> sint n > sint (word_of_nat (length page1) :: int32)"
  "\<lbrakk>wiperCall envs (\<lambda>env. ListApplications env ctx
      (Some \<lparr>lap_OrderBy = [], lap_Filter = [], lap_PageSize = maxPageSize, lap_Offset = 0, lap_Kinds = []\<rparr>)) w = (Inr (page2, n), w1);
    fewLeft w\<rbrakk> \<Longrightarrow> \<not> sint n > sint (word_of_nat (length page2) :: int32)"
  "\<lbrakk>wiperCall envs (\<lambda>env. ListArtifacts env ctx
      (Some \<lparr>la_OrderBy = [], la_Filter = [], la_PageSize = maxPageSize, la_Offset = 0\<rparr>)) w = (Inr (page3, n), w1);
    fewLeft w\<rbrakk> \<Longrightarrow> \<not> sint n > sint (word_of_nat (length page3) :: int32)"
  "\<lbrakk>wiperCall envs (\<lambda>env. ListRegistries env ctx
      (Some \<lparr>lr_OrderBy = [], lr_Filter = [], lr_PageSize = maxPageSize, lr_Offset = 0, lr_ShowSensitiveInfo = False\<rparr>)) w = (Inr (page4, n), w1);
    fewLeft w\<rbrakk> \<Longrightarrow> \<not> sint n > sint (word_of_nat (length page4) :: int32)"
  by (drule wiperCall_Inr, erule listed_packages, rule firstPage_few, assumption, simp add: few_def)
    (drule wiperCall_Inr, erule listed_applications, rule firstPage_few, assumption, simp add: few_def,
     drule wiperCall_Inr, erule listed_artifacts, rule firstPage_few, assumption, simp add: few_def,
     drule wiperCall_Inr, erule listed_registries, rule firstPage_few, assumption, simp add: few_def)

lemma phase_ends:
  assumes "fewLeft w"
  shows "\<exists>errs w1. wipePackages envs ctx w = Some (errs, w1) \<and> fewLeft w1"
    and "\<exists>errs w1. wipeApplications envs ctx w = Some (errs, w1) \<and> fewLeft w1"
    and "\<exists>errs w1. wipeArtifacts envs ctx w = Some (errs, w1) \<and> fewLeft w1"
    and "\<exists>errs w1. wipeRegistries envs ctx w = Some (errs, w1) \<and> fewLeft w1"
proof -
  show "\<exists>errs w1. wipePackages envs ctx w = Some (errs, w1) \<and> fewLeft w1"
    unfolding wipePackages_def
    by (rule wipePages_once [where I = fewLeft])
      (erule listing_few(1) [OF _ assms] listing_keeps_few(1) [OF _ assms] deleting_keeps_few(1); assumption?)+
  show "\<exists>errs w1. wipeApplications envs ctx w = Some (errs, w1) \<and> fewLeft w1"
    unfolding wipeApplications_def
    by (rule wipePages_once [where I = fewLeft])
      (erule listing_few(2) [OF _ assms] listing_keeps_few(2) [OF _ assms] deleting_keeps_few(2); assumption?)+
  show "\<exists>errs w1. wipeArtifacts envs ctx w = Some (errs, w1) \<and> fewLeft w1"
    unfolding wipeArtifacts_def
    by (rule wipePages_once [where I = fewLeft])
      (erule listing_few(3) [OF _ assms] listing_keeps_few(3) [OF _ assms] deleting_keeps_few(3); assumption?)+
  show "\<exists>errs w1. wipeRegistries envs ctx w = Some (errs, w1) \<and> fewLeft w1"
    unfolding wipeRegistries_def
    by (rule wipePages_once [where I = fewLeft])
      (erule listing_few(4) [OF _ assms] listing_keeps_few(4) [OF _ assms] deleting_keeps_few(4); assumption?)+
qed

lemma preparation_ends:
  assumes "fewLeft w"
  shows "\<exists>errs w1. preparePackagesForDeletion envs ctx w = Some (errs, w1) \<and> fewLeft w1"
proof -
  let ?list = "wiperCall envs (\<lambda>env. ListDeploymentPackages env ctx
    (Some \<lparr>ldp_OrderBy = [], ldp_Filter = [], ldp_PageSize = maxPageSize, ldp_Offset = 0, ldp_Kinds = []\<rparr>)) w"
  have "\<exists>y. preparePages envs ctx 0 [] w = Some y"
  proof (cases "\<exists>e w1. ?list = (Inl e, w1)")
    case True
    then show ?thesis by (auto simp: preparePages.simps)
  next
    case False
    then obtain page n w1 where l: "?list = (Inr (page, n), w1)" by (metis old.sum.exhaust surj_pair)
    obtain errs w2 where "forEach (\<lambda>pkg. preparePackageForDeletion envs ctx (dp_Name pkg) (dp_Version pkg)) page w1 = (errs, w2)"
      by (rule prod.exhaust)
    with l listing_few(1) [OF l assms] show ?thesis by (subst preparePages.simps) simp
  qed
  then obtain errs w1 where run: "preparePages envs ctx 0 [] w = Some (errs, w1)" by auto
  from few_sizes [OF preparePages_more [OF run]] assms have "fewLeft w1" by simp
  with run show ?thesis by (simp add: preparePackagesForDeletion_def)
qed

lemma andThen_ends:
  assumes "\<exists>errs w1. f w = Some (errs, w1) \<and> I w1" and "\<And>w1. I w1 \<Longrightarrow> \<exists>errs w2. g w1 = Some (errs, w2) \<and> I w2"
  shows "\<exists>errs w2. andThen f g w = Some (errs, w2) \<and> I w2"
  using assms by (fastforce simp: andThen_def)

text \<open>
  C18. On a catalog with at most five hundred entities of each kind, the size of a page, the wiper returns for every
  project, whatever the policy agent, the database and the secret service answer to its calls.
\<close>

theorem wiper_returns:
  assumes "few (sv_db srv)"
  shows "\<exists>errors w1. Wipe envs deliver md projectUUID srv = Some (errors, w1) \<and> few (sv_db (snd w1))"
  unfolding Wipe_def Let_def by (intro andThen_ends preparation_ends phase_ends) (simp add: assms)

theorem wiper_returns_witness:
  "\<exists>errors w1. Wipe (\<lambda>_. sampleEnv) Some [] ''p1'' sampleAppServer = Some (errors, w1)"
proof -
  have "few (sv_db sampleAppServer)" by (simp add: few_def sampleAppServer_eq empty_db_def)
  from wiper_returns [OF this, of "\<lambda>_. sampleEnv" Some "[]" "''p1''"] show ?thesis by blast
qed

section \<open>Listings that do not get shorter\<close>

lemma sint_of_nat32: "k < 2 ^ 31 \<Longrightarrow> sint (word_of_nat k :: int32) = int k"
  by (simp add: signed_of_nat signed_take_bit_int_eq_self)

lemma long_page:
  assumes "500 < length rows" and "length rows < 2 ^ 31"
  shows "\<exists>i j page. computePageRange maxPageSize 0 (int (length rows)) = Inr (i, j, word_of_nat (length rows)) \<and>
    pageOf rows i j = Some page \<and> sint (word_of_nat (length rows) :: int32) > sint (word_of_nat (length page) :: int32)"
proof -
  have "rows \<noteq> []" using assms(1) by (cases rows) auto
  have range: "computePageRange maxPageSize 0 (int (length rows)) = Inr (0, 499, word_of_nat (length rows))"
    using assms(1) \<open>rows \<noteq> []\<close> by (simp add: computePageRange_def Let_def)
  have "pageOf rows 0 499 = Some (take (nat (499 - 0 + 1)) (drop (nat 0) rows))"
    by (rule pageOf_slice) (use assms(1) in simp_all)
  with assms(1) have "pageOf rows 0 499 = Some (take 500 rows)" by simp
  moreover have "sint (word_of_nat (length (take 500 rows)) :: int32) = 500" using assms(1) sint_of_nat32 [of 500] by simp
  ultimately show ?thesis using range assms sint_of_nat32 [OF assms(2)] by auto
qed

lemma filter_shorter: "(\<And>r. P r \<Longrightarrow> Q r) \<Longrightarrow> length (List.filter P rows) \<le> length (List.filter Q rows)"
  by (induction rows) auto

lemma artifacts_listed:
  assumes "GetActiveProjectID ctx = Inr p" and "\<And>n. \<not> e_fault env n"
    and "authCheckAllowed env ctx (ListArtifactsReq \<lparr>la_OrderBy = [], la_Filter = [], la_PageSize = maxPageSize, la_Offset = 0\<rparr>) [] = Inr ()"
    and "500 < length (List.filter (\<lambda>r. tdb_ProjectUUID r = p) (t_artifacts (sv_db srv)))" and "length (t_artifacts (sv_db srv)) < 2 ^ 31"
  shows "\<exists>page n srv1. ListArtifacts env ctx (Some \<lparr>la_OrderBy = [], la_Filter = [], la_PageSize = maxPageSize, la_Offset = 0\<rparr>) srv =
      (Inr (page, n), srv1) \<and> sint n > sint (word_of_nat (length page) :: int32)"
proof -
  define all where "all = orderRows (row_le (e_engine env) artifactColumn [])
    (List.filter (\<lambda>r. p = AdminProjectID \<or> tdb_ProjectUUID r = p) (t_artifacts (sv_db srv)))"
  have "length (List.filter (\<lambda>r. tdb_ProjectUUID r = p) (t_artifacts (sv_db srv))) \<le> length all"
    unfolding all_def length_orderRows by (rule filter_shorter) auto
  with assms(4) have long: "500 < length all" by simp
  have "length all \<le> length (t_artifacts (sv_db srv))" by (simp add: all_def)
  with assms(5) have short: "length all < 2 ^ 31" by simp
  obtain i j page where page: "computePageRange maxPageSize 0 (int (length all)) = Inr (i, j, word_of_nat (length all))"
    "pageOf all i j = Some page" "sint (word_of_nat (length all) :: int32) > sint (word_of_nat (length page) :: int32)"
    using long_page [OF long short] by blast
  have "all \<noteq> []" using long by auto
  have q: "q_list (e_engine env) artifactColumn artifactText [] [] (\<lambda>r. p = AdminProjectID \<or> tdb_ProjectUUID r = p)
      (t_artifacts (sv_db srv)) = Inr all"
    by (simp add: q_list_def all_def)
  have get: "getArtifacts env p [] [] maxPageSize 0 t = (Inr (map extractArtifact page, map tdb_ProjectUUID page, word_of_nat (length all)), tick t)"
    if "tx_db t = sv_db srv" "tx_fault t = e_fault env" for t
    using that assms(2) page(1,2) \<open>all \<noteq> []\<close>
    by (simp add: getArtifacts_def bnd_def liftE_def ret_def orDBError_def query_def external_def
        tick_def q Let_def)
  show ?thesis
    using assms(1-3) page(3)
    by (simp add: ListArtifacts_def transaction_eval parseOrderBy_def parseFilter_def bnd_def liftE_def get [simplified] tick_def)
qed

text \<open>
  C38. The loop over the artifacts never ends when the policy agent allows to list them and not to delete them and the project has more
  of them than fit a page: it lists the same page again and again.
\<close>

theorem wiper_repeats_refused_deletions:
  assumes "GetActiveProjectID ctx = Inr p" and "\<And>k n. \<not> e_fault (envs k) n"
    and "\<And>k. authCheckAllowed (envs k) ctx
      (ListArtifactsReq \<lparr>la_OrderBy = [], la_Filter = [], la_PageSize = maxPageSize, la_Offset = 0\<rparr>) [] = Inr ()"
    and "\<And>k name. authCheckAllowed (envs k) ctx (DeleteArtifactRequest name) [] \<noteq> Inr ()"
    and "500 < length (List.filter (\<lambda>r. tdb_ProjectUUID r = p) (t_artifacts (sv_db srv)))" and "length (t_artifacts (sv_db srv)) < 2 ^ 31"
  shows "wipeArtifacts envs ctx (calls, srv) = None"
  unfolding wipeArtifacts_def
proof (rule wipePages_diverges [where I = "\<lambda>w. t_artifacts (sv_db (snd w)) = t_artifacts (sv_db srv)"], goal_cases)
  case 1
  show ?case by simp
next
  case (2 w)
  obtain page n srv1 where l: "ListArtifacts (envs (fst w)) ctx
      (Some \<lparr>la_OrderBy = [], la_Filter = [], la_PageSize = maxPageSize, la_Offset = 0\<rparr>) (snd w) = (Inr (page, n), srv1)"
    "sint n > sint (word_of_nat (length page) :: int32)"
    using artifacts_listed [of ctx p "envs (fst w)" "snd w"] assms(1-3,5,6) 2 by auto
  have "public srv1 = public (snd w)" by (rule list_artifacts.public_unchanged [OF l(1)])
  with l 2 show ?case by (auto simp: wiperCall_def public_def)
next
  case (3 artifact w r w1)
  from delete_artifact.unauthorized [of "envs (fst w)" ctx "art_Name artifact" "snd w"] assms(4)
  obtain e where "DeleteArtifact (envs (fst w)) ctx (art_Name artifact) (snd w) = (Inl e, snd w)" by auto
  with 3 show ?case by (auto simp: wiperCall_def)
qed

text \<open>A catalog of that kind: six hundred artifacts, and a policy agent that allows only to list.\<close>

definition listOnlyEnv :: env where
  "listOnlyEnv = sampleEnv\<lparr>e_opa := Some (\<lambda>request name md. OpaBool (case request of ListArtifactsReq r \<Rightarrow> True | _ \<Rightarrow> False))\<rparr>"

definition manyRow :: "nat \<Rightarrow> ArtifactDB" where
  "manyRow i = \<lparr>tdb_ID = i, tdb_ProjectUUID = ''p1'', tdb_Name = ''a'' @ showNat i, tdb_DisplayName = [], tdb_DisplayNameLc = [],
     tdb_Description = [], tdb_MimeType = ''text/plain'', tdb_Artifact = None, tdb_CreateTime = 0, tdb_UpdateTime = 0\<rparr>"

definition manyArtifacts :: "ArtifactDB list" where
  "manyArtifacts = map manyRow [0..<600]"

lemma length_manyArtifacts: "length manyArtifacts = 600"
  unfolding manyArtifacts_def by (simp only: length_map length_upt)

lemma project_manyArtifacts: "List.filter (\<lambda>r. tdb_ProjectUUID r = ''p1'') manyArtifacts = manyArtifacts"
proof -
  have "tdb_ProjectUUID (manyRow i) = ''p1''" for i by (simp add: manyRow_def)
  then show ?thesis unfolding manyArtifacts_def filter_id_conv by (metis imageE list.set_map)
qed

theorem wiper_repeats_refused_deletions_witness:
  "wipeArtifacts (\<lambda>_. listOnlyEnv) sampleCtx (0, Register\<lparr>sv_db := empty_db\<lparr>t_artifacts := manyArtifacts\<rparr>\<rparr>) = None"
proof (rule wiper_repeats_refused_deletions [OF sampleProject])
  show "authCheckAllowed listOnlyEnv sampleCtx
      (ListArtifactsReq \<lparr>la_OrderBy = [], la_Filter = [], la_PageSize = maxPageSize, la_Offset = 0\<rparr>) [] = Inr ()"
    and "authCheckAllowed listOnlyEnv sampleCtx (DeleteArtifactRequest name) [] \<noteq> Inr ()" for name
    by (simp_all add: authCheckAllowed_def listOnlyEnv_def sampleCtx_def Let_def)
  show "500 < length (List.filter (\<lambda>r. tdb_ProjectUUID r = ''p1'') (t_artifacts (sv_db (Register\<lparr>sv_db := empty_db\<lparr>t_artifacts := manyArtifacts\<rparr>\<rparr>))))"
    and "length (t_artifacts (sv_db (Register\<lparr>sv_db := empty_db\<lparr>t_artifacts := manyArtifacts\<rparr>\<rparr>))) < 2 ^ 31"
    by (simp_all add: project_manyArtifacts length_manyArtifacts)
qed (simp add: listOnlyEnv_def sampleEnv_def)

end
