(* ===== verification/Rest_Wiper.thy ===== *)
theory Rest_Wiper
  imports Wiper Sample_Environment
begin

text \<open>
  The wiper over the REST interface, \<^verbatim>\<open>pkg/wiper/rest.go\<close>. The generated client of \<^verbatim>\<open>pkg/restClient\<close> with the gateway
  behind it is a parameter, with its own state; the metadata of the context are no part of an HTTP request, so that the
  project is the one the client was made for. A dereferenced nil pointer is the ending \<open>Panic\<close>; the
  loop over the pages of the applications need not end: its result is then \<open>None\<close>.
\<close>

section \<open>The client\<close>

text \<open>A response: its status, and the message that the client reads when the status is 200.\<close>

record 'a restResponse =
  rr_StatusCode :: nat
  rr_JSON200 :: "'a option"

record 'w restClient =
  rc_ListDeploymentPackages :: "int32 \<Rightarrow> 'w \<Rightarrow> (string + (DeploymentPackage list \<times> int32) restResponse) \<times> 'w"
  rc_GetDeploymentPackage :: "string \<Rightarrow> string \<Rightarrow> 'w \<Rightarrow> (string + DeploymentPackage restResponse) \<times> 'w"
  rc_UpdateDeploymentPackage :: "string \<Rightarrow> string \<Rightarrow> DeploymentPackage \<Rightarrow> 'w \<Rightarrow> (string + unit restResponse) \<times> 'w"
  rc_DeleteDeploymentPackage :: "string \<Rightarrow> string \<Rightarrow> 'w \<Rightarrow> (string + unit restResponse) \<times> 'w"
  rc_ListApplications :: "int32 \<Rightarrow> int32 option \<Rightarrow> 'w \<Rightarrow> (string + (Application list \<times> int32) restResponse) \<times> 'w"
  rc_GetApplication :: "string \<Rightarrow> string \<Rightarrow> 'w \<Rightarrow> (string + Application restResponse) \<times> 'w"
  rc_UpdateApplication :: "string \<Rightarrow> string \<Rightarrow> Application \<Rightarrow> 'w \<Rightarrow> (string + unit restResponse) \<times> 'w"
  rc_DeleteApplication :: "string \<Rightarrow> string \<Rightarrow> 'w \<Rightarrow> (string + unit restResponse) \<times> 'w"
  rc_ListArtifacts :: "int32 \<Rightarrow> 'w \<Rightarrow> (string + (Artifact list \<times> int32) restResponse) \<times> 'w"
  rc_DeleteArtifact :: "string \<Rightarrow> 'w \<Rightarrow> (string + unit restResponse) \<times> 'w"
  rc_ListRegistries :: "int32 \<Rightarrow> 'w \<Rightarrow> (string + (Registry list \<times> int32) restResponse) \<times> 'w"
  rc_DeleteRegistry :: "string \<Rightarrow> 'w \<Rightarrow> (string + unit restResponse) \<times> 'w"

datatype 'w ending = Panic | Ended "string list" 'w

section \<open>Deleting one page\<close>

text \<open>Only an error of the call itself is one: the status of the response to a deletion is not looked at.\<close>

fun restEach :: "('a \<Rightarrow> 'w \<Rightarrow> (string + 'b) \<times> 'w) \<Rightarrow> 'a list \<Rightarrow> 'w \<Rightarrow> string list \<times> 'w" where
  "restEach call [] w = ([], w)"
| "restEach call (x # xs) w =
     (case call x w of
        (Inl err, w1) \<Rightarrow> (case restEach call xs w1 of (errs, w2) \<Rightarrow> (err # errs, w2))
      | (Inr _, w1) \<Rightarrow> restEach call xs w1)"

definition restWipePage ::
    "('w \<Rightarrow> (string + ('a list \<times> int32) restResponse) \<times> 'w) \<Rightarrow> ('a \<Rightarrow> 'w \<Rightarrow> (string + 'b) \<times> 'w) \<Rightarrow> 'w \<Rightarrow> 'w ending" where
  "restWipePage listPage call w =
     (case listPage w of
        (Inl err, w1) \<Rightarrow> Ended [err] w1
      | (Inr resp, w1) \<Rightarrow>
          if rr_StatusCode resp \<noteq> 200 then Ended [] w1
          else (case rr_JSON200 resp of
                  None \<Rightarrow> Panic
                | Some (page, totalElements) \<Rightarrow> (case restEach call page w1 of (errors, w2) \<Rightarrow> Ended errors w2)))"

definition restWipePackages :: "'w restClient \<Rightarrow> 'w \<Rightarrow> 'w ending" where
  "restWipePackages rc = restWipePage (rc_ListDeploymentPackages rc maxPageSize) (\<lambda>pkg. rc_DeleteDeploymentPackage rc (dp_Name pkg) (dp_Version pkg))"

definition restWipeApplications :: "'w restClient \<Rightarrow> 'w \<Rightarrow> 'w ending" where
  "restWipeApplications rc = restWipePage (rc_ListApplications rc maxPageSize None) (\<lambda>app. rc_DeleteApplication rc (a_Name app) (a_Version app))"

definition restWipeArtifacts :: "'w restClient \<Rightarrow> 'w \<Rightarrow> 'w ending" where
  "restWipeArtifacts rc = restWipePage (rc_ListArtifacts rc maxPageSize) (\<lambda>artifact. rc_DeleteArtifact rc (art_Name artifact))"

definition restWipeRegistries :: "'w restClient \<Rightarrow> 'w \<Rightarrow> 'w ending" where
  "restWipeRegistries rc = restWipePage (rc_ListRegistries rc maxPageSize) (\<lambda>registry. rc_DeleteRegistry rc (r_Name registry))"

section \<open>Preparing packages and applications\<close>

text \<open>The message of a response with status 200; \<open>None\<close> is the panic.\<close>

definition restPreparePackage :: "'w restClient \<Rightarrow> string \<Rightarrow> string \<Rightarrow> 'w \<Rightarrow> ((string + unit) \<times> 'w) option" where
  "restPreparePackage rc name version w =
     (case rc_GetDeploymentPackage rc name version w of
        (Inl err, w1) \<Rightarrow> Some (Inl err, w1)
      | (Inr gresp, w1) \<Rightarrow>
          if rr_StatusCode gresp \<noteq> 200 then Some (Inr (), w1)
          else (case rr_JSON200 gresp of
                  None \<Rightarrow> None
                | Some pkg \<Rightarrow>
                    (case rc_UpdateDeploymentPackage rc name version (severed pkg) w1 of
                       (Inl err, w2) \<Rightarrow> Some (Inl err, w2)
                     | (Inr _, w2) \<Rightarrow> Some (Inr (), w2))))"

definition restPrepareApplication :: "'w restClient \<Rightarrow> string \<Rightarrow> string \<Rightarrow> 'w \<Rightarrow> ((string + unit) \<times> 'w) option" where
  "restPrepareApplication rc name version w =
     (case rc_GetApplication rc name version w of
        (Inl err, w1) \<Rightarrow> Some (Inl err, w1)
      | (Inr gresp, w1) \<Rightarrow>
          if rr_StatusCode gresp \<noteq> 200 then Some (Inr (), w1)
          else (case rr_JSON200 gresp of
                  None \<Rightarrow> None
                | Some app \<Rightarrow>
                    (case rc_UpdateApplication rc name version (app\<lparr>a_Profiles := [], a_DefaultProfileName := []\<rparr>) w1 of
                       (Inl err, w2) \<Rightarrow> Some (Inl err, w2)
                     | (Inr _, w2) \<Rightarrow> Some (Inr (), w2))))"

fun restPrepareEach :: "('a \<Rightarrow> 'w \<Rightarrow> ((string + unit) \<times> 'w) option) \<Rightarrow> 'a list \<Rightarrow> 'w \<Rightarrow> (string list \<times> 'w) option" where
  "restPrepareEach prepare [] w = Some ([], w)"
| "restPrepareEach prepare (x # xs) w =
     (case prepare x w of
        None \<Rightarrow> None
      | Some (Inl err, w1) \<Rightarrow> map_option (\<lambda>(errs, w2). (err # errs, w2)) (restPrepareEach prepare xs w1)
      | Some (Inr _, w1) \<Rightarrow> restPrepareEach prepare xs w1)"

definition restPreparePackages :: "'w restClient \<Rightarrow> 'w \<Rightarrow> 'w ending" where
  "restPreparePackages rc w =
     (case rc_ListDeploymentPackages rc maxPageSize w of
        (Inl err, w1) \<Rightarrow> Ended [err] w1
      | (Inr resp, w1) \<Rightarrow>
          if rr_StatusCode resp \<noteq> 200 then Ended [] w1
          else (case rr_JSON200 resp of
                  None \<Rightarrow> Panic
                | Some (page, totalElements) \<Rightarrow>
                    (case restPrepareEach (\<lambda>pkg. restPreparePackage rc (dp_Name pkg) (dp_Version pkg)) page w1 of
                       None \<Rightarrow> Panic
                     | Some (errors, w2) \<Rightarrow> Ended errors w2)))"

text \<open>The response of a failed call is nil, and its status is asked for before the error.\<close>

partial_function (option) restPrepareApplications :: "'w restClient \<Rightarrow> int32 \<Rightarrow> string list \<Rightarrow> 'w \<Rightarrow> 'w ending option" where
  "restPrepareApplications rc offset errors w =
     (case rc_ListApplications rc maxPageSize (Some offset) w of
        (Inl err, w1) \<Rightarrow> Some Panic
      | (Inr resp, w1) \<Rightarrow>
          if rr_StatusCode resp \<noteq> 200 then Some (Ended [] w1)
          else (case rr_JSON200 resp of
                  None \<Rightarrow> Some Panic
                | Some (page, totalElements) \<Rightarrow>
                    (case restPrepareEach (\<lambda>app. restPrepareApplication rc (a_Name app) (a_Version app)) page w1 of
                       None \<Rightarrow> Some Panic
                     | Some (errs, w2) \<Rightarrow>
                         (let offset1 = offset + word_of_nat (length page)
                          in if sint totalElements > sint offset1 then restPrepareApplications rc offset1 (errors @ errs) w2
                             else Some (Ended (errors @ errs) w2)))))"

declare restPrepareApplications.simps [code]

section \<open>The wiper\<close>

definition restThen :: "'w ending option \<Rightarrow> ('w \<Rightarrow> 'w ending option) \<Rightarrow> 'w ending option" where
  "restThen x f =
     (case x of
        Some (Ended errors w) \<Rightarrow>
          (case f w of Some (Ended errs w1) \<Rightarrow> Some (Ended (errors @ errs) w1) | y \<Rightarrow> y)
      | y \<Rightarrow> y)"

definition restWipe :: "'w restClient \<Rightarrow> 'w \<Rightarrow> 'w ending option" where
  "restWipe rc w =
     restThen (Some (restPreparePackages rc w)) (\<lambda>w1.
     restThen (restPrepareApplications rc 0 [] w1) (\<lambda>w2.
     restThen (Some (restWipePackages rc w2)) (\<lambda>w3.
     restThen (Some (restWipeApplications rc w3)) (\<lambda>w4.
     restThen (Some (restWipeArtifacts rc w4)) (\<lambda>w5.
     Some (restWipeRegistries rc w5))))))"

section \<open>A client of the handlers\<close>

text \<open>The gateway in front of the handlers: status 200 with the response, or another one with none.\<close>

definition answered :: "'a result \<times> wiped \<Rightarrow> (string + 'a restResponse) \<times> wiped" where
  "answered out = (case out of
     (Inl err, w) \<Rightarrow> (Inr \<lparr>rr_StatusCode = (if st_code err = PermissionDenied then 403 else 400), rr_JSON200 = None\<rparr>, w)
   | (Inr v, w) \<Rightarrow> (Inr \<lparr>rr_StatusCode = 200, rr_JSON200 = Some v\<rparr>, w))"

definition gateway :: "(nat \<Rightarrow> env) \<Rightarrow> metadata option \<Rightarrow> wiped restClient" where
  "gateway envs ctx = \<lparr>
     rc_ListDeploymentPackages = (\<lambda>size w. answered (wiperCall envs (\<lambda>env. ListDeploymentPackages env ctx
       (Some \<lparr>ldp_OrderBy = [], ldp_Filter = [], ldp_PageSize = size, ldp_Offset = 0, ldp_Kinds = []\<rparr>)) w)),
     rc_GetDeploymentPackage = (\<lambda>name version w. answered (wiperCall envs (\<lambda>env. GetDeploymentPackage env ctx name version) w)),
     rc_UpdateDeploymentPackage = (\<lambda>name version pkg w. answered (wiperCall envs (\<lambda>env. UpdateDeploymentPackage env ctx name version (Some pkg)) w)),
     rc_DeleteDeploymentPackage = (\<lambda>name version w. answered (wiperCall envs (\<lambda>env. DeleteDeploymentPackage env ctx name version) w)),
     rc_ListApplications = (\<lambda>size offset w. answered (wiperCall envs (\<lambda>env. ListApplications env ctx
       (Some \<lparr>lap_OrderBy = [], lap_Filter = [], lap_PageSize = size, lap_Offset = (case offset of None \<Rightarrow> 0 | Some n \<Rightarrow> n), lap_Kinds = []\<rparr>)) w)),
     rc_GetApplication = (\<lambda>name version w. answered (wiperCall envs (\<lambda>env. GetApplication env ctx name version) w)),
     rc_UpdateApplication = (\<lambda>name version app w. answered (wiperCall envs (\<lambda>env. UpdateApplication env ctx name version (Some app)) w)),
     rc_DeleteApplication = (\<lambda>name version w. answered (wiperCall envs (\<lambda>env. DeleteApplication env ctx name version) w)),
     rc_ListArtifacts = (\<lambda>size w. answered (wiperCall envs (\<lambda>env. ListArtifacts env ctx
       (Some \<lparr>la_OrderBy = [], la_Filter = [], la_PageSize = size, la_Offset = 0\<rparr>)) w)),
     rc_DeleteArtifact = (\<lambda>name w. answered (wiperCall envs (\<lambda>env. DeleteArtifact env ctx name) w)),
     rc_ListRegistries = (\<lambda>size w. answered (wiperCall envs (\<lambda>env. ListRegistries env ctx
       (Some \<lparr>lr_OrderBy = [], lr_Filter = [], lr_PageSize = size, lr_Offset = 0, lr_ShowSensitiveInfo = False\<rparr>)) w)),
     rc_DeleteRegistry = (\<lambda>name w. answered (wiperCall envs (\<lambda>env. DeleteRegistry env ctx name) w))\<rparr>"

section \<open>What it reports\<close>

text \<open>A client whose calls reach the service, and that is sent a message with each status 200.\<close>

definition reaches :: "(string + 'a restResponse) \<times> 'w \<Rightarrow> bool" where
  "reaches out \<longleftrightarrow> (case out of (Inl err, w) \<Rightarrow> False | (Inr r, w) \<Rightarrow> rr_StatusCode r = 200 \<longrightarrow> rr_JSON200 r \<noteq> None)"

definition connected :: "'w restClient \<Rightarrow> bool" where
  "connected rc \<longleftrightarrow>
     (\<forall>n w. reaches (rc_ListDeploymentPackages rc n w)) \<and> (\<forall>n v w. reaches (rc_GetDeploymentPackage rc n v w)) \<and>
     (\<forall>n v k w. reaches (rc_UpdateDeploymentPackage rc n v k w)) \<and> (\<forall>n v w. reaches (rc_DeleteDeploymentPackage rc n v w)) \<and>
     (\<forall>n i w. reaches (rc_ListApplications rc n i w)) \<and> (\<forall>n v w. reaches (rc_GetApplication rc n v w)) \<and>
     (\<forall>n v a w. reaches (rc_UpdateApplication rc n v a w)) \<and> (\<forall>n v w. reaches (rc_DeleteApplication rc n v w)) \<and>
     (\<forall>n w. reaches (rc_ListArtifacts rc n w)) \<and> (\<forall>n w. reaches (rc_DeleteArtifact rc n w)) \<and>
     (\<forall>n w. reaches (rc_ListRegistries rc n w)) \<and> (\<forall>n w. reaches (rc_DeleteRegistry rc n w))"

lemma reaches_Inr: "reaches out \<longleftrightarrow> (\<exists>r w. out = (Inr r, w) \<and> (rr_StatusCode r = 200 \<longrightarrow> rr_JSON200 r \<noteq> None))"
  by (auto simp: reaches_def split: prod.splits sum.splits)

lemma reachesE:
  assumes "reaches out"
  obtains r w where "out = (Inr r, w)" and "rr_StatusCode r = 200 \<longrightarrow> (\<exists>v. rr_JSON200 r = Some v)"
  using assms by (auto simp: reaches_Inr)

lemma gateway_connected: "connected (gateway envs ctx)"
  by (auto simp: connected_def gateway_def answered_def reaches_def split: prod.splits sum.splits)

lemma restEach_connected:
  assumes "\<And>x w. reaches (call x w)"
  shows "\<exists>w1. restEach call xs w = ([], w1)"
proof (induction xs arbitrary: w)
  case Nil
  then show ?case by simp
next
  case (Cons x xs)
  obtain r w1 where "call x w = (Inr r, w1)" by (rule reachesE [OF assms])
  with Cons show ?case by simp
qed

lemma restWipePage_connected:
  assumes "\<And>w. reaches (listPage w)" and "\<And>x w. reaches (call x w)"
  shows "\<exists>w1. restWipePage listPage call w = Ended [] w1"
proof -
  obtain r w1 where page: "listPage w = (Inr r, w1)" "rr_StatusCode r = 200 \<longrightarrow> (\<exists>v. rr_JSON200 r = Some v)"
    by (rule reachesE [OF assms(1) [of w]]) (rule that)
  show ?thesis
  proof (cases "rr_StatusCode r = 200")
    case True
    with page obtain pg n where "rr_JSON200 r = Some (pg, n)" by auto
    with True page restEach_connected [of call pg w1, OF assms(2)] show ?thesis by (auto simp: restWipePage_def)
  next
    case False
    with page show ?thesis by (simp add: restWipePage_def)
  qed
qed

lemma restPrepareEach_connected:
  assumes "\<And>x w. \<exists>w1. prepare x w = Some (Inr (), w1)"
  shows "\<exists>w1. restPrepareEach prepare xs w = Some ([], w1)"
proof (induction xs arbitrary: w)
  case Nil
  then show ?case by simp
next
  case (Cons x xs)
  obtain w1 where "prepare x w = Some (Inr (), w1)" using assms by blast
  with Cons show ?case by simp
qed

lemma restPrepare_connected:
  assumes "connected rc"
  shows "\<exists>w1. restPreparePackage rc name version w = Some (Inr (), w1)"
    and "\<exists>w1. restPrepareApplication rc name version w = Some (Inr (), w1)"
proof -
  have r: "reaches (rc_GetDeploymentPackage rc name version w)" "reaches (rc_GetApplication rc name version w)"
    "\<And>k w. reaches (rc_UpdateDeploymentPackage rc name version k w)" "\<And>a w. reaches (rc_UpdateApplication rc name version a w)"
    using assms by (simp_all add: connected_def)
  obtain g w1 where get: "rc_GetDeploymentPackage rc name version w = (Inr g, w1)" "rr_StatusCode g = 200 \<longrightarrow> (\<exists>v. rr_JSON200 g = Some v)"
    by (rule reachesE [OF r(1)]) (rule that)
  show "\<exists>w1. restPreparePackage rc name version w = Some (Inr (), w1)"
  proof (cases "rr_StatusCode g = 200")
    case True
    with get obtain v where v: "rr_JSON200 g = Some v" by auto
    obtain u w2 where "rc_UpdateDeploymentPackage rc name version (severed v) w1 = (Inr u, w2)" by (rule reachesE [OF r(3)])
    with True get v show ?thesis by (simp add: restPreparePackage_def)
  next
    case False
    with get show ?thesis by (simp add: restPreparePackage_def)
  qed
  obtain h w1 where got: "rc_GetApplication rc name version w = (Inr h, w1)" "rr_StatusCode h = 200 \<longrightarrow> (\<exists>v. rr_JSON200 h = Some v)"
    by (rule reachesE [OF r(2)]) (rule that)
  show "\<exists>w1. restPrepareApplication rc name version w = Some (Inr (), w1)"
  proof (cases "rr_StatusCode h = 200")
    case True
    with got obtain v where v: "rr_JSON200 h = Some v" by auto
    obtain u w2 where "rc_UpdateApplication rc name version (v\<lparr>a_Profiles := [], a_DefaultProfileName := []\<rparr>) w1 = (Inr u, w2)" by (rule reachesE [OF r(4)])
    with True got v show ?thesis by (simp add: restPrepareApplication_def)
  next
    case False
    with got show ?thesis by (simp add: restPrepareApplication_def)
  qed
qed

lemma restPreparePackages_connected:
  assumes "connected rc"
  shows "\<exists>w1. restPreparePackages rc w = Ended [] w1"
proof -
  have "reaches (rc_ListDeploymentPackages rc maxPageSize w)" using assms by (simp add: connected_def)
  then obtain r w1 where page: "rc_ListDeploymentPackages rc maxPageSize w = (Inr r, w1)" "rr_StatusCode r = 200 \<longrightarrow> (\<exists>v. rr_JSON200 r = Some v)"
    by (rule reachesE) (rule that)
  show ?thesis
  proof (cases "rr_StatusCode r = 200")
    case True
    with page obtain pg n where "rr_JSON200 r = Some (pg, n)" by auto
    moreover obtain w2 where "restPrepareEach (\<lambda>pkg. restPreparePackage rc (dp_Name pkg) (dp_Version pkg)) pg w1 = Some ([], w2)"
      using restPrepareEach_connected [of "\<lambda>pkg. restPreparePackage rc (dp_Name pkg) (dp_Version pkg)", OF restPrepare_connected(1) [OF assms]] by blast
    ultimately show ?thesis using True page by (simp add: restPreparePackages_def)
  next
    case False
    with page show ?thesis by (simp add: restPreparePackages_def)
  qed
qed

lemma restPrepareApplications_connected:
  assumes "restPrepareApplications rc offset errors w = Some y" and "connected rc" and "errors = []"
  shows "\<exists>w1. y = Ended [] w1"
proof -
  let ?P = "\<lambda>(rc :: 'w restClient) (offset :: int32) errors w y. connected rc \<longrightarrow> errors = [] \<longrightarrow> (\<exists>w1. y = Ended [] w1)"
  have "?P rc offset errors w y"
  proof (rule restPrepareApplications.raw_induct [where P = ?P, OF _ assms(1)], intro impI)
    fix pp :: "'w restClient \<Rightarrow> int32 \<Rightarrow> string list \<Rightarrow> 'w \<Rightarrow> 'w ending option" and rc offset errors w y
    assume IH: "\<And>rc offset errors w y. pp rc offset errors w = Some y \<Longrightarrow> ?P rc offset errors w y"
      and rc: "connected rc" and Nil: "errors = []"
      and round: "(case rc_ListApplications rc maxPageSize (Some offset) w of
        (Inl err, w1) \<Rightarrow> Some Panic
      | (Inr resp, w1) \<Rightarrow>
          if rr_StatusCode resp \<noteq> 200 then Some (Ended [] w1)
          else (case rr_JSON200 resp of
                  None \<Rightarrow> Some Panic
                | Some (page, n) \<Rightarrow>
                    (case restPrepareEach (\<lambda>app. restPrepareApplication rc (a_Name app) (a_Version app)) page w1 of
                       None \<Rightarrow> Some Panic
                     | Some (errs, w2) \<Rightarrow>
                         (let offset1 = offset + word_of_nat (length page)
                          in if sint n > sint offset1 then pp rc offset1 (errors @ errs) w2
                             else Some (Ended (errors @ errs) w2))))) = Some y"
    have "reaches (rc_ListApplications rc maxPageSize (Some offset) w)" using rc by (simp add: connected_def)
    then obtain r w1 where page: "rc_ListApplications rc maxPageSize (Some offset) w = (Inr r, w1)"
      "rr_StatusCode r = 200 \<longrightarrow> (\<exists>v. rr_JSON200 r = Some v)"
      by (rule reachesE) (rule that)
    show "\<exists>w1. y = Ended [] w1"
    proof (cases "rr_StatusCode r = 200")
      case True
      with page obtain pg n where pg: "rr_JSON200 r = Some (pg, n)" by auto
      obtain w2 where each: "restPrepareEach (\<lambda>app. restPrepareApplication rc (a_Name app) (a_Version app)) pg w1 = Some ([], w2)"
        using restPrepareEach_connected [of "\<lambda>app. restPrepareApplication rc (a_Name app) (a_Version app)", OF restPrepare_connected(2) [OF rc]] by blast
      have "pp rc (offset + word_of_nat (length pg)) [] w2 = Some y \<or> y = Ended [] w2"
        using round page True pg each Nil by (auto simp: Let_def split: if_splits)
      with IH rc show ?thesis by blast
    next
      case False
      with round page show ?thesis by auto
    qed
  qed
  with assms show ?thesis by blast
qed

lemma restThen_Nil:
  assumes "restThen x f = Some y" and "\<And>z. x = Some z \<Longrightarrow> \<exists>w1. z = Ended [] w1"
    and "\<And>w1 z. f w1 = Some z \<Longrightarrow> \<exists>w2. z = Ended [] w2"
  shows "\<exists>w2. y = Ended [] w2"
  using assms by (fastforce simp: restThen_def split: option.splits ending.splits)

text \<open>
  C21. As long as its calls reach the service, the wiper over the REST interface reports no error: it ends with none, or does
  not end, whatever the catalog answers. In particular a refused deletion counts as a done one.
\<close>

theorem rest_wiper_reports_no_refusal:
  assumes "connected rc" and "restWipe rc w = Some y"
  shows "\<exists>w1. y = Ended [] w1"
proof -
  note rc = assms(1) [unfolded connected_def]
  have phases: "\<exists>w1. restWipePackages rc w = Ended [] w1" "\<exists>w1. restWipeApplications rc w = Ended [] w1"
    "\<exists>w1. restWipeArtifacts rc w = Ended [] w1" "\<exists>w1. restWipeRegistries rc w = Ended [] w1" for w
    unfolding restWipePackages_def restWipeApplications_def restWipeArtifacts_def restWipeRegistries_def
    by (rule restWipePage_connected; use rc in simp)+
  show ?thesis
    using assms(2) unfolding restWipe_def
    by (elim restThen_Nil) (use phases restPreparePackages_connected [OF assms(1)] restPrepareApplications_connected [OF _ assms(1)] in auto)
qed

definition refusingEnv :: env where
  "refusingEnv = sampleEnv\<lparr>e_opa := Some (\<lambda>request name md. OpaBool False)\<rparr>"

text \<open>A catalog whose policy agent allows nothing: the wiper ends without an error, and everything is still there.\<close>

theorem rest_wiper_reports_no_refusal_witness:
  "\<exists>w1. restWipe (gateway (\<lambda>_. refusingEnv) sampleCtx) (0, sampleAppServer) = Some (Ended [] w1) \<and> snd w1 = sampleAppServer"
proof -
  have deny: "authCheckAllowed refusingEnv sampleCtx r names = Inl (NewPermissionDenied [])" for r names
    by (simp add: authCheckAllowed_def refusingEnv_def sampleEnv_def sampleCtx_def Let_def)
  have "\<exists>y. restWipe (gateway (\<lambda>_. refusingEnv) sampleCtx) (0, sampleAppServer) = Some y \<and> (\<forall>w1. y = Ended [] w1 \<longrightarrow> snd w1 = sampleAppServer)"
    by (simp add: restWipe_def restThen_def restPreparePackages_def restPrepareApplications.simps restWipePackages_def restWipeApplications_def
        restWipeArtifacts_def restWipeRegistries_def restWipePage_def gateway_def answered_def wiperCall_def
        ListDeploymentPackages_def ListApplications_def ListArtifacts_def ListRegistries_def sampleProject deny)
  with rest_wiper_reports_no_refusal [OF gateway_connected] show ?thesis by blast
qed

end
