(* ===== verification/Migration.thy ===== *)
theory Migration
  imports Registry_Service
begin

text \<open>
  The migration of the default project that the manager runs at its start, \<^verbatim>\<open>internal/manager/migration.go\<close>: the rows of
  the project \<^verbatim>\<open>default\<close> are given to another project and the secrets of its registries moved. The transaction that is
  started is not the one the tables are changed in: each update goes through the client of the database and takes effect at once.
\<close>

section \<open>Updates of the project\<close>

text \<open>An update of all rows at once is refused when two of them would have the same key.\<close>

definition moveRegistryRows :: "string \<Rightarrow> string \<Rightarrow> time \<Rightarrow> db \<Rightarrow> (ent_error + unit) \<times> db" where
  "moveRegistryRows from to now d =
     (let rows = map (\<lambda>r. if rdb_ProjectUUID r = from then r\<lparr>rdb_ProjectUUID := to, rdb_UpdateTime := now\<rparr> else r) (t_registries d)
      in if distinct (map (\<lambda>r. (rdb_ProjectUUID r, rdb_Name r)) rows) then (Inr (), d\<lparr>t_registries := rows\<rparr>) else (Inl EntConstraint, d))"

definition moveArtifactRows :: "string \<Rightarrow> string \<Rightarrow> time \<Rightarrow> db \<Rightarrow> (ent_error + unit) \<times> db" where
  "moveArtifactRows from to now d =
     (let rows = map (\<lambda>r. if tdb_ProjectUUID r = from then r\<lparr>tdb_ProjectUUID := to, tdb_UpdateTime := now\<rparr> else r) (t_artifacts d)
      in if distinct (map (\<lambda>r. (tdb_ProjectUUID r, tdb_Name r)) rows) then (Inr (), d\<lparr>t_artifacts := rows\<rparr>) else (Inl EntConstraint, d))"

definition moveApplicationRows :: "string \<Rightarrow> string \<Rightarrow> time \<Rightarrow> db \<Rightarrow> (ent_error + unit) \<times> db" where
  "moveApplicationRows from to now d =
     (let rows = map (\<lambda>a. if adb_ProjectUUID a = from then a\<lparr>adb_ProjectUUID := to, adb_UpdateTime := now\<rparr> else a) (t_applications d)
      in if distinct (map (\<lambda>a. (adb_ProjectUUID a, adb_Name a, adb_Version a)) rows)
         then (Inr (), d\<lparr>t_applications := rows\<rparr>) else (Inl EntConstraint, d))"

definition movePackageRows :: "string \<Rightarrow> string \<Rightarrow> time \<Rightarrow> db \<Rightarrow> (ent_error + unit) \<times> db" where
  "movePackageRows from to now d =
     (let rows = map (\<lambda>k. if kdb_ProjectUUID k = from then k\<lparr>kdb_ProjectUUID := to, kdb_UpdateTime := now\<rparr> else k) (t_deployment_packages d)
      in if distinct (map (\<lambda>k. (kdb_ProjectUUID k, kdb_Name k, kdb_Version k)) rows)
         then (Inr (), d\<lparr>t_deployment_packages := rows\<rparr>) else (Inl EntConstraint, d))"

section \<open>The migration\<close>

definition oldUUID :: string where "oldUUID = ''default''"

text \<open>Errors of the secret service are logged, and end the move of that secret.\<close>

definition migrateSecret :: "string \<Rightarrow> RegistryDB \<Rightarrow> unit txm" where
  "migrateSecret newUUID registryDB =
     (let oldRegistryKey = MakeSecretPath (rdb_ProjectUUID registryDB) (rdb_Name registryDB);
          newRegistryKey = MakeSecretPath newUUID (rdb_Name registryDB)
      in bnd (ReadSecret oldRegistryKey) (\<lambda>secret.
         case secret of
           Inl err \<Rightarrow> ret ()
         | Inr registrySecretData \<Rightarrow>
             bnd (WriteSecret newRegistryKey registrySecretData) (\<lambda>write.
             case write of
               Inl err \<Rightarrow> ret ()
             | Inr _ \<Rightarrow> bnd (DeleteSecret oldRegistryKey) (\<lambda>_. ret ()))))"

definition migrateRegistries :: "env \<Rightarrow> string \<Rightarrow> unit txm" where
  "migrateRegistries env newUUID =
     bnd (if e_UseSecretService env then
            bnd (orRawError (query (\<lambda>d. q_all (\<lambda>r. rdb_ProjectUUID r = oldUUID) (t_registries d)))) (\<lambda>registriesDB.
            bnd (orRawError SecretServiceFactory) (\<lambda>_.
            forM registriesDB (migrateSecret newUUID)))
          else ret ()) (\<lambda>_.
     orRawError (mutate (moveRegistryRows oldUUID newUUID)))"

definition migrateArtifacts :: "string \<Rightarrow> unit txm" where
  "migrateArtifacts newUUID = orRawError (mutate (moveArtifactRows oldUUID newUUID))"

definition migrateApplications :: "string \<Rightarrow> unit txm" where
  "migrateApplications newUUID = orRawError (mutate (moveApplicationRows oldUUID newUUID))"

definition migratePackages :: "string \<Rightarrow> unit txm" where
  "migratePackages newUUID = orRawError (mutate (movePackageRows oldUUID newUUID))"

definition migrate :: "env \<Rightarrow> string \<Rightarrow> unit txm" where
  "migrate env newUUID =
     bnd (migrateRegistries env newUUID) (\<lambda>_.
     bnd (migrateArtifacts newUUID) (\<lambda>_.
     bnd (migrateApplications newUUID) (\<lambda>_.
     migratePackages newUUID)))"

text \<open>Whatever becomes of the transaction, the tables are those the updates left.\<close>

definition runMigration :: "env \<Rightarrow> string \<Rightarrow> server \<Rightarrow> unit result \<times> server" where
  "runMigration env newUUID srv =
     (case startTransaction env srv of
        (Inl e, srv1) \<Rightarrow> (Inl (rawError e), srv1)
      | (Inr t, srv1) \<Rightarrow>
     (case migrate env newUUID t of
        (Inl e, t1) \<Rightarrow> (Inl e, rollbackTransaction t1 (srv1\<lparr>sv_db := tx_db t1\<rparr>))
      | (Inr _, t1) \<Rightarrow>
     (case commitTransaction t1 (srv1\<lparr>sv_db := tx_db t1\<rparr>) of
        (Inl e, srv2) \<Rightarrow> (Inl (rawError e), srv2)
      | (Inr _, srv2) \<Rightarrow> (Inr (), srv2))))"

text \<open>The manager goes on with its start after an error.\<close>

record managerConfig =
  cfg_DatabaseDisableMigration :: bool
  cfg_DefaultProjectUUID :: string

definition migrateAtStart :: "env \<Rightarrow> managerConfig \<Rightarrow> server \<Rightarrow> server" where
  "migrateAtStart env cfg srv =
     (if \<not> cfg_DatabaseDisableMigration cfg \<and> cfg_DefaultProjectUUID cfg \<noteq> []
      then snd (runMigration env (cfg_DefaultProjectUUID cfg) srv) else srv)"

end
