(* ===== verification/Migration_Properties.thy ===== *)
theory Migration_Properties
  imports Migration Vault_Properties Sample_Package
begin

text \<open>
  What the migration does to the tables and to the secrets, when it succeeds and when it fails half way.
\<close>

section \<open>All four tables moved\<close>

definition movedTo :: "string \<Rightarrow> string \<Rightarrow> string \<Rightarrow> string" where
  "movedTo from to p = (if p = from then to else p)"

definition moveRegistry :: "string \<Rightarrow> string \<Rightarrow> time \<Rightarrow> RegistryDB \<Rightarrow> RegistryDB" where
  "moveRegistry from to now r = (if rdb_ProjectUUID r = from then r\<lparr>rdb_ProjectUUID := to, rdb_UpdateTime := now\<rparr> else r)"

definition moveArtifact :: "string \<Rightarrow> string \<Rightarrow> time \<Rightarrow> ArtifactDB \<Rightarrow> ArtifactDB" where
  "moveArtifact from to now r = (if tdb_ProjectUUID r = from then r\<lparr>tdb_ProjectUUID := to, tdb_UpdateTime := now\<rparr> else r)"

definition moveApplication :: "string \<Rightarrow> string \<Rightarrow> time \<Rightarrow> ApplicationDB \<Rightarrow> ApplicationDB" where
  "moveApplication from to now a = (if adb_ProjectUUID a = from then a\<lparr>adb_ProjectUUID := to, adb_UpdateTime := now\<rparr> else a)"

definition movePackage :: "string \<Rightarrow> string \<Rightarrow> time \<Rightarrow> DeploymentPackageDB \<Rightarrow> DeploymentPackageDB" where
  "movePackage from to now k = (if kdb_ProjectUUID k = from then k\<lparr>kdb_ProjectUUID := to, kdb_UpdateTime := now\<rparr> else k)"

lemma moveRegistry_simps [simp]:
  "rdb_ID (moveRegistry f t n r) = rdb_ID r" "rdb_Name (moveRegistry f t n r) = rdb_Name r" "rdb_Type (moveRegistry f t n r) = rdb_Type r"
  "rdb_DisplayName (moveRegistry f t n r) = rdb_DisplayName r" "rdb_DisplayNameLc (moveRegistry f t n r) = rdb_DisplayNameLc r"
  "rdb_ProjectUUID (moveRegistry f t n r) = movedTo f t (rdb_ProjectUUID r)"
  by (simp_all add: moveRegistry_def movedTo_def)

lemma moveArtifact_simps [simp]:
  "tdb_ID (moveArtifact f t n r) = tdb_ID r" "tdb_Name (moveArtifact f t n r) = tdb_Name r"
  "tdb_DisplayName (moveArtifact f t n r) = tdb_DisplayName r" "tdb_DisplayNameLc (moveArtifact f t n r) = tdb_DisplayNameLc r"
  "tdb_ProjectUUID (moveArtifact f t n r) = movedTo f t (tdb_ProjectUUID r)"
  by (simp_all add: moveArtifact_def movedTo_def)

lemma moveApplication_simps [simp]:
  "adb_ID (moveApplication f t n a) = adb_ID a" "adb_Name (moveApplication f t n a) = adb_Name a"
  "adb_Version (moveApplication f t n a) = adb_Version a" "adb_DisplayName (moveApplication f t n a) = adb_DisplayName a"
  "adb_DisplayNameLc (moveApplication f t n a) = adb_DisplayNameLc a" "adb_registry_fk (moveApplication f t n a) = adb_registry_fk a"
  "adb_image_registry_fk (moveApplication f t n a) = adb_image_registry_fk a"
  "adb_default_profile (moveApplication f t n a) = adb_default_profile a"
  "adb_ProjectUUID (moveApplication f t n a) = movedTo f t (adb_ProjectUUID a)"
  by (simp_all add: moveApplication_def movedTo_def)

lemma movePackage_simps [simp]:
  "kdb_ID (movePackage f t n k) = kdb_ID k" "kdb_Name (movePackage f t n k) = kdb_Name k" "kdb_Version (movePackage f t n k) = kdb_Version k"
  "kdb_DisplayName (movePackage f t n k) = kdb_DisplayName k" "kdb_DisplayNameLc (movePackage f t n k) = kdb_DisplayNameLc k"
  "kdb_default_profile (movePackage f t n k) = kdb_default_profile k"
  "kdb_ProjectUUID (movePackage f t n k) = movedTo f t (kdb_ProjectUUID k)"
  by (simp_all add: movePackage_def movedTo_def)

definition moved :: "string \<Rightarrow> string \<Rightarrow> time \<Rightarrow> db \<Rightarrow> db" where
  "moved from to now d = d\<lparr>t_registries := map (moveRegistry from to now) (t_registries d),
     t_artifacts := map (moveArtifact from to now) (t_artifacts d), t_applications := map (moveApplication from to now) (t_applications d),
     t_deployment_packages := map (movePackage from to now) (t_deployment_packages d)\<rparr>"

definition unclashed :: "db \<Rightarrow> bool" where
  "unclashed d \<longleftrightarrow> distinct (map registryKey (t_registries d)) \<and> distinct (map artifactKey (t_artifacts d)) \<and>
     distinct (map applicationKey (t_applications d)) \<and> distinct (map packageKey (t_deployment_packages d))"

lemma keyed_moved:
  assumes "keyed n ident key rows" and "\<And>r. ident (f r) = ident r" and "distinct (map key' (map f rows))"
  shows "keyed n ident key' (map f rows)"
  using assms by (auto simp: keyed_def comp_def)

lemma moved_registry: "hasRegistry d p ty i \<Longrightarrow> hasRegistry (moved f t n d) (movedTo f t p) ty i"
  by (force simp: hasRegistry_def moved_def)

lemma moved_has [simp]:
  "hasApplication (moved f t n d) = hasApplication d" "hasProfile (moved f t n d) = hasProfile d"
  "hasPackage (moved f t n d) = hasPackage d"
  by (auto simp: fun_eq_iff hasApplication_def hasProfile_def hasPackage_def moved_def image_image)

lemma moved_owners:
  "(i, u) \<in> packageOwners d \<Longrightarrow> (i, movedTo f t u) \<in> packageOwners (moved f t n d)"
  "(i, u) \<in> applicationOwners d \<Longrightarrow> (i, movedTo f t u) \<in> applicationOwners (moved f t n d)"
  "(i, u) \<in> artifactOwners d \<Longrightarrow> (i, movedTo f t u) \<in> artifactOwners (moved f t n d)"
  by (auto simp: packageOwners_def applicationOwners_def artifactOwners_def moved_def image_iff)

text \<open>Moving all that a project has to another one keeps the tables well-formed.\<close>

lemma moved_ok:
  assumes "db_ok d" and "unclashed (moved f t n d)"
  shows "db_ok (moved f t n d)"
proof -
  note d = assms(1) [unfolded db_ok_iff packages_ok_def]
  have "keys_ok (moved f t n d)"
    using d assms(2) by (auto simp: keys_ok_def moved_def unclashed_def intro!: keyed_moved)
  moreover have "names_ok (moved f t n d)" using d by (auto simp: names_ok_def moved_def)
  moreover have "registries_ok (moved f t n d)"
  proof -
    have "hasRegistry (moved f t n d) (adb_ProjectUUID a) ''HELM'' (adb_registry_fk a) \<and>
        (\<forall>i. adb_image_registry_fk a = Some i \<longrightarrow> hasRegistry (moved f t n d) (adb_ProjectUUID a) ''IMAGE'' i)"
      if a: "a \<in> set (t_applications (moved f t n d))" for a
    proof -
      obtain b where "b \<in> set (t_applications d)" "a = moveApplication f t n b" using a by (auto simp: moved_def)
      with d show ?thesis by (auto simp: registries_ok_def intro!: moved_registry)
    qed
    then show ?thesis by (simp add: registries_ok_def)
  qed
  moreover have "profiles_ok (moved f t n d)" using d unfolding profiles_ok_def moved_has by (auto simp: moved_def)
  moreover have "templates_ok (moved f t n d)" using d unfolding templates_ok_def moved_has by (auto simp: moved_def)
  moreover have "uses_ok (moved f t n d)" using d unfolding uses_ok_def requirement_ok_def moved_has by (auto simp: moved_def)
  moreover have "packageKeys_ok (moved f t n d)"
    using d assms(2) by (auto simp: packageKeys_ok_def moved_def unclashed_def intro!: keyed_moved)
  moreover have "packageOwned_ok (moved f t n d)"
    using d unfolding packageOwned_ok_def moved_has by (auto simp: moved_def deploymentProfiles_def)
  moreover have "links_ok (moved f t n d)"
  proof -
    have "links_ok d" using d by blast
    moreover have "t_package_applications (moved f t n d) = t_package_applications d"
      "t_artifact_references (moved f t n d) = t_artifact_references d" by (simp_all add: moved_def)
    moreover have "\<exists>u. (k, u) \<in> packageOwners (moved f t n d) \<and> (i, u) \<in> applicationOwners (moved f t n d)"
      if "(k, u) \<in> packageOwners d" "(i, u) \<in> applicationOwners d" for k i u
      using moved_owners(1) [OF that(1), of f t n] moved_owners(2) [OF that(2), of f t n] by blast
    moreover have "\<exists>u. (k, u) \<in> packageOwners (moved f t n d) \<and> (i, u) \<in> artifactOwners (moved f t n d)"
      if "(k, u) \<in> packageOwners d" "(i, u) \<in> artifactOwners d" for k i u
      using moved_owners(1) [OF that(1), of f t n] moved_owners(3) [OF that(2), of f t n] by blast
    ultimately show ?thesis unfolding links_ok_def by metis
  qed
  moreover have "members_ok (moved f t n d)" using d by (auto simp: members_ok_def moved_def)
  ultimately show ?thesis by (simp add: db_ok_iff packages_ok_def)
qed

section \<open>What a successful migration does\<close>

lemma moves_eq:
  "moveRegistryRows f t n d = (Inr u1, d1) \<longleftrightarrow> d1 = d\<lparr>t_registries := map (moveRegistry f t n) (t_registries d)\<rparr> \<and>
     distinct (map registryKey (t_registries d1))"
  "moveArtifactRows f t n d = (Inr u2, d1) \<longleftrightarrow> d1 = d\<lparr>t_artifacts := map (moveArtifact f t n) (t_artifacts d)\<rparr> \<and>
     distinct (map artifactKey (t_artifacts d1))"
  "moveApplicationRows f t n d = (Inr u3, d1) \<longleftrightarrow> d1 = d\<lparr>t_applications := map (moveApplication f t n) (t_applications d)\<rparr> \<and>
     distinct (map applicationKey (t_applications d1))"
  "movePackageRows f t n d = (Inr u4, d1) \<longleftrightarrow> d1 = d\<lparr>t_deployment_packages := map (movePackage f t n) (t_deployment_packages d)\<rparr> \<and>
     distinct (map packageKey (t_deployment_packages d1))"
  by (auto simp: moveRegistryRows_def moveArtifactRows_def moveApplicationRows_def movePackageRows_def Let_def
      moveRegistry_def [abs_def] moveArtifact_def [abs_def] moveApplication_def [abs_def] movePackage_def [abs_def]
      registryKey_def [abs_def] artifactKey_def [abs_def] applicationKey_def [abs_def] packageKey_def [abs_def] split: if_splits)

lemma orRawError_mutate_Inr:
  "orRawError (mutate f) t = (Inr v, t1) \<longleftrightarrow> (\<exists>d. \<not> tx_fault t (tx_clock t) \<and> f (tx_now t) (tx_db t) = (Inr v, d) \<and> t1 = (tick t)\<lparr>tx_db := d\<rparr>)"
  by (auto simp: orRawError_def mutate_def external_def tick_def bnd_def ret_def throw_def Let_def split: prod.splits sum.splits)

text \<open>Moving the secrets of the registries keeps the tables, and does not fail.\<close>

lemma migrateSecret_keeps:
  assumes "migrateSecret newUUID r t = (x, t1)"
  shows "x = Inr ()" and "tx_db t1 = tx_db t" and "tx_now t1 = tx_now t" and "tx_fault t1 = tx_fault t"
  using assms
  by (auto simp: migrateSecret_def ReadSecret_def WriteSecret_def DeleteSecret_def external_def bnd_def ret_def Let_def
      split: option.splits if_splits)

lemma migrateSecrets_keep:
  assumes "forM rs (migrateSecret newUUID) t = (x, t1)"
  shows "x = Inr () \<and> tx_db t1 = tx_db t \<and> tx_now t1 = tx_now t \<and> tx_fault t1 = tx_fault t"
  using assms
proof (induction rs arbitrary: t)
  case Nil
  then show ?case by (simp add: ret_def)
next
  case (Cons r rs)
  obtain y t2 where step: "migrateSecret newUUID r t = (y, t2)" by fastforce
  note keeps = migrateSecret_keeps [OF step]
  with step Cons.prems have "forM rs (migrateSecret newUUID) t2 = (x, t1)" by (simp add: bnd_def)
  from Cons.IH [OF this] keeps show ?case by simp
qed

lemma migrateRegistries_Inr:
  assumes "migrateRegistries env newUUID t = (Inr u, t1)"
  shows "tx_db t1 = (tx_db t)\<lparr>t_registries := map (moveRegistry oldUUID newUUID (tx_now t)) (t_registries (tx_db t))\<rparr>"
    and "distinct (map registryKey (t_registries (tx_db t1)))" and "tx_now t1 = tx_now t"
proof -
  obtain t2 where t2: "tx_db t2 = tx_db t" "tx_now t2 = tx_now t" "orRawError (mutate (moveRegistryRows oldUUID newUUID)) t2 = (Inr (), t1)"
  proof (cases "e_UseSecretService env")
    case True
    then obtain rs t4 t5 where login: "orRawError SecretServiceFactory (tick t) = (Inr (), t4)"
      and each: "forM rs (migrateSecret newUUID) t4 = (Inr (), t5)"
      and move: "orRawError (mutate (moveRegistryRows oldUUID newUUID)) t5 = (Inr (), t1)"
      using assms by (auto simp: migrateRegistries_def bnd_Inr orRawError_query_Inr)
    have "tx_db t4 = tx_db t" "tx_now t4 = tx_now t"
      using login by (auto simp: orRawError_def SecretServiceFactory_def external_def bnd_def ret_def throw_def Let_def split: if_splits)
    with that [of t5] migrateSecrets_keep [OF each] move show thesis by simp
  next
    case False
    with assms that [of t] show thesis by (auto simp: migrateRegistries_def bnd_Inr ret_Inr)
  qed
  then obtain d where "moveRegistryRows oldUUID newUUID (tx_now t) (tx_db t) = (Inr (), d)" "tx_db t1 = d" "tx_now t1 = tx_now t"
    by (auto simp: orRawError_mutate_Inr)
  then show "tx_db t1 = (tx_db t)\<lparr>t_registries := map (moveRegistry oldUUID newUUID (tx_now t)) (t_registries (tx_db t))\<rparr>"
    and "distinct (map registryKey (t_registries (tx_db t1)))" and "tx_now t1 = tx_now t"
    by (auto simp: moves_eq)
qed

lemma migrate_Inr:
  assumes "migrate env newUUID t = (Inr u, t1)"
  shows "tx_db t1 = moved oldUUID newUUID (tx_now t) (tx_db t)" and "unclashed (tx_db t1)"
proof -
  obtain t2 where t2: "migrateRegistries env newUUID t = (Inr (), t2)"
    and rest: "bnd (migrateArtifacts newUUID) (\<lambda>_. bnd (migrateApplications newUUID) (\<lambda>_. migratePackages newUUID)) t2 = (Inr (), t1)"
    using assms by (auto simp: migrate_def bnd_Inr)
  note r = migrateRegistries_Inr [OF t2]
  from rest r show "tx_db t1 = moved oldUUID newUUID (tx_now t) (tx_db t)" and "unclashed (tx_db t1)"
    by (auto simp: migrateArtifacts_def migrateApplications_def migratePackages_def bnd_Inr orRawError_mutate_Inr moves_eq moved_def unclashed_def)
qed

lemma runMigration_Inr:
  assumes "runMigration env newUUID srv = (Inr u, srv1)"
  obtains t t1 where "startTransaction env srv = (Inr t, srv\<lparr>sv_open := Suc (sv_open srv)\<rparr>)" and "migrate env newUUID t = (Inr (), t1)"
    and "sv_db srv1 = tx_db t1" and "sv_vault srv1 = tx_vault t1"
proof -
  obtain t srv2 t1 where run: "startTransaction env srv = (Inr t, srv2)" "migrate env newUUID t = (Inr (), t1)"
    "commitTransaction t1 (srv2\<lparr>sv_db := tx_db t1\<rparr>) = (Inr (), srv1)"
    using assms by (auto simp: runMigration_def split: prod.splits sum.splits)
  show thesis
    by (rule that [of t t1]) (use run startTransaction_Inr [OF run(1)] commitTransaction_Inr [OF run(3)] in auto)
qed

lemma not_moved: "from \<noteq> to \<Longrightarrow> movedTo from to p \<noteq> from"
  by (simp add: movedTo_def)

text \<open>
  C16. A migration that succeeds gives exactly the rows of the default project to the new one, in all four tables and
  keeping the rest of every row but its time; nothing is left in the default project, and well-formed tables stay so.
\<close>

theorem migration_moves_the_default_project:
  assumes "runMigration env newUUID srv = (Inr (), srv1)" and "newUUID \<noteq> oldUUID"
  shows "sv_db srv1 = moved oldUUID newUUID (e_now env) (sv_db srv) \<and>
    (\<forall>r \<in> set (t_registries (sv_db srv1)). rdb_ProjectUUID r \<noteq> oldUUID) \<and>
    (\<forall>r \<in> set (t_artifacts (sv_db srv1)). tdb_ProjectUUID r \<noteq> oldUUID) \<and>
    (\<forall>a \<in> set (t_applications (sv_db srv1)). adb_ProjectUUID a \<noteq> oldUUID) \<and>
    (\<forall>k \<in> set (t_deployment_packages (sv_db srv1)). kdb_ProjectUUID k \<noteq> oldUUID) \<and>
    (db_ok (sv_db srv) \<longrightarrow> db_ok (sv_db srv1))"
proof -
  obtain t t1 where run: "startTransaction env srv = (Inr t, srv\<lparr>sv_open := Suc (sv_open srv)\<rparr>)" "migrate env newUUID t = (Inr (), t1)"
    "sv_db srv1 = tx_db t1"
    by (rule runMigration_Inr [OF assms(1)]) (rule that)
  have "tx_db t = sv_db srv" "tx_now t = e_now env" using startTransaction_Inr [OF run(1)] by simp_all
  with migrate_Inr [OF run(2)] run(3) have m: "sv_db srv1 = moved oldUUID newUUID (e_now env) (sv_db srv)" "unclashed (sv_db srv1)"
    by simp_all
  with moved_ok [of "sv_db srv" oldUUID newUUID "e_now env"] not_moved [OF assms(2) [symmetric]] show ?thesis
    by (auto simp: moved_def)
qed

text \<open>The samples, given to the default project, and back again by a migration.\<close>

definition defaultServer :: server where
  "defaultServer = samplePackageServer\<lparr>sv_db := moved ''p1'' oldUUID 7 (sv_db samplePackageServer)\<rparr>"

lemma defaultServer_ok: "db_ok (sv_db defaultServer)"
proof -
  have "unclashed (moved ''p1'' oldUUID 7 (sv_db samplePackageServer))"
    by (simp add: unclashed_def moved_def samplePackageServer_eq empty_db_def)
  from moved_ok [OF samplePackage_ok this] show ?thesis by (simp add: defaultServer_def)
qed

lemmas migration_eval = runMigration_def migrate_def migrateRegistries_def migrateArtifacts_def migrateApplications_def
  migratePackages_def moveRegistryRows_def moveArtifactRows_def moveApplicationRows_def movePackageRows_def

lemma sampleMigration: "\<exists>srv1. runMigration sampleEnv ''p2'' defaultServer = (Inr (), srv1)"
  by (simp add: migration_eval transaction_eval monad_eval sampleEnv_def defaultServer_def moved_def samplePackageServer_eq
      Register_def empty_db_def Let_def)

theorem migration_moves_the_default_project_witness:
  "\<exists>srv1. runMigration sampleEnv ''p2'' defaultServer = (Inr (), srv1) \<and> db_ok (sv_db srv1) \<and>
     (\<forall>k \<in> set (t_deployment_packages (sv_db srv1)). kdb_ProjectUUID k \<noteq> ''default'')"
proof -
  obtain srv1 where run: "runMigration sampleEnv ''p2'' defaultServer = (Inr (), srv1)" using sampleMigration by blast
  from migration_moves_the_default_project [OF run] defaultServer_ok run show ?thesis by (auto simp: oldUUID_def)
qed

section \<open>A migration that fails\<close>

text \<open>
  C20. A migration whose last update fails is not undone. Without a secret service, when the updates of the registries,
  the artifacts and the applications succeed, no two rows of the result clash in their keys, and the update of the packages
  fails, the call returns the error and the first three tables stay moved. If the tables were well-formed, the new
  project is another one and some package of the default project refers to an application, they are not well-formed any more:
  the package and its application are in different projects.
\<close>

theorem failed_migration_is_not_undone:
  assumes "\<not> e_UseSecretService env" and "\<forall>n < 4. \<not> e_fault env n" and "e_fault env 4"
    and "unclashed (moved oldUUID newUUID (e_now env) (sv_db srv))"
  shows "\<exists>e srv1. runMigration env newUUID srv = (Inl e, srv1) \<and>
    sv_db srv1 = (moved oldUUID newUUID (e_now env) (sv_db srv))\<lparr>t_deployment_packages := t_deployment_packages (sv_db srv)\<rparr> \<and>
    (db_ok (sv_db srv) \<and> newUUID \<noteq> oldUUID \<and>
       (\<exists>k \<in> set (t_deployment_packages (sv_db srv)). kdb_ProjectUUID k = oldUUID \<and>
          kdb_ID k \<in> fst ` set (t_package_applications (sv_db srv))) \<longrightarrow> \<not> db_ok (sv_db srv1))"
proof -
  let ?m = "moved oldUUID newUUID (e_now env) (sv_db srv)"
  let ?half = "?m\<lparr>t_deployment_packages := t_deployment_packages (sv_db srv)\<rparr>"
  let ?d1 = "(sv_db srv)\<lparr>t_registries := map (moveRegistry oldUUID newUUID (e_now env)) (t_registries (sv_db srv))\<rparr>"
  let ?d2 = "?d1\<lparr>t_artifacts := map (moveArtifact oldUUID newUUID (e_now env)) (t_artifacts (sv_db srv))\<rparr>"
  have moves: "moveRegistryRows oldUUID newUUID (e_now env) (sv_db srv) = (Inr (), ?d1)"
    "moveArtifactRows oldUUID newUUID (e_now env) ?d1 = (Inr (), ?d2)"
    "moveApplicationRows oldUUID newUUID (e_now env) ?d2 = (Inr (), ?half)"
    using assms(4) unfolding moves_eq by (auto simp: moved_def unclashed_def)
  have faults: "\<not> e_fault env 0" "\<not> e_fault env (Suc 0)" "\<not> e_fault env (Suc (Suc 0))" "\<not> e_fault env (Suc (Suc (Suc 0)))"
    "e_fault env (Suc (Suc (Suc (Suc 0))))"
    using assms(2,3) by (simp_all add: eval_nat_numeral)
  have run: "\<exists>e srv1. runMigration env newUUID srv = (Inl e, srv1) \<and> sv_db srv1 = ?half"
    using assms(1) faults moves
    by (simp add: runMigration_def migrate_def migrateRegistries_def migrateArtifacts_def migrateApplications_def migratePackages_def
        transaction_eval monad_eval Let_def)
  have "\<not> db_ok ?half"
    if ok: "db_ok (sv_db srv)" and other: "newUUID \<noteq> oldUUID" and k: "k \<in> set (t_deployment_packages (sv_db srv))"
      "kdb_ProjectUUID k = oldUUID" "(kdb_ID k, i) \<in> set (t_package_applications (sv_db srv))" for k i
  proof
    assume "db_ok ?half"
    then have "links_ok ?half" by (simp add: db_ok_iff packages_ok_def)
    moreover have "(kdb_ID k, i) \<in> set (t_package_applications ?half)" using k(3) by (simp add: moved_def)
    ultimately obtain u where u: "(kdb_ID k, u) \<in> packageOwners ?half" "(i, u) \<in> applicationOwners ?half"
      by (rule links_ok_application)
    have "u = oldUUID"
    proof -
      obtain l where l: "l \<in> set (t_deployment_packages (sv_db srv))" "kdb_ID l = kdb_ID k" "kdb_ProjectUUID l = u"
        using u(1) by (auto simp: packageOwners_def)
      have "keyed (t_next (sv_db srv)) kdb_ID packageKey (t_deployment_packages (sv_db srv))"
        using ok by (simp add: db_ok_iff packages_ok_def packageKeys_ok_def)
      from keyed_ident_inj [OF this l(1) k(1) l(2)] l(3) k(2) show ?thesis by simp
    qed
    with u(2) obtain p where "oldUUID = movedTo oldUUID newUUID p" by (auto simp: applicationOwners_def moved_def)
    then show False using not_moved [OF other [symmetric]] by metis
  qed
  with run show ?thesis by fastforce
qed

definition failingEnv :: env where
  "failingEnv = sampleEnv\<lparr>e_fault := (\<lambda>n. n = 4)\<rparr>"

theorem failed_migration_is_not_undone_witness:
  "db_ok (sv_db defaultServer) \<and> (\<exists>e srv1. runMigration failingEnv ''p2'' defaultServer = (Inl e, srv1) \<and> \<not> db_ok (sv_db srv1))"
proof -
  let ?k = "movePackage ''p1'' oldUUID 7 samplePkgRow"
  have clash: "unclashed (moved oldUUID ''p2'' (e_now failingEnv) (sv_db defaultServer))"
    by (simp add: unclashed_def moved_def defaultServer_def samplePackageServer_eq empty_db_def)
  have faults: "\<not> e_UseSecretService failingEnv" "\<forall>n < 4. \<not> e_fault failingEnv n" "e_fault failingEnv 4"
    by (simp_all add: failingEnv_def sampleEnv_def)
  obtain e srv1 where run: "runMigration failingEnv ''p2'' defaultServer = (Inl e, srv1)"
    "db_ok (sv_db defaultServer) \<and> ''p2'' \<noteq> oldUUID \<and>
       (\<exists>k \<in> set (t_deployment_packages (sv_db defaultServer)). kdb_ProjectUUID k = oldUUID \<and>
          kdb_ID k \<in> fst ` set (t_package_applications (sv_db defaultServer))) \<longrightarrow> \<not> db_ok (sv_db srv1)"
    using failed_migration_is_not_undone [OF faults clash] by (elim exE conjE) (rule that)
  have k: "?k \<in> set (t_deployment_packages (sv_db defaultServer))"
    "(kdb_ID ?k, adb_ID sampleAppRow) \<in> set (t_package_applications (sv_db defaultServer))" "kdb_ProjectUUID ?k = oldUUID"
    by (simp_all add: defaultServer_def moved_def samplePackageServer_eq empty_db_def samplePkgRow_def newPackageRow_def movedTo_def)
  have "kdb_ID ?k \<in> fst ` set (t_package_applications (sv_db defaultServer))"
    by (rule image_eqI [OF _ k(2)]) (rule fst_conv [symmetric])
  with k(1,3) have "\<exists>k \<in> set (t_deployment_packages (sv_db defaultServer)). kdb_ProjectUUID k = oldUUID \<and>
      kdb_ID k \<in> fst ` set (t_package_applications (sv_db defaultServer))" by blast
  with run defaultServer_ok show ?thesis by (simp add: oldUUID_def)
qed

section \<open>The secrets\<close>

text \<open>What the move of one secret does, when no call fails.\<close>

definition moveSecret :: "string \<Rightarrow> (string \<Rightarrow> string option) \<Rightarrow> RegistryDB \<Rightarrow> string \<Rightarrow> string option" where
  "moveSecret newUUID V r =
     (case V (MakeSecretPath (rdb_ProjectUUID r) (rdb_Name r)) of
        None \<Rightarrow> V
      | Some v \<Rightarrow> (V(MakeSecretPath newUUID (rdb_Name r) \<mapsto> v))(MakeSecretPath (rdb_ProjectUUID r) (rdb_Name r) := None))"

lemma migrateSecret_vault:
  assumes "migrateSecret newUUID r t = (x, t1)" and "\<And>n. \<not> tx_fault t n"
  shows "tx_vault t1 = moveSecret newUUID (tx_vault t) r"
  using assms
  by (auto simp: migrateSecret_def moveSecret_def ReadSecret_def WriteSecret_def DeleteSecret_def external_def bnd_def ret_def Let_def
      split: option.splits if_splits)

lemma migrateSecrets_vault:
  assumes "forM rs (migrateSecret newUUID) t = (x, t1)" and "\<And>n. \<not> tx_fault t n"
  shows "tx_vault t1 = foldl (moveSecret newUUID) (tx_vault t) rs"
  using assms
proof (induction rs arbitrary: t)
  case Nil
  then show ?case by (simp add: ret_def)
next
  case (Cons r rs)
  obtain y t2 where step: "migrateSecret newUUID r t = (y, t2)" by fastforce
  note keeps = migrateSecret_keeps [OF step]
  with step Cons.prems have "forM rs (migrateSecret newUUID) t2 = (x, t1)" by (simp add: bnd_def)
  from Cons.IH [OF this] keeps(4) Cons.prems(2) migrateSecret_vault [OF step] show ?case by simp
qed

text \<open>Registries of one project with different names, which the validator accepts, have different secrets.\<close>

lemma moveSecret_others:
  assumes "MatchString namePattern (rdb_Name r)" and "MatchString namePattern name" and "name \<noteq> rdb_Name r"
  shows "moveSecret newUUID V r (MakeSecretPath p name) = V (MakeSecretPath p name)"
  using assms MakeSecretPath_inj [of p name newUUID "rdb_Name r"] MakeSecretPath_inj [of p name "rdb_ProjectUUID r" "rdb_Name r"]
  by (auto simp: moveSecret_def split: option.splits)

lemma moveSecrets_others:
  assumes "\<And>r. r \<in> set rs \<Longrightarrow> MatchString namePattern (rdb_Name r) \<and> rdb_Name r \<noteq> name" and "MatchString namePattern name"
  shows "foldl (moveSecret newUUID) V rs (MakeSecretPath p name) = V (MakeSecretPath p name)"
  using assms(1)
proof (induction rs arbitrary: V)
  case Nil
  then show ?case by simp
next
  case (Cons r rs)
  then have "MatchString namePattern (rdb_Name r)" "name \<noteq> rdb_Name r" by auto
  from Cons.IH [of "moveSecret newUUID V r"] Cons.prems moveSecret_others [OF this(1) assms(2) this(2)] show ?case by simp
qed

lemma moveSecrets_at:
  assumes "r \<in> set rs" and "distinct (map rdb_Name rs)" and "\<And>q. q \<in> set rs \<Longrightarrow> MatchString namePattern (rdb_Name q)"
    and "V (MakeSecretPath (rdb_ProjectUUID r) (rdb_Name r)) = Some v" and "newUUID \<noteq> rdb_ProjectUUID r"
  shows "foldl (moveSecret newUUID) V rs (MakeSecretPath newUUID (rdb_Name r)) = Some v"
    and "foldl (moveSecret newUUID) V rs (MakeSecretPath (rdb_ProjectUUID r) (rdb_Name r)) = None"
proof -
  obtain xs ys where rs: "rs = xs @ r # ys" using assms(1) by (meson split_list)
  let ?W = "foldl (moveSecret newUUID) V xs"
  have name: "MatchString namePattern (rdb_Name r)" using assms(1,3) by simp
  have others: "\<And>q. q \<in> set xs \<Longrightarrow> MatchString namePattern (rdb_Name q) \<and> rdb_Name q \<noteq> rdb_Name r"
    "\<And>q. q \<in> set ys \<Longrightarrow> MatchString namePattern (rdb_Name q) \<and> rdb_Name q \<noteq> rdb_Name r"
    using assms(2,3) by (auto simp: rs image_iff)
  have before: "?W (MakeSecretPath p (rdb_Name r)) = V (MakeSecretPath p (rdb_Name r))" for p
    by (rule moveSecrets_others) (use others(1) name in auto)
  have behind: "foldl (moveSecret newUUID) V rs (MakeSecretPath p (rdb_Name r)) = moveSecret newUUID ?W r (MakeSecretPath p (rdb_Name r))" for p
    unfolding rs foldl_append foldl.simps by (rule moveSecrets_others) (use others(2) name in auto)
  have "MakeSecretPath newUUID (rdb_Name r) \<noteq> MakeSecretPath (rdb_ProjectUUID r) (rdb_Name r)"
    using MakeSecretPath_inj [OF _ name name] assms(5) by blast
  then show "foldl (moveSecret newUUID) V rs (MakeSecretPath newUUID (rdb_Name r)) = Some v"
    and "foldl (moveSecret newUUID) V rs (MakeSecretPath (rdb_ProjectUUID r) (rdb_Name r)) = None"
    unfolding behind by (simp_all add: moveSecret_def before assms(4))
qed

lemma migrate_vault:
  assumes "migrate env newUUID t = (Inr u, t1)" and "e_UseSecretService env" and "\<And>n. \<not> tx_fault t n"
  shows "tx_vault t1 = foldl (moveSecret newUUID) (tx_vault t) (List.filter (\<lambda>r. rdb_ProjectUUID r = oldUUID) (t_registries (tx_db t)))"
proof -
  obtain t4 t5 t6 where login: "orRawError SecretServiceFactory (tick t) = (Inr (), t4)"
    and each: "forM (List.filter (\<lambda>r. rdb_ProjectUUID r = oldUUID) (t_registries (tx_db t))) (migrateSecret newUUID) t4 = (Inr (), t5)"
    and rest: "bnd (orRawError (mutate (moveRegistryRows oldUUID newUUID))) (\<lambda>_. bnd (migrateArtifacts newUUID)
      (\<lambda>_. bnd (migrateApplications newUUID) (\<lambda>_. migratePackages newUUID))) t5 = (Inr (), t1)"
    using assms(1,2) by (auto simp: migrate_def migrateRegistries_def bnd_Inr orRawError_query_Inr q_all_def)
  have "tx_vault t4 = tx_vault t" "tx_fault t4 = tx_fault t"
    using login by (auto simp: orRawError_def SecretServiceFactory_def external_def bnd_def ret_def throw_def Let_def split: if_splits)
  moreover have "tx_vault t1 = tx_vault t5"
    using rest by (auto simp: migrateArtifacts_def migrateApplications_def migratePackages_def bnd_Inr orRawError_mutate_Inr)
  ultimately show ?thesis using migrateSecrets_vault [OF each] assms(3) by simp
qed

text \<open>
  C19. When no call fails, a successful migration moves the secret of every registry of the default project to the path of
  its new project: the value is there, and nothing is left at the old path.
\<close>

theorem migration_moves_the_secrets:
  assumes "runMigration env newUUID srv = (Inr (), srv1)" and "e_UseSecretService env" and "\<And>n. \<not> e_fault env n"
    and "newUUID \<noteq> oldUUID" and "db_ok (sv_db srv)"
    and "\<And>q. q \<in> set (t_registries (sv_db srv)) \<Longrightarrow> MatchString namePattern (rdb_Name q)"
    and "r \<in> set (t_registries (sv_db srv))" and "rdb_ProjectUUID r = oldUUID"
    and "sv_vault srv (MakeSecretPath oldUUID (rdb_Name r)) = Some v"
  shows "sv_vault srv1 (MakeSecretPath newUUID (rdb_Name r)) = Some v \<and> sv_vault srv1 (MakeSecretPath oldUUID (rdb_Name r)) = None"
proof -
  let ?rs = "List.filter (\<lambda>r. rdb_ProjectUUID r = oldUUID) (t_registries (sv_db srv))"
  obtain t t1 where run: "startTransaction env srv = (Inr t, srv\<lparr>sv_open := Suc (sv_open srv)\<rparr>)" "migrate env newUUID t = (Inr (), t1)"
    "sv_vault srv1 = tx_vault t1"
    by (rule runMigration_Inr [OF assms(1)]) (rule that)
  have t: "tx_db t = sv_db srv" "tx_vault t = sv_vault srv" "tx_fault t = e_fault env" using startTransaction_Inr [OF run(1)] by simp_all
  have v: "sv_vault srv1 = foldl (moveSecret newUUID) (sv_vault srv) ?rs"
    using migrate_vault [OF run(2) assms(2)] run(3) t assms(3) by simp
  have "distinct (map registryKey (t_registries (sv_db srv)))" using assms(5) by (simp add: db_ok_iff keys_ok_def keyed_def)
  then have "inj_on registryKey (set (t_registries (sv_db srv)))" "distinct (t_registries (sv_db srv))" by (simp_all add: distinct_map)
  then have names: "distinct (map rdb_Name ?rs)"
    by (auto simp: distinct_map inj_on_def registryKey_def)
  have "r \<in> set ?rs" using assms(7,8) by simp
  from moveSecrets_at [OF this names, where V = "sv_vault srv" and v = v and newUUID = newUUID] assms(4,6,8,9) show ?thesis by (simp add: v)
qed

text \<open>A migration to the default project itself loses the secrets: what was written is deleted.\<close>

lemma migration_to_the_default_project_loses_secrets:
  assumes "rdb_ProjectUUID r = oldUUID"
  shows "moveSecret oldUUID V r (MakeSecretPath oldUUID (rdb_Name r)) = None"
  using assms by (auto simp: moveSecret_def split: option.splits)

definition secretEnv :: env where
  "secretEnv = sampleEnv\<lparr>e_UseSecretService := True\<rparr>"

definition secretServer :: server where
  "secretServer = defaultServer\<lparr>sv_vault := Map.empty(MakeSecretPath oldUUID ''r1'' \<mapsto> ''c2VjcmV0'')\<rparr>"

theorem migration_moves_the_secrets_witness:
  "\<exists>srv1. runMigration secretEnv ''p2'' secretServer = (Inr (), srv1) \<and>
     sv_vault srv1 (MakeSecretPath ''p2'' ''r1'') = Some ''c2VjcmV0'' \<and> sv_vault srv1 (MakeSecretPath oldUUID ''r1'') = None"
proof -
  let ?r = "moveRegistry ''p1'' oldUUID 7 sampleRow"
  have name: "rdb_Name sampleRow = ''r1''" "rdb_ProjectUUID sampleRow = ''p1''"
    by (simp_all add: sampleRow_def newRegistryRow_def sampleRegistry_def)
  have rows: "t_registries (sv_db secretServer) = [?r]"
    by (simp add: secretServer_def defaultServer_def moved_def samplePackageServer_eq empty_db_def)
  have valid: "MatchString namePattern ''r1''"
    by (simp add: MatchString_name nameChar_def lowerAlnum_def charIn_def del: MatchString.simps)
  obtain srv1 where run: "runMigration secretEnv ''p2'' secretServer = (Inr (), srv1)"
    by (simp add: migration_eval transaction_eval monad_eval secretEnv_def sampleEnv_def secretServer_def defaultServer_def moved_def
        samplePackageServer_eq Register_def empty_db_def Let_def q_all_def migrateSecret_def MakeSecretPath_def name oldUUID_def movedTo_def)
  have "db_ok (sv_db secretServer)" using defaultServer_ok by (simp add: secretServer_def)
  from migration_moves_the_secrets [OF run _ _ _ this, of ?r "''c2VjcmV0''"] run rows valid name show ?thesis
    by (auto simp: secretEnv_def sampleEnv_def oldUUID_def movedTo_def secretServer_def)
qed

end
