(* ===== verification/Spec2Isabelle.thy ===== *)
theory Spec2Isabelle
  imports Registry_Properties Utility_Properties Artifact_Properties Application_Properties Package_Properties
    Upload_Properties Server_Properties Scanner_Properties Tool_Properties Proxy_Properties Vault_Properties Wiper_Termination
    Rest_Wiper Migration_Properties
begin

text \<open>
  \<^bold>\<open>The application catalog.\<close> The program is a gRPC service that keeps registries, artifacts, applications
  with their profiles, and deployment packages per project, in a relational database reached through
  the \<^verbatim>\<open>ent\<close> layer, with the credentials of registries in a secret service and policy decisions
  asked of a policy agent. A handler (\<^verbatim>\<open>internal/northbound\<close>) finds the active project, validates the
  message, asks the agent, runs one transaction, and after the commit sends the events it queued to the
  listeners of the watch calls.

  \<^bold>\<open>Theories and code.\<close>
  \<^item> \<open>Catalog_Prelude\<close>: Go's string functions and the state-and-error monad of the helpers that take a transaction.
  \<^item> \<open>Go_Errors\<close>: \<^verbatim>\<open>northbound/errors/errors.go\<close>.
  \<^item> \<open>Catalog_Api\<close>: the messages of \<^verbatim>\<open>pkg/api/catalog/v3\<close> as records.
  \<^item> \<open>Service_Utils\<close>: \<^verbatim>\<open>northbound/service.go\<close> (active project, ordering, filters, pages, display names) and the
    kinds of \<^verbatim>\<open>application.go\<close>.
  \<^item> \<open>Event_Listeners\<close>: \<^verbatim>\<open>events.go\<close> and \<^verbatim>\<open>listeners.go\<close>; the locale \<open>event_fanout\<close> states what a listener
    table promises and is interpreted on the four tables.
  \<^item> \<open>Catalog_DB\<close>: the schema (\<^verbatim>\<open>internal/ent/schema\<close>, \<^verbatim>\<open>migrate/schema.go\<close>) as lists of rows, and each mutation with
    its unique index and the actions of its foreign keys.
  \<^item> \<open>Transactions\<close>: the server, its transactions, calls that can fail, \<^verbatim>\<open>authorization.go\<close>.
  \<^item> \<open>Validation\<close>: the rules of \<^verbatim>\<open>resources.pb.validate.go\<close> with a matcher for their regular expressions.
  \<^item> \<open>Catalog_Invariant\<close>: the invariant \<open>db_ok\<close> of the tables, that every mutation keeps it, and a small calculus of
    pre- and postconditions.
  \<^item> \<open>Handler_Shape\<close>: the contract of a handler as locales (\<open>transaction_handler\<close>, \<open>reading_handler\<close>,
    \<open>watch_handler\<close>), interpreted on every handler in its own theory.
  \<^item> \<open>Package_Invariant\<close>: the part of the invariant about deployment packages, and that every mutation of them keeps it
    while the parts of one package are being replaced; \<open>Package_Validation\<close>: the rules of their messages.
  \<^item> \<open>Registry_Service\<close>, \<open>Artifact_Service\<close>, \<open>Profile_Service\<close>, \<open>Application_Service\<close>,
    \<open>Deployment_Profile_Service\<close>: the files of the same names.
  \<^item> \<open>Deployment_Package_Service\<close>, \<open>Deployment_Package_Update\<close>, \<open>Deployment_Package_Handlers\<close>:
    \<^verbatim>\<open>deployment-package.go\<close>, creation and extraction, what an update compares and replaces, the handlers.
  \<^item> \<open>Upload_Schema\<close>: the YAML documents and their order, \<^verbatim>\<open>pkg/schema/upload/schema.go\<close>; \<open>Upload_Service\<close>:
    \<^verbatim>\<open>upload.go\<close>, sessions, file sets and the loading of documents with the operations of the other services.
  \<^item> \<open>Malware_Scanner\<close>: \<^verbatim>\<open>pkg/malware/malware.go\<close>, the stream sent to the daemon and the retries.
  \<^item> \<open>Helm_Charts\<close>: \<^verbatim>\<open>internal/helm/oci.go\<close>; \<open>Package_Generator\<close>: \<^verbatim>\<open>internal/dp/dp.go\<close>.
  \<^item> \<open>Rest_Proxy\<close>: the hand-written handlers of \<^verbatim>\<open>internal/restproxy\<close>, uploads of forms, lists of charts and event
    sessions; they call the handlers of the catalog.
  \<^item> \<open>Vault_Client\<close>: \<^verbatim>\<open>vault.go\<close>, the client of the secret service; the interface \<^verbatim>\<open>SecretService\<close> as the locale
    \<open>secret_service\<close>, interpreted on the operations of a transaction and, in \<open>Vault_Properties\<close>, on the client with the HTTP
    server of its tests.
  \<^item> \<open>Wiper\<close>, \<open>Rest_Wiper\<close>: \<^verbatim>\<open>pkg/wiper\<close>, the clients that empty a project, over gRPC and over REST. \<open>Wiper_Loops\<close>: their
    loops over pages and the locale \<open>wiping\<close>, the contract of one kind of entity; \<open>Wiper_Contract\<close>: its interpretation on
    the listings and deletions of the four kinds; \<open>Wiper_Preparation\<close>: what the update of a package keeps of the tables.
  \<^item> \<open>Migration\<close>: \<^verbatim>\<open>internal/manager/migration.go\<close>, the move of the default project to another one at the start.
  \<^item> \<open>Catalog_Server\<close>: a call as a step of the server and the servers reached by runs.
  \<^item> \<open>Sample_Environment\<close>, \<open>Sample_Package\<close>: a concrete environment, requests and the servers they lead to.
  \<^item> \<open>Registry_Properties\<close>, \<open>Artifact_Properties\<close>, \<open>Application_Properties\<close>, \<open>Package_Properties\<close>,
    \<open>Upload_Properties\<close>: the handlers of a component from request to response; \<open>Utility_Properties\<close>: filters, pages,
    names, the check of text and the listener tables; \<open>Server_Properties\<close>: the components together;
    \<open>Scanner_Properties\<close>, \<open>Tool_Properties\<close>, \<open>Proxy_Properties\<close>: the scanner with the creation of artifacts, the
    tools with the validators, and the proxy with the uploads; \<open>Vault_Properties\<close>: the client of the secret service with the
    secrets of the transactions; \<open>Wiper_Properties\<close>, \<open>Wiper_Termination\<close>: what the wiper leaves and when it returns;
    \<open>Migration_Properties\<close>: that a migration keeps the invariant and the secrets, and that a failing one is not undone.

  \<^bold>\<open>State and environment.\<close> The record \<open>server\<close> has the committed tables, the secrets, the listeners, the upload
  sessions, the number of transactions not ended and what was sent to each channel; \<open>tx\<close> is a running transaction.
  Code outside the repository is a field of the record \<open>env\<close>: the policy agent, the encoder of secrets, the certificate
  file, the malware scanner, the decoders of JSON, YAML and images, the database's LIKE and collation, the order of Go's
  map iteration, the time; for uploads the reader of gzip and tar archives, the decoder of YAML documents, the validator of
  the JSON schema, base64, the new session identifier, the printed form of errors and the sorting of more than
  twelve documents (shorter lists are sorted by insertion, as \<^verbatim>\<open>sort.Sort\<close> does); and \<open>e_fault\<close>, which says which of
  the calls of a handler to the database and to the secret service fail. Every property holds for all environments
  unless it says otherwise; what the uploads rely on is the predicate \<open>soundUploads\<close>: sorting
  gives a permutation, and a file that passes the JSON schema gives its registries a type. The order of documents relies besides
  on what \<^verbatim>\<open>sort.Sort\<close> documents for a transitive ordering, \<open>sorts\<close>. The network of the scanner's
  client (\<open>attempt\<close>), the client of OCI registries (\<open>oras\<close>), the file system and YAML encoders of the generator
  (\<open>tool\<close>), the HTTP side of the proxy (\<open>proxy\<close>, \<open>harbor\<close>), the secret service behind its client (\<open>vault\<close>) and the
  client of the REST wiper (\<open>restClient\<close>) are records of their own.

  \<^bold>\<open>What is shown.\<close> This theory: the invariant of the tables in every reachable server, that a failing call leaves
  them, the listeners and the streams alone, but for the listener a failed watch leaves behind, that a call without permission is refused before it does anything, and
  which calls end their transaction. \<open>Server_Properties\<close>: that creations reach their watchers, that a replay is bounded,
  that reading calls change nothing and that applications have registries of the right type. The other property theories:
  what the operations of a component do, on success and on each refusal, round trips from creation to reading, the protection
  of what is deployed or referred to, the order and bounds of uploads, that the daemon is sent the payload and decides
  about it, what the tools generate, the sessions of the proxy, that the client of the secret service refines the secrets of the
  transactions, and that a wiper without errors leaves nothing of the project it was asked to wipe.

  \<^bold>\<open>Not modelled.\<close> The gateway, middleware and socket loops of the REST proxy; the command lines; start-up,
  configuration and the migrations of the schema: they are calls of libraries around the parts modelled here. The JSON schema validator and
  its generator, which rest on a library of schemas. Generated code other than the validators and the database
  schema: the stubs, the REST client and the query builders, of which the handlers' calls are modelled.
  In an event session a cancellation does not end its watch at once: the end is a signal of its own, and events can be
  relayed until then.
  Calls run one after the other: the interleaving of concurrent transactions is left to the database, and the locks of
  listeners and sessions have no counterpart. There is no fuel: every definition is total but for the loops of the wipers over
  the pages of a listing, partial functions whose value is \<open>None\<close> when they do not end.
\<close>

section \<open>The invariant of the tables\<close>

text \<open>
  C1. In every server reached from the start by any sequence of calls, whatever their requests, answers of
  the policy agent and faults, the tables are well-formed: keys are distinct and below the next one, names are
  unique in their project, every reference leads to a row, the helm and image registries of an
  application have the types HELM and IMAGE, a package draws its applications and artifacts from its own project,
  and its dependencies and default namespaces are between applications it refers to. Two things are relied on, for uploads
  alone: that sorting gives a permutation, and that a file which passes the JSON schema gives a registry the
  type HELM or IMAGE.
\<close>

theorem reachable_db_ok: "reachable srv \<Longrightarrow> db_ok (sv_db srv)"
  by (rule reachable_ok)

theorem reachable_db_ok_witness: "reachable sampleServer \<and> db_ok (sv_db sampleServer)"
  using reachable_db_ok [OF sampleServer_reachable] sampleServer_reachable by simp

section \<open>Failing calls\<close>

text \<open>
  The listeners that a watch registers before it commits the transaction of its replay. The removal is deferred only
  after the commit, so a watch whose commit fails leaves them behind.
\<close>

fun watchListeners :: "call \<Rightarrow> EventListeners \<Rightarrow> EventListeners" where
  "watchListeners (CallWatchRegistries env (Some q) st ch) ls = addRegistryListener ch q ls"
| "watchListeners (CallWatchArtifacts env (Some q) st ch) ls = addArtifactListener ch q ls"
| "watchListeners (CallWatchApplications env (Some q) st ch) ls = addApplicationListener ch q ls"
| "watchListeners (CallWatchDeploymentPackages env (Some q) st ch) ls = addDeploymentPackageListener ch q ls"
| "watchListeners _ ls = ls"

lemma watch_error_public:
  "WatchRegistries env q1 st1 ch srv = (r, sent1, srv') \<Longrightarrow>
     \<exists>ls \<in> {sv_listeners srv, watchListeners (CallWatchRegistries env q1 st1 ch) (sv_listeners srv)}.
       public srv' = public (srv\<lparr>sv_listeners := ls\<rparr>)"
  "WatchArtifacts env q2 st2 ch srv = (r, sent2, srv') \<Longrightarrow>
     \<exists>ls \<in> {sv_listeners srv, watchListeners (CallWatchArtifacts env q2 st2 ch) (sv_listeners srv)}.
       public srv' = public (srv\<lparr>sv_listeners := ls\<rparr>)"
  "WatchApplications env q3 st3 ch srv = (r, sent3, srv') \<Longrightarrow>
     \<exists>ls \<in> {sv_listeners srv, watchListeners (CallWatchApplications env q3 st3 ch) (sv_listeners srv)}.
       public srv' = public (srv\<lparr>sv_listeners := ls\<rparr>)"
  "WatchDeploymentPackages env q4 st4 ch srv = (r, sent4, srv') \<Longrightarrow>
     \<exists>ls \<in> {sv_listeners srv, watchListeners (CallWatchDeploymentPackages env q4 st4 ch) (sv_listeners srv)}.
       public srv' = public (srv\<lparr>sv_listeners := ls\<rparr>)"
  using watch_registries.watch_streams [of env q1 st1 ch srv r sent1 srv'] watch_registries.watch_listeners [of env q1 st1 ch srv r sent1 srv']
  apply (auto simp: public_def)[1]
  using watch_artifacts.watch_streams [of env q2 st2 ch srv r sent2 srv'] watch_artifacts.watch_listeners [of env q2 st2 ch srv r sent2 srv']
  apply (auto simp: public_def)[1]
  using watch_applications.watch_streams [of env q3 st3 ch srv r sent3 srv'] watch_applications.watch_listeners [of env q3 st3 ch srv r sent3 srv']
  apply (auto simp: public_def)[1]
  using watch_packages.watch_streams [of env q4 st4 ch srv r sent4 srv'] watch_packages.watch_listeners [of env q4 st4 ch srv r sent4 srv']
  by (auto simp: public_def)

text \<open>
  C2. A call that returns an error leaves the tables and everything sent to the listeners as they were, and
  the listeners too, but for one case: a watch can leave behind the listener it registered, and nothing else.
\<close>

theorem failed_call_changes_nothing:
  assumes "serve c srv = (Some e, srv')"
  shows "(\<exists>ls \<in> {sv_listeners srv, watchListeners c (sv_listeners srv)}. public srv' = public (srv\<lparr>sv_listeners := ls\<rparr>)) \<and>
    (\<not> isWatch c \<longrightarrow> public srv' = public srv)"
proof
  show "\<not> isWatch c \<longrightarrow> public srv' = public srv" using assms serve_error_public by blast
  show "\<exists>ls \<in> {sv_listeners srv, watchListeners c (sv_listeners srv)}. public srv' = public (srv\<lparr>sv_listeners := ls\<rparr>)"
  proof (cases "isWatch c")
    case True
    with assms show ?thesis
      by (cases c) (auto simp: replyWatch_eq simp del: watchListeners.simps dest!: watch_error_public)
  next
    case False
    with assms serve_error_public have "public srv' = public (srv\<lparr>sv_listeners := sv_listeners srv\<rparr>)" by simp
    then show ?thesis by blast
  qed
qed

text \<open>
  A creation whose commit fails, after the row was written, a second creation of the same registry, and a watch whose
  commit fails, which leaves its listener.
\<close>

definition faultAt :: "nat \<Rightarrow> env" where
  "faultAt k = sampleEnv\<lparr>e_fault := (\<lambda>n. n = k)\<rparr>"

definition replayRequest :: WatchRegistriesRequest where
  "replayRequest = \<lparr>wr_ProjectId = ''p1'', wr_NoReplay = False, wr_ShowSensitiveInfo = False\<rparr>"

definition watchCall :: call where
  "watchCall = CallWatchRegistries (faultAt 2) (Some replayRequest) (Some (sampleCtx, \<lambda>_. None)) 5"

lemma faultAt_commit:
  "CreateRegistry (faultAt 3) sampleCtx (Some sampleRegistry) Register = (Inl (dbError EntFailure), Register)"
proof -
  have "authCheckAllowed (faultAt 3) ctx r n = Inr ()" for ctx r n
    by (simp add: authCheckAllowed_def faultAt_def sampleEnv_def)
  then show ?thesis
    by (simp add: CreateRegistry_def sampleProject sampleRegistry_valid)
      (simp add: transaction_eval monad_eval registry_eval sample_eval faultAt_def)
qed

lemma sampleCreate_again: "\<exists>e. CreateRegistry sampleEnv sampleCtx (Some sampleRegistry) sampleServer = (Inl e, sampleServer)"
  unfolding sampleServer_eq
  by (simp add: CreateRegistry_def sampleProject sampleRegistry_valid sampleAuth)
    (simp add: transaction_eval monad_eval registry_eval sample_eval sampleRow_def)

lemma watchCall_fails:
  "\<exists>e srv'. serve watchCall Register = (Some e, srv') \<and> map fst (registryListeners (sv_listeners srv')) = [5]"
proof -
  have "case serve watchCall Register of (Some e, srv') \<Rightarrow> map fst (registryListeners (sv_listeners srv')) = [5] | _ \<Rightarrow> False"
    by code_simp
  then show ?thesis by (auto split: prod.splits option.splits)
qed

theorem failed_call_changes_nothing_witness:
  "(\<exists>e srv'. serve (CallCreateRegistry (faultAt 3) sampleCtx (Some sampleRegistry)) Register = (Some e, srv') \<and>
     public srv' = public Register) \<and>
   (\<exists>e srv'. serve (CallCreateRegistry sampleEnv sampleCtx (Some sampleRegistry)) sampleServer = (Some e, srv') \<and>
     public srv' = public sampleServer) \<and>
   (\<exists>e srv'. serve watchCall Register = (Some e, srv') \<and>
     public srv' = public (Register\<lparr>sv_listeners := addRegistryListener 5 replayRequest NewEventListeners\<rparr>))"
proof (intro conjI)
  have c: "serve (CallCreateRegistry (faultAt 3) sampleCtx (Some sampleRegistry)) Register = (Some (dbError EntFailure), Register)"
    by (simp add: faultAt_commit reply_def)
  with failed_call_changes_nothing [OF c] show "\<exists>e srv'. serve (CallCreateRegistry (faultAt 3) sampleCtx (Some sampleRegistry)) Register =
      (Some e, srv') \<and> public srv' = public Register" by auto
  obtain e where d: "serve (CallCreateRegistry sampleEnv sampleCtx (Some sampleRegistry)) sampleServer = (Some e, sampleServer)"
    using sampleCreate_again by (auto simp: reply_def)
  with failed_call_changes_nothing [OF d] show "\<exists>e srv'. serve (CallCreateRegistry sampleEnv sampleCtx (Some sampleRegistry)) sampleServer =
      (Some e, srv') \<and> public srv' = public sampleServer" by auto
  obtain e' srv' where w: "serve watchCall Register = (Some e', srv')" "map fst (registryListeners (sv_listeners srv')) = [5]"
    using watchCall_fails by (elim exE conjE) (rule that)
  have "watchListeners watchCall (sv_listeners Register) = addRegistryListener 5 replayRequest (sv_listeners Register)"
    by (simp add: watchCall_def)
  with failed_call_changes_nothing [OF w(1)] obtain ls where
    ls: "ls = sv_listeners Register \<or> ls = addRegistryListener 5 replayRequest (sv_listeners Register)"
    "public srv' = public (Register\<lparr>sv_listeners := ls\<rparr>)" by (elim conjE bexE) auto
  from ls(2) w(2) have "map fst (registryListeners ls) = [5]" by (simp add: public_def)
  with ls(1) have "ls = addRegistryListener 5 replayRequest NewEventListeners" by (auto simp: Register_def NewEventListeners_def)
  with ls(2) w(1) show "\<exists>e srv'. serve watchCall Register = (Some e, srv') \<and>
      public srv' = public (Register\<lparr>sv_listeners := addRegistryListener 5 replayRequest NewEventListeners\<rparr>)" by blast
qed

section \<open>Authorization\<close>

text \<open>
  C3. A call whose request the policy agent does not allow, or that carries no request to ask about, returns an
  error and leaves the whole server, secrets and open transactions included, as it was.
\<close>

theorem unauthorized_call_rejected:
  assumes "callCheck c \<noteq> Some (Inr ())" and "\<not> isEnd c"
  shows "\<exists>e. serve c srv = (Some e, srv)"
  using assms by (rule serve_unauthorized)

definition denyEnv :: env where
  "denyEnv = sampleEnv\<lparr>e_opa := Some (\<lambda>request name md. OpaBool False)\<rparr>"

theorem unauthorized_call_rejected_witness:
  "\<exists>e. serve (CallDeleteRegistry denyEnv sampleCtx ''r1'') sampleServer = (Some e, sampleServer)"
  by (rule unauthorized_call_rejected) (simp_all add: authCheckAllowed_def denyEnv_def sampleEnv_def sampleCtx_def)

section \<open>Open transactions\<close>

text \<open>
  C28. A call that succeeds leaves no transaction open, and so does every call, failing or not, of the handlers that
  roll back on each of their error paths.
\<close>

theorem call_ends_transaction:
  assumes "serve c srv = (r, srv')" and "r = None \<or> endsTransaction c"
  shows "sv_open srv' = sv_open srv"
  using assms serve_success_open serve_ends_transaction by blast

theorem call_ends_transaction_witness:
  "serve (CallCreateRegistry sampleEnv sampleCtx (Some sampleRegistry)) Register = (None, sampleServer) \<and>
   sv_open sampleServer = 0"
proof -
  have s: "serve (CallCreateRegistry sampleEnv sampleCtx (Some sampleRegistry)) Register = (None, sampleServer)"
    by (simp add: sampleCreate reply_def)
  with call_ends_transaction [OF s] show ?thesis by (simp add: Register_def)
qed

text \<open>
  The creation of an artifact does not: whenever its transaction starts and its body fails, the error is
  returned and the transaction stays open.
\<close>

theorem failed_creation_leaks:
  assumes "admitsCreateArtifact env ctx artifact (p, art)" and "startTransaction env srv = (Inr t, srv1)"
    and "createArtifact env p art t = (Inl e, t1)"
  shows "\<exists>srv'. CreateArtifact env ctx artifact srv = (Inl e, srv') \<and> sv_open srv' = Suc (sv_open srv)"
  using assms startTransaction_Inr [OF assms(2)]
  by (auto simp: CreateArtifact_def admitsCreateArtifact_def abandonTransaction_def)

definition spacedArtifact :: Artifact where
  "spacedArtifact = sampleArtifact\<lparr>art_DisplayName := '' x''\<rparr>"

lemma spacedArtifact_valid: "Artifact_Validate spacedArtifact = None"
  unfolding Artifact_Validate_def firstFailure_None spacedArtifact_def sampleArtifact_def
  by (simp add: validation_eval printable_def del: MatchString.simps lit.simps)

theorem failed_creation_leaks_witness:
  "\<exists>e srv'. CreateArtifact sampleEnv sampleCtx (Some spacedArtifact) Register = (Inl e, srv') \<and> sv_open srv' = 1"
proof -
  have a: "admitsCreateArtifact sampleEnv sampleCtx (Some spacedArtifact) (''p1'', spacedArtifact)"
    by (simp add: admitsCreateArtifact_def sampleProject sampleAuth spacedArtifact_valid)
  obtain t where t: "startTransaction sampleEnv Register = (Inr t, Register\<lparr>sv_open := 1\<rparr>)"
    by (auto simp: startTransaction_def sampleEnv_def Register_def)
  obtain e t1 where "createArtifact sampleEnv ''p1'' spacedArtifact t = (Inl e, t1)"
    by (auto simp: createArtifact_def spacedArtifact_def sampleArtifact_def validateDisplayName_def TrimSpace_def
      trimBoth_def go_space_def throw_def)
  from failed_creation_leaks [OF a t this] show ?thesis by (auto simp: Register_def)
qed

end
